(* ===== verification/Prelude.thy ===== *)
theory Prelude
  imports
    Complex_Main
    "HOL-Library.List_Lexorder"
    "HOL-Library.Char_ord"
    "HOL-Library.Product_Lexorder"
    "HOL-Library.AList"
begin

section \<open>Prelude: results, effects and association lists\<close>

text \<open>
  What every component shares. A Go function that may fail and has effects is a function
  \<open>'w \<Rightarrow> ('e + 'a) \<times> 'w\<close>: it takes the world, and returns either the error or the
  value together with the new world. \<open>returnE\<close>, \<open>throwE\<close>, \<open>bindE\<close> sequence such
  functions the way \<open>if err != nil { return err }\<close> does; \<open>wrapE\<close> is the
  \<open>fmt.Errorf("...: %w", err)\<close> around a call. \<open>keeps\<close> says that a program preserves a
  state predicate whatever it returns, \<open>relates\<close> that it relates the worlds before and
  after; both have composition rules collected in \<open>keeps_rules\<close> and \<open>relates_rules\<close>,
  so that an invariant of a use case follows from those of its calls.
  Go maps that the code iterates over are association lists (\<open>HOL-Library.AList\<close>).
\<close>

named_theorems keeps_rules \<open>composition rules for invariants of effectful programs\<close>
named_theorems relates_rules \<open>composition rules for before/after relations of effectful programs\<close>
named_theorems effect_simps \<open>unfolding of the effect combinators\<close>

type_synonym ('w, 'e, 'a) prog = "'w \<Rightarrow> ('e + 'a) \<times> 'w"

subsection \<open>Results without effects\<close>

definition bindS :: "'e + 'a \<Rightarrow> ('a \<Rightarrow> 'e + 'b) \<Rightarrow> 'e + 'b" where
  "bindS r f = (case r of Inl e \<Rightarrow> Inl e | Inr x \<Rightarrow> f x)"

lemma bindS_simps [simp]: "bindS (Inl e) f = Inl e" "bindS (Inr x) f = f x"
  by (simp_all add: bindS_def)

lemma bindS_Inr: "bindS r f = Inr y \<longleftrightarrow> (\<exists>x. r = Inr x \<and> f x = Inr y)"
  by (cases r) auto

lemma bindS_Inl: "bindS r f = Inl e \<longleftrightarrow> r = Inl e \<or> (\<exists>x. r = Inr x \<and> f x = Inl e)"
  by (cases r) auto

definition guardS :: "bool \<Rightarrow> 'e \<Rightarrow> 'e + unit" where
  "guardS b e = (if b then Inr () else Inl e)"

lemma guardS_iff [simp]:
  "guardS b e = Inr u \<longleftrightarrow> b" "guardS b e = Inl e' \<longleftrightarrow> \<not> b \<and> e' = e"
  by (auto simp: guardS_def)

fun mapS :: "('a \<Rightarrow> 'e + 'b) \<Rightarrow> 'a list \<Rightarrow> 'e + 'b list" where
  "mapS f [] = Inr []"
| "mapS f (x # xs) = bindS (f x) (\<lambda>y. bindS (mapS f xs) (\<lambda>ys. Inr (y # ys)))"

lemma mapS_Inr: "mapS f xs = Inr ys \<longleftrightarrow> list_all2 (\<lambda>x y. f x = Inr y) xs ys"
proof (induction xs arbitrary: ys)
  case Nil
  then show ?case by auto
next
  case (Cons x xs)
  then show ?case by (auto simp: bindS_Inr list_all2_Cons1)
qed

lemma mapS_length: "mapS f xs = Inr ys \<Longrightarrow> length ys = length xs"
  by (auto simp: mapS_Inr dest: list_all2_lengthD)

lemma mapS_Inl: "mapS f xs = Inl e \<Longrightarrow> \<exists>x \<in> set xs. f x = Inl e"
  by (induction xs) (auto simp: bindS_Inl)

lemma mapS_all: "(\<And>x. x \<in> set xs \<Longrightarrow> f x = Inr (g x)) \<Longrightarrow> mapS f xs = Inr (map g xs)"
  by (induction xs) auto

fun foldS :: "('a \<Rightarrow> 's \<Rightarrow> 'e + 's) \<Rightarrow> 'a list \<Rightarrow> 's \<Rightarrow> 'e + 's" where
  "foldS f [] s = Inr s"
| "foldS f (x # xs) s = bindS (f x s) (foldS f xs)"

lemma foldS_invariant:
  "foldS f xs s = Inr t \<Longrightarrow> I s \<Longrightarrow>
     (\<And>x s t. x \<in> set xs \<Longrightarrow> I s \<Longrightarrow> f x s = Inr t \<Longrightarrow> I t) \<Longrightarrow> I t"
  by (induction xs arbitrary: s) (auto simp: bindS_Inr)

lemma foldS_snoc: "foldS f (xs @ [x]) s = bindS (foldS f xs s) (f x)"
  by (induction xs arbitrary: s) (auto simp: bindS_def split: sum.splits)

lemma foldS_total:
  "(\<And>x s. x \<in> set xs \<Longrightarrow> f x s = Inr (g x s)) \<Longrightarrow> foldS f xs s = Inr (fold g xs s)"
  by (induction xs arbitrary: s) auto

subsection \<open>Effectful programs\<close>

definition returnE :: "'a \<Rightarrow> ('w, 'e, 'a) prog" where
  "returnE x w = (Inr x, w)"

definition throwE :: "'e \<Rightarrow> ('w, 'e, 'a) prog" where
  "throwE e w = (Inl e, w)"

definition liftE :: "'e + 'a \<Rightarrow> ('w, 'e, 'a) prog" where
  "liftE r w = (r, w)"

definition bindE :: "('w, 'e, 'a) prog \<Rightarrow> ('a \<Rightarrow> ('w, 'e, 'b) prog) \<Rightarrow> ('w, 'e, 'b) prog" where
  "bindE m f w = (case m w of (Inl e, w') \<Rightarrow> (Inl e, w') | (Inr x, w') \<Rightarrow> f x w')"

definition catchE :: "('w, 'e, 'a) prog \<Rightarrow> ('e \<Rightarrow> ('w, 'e, 'a) prog) \<Rightarrow> ('w, 'e, 'a) prog" where
  "catchE m h w = (case m w of (Inl e, w') \<Rightarrow> h e w' | (Inr x, w') \<Rightarrow> (Inr x, w'))"

definition wrapE :: "('e \<Rightarrow> 'e) \<Rightarrow> ('w, 'e, 'a) prog \<Rightarrow> ('w, 'e, 'a) prog" where
  "wrapE f m w = (case m w of (Inl e, w') \<Rightarrow> (Inl (f e), w') | (Inr x, w') \<Rightarrow> (Inr x, w'))"

definition getE :: "('w \<Rightarrow> 'a) \<Rightarrow> ('w, 'e, 'a) prog" where
  "getE f w = (Inr (f w), w)"

definition modifyE :: "('w \<Rightarrow> 'w) \<Rightarrow> ('w, 'e, unit) prog" where
  "modifyE f w = (Inr (), f w)"

definition whenE :: "bool \<Rightarrow> ('w, 'e, unit) prog \<Rightarrow> ('w, 'e, unit) prog" where
  "whenE b m = (if b then m else returnE ())"

fun mapE :: "('a \<Rightarrow> ('w, 'e, 'b) prog) \<Rightarrow> 'a list \<Rightarrow> ('w, 'e, 'b list) prog" where
  "mapE f [] = returnE []"
| "mapE f (x # xs) = bindE (f x) (\<lambda>y. bindE (mapE f xs) (\<lambda>ys. returnE (y # ys)))"

fun forE :: "('a \<Rightarrow> ('w, 'e, unit) prog) \<Rightarrow> 'a list \<Rightarrow> ('w, 'e, unit) prog" where
  "forE f [] = returnE ()"
| "forE f (x # xs) = bindE (f x) (\<lambda>_. forE f xs)"

fun foldE :: "('a \<Rightarrow> 's \<Rightarrow> ('w, 'e, 's) prog) \<Rightarrow> 'a list \<Rightarrow> 's \<Rightarrow> ('w, 'e, 's) prog" where
  "foldE f [] s = returnE s"
| "foldE f (x # xs) s = bindE (f x s) (foldE f xs)"

declare returnE_def [effect_simps] throwE_def [effect_simps] liftE_def [effect_simps]
  getE_def [effect_simps] modifyE_def [effect_simps] whenE_def [effect_simps]

lemma bindE_Inr:
  "bindE m f w = (Inr y, w'') \<longleftrightarrow> (\<exists>x w'. m w = (Inr x, w') \<and> f x w' = (Inr y, w''))"
  by (auto simp: bindE_def split: prod.splits sum.splits)

lemma bindE_Inl:
  "bindE m f w = (Inl e, w'') \<longleftrightarrow>
     m w = (Inl e, w'') \<or> (\<exists>x w'. m w = (Inr x, w') \<and> f x w' = (Inl e, w''))"
  by (auto simp: bindE_def split: prod.splits sum.splits)

lemma bindE_step: "m w = (Inr x, w') \<Longrightarrow> bindE m f w = f x w'"
  by (simp add: bindE_def)

lemma bindE_fail: "m w = (Inl e, w') \<Longrightarrow> bindE m f w = (Inl e, w')"
  by (simp add: bindE_def)

lemma bindE_lift [simp]:
  "bindE (returnE x) f = f x"
  "bindE (throwE e) f = throwE e"
  "bindE (liftE (Inl e)) f = throwE e"
  "bindE (liftE (Inr x)) f = f x"
  by (rule ext, simp add: bindE_def effect_simps)+

lemma bindE_get [simp]: "bindE (getE g) f w = f (g w) w"
  by (simp add: bindE_def effect_simps)

lemma bindE_modify [simp]: "bindE (modifyE g) f w = f () (g w)"
  by (simp add: bindE_def effect_simps)

lemma wrapE_Inr [simp]: "wrapE f m w = (Inr x, w') \<longleftrightarrow> m w = (Inr x, w')"
  by (auto simp: wrapE_def split: prod.splits sum.splits)

lemma wrapE_Inl: "wrapE f m w = (Inl e, w') \<longleftrightarrow> (\<exists>e'. m w = (Inl e', w') \<and> e = f e')"
  by (auto simp: wrapE_def split: prod.splits sum.splits)

lemma wrapE_lift [simp]:
  "wrapE f (returnE x) = returnE x" "wrapE f (throwE e) = throwE (f e)"
  by (rule ext, simp add: wrapE_def effect_simps)+

lemma catchE_Inr:
  "catchE m h w = (Inr x, w'') \<longleftrightarrow>
     m w = (Inr x, w'') \<or> (\<exists>e w'. m w = (Inl e, w') \<and> h e w' = (Inr x, w''))"
  by (auto simp: catchE_def split: prod.splits sum.splits)

lemma catchE_Inl:
  "catchE m h w = (Inl e, w'') \<longleftrightarrow> (\<exists>e' w'. m w = (Inl e', w') \<and> h e' w' = (Inl e, w''))"
  by (auto simp: catchE_def split: prod.splits sum.splits)

lemma effect_results [simp]:
  "returnE x w = (Inr y, w') \<longleftrightarrow> x = y \<and> w' = w"
  "returnE x w \<noteq> (Inl e, w')"
  "throwE e w = (Inl e', w') \<longleftrightarrow> e = e' \<and> w' = w"
  "throwE e w \<noteq> (Inr y, w')"
  "liftE r w = (s, w') \<longleftrightarrow> r = s \<and> w' = w"
  by (auto simp: effect_simps)

subsection \<open>Invariants and before/after relations\<close>

definition keeps :: "('w \<Rightarrow> bool) \<Rightarrow> ('w, 'e, 'a) prog \<Rightarrow> bool" where
  "keeps I m \<longleftrightarrow> (\<forall>w. I w \<longrightarrow> I (snd (m w)))"

definition relates :: "('w \<Rightarrow> 'w \<Rightarrow> bool) \<Rightarrow> ('w, 'e, 'a) prog \<Rightarrow> bool" where
  "relates R m \<longleftrightarrow> (\<forall>w. R w (snd (m w)))"

lemma keepsD: "keeps I m \<Longrightarrow> I w \<Longrightarrow> m w = (r, w') \<Longrightarrow> I w'"
  by (metis keeps_def snd_conv)

lemma relatesD: "relates R m \<Longrightarrow> m w = (r, w') \<Longrightarrow> R w w'"
  by (metis relates_def snd_conv)

lemma keeps_bind [keeps_rules]:
  "keeps I m \<Longrightarrow> (\<And>x. keeps I (f x)) \<Longrightarrow> keeps I (bindE m f)"
  by (fastforce simp: keeps_def bindE_def split: prod.splits sum.splits)

lemma keeps_basic [keeps_rules]:
  "keeps I (returnE x)" "keeps I (throwE e)" "keeps I (liftE r)" "keeps I (getE g)"
  by (auto simp: keeps_def effect_simps)

lemma keeps_wrap [keeps_rules]: "keeps I m \<Longrightarrow> keeps I (wrapE f m)"
  by (fastforce simp: keeps_def wrapE_def split: prod.splits sum.splits)

lemma keeps_catch [keeps_rules]:
  "keeps I m \<Longrightarrow> (\<And>e. keeps I (h e)) \<Longrightarrow> keeps I (catchE m h)"
  by (fastforce simp: keeps_def catchE_def split: prod.splits sum.splits)

lemma keeps_if [keeps_rules]:
  "(b \<Longrightarrow> keeps I m) \<Longrightarrow> (\<not> b \<Longrightarrow> keeps I n) \<Longrightarrow> keeps I (if b then m else n)"
  by simp

lemma keeps_when [keeps_rules]: "(b \<Longrightarrow> keeps I m) \<Longrightarrow> keeps I (whenE b m)"
  by (simp add: whenE_def keeps_basic)

lemma keeps_for [keeps_rules]: "(\<And>x. x \<in> set xs \<Longrightarrow> keeps I (f x)) \<Longrightarrow> keeps I (forE f xs)"
  by (induction xs) (auto intro!: keeps_rules)

lemma keeps_fold [keeps_rules]: "(\<And>x s. x \<in> set xs \<Longrightarrow> keeps I (f x s)) \<Longrightarrow> keeps I (foldE f xs s)"
  by (induction xs arbitrary: s) (auto intro!: keeps_rules)

lemma keeps_map [keeps_rules]: "(\<And>x. x \<in> set xs \<Longrightarrow> keeps I (f x)) \<Longrightarrow> keeps I (mapE f xs)"
  by (induction xs) (auto intro!: keeps_rules)

lemma keeps_case_option [keeps_rules]:
  "(x = None \<Longrightarrow> keeps I m) \<Longrightarrow> (\<And>y. x = Some y \<Longrightarrow> keeps I (f y)) \<Longrightarrow> keeps I (case x of None \<Rightarrow> m | Some y \<Rightarrow> f y)"
  by (simp split: option.splits)

lemma keeps_case_prod [keeps_rules]:
  "(\<And>a b. x = (a, b) \<Longrightarrow> keeps I (f a b)) \<Longrightarrow> keeps I (case x of (a, b) \<Rightarrow> f a b)"
  by (simp split: prod.splits)

lemma relates_bind [relates_rules]:
  assumes "transp R" and "relates R m" and "\<And>x. relates R (f x)"
  shows "relates R (bindE m f)"
  unfolding relates_def
proof
  fix w
  obtain r w' where m: "m w = (r, w')" by fastforce
  with assms(2) have *: "R w w'" by (rule relatesD)
  show "R w (snd (bindE m f w))"
  proof (cases r)
    case (Inl e)
    with m * show ?thesis by (simp add: bindE_def)
  next
    case (Inr x)
    have "R w' (snd (f x w'))" using assms(3) by (simp add: relates_def)
    with m * Inr assms(1) show ?thesis by (simp add: bindE_def) (metis transpD)
  qed
qed

lemma relates_basic [relates_rules]:
  "reflp R \<Longrightarrow> relates R (returnE x)" "reflp R \<Longrightarrow> relates R (throwE e)"
  "reflp R \<Longrightarrow> relates R (liftE r)" "reflp R \<Longrightarrow> relates R (getE g)"
  by (auto simp: relates_def effect_simps reflpD)

lemma snd_wrapE [simp]: "snd (wrapE f m w) = snd (m w)"
  by (simp add: wrapE_def split: prod.splits sum.splits)

lemma relates_wrap [relates_rules]: "relates R m \<Longrightarrow> relates R (wrapE f m)"
  by (simp add: relates_def)

lemma relates_catch [relates_rules]:
  assumes "transp R" and "relates R m" and "\<And>e. relates R (h e)"
  shows "relates R (catchE m h)"
  unfolding relates_def
proof
  fix w
  obtain r w' where m: "m w = (r, w')" by fastforce
  with assms(2) have *: "R w w'" by (rule relatesD)
  show "R w (snd (catchE m h w))"
  proof (cases r)
    case (Inr x)
    with m * show ?thesis by (simp add: catchE_def)
  next
    case (Inl e)
    have "R w' (snd (h e w'))" using assms(3) by (simp add: relates_def)
    with m * Inl assms(1) show ?thesis by (simp add: catchE_def) (metis transpD)
  qed
qed

lemma keeps_case_sum [keeps_rules]:
  "(\<And>a. x = Inl a \<Longrightarrow> keeps I (f a)) \<Longrightarrow> (\<And>b. x = Inr b \<Longrightarrow> keeps I (g b)) \<Longrightarrow> keeps I (case x of Inl a \<Rightarrow> f a | Inr b \<Rightarrow> g b)"
  by (simp split: sum.splits)

lemma relates_if [relates_rules]:
  "(b \<Longrightarrow> relates R m) \<Longrightarrow> (\<not> b \<Longrightarrow> relates R n) \<Longrightarrow> relates R (if b then m else n)"
  by simp

lemma relates_when [relates_rules]: "reflp R \<Longrightarrow> (b \<Longrightarrow> relates R m) \<Longrightarrow> relates R (whenE b m)"
  by (simp add: whenE_def relates_basic)

lemma relates_for [relates_rules]:
  "reflp R \<Longrightarrow> transp R \<Longrightarrow> (\<And>x. x \<in> set xs \<Longrightarrow> relates R (f x)) \<Longrightarrow> relates R (forE f xs)"
  by (induction xs) (auto intro!: relates_rules)

lemma relates_fold [relates_rules]:
  "reflp R \<Longrightarrow> transp R \<Longrightarrow> (\<And>x s. x \<in> set xs \<Longrightarrow> relates R (f x s)) \<Longrightarrow> relates R (foldE f xs s)"
  by (induction xs arbitrary: s) (auto intro!: relates_rules)

lemma relates_map [relates_rules]:
  "reflp R \<Longrightarrow> transp R \<Longrightarrow> (\<And>x. x \<in> set xs \<Longrightarrow> relates R (f x)) \<Longrightarrow> relates R (mapE f xs)"
  by (induction xs) (auto intro!: relates_rules)

lemma relates_case_option [relates_rules]:
  "(x = None \<Longrightarrow> relates R m) \<Longrightarrow> (\<And>y. x = Some y \<Longrightarrow> relates R (f y)) \<Longrightarrow> relates R (case x of None \<Rightarrow> m | Some y \<Rightarrow> f y)"
  by (simp split: option.splits)

lemma relates_case_prod [relates_rules]:
  "(\<And>a b. x = (a, b) \<Longrightarrow> relates R (f a b)) \<Longrightarrow> relates R (case x of (a, b) \<Rightarrow> f a b)"
  by (simp split: prod.splits)

subsection \<open>Lists\<close>

lemma sorted_key_map: "sorted (map f (sort_key f xs))"
  by (rule sorted_sort_key)

lemma sort_key_append_last:
  assumes "\<And>x. x \<in> set xs \<Longrightarrow> k x < k y"
  shows "sort_key k (xs @ [y]) = sort_key k xs @ [y]"
proof -
  have snoc: "insort_key k x (zs @ [y]) = insort_key k x zs @ [y]" if "k x < k y" for x zs
    using that by (induction zs) (simp_all add: order_less_imp_le)
  from assms show ?thesis by (induction xs) (simp_all add: snoc)
qed

lemma concat_only:
  assumes "distinct (map key xs)" and "x \<in> set xs"
  shows "concat (map (\<lambda>y. if key y = key x then [f y] else []) xs) = [f x]"
  using assms
proof (induction xs)
  case (Cons y ys)
  have none: "concat (map (\<lambda>z. if key z = key y then [f z] else []) ys) = []"
    using Cons.prems(1) by (force simp: image_iff)
  show ?case
  proof (cases "x = y")
    case True
    with none show ?thesis by simp
  next
    case False
    with Cons show ?thesis by (auto simp: image_iff)
  qed
qed simp

lemma filter_partition_cases:
  "\<lbrakk>x \<in> set xs; \<not> P x \<Longrightarrow> Q x\<rbrakk> \<Longrightarrow> x \<in> set (filter P xs) \<or> x \<in> set (filter Q xs)"
  by auto

text \<open>
  \<open>update_where P f xs\<close> is an SQL UPDATE: every row satisfying \<open>P\<close> becomes \<open>f\<close> of itself.
\<close>

definition update_where :: "('a \<Rightarrow> bool) \<Rightarrow> ('a \<Rightarrow> 'a) \<Rightarrow> 'a list \<Rightarrow> 'a list" where
  "update_where P f xs = map (\<lambda>x. if P x then f x else x) xs"

lemma length_update_where [simp]: "length (update_where P f xs) = length xs"
  by (simp add: update_where_def)

lemma update_where_none: "(\<And>x. x \<in> set xs \<Longrightarrow> \<not> P x) \<Longrightarrow> update_where P f xs = xs"
  by (simp add: update_where_def map_idI)

lemma map_update_where:
  "(\<And>x. x \<in> set xs \<Longrightarrow> P x \<Longrightarrow> g (f x) = g x) \<Longrightarrow> map g (update_where P f xs) = map g xs"
  by (simp add: update_where_def)

lemma set_update_where: "set (update_where P f xs) = (\<lambda>x. if P x then f x else x) ` set xs"
  by (simp add: update_where_def)

text \<open>\<open>slices.Compact(slices.Sorted(xs))\<close> is the sorted list of the distinct elements.\<close>

lemma distinct_remdups_adj: "sorted (xs :: 'a :: linorder list) \<Longrightarrow> distinct (remdups_adj xs)"
proof (induction xs rule: remdups_adj.induct)
  case (3 x y xs)
  show ?case
  proof (cases "x = y")
    case False
    with 3 have "\<forall>z \<in> set (y # xs). x < z" by auto
    then have "x \<notin> set (remdups_adj (y # xs))" by (auto simp del: remdups_adj.simps)
    with False 3 show ?thesis by auto
  qed (use 3 in auto)
qed simp_all

lemma compact_sorted:
  "remdups_adj (sort xs) = sorted_list_of_set (set xs)"
  by (rule sorted_distinct_set_unique) (simp_all add: distinct_remdups_adj)

text \<open>A loop that appends one element to a component of its state when a condition holds.\<close>

lemma fold_appends:
  assumes "\<And>x acc. g (f x acc) = g acc @ (if P x then [h x] else [])"
  shows "g (fold f xs acc) = g acc @ map h (filter P xs)"
  by (induction xs arbitrary: acc) (simp_all add: assms)

lemma fold_constant:
  assumes "\<And>x acc. g (f x acc) = g acc"
  shows "g (fold f xs acc) = g acc"
  by (induction xs arbitrary: acc) (simp_all add: assms)

text \<open>\<open>find_first P xs\<close> is a loop that returns the first element satisfying \<open>P\<close>.\<close>

lemma find_Some_in: "List.find P xs = Some x \<Longrightarrow> x \<in> set xs \<and> P x"
  by (induction xs) (auto split: if_splits)

lemma find_None_iff_all: "List.find P xs = None \<longleftrightarrow> (\<forall>x \<in> set xs. \<not> P x)"
  by (induction xs) auto

lemma find_unique:
  assumes "distinct (map g xs)" and "x \<in> set xs" and "P x"
    and "\<And>y. y \<in> set xs \<Longrightarrow> P y \<Longrightarrow> g y = g x"
  shows "List.find P xs = Some x"
proof (cases "List.find P xs")
  case None
  with assms(2,3) show ?thesis by (simp add: find_None_iff_all)
next
  case (Some y)
  then have y: "y \<in> set xs" "P y" by (simp_all add: find_Some_in)
  with assms(4) have "g y = g x" by simp
  with assms(1,2) y(1) have "y = x" by (auto simp: distinct_map dest: inj_onD)
  with Some show ?thesis by simp
qed

lemma Min_cofinal:
  fixes A B :: "'a::linorder set"
  assumes "finite A" and "A \<noteq> {}" and sub: "B \<subseteq> A" and below: "\<And>a. a \<in> A \<Longrightarrow> \<exists>b \<in> B. b \<le> a"
  shows "Min B = Min A"
proof (rule antisym)
  obtain b where b: "b \<in> B" "b \<le> Min A" using below [OF Min_in [OF assms(1,2)]] by blast
  have B: "finite B" by (rule finite_subset [OF sub assms(1)])
  from b show "Min B \<le> Min A" using Min_le [OF B b(1)] by simp
  show "Min A \<le> Min B" by (rule Min_antimono [OF sub _ assms(1)]) (use b(1) in blast)
qed

lemma Max_cofinal:
  fixes A B :: "'a::linorder set"
  assumes "finite A" and "A \<noteq> {}" and sub: "B \<subseteq> A" and above: "\<And>a. a \<in> A \<Longrightarrow> \<exists>b \<in> B. a \<le> b"
  shows "Max B = Max A"
proof (rule antisym)
  obtain b where b: "b \<in> B" "Max A \<le> b" using above [OF Max_in [OF assms(1,2)]] by blast
  have B: "finite B" by (rule finite_subset [OF sub assms(1)])
  from b show "Max A \<le> Max B" using Max_ge [OF B b(1)] by simp
  show "Max B \<le> Max A" by (rule Max_mono [OF sub _ assms(1)]) (use b(1) in blast)
qed

lemma list_all2_left: "list_all2 P xs ys \<Longrightarrow> x \<in> set xs \<Longrightarrow> \<exists>y \<in> set ys. P x y"
  by (induction rule: list_all2_induct) auto

lemma list_all2_right: "list_all2 P xs ys \<Longrightarrow> y \<in> set ys \<Longrightarrow> \<exists>x \<in> set xs. P x y"
  by (induction rule: list_all2_induct) auto

lemma find_filter: "List.find P xs = (case filter P xs of [] \<Rightarrow> None | x # _ \<Rightarrow> Some x)"
  by (induction xs) auto

lemma find_update_where_key:
  assumes "\<And>x. k (f x) = k x"
  shows "List.find (\<lambda>x. k x = b) (update_where (\<lambda>x. k x = a) f xs) =
    (if b = a then map_option f (List.find (\<lambda>x. k x = b) xs) else List.find (\<lambda>x. k x = b) xs)"
  using assms by (induction xs) (auto simp: update_where_def)

lemma find_append: "List.find P (xs @ ys) = (case List.find P xs of None \<Rightarrow> List.find P ys | Some x \<Rightarrow> Some x)"
  by (induction xs) auto

lemma map_of_first:
  "map_of (map (\<lambda>r. (k r, v r)) xs) e = (case filter (\<lambda>r. k r = e) xs of [] \<Rightarrow> None | r # _ \<Rightarrow> Some (v r))"
  by (induction xs) auto

lemma filter_key_distinct:
  "distinct (map k xs) \<Longrightarrow> filter (\<lambda>r. k r = e) xs = [] \<or> (\<exists>r \<in> set xs. k r = e \<and> filter (\<lambda>r. k r = e) xs = [r])"
proof (induction xs)
  case (Cons x xs)
  then show ?case by (auto simp: filter_empty_conv image_iff)
qed simp

lemma filter_update_where:
  assumes "\<And>r. k (f r) = k r"
  shows "filter (\<lambda>r. k r = e) (update_where P f xs) = update_where P f (filter (\<lambda>r. k r = e) xs)"
  using assms by (induction xs) (simp_all add: update_where_def)

text \<open>
  A loop of updates, one per element of \<open>xs\<close>, each on the rows with the element's key: every row
  is updated by the element with its key, if there is one.
\<close>

lemma fold_update_where:
  assumes "distinct (map key xs)" and "\<And>x r. rkey (f x r) = rkey r" and "\<And>x r. P (f x r) = P r"
  shows "fold (\<lambda>x. update_where (\<lambda>r. rkey r = key x \<and> P r) (f x)) xs rows =
    map (\<lambda>r. if P r then (case List.find (\<lambda>x. key x = rkey r) xs of Some x \<Rightarrow> f x r | None \<Rightarrow> r) else r) rows"
  using assms(1)
proof (induction xs arbitrary: rows)
  case Nil
  then show ?case by (simp add: map_idI)
next
  case (Cons x xs)
  have none: "List.find (\<lambda>y. key y = key x) xs = None"
    using Cons.prems by (auto simp: find_None_iff_all image_iff)
  from Cons show ?case
    by (auto simp: update_where_def assms(2,3) none)
qed

end
