(* ===== verification/GoTime.thy ===== *)
theory GoTime
  imports Prelude "HOL-Library.Word"
begin

section \<open>Go's time.Time, time.Duration and the fixed-width integers\<close>

text \<open>
  A \<open>time.Time\<close> is its number of nanoseconds since Go's zero time (1 January of year 1,
  UTC), an unbounded \<open>int\<close>: \<open>IsZero\<close> is \<open>= 0\<close>, \<open>After\<close>, \<open>Before\<close> and \<open>Equal\<close> are
  \<open>>\<close>, \<open><\<close> and \<open>=\<close>. A \<open>time.Duration\<close> is an \<open>int64\<close> count of nanoseconds, held in an
  \<open>int\<close> whose arithmetic is written with \<open>wrap64\<close>: Go's \<open>int64\<close> multiplication and
  negation wrap around, and \<open>Time.Sub\<close> saturates. An \<open>int32\<close> is a \<open>32 word\<close>, read with \<open>sint\<close>.
\<close>

type_synonym time = int
type_synonym duration = int
type_synonym int32 = "32 word"

lemma int32_bounds: "- (2 ^ 31) \<le> sint (x :: int32)" "sint (x :: int32) < 2 ^ 31"
  using sint_greater_eq [of x] sint_less [of x] by simp_all

definition wrap64 :: "int \<Rightarrow> int" where
  "wrap64 x = (x + 2 ^ 63) mod 2 ^ 64 - 2 ^ 63"

definition min_int64 :: int where "min_int64 = - (2 ^ 63)"
definition max_int64 :: int where "max_int64 = 2 ^ 63 - 1"

definition is_int64 :: "int \<Rightarrow> bool" where
  "is_int64 x \<longleftrightarrow> min_int64 \<le> x \<and> x \<le> max_int64"

lemma wrap64_id [simp]: "is_int64 x \<Longrightarrow> wrap64 x = x"
  by (simp add: wrap64_def is_int64_def min_int64_def max_int64_def)

lemma wrap64_range: "is_int64 (wrap64 x)"
proof -
  have "0 \<le> (x + 2 ^ 63) mod 2 ^ 64" and "(x + 2 ^ 63) mod 2 ^ 64 < (2 ^ 64 :: int)"
    by simp_all
  then show ?thesis
    by (simp add: wrap64_def is_int64_def min_int64_def max_int64_def)
qed

definition second :: duration where "second = 1000000000"
definition minute :: duration where "minute = 60000000000"
definition hour :: duration where "hour = 3600000000000"
definition microsecond :: duration where "microsecond = 1000"

lemmas duration_units = second_def minute_def hour_def microsecond_def

definition time_add :: "time \<Rightarrow> duration \<Rightarrow> time" where
  "time_add t d = t + d"

definition time_sub :: "time \<Rightarrow> time \<Rightarrow> duration" where
  "time_sub t u = max min_int64 (min max_int64 (t - u))"

definition dur_mul :: "int \<Rightarrow> int \<Rightarrow> duration" where
  "dur_mul a b = wrap64 (a * b)"

definition dur_neg :: "duration \<Rightarrow> duration" where
  "dur_neg d = wrap64 (- d)"

definition time_truncate :: "time \<Rightarrow> duration \<Rightarrow> time" where
  "time_truncate t d = (if d \<le> 0 then t else t - t mod d)"

definition time_round :: "time \<Rightarrow> duration \<Rightarrow> time" where
  "time_round t d =
     (if d \<le> 0 then t else let r = t mod d in if r + r < d then t - r else t + (d - r))"

text \<open>Go's integer division and remainder truncate towards zero.\<close>

definition quot :: "int \<Rightarrow> int \<Rightarrow> int" where
  "quot a b = sgn a * sgn b * (\<bar>a\<bar> div \<bar>b\<bar>)"

definition rem :: "int \<Rightarrow> int \<Rightarrow> int" where
  "rem a b = a - quot a b * b"

lemma quot_nonneg [simp]: "0 \<le> a \<Longrightarrow> 0 < b \<Longrightarrow> quot a b = a div b"
  by (cases "a = 0") (simp_all add: quot_def sgn_if)

lemma rem_nonneg [simp]: "0 \<le> a \<Longrightarrow> 0 < b \<Longrightarrow> rem a b = a mod b"
  by (simp add: rem_def minus_div_mult_eq_mod)

lemma time_sub_exact: "is_int64 (t - u) \<Longrightarrow> time_sub t u = t - u"
  by (simp add: time_sub_def is_int64_def)

lemma time_sub_range: "is_int64 (time_sub t u)"
  by (auto simp: time_sub_def is_int64_def min_int64_def max_int64_def)

lemma time_sub_le: "is_int64 d \<Longrightarrow> d < max_int64 \<Longrightarrow> time_sub t u \<le> d \<longleftrightarrow> t - u \<le> d"
  by (auto simp: time_sub_def is_int64_def min_int64_def max_int64_def)

lemma time_sub_pos [simp]: "0 < time_sub t u \<longleftrightarrow> u < t"
  by (auto simp: time_sub_def min_int64_def max_int64_def)

lemma time_sub_self [simp]: "time_sub t t = 0"
  by (simp add: time_sub_def min_int64_def max_int64_def)

lemma time_truncate_le: "time_truncate t d \<le> t"
  by (simp add: time_truncate_def)

lemma time_truncate_idem [simp]: "time_truncate (time_truncate t d) d = time_truncate t d"
  by (simp add: time_truncate_def mod_diff_left_eq)

lemma dur_neg_exact: "is_int64 d \<Longrightarrow> d \<noteq> min_int64 \<Longrightarrow> dur_neg d = - d"
  by (simp add: dur_neg_def is_int64_def min_int64_def max_int64_def)

lemma dur_mul_exact: "is_int64 (a * b) \<Longrightarrow> dur_mul a b = a * b"
  by (simp add: dur_mul_def)

end
