(* ===== verification/GoStrings.thy ===== *)
theory GoStrings
  imports GoTime "HOL-Library.Sublist"
begin

unbundle bit_operations_syntax

section \<open>Go strings: strings.TrimSpace, strings.ToLower and encoding/hex\<close>

text \<open>
  A Go string is its bytes, a HOL \<open>string\<close> (\<open>char\<close> is a byte), so \<open>length\<close> is Go's \<open>len\<close>
  and the order \<open><\<close> of \<open>List_Lexorder\<close> is Go's byte-wise order. \<open>trim_space\<close> removes every
  leading and trailing encoding of a Unicode white space character, the UTF-8 sequences of
  \<open>unicode.IsSpace\<close>. \<open>to_lower\<close> maps the ASCII letters: the code only lowers text that it
  then compares with, or decodes as, ASCII.
\<close>

subsection \<open>strings.TrimSpace\<close>

definition space_encodings :: "string list" where
  "space_encodings =
     [[CHR 0x09], [CHR 0x0A], [CHR 0x0B], [CHR 0x0C], [CHR 0x0D], [CHR 0x20],
      [CHR 0xC2, CHR 0x85], [CHR 0xC2, CHR 0xA0], [CHR 0xE1, CHR 0x9A, CHR 0x80],
      [CHR 0xE2, CHR 0x80, CHR 0x80], [CHR 0xE2, CHR 0x80, CHR 0x81], [CHR 0xE2, CHR 0x80, CHR 0x82],
      [CHR 0xE2, CHR 0x80, CHR 0x83], [CHR 0xE2, CHR 0x80, CHR 0x84], [CHR 0xE2, CHR 0x80, CHR 0x85],
      [CHR 0xE2, CHR 0x80, CHR 0x86], [CHR 0xE2, CHR 0x80, CHR 0x87], [CHR 0xE2, CHR 0x80, CHR 0x88],
      [CHR 0xE2, CHR 0x80, CHR 0x89], [CHR 0xE2, CHR 0x80, CHR 0x8A], [CHR 0xE2, CHR 0x80, CHR 0xA8],
      [CHR 0xE2, CHR 0x80, CHR 0xA9], [CHR 0xE2, CHR 0x80, CHR 0xAF], [CHR 0xE2, CHR 0x81, CHR 0x9F],
      [CHR 0xE3, CHR 0x80, CHR 0x80]]"

function trim_prefixes :: "string list \<Rightarrow> string \<Rightarrow> string" where
  "trim_prefixes es s =
     (case List.find (\<lambda>e. e \<noteq> [] \<and> prefix e s) es of
        None \<Rightarrow> s
      | Some e \<Rightarrow> trim_prefixes es (drop (length e) s))"
  by pat_completeness auto
termination
proof (relation "measure (\<lambda>(es, s). length s)")
  fix es :: "string list" and s e
  assume "List.find (\<lambda>e. e \<noteq> [] \<and> prefix e s) es = Some e"
  then have "e \<noteq> []" and "prefix e s" by (auto simp: find_Some_iff)
  then have "0 < length e" and "length e \<le> length s" by (auto dest: prefix_length_le)
  then have "length s - length e < length s" by linarith
  then show "((es, drop (length e) s), (es, s)) \<in> measure (\<lambda>(es, s). length s)" by simp
qed simp

declare trim_prefixes.simps [simp del]

definition trim_left :: "string \<Rightarrow> string" where
  "trim_left s = trim_prefixes space_encodings s"

definition trim_right :: "string \<Rightarrow> string" where
  "trim_right s = rev (trim_prefixes (map rev space_encodings) (rev s))"

definition trim_space :: "string \<Rightarrow> string" where
  "trim_space s = trim_right (trim_left s)"

lemma trim_prefixes_done: "e \<in> set es \<Longrightarrow> e \<noteq> [] \<Longrightarrow> \<not> prefix e (trim_prefixes es s)"
proof (induction es s rule: trim_prefixes.induct)
  case (1 es s)
  then show ?case
    by (subst trim_prefixes.simps) (auto split: option.splits simp: find_None_iff)
qed

lemma trim_prefixes_suffix: "suffix (trim_prefixes es s) s"
proof (induction es s rule: trim_prefixes.induct)
  case (1 es s)
  then show ?case
    by (subst trim_prefixes.simps) (auto split: option.splits intro: suffix_order.trans suffix_drop)
qed

lemma trim_prefixes_id: "(\<And>e. e \<in> set es \<Longrightarrow> e = [] \<or> \<not> prefix e s) \<Longrightarrow> trim_prefixes es s = s"
  by (subst trim_prefixes.simps) (auto split: option.splits dest!: find_Some_in)

lemma trim_right_prefix: "prefix (trim_right s) s"
  using trim_prefixes_suffix [of "map rev space_encodings" "rev s"]
  by (simp add: trim_right_def suffix_to_prefix)

theorem trim_space_idem [simp]: "trim_space (trim_space s) = trim_space s"
proof -
  let ?l = "trim_left s" and ?t = "trim_space s"
  have left: "trim_left ?t = ?t"
    unfolding trim_left_def
  proof (rule trim_prefixes_id)
    fix e assume e: "e \<in> set space_encodings"
    have "prefix ?t ?l" by (simp add: trim_space_def trim_right_prefix)
    moreover have "e \<noteq> [] \<Longrightarrow> \<not> prefix e ?l"
      using trim_prefixes_done [OF e] by (simp add: trim_left_def)
    ultimately show "e = [] \<or> \<not> prefix e ?t"
      using prefix_order.trans by blast
  qed
  have "trim_right ?t = ?t"
  proof -
    have "trim_prefixes (map rev space_encodings) (rev ?t) = rev ?t"
    proof (rule trim_prefixes_id)
      fix e assume "e \<in> set (map rev space_encodings)"
      then show "e = [] \<or> \<not> prefix e (rev ?t)"
        using trim_prefixes_done by (auto simp: trim_space_def trim_right_def)
    qed
    then show ?thesis by (simp add: trim_right_def)
  qed
  with left show ?thesis by (simp add: trim_space_def [of ?t])
qed

lemma trim_space_Nil [simp]: "trim_space [] = []"
proof -
  have "trim_prefixes es [] = []" for es
    by (subst trim_prefixes.simps) (auto split: option.splits simp: find_Some_iff)
  then show ?thesis by (simp add: trim_space_def trim_left_def trim_right_def)
qed

subsection \<open>strings.ToLower and encoding/hex\<close>

definition lower_char :: "char \<Rightarrow> char" where
  "lower_char c = (let n = (of_char c :: nat) in if 65 \<le> n \<and> n \<le> 90 then char_of (n + 32) else c)"

definition to_lower :: "string \<Rightarrow> string" where
  "to_lower = map lower_char"

type_synonym byte = "8 word"

definition hex_table :: string where
  "hex_table = ''0123456789abcdef''"

definition hex_encode :: "byte list \<Rightarrow> string" where
  "hex_encode bs = concat (map (\<lambda>b. [hex_table ! unat (drop_bit 4 b), hex_table ! unat (b AND 15)]) bs)"

definition from_hex_char :: "char \<Rightarrow> byte option" where
  "from_hex_char c =
     (let n = (of_char c :: nat) in
      if 48 \<le> n \<and> n \<le> 57 then Some (word_of_nat (n - 48))
      else if 97 \<le> n \<and> n \<le> 102 then Some (word_of_nat (n - 97 + 10))
      else if 65 \<le> n \<and> n \<le> 70 then Some (word_of_nat (n - 65 + 10))
      else None)"

fun hex_decode :: "string \<Rightarrow> byte list option" where
  "hex_decode [] = Some []"
| "hex_decode [c] = None"
| "hex_decode (c # d # s) =
     (case (from_hex_char c, from_hex_char d) of
        (Some a, Some b) \<Rightarrow> map_option ((#) (push_bit 4 a OR b)) (hex_decode s)
      | _ \<Rightarrow> None)"

definition is_lower_hex :: "char \<Rightarrow> bool" where
  "is_lower_hex c \<longleftrightarrow> c \<in> set hex_table"

lemma hex_table_nth: "i < 16 \<Longrightarrow> hex_table ! i \<in> set hex_table"
  by (rule nth_mem) (simp add: hex_table_def)

lemma is_lower_hex_decodes: "is_lower_hex c \<Longrightarrow> from_hex_char c \<noteq> None"
  by (auto simp: is_lower_hex_def hex_table_def from_hex_char_def)

lemma is_lower_hex_lower: "is_lower_hex c \<Longrightarrow> lower_char c = c"
  by (auto simp: is_lower_hex_def hex_table_def lower_char_def)

lemma nibble_bounds: "unat (drop_bit 4 (b :: byte)) < 16" "unat (b AND 15) < 16"
proof -
  have "unat b < 2 ^ LENGTH(8)" by (rule unsigned_less)
  then have "unat b < 256" by simp
  then show "unat (drop_bit 4 b) < 16"
    unfolding unat_drop_bit_eq by (simp add: drop_bit_eq_div)
  have "b AND 15 \<le> 15" by (rule word_and_le1)
  then have "unat (b AND 15) \<le> unat (15 :: byte)" by (simp only: word_le_nat_alt)
  then show "unat (b AND 15) < 16" by simp
qed

lemma hex_encode_Nil [simp]: "hex_encode [] = []"
  by (simp add: hex_encode_def)

lemma hex_encode_Cons:
  "hex_encode (b # bs) = hex_table ! unat (drop_bit 4 b) # hex_table ! unat (b AND 15) # hex_encode bs"
  by (simp add: hex_encode_def)

lemma length_hex_encode [simp]: "length (hex_encode bs) = 2 * length bs"
  by (induction bs) (simp_all add: hex_encode_Cons)

lemma hex_encode_lower_hex: "c \<in> set (hex_encode bs) \<Longrightarrow> is_lower_hex c"
  by (induction bs) (auto simp: hex_encode_Cons is_lower_hex_def intro: hex_table_nth nibble_bounds)

lemma to_lower_hex: "\<forall>c \<in> set s. is_lower_hex c \<Longrightarrow> to_lower s = s"
  by (simp add: to_lower_def is_lower_hex_lower map_idI)

lemma hex_decode_total: "even (length s) \<Longrightarrow> \<forall>c \<in> set s. is_lower_hex c \<Longrightarrow> hex_decode s \<noteq> None"
proof (induction s rule: hex_decode.induct)
  case (3 c d s)
  then show ?case
    using is_lower_hex_decodes [of c] is_lower_hex_decodes [of d] by auto
qed simp_all

lemma hex_digit_codes:
  "(n::nat) \<in> set (map of_char hex_table) \<longleftrightarrow> (48 \<le> n \<and> n \<le> 57) \<or> (97 \<le> n \<and> n \<le> 102)"
proof -
  have codes: "set (map of_char hex_table) = ({48, 49, 50, 51, 52, 53, 54, 55, 56, 57, 97, 98, 99, 100, 101, 102} :: nat set)"
    by (simp add: hex_table_def)
  show ?thesis unfolding codes insert_iff empty_iff by presburger
qed

lemma is_lower_hex_code:
  "is_lower_hex c \<longleftrightarrow> (let n = (of_char c :: nat) in (48 \<le> n \<and> n \<le> 57) \<or> (97 \<le> n \<and> n \<le> 102))"
proof -
  have "is_lower_hex c \<longleftrightarrow> (of_char c :: nat) \<in> set (map of_char hex_table)"
    by (auto simp: is_lower_hex_def)
  then show ?thesis by (simp only: hex_digit_codes Let_def)
qed

lemma from_hex_char_cases:
  assumes "from_hex_char c \<noteq> None" and "lower_char c = c"
  shows "is_lower_hex c"
proof (rule ccontr)
  let ?n = "of_char c :: nat"
  assume "\<not> is_lower_hex c"
  with assms(1) have n: "65 \<le> ?n" "?n \<le> 70"
    by (auto simp: from_hex_char_def Let_def is_lower_hex_code split: if_splits)
  then have "of_char (lower_char c) = ?n + 32"
    by (simp add: lower_char_def Let_def)
  with assms(2) show False by simp
qed

lemma hex_decode_chars: "hex_decode s \<noteq> None \<Longrightarrow> c \<in> set s \<Longrightarrow> from_hex_char c \<noteq> None"
  by (induction s rule: hex_decode.induct) (auto split: option.splits)

lemma lower_hex_iff:
  "to_lower s = s \<and> hex_decode s \<noteq> None \<longleftrightarrow> even (length s) \<and> (\<forall>c \<in> set s. is_lower_hex c)"
proof
  assume *: "to_lower s = s \<and> hex_decode s \<noteq> None"
  have "hex_decode s \<noteq> None \<Longrightarrow> even (length s)" for s
    by (induction s rule: hex_decode.induct) (auto split: option.splits)
  moreover have "is_lower_hex c" if "c \<in> set s" for c
  proof -
    from * that have "lower_char c = c" by (auto simp: to_lower_def map_eq_conv [of _ _ id, simplified])
    with * that show ?thesis using hex_decode_chars from_hex_char_cases by blast
  qed
  ultimately show "even (length s) \<and> (\<forall>c \<in> set s. is_lower_hex c)" using * by blast
qed (simp add: to_lower_hex hex_decode_total)

subsection \<open>strconv.FormatInt\<close>

definition digit :: "nat \<Rightarrow> char" where
  "digit n = ''0123456789'' ! n"

fun nat_text :: "nat \<Rightarrow> string" where
  "nat_text n = (if n < 10 then [digit n] else nat_text (n div 10) @ [digit (n mod 10)])"

declare nat_text.simps [simp del]

text \<open>\<open>strconv.FormatInt(n, 10)\<close>\<close>

definition int_text :: "int \<Rightarrow> string" where
  "int_text n = (if n < 0 then ''-'' @ nat_text (nat (- n)) else nat_text (nat n))"

lemma nat_text_nonempty: "nat_text n \<noteq> []"
  by (subst nat_text.simps) simp

lemma nat_text_digits: "set (nat_text n) \<subseteq> set ''0123456789''"
proof (induction n rule: nat_text.induct)
  case (1 n)
  have d: "digit m \<in> set ''0123456789''" if "m < 10" for m
    unfolding digit_def using that by (intro nth_mem) simp
  show ?case
  proof (cases "n < 10")
    case True
    then show ?thesis by (subst nat_text.simps) (use d in simp)
  next
    case False
    with 1 d [of "n mod 10"] show ?thesis by (subst nat_text.simps) simp
  qed
qed

lemma int_text_head: "hd (int_text n) \<in> set ''-0123456789''"
proof (cases "n < 0")
  case False
  with nat_text_digits [of "nat n"] nat_text_nonempty [of "nat n"] show ?thesis
    by (cases "nat_text (nat n)") (auto simp: int_text_def)
qed (simp add: int_text_def)

end
