(* ===== verification/GoErrors.thy ===== *)
theory GoErrors
  imports GoStrings
begin

section \<open>Errors: the sentinels, wrapping and errors.Is\<close>

text \<open>
  The sentinel errors (\<open>errors.New\<close>) of \<open>domain\<close>, \<open>repository\<close>, \<open>tenantctx\<close>, \<open>application\<close>, \<open>infra/db\<close>
  and \<open>infra/connect\<close>, with those of the standard library that
  the code tells apart (\<open>sql.ErrNoRows\<close>, \<open>context.Canceled\<close>, \<open>context.DeadlineExceeded\<close>),
  a PostgreSQL driver error (\<open>pgconn.PgError\<close>) by its SQLSTATE, an error of an RPC (\<open>connectrpc.Error\<close>: its code, the
  message the peer sees, and the cause that stays in the process), any other error by its text, and the two
  ways to combine them: \<open>fmt.Errorf("text: %w", err)\<close> is \<open>Wrap\<close>, and \<open>errors.Join\<close> (or
  two \<open>%w\<close>) is \<open>Join\<close>. \<open>errors_is\<close> is \<open>errors.Is\<close> on such a tree.
  A run-time panic (a nil dereference) is \<open>GoPanic\<close>: nothing under src recovers one, so it
  travels as an error does, and no sentinel matches it.
\<close>

datatype sentinel =
    ErrInvalidPublicID | ErrTenantRequired | ErrEventRequired | ErrEdgeDeviceNameRequired
  | ErrEdgeDeviceUnregistered | ErrEdgeDeviceKindInvalid | ErrEdgeDeviceCameraUnsupported
  | ErrCameraPointNamesNotAllowed | ErrCameraLinkedPointRequired | ErrPageLinkedPointNotAllowed
  | ErrCameraLinkToCamera | ErrObservationPointNameRequired | ErrObservationPointNotFound
  | ErrObservationPointAlreadyLinked
  | ErrInvalidMeasurementWindow | ErrNegativeCount | ErrInvalidDetectedPeople
  | ErrInvalidHistoryWindow | ErrEventTypeRequired
  | ErrEdgeDeviceNotFound | ErrGuestStatusNotFound | ErrObservationSettingsNotFound
  | ErrSnapshotNotFound | ErrOptimizationOutcomeMissing
  | ErrMissing | ErrSubjectMissing | ErrMismatch | ErrEventMissing | ErrEventMismatch
  | ErrForeignEvent | ErrEdgeDeviceRequired
  | ErrTransactionAborted
  | ErrMeasurementSourceRequired | ErrQRLocationNotAllowed | ErrObservationPointNotAllowed
  | ErrEdgeDeviceNotAllowed | ErrMixedMeasurementSources
  | ErrInternal
  | SqlErrNoRows | ContextCanceled | ContextDeadlineExceeded

text \<open>The status codes of the Connect protocol, as \<open>connectrpc.Code\<close> names them.\<close>

datatype Code =
    CodeCanceled | CodeUnknown | CodeInvalidArgument | CodeDeadlineExceeded | CodeNotFound | CodeAlreadyExists
  | CodePermissionDenied | CodeResourceExhausted | CodeFailedPrecondition | CodeAborted | CodeOutOfRange
  | CodeUnimplemented | CodeInternal | CodeUnavailable | CodeDataLoss | CodeUnauthenticated

datatype err =
    Err sentinel
  | RpcError (rpc_code: Code) (rpc_message: string) "err option"
  | PgError string
  | OtherError string
  | Wrap string err
  | Join err err
  | GoPanic string

fun errors_is :: "err \<Rightarrow> sentinel \<Rightarrow> bool" where
  "errors_is (Err e) target = (e = target)"
| "errors_is (RpcError code message None) target = False"
| "errors_is (RpcError code message (Some cause)) target = errors_is cause target"
| "errors_is (PgError code) target = False"
| "errors_is (OtherError text) target = False"
| "errors_is (Wrap m e) target = errors_is e target"
| "errors_is (Join a b) target = (errors_is a target \<or> errors_is b target)"
| "errors_is (GoPanic text) target = False"

text \<open>A panic is not an error the code can look at: it passes every handler.\<close>

fun is_panic :: "err \<Rightarrow> bool" where
  "is_panic (GoPanic text) = True"
| "is_panic (Wrap m e) = is_panic e"
| "is_panic (Join a b) = (is_panic a \<or> is_panic b)"
| "is_panic (RpcError code message (Some cause)) = is_panic cause"
| "is_panic _ = False"

text \<open>\<open>errors.As(err, *pgconn.PgError)\<close>: the first driver error of the tree, by its SQLSTATE.\<close>

fun errors_as_pg :: "err \<Rightarrow> string option" where
  "errors_as_pg (Err e) = None"
| "errors_as_pg (RpcError code message None) = None"
| "errors_as_pg (RpcError code message (Some cause)) = errors_as_pg cause"
| "errors_as_pg (PgError code) = Some code"
| "errors_as_pg (OtherError text) = None"
| "errors_as_pg (Wrap m e) = errors_as_pg e"
| "errors_as_pg (Join a b) = (case errors_as_pg a of None \<Rightarrow> errors_as_pg b | Some c \<Rightarrow> Some c)"
| "errors_as_pg (GoPanic text) = None"

end
