(* ===== verification/TenantCtx.thy ===== *)
theory TenantCtx
  imports GoErrors
begin

section \<open>tenantctx: the authenticated principal and the tenant boundary\<close>

text \<open>
  The request context carries the verified claims of the internal JWT, if any, whether it
  carries a database transaction (the key \<open>transactionKey\<close> of \<open>infra/db\<close>), its deadline, and the \<open>Authorization\<close> header
  of the request it serves (\<open>None\<close> outside a request). A token use is the text of
  the claim; \<open>event_access\<close> is the one the transport interceptor admits for client calls.
\<close>

record Claims =
  claim_Subject :: string
  claim_TenantPublicID :: string
  claim_EventPublicID :: string
  claim_TokenUse :: string

record Ctx =
  ctx_claims :: "Claims option"
  ctx_tx :: bool
  ctx_deadline :: "time option"
  ctx_authorization :: "string option"

definition TokenUseEventAccess :: string where "TokenUseEventAccess = ''event_access''"

definition nonempty_trimmed :: "string \<Rightarrow> string option" where
  "nonempty_trimmed s = (let t = trim_space s in if t = '''' then None else Some t)"

definition SubjectFromContext :: "Ctx \<Rightarrow> string option" where
  "SubjectFromContext ctx = (case ctx_claims ctx of None \<Rightarrow> None | Some c \<Rightarrow> nonempty_trimmed (claim_Subject c))"

definition TenantPublicIDFromContext :: "Ctx \<Rightarrow> string option" where
  "TenantPublicIDFromContext ctx =
     (case ctx_claims ctx of None \<Rightarrow> None | Some c \<Rightarrow> nonempty_trimmed (claim_TenantPublicID c))"

definition EventPublicIDFromContext :: "Ctx \<Rightarrow> string option" where
  "EventPublicIDFromContext ctx =
     (case ctx_claims ctx of None \<Rightarrow> None | Some c \<Rightarrow> nonempty_trimmed (claim_EventPublicID c))"

definition Ensure :: "Ctx \<Rightarrow> string \<Rightarrow> err + unit" where
  "Ensure ctx tenantPublicID =
     (case TenantPublicIDFromContext ctx of
        None \<Rightarrow> Inl (Err ErrMissing)
      | Some t \<Rightarrow> if t = '''' then Inl (Err ErrMissing)
                  else if t \<noteq> tenantPublicID then Inl (Err ErrMismatch) else Inr ())"

definition VerifyOwnership :: "Ctx \<Rightarrow> string \<Rightarrow> err + unit" where
  "VerifyOwnership ctx tenantPublicID =
     (case TenantPublicIDFromContext ctx of
        None \<Rightarrow> Inr ()
      | Some t \<Rightarrow> if t = '''' then Inr ()
                  else if t \<noteq> tenantPublicID then Inl (Err ErrMismatch) else Inr ())"

definition EnsureEvent :: "Ctx \<Rightarrow> string \<Rightarrow> err + unit" where
  "EnsureEvent ctx eventPublicID =
     (case ctx_claims ctx of
        None \<Rightarrow> Inr ()
      | Some claims \<Rightarrow>
          (case EventPublicIDFromContext ctx of
             None \<Rightarrow> if claim_TokenUse claims = TokenUseEventAccess then Inl (Err ErrEventMissing) else Inr ()
           | Some e \<Rightarrow> if e \<noteq> eventPublicID then Inl (Err ErrEventMismatch) else Inr ()))"

text \<open>
  \<open>tenant_allows ctx t\<close> is the promise of the boundary: whatever the context's tenant is, it is \<open>t\<close>.
\<close>

definition tenant_allows :: "Ctx \<Rightarrow> string \<Rightarrow> bool" where
  "tenant_allows ctx t \<longleftrightarrow> (case TenantPublicIDFromContext ctx of None \<Rightarrow> True | Some u \<Rightarrow> u = t)"

lemma nonempty_trimmed_Some: "nonempty_trimmed s = Some t \<longleftrightarrow> t = trim_space s \<and> t \<noteq> ''''"
  by (auto simp: nonempty_trimmed_def Let_def)

lemma TenantPublicID_nonempty: "TenantPublicIDFromContext ctx = Some t \<Longrightarrow> t \<noteq> '''' \<and> trim_space t = t"
  by (auto simp: TenantPublicIDFromContext_def nonempty_trimmed_Some split: option.splits)

lemma VerifyOwnership_iff: "VerifyOwnership ctx t = Inr u \<longleftrightarrow> tenant_allows ctx t"
  by (auto simp: VerifyOwnership_def tenant_allows_def split: option.splits dest: TenantPublicID_nonempty)

lemma VerifyOwnership_error: "VerifyOwnership ctx t = Inl e \<longleftrightarrow> \<not> tenant_allows ctx t \<and> e = Err ErrMismatch"
  by (auto simp: VerifyOwnership_def tenant_allows_def split: option.splits dest: TenantPublicID_nonempty)

lemma Ensure_iff: "Ensure ctx t = Inr u \<longleftrightarrow> TenantPublicIDFromContext ctx = Some t"
  by (auto simp: Ensure_def split: option.splits dest: TenantPublicID_nonempty)

lemma Ensure_VerifyOwnership: "Ensure ctx t = Inr u \<Longrightarrow> VerifyOwnership ctx t = Inr ()"
  by (simp add: Ensure_iff VerifyOwnership_iff tenant_allows_def)

lemma EnsureEvent_event_access:
  "\<lbrakk>EnsureEvent ctx event = Inr u; ctx_claims ctx = Some c; claim_TokenUse c = TokenUseEventAccess\<rbrakk>
     \<Longrightarrow> EventPublicIDFromContext ctx = Some event"
  by (auto simp: EnsureEvent_def split: option.splits if_splits)

lemma EnsureEvent_not_other:
  "EnsureEvent ctx event = Inr u \<Longrightarrow> EventPublicIDFromContext ctx = Some other \<Longrightarrow> other = event"
  by (auto simp: EnsureEvent_def EventPublicIDFromContext_def split: option.splits if_splits)

lemma context_tx_ids [simp]:
  "TenantPublicIDFromContext (ctx\<lparr>ctx_tx := b\<rparr>) = TenantPublicIDFromContext ctx"
  "EventPublicIDFromContext (ctx\<lparr>ctx_tx := b\<rparr>) = EventPublicIDFromContext ctx"
  by (simp_all add: TenantPublicIDFromContext_def EventPublicIDFromContext_def)

lemma context_tx [simp]:
  "VerifyOwnership (ctx\<lparr>ctx_tx := b\<rparr>) t = VerifyOwnership ctx t"
  "EnsureEvent (ctx\<lparr>ctx_tx := b\<rparr>) e = EnsureEvent ctx e"
  "tenant_allows (ctx\<lparr>ctx_tx := b\<rparr>) t = tenant_allows ctx t"
  by (simp_all add: VerifyOwnership_def EnsureEvent_def tenant_allows_def split: option.split)

text \<open>\<open>context.WithTimeout\<close> at the time \<open>t\<close>: the deadline of the parent stays if it is earlier.\<close>

definition WithTimeout :: "Ctx \<Rightarrow> time \<Rightarrow> duration \<Rightarrow> Ctx" where
  "WithTimeout ctx t d =
     ctx\<lparr>ctx_deadline := Some (case ctx_deadline ctx of None \<Rightarrow> time_add t d | Some e \<Rightarrow> min e (time_add t d))\<rparr>"

lemma WithTimeout_simps [simp]:
  "ctx_claims (WithTimeout ctx t d) = ctx_claims ctx" "ctx_tx (WithTimeout ctx t d) = ctx_tx ctx"
  "ctx_authorization (WithTimeout ctx t d) = ctx_authorization ctx"
  by (simp_all add: WithTimeout_def)

end
