(* ===== verification/EdgeDevice.thy ===== *)
theory EdgeDevice
  imports GoErrors
begin

section \<open>domain/edge\_device.go: public IDs, edge devices, observation points, camera links\<close>

text \<open>
  The state of a device is the record \<open>EdgeDevice\<close>; the methods with a pointer receiver return the
  updated device. \<open>crypto/rand.Read\<close> is a source of draws: each draw is an error or the bytes
  it delivers, and \<open>rand_read n\<close> fills a buffer of \<open>n\<close> bytes from the next one. Go's open
  integer enumeration \<open>EdgeDeviceKind\<close> has its two named values and every other integer.
  The invariant \<open>edge_device_wf\<close> is what the constructors establish and every operation keeps.
\<close>

subsection \<open>Public IDs\<close>

type_synonym entropy = "nat \<Rightarrow> err + byte list"

definition rand_read :: "nat \<Rightarrow> (entropy, err, byte list) prog" where
  "rand_read n src =
     ((case src 0 of Inl e \<Rightarrow> Inl e | Inr bs \<Rightarrow> Inr (take n (bs @ replicate n 0))), \<lambda>i. src (Suc i))"

definition publicIDByteLength :: nat where "publicIDByteLength = 8"
definition publicIDLength :: nat where "publicIDLength = publicIDByteLength * 2"

definition newPublicID :: "(entropy, err, string) prog" where
  "newPublicID =
     bindE (wrapE (Wrap ''generate public ID'') (rand_read publicIDByteLength))
       (\<lambda>buffer. returnE (hex_encode buffer))"

definition parsePublicID :: "string \<Rightarrow> err + string" where
  "parsePublicID value =
     (if length value \<noteq> publicIDLength \<or> value \<noteq> to_lower value then Inl (Err ErrInvalidPublicID)
      else if hex_decode value = None then Inl (Err ErrInvalidPublicID)
      else Inr value)"

type_synonym EdgeDeviceID = string
type_synonym ObservationPointID = string

definition NewEdgeDeviceID :: "(entropy, err, EdgeDeviceID) prog" where
  "NewEdgeDeviceID = bindE newPublicID returnE"

definition ParseEdgeDeviceID :: "string \<Rightarrow> err + EdgeDeviceID" where
  "ParseEdgeDeviceID value = bindS (parsePublicID value) Inr"

definition NewObservationPointID :: "(entropy, err, ObservationPointID) prog" where
  "NewObservationPointID = bindE newPublicID returnE"

definition ParseObservationPointID :: "string \<Rightarrow> err + ObservationPointID" where
  "ParseObservationPointID value = bindS (parsePublicID value) Inr"

definition is_public_id :: "string \<Rightarrow> bool" where
  "is_public_id s \<longleftrightarrow> length s = 16 \<and> list_all is_lower_hex s"

text \<open>A value parses exactly when it is 16 lower-case hexadecimal digits, and then unchanged.\<close>

lemma is_public_id_alt:
  "is_public_id s \<longleftrightarrow> length s = 16 \<and> to_lower s = s \<and> hex_decode s \<noteq> None"
proof -
  have "even (length s)" if "length s = 16" using that by simp
  then show ?thesis
    unfolding is_public_id_def list_all_iff using lower_hex_iff [of s] by blast
qed

lemma parsePublicID_eq:
  "parsePublicID s = (if is_public_id s then Inr s else Inl (Err ErrInvalidPublicID))"
  by (simp add: parsePublicID_def is_public_id_alt publicIDLength_def publicIDByteLength_def
      eq_commute [of s "to_lower s"])

lemma parsePublicID_iff: "parsePublicID s = Inr t \<longleftrightarrow> is_public_id s \<and> t = s"
  by (auto simp: parsePublicID_eq)

lemma parsePublicID_error: "parsePublicID s = Inl e \<longleftrightarrow> \<not> is_public_id s \<and> e = Err ErrInvalidPublicID"
  by (auto simp: parsePublicID_eq)

lemma ParseIDs [simp]:
  "ParseEdgeDeviceID s = parsePublicID s" "ParseObservationPointID s = parsePublicID s"
  by (cases "parsePublicID s"; simp add: ParseEdgeDeviceID_def ParseObservationPointID_def)+

lemma rand_read_length: "rand_read n src = (Inr bs, src') \<Longrightarrow> length bs = n"
  by (auto simp: rand_read_def split: sum.splits)

lemma newPublicID_valid: "newPublicID src = (Inr s, src') \<Longrightarrow> is_public_id s"
  by (auto simp: newPublicID_def bindE_Inr is_public_id_def list_all_iff publicIDByteLength_def
      dest: rand_read_length hex_encode_lower_hex)

lemma newID_valid:
  "NewEdgeDeviceID src = (Inr s, src') \<Longrightarrow> is_public_id s"
  "NewObservationPointID src = (Inr s, src') \<Longrightarrow> is_public_id s"
  by (auto simp: NewEdgeDeviceID_def NewObservationPointID_def bindE_Inr dest: newPublicID_valid)

lemma public_id_nonempty: "is_public_id s \<Longrightarrow> s \<noteq> []"
  by (auto simp: is_public_id_def)

subsection \<open>Devices\<close>

record ObservationPoint =
  pt_ID :: ObservationPointID
  pt_Name :: string
  pt_Enabled :: bool
  pt_LastActiveAt :: "time option"

datatype EdgeDeviceKind =
  EdgeDeviceKindObservationPage | EdgeDeviceKindCamera | EdgeDeviceKindOther int

fun ParseEdgeDeviceKind :: "string \<Rightarrow> EdgeDeviceKind \<times> err option" where
  "ParseEdgeDeviceKind value =
     (if value = ''observation_page'' then (EdgeDeviceKindObservationPage, None)
      else if value = ''camera'' then (EdgeDeviceKindCamera, None)
      else (EdgeDeviceKindObservationPage, Some (Err ErrEdgeDeviceKindInvalid)))"

fun kind_String :: "EdgeDeviceKind \<Rightarrow> string" where
  "kind_String EdgeDeviceKindCamera = ''camera''"
| "kind_String EdgeDeviceKindObservationPage = ''observation_page''"
| "kind_String (EdgeDeviceKindOther n) = ''''"

record CameraLink =
  cl_CameraEdgeDeviceID :: EdgeDeviceID
  cl_ObservationPointID :: ObservationPointID

record EdgeDevice =
  dev_ID :: EdgeDeviceID
  dev_TenantPublicID :: string
  dev_EventID :: string
  dev_Name :: string
  dev_Unregistered :: bool
  dev_LastHeartbeatAt :: "time option"
  dev_Kind :: EdgeDeviceKind
  dev_ObservationPoints :: "ObservationPoint list"
  dev_CameraLinks :: "CameraLink list"

fun new_points :: "string list \<Rightarrow> (entropy, err, ObservationPoint list) prog" where
  "new_points [] = returnE []"
| "new_points (pointName # names) =
     (let pointName = trim_space pointName in
      if pointName = '''' then throwE (Err ErrObservationPointNameRequired)
      else bindE NewObservationPointID (\<lambda>pointID.
           bindE (new_points names) (\<lambda>points.
           returnE (\<lparr>pt_ID = pointID, pt_Name = pointName, pt_Enabled = True, pt_LastActiveAt = None\<rparr> # points))))"

definition NewEdgeDeviceWithKind ::
  "string \<Rightarrow> string \<Rightarrow> string \<Rightarrow> EdgeDeviceKind \<Rightarrow> string list \<Rightarrow> string
     \<Rightarrow> (entropy, err, EdgeDevice) prog" where
  "NewEdgeDeviceWithKind tenantPublicID eventID name kind observationPointNames linkedObservationPointID =
     (let tenantPublicID = trim_space tenantPublicID; eventID = trim_space eventID;
          name = trim_space name; linked = trim_space linkedObservationPointID in
      if tenantPublicID = '''' then throwE (Err ErrTenantRequired)
      else if eventID = '''' then throwE (Err ErrEventRequired)
      else if name = '''' then throwE (Err ErrEdgeDeviceNameRequired)
      else (case kind of
        EdgeDeviceKindObservationPage \<Rightarrow>
          if linked \<noteq> '''' then throwE (Err ErrPageLinkedPointNotAllowed)
          else bindE (new_points observationPointNames) (\<lambda>observationPoints.
               bindE NewEdgeDeviceID (\<lambda>id.
               returnE \<lparr>dev_ID = id, dev_TenantPublicID = tenantPublicID, dev_EventID = eventID,
                 dev_Name = name, dev_Unregistered = False, dev_LastHeartbeatAt = None,
                 dev_Kind = kind, dev_ObservationPoints = observationPoints, dev_CameraLinks = []\<rparr>))
      | EdgeDeviceKindCamera \<Rightarrow>
          if observationPointNames \<noteq> [] then throwE (Err ErrCameraPointNamesNotAllowed)
          else if linked = '''' then throwE (Err ErrCameraLinkedPointRequired)
          else bindE (liftE (ParseObservationPointID linked)) (\<lambda>linkedPointID.
               bindE NewEdgeDeviceID (\<lambda>id.
               returnE \<lparr>dev_ID = id, dev_TenantPublicID = tenantPublicID, dev_EventID = eventID,
                 dev_Name = name, dev_Unregistered = False, dev_LastHeartbeatAt = None,
                 dev_Kind = EdgeDeviceKindCamera, dev_ObservationPoints = [],
                 dev_CameraLinks = [\<lparr>cl_CameraEdgeDeviceID = id, cl_ObservationPointID = linkedPointID\<rparr>]\<rparr>))
      | EdgeDeviceKindOther n \<Rightarrow> throwE (Err ErrEdgeDeviceKindInvalid)))"

definition NewEdgeDevice ::
  "string \<Rightarrow> string \<Rightarrow> string \<Rightarrow> string list \<Rightarrow> (entropy, err, EdgeDevice) prog" where
  "NewEdgeDevice tenantPublicID eventID name observationPointNames =
     NewEdgeDeviceWithKind tenantPublicID eventID name EdgeDeviceKindObservationPage observationPointNames ''''"

definition Unregister :: "EdgeDevice \<Rightarrow> err + EdgeDevice" where
  "Unregister d =
     (if dev_Unregistered d then Inl (Err ErrEdgeDeviceUnregistered)
      else let d = d\<lparr>dev_Unregistered := True\<rparr> in
        if dev_Kind d = EdgeDeviceKindCamera then Inr (d\<lparr>dev_CameraLinks := []\<rparr>)
        else Inr (d\<lparr>dev_ObservationPoints := map (\<lambda>p. p\<lparr>pt_Enabled := False\<rparr>) (dev_ObservationPoints d)\<rparr>))"

fun update_first_point ::
  "ObservationPointID \<Rightarrow> string \<Rightarrow> bool \<Rightarrow> ObservationPoint list
     \<Rightarrow> (ObservationPoint \<times> ObservationPoint list) option" where
  "update_first_point pid name enabled [] = None"
| "update_first_point pid name enabled (p # ps) =
     (if pt_ID p \<noteq> pid
      then map_option (\<lambda>(q, qs). (q, p # qs)) (update_first_point pid name enabled ps)
      else let q = p\<lparr>pt_Name := name, pt_Enabled := enabled\<rparr> in Some (q, q # ps))"

definition UpdateObservationPoint ::
  "ObservationPointID \<Rightarrow> string \<Rightarrow> bool \<Rightarrow> EdgeDevice \<Rightarrow> err + (ObservationPoint \<times> EdgeDevice)" where
  "UpdateObservationPoint pid name enabled d =
     (if dev_Unregistered d then Inl (Err ErrEdgeDeviceUnregistered)
      else let name = trim_space name in
        if name = '''' then Inl (Err ErrObservationPointNameRequired)
        else case update_first_point pid name enabled (dev_ObservationPoints d) of
            None \<Rightarrow> Inl (Err ErrObservationPointNotFound)
          | Some (q, ps) \<Rightarrow> Inr (q, d\<lparr>dev_ObservationPoints := ps\<rparr>))"

definition Online :: "EdgeDevice \<Rightarrow> time \<Rightarrow> duration \<Rightarrow> bool" where
  "Online d now heartbeatTimeout =
     (if dev_Kind d = EdgeDeviceKindCamera \<or> dev_Unregistered d then False
      else case dev_LastHeartbeatAt d of
          None \<Rightarrow> False
        | Some t \<Rightarrow> time_sub now t \<le> heartbeatTimeout)"

definition HasObservationPoint :: "EdgeDevice \<Rightarrow> ObservationPointID \<Rightarrow> bool" where
  "HasObservationPoint d pid = list_ex (\<lambda>p. pt_ID p = pid) (dev_ObservationPoints d)"

definition Heartbeat :: "time \<Rightarrow> ObservationPointID list \<Rightarrow> EdgeDevice \<Rightarrow> err + EdgeDevice" where
  "Heartbeat now activeIDs d =
     (if dev_Kind d = EdgeDeviceKindCamera then Inl (Err ErrEdgeDeviceCameraUnsupported)
      else if dev_Unregistered d then Inl (Err ErrEdgeDeviceUnregistered)
      else if \<not> list_all (HasObservationPoint d) activeIDs then Inl (Err ErrObservationPointNotFound)
      else Inr (d\<lparr>dev_LastHeartbeatAt := Some now,
        dev_ObservationPoints := map (\<lambda>p. if List.member activeIDs (pt_ID p) then p\<lparr>pt_LastActiveAt := Some now\<rparr> else p)
          (dev_ObservationPoints d)\<rparr>))"

subsection \<open>The device invariant\<close>

definition trimmed :: "string \<Rightarrow> bool" where
  "trimmed s \<longleftrightarrow> s \<noteq> '''' \<and> trim_space s = s"

definition point_wf :: "ObservationPoint \<Rightarrow> bool" where
  "point_wf p \<longleftrightarrow> is_public_id (pt_ID p) \<and> trimmed (pt_Name p)"

definition edge_device_wf :: "EdgeDevice \<Rightarrow> bool" where
  "edge_device_wf d \<longleftrightarrow>
     is_public_id (dev_ID d) \<and> trimmed (dev_TenantPublicID d) \<and> trimmed (dev_EventID d) \<and>
     trimmed (dev_Name d) \<and> list_all point_wf (dev_ObservationPoints d) \<and>
     (dev_Unregistered d \<longrightarrow> list_all (\<lambda>p. \<not> pt_Enabled p) (dev_ObservationPoints d)) \<and>
     (case dev_Kind d of
        EdgeDeviceKindObservationPage \<Rightarrow> True
      | EdgeDeviceKindCamera \<Rightarrow>
          dev_ObservationPoints d = [] \<and> dev_LastHeartbeatAt d = None \<and>
          list_all (\<lambda>l. cl_CameraEdgeDeviceID l = dev_ID d \<and> is_public_id (cl_ObservationPointID l)) (dev_CameraLinks d) \<and>
          length (dev_CameraLinks d) = (if dev_Unregistered d then 0 else 1)
      | EdgeDeviceKindOther n \<Rightarrow> False)"

lemma trimmed_trim [simp]: "trim_space s \<noteq> '''' \<Longrightarrow> trimmed (trim_space s)"
  by (simp add: trimmed_def)

lemma new_points_wf:
  "new_points names src = (Inr ps, src') \<Longrightarrow>
     list_all point_wf ps \<and> list_all pt_Enabled ps \<and> map pt_Name ps = map trim_space names \<and>
     list_all (\<lambda>p. pt_LastActiveAt p = None) ps"
proof (induction names arbitrary: ps src)
  case (Cons n names)
  from Cons.prems obtain q qs src1 src2 where
    "trim_space n \<noteq> ''''" "NewObservationPointID src = (Inr q, src1)" "new_points names src1 = (Inr qs, src2)"
    "ps = \<lparr>pt_ID = q, pt_Name = trim_space n, pt_Enabled = True, pt_LastActiveAt = None\<rparr> # qs" "src2 = src'"
    by (auto simp: Let_def bindE_Inr split: if_splits)
  with Cons.IH [of src1 qs] show ?case
    by (auto simp: point_wf_def dest: newID_valid)
qed simp

lemma update_first_point_Some:
  "update_first_point pid n b ps = Some (q, qs) \<Longrightarrow>
     (\<exists>us p vs. ps = us @ p # vs \<and> pt_ID p = pid \<and> (\<forall>u \<in> set us. pt_ID u \<noteq> pid) \<and>
        q = p\<lparr>pt_Name := n, pt_Enabled := b\<rparr> \<and> qs = us @ q # vs)"
proof (induction ps arbitrary: qs)
  case (Cons p ps)
  show ?case
  proof (cases "pt_ID p = pid")
    case True
    with Cons.prems show ?thesis by (intro exI [of _ "[]"]) (auto simp: Let_def)
  next
    case False
    with Cons.prems obtain rs where rs: "update_first_point pid n b ps = Some (q, rs)" "qs = p # rs"
      by auto
    from Cons.IH [OF rs(1)] obtain us p' vs where
      "ps = us @ p' # vs" "pt_ID p' = pid" "\<forall>u \<in> set us. pt_ID u \<noteq> pid"
      "q = p'\<lparr>pt_Name := n, pt_Enabled := b\<rparr>" "rs = us @ q # vs" by blast
    with False rs show ?thesis by (intro exI [of _ "p # us"]) auto
  qed
qed simp

lemma update_first_point_None: "update_first_point pid n b ps = None \<longleftrightarrow> (\<forall>p \<in> set ps. pt_ID p \<noteq> pid)"
  by (induction ps) (auto simp: Let_def)

lemma NewEdgeDeviceWithKind_wf:
  assumes "NewEdgeDeviceWithKind tenant event name kind names linked src = (Inr d, src')"
  shows "edge_device_wf d \<and> \<not> dev_Unregistered d \<and> dev_Kind d = kind \<and>
    dev_TenantPublicID d = trim_space tenant \<and> dev_EventID d = trim_space event \<and> dev_Name d = trim_space name"
proof (cases kind)
  case EdgeDeviceKindObservationPage
  with assms show ?thesis
    by (auto simp: NewEdgeDeviceWithKind_def Let_def bindE_Inr edge_device_wf_def split: if_splits
        dest: new_points_wf newID_valid)
next
  case EdgeDeviceKindCamera
  with assms show ?thesis
    by (auto simp: NewEdgeDeviceWithKind_def Let_def bindE_Inr edge_device_wf_def parsePublicID_iff
        split: if_splits dest: newID_valid)
next
  case EdgeDeviceKindOther
  with assms show ?thesis
    by (auto simp: NewEdgeDeviceWithKind_def Let_def split: if_splits)
qed

lemma Unregister_wf:
  "edge_device_wf d \<Longrightarrow> Unregister d = Inr d' \<Longrightarrow> edge_device_wf d'"
  by (auto simp: Unregister_def edge_device_wf_def list_all_iff point_wf_def Let_def
      split: if_splits EdgeDeviceKind.splits)

lemma UpdateObservationPoint_wf:
  assumes "edge_device_wf d" and "UpdateObservationPoint pid n b d = Inr (q, d')"
  shows "edge_device_wf d' \<and> point_wf q"
  using assms
  by (auto simp: UpdateObservationPoint_def edge_device_wf_def list_all_iff point_wf_def Let_def
      split: if_splits option.splits EdgeDeviceKind.splits dest!: update_first_point_Some)

lemma Heartbeat_wf:
  "edge_device_wf d \<Longrightarrow> Heartbeat now ids d = Inr d' \<Longrightarrow> edge_device_wf d'"
  by (auto simp: Heartbeat_def edge_device_wf_def list_all_iff point_wf_def
      split: if_splits EdgeDeviceKind.splits)

lemma Unregister_frame:
  "Unregister d = Inr d' \<Longrightarrow>
     dev_ID d' = dev_ID d \<and> dev_TenantPublicID d' = dev_TenantPublicID d \<and> dev_EventID d' = dev_EventID d \<and>
     dev_Name d' = dev_Name d \<and> dev_Kind d' = dev_Kind d \<and> dev_LastHeartbeatAt d' = dev_LastHeartbeatAt d \<and>
     dev_Unregistered d' \<and> \<not> dev_Unregistered d \<and>
     map pt_ID (dev_ObservationPoints d') = map pt_ID (dev_ObservationPoints d)"
  by (auto simp: Unregister_def Let_def split: if_splits)

lemma Heartbeat_frame:
  "Heartbeat now ids d = Inr d' \<Longrightarrow>
     dev_ID d' = dev_ID d \<and> dev_TenantPublicID d' = dev_TenantPublicID d \<and> dev_EventID d' = dev_EventID d \<and>
     dev_Kind d' = dev_Kind d \<and> \<not> dev_Unregistered d' \<and> \<not> dev_Unregistered d \<and>
     map pt_ID (dev_ObservationPoints d') = map pt_ID (dev_ObservationPoints d) \<and>
     map pt_Enabled (dev_ObservationPoints d') = map pt_Enabled (dev_ObservationPoints d)"
  by (auto simp: Heartbeat_def split: if_splits)

lemma UpdateObservationPoint_frame:
  "UpdateObservationPoint pid n b d = Inr (q, d') \<Longrightarrow>
     dev_ID d' = dev_ID d \<and> dev_TenantPublicID d' = dev_TenantPublicID d \<and> dev_EventID d' = dev_EventID d \<and>
     dev_Kind d' = dev_Kind d \<and> \<not> dev_Unregistered d' \<and>
     map pt_ID (dev_ObservationPoints d') = map pt_ID (dev_ObservationPoints d) \<and> pt_ID q = pid"
  by (auto simp: UpdateObservationPoint_def Let_def split: if_splits option.splits
      dest!: update_first_point_Some)

lemma ParseEdgeDeviceKind_String:
  "kind \<in> {EdgeDeviceKindObservationPage, EdgeDeviceKindCamera} \<Longrightarrow>
     ParseEdgeDeviceKind (kind_String kind) = (kind, None)"
  by auto

end
