(* ===== verification/ObservationSettings.thy ===== *)
theory ObservationSettings
  imports EdgeDevice
begin

section \<open>domain/observation\_settings.go: the observation settings of an event\<close>

text \<open>
  The settings of an event: how many days of history are summarised, and the event type. Go's open
  enumeration \<open>EventType\<close> has its three named values and any other integer.
\<close>

datatype EventType = EventTypeUnspecified | EventTypeShortTerm | EventTypeLongTerm | EventTypeOther int

record ObservationSettings =
  os_HistoryWindowDays :: int32
  os_EventType :: EventType

definition DefaultHistoryWindowDays :: int32 where "DefaultHistoryWindowDays = 30"

definition DefaultObservationSettings :: ObservationSettings where
  "DefaultObservationSettings =
     \<lparr>os_HistoryWindowDays = DefaultHistoryWindowDays, os_EventType = EventTypeUnspecified\<rparr>"

definition NewObservationSettings :: "int32 \<Rightarrow> EventType \<Rightarrow> err + ObservationSettings" where
  "NewObservationSettings historyWindowDays eventType =
     (if sint historyWindowDays < 1 then Inl (Err ErrInvalidHistoryWindow)
      else if eventType \<noteq> EventTypeShortTerm \<and> eventType \<noteq> EventTypeLongTerm then Inl (Err ErrEventTypeRequired)
      else Inr \<lparr>os_HistoryWindowDays = historyWindowDays, os_EventType = eventType\<rparr>)"

definition settings_ok :: "ObservationSettings \<Rightarrow> bool" where
  "settings_ok s \<longleftrightarrow> 1 \<le> sint (os_HistoryWindowDays s) \<and> os_EventType s \<in> {EventTypeShortTerm, EventTypeLongTerm}"

lemma NewObservationSettings_iff:
  "NewObservationSettings d t = Inr s \<longleftrightarrow>
     s = \<lparr>os_HistoryWindowDays = d, os_EventType = t\<rparr> \<and> settings_ok s"
  by (auto simp: NewObservationSettings_def settings_ok_def)

end
