(* ===== verification/Float64.thy ===== *)
theory Float64
  imports GoTime "HOL-Library.Log_Nat"
begin

section \<open>IEEE 754 binary64: Go's float64\<close>

text \<open>
  A \<open>float64\<close> is a NaN, an infinity with its sign, or a sign and an exact rational
  magnitude (so that \<open>-0\<close> and \<open>+0\<close> differ). Every arithmetic operation computes the exact
  rational and rounds it to 53 significant bits, to nearest with ties to even, with gradual
  underflow at \<open>2 ^ -1074\<close> and overflow to infinity at \<open>2 ^ 1024\<close>: the rounding mode
  Go prescribes. Fused multiply-add, which Go permits on some architectures, is not
  used here (amd64 does not fuse). Comparisons with a NaN are false.
  The main facts are that rounding is monotone (\<open>round_mag_mono\<close>), exact on integers of at most 53
  bits (\<open>round_mag_int\<close>), and that sums, products and quotients of non-negative numbers
  are non-negative and never NaN.
\<close>

datatype f64 = NaN | Inf bool | Num bool rat

definition val :: "f64 \<Rightarrow> rat" where
  "val x = (case x of Num s m \<Rightarrow> if s then - m else m | _ \<Rightarrow> 0)"

lemma val_Num [simp]: "val (Num s m) = (if s then - m else m)"
  by (simp add: val_def)

subsection \<open>Rounding\<close>

definition round_half_even :: "rat \<Rightarrow> int" where
  "round_half_even x =
     (let f = \<lfloor>x\<rfloor>; d = x - of_int f
      in if d < 1 / 2 then f else if 1 / 2 < d then f + 1 else if even f then f else f + 1)"

definition floor_log2 :: "rat \<Rightarrow> int" where
  "floor_log2 m =
     (let (a, b) = quotient_of m; e = bitlen a - bitlen b
      in if 2 powi e \<le> m then e else e - 1)"

definition ulp_exp :: "rat \<Rightarrow> int" where
  "ulp_exp m = max (- 1074) (floor_log2 m - 52)"

definition round_mag :: "rat \<Rightarrow> rat" where
  "round_mag m =
     (if m \<le> 0 then 0 else of_int (round_half_even (m / 2 powi ulp_exp m)) * 2 powi ulp_exp m)"

definition mk :: "bool \<Rightarrow> rat \<Rightarrow> f64" where
  "mk s m = (let r = round_mag m in if 2 ^ 1024 \<le> r then Inf s else Num s r)"

definition rnd :: "bool \<Rightarrow> rat \<Rightarrow> f64" where
  "rnd z q = (if q = 0 then Num z 0 else mk (q < 0) \<bar>q\<bar>)"

text \<open>For evaluation: whether the range is exceeded is a matter of the length of the integral part.\<close>

lemma mk_code [code]: "mk s m = (let r = round_mag m in if 1024 < bitlen \<lfloor>r\<rfloor> then Inf s else Num s r)"
proof -
  have "2 ^ 1024 \<le> r \<longleftrightarrow> 1024 < bitlen \<lfloor>r\<rfloor>" for r :: rat
  proof -
    have "2 ^ 1024 \<le> r \<longleftrightarrow> (2 ^ 1024 :: int) \<le> \<lfloor>r\<rfloor>" by (simp add: le_floor_iff)
    also have "\<dots> \<longleftrightarrow> 1024 < bitlen \<lfloor>r\<rfloor>"
      by (simp add: not_le [symmetric] bitlen_le_iff_power)
    finally show ?thesis .
  qed
  then show ?thesis by (simp only: mk_def Let_def)
qed

subsection \<open>Operations\<close>

fun fneg :: "f64 \<Rightarrow> f64" where
  "fneg NaN = NaN"
| "fneg (Inf s) = Inf (\<not> s)"
| "fneg (Num s m) = Num (\<not> s) m"

fun fadd :: "f64 \<Rightarrow> f64 \<Rightarrow> f64" where
  "fadd NaN _ = NaN"
| "fadd _ NaN = NaN"
| "fadd (Inf s) (Inf t) = (if s = t then Inf s else NaN)"
| "fadd (Inf s) (Num _ _) = Inf s"
| "fadd (Num _ _) (Inf t) = Inf t"
| "fadd (Num s m) (Num t n) = rnd (s \<and> t) (val (Num s m) + val (Num t n))"

definition fsub :: "f64 \<Rightarrow> f64 \<Rightarrow> f64" where
  "fsub a b = fadd a (fneg b)"

fun fmul :: "f64 \<Rightarrow> f64 \<Rightarrow> f64" where
  "fmul NaN _ = NaN"
| "fmul _ NaN = NaN"
| "fmul (Inf s) (Inf t) = Inf (s \<noteq> t)"
| "fmul (Inf s) (Num t n) = (if n = 0 then NaN else Inf (s \<noteq> t))"
| "fmul (Num s m) (Inf t) = (if m = 0 then NaN else Inf (s \<noteq> t))"
| "fmul (Num s m) (Num t n) = mk (s \<noteq> t) (m * n)"

fun fdiv :: "f64 \<Rightarrow> f64 \<Rightarrow> f64" where
  "fdiv NaN _ = NaN"
| "fdiv _ NaN = NaN"
| "fdiv (Inf s) (Inf t) = NaN"
| "fdiv (Inf s) (Num t n) = Inf (s \<noteq> t)"
| "fdiv (Num s m) (Inf t) = Num (s \<noteq> t) 0"
| "fdiv (Num s m) (Num t n) =
     (if n = 0 then (if m = 0 then NaN else Inf (s \<noteq> t)) else mk (s \<noteq> t) (m / n))"

fun fle :: "f64 \<Rightarrow> f64 \<Rightarrow> bool" where
  "fle NaN _ = False"
| "fle _ NaN = False"
| "fle (Inf s) (Inf t) = (s \<or> \<not> t)"
| "fle (Inf s) (Num _ _) = s"
| "fle (Num _ _) (Inf t) = (\<not> t)"
| "fle (Num s m) (Num t n) = (val (Num s m) \<le> val (Num t n))"

fun feq :: "f64 \<Rightarrow> f64 \<Rightarrow> bool" where
  "feq NaN _ = False"
| "feq _ NaN = False"
| "feq (Inf s) (Inf t) = (s = t)"
| "feq (Num s m) (Num t n) = (val (Num s m) = val (Num t n))"
| "feq _ _ = False"

definition flt :: "f64 \<Rightarrow> f64 \<Rightarrow> bool" where
  "flt a b \<longleftrightarrow> fle a b \<and> \<not> feq a b"

definition is_nan :: "f64 \<Rightarrow> bool" where "is_nan x \<longleftrightarrow> x = NaN"
definition is_inf :: "f64 \<Rightarrow> bool" where "is_inf x \<longleftrightarrow> (\<exists>s \<in> {True, False}. x = Inf s)"

definition f_of_int :: "int \<Rightarrow> f64" where
  "f_of_int n = mk (n < 0) (of_int \<bar>n\<bar>)"

definition f_of_rat :: "rat \<Rightarrow> f64" where
  "f_of_rat q = mk (q < 0) \<bar>q\<bar>"

definition f_zero :: f64 where "f_zero = Num False 0"

text \<open>\<open>Duration.Minutes\<close>, \<open>Hours\<close> and \<open>Seconds\<close> as the standard library computes them.\<close>

definition dur_minutes :: "duration \<Rightarrow> f64" where
  "dur_minutes d = fadd (f_of_int (quot d minute)) (fdiv (f_of_int (rem d minute)) (f_of_int minute))"

definition dur_hours :: "duration \<Rightarrow> f64" where
  "dur_hours d = fadd (f_of_int (quot d hour)) (fdiv (f_of_int (rem d hour)) (f_of_int hour))"

definition dur_seconds :: "duration \<Rightarrow> f64" where
  "dur_seconds d = fadd (f_of_int (quot d second)) (fdiv (f_of_int (rem d second)) (f_of_int second))"

subsection \<open>Rounding is monotone and exact on short integers\<close>

lemma bitlen_rat_bounds:
  assumes "0 < a"
  shows "\<exists>l. bitlen a = int l + 1 \<and> (2::rat) ^ l \<le> of_int a \<and> of_int a < (2::rat) ^ (l + 1)"
proof -
  define l where "l = nat (bitlen a - 1)"
  have "bitlen a \<noteq> 0" using assms by (simp add: bitlen_eq_zero_iff)
  then have len: "bitlen a = int l + 1" using bitlen_nonneg [of a] by (simp add: l_def)
  then have "nat (bitlen a) = l + 1" by simp
  with bitlen_bounds [OF assms] have "2 ^ l \<le> a" and "a < 2 ^ (l + 1)" by (simp_all add: l_def)
  then have "(of_int (2 ^ l) :: rat) \<le> of_int a" and "(of_int a :: rat) < of_int (2 ^ (l + 1))"
    by (simp_all only: of_int_le_iff of_int_less_iff)
  with len show ?thesis by auto
qed

lemma floor_log2_bounds:
  assumes "0 < m"
  shows "2 powi floor_log2 m \<le> m" and "m < 2 powi (floor_log2 m + 1)"
proof -
  obtain a b where ab: "quotient_of m = (a, b)" by fastforce
  have b: "0 < b" using ab by (rule quotient_of_denom_pos)
  have m: "m = of_int a / of_int b" using ab by (rule quotient_of_div)
  with assms b have a: "0 < a" by (simp add: zero_less_divide_iff)
  from bitlen_rat_bounds [OF a] obtain la where la: "bitlen a = int la + 1"
    and A: "(2::rat) ^ la \<le> of_int a" "of_int a < (2::rat) ^ (la + 1)" by blast
  from bitlen_rat_bounds [OF b] obtain lb where lb: "bitlen b = int lb + 1"
    and B: "(2::rat) ^ lb \<le> of_int b" "of_int b < (2::rat) ^ (lb + 1)" by blast
  define e where "e = bitlen a - bitlen b"
  have e: "e = int la - int lb" by (simp add: e_def la lb)
  have bpos: "(0::rat) < of_int b" using b by simp
  have up: "m < 2 powi (e + 1)"
  proof -
    have "of_int a < (2::rat) ^ (la + 1)" by (rule A)
    also have "\<dots> = 2 powi (e + 1) * 2 ^ lb"
      by (simp add: e add.commute flip: power_int_of_nat power_int_add)
    also have "\<dots> \<le> 2 powi (e + 1) * of_int b" using B(1) by simp
    finally show ?thesis using bpos by (simp add: m divide_less_eq)
  qed
  have lo: "2 powi (e - 1) \<le> m"
  proof -
    have "2 powi (e - 1) * of_int b \<le> 2 powi (e - 1) * (2::rat) ^ (lb + 1)"
      using B(2) by (intro mult_left_mono) simp_all
    also have "\<dots> = 2 ^ la" by (simp add: e flip: power_int_of_nat power_int_add)
    also have "\<dots> \<le> of_int a" by (rule A)
    finally show ?thesis using bpos by (simp add: m le_divide_eq)
  qed
  show "2 powi floor_log2 m \<le> m" "m < 2 powi (floor_log2 m + 1)"
    using up lo by (auto simp: floor_log2_def ab e_def Let_def)
qed

lemma floor_log2_mono:
  assumes "0 < x" and "x \<le> y"
  shows "floor_log2 x \<le> floor_log2 y"
proof (rule ccontr)
  assume "\<not> ?thesis"
  then have "floor_log2 y + 1 \<le> floor_log2 x" by simp
  then have "(2::rat) powi (floor_log2 y + 1) \<le> 2 powi floor_log2 x"
    by (intro power_int_increasing) simp_all
  with floor_log2_bounds [of x] floor_log2_bounds [of y] assms show False by simp
qed

lemma round_half_even_mono:
  assumes "x \<le> y"
  shows "round_half_even x \<le> round_half_even y"
proof (cases "\<lfloor>x\<rfloor> = \<lfloor>y\<rfloor>")
  case True
  with assms show ?thesis by (auto simp: round_half_even_def Let_def)
next
  case False
  with assms have "\<lfloor>x\<rfloor> + 1 \<le> \<lfloor>y\<rfloor>" by (meson floor_mono order_le_less zless_imp_add1_zle)
  moreover have "round_half_even x \<le> \<lfloor>x\<rfloor> + 1" and "\<lfloor>y\<rfloor> \<le> round_half_even y"
    by (auto simp: round_half_even_def Let_def)
  ultimately show ?thesis by linarith
qed

lemma round_half_even_int [simp]: "round_half_even (of_int n) = n"
  by (simp add: round_half_even_def)

lemma round_half_even_numeral [simp]:
  "round_half_even 0 = 0" "round_half_even 1 = 1" "round_half_even (numeral k) = numeral k"
  using round_half_even_int [of 0] round_half_even_int [of 1] round_half_even_int [of "numeral k"]
  by simp_all

lemma round_mag_nonpos [simp]: "m \<le> 0 \<Longrightarrow> round_mag m = 0"
  by (simp add: round_mag_def)

lemma round_mag_nonneg [simp]: "0 \<le> round_mag m"
proof (cases "m \<le> 0")
  case False
  then have "round_half_even 0 \<le> round_half_even (m / 2 powi ulp_exp m)"
    by (intro round_half_even_mono) simp
  with False show ?thesis by (simp add: round_mag_def)
qed simp

text \<open>A grid point at or below the exponent range of \<open>m\<close> bounds the rounding of \<open>m\<close>.\<close>

lemma round_mag_ge:
  assumes "0 < m" and "of_int k * 2 powi ulp_exp m \<le> m"
  shows "of_int k * 2 powi ulp_exp m \<le> round_mag m"
proof -
  from assms(2) have "of_int k \<le> m / 2 powi ulp_exp m"
    by (simp add: le_divide_eq)
  then have "round_half_even (of_int k) \<le> round_half_even (m / 2 powi ulp_exp m)"
    by (rule round_half_even_mono)
  then have "(of_int k :: rat) \<le> of_int (round_half_even (m / 2 powi ulp_exp m))" by simp
  with assms(1) show ?thesis by (simp add: round_mag_def)
qed

lemma round_mag_le:
  assumes "0 < m" and "m \<le> of_int k * 2 powi ulp_exp m"
  shows "round_mag m \<le> of_int k * 2 powi ulp_exp m"
proof -
  from assms(2) have "m / 2 powi ulp_exp m \<le> of_int k"
    by (simp add: divide_le_eq)
  then have "round_half_even (m / 2 powi ulp_exp m) \<le> round_half_even (of_int k)"
    by (rule round_half_even_mono)
  then have "(of_int (round_half_even (m / 2 powi ulp_exp m)) :: rat) \<le> of_int k" by simp
  with assms(1) show ?thesis by (simp add: round_mag_def)
qed

lemma pow2_on_grid:
  assumes "u \<le> e"
  shows "(2::rat) powi e = of_int (2 ^ nat (e - u)) * 2 powi u"
  using assms by (simp flip: power_int_of_nat power_int_add)

lemma round_mag_mono:
  assumes "x \<le> y"
  shows "round_mag x \<le> round_mag y"
proof (cases "x \<le> 0")
  case False
  then have x: "0 < x" and y: "0 < y" using assms by simp_all
  show ?thesis
  proof (cases "ulp_exp x = ulp_exp y")
    case True
    have "round_half_even (x / 2 powi ulp_exp x) \<le> round_half_even (y / 2 powi ulp_exp x)"
      using assms by (intro round_half_even_mono divide_right_mono) simp_all
    with x y True show ?thesis by (simp add: round_mag_def)
  next
    case False
    let ?e = "floor_log2 x"
    from False floor_log2_mono [OF x assms] have lt: "?e < floor_log2 y" "ulp_exp x < ulp_exp y"
      by (auto simp: ulp_exp_def)
    then have uy: "ulp_exp y = floor_log2 y - 52" by (auto simp: ulp_exp_def)
    have ux: "ulp_exp x \<le> floor_log2 y" "ulp_exp y \<le> floor_log2 y"
      using lt uy by auto
    have "x \<le> 2 powi (?e + 1)" using floor_log2_bounds [OF x] by simp
    also have "\<dots> \<le> (2::rat) powi floor_log2 y" using lt by (intro power_int_increasing) simp_all
    finally have "round_mag x \<le> 2 powi floor_log2 y"
      unfolding pow2_on_grid [OF ux(1)] by (rule round_mag_le [OF x])
    also have "\<dots> \<le> round_mag y"
      using floor_log2_bounds(1) [OF y] unfolding pow2_on_grid [OF ux(2)] by (rule round_mag_ge [OF y])
    finally show ?thesis .
  qed
qed simp

lemma round_mag_grid:
  assumes "0 < m" and "m = of_int k * 2 powi ulp_exp m"
  shows "round_mag m = m"
proof -
  have "m / 2 powi ulp_exp m = of_int k"
    using assms(2) by (simp add: field_simps)
  with assms show ?thesis by (simp add: round_mag_def)
qed

lemma round_mag_exact:
  assumes "0 \<le> k" and "k \<le> 2 ^ 53" and "- 1074 \<le> e"
  shows "round_mag (of_int k * 2 powi e) = of_int k * 2 powi e"
proof (cases "k = 0")
  case False
  define m :: rat where "m = of_int k * 2 powi e"
  from False assms have m: "0 < m" by (simp add: m_def)
  have "round_mag m = m"
  proof (cases "ulp_exp m \<le> e")
    case True
    have "m = of_int (k * 2 ^ nat (e - ulp_exp m)) * 2 powi ulp_exp m"
      using pow2_on_grid [OF True] by (simp add: m_def)
    then show ?thesis by (rule round_mag_grid [OF m])
  next
    case False
    with assms(3) have big: "e + 53 \<le> floor_log2 m" by (auto simp: ulp_exp_def)
    then have "(2::rat) powi (53 + e) \<le> 2 powi floor_log2 m" by (intro power_int_increasing) simp_all
    also have "\<dots> \<le> m" by (rule floor_log2_bounds [OF m])
    finally have "(2::rat) ^ 53 \<le> of_int k" by (simp add: m_def power_int_add)
    then have "k = 2 ^ 53"
      using assms(2) by (metis of_int_le_iff of_int_numeral of_int_power order_antisym)
    then have eq: "m = 2 powi (53 + e)" by (simp add: m_def power_int_add)
    have "floor_log2 m < 54 + e"
    proof (rule ccontr)
      assume "\<not> ?thesis"
      then have "(2::rat) powi (1 + (53 + e)) \<le> 2 powi floor_log2 m"
        by (intro power_int_increasing) simp_all
      with floor_log2_bounds(1) [OF m] have "(2::rat) powi (1 + (53 + e)) \<le> m" by simp
      then have "(2::rat) * 2 powi (53 + e) \<le> 2 powi (53 + e)"
        unfolding eq by (simp add: power_int_add)
      then show False by (simp add: power_int_add)
    qed
    with False assms(3) have "ulp_exp m \<le> 53 + e" by (auto simp: ulp_exp_def)
    from pow2_on_grid [OF this] eq have "m = of_int (2 ^ nat (53 + e - ulp_exp m)) * 2 powi ulp_exp m"
      by metis
    then show ?thesis by (rule round_mag_grid [OF m])
  qed
  then show ?thesis by (simp only: m_def)
qed simp

lemma round_mag_int:
  "0 \<le> n \<Longrightarrow> n \<le> 2 ^ 53 \<Longrightarrow> round_mag (of_int n) = of_int n"
  using round_mag_exact [of n 0] by simp

text \<open>A number with at most 53 significant bits is computed exactly.\<close>

lemma mk_exact:
  "0 \<le> k \<Longrightarrow> k \<le> 2 ^ 53 \<Longrightarrow> - 1074 \<le> e \<Longrightarrow> e \<le> 970 \<Longrightarrow>
     mk s (of_int k * 2 powi e) = Num s (of_int k * 2 powi e)"
proof -
  assume k: "0 \<le> k" "k \<le> 2 ^ 53" and e: "- 1074 \<le> e" "e \<le> 970"
  have "of_int k * 2 powi e \<le> (of_int (2 ^ 53) :: rat) * 2 powi 970"
    using k e by (intro mult_mono power_int_increasing) (simp_all only: of_int_le_iff, simp_all)
  also have "\<dots> < 2 ^ 1024" by simp
  finally show ?thesis using k e by (simp add: mk_def round_mag_exact)
qed

lemma mk_int: "0 \<le> n \<Longrightarrow> n \<le> 2 ^ 53 \<Longrightarrow> mk s (of_int n) = Num s (of_int n)"
  using mk_exact [of n 0 s] by simp

lemma f_of_int_exact: "\<bar>n\<bar> \<le> 2 ^ 53 \<Longrightarrow> f_of_int n = Num (n < 0) (of_int \<bar>n\<bar>)"
  by (simp only: f_of_int_def mk_int abs_ge_zero)

lemma round_mag_1 [simp]: "round_mag 1 = 1"
  using round_mag_int [of 1] by simp

lemma mk_zero [simp]: "mk s 0 = Num s 0"
  by (simp add: mk_def)

subsection \<open>Signs, order and finiteness\<close>

text \<open>\<open>nneg x\<close>: \<open>x\<close> is a number or \<open>+\<infinity>\<close>, with the sign bit clear.\<close>

fun nneg :: "f64 \<Rightarrow> bool" where
  "nneg NaN = False"
| "nneg (Inf s) = (\<not> s)"
| "nneg (Num s m) = (\<not> s \<and> 0 \<le> m)"

definition finite_f :: "f64 \<Rightarrow> bool" where
  "finite_f x \<longleftrightarrow> \<not> is_nan x \<and> \<not> is_inf x"

lemma finite_f_simps [simp]: "\<not> finite_f NaN" "\<not> finite_f (Inf s)" "finite_f (Num s m)"
  by (auto simp: finite_f_def is_nan_def is_inf_def)

lemma nneg_mk [simp]: "nneg (mk s m) \<longleftrightarrow> \<not> s"
  by (simp add: mk_def Let_def)

lemma nneg_zero [simp]: "nneg f_zero"
  by (simp add: f_zero_def)

lemma nneg_not_nan: "nneg x \<Longrightarrow> x \<noteq> NaN"
  by auto

lemma nneg_rnd: "0 \<le> q \<Longrightarrow> \<not> z \<Longrightarrow> nneg (rnd z q)"
  by (simp add: rnd_def)

lemma nneg_fadd [simp, intro]: "nneg x \<Longrightarrow> nneg y \<Longrightarrow> nneg (fadd x y)"
  by (cases x; cases y) (auto intro!: nneg_rnd)

lemma nneg_fdiv: "nneg x \<Longrightarrow> y = Num False n \<Longrightarrow> 0 < n \<Longrightarrow> nneg (fdiv x y)"
  by (cases x) auto

lemma nneg_f_of_int [simp]: "nneg (f_of_int n) \<longleftrightarrow> 0 \<le> n"
  by (auto simp: f_of_int_def)

lemma f_of_int_0 [simp]: "f_of_int 0 = f_zero"
  by (simp add: f_of_int_def f_zero_def)

lemma fadd_zero_right [simp]: "x = Num False m \<Longrightarrow> round_mag m = m \<Longrightarrow> m < 2 ^ 1024 \<Longrightarrow> 0 \<le> m \<Longrightarrow> fadd x f_zero = x"
  by (auto simp: f_zero_def rnd_def mk_def)

lemma fle_refl [simp]: "fle x x \<longleftrightarrow> x \<noteq> NaN"
  by (cases x) auto

lemma fle_trans: "fle x y \<Longrightarrow> fle y z \<Longrightarrow> fle x z"
  by (cases x; cases y; cases z) (auto split: if_splits)

lemma fle_total: "x \<noteq> NaN \<Longrightarrow> y \<noteq> NaN \<Longrightarrow> fle x y \<or> fle y x"
  by (cases x; cases y) auto

lemma flt_iff: "flt x y \<longleftrightarrow> x \<noteq> NaN \<and> y \<noteq> NaN \<and> \<not> fle y x"
  by (cases x; cases y) (auto simp: flt_def split: if_splits)

lemma mk_mono: "0 \<le> m \<Longrightarrow> m \<le> n \<Longrightarrow> fle (mk False m) (mk False n)"
  using round_mag_mono [of m n] by (auto simp: mk_def Let_def)

end
