(* ===== verification/EventGraph.thy ===== *)
theory EventGraph
  imports EdgeDevice Float64
begin

section \<open>domain/snapshot.go, guest\_status.go: the event graph, its anchors, the guest status\<close>

text \<open>
  The graph of an event as the operation service delivers it, and the \<open>GraphAnchor\<close>s (a point or
  a route) that sensors are mapped to. \<open>compareAnchors\<close> is the order the code sorts anchors by:
  first the route ID, then the point ID, both compared as Go strings (bytewise). The instance
  \<open>GraphAnchor :: linorder\<close> is that order, so that \<open>sort_key\<close> and \<open>sorted\<close> speak of it.
  Open integer enumerations have a constructor for every other integer.
\<close>

datatype PointType =
  PointTypeUnspecified | PointTypeGoal | PointTypeGoalTransitMixed | PointTypeTransitOnly | PointTypeOther int

datatype BoundaryDirection =
  BoundaryDirectionUnspecified | BoundaryDirectionEntry | BoundaryDirectionExit | BoundaryDirectionEntryAndExit
| BoundaryDirectionOther int

record Boundary =
  bd_Direction :: BoundaryDirection
  bd_Active :: bool

record Point =
  gp_ID :: string
  gp_Type :: PointType
  gp_Boundary :: "Boundary option"

record Route =
  rt_ID :: string
  rt_FromPointID :: string
  rt_ToPointID :: string
  rt_OneWay :: bool
  rt_CapacityHint :: "f64 option"

record Graph =
  gr_EventID :: string
  gr_RevisionID :: string
  gr_Points :: "Point list"
  gr_Routes :: "Route list"

datatype GraphAnchor = GraphAnchor (ga_PointID: string) (ga_RouteID: string)

definition cmp_Compare :: "string \<Rightarrow> string \<Rightarrow> int" where
  "cmp_Compare a b = (if a < b then - 1 else if a = b then 0 else 1)"

definition compareAnchors :: "GraphAnchor \<Rightarrow> GraphAnchor \<Rightarrow> int" where
  "compareAnchors a b =
     (let c = cmp_Compare (ga_RouteID a) (ga_RouteID b) in
      if c \<noteq> 0 then c else cmp_Compare (ga_PointID a) (ga_PointID b))"

lemma compareAnchors_eq: "compareAnchors a b = 0 \<longleftrightarrow> a = b"
  by (cases a; cases b) (auto simp: compareAnchors_def cmp_Compare_def Let_def)

instantiation GraphAnchor :: linorder
begin

definition less_GraphAnchor :: "GraphAnchor \<Rightarrow> GraphAnchor \<Rightarrow> bool" where
  "less_GraphAnchor a b \<longleftrightarrow> compareAnchors a b < 0"

definition less_eq_GraphAnchor :: "GraphAnchor \<Rightarrow> GraphAnchor \<Rightarrow> bool" where
  "less_eq_GraphAnchor a b \<longleftrightarrow> compareAnchors a b \<le> 0"

lemma less_anchor_pair:
  "a < b \<longleftrightarrow> (ga_RouteID a, ga_PointID a) < (ga_RouteID b, ga_PointID b)"
  by (auto simp: less_GraphAnchor_def compareAnchors_def cmp_Compare_def Let_def less_prod_def)

lemma less_eq_anchor_pair:
  "a \<le> b \<longleftrightarrow> (ga_RouteID a, ga_PointID a) \<le> (ga_RouteID b, ga_PointID b)"
  by (auto simp: less_eq_GraphAnchor_def compareAnchors_def cmp_Compare_def Let_def less_eq_prod_def
      split: if_splits)

instance
proof
  fix a b c :: GraphAnchor
  show "(a < b) = (a \<le> b \<and> \<not> b \<le> a)" by (auto simp: less_anchor_pair less_eq_anchor_pair)
  show "a \<le> a" by (simp add: less_eq_anchor_pair)
  show "a \<le> b \<Longrightarrow> b \<le> c \<Longrightarrow> a \<le> c" unfolding less_eq_anchor_pair by (rule order_trans)
  show "a \<le> b \<Longrightarrow> b \<le> a \<Longrightarrow> a = b"
    unfolding less_eq_anchor_pair by (cases a; cases b) (metis GraphAnchor.sel order_antisym prod.inject)
  show "a \<le> b \<or> b \<le> a" unfolding less_eq_anchor_pair by (rule linear)
qed

end

text \<open>Points come before routes, since a point anchor has the empty route ID.\<close>

lemma point_before_route: "ga_RouteID a = '''' \<Longrightarrow> ga_RouteID b \<noteq> '''' \<Longrightarrow> a < b"
  by (cases "ga_RouteID b") (simp_all add: less_anchor_pair less_prod_def)

datatype CrowdLevel =
  CrowdLevelUnspecified | CrowdLevelLow | CrowdLevelMid | CrowdLevelHigh | CrowdLevelOther int

record CrowdStatus =
  cs_Anchor :: GraphAnchor
  cs_Level :: CrowdLevel
  cs_Danger :: bool

record QueueStatus =
  qs_QueueID :: string
  qs_GatePointIDs :: "string list"
  qs_WaitTimeMinutes :: f64
  qs_TurnaroundCount :: int32
  qs_RecommendedGatePointIDs :: "string list"

type_synonym uint64 = "64 word"

record GuestStatus =
  gs_EventID :: string
  gs_Sequence :: uint64
  gs_TakenAt :: time
  gs_Crowd :: "CrowdStatus list"
  gs_Queues :: "QueueStatus list"

end
