(* ===== verification/Database.thy ===== *)
theory Database
  imports TenantCtx ObservationSettings EventGraph
begin

section \<open>The world, PostgreSQL and infra/db/transaction.go\<close>

text \<open>
  The \<open>world\<close> is what the service acts on: the database, the clock (successive readings), the random
  source, the log, and the state of the remote services (\<open>w_ext\<close>, any type). PostgreSQL, its driver and the
  network are not part of the program; what the code sees of them is a script of faults (\<open>w_faults\<close>), one
  entry for each statement, BEGIN, COMMIT or ROLLBACK sent: it succeeds, or fails without effect
  (\<open>FailBefore\<close>), or takes effect and only the answer is lost (\<open>FailAfter\<close>). Theorems quantify over every
  script. Rows are kept in insertion order with their serial keys; the constraints are those of
  the files under \<open>migrations\<close>. A transaction runs as one block: row locks (\<open>FOR UPDATE\<close>) keep what it reads.
\<close>

subsection \<open>Tables\<close>

record edge_device_row =
  er_id :: int
  er_edge_device_id :: string
  er_tenant_public_id :: string
  er_event_id :: string
  er_name :: string
  er_unregistered :: bool
  er_last_heartbeat_at :: "time option"
  er_kind :: string

record observation_point_row =
  op_id :: int
  op_observation_point_id :: string
  op_edge_device_id :: int
  op_name :: string
  op_enabled :: bool
  op_last_active_at :: "time option"

record camera_link_row =
  lk_id :: int
  lk_camera_edge_device_id :: int
  lk_observation_point_id :: int

record measurement_row =
  me_id :: int
  me_tenant_public_id :: string
  me_event_id :: string
  me_edge_device_id :: "string option"
  me_observation_point_id :: string
  me_window_start :: time
  me_window_end :: time
  me_count_in :: int32
  me_count_out :: int32
  me_rate_in :: f64
  me_rate_out :: f64
  me_mean_detected_people :: "f64 option"

record settings_row =
  se_event_id :: string
  se_tenant_public_id :: string
  se_history_window_days :: int32
  se_event_type :: string

record hold_row =
  ho_id :: int
  ho_started_at :: time
  ho_ended_at :: "time option"
  ho_device_count :: int

text \<open>A JSON value as \<open>encoding/json\<close> writes and JSONB stores it; \<open>JNum\<close> is a float written in shortest form.\<close>

datatype json =
  JNull | JBool bool | JInt int | JNum f64 | JStr string | JArr "json list" | JObj "(string \<times> json) list"

record guest_row =
  gu_event_id :: string
  gu_tenant_public_id :: string
  gu_sequence :: int
  gu_taken_at :: time
  gu_crowd :: json
  gu_queues :: json

record snapshot_row =
  sr_id :: int
  sr_snapshot_id :: string
  sr_tenant_public_id :: string
  sr_event_id :: string
  sr_window_start :: time
  sr_window_end :: time
  sr_scores :: json

record sensor_set_row =
  sv_event_id :: string
  sv_point_id :: string
  sv_route_id :: string
  sv_observation_point_ids :: json
  sv_changed_at :: "time option"

record optimization_row =
  or_id :: int
  or_event_id :: string
  or_snapshot_id :: string
  or_verdict :: string
  or_detection_state :: "byte list"
  or_optimization_result :: "byte list option"
  or_diagnostics :: "byte list option"

record stagnation_row =
  ag_event_id :: string
  ag_hour_start :: time
  ag_route_id :: string
  ag_stagnation_bucket :: f64
  ag_same_sensor_flow :: bool
  ag_sample_count :: int
  ag_stagnation_sum :: f64
  ag_flow_sum :: f64
  ag_flow_square_sum :: f64
  ag_flow_stagnation_sum :: f64
  ag_first_start :: time
  ag_last_end :: time

record flow_dwell_row =
  dw_event_id :: string
  dw_hour_start :: time
  dw_route_id :: string
  dw_flow_bucket :: f64
  dw_dwell_bucket :: "f64 option"
  dw_sample_count :: int
  dw_first_start :: time
  dw_last_end :: time

record database =
  db_edge_devices :: "edge_device_row list"
  db_observation_points :: "observation_point_row list"
  db_camera_links :: "camera_link_row list"
  db_measurements :: "measurement_row list"
  db_settings :: "settings_row list"
  db_holds :: "hold_row list"
  db_guest_statuses :: "guest_row list"
  db_snapshots :: "snapshot_row list"
  db_sensor_sets :: "sensor_set_row list"
  db_optimization_results :: "optimization_row list"
  db_stagnation :: "stagnation_row list"
  db_flow_dwell :: "flow_dwell_row list"

text \<open>The next value of a BIGSERIAL key.\<close>

definition next_id :: "('r \<Rightarrow> int) \<Rightarrow> 'r list \<Rightarrow> int" where
  "next_id key rows = fold max (map key rows) 0 + 1"

lemma fold_max_above: "n \<le> fold max ns (n :: int)" "m \<in> set ns \<Longrightarrow> m \<le> fold max ns n"
proof -
  show above: "n \<le> fold max ns n" for n :: int and ns
  proof (induction ns arbitrary: n)
    case (Cons a ns)
    from Cons [of "max a n"] show ?case by simp
  qed simp
  show "m \<in> set ns \<Longrightarrow> m \<le> fold max ns n"
  proof (induction ns arbitrary: n)
    case (Cons a ns)
    with above [of "max a n" ns] show ?case by auto
  qed simp
qed

lemma next_id_fresh: "x \<in> set xs \<Longrightarrow> key x < next_id key xs"
  using fold_max_above(2) [of "key x" "map key xs" 0] by (simp add: next_id_def)

lemma next_id_notin: "next_id key xs \<notin> key ` set xs"
  using next_id_fresh [of _ xs key] by fastforce

subsection \<open>The world\<close>

text \<open>What the driver reports of its own: a server error by its SQLSTATE, a cancelled or expired context, anything else.\<close>

datatype driver_error = ServerError string | ConnectionError string | DriverCanceled | DriverDeadline

fun driver_err :: "driver_error \<Rightarrow> err" where
  "driver_err (ServerError code) = PgError code"
| "driver_err (ConnectionError text) = OtherError text"
| "driver_err DriverCanceled = Err ContextCanceled"
| "driver_err DriverDeadline = Err ContextDeadlineExceeded"

datatype fault = NoFault | FailBefore driver_error | FailAfter driver_error

lemma driver_err_is: "errors_is (driver_err e) s \<Longrightarrow> s = ContextCanceled \<or> s = ContextDeadlineExceeded"
  by (cases e) auto

record 'x world =
  w_db :: database
  w_faults :: "fault list"
  w_clock :: "nat \<Rightarrow> time"
  w_entropy :: entropy
  w_log :: "string list"
  w_ext :: 'x

type_synonym ('x, 'a) action = "('x world, err, 'a) prog"

definition next_fault :: "'x world \<Rightarrow> fault \<times> 'x world" where
  "next_fault w = (case w_faults w of [] \<Rightarrow> (NoFault, w) | f # fs \<Rightarrow> (f, w\<lparr>w_faults := fs\<rparr>))"

definition sql :: "(database \<Rightarrow> err + ('a \<times> database)) \<Rightarrow> ('x, 'a) action" where
  "sql stmt w =
     (let (f, w) = next_fault w in
      case f of
        NoFault \<Rightarrow> (case stmt (w_db w) of Inl e \<Rightarrow> (Inl e, w) | Inr (x, d) \<Rightarrow> (Inr x, w\<lparr>w_db := d\<rparr>))
      | FailBefore e \<Rightarrow> (Inl (driver_err e), w)
      | FailAfter e \<Rightarrow> (case stmt (w_db w) of Inl e' \<Rightarrow> (Inl (driver_err e), w)
                       | Inr (x, d) \<Rightarrow> (Inl (driver_err e), w\<lparr>w_db := d\<rparr>)))"

text \<open>A query changes nothing; \<open>GetContext\<close> of no row is \<open>sql.ErrNoRows\<close>, else the first row.\<close>

definition query :: "(database \<Rightarrow> 'a) \<Rightarrow> ('x, 'a) action" where
  "query q = sql (\<lambda>d. Inr (q d, d))"

definition query_one :: "(database \<Rightarrow> 'a list) \<Rightarrow> ('x, 'a) action" where
  "query_one q = sql (\<lambda>d. case q d of [] \<Rightarrow> Inl (Err SqlErrNoRows) | row # _ \<Rightarrow> Inr (row, d))"

definition exec :: "(database \<Rightarrow> database) \<Rightarrow> ('x, unit) action" where
  "exec f = sql (\<lambda>d. Inr ((), f d))"

definition now :: "('x, time) action" where
  "now w = (Inr (w_clock w 0), w\<lparr>w_clock := (\<lambda>i. w_clock w (Suc i))\<rparr>)"

definition slog :: "string \<Rightarrow> ('x, unit) action" where
  "slog message w = (Inr (), w\<lparr>w_log := w_log w @ [message]\<rparr>)"

text \<open>Drawing from the random source of the process.\<close>

definition draw :: "(entropy, err, 'a) prog \<Rightarrow> ('x, 'a) action" where
  "draw m w = (let (r, src) = m (w_entropy w) in (r, w\<lparr>w_entropy := src\<rparr>))"

subsection \<open>Transactions\<close>

definition sqlStateSerializationFailure :: string where "sqlStateSerializationFailure = ''40001''"
definition sqlStateDeadlockDetected :: string where "sqlStateDeadlockDetected = ''40P01''"
definition sqlStateUniqueViolation :: string where "sqlStateUniqueViolation = ''23505''"

definition isTransactionAbort :: "err \<Rightarrow> bool" where
  "isTransactionAbort e =
     (case errors_as_pg e of
        None \<Rightarrow> False
      | Some code \<Rightarrow> code = sqlStateSerializationFailure \<or> code = sqlStateDeadlockDetected)"

definition isUniqueViolation :: "err \<Rightarrow> bool" where
  "isUniqueViolation e = (case errors_as_pg e of None \<Rightarrow> False | Some code \<Rightarrow> code = sqlStateUniqueViolation)"

definition rollback :: "database \<Rightarrow> err \<Rightarrow> ('x, 'a) action" where
  "rollback d0 e w =
     (let (f, w) = next_fault w; w = w\<lparr>w_db := d0\<rparr> in
      case f of
        NoFault \<Rightarrow> (Inl e, w)
      | FailBefore e' \<Rightarrow> (Inl (Join e (Wrap ''rollback transaction'' (driver_err e'))), w)
      | FailAfter e' \<Rightarrow> (Inl (Join e (Wrap ''rollback transaction'' (driver_err e'))), w))"

definition commit :: "database \<Rightarrow> 'a \<Rightarrow> ('x, 'a) action" where
  "commit d0 x w =
     (let (f, w) = next_fault w in
      case f of
        NoFault \<Rightarrow> (Inr x, w)
      | FailBefore e \<Rightarrow> (Inl (Wrap ''commit transaction'' (driver_err e)), w\<lparr>w_db := d0\<rparr>)
      | FailAfter e \<Rightarrow> (Inl (Wrap ''commit transaction'' (driver_err e)), w))"

definition runInTransaction :: "Ctx \<Rightarrow> (Ctx \<Rightarrow> ('x, 'a) action) \<Rightarrow> ('x, 'a) action" where
  "runInTransaction ctx fn w =
     (if ctx_tx ctx then fn ctx w
      else
        let (f, w) = next_fault w in
        case f of
          FailBefore e \<Rightarrow> (Inl (Wrap ''begin transaction'' (driver_err e)), w)
        | FailAfter e \<Rightarrow> (Inl (Wrap ''begin transaction'' (driver_err e)), w)
        | NoFault \<Rightarrow>
            (case fn (ctx\<lparr>ctx_tx := True\<rparr>) w of
               (Inl e, w1) \<Rightarrow>
                 rollback (w_db w) (if isTransactionAbort e then Join e (Err ErrTransactionAborted) else e) w1
             | (Inr x, w1) \<Rightarrow> commit (w_db w) x w1))"

definition RunInTransaction :: "Ctx \<Rightarrow> (Ctx \<Rightarrow> ('x, 'a) action) \<Rightarrow> ('x, 'a) action" where
  "RunInTransaction ctx fn = runInTransaction ctx fn"

definition readSnapshot :: "Ctx \<Rightarrow> (Ctx \<Rightarrow> ('x, 'a) action) \<Rightarrow> ('x, 'a) action" where
  "readSnapshot ctx fn = runInTransaction ctx fn"

subsection \<open>What the primitives keep\<close>

lemma next_fault_simps [simp]:
  "w_db (snd (next_fault w)) = w_db w" "w_clock (snd (next_fault w)) = w_clock w"
  "w_entropy (snd (next_fault w)) = w_entropy w" "w_log (snd (next_fault w)) = w_log w"
  "w_ext (snd (next_fault w)) = w_ext w"
  by (simp_all add: next_fault_def split: list.split)

lemma next_fault_db: "next_fault w = (f, w') \<Longrightarrow> w_db w' = w_db w"
  by (metis next_fault_simps(1) snd_conv)

lemma next_fault_restore: "next_fault w = (f, w') \<Longrightarrow> w'\<lparr>w_db := w_db w\<rparr> = w'"
proof -
  assume "next_fault w = (f, w')"
  then have "w_db w = w_db w'" by (simp add: next_fault_db)
  then show ?thesis by simp
qed

lemma next_fault_quiet [simp]: "w_faults w = [] \<Longrightarrow> next_fault w = (NoFault, w)"
  by (simp add: next_fault_def)

text \<open>A program is a \<open>reader\<close> when it leaves the database as it is, whatever it returns.\<close>

definition same_db :: "'x world \<Rightarrow> 'x world \<Rightarrow> bool" where
  "same_db w w' \<longleftrightarrow> w_db w' = w_db w"

lemma same_db_rules [relates_rules, simp]: "reflp same_db" "transp same_db"
  by (auto simp: reflp_def transp_def same_db_def)

abbreviation reader :: "('x, 'a) action \<Rightarrow> bool" where
  "reader m \<equiv> relates same_db m"

lemma readerD: "reader m \<Longrightarrow> m w = (r, w') \<Longrightarrow> w_db w' = w_db w"
  by (metis relatesD same_db_def)

lemma sql_Inr:
  "sql stmt w = (Inr x, w') \<longleftrightarrow>
     (\<exists>w1 d. next_fault w = (NoFault, w1) \<and> stmt (w_db w) = Inr (x, d) \<and> w' = w1\<lparr>w_db := d\<rparr>)"
  by (auto simp: sql_def Let_def dest: next_fault_db split: prod.splits fault.splits sum.splits)

lemma sql_db:
  "sql stmt w = (r, w') \<Longrightarrow>
     w_db w' = w_db w \<or> (\<exists>x. stmt (w_db w) = Inr (x, w_db w'))"
  by (auto simp: sql_def Let_def dest: next_fault_db split: prod.splits fault.splits sum.splits)

lemma sql_Inl:
  "sql stmt w = (Inl e, w') \<Longrightarrow>
     stmt (w_db w) = Inl e \<and> w_db w' = w_db w \<or> (\<exists>de. e = driver_err de)"
  by (auto simp: sql_def Let_def dest: next_fault_db split: prod.splits fault.splits sum.splits)

lemma query_one_none:
  "query_one q w = (Inl e, w') \<Longrightarrow> errors_is e SqlErrNoRows \<Longrightarrow> q (w_db w) = [] \<and> w_db w' = w_db w"
  unfolding query_one_def
  by (drule sql_Inl) (auto dest: driver_err_is split: list.splits)

lemma sql_quiet:
  "w_faults w = [] \<Longrightarrow>
     sql stmt w = (case stmt (w_db w) of Inl e \<Rightarrow> (Inl e, w) | Inr (x, d) \<Rightarrow> (Inr x, w\<lparr>w_db := d\<rparr>))"
  by (simp add: sql_def Let_def)

lemma reader_sql: "(\<And>d x d'. stmt d = Inr (x, d') \<Longrightarrow> d' = d) \<Longrightarrow> reader (sql stmt)"
  unfolding relates_def same_db_def
proof
  fix w :: "'x world"
  assume a: "\<And>d x d'. stmt d = Inr (x, d') \<Longrightarrow> d' = d"
  obtain r w' where "sql stmt w = (r, w')" by fastforce
  with sql_db [OF this] a show "w_db (snd (sql stmt w)) = w_db w" by auto
qed

lemma reader_basic [relates_rules]:
  "reader (query q)" "reader (query_one p)" "reader now" "reader (slog m)" "reader (draw g)"
  by (auto simp: query_def query_one_def relates_def same_db_def now_def slog_def draw_def
      intro!: reader_sql [unfolded relates_def same_db_def, rule_format] split: list.splits prod.splits)

lemma query_Inr:
  "query q w = (Inr x, w') \<longleftrightarrow> (\<exists>w1. next_fault w = (NoFault, w1) \<and> x = q (w_db w) \<and> w' = w1)"
  by (auto simp: query_def sql_Inr next_fault_restore)

lemma query_one_Inr:
  "query_one q w = (Inr x, w') \<longleftrightarrow> (\<exists>w1 rest. next_fault w = (NoFault, w1) \<and> q (w_db w) = x # rest \<and> w' = w1)"
  by (auto simp: query_one_def sql_Inr next_fault_restore split: list.splits)

lemma exec_Inr:
  "exec f w = (Inr x, w') \<longleftrightarrow> (\<exists>w1. next_fault w = (NoFault, w1) \<and> w' = w1\<lparr>w_db := f (w_db w)\<rparr>)"
  by (auto simp: exec_def sql_Inr)

text \<open>Database invariants: the statements keep them, and a transaction keeps what its body keeps.\<close>

abbreviation db_keeps :: "(database \<Rightarrow> bool) \<Rightarrow> ('x, 'a) action \<Rightarrow> bool" where
  "db_keeps I m \<equiv> keeps (\<lambda>w. I (w_db w)) m"

lemma reader_keeps: "reader m \<Longrightarrow> db_keeps I m"
  by (auto simp: keeps_def relates_def same_db_def)

lemma db_keeps_sql: "(\<And>d x d'. I d \<Longrightarrow> stmt d = Inr (x, d') \<Longrightarrow> I d') \<Longrightarrow> db_keeps I (sql stmt)"
  unfolding keeps_def
proof (intro allI impI)
  fix w :: "'x world"
  assume a: "\<And>d x d'. I d \<Longrightarrow> stmt d = Inr (x, d') \<Longrightarrow> I d'" and I: "I (w_db w)"
  obtain r w' where "sql stmt w = (r, w')" by fastforce
  with sql_db [OF this] a I show "I (w_db (snd (sql stmt w)))" by auto
qed

lemma db_keeps_exec: "(\<And>d. I d \<Longrightarrow> I (f d)) \<Longrightarrow> db_keeps I (exec f)"
  unfolding exec_def by (rule db_keeps_sql) auto

lemma rollback_db: "rollback d0 e w = (r, w') \<Longrightarrow> w_db w' = d0 \<and> (\<exists>e'. r = Inl e')"
  by (auto simp: rollback_def Let_def split: prod.splits fault.splits)

lemma commit_cases:
  "commit d0 x w = (r, w') \<Longrightarrow>
     (r = Inr x \<and> w_db w' = w_db w) \<or>
     (\<exists>e. r = Inl (Wrap ''commit transaction'' e) \<and> (w_db w' = d0 \<or> w_db w' = w_db w))"
  by (auto simp: commit_def Let_def dest: next_fault_db split: prod.splits fault.splits)

lemma runInTransaction_nested [simp]: "ctx_tx ctx \<Longrightarrow> runInTransaction ctx fn = fn ctx"
  by (simp add: runInTransaction_def fun_eq_iff)

text \<open>The contract of a transaction: all of the body, or nothing.\<close>

lemma runInTransaction_outcome:
  assumes "runInTransaction ctx fn w = (r, w')" and "\<not> ctx_tx ctx"
  obtains (unchanged) e where "r = Inl e" "w_db w' = w_db w"
  | (all) x w0 w1 where "next_fault w = (NoFault, w0)" "fn (ctx\<lparr>ctx_tx := True\<rparr>) w0 = (Inr x, w1)"
      "w_db w' = w_db w1" "r = Inr x \<or> (\<exists>e. r = Inl (Wrap ''commit transaction'' e))"
proof -
  obtain f w0 where f: "next_fault w = (f, w0)" by fastforce
  then have w0: "w_db w0 = w_db w" by (rule next_fault_db)
  show thesis
  proof (cases f)
    case NoFault
    obtain r1 w1 where body: "fn (ctx\<lparr>ctx_tx := True\<rparr>) w0 = (r1, w1)" by fastforce
    show thesis
    proof (cases r1)
      case (Inl e)
      with assms f NoFault body have "rollback (w_db w0) (if isTransactionAbort e then Join e (Err ErrTransactionAborted) else e) w1 = (r, w')"
        by (simp add: runInTransaction_def)
      from rollback_db [OF this] obtain e' where "r = Inl e'" "w_db w' = w_db w0" by blast
      with w0 show thesis by (intro unchanged [of e']) simp_all
    next
      case (Inr x)
      with assms f NoFault body have "commit (w_db w0) x w1 = (r, w')" by (simp add: runInTransaction_def)
      with commit_cases [OF this] w0 unchanged all f NoFault body Inr show thesis by auto
    qed
  qed (use assms f w0 unchanged in \<open>auto simp: runInTransaction_def\<close>)
qed

lemma runInTransaction_Inr:
  assumes "runInTransaction ctx fn w = (Inr x, w')" and "\<not> ctx_tx ctx"
  obtains w0 w1 where "next_fault w = (NoFault, w0)" "fn (ctx\<lparr>ctx_tx := True\<rparr>) w0 = (Inr x, w1)" "w_db w' = w_db w1"
  using assms by (rule runInTransaction_outcome) auto

text \<open>Nested or not, a call that returns a value has run its body on the same database.\<close>

lemma transaction_Inr:
  fixes w w' :: "'x world"
  assumes "RunInTransaction ctx fn w = (Inr x, w')"
  obtains c and w0 w1 :: "'x world" where "fn c w0 = (Inr x, w1)" "w_db w0 = w_db w" "w_db w' = w_db w1"
    "c = ctx \<or> c = ctx\<lparr>ctx_tx := True\<rparr>"
proof (cases "ctx_tx ctx")
  case True
  with assms that [of ctx w w'] show thesis by (simp add: RunInTransaction_def)
next
  case False
  from assms obtain w0 w1 where "next_fault w = (NoFault, w0)" "fn (ctx\<lparr>ctx_tx := True\<rparr>) w0 = (Inr x, w1)"
    "w_db w' = w_db w1"
    unfolding RunInTransaction_def by (rule runInTransaction_Inr [OF _ False])
  then show thesis using that [of "ctx\<lparr>ctx_tx := True\<rparr>" w0 w1] by (simp add: next_fault_db)
qed

lemma forE_exec:
  assumes "forE (\<lambda>x. wrapE (f x) (exec (g x))) xs w = (Inr u, w')"
  shows "w_db w' = fold g xs (w_db w)"
  using assms
proof (induction xs arbitrary: w)
  case (Cons x xs)
  then obtain w1 where "exec (g x) w = (Inr (), w1)" "forE (\<lambda>x. wrapE (f x) (exec (g x))) xs w1 = (Inr u, w')"
    by (auto simp: bindE_Inr)
  with Cons.IH [of w1] show ?case by (auto simp: exec_Inr)
qed simp

lemma forE_sql:
  assumes "forE (\<lambda>x. wrapE (f x) (sql (g x))) xs w = (Inr u, w')"
    and "\<And>x d y d'. x \<in> set xs \<Longrightarrow> g x d = Inr (y, d') \<Longrightarrow> d' = h x d"
  shows "w_db w' = fold h xs (w_db w)"
  using assms
proof (induction xs arbitrary: w)
  case (Cons x xs)
  then obtain w1 where "sql (g x) w = (Inr (), w1)" "forE (\<lambda>x. wrapE (f x) (sql (g x))) xs w1 = (Inr u, w')"
    by (auto simp: bindE_Inr)
  with Cons.IH [of w1] Cons.prems(2) show ?case by (auto simp: sql_Inr)
qed simp

lemma runInTransaction_keeps [keeps_rules]:
  assumes "\<And>c. db_keeps I (fn c)"
  shows "db_keeps I (runInTransaction ctx fn)"
  unfolding keeps_def
proof (intro allI impI)
  fix w :: "'a world"
  assume I: "I (w_db w)"
  obtain r w' where run: "runInTransaction ctx fn w = (r, w')" by fastforce
  have "I (w_db w')"
  proof (cases "ctx_tx ctx")
    case True
    with run assms [of ctx] I show ?thesis by (metis keepsD runInTransaction_nested)
  next
    case False
    with run show ?thesis
    proof (rule runInTransaction_outcome)
      fix x w0 w1
      assume "next_fault w = (NoFault, w0)" "fn (ctx\<lparr>ctx_tx := True\<rparr>) w0 = (Inr x, w1)" "w_db w' = w_db w1"
      with assms [of "ctx\<lparr>ctx_tx := True\<rparr>"] I show ?thesis by (metis keepsD next_fault_db)
    qed (use I in simp)
  qed
  with run show "I (w_db (snd (runInTransaction ctx fn w)))" by simp
qed

lemma runInTransaction_reader [relates_rules]:
  assumes "\<And>c. reader (fn c)"
  shows "reader (runInTransaction ctx fn)"
  unfolding relates_def same_db_def
proof
  fix w :: "'a world"
  have "db_keeps (\<lambda>d. d = w_db w) (runInTransaction ctx fn)"
    by (intro runInTransaction_keeps reader_keeps assms)
  then show "w_db (snd (runInTransaction ctx fn w)) = w_db w" by (simp add: keeps_def)
qed

lemma transaction_rules [keeps_rules]:
  "(\<And>c. db_keeps I (fn c)) \<Longrightarrow> db_keeps I (RunInTransaction ctx fn)"
  "(\<And>c. db_keeps I (fn c)) \<Longrightarrow> db_keeps I (readSnapshot ctx fn)"
  by (simp_all add: RunInTransaction_def readSnapshot_def runInTransaction_keeps)

lemma transaction_readers [relates_rules]:
  "(\<And>c. reader (fn c)) \<Longrightarrow> reader (RunInTransaction ctx fn)"
  "(\<And>c. reader (fn c)) \<Longrightarrow> reader (readSnapshot ctx fn)"
  by (simp_all add: RunInTransaction_def readSnapshot_def runInTransaction_reader)

lemma RunInTransaction_quiet:
  assumes "w_faults w = []" and "\<And>c. \<exists>x w'. fn c w = (Inr x, w') \<and> w_faults w' = []"
  shows "\<exists>x w'. RunInTransaction ctx fn w = (Inr x, w') \<and> w_faults w' = []"
proof (cases "ctx_tx ctx")
  case True
  then show ?thesis using assms(2) [of ctx] by (simp add: RunInTransaction_def)
next
  case False
  obtain x w' where "fn (ctx\<lparr>ctx_tx := True\<rparr>) w = (Inr x, w')" "w_faults w' = []" using assms(2) by blast
  with False assms(1) show ?thesis
    by (simp add: RunInTransaction_def runInTransaction_def commit_def)
qed

text \<open>C11. Transactions are atomic under every fault: a call that returns a value has kept everything
  its body did; a call that fails has kept nothing, except that a lost answer to COMMIT
  may hide a transaction that was committed as a whole, and then the error says it was the commit.\<close>

theorem RunInTransaction_atomic:
  assumes "\<not> ctx_tx ctx" and "RunInTransaction ctx fn w = (r, w')"
  shows "(\<exists>e. r = Inl e \<and> w_db w' = w_db w) \<or>
    (\<exists>x w0 w1. fn (ctx\<lparr>ctx_tx := True\<rparr>) w0 = (Inr x, w1) \<and> w_db w0 = w_db w \<and> w_db w' = w_db w1 \<and>
       (r = Inr x \<or> (\<exists>e. r = Inl (Wrap ''commit transaction'' e))))"
  using assms(2) unfolding RunInTransaction_def
proof (rule runInTransaction_outcome [OF _ assms(1)])
  fix x w0 w1
  assume "next_fault w = (NoFault, w0)" "fn (ctx\<lparr>ctx_tx := True\<rparr>) w0 = (Inr x, w1)"
    "w_db w' = w_db w1" "r = Inr x \<or> (\<exists>e. r = Inl (Wrap ''commit transaction'' e))"
  then show ?thesis using next_fault_db by blast
qed blast

definition empty_db :: database where
  "empty_db = \<lparr>db_edge_devices = [], db_observation_points = [], db_camera_links = [], db_measurements = [],
     db_settings = [], db_holds = [], db_guest_statuses = [], db_snapshots = [], db_sensor_sets = [],
     db_optimization_results = [], db_stagnation = [], db_flow_dwell = []\<rparr>"

definition sample_world :: "fault list \<Rightarrow> database \<Rightarrow> 'x \<Rightarrow> 'x world" where
  "sample_world fs d x = \<lparr>w_db = d, w_faults = fs, w_clock = (\<lambda>n. int n * second), w_entropy = (\<lambda>n. Inr [word_of_nat n]),
     w_log = [], w_ext = x\<rparr>"

definition sample_ctx :: "string \<Rightarrow> string \<Rightarrow> Ctx" where
  "sample_ctx tenant event = \<lparr>ctx_claims = Some \<lparr>claim_Subject = ''user'', claim_TenantPublicID = tenant,
     claim_EventPublicID = event, claim_TokenUse = TokenUseEventAccess\<rparr>, ctx_tx = False,
     ctx_deadline = None, ctx_authorization = None\<rparr>"

definition sample_hold_row :: hold_row where
  "sample_hold_row = \<lparr>ho_id = 1, ho_started_at = 0, ho_ended_at = None, ho_device_count = 3\<rparr>"

lemma sample_ctx_tx: "\<not> ctx_tx (sample_ctx t e)"
  by (simp add: sample_ctx_def)

lemma sample_world_simps [simp]: "w_db (sample_world fs d x) = d" "w_faults (sample_world fs d x) = fs"
  by (simp_all add: sample_world_def)

lemma RunInTransaction_atomic_witness:
  "\<exists>r w'. RunInTransaction (sample_ctx ''t'' ''e'') (\<lambda>c. exec (\<lambda>d. d\<lparr>db_holds := [sample_hold_row]\<rparr>))
       (sample_world [NoFault, NoFault, FailAfter (ConnectionError ''reset'')] empty_db ()) = (r, w') \<and>
     (\<exists>x (w0 :: unit world) w1. exec (\<lambda>d. d\<lparr>db_holds := [sample_hold_row]\<rparr>) w0 = (Inr x, w1) \<and> w_db w0 = empty_db \<and> w_db w' = w_db w1 \<and>
       (r = Inr x \<or> (\<exists>e. r = Inl (Wrap ''commit transaction'' e))))"
proof -
  let ?fn = "\<lambda>c. exec (\<lambda>d. d\<lparr>db_holds := [sample_hold_row]\<rparr>)"
  let ?w = "sample_world [NoFault, NoFault, FailAfter (ConnectionError ''reset'')] empty_db ()"
  obtain r w' where run: "RunInTransaction (sample_ctx ''t'' ''e'') ?fn ?w = (r, w')" by fastforce
  then have "db_holds (w_db w') = [sample_hold_row]"
    by (auto simp: RunInTransaction_def runInTransaction_def sample_world_def sample_ctx_def next_fault_def exec_def
        sql_def commit_def)
  then have changed: "w_db w' \<noteq> empty_db" by (auto simp: empty_db_def)
  have start: "w_db ?w = empty_db" by (simp add: sample_world_def)
  have "\<not> ctx_tx (sample_ctx ''t'' ''e'')" by (simp add: sample_ctx_def)
  from RunInTransaction_atomic [OF this run, unfolded start] changed
  have "\<exists>x (w0 :: unit world) w1. exec (\<lambda>d. d\<lparr>db_holds := [sample_hold_row]\<rparr>) w0 = (Inr x, w1) \<and> w_db w0 = empty_db \<and>
    w_db w' = w_db w1 \<and> (r = Inr x \<or> (\<exists>e. r = Inl (Wrap ''commit transaction'' e)))" by blast
  with run show ?thesis by blast
qed

subsection \<open>TIMESTAMPTZ\<close>

text \<open>
  What storing a Go time in a TIMESTAMPTZ column does to it is the driver's and the server's work, a parameter \<open>ts\<close>
  of the model. The locale states what is documented of the type: microsecond resolution, whole
  microseconds stored as they are, everything else within a microsecond, and order kept.
\<close>

locale timestamptz =
  fixes ts :: "time \<Rightarrow> time"
  assumes ts_resolution: "microsecond dvd ts t"
    and ts_exact: "microsecond dvd t \<Longrightarrow> ts t = t"
    and ts_near: "\<bar>ts t - t\<bar> < microsecond"
    and ts_mono: "s \<le> t \<Longrightarrow> ts s \<le> ts t"
begin

lemma ts_idem: "ts (ts t) = ts t"
  by (simp add: ts_exact ts_resolution)

lemma ts_after: "t + d \<le> s \<Longrightarrow> microsecond < d \<Longrightarrow> ts t < s"
  using ts_near [of t] by linarith

end

lemma truncate_timestamptz: "timestamptz (\<lambda>t. time_truncate t microsecond)"
proof
  fix s t :: time
  show "microsecond dvd time_truncate t microsecond"
    by (simp add: time_truncate_def microsecond_def dvd_minus_mod)
  show "time_truncate t microsecond = t" if "microsecond dvd t"
    using that by (simp add: time_truncate_def mod_0_imp_dvd)
  show "\<bar>time_truncate t microsecond - t\<bar> < microsecond"
    by (simp add: time_truncate_def microsecond_def)
  show "time_truncate s microsecond \<le> time_truncate t microsecond" if "s \<le> t"
  proof -
    have "s - s mod microsecond = microsecond * (s div microsecond)" for s :: int
      by (simp add: minus_mod_eq_mult_div)
    moreover have "s div microsecond \<le> t div microsecond" using that by (simp add: zdiv_mono1 microsecond_def)
    ultimately show ?thesis by (simp add: time_truncate_def microsecond_def)
  qed
qed

definition trunc_us :: "time \<Rightarrow> time" where "trunc_us t = time_truncate t microsecond"

lemma trunc_us: "timestamptz trunc_us"
  using truncate_timestamptz by (simp add: trunc_us_def [abs_def])

interpretation trunc: timestamptz trunc_us
  by (rule trunc_us)

end
