(* ===== verification/EdgeDeviceStore.thy ===== *)
theory EdgeDeviceStore
  imports Database
begin

section \<open>infra/db/edge\_device.go: the edge device repository\<close>

text \<open>
  One definition per method of \<open>PostgresEdgeDeviceRepository\<close>, and one per SQL statement it sends, as a
  function on the tables. \<open>ts\<close> is what storing a Go time in a TIMESTAMPTZ column makes of it (the driver's and the
  server's rounding), a parameter. A \<open>FOR UPDATE\<close> clause locks rows and reads the same ones.
\<close>

subsection \<open>Rows and devices\<close>

definition toDomain :: "edge_device_row \<Rightarrow> ObservationPoint list \<Rightarrow> CameraLink list \<Rightarrow> EdgeDevice" where
  "toDomain r observationPoints cameraLinks =
     (let (kind, err) = ParseEdgeDeviceKind (er_kind r);
          kind = (if err \<noteq> None then EdgeDeviceKindObservationPage else kind)
      in \<lparr>dev_ID = er_edge_device_id r, dev_TenantPublicID = er_tenant_public_id r, dev_EventID = er_event_id r,
          dev_Name = er_name r, dev_Unregistered = er_unregistered r, dev_LastHeartbeatAt = er_last_heartbeat_at r,
          dev_Kind = kind, dev_ObservationPoints = observationPoints, dev_CameraLinks = cameraLinks\<rparr>)"

definition point_of_row :: "observation_point_row \<Rightarrow> ObservationPoint" where
  "point_of_row p = \<lparr>pt_ID = op_observation_point_id p, pt_Name = op_name p, pt_Enabled = op_enabled p,
     pt_LastActiveAt = op_last_active_at p\<rparr>"

definition no_rows :: "err \<Rightarrow> string \<Rightarrow> ('x, 'a) action \<Rightarrow> ('x, 'a) action" where
  "no_rows e text = wrapE (\<lambda>err. if errors_is err SqlErrNoRows then e else Wrap text err)"

subsection \<open>Statements\<close>

definition kind_check :: "string \<Rightarrow> bool" where
  "kind_check k \<longleftrightarrow> k = ''observation_page'' \<or> k = ''camera''"

definition insert_edge_device ::
  "(time \<Rightarrow> time) \<Rightarrow> EdgeDevice \<Rightarrow> database \<Rightarrow> err + (int \<times> database)" where
  "insert_edge_device ts device d =
     (if \<not> kind_check (kind_String (dev_Kind device)) then Inl (PgError ''23514'')
      else if list_ex (\<lambda>r. er_edge_device_id r = dev_ID device) (db_edge_devices d)
      then Inl (PgError sqlStateUniqueViolation)
      else
        let key = next_id er_id (db_edge_devices d);
            row = \<lparr>er_id = key, er_edge_device_id = dev_ID device, er_tenant_public_id = dev_TenantPublicID device,
              er_event_id = dev_EventID device, er_name = dev_Name device, er_unregistered = dev_Unregistered device,
              er_last_heartbeat_at = map_option ts (dev_LastHeartbeatAt device), er_kind = kind_String (dev_Kind device)\<rparr>
        in Inr (key, d\<lparr>db_edge_devices := db_edge_devices d @ [row]\<rparr>))"

definition insert_observation_point ::
  "(time \<Rightarrow> time) \<Rightarrow> int \<Rightarrow> ObservationPoint \<Rightarrow> database \<Rightarrow> err + (unit \<times> database)" where
  "insert_observation_point ts internalID point d =
     (if list_ex (\<lambda>p. op_observation_point_id p = pt_ID point) (db_observation_points d)
      then Inl (PgError sqlStateUniqueViolation)
      else
        let row = \<lparr>op_id = next_id op_id (db_observation_points d), op_observation_point_id = pt_ID point,
              op_edge_device_id = internalID, op_name = pt_Name point, op_enabled = pt_Enabled point,
              op_last_active_at = map_option ts (pt_LastActiveAt point)\<rparr>
        in Inr ((), d\<lparr>db_observation_points := db_observation_points d @ [row]\<rparr>))"

definition insert_camera_link :: "int \<Rightarrow> int \<Rightarrow> database \<Rightarrow> err + (unit \<times> database)" where
  "insert_camera_link camera point d =
     (if list_ex (\<lambda>l. lk_camera_edge_device_id l = camera \<or> lk_observation_point_id l = point) (db_camera_links d)
      then Inl (PgError sqlStateUniqueViolation)
      else Inr ((), d\<lparr>db_camera_links := db_camera_links d @
        [\<lparr>lk_id = next_id lk_id (db_camera_links d), lk_camera_edge_device_id = camera, lk_observation_point_id = point\<rparr>]\<rparr>))"

definition devices_by_id :: "EdgeDeviceID \<Rightarrow> database \<Rightarrow> edge_device_row list" where
  "devices_by_id pid d = filter (\<lambda>r. er_edge_device_id r = pid) (db_edge_devices d)"

definition devices_by_point :: "ObservationPointID \<Rightarrow> database \<Rightarrow> edge_device_row list" where
  "devices_by_point pid d =
     [r. r \<leftarrow> db_edge_devices d, p \<leftarrow> db_observation_points d,
        op_edge_device_id p = er_id r \<and> op_observation_point_id p = pid]"

definition points_by_id :: "ObservationPointID \<Rightarrow> database \<Rightarrow> observation_point_row list" where
  "points_by_id pid d = filter (\<lambda>p. op_observation_point_id p = pid) (db_observation_points d)"

definition points_of_devices :: "int list \<Rightarrow> database \<Rightarrow> observation_point_row list" where
  "points_of_devices ids d =
     sort_key op_id (filter (\<lambda>p. List.member ids (op_edge_device_id p)) (db_observation_points d))"

definition joined_links :: "database \<Rightarrow> (camera_link_row \<times> edge_device_row \<times> observation_point_row) list" where
  "joined_links d =
     [(l, c, p). l \<leftarrow> sort_key lk_id (db_camera_links d), c \<leftarrow> db_edge_devices d, p \<leftarrow> db_observation_points d,
        er_id c = lk_camera_edge_device_id l \<and> op_id p = lk_observation_point_id l]"

definition link_of_row :: "edge_device_row \<Rightarrow> observation_point_row \<Rightarrow> CameraLink" where
  "link_of_row c p = \<lparr>cl_CameraEdgeDeviceID = er_edge_device_id c, cl_ObservationPointID = op_observation_point_id p\<rparr>"

definition links_of_cameras :: "int list \<Rightarrow> database \<Rightarrow> (int \<times> CameraLink) list" where
  "links_of_cameras ids d =
     map (\<lambda>(l, c, p). (lk_camera_edge_device_id l, link_of_row c p))
       (filter (\<lambda>(l, c, p). List.member ids (lk_camera_edge_device_id l)) (joined_links d))"

definition links_of_pages :: "int list \<Rightarrow> database \<Rightarrow> (int \<times> CameraLink) list" where
  "links_of_pages ids d =
     map (\<lambda>(l, c, p). (op_edge_device_id p, link_of_row c p))
       (filter (\<lambda>(l, c, p). List.member ids (op_edge_device_id p) \<and> er_kind c = ''camera'' \<and> \<not> er_unregistered c)
         (joined_links d))"

definition update_edge_device ::
  "(time \<Rightarrow> time) \<Rightarrow> EdgeDevice \<Rightarrow> database \<Rightarrow> err + (int \<times> database)" where
  "update_edge_device ts device d =
     (case devices_by_id (dev_ID device) d of
        [] \<Rightarrow> Inl (Err SqlErrNoRows)
      | row # _ \<Rightarrow>
          if \<not> kind_check (kind_String (dev_Kind device)) then Inl (PgError ''23514'')
          else Inr (er_id row, d\<lparr>db_edge_devices := update_where (\<lambda>r. er_edge_device_id r = dev_ID device)
            (\<lambda>r. r\<lparr>er_name := dev_Name device, er_unregistered := dev_Unregistered device,
               er_last_heartbeat_at := map_option ts (dev_LastHeartbeatAt device),
               er_kind := kind_String (dev_Kind device)\<rparr>) (db_edge_devices d)\<rparr>))"

definition update_observation_point ::
  "(time \<Rightarrow> time) \<Rightarrow> int \<Rightarrow> ObservationPoint \<Rightarrow> database \<Rightarrow> database" where
  "update_observation_point ts internalID point d =
     d\<lparr>db_observation_points := update_where
        (\<lambda>p. op_observation_point_id p = pt_ID point \<and> op_edge_device_id p = internalID)
        (\<lambda>p. p\<lparr>op_name := pt_Name point, op_enabled := pt_Enabled point,
           op_last_active_at := map_option ts (pt_LastActiveAt point)\<rparr>) (db_observation_points d)\<rparr>"

definition delete_camera_links :: "int \<Rightarrow> database \<Rightarrow> database" where
  "delete_camera_links internalID d =
     d\<lparr>db_camera_links := filter (\<lambda>l. lk_camera_edge_device_id l \<noteq> internalID) (db_camera_links d)\<rparr>"

definition update_heartbeat ::
  "(time \<Rightarrow> time) \<Rightarrow> EdgeDevice \<Rightarrow> database \<Rightarrow> err + (int \<times> database)" where
  "update_heartbeat ts device d =
     (case filter (\<lambda>r. \<not> er_unregistered r) (devices_by_id (dev_ID device) d) of
        [] \<Rightarrow> Inl (Err SqlErrNoRows)
      | row # _ \<Rightarrow> Inr (er_id row, d\<lparr>db_edge_devices := update_where
          (\<lambda>r. er_edge_device_id r = dev_ID device \<and> \<not> er_unregistered r)
          (\<lambda>r. r\<lparr>er_last_heartbeat_at := map_option ts (dev_LastHeartbeatAt device)\<rparr>) (db_edge_devices d)\<rparr>))"

definition update_point_activity ::
  "(time \<Rightarrow> time) \<Rightarrow> int \<Rightarrow> ObservationPointID \<Rightarrow> time \<Rightarrow> database \<Rightarrow> database" where
  "update_point_activity ts internalID pid t d =
     d\<lparr>db_observation_points := update_where
        (\<lambda>p. op_observation_point_id p = pid \<and> op_edge_device_id p = internalID)
        (\<lambda>p. p\<lparr>op_last_active_at := Some (ts t)\<rparr>) (db_observation_points d)\<rparr>"

subsection \<open>Methods\<close>

definition insertCameraLinks :: "int \<Rightarrow> CameraLink list \<Rightarrow> ('x, unit) action" where
  "insertCameraLinks cameraInternalID links =
     forE (\<lambda>link.
       bindE (no_rows (Err ErrObservationPointNotFound) ''select linked observation point''
           (query_one (\<lambda>d. map op_id (points_by_id (cl_ObservationPointID link) d)))) (\<lambda>pointInternalID.
       wrapE (\<lambda>e. if isUniqueViolation e then Err ErrObservationPointAlreadyLinked else Wrap ''insert camera link'' e)
         (sql (insert_camera_link cameraInternalID pointInternalID)))) links"

definition create_body :: "(time \<Rightarrow> time) \<Rightarrow> EdgeDevice \<Rightarrow> Ctx \<Rightarrow> ('x, unit) action" where
  "create_body ts device ctx =
     bindE (wrapE (Wrap ''insert edge device'') (sql (insert_edge_device ts device))) (\<lambda>internalID.
     bindE (forE (\<lambda>point. wrapE (Wrap ''insert observation point'')
         (sql (insert_observation_point ts internalID point))) (dev_ObservationPoints device)) (\<lambda>_.
     insertCameraLinks internalID (dev_CameraLinks device)))"

definition Create :: "(time \<Rightarrow> time) \<Rightarrow> Ctx \<Rightarrow> EdgeDevice \<Rightarrow> ('x, unit) action" where
  "Create ts ctx device = RunInTransaction ctx (create_body ts device)"

definition group_by_owner :: "(int \<times> 'a) list \<Rightarrow> int \<Rightarrow> 'a list" where
  "group_by_owner rows owner = map snd (filter (\<lambda>r. fst r = owner) rows)"

definition observationPointsByDevice :: "int list \<Rightarrow> ('x, int \<Rightarrow> ObservationPoint list) action" where
  "observationPointsByDevice internalIDs =
     (if internalIDs = [] then returnE (\<lambda>_. [])
      else bindE (wrapE (Wrap ''select observation points'') (query (points_of_devices internalIDs))) (\<lambda>rows.
        returnE (group_by_owner (map (\<lambda>p. (op_edge_device_id p, point_of_row p)) rows))))"

definition cameraLinksByDevice :: "int list \<Rightarrow> ('x, int \<Rightarrow> CameraLink list) action" where
  "cameraLinksByDevice internalIDs =
     (if internalIDs = [] then returnE (\<lambda>_. [])
      else bindE (wrapE (Wrap ''select camera links of cameras'') (query (links_of_cameras internalIDs))) (\<lambda>cameraRows.
        bindE (wrapE (Wrap ''select camera links of observation pages'') (query (links_of_pages internalIDs))) (\<lambda>pageRows.
        returnE (group_by_owner (cameraRows @ pageRows)))))"

definition findOne :: "Ctx \<Rightarrow> (database \<Rightarrow> edge_device_row list) \<Rightarrow> ('x, EdgeDevice) action" where
  "findOne ctx rows =
     bindE (no_rows (Err ErrEdgeDeviceNotFound) ''select edge device'' (query_one rows)) (\<lambda>row.
     bindE (observationPointsByDevice [er_id row]) (\<lambda>observationPoints.
     bindE (cameraLinksByDevice [er_id row]) (\<lambda>cameraLinks.
     let device = toDomain row (observationPoints (er_id row)) (cameraLinks (er_id row)) in
     bindE (liftE (VerifyOwnership ctx (dev_TenantPublicID device))) (\<lambda>_. returnE device))))"

definition findByID :: "Ctx \<Rightarrow> EdgeDeviceID \<Rightarrow> ('x, EdgeDevice) action" where
  "findByID ctx pid = findOne ctx (devices_by_id pid)"

definition FindByID :: "Ctx \<Rightarrow> EdgeDeviceID \<Rightarrow> ('x, EdgeDevice) action" where
  "FindByID ctx pid = readSnapshot ctx (\<lambda>ctx. findByID ctx pid)"

definition FindByIDForUpdate :: "Ctx \<Rightarrow> EdgeDeviceID \<Rightarrow> ('x, EdgeDevice) action" where
  "FindByIDForUpdate ctx pid = findByID ctx pid"

definition FindByObservationPointID :: "Ctx \<Rightarrow> ObservationPointID \<Rightarrow> ('x, EdgeDevice) action" where
  "FindByObservationPointID ctx pid = readSnapshot ctx (\<lambda>ctx. findOne ctx (devices_by_point pid))"

definition FindByObservationPointIDForUpdate :: "Ctx \<Rightarrow> ObservationPointID \<Rightarrow> ('x, EdgeDevice) action" where
  "FindByObservationPointIDForUpdate ctx pid =
     bindE (no_rows (Err ErrEdgeDeviceNotFound) ''lock edge device by observation point''
         (query_one (\<lambda>d. map er_id (devices_by_point pid d)))) (\<lambda>_.
     bindE (no_rows (Err ErrEdgeDeviceNotFound) ''lock observation point''
         (query_one (\<lambda>d. map op_id (points_by_id pid d)))) (\<lambda>_.
     findOne ctx (devices_by_point pid)))"

definition event_devices :: "string \<Rightarrow> bool \<Rightarrow> database \<Rightarrow> edge_device_row list" where
  "event_devices eventID includeUnregistered d =
     sort_key er_id (filter (\<lambda>r. er_event_id r = eventID \<and> (includeUnregistered \<or> \<not> er_unregistered r))
       (db_edge_devices d))"

definition listByEvent :: "Ctx \<Rightarrow> string \<Rightarrow> bool \<Rightarrow> ('x, EdgeDevice list) action" where
  "listByEvent ctx eventID includeUnregistered =
     bindE (wrapE (Wrap ''select edge devices'') (query (event_devices eventID includeUnregistered))) (\<lambda>rows.
     let internalIDs = map er_id rows in
     bindE (observationPointsByDevice internalIDs) (\<lambda>observationPoints.
     bindE (cameraLinksByDevice internalIDs) (\<lambda>cameraLinks.
     mapE (\<lambda>row.
       let device = toDomain row (observationPoints (er_id row)) (cameraLinks (er_id row)) in
       bindE (liftE (VerifyOwnership ctx (dev_TenantPublicID device))) (\<lambda>_. returnE device)) rows)))"

definition ListByEvent :: "Ctx \<Rightarrow> string \<Rightarrow> bool \<Rightarrow> ('x, EdgeDevice list) action" where
  "ListByEvent ctx eventID includeUnregistered =
     readSnapshot ctx (\<lambda>ctx. listByEvent ctx eventID includeUnregistered)"

definition Save :: "(time \<Rightarrow> time) \<Rightarrow> Ctx \<Rightarrow> EdgeDevice \<Rightarrow> ('x, unit) action" where
  "Save ts ctx device =
     RunInTransaction ctx (\<lambda>ctx.
       bindE (no_rows (Err ErrEdgeDeviceNotFound) ''update edge device'' (sql (update_edge_device ts device))) (\<lambda>internalID.
       bindE (forE (\<lambda>point. wrapE (Wrap ''update observation point'')
           (exec (update_observation_point ts internalID point))) (dev_ObservationPoints device)) (\<lambda>_.
       if dev_Kind device = EdgeDeviceKindCamera then
         bindE (wrapE (Wrap ''delete camera links'') (exec (delete_camera_links internalID))) (\<lambda>_.
         insertCameraLinks internalID (dev_CameraLinks device))
       else returnE ())))"

definition save_heartbeat_body :: "(time \<Rightarrow> time) \<Rightarrow> EdgeDevice \<Rightarrow> Ctx \<Rightarrow> ('x, unit) action" where
  "save_heartbeat_body ts device ctx =
     bindE (no_rows (Err ErrEdgeDeviceNotFound) ''update edge device heartbeat'' (sql (update_heartbeat ts device))) (\<lambda>internalID.
     forE (\<lambda>point. case pt_LastActiveAt point of
         None \<Rightarrow> returnE ()
       | Some t \<Rightarrow> wrapE (Wrap ''update observation point activity'')
           (exec (update_point_activity ts internalID (pt_ID point) t))) (dev_ObservationPoints device))"

definition SaveHeartbeat :: "(time \<Rightarrow> time) \<Rightarrow> Ctx \<Rightarrow> EdgeDevice \<Rightarrow> ('x, unit) action" where
  "SaveHeartbeat ts ctx device = RunInTransaction ctx (save_heartbeat_body ts device)"

subsection \<open>The repository interface\<close>

text \<open>
  \<open>repository.EdgeDeviceRepository\<close> as a record of its methods. \<open>WithinTransaction\<close> takes a closure that
  assigns its result to a variable of the caller; here the closure returns it (type \<open>'r\<close>).
\<close>

record ('x, 'r) EdgeDeviceRepository =
  dr_WithinTransaction :: "Ctx \<Rightarrow> (Ctx \<Rightarrow> ('x, 'r) action) \<Rightarrow> ('x, 'r) action"
  dr_Create :: "Ctx \<Rightarrow> EdgeDevice \<Rightarrow> ('x, unit) action"
  dr_FindByID :: "Ctx \<Rightarrow> EdgeDeviceID \<Rightarrow> ('x, EdgeDevice) action"
  dr_FindByIDForUpdate :: "Ctx \<Rightarrow> EdgeDeviceID \<Rightarrow> ('x, EdgeDevice) action"
  dr_FindByObservationPointID :: "Ctx \<Rightarrow> ObservationPointID \<Rightarrow> ('x, EdgeDevice) action"
  dr_FindByObservationPointIDForUpdate :: "Ctx \<Rightarrow> ObservationPointID \<Rightarrow> ('x, EdgeDevice) action"
  dr_ListByEvent :: "Ctx \<Rightarrow> string \<Rightarrow> bool \<Rightarrow> ('x, EdgeDevice list) action"
  dr_Save :: "Ctx \<Rightarrow> EdgeDevice \<Rightarrow> ('x, unit) action"
  dr_SaveHeartbeat :: "Ctx \<Rightarrow> EdgeDevice \<Rightarrow> ('x, unit) action"

definition NewPostgresEdgeDeviceRepository :: "(time \<Rightarrow> time) \<Rightarrow> ('x, 'r) EdgeDeviceRepository" where
  "NewPostgresEdgeDeviceRepository ts =
     \<lparr>dr_WithinTransaction = RunInTransaction, dr_Create = Create ts, dr_FindByID = FindByID,
      dr_FindByIDForUpdate = FindByIDForUpdate, dr_FindByObservationPointID = FindByObservationPointID,
      dr_FindByObservationPointIDForUpdate = FindByObservationPointIDForUpdate, dr_ListByEvent = ListByEvent,
      dr_Save = Save ts, dr_SaveHeartbeat = SaveHeartbeat ts\<rparr>"

subsection \<open>What the finders return\<close>

definition stored_points :: "database \<Rightarrow> edge_device_row \<Rightarrow> ObservationPoint list" where
  "stored_points d r = map point_of_row (points_of_devices [er_id r] d)"

definition stored_links :: "database \<Rightarrow> edge_device_row \<Rightarrow> CameraLink list" where
  "stored_links d r = group_by_owner (links_of_cameras [er_id r] d @ links_of_pages [er_id r] d) (er_id r)"

definition stored_device :: "database \<Rightarrow> edge_device_row \<Rightarrow> EdgeDevice" where
  "stored_device d r = toDomain r (stored_points d r) (stored_links d r)"

lemma no_rows_Inr [simp]: "no_rows e t m w = (Inr x, w') \<longleftrightarrow> m w = (Inr x, w')"
  by (simp add: no_rows_def)

lemma reader_no_rows [relates_rules]: "relates R m \<Longrightarrow> relates R (no_rows e t m)"
  by (simp add: no_rows_def relates_wrap)

lemma keeps_no_rows [keeps_rules]: "keeps I m \<Longrightarrow> keeps I (no_rows e t m)"
  by (simp add: no_rows_def keeps_wrap)

lemma reader_children [relates_rules]:
  "reader (observationPointsByDevice ids)" "reader (cameraLinksByDevice ids)"
  by (auto simp: observationPointsByDevice_def cameraLinksByDevice_def intro!: relates_rules)

lemma reader_findOne [relates_rules]: "reader (findOne ctx q)"
  by (auto simp: findOne_def Let_def intro!: relates_rules)

lemma reader_finders [relates_rules]:
  "reader (findByID ctx pid)" "reader (FindByID ctx pid)" "reader (FindByIDForUpdate ctx pid)"
  "reader (FindByObservationPointID ctx qid)" "reader (FindByObservationPointIDForUpdate ctx qid)"
  by (auto simp: findByID_def FindByID_def FindByIDForUpdate_def FindByObservationPointID_def
      FindByObservationPointIDForUpdate_def intro!: relates_rules)

lemma reader_list [relates_rules]: "reader (listByEvent ctx ev b)" "reader (ListByEvent ctx ev b)"
  by (auto simp: listByEvent_def ListByEvent_def Let_def intro!: relates_rules)

lemma query_reads: "query q w = (Inr x, w') \<Longrightarrow> x = q (w_db w) \<and> w_db w' = w_db w"
  by (auto simp: query_Inr dest: next_fault_db)

lemma query_one_reads: "query_one q w = (Inr x, w') \<Longrightarrow> (\<exists>rest. q (w_db w) = x # rest) \<and> w_db w' = w_db w"
  by (auto simp: query_one_Inr dest: next_fault_db)

lemma points_reads:
  "observationPointsByDevice ids w = (Inr f, w') \<Longrightarrow> w_db w' = w_db w \<and>
     f = group_by_owner (map (\<lambda>p. (op_edge_device_id p, point_of_row p)) (points_of_devices ids (w_db w)))"
  by (auto simp: observationPointsByDevice_def bindE_Inr points_of_devices_def group_by_owner_def
      dest: query_reads split: if_splits)

lemma links_reads:
  "cameraLinksByDevice ids w = (Inr f, w') \<Longrightarrow> w_db w' = w_db w \<and>
     f = group_by_owner (links_of_cameras ids (w_db w) @ links_of_pages ids (w_db w))"
  by (auto simp: cameraLinksByDevice_def bindE_Inr links_of_cameras_def links_of_pages_def group_by_owner_def
      dest!: query_reads split: if_splits)

lemma toDomain_fields [simp]:
  "dev_ID (toDomain r ps ls) = er_edge_device_id r" "dev_TenantPublicID (toDomain r ps ls) = er_tenant_public_id r"
  "dev_EventID (toDomain r ps ls) = er_event_id r" "dev_Name (toDomain r ps ls) = er_name r"
  "dev_Unregistered (toDomain r ps ls) = er_unregistered r"
  "dev_LastHeartbeatAt (toDomain r ps ls) = er_last_heartbeat_at r"
  "dev_ObservationPoints (toDomain r ps ls) = ps" "dev_CameraLinks (toDomain r ps ls) = ls"
  by (simp_all add: toDomain_def case_prod_unfold Let_def)

lemma toDomain_kind:
  "kind_check (er_kind r) \<Longrightarrow> kind_String (dev_Kind (toDomain r ps ls)) = er_kind r"
  "dev_Kind (toDomain r ps ls) = EdgeDeviceKindCamera \<longleftrightarrow> er_kind r = ''camera''"
  "dev_Kind (toDomain r ps ls) = EdgeDeviceKindObservationPage \<longleftrightarrow> er_kind r \<noteq> ''camera''"
  by (auto simp: toDomain_def Let_def kind_check_def)

lemma group_points:
  "group_by_owner (map (\<lambda>p. (op_edge_device_id p, point_of_row p)) (points_of_devices [k] d)) k =
     map point_of_row (points_of_devices [k] d)"
  by (auto simp: group_by_owner_def points_of_devices_def filter_map o_def intro!: arg_cong [where f = "map _"] filter_True)

lemma findOne_Inr:
  assumes "findOne ctx q w = (Inr device, w')"
  obtains r rest where "q (w_db w) = r # rest" "device = stored_device (w_db w) r"
    "tenant_allows ctx (er_tenant_public_id r)" "w_db w' = w_db w"
  using assms
  by (auto simp: findOne_def Let_def bindE_Inr VerifyOwnership_iff stored_device_def stored_points_def
      stored_links_def group_points dest!: query_one_reads points_reads links_reads)

lemma FindByIDForUpdate_Inr:
  assumes "FindByIDForUpdate ctx pid w = (Inr device, w')"
  obtains r where "r \<in> set (db_edge_devices (w_db w))" "er_edge_device_id r = pid"
    "device = stored_device (w_db w) r" "tenant_allows ctx (er_tenant_public_id r)" "w_db w' = w_db w"
proof -
  from assms have "findOne ctx (devices_by_id pid) w = (Inr device, w')"
    by (simp add: FindByIDForUpdate_def findByID_def)
  then show thesis
  proof (rule findOne_Inr)
    fix r rest
    assume r: "devices_by_id pid (w_db w) = r # rest" "device = stored_device (w_db w) r"
      "tenant_allows ctx (er_tenant_public_id r)" "w_db w' = w_db w"
    then have "r \<in> set (devices_by_id pid (w_db w))" by simp
    then show thesis using that r by (auto simp: devices_by_id_def)
  qed
qed

lemma FindByPointForUpdate_Inr:
  assumes "FindByObservationPointIDForUpdate ctx pid w = (Inr device, w')"
  obtains r p where "r \<in> set (db_edge_devices (w_db w))" "p \<in> set (db_observation_points (w_db w))"
    "op_observation_point_id p = pid" "op_edge_device_id p = er_id r"
    "device = stored_device (w_db w) r" "tenant_allows ctx (er_tenant_public_id r)" "w_db w' = w_db w"
proof -
  from assms obtain w1 where w1: "w_db w1 = w_db w" and "findOne ctx (devices_by_point pid) w1 = (Inr device, w')"
    by (auto simp: FindByObservationPointIDForUpdate_def bindE_Inr dest!: query_one_reads)
  from this(2) show thesis
  proof (rule findOne_Inr)
    fix r rest
    assume r: "devices_by_point pid (w_db w1) = r # rest" "device = stored_device (w_db w1) r"
      "tenant_allows ctx (er_tenant_public_id r)" "w_db w' = w_db w1"
    then have "r \<in> set (devices_by_point pid (w_db w1))" by simp
    then show thesis using that r w1 by (auto simp: devices_by_point_def)
  qed
qed

lemma FindByID_Inr:
  fixes w w' :: "'x world"
  assumes "FindByID ctx pid w = (Inr device, w')"
  obtains r where "r \<in> set (db_edge_devices (w_db w))" "er_edge_device_id r = pid"
    "device = stored_device (w_db w) r" "tenant_allows ctx (er_tenant_public_id r)" "w_db w' = w_db w"
proof -
  obtain c and w0 w1 :: "'x world" where "FindByIDForUpdate c pid w0 = (Inr device, w1)" "w_db w0 = w_db w" "w_db w' = w_db w1"
    "\<And>t. tenant_allows c t = tenant_allows ctx t"
  proof (cases "ctx_tx ctx")
    case True
    with assms that [of ctx w w'] show thesis by (simp add: FindByID_def readSnapshot_def FindByIDForUpdate_def)
  next
    case False
    from assms obtain w0 w1 where "next_fault w = (NoFault, w0)"
      "findByID (ctx\<lparr>ctx_tx := True\<rparr>) pid w0 = (Inr device, w1)" "w_db w' = w_db w1"
      unfolding FindByID_def readSnapshot_def by (rule runInTransaction_Inr [OF _ False])
    then show thesis
      using that [of "ctx\<lparr>ctx_tx := True\<rparr>" w0 w1] by (simp add: FindByIDForUpdate_def next_fault_db)
  qed
  then show thesis using that by (metis FindByIDForUpdate_Inr)
qed

subsection \<open>What the writers do\<close>

definition write_point :: "(time \<Rightarrow> time) \<Rightarrow> ObservationPoint \<Rightarrow> observation_point_row \<Rightarrow> observation_point_row" where
  "write_point ts q p = p\<lparr>op_name := pt_Name q, op_enabled := pt_Enabled q,
     op_last_active_at := map_option ts (pt_LastActiveAt q)\<rparr>"

definition write_points ::
  "(time \<Rightarrow> time) \<Rightarrow> int \<Rightarrow> ObservationPoint list \<Rightarrow> observation_point_row list \<Rightarrow> observation_point_row list" where
  "write_points ts k qs =
     map (\<lambda>p. if op_edge_device_id p = k
              then (case List.find (\<lambda>q. pt_ID q = op_observation_point_id p) qs of
                      Some q \<Rightarrow> write_point ts q p | None \<Rightarrow> p)
              else p)"

definition write_device :: "(time \<Rightarrow> time) \<Rightarrow> EdgeDevice \<Rightarrow> edge_device_row \<Rightarrow> edge_device_row" where
  "write_device ts device r = r\<lparr>er_name := dev_Name device, er_unregistered := dev_Unregistered device,
     er_last_heartbeat_at := map_option ts (dev_LastHeartbeatAt device), er_kind := kind_String (dev_Kind device)\<rparr>"

lemma fold_update_points:
  assumes "distinct (map pt_ID qs)"
  shows "fold (update_observation_point ts k) qs d =
    d\<lparr>db_observation_points := write_points ts k qs (db_observation_points d)\<rparr>"
proof -
  have "fold (update_observation_point ts k) qs d = d\<lparr>db_observation_points :=
      fold (\<lambda>q. update_where (\<lambda>p. op_observation_point_id p = pt_ID q \<and> op_edge_device_id p = k) (write_point ts q))
        qs (db_observation_points d)\<rparr>" for d
    by (induction qs arbitrary: d) (simp_all add: update_observation_point_def write_point_def [abs_def])
  with fold_update_where [OF assms, of op_observation_point_id "write_point ts" "\<lambda>p. op_edge_device_id p = k"]
  show ?thesis by (simp add: write_points_def write_point_def)
qed

lemma Save_Inr:
  fixes w w' :: "'x world"
  assumes "Save ts ctx device w = (Inr u, w')" and "distinct (map pt_ID (dev_ObservationPoints device))"
    and "dev_Kind device = EdgeDeviceKindCamera \<Longrightarrow> dev_CameraLinks device = []"
  obtains r rest where "devices_by_id (dev_ID device) (w_db w) = r # rest"
    "w_db w' = (w_db w)\<lparr>
       db_edge_devices := update_where (\<lambda>r. er_edge_device_id r = dev_ID device) (write_device ts device) (db_edge_devices (w_db w)),
       db_observation_points := write_points ts (er_id r) (dev_ObservationPoints device) (db_observation_points (w_db w)),
       db_camera_links := (if dev_Kind device = EdgeDeviceKindCamera
         then filter (\<lambda>l. lk_camera_edge_device_id l \<noteq> er_id r) (db_camera_links (w_db w))
         else db_camera_links (w_db w))\<rparr>"
  using assms(1) unfolding Save_def
proof (rule transaction_Inr)
  fix c and w0 w1 :: "'x world"
  assume dbs: "w_db w0 = w_db w" "w_db w' = w_db w1"
    and run: "bindE (no_rows (Err ErrEdgeDeviceNotFound) ''update edge device'' (sql (update_edge_device ts device))) (\<lambda>internalID.
       bindE (forE (\<lambda>point. wrapE (Wrap ''update observation point'')
           (exec (update_observation_point ts internalID point))) (dev_ObservationPoints device)) (\<lambda>_.
       if dev_Kind device = EdgeDeviceKindCamera then
         bindE (wrapE (Wrap ''delete camera links'') (exec (delete_camera_links internalID))) (\<lambda>_.
         insertCameraLinks internalID (dev_CameraLinks device))
       else returnE ())) w0 = (Inr u, w1)"
  from run obtain k w2 w3 where upd: "sql (update_edge_device ts device) w0 = (Inr k, w2)"
    and pts: "forE (\<lambda>point. wrapE (Wrap ''update observation point'')
           (exec (update_observation_point ts k point))) (dev_ObservationPoints device) w2 = (Inr (), w3)"
    and links: "(if dev_Kind device = EdgeDeviceKindCamera then
         bindE (wrapE (Wrap ''delete camera links'') (exec (delete_camera_links k))) (\<lambda>_.
         insertCameraLinks k (dev_CameraLinks device)) else returnE ()) w3 = (Inr u, w1)"
    by (auto simp: bindE_Inr)
  from upd dbs obtain r rest where r: "devices_by_id (dev_ID device) (w_db w) = r # rest" "k = er_id r"
    and w2: "w_db w2 = (w_db w)\<lparr>db_edge_devices :=
      update_where (\<lambda>r. er_edge_device_id r = dev_ID device) (write_device ts device) (db_edge_devices (w_db w))\<rparr>"
    by (auto simp: sql_Inr update_edge_device_def write_device_def [abs_def] split: list.splits if_splits)
  have w3: "w_db w3 = (w_db w2)\<lparr>db_observation_points :=
      write_points ts k (dev_ObservationPoints device) (db_observation_points (w_db w2))\<rparr>"
    using forE_exec [OF pts] by (simp add: fold_update_points [OF assms(2)])
  have "w_db w1 = (if dev_Kind device = EdgeDeviceKindCamera then delete_camera_links k (w_db w3) else w_db w3)"
    using links assms(3) by (auto simp: bindE_Inr exec_Inr insertCameraLinks_def split: if_splits)
  then show thesis
    using that [OF r(1)] by (simp add: dbs(2) w3 w2 r(2) delete_camera_links_def)
qed

definition touch_point :: "(time \<Rightarrow> time) \<Rightarrow> ObservationPoint \<Rightarrow> observation_point_row \<Rightarrow> observation_point_row" where
  "touch_point ts q p =
     (case pt_LastActiveAt q of None \<Rightarrow> p | Some t \<Rightarrow> p\<lparr>op_last_active_at := Some (ts t)\<rparr>)"

definition touch_points ::
  "(time \<Rightarrow> time) \<Rightarrow> int \<Rightarrow> ObservationPoint list \<Rightarrow> observation_point_row list \<Rightarrow> observation_point_row list" where
  "touch_points ts k qs =
     map (\<lambda>p. if op_edge_device_id p = k
              then (case List.find (\<lambda>q. pt_ID q = op_observation_point_id p) qs of
                      Some q \<Rightarrow> touch_point ts q p | None \<Rightarrow> p)
              else p)"

lemma touch_point_keys [simp]:
  "op_observation_point_id (touch_point ts q p) = op_observation_point_id p"
  "op_edge_device_id (touch_point ts q p) = op_edge_device_id p" "op_id (touch_point ts q p) = op_id p"
  "op_enabled (touch_point ts q p) = op_enabled p" "op_name (touch_point ts q p) = op_name p"
  by (simp_all add: touch_point_def split: option.split)

lemma update_activity_loop:
  fixes w w' :: "'x world"
  assumes "forE (\<lambda>point. case pt_LastActiveAt point of
           None \<Rightarrow> returnE ()
         | Some t \<Rightarrow> wrapE (Wrap text) (exec (update_point_activity ts k (pt_ID point) t))) qs w = (Inr u, w')"
    and "distinct (map pt_ID qs)"
  shows "w_db w' = (w_db w)\<lparr>db_observation_points := touch_points ts k qs (db_observation_points (w_db w))\<rparr>"
proof -
  have "w_db w' = (w_db w)\<lparr>db_observation_points :=
      fold (\<lambda>q. update_where (\<lambda>p. op_observation_point_id p = pt_ID q \<and> op_edge_device_id p = k) (touch_point ts q))
        qs (db_observation_points (w_db w))\<rparr>"
    using assms(1)
  proof (induction qs arbitrary: w)
    case (Cons q qs)
    show ?case
    proof (cases "pt_LastActiveAt q")
      case None
      then have "update_where P (touch_point ts q) ps = ps" for P ps
        by (simp add: update_where_def touch_point_def map_idI)
      with Cons None show ?thesis by simp
    next
      case (Some t)
      with Cons.prems obtain w3 where w3: "exec (update_point_activity ts k (pt_ID q) t) w = (Inr (), w3)"
        and rest: "forE (\<lambda>point. case pt_LastActiveAt point of None \<Rightarrow> returnE ()
         | Some t \<Rightarrow> wrapE (Wrap text) (exec (update_point_activity ts k (pt_ID point) t))) qs w3 = (Inr u, w')"
        by (auto simp: bindE_Inr)
      from w3 Some have "w_db w3 = (w_db w)\<lparr>db_observation_points :=
          update_where (\<lambda>p. op_observation_point_id p = pt_ID q \<and> op_edge_device_id p = k) (touch_point ts q)
            (db_observation_points (w_db w))\<rparr>"
        by (auto simp: exec_Inr update_point_activity_def touch_point_def [abs_def])
      with Cons.IH [OF rest] show ?thesis by simp
    qed
  qed simp
  with fold_update_where [OF assms(2), of op_observation_point_id "touch_point ts" "\<lambda>p. op_edge_device_id p = k"]
  show ?thesis by (simp add: touch_points_def)
qed

lemma save_heartbeat_Inr:
  fixes w w' :: "'x world"
  assumes run: "save_heartbeat_body ts device c w = (Inr u, w')" and distinct: "distinct (map pt_ID (dev_ObservationPoints device))"
  obtains r where "r \<in> set (db_edge_devices (w_db w))" "er_edge_device_id r = dev_ID device" "\<not> er_unregistered r"
    "w_db w' = (w_db w)\<lparr>
       db_edge_devices := update_where (\<lambda>r. er_edge_device_id r = dev_ID device \<and> \<not> er_unregistered r)
         (\<lambda>r. r\<lparr>er_last_heartbeat_at := map_option ts (dev_LastHeartbeatAt device)\<rparr>) (db_edge_devices (w_db w)),
       db_observation_points := touch_points ts (er_id r) (dev_ObservationPoints device) (db_observation_points (w_db w))\<rparr>"
proof -
  let ?loop = "\<lambda>k. forE (\<lambda>point. case pt_LastActiveAt point of
           None \<Rightarrow> returnE ()
         | Some t \<Rightarrow> wrapE (Wrap ''update observation point activity'')
             (exec (update_point_activity ts k (pt_ID point) t)))"
  from run obtain k w2 where upd: "sql (update_heartbeat ts device) w = (Inr k, w2)"
    and loop: "?loop k (dev_ObservationPoints device) w2 = (Inr u, w')"
    by (auto simp: save_heartbeat_body_def bindE_Inr)
  from upd obtain r rest where r: "filter (\<lambda>r. \<not> er_unregistered r) (devices_by_id (dev_ID device) (w_db w)) = r # rest"
    "k = er_id r" and w2: "w_db w2 = (w_db w)\<lparr>db_edge_devices :=
      update_where (\<lambda>r. er_edge_device_id r = dev_ID device \<and> \<not> er_unregistered r)
         (\<lambda>r. r\<lparr>er_last_heartbeat_at := map_option ts (dev_LastHeartbeatAt device)\<rparr>) (db_edge_devices (w_db w))\<rparr>"
    by (auto simp: sql_Inr update_heartbeat_def split: list.splits)
  have in_r: "r \<in> set (db_edge_devices (w_db w))" "er_edge_device_id r = dev_ID device" "\<not> er_unregistered r"
    using arg_cong [OF r(1), of set] by (auto simp: devices_by_id_def)
  show thesis
    using that [OF in_r] update_activity_loop [OF loop distinct] by (simp add: w2 r(2))
qed

end
