(* ===== verification/HeartbeatLossHold.thy ===== *)
theory HeartbeatLossHold
  imports EdgeDevice Float64
begin

section \<open>domain/heartbeat\_loss\_hold.go: holding disconnections back during a mass loss\<close>

text \<open>
  When many devices lose their heartbeat at once the service suspects the shared path rather
  than the devices, and holds their disconnection for a bounded time. \<open>Decide\<close> is one
  evaluation of that state machine from the open hold (if any) and the counts; \<open>Connected\<close> is
  the effective connection of one device; \<open>ObservationPointStates\<close> the state of every point.
  Go's \<open>int\<close> counts are \<open>int\<close>s, the threshold is a \<open>float64\<close>.
\<close>

record HeartbeatLossCount =
  hc_Recent :: int
  hc_Lost :: int

record HeartbeatLossHoldPolicy =
  hp_HeartbeatTimeout :: duration
  hp_Threshold :: f64
  hp_MinDevices :: int
  hp_MaxDuration :: duration

definition RecentSince :: "HeartbeatLossHoldPolicy \<Rightarrow> time \<Rightarrow> time" where
  "RecentSince p now = time_add now (dur_mul (- 2) (hp_HeartbeatTimeout p))"

definition LostBefore :: "HeartbeatLossHoldPolicy \<Rightarrow> time \<Rightarrow> time" where
  "LostBefore p now = time_add now (dur_neg (hp_HeartbeatTimeout p))"

definition Decide ::
  "HeartbeatLossHoldPolicy \<Rightarrow> time \<Rightarrow> time option \<Rightarrow> HeartbeatLossCount \<Rightarrow> bool \<times> bool" where
  "Decide p now opened count =
     (let enough = hc_Recent count \<ge> hp_MinDevices p;
          suspected = (enough \<and> fle (fmul (hp_Threshold p) (f_of_int (hc_Recent count))) (f_of_int (hc_Lost count)));
          end' = (case opened of
                    None \<Rightarrow> False
                  | Some t \<Rightarrow> \<not> now < time_add t (hp_MaxDuration p) \<or> (enough \<and> \<not> suspected))
      in (end', (opened = None \<or> end') \<and> suspected))"

record HeartbeatLossHold =
  hh_Policy :: HeartbeatLossHoldPolicy
  hh_StartedAt :: "time option"

definition Connected :: "HeartbeatLossHold \<Rightarrow> EdgeDevice \<Rightarrow> time \<Rightarrow> bool" where
  "Connected h device now =
     (if Online device now (hp_HeartbeatTimeout (hh_Policy h)) then True
      else case (hh_StartedAt h, dev_Unregistered device, dev_LastHeartbeatAt device) of
          (Some started, False, Some heartbeat) \<Rightarrow>
            \<not> heartbeat < RecentSince (hh_Policy h) started \<and>
            now < time_add started (hp_MaxDuration (hh_Policy h))
        | _ \<Rightarrow> False)"

datatype ObservationPointState =
  ObservationPointActive | ObservationPointOffline | ObservationPointDisabled

definition point_state :: "EdgeDevice \<Rightarrow> bool \<Rightarrow> ObservationPoint \<Rightarrow> ObservationPointState" where
  "point_state device isConnected point =
     (if dev_Unregistered device \<or> \<not> pt_Enabled point then ObservationPointDisabled
      else if \<not> isConnected then ObservationPointOffline
      else ObservationPointActive)"

definition ObservationPointStates ::
  "EdgeDevice list \<Rightarrow> time \<Rightarrow> HeartbeatLossHold \<Rightarrow> (ObservationPointID \<rightharpoonup> ObservationPointState)" where
  "ObservationPointStates devices now hold =
     fold (\<lambda>device states.
        let isConnected = Connected hold device now in
        fold (\<lambda>point states. states(pt_ID point \<mapsto> point_state device isConnected point))
          (dev_ObservationPoints device) states)
      devices Map.empty"

subsection \<open>The thresholds\<close>

text \<open>A threshold as the configuration accepts it: a number in \<open>(0, 1]\<close>, minimum at least one, positive limits.\<close>

definition policy_ok :: "HeartbeatLossHoldPolicy \<Rightarrow> bool" where
  "policy_ok p \<longleftrightarrow>
     flt f_zero (hp_Threshold p) \<and> fle (hp_Threshold p) (f_of_int 1) \<and>
     (case hp_Threshold p of Num s m \<Rightarrow> round_mag m = m | _ \<Rightarrow> False) \<and>
     1 \<le> hp_MinDevices p \<and> 0 < hp_MaxDuration p \<and> is_int64 (hp_MaxDuration p)"

lemma policy_threshold:
  assumes "policy_ok p"
  obtains m where "hp_Threshold p = Num False m" "0 < m" "m \<le> 1" "round_mag m = m"
proof (cases "hp_Threshold p")
  case (Num s m)
  have one: "f_of_int 1 = Num False 1" by (simp add: f_of_int_exact)
  from assms Num have m: "0 < m \<or> s" "round_mag m = m" "0 < val (Num s m)" "val (Num s m) \<le> 1"
    by (auto simp: policy_ok_def flt_iff f_zero_def one)
  have "0 \<le> m" using m(2) by (metis round_mag_nonneg)
  with m Num that show ?thesis by (auto split: if_splits)
qed (use assms in \<open>auto simp: policy_ok_def\<close>)

text \<open>Losing every recent device is always suspicious; losing none never is.\<close>

lemma suspected_all:
  assumes "policy_ok p" and "0 \<le> n" and "n \<le> 2 ^ 53"
  shows "fle (fmul (hp_Threshold p) (f_of_int n)) (f_of_int n)"
proof -
  obtain m where m: "hp_Threshold p = Num False m" "0 < m" "m \<le> 1" "round_mag m = m"
    using assms(1) by (rule policy_threshold)
  have n: "f_of_int n = mk False (of_int n)" using assms by (simp add: f_of_int_def)
  have n': "mk False (of_int n) = Num False (of_int n)" using assms by (simp add: mk_int)
  have "m * of_int n \<le> of_int n" using m(2,3) assms(2) by (simp add: mult_left_le_one_le)
  then have "fle (mk False (m * of_int n)) (mk False (of_int n))"
    using m(2) assms(2) by (intro mk_mono) simp_all
  then show ?thesis by (simp add: m(1) n n')
qed

lemma suspected_none:
  assumes "policy_ok p" and "0 < n" and "n \<le> 2 ^ 53"
  shows "\<not> fle (fmul (hp_Threshold p) (f_of_int n)) (f_of_int 0)"
proof -
  obtain m where m: "hp_Threshold p = Num False m" "0 < m" "m \<le> 1" "round_mag m = m"
    using assms(1) by (rule policy_threshold)
  have n: "f_of_int n = Num False (of_int n)" using assms by (simp add: f_of_int_exact)
  have "1 * m \<le> of_int n * m" using m(2) assms(2) by (intro mult_right_mono) simp_all
  then have "round_mag m \<le> round_mag (m * of_int n)" by (intro round_mag_mono) (simp add: mult.commute)
  with m(2,4) show ?thesis by (simp add: m(1) n f_zero_def mk_def Let_def)
qed

text \<open>The state machine: what an evaluation may do from each state.\<close>

lemma Decide_none: "Decide p now None count = (e, s) \<Longrightarrow> \<not> e"
  by (auto simp: Decide_def Let_def)

lemma Decide_expired:
  "t + hp_MaxDuration p \<le> now \<Longrightarrow> fst (Decide p now (Some t) count)"
  by (simp add: Decide_def Let_def time_add_def)

lemma Decide_keep:
  "\<not> fst (Decide p now (Some t) count) \<Longrightarrow> \<not> snd (Decide p now (Some t) count)"
  by (simp add: Decide_def Let_def)

lemma Decide_start_needs:
  "snd (Decide p now opened count) \<Longrightarrow> hp_MinDevices p \<le> hc_Recent count"
  by (auto simp: Decide_def Let_def)

subsection \<open>Connection and point states\<close>

lemma Connected_online: "Online d now (hp_HeartbeatTimeout (hh_Policy h)) \<Longrightarrow> Connected h d now"
  by (simp add: Connected_def)

lemma Connected_no_hold:
  "hh_StartedAt h = None \<Longrightarrow> Connected h d now = Online d now (hp_HeartbeatTimeout (hh_Policy h))"
  by (simp add: Connected_def)

lemma Connected_unregistered: "dev_Unregistered d \<Longrightarrow> \<not> Connected h d now"
  by (auto simp: Connected_def Online_def split: option.splits)

lemma Connected_never_reported: "dev_LastHeartbeatAt d = None \<Longrightarrow> \<not> Connected h d now"
  by (auto simp: Connected_def Online_def split: option.splits bool.splits)

lemma Connected_bounded:
  assumes "Connected h d now" and "hh_StartedAt h = Some t" and "t + hp_MaxDuration (hh_Policy h) \<le> now"
  shows "Online d now (hp_HeartbeatTimeout (hh_Policy h))"
  using assms by (auto simp: Connected_def time_add_def split: if_splits option.splits bool.splits)

definition device_points :: "EdgeDevice list \<Rightarrow> (EdgeDevice \<times> ObservationPoint) list" where
  "device_points devices = concat (map (\<lambda>d. map (Pair d) (dev_ObservationPoints d)) devices)"

lemma fold_points:
  "fold (\<lambda>point states. states(pt_ID point \<mapsto> point_state d c point)) ps m =
     m ++ map_of (rev (map (\<lambda>p. (pt_ID p, point_state d c p)) ps))"
  by (induction ps arbitrary: m) (simp_all add: map_add_def fun_eq_iff split: option.split)

lemma ObservationPointStates_map_of:
  "ObservationPointStates devices now hold =
     map_of (rev (map (\<lambda>(d, p). (pt_ID p, point_state d (Connected hold d now) p)) (device_points devices)))"
proof -
  have "fold (\<lambda>device states. let isConnected = Connected hold device now in
        fold (\<lambda>point states. states(pt_ID point \<mapsto> point_state device isConnected point))
          (dev_ObservationPoints device) states) devices m =
     m ++ map_of (rev (map (\<lambda>(d, p). (pt_ID p, point_state d (Connected hold d now) p)) (device_points devices)))" for m
    by (induction devices arbitrary: m)
      (simp_all add: Let_def fold_points device_points_def o_def flip: map_add_assoc)
  from this [of Map.empty] show ?thesis by (simp add: ObservationPointStates_def)
qed

lemma ObservationPointStates_dom:
  "dom (ObservationPointStates devices now hold) = (\<Union>d \<in> set devices. pt_ID ` set (dev_ObservationPoints d))"
proof -
  have "dom (ObservationPointStates devices now hold) = (\<lambda>(d, p). pt_ID p) ` set (device_points devices)"
    by (simp add: ObservationPointStates_map_of dom_map_of_conv_image_fst image_image case_prod_unfold)
  also have "\<dots> = (\<Union>d \<in> set devices. pt_ID ` set (dev_ObservationPoints d))"
    by (simp add: device_points_def image_UN image_image)
  finally show ?thesis .
qed

lemma ObservationPointStates_unique:
  assumes "distinct (map (pt_ID \<circ> snd) (device_points devices))"
    and "d \<in> set devices" and "p \<in> set (dev_ObservationPoints d)"
  shows "ObservationPointStates devices now hold (pt_ID p) = Some (point_state d (Connected hold d now) p)"
proof -
  let ?l = "map (\<lambda>(d, p). (pt_ID p, point_state d (Connected hold d now) p)) (device_points devices)"
  have "map fst ?l = map (pt_ID \<circ> snd) (device_points devices)" by (simp add: case_prod_unfold o_def)
  with assms(1) have "distinct (map fst (rev ?l))" by (metis distinct_rev rev_map)
  moreover have "(d, p) \<in> set (device_points devices)" using assms(2,3) by (auto simp: device_points_def)
  then have "(pt_ID p, point_state d (Connected hold d now) p) \<in> set (rev ?l)" by force
  ultimately show ?thesis by (simp add: ObservationPointStates_map_of)
qed

end
