(* ===== verification/HoldStore.thy ===== *)
theory HoldStore
  imports Database HeartbeatLossHold
begin

section \<open>infra/db/heartbeat\_loss\_hold.go and application/heartbeat\_loss\_hold.go\<close>

text \<open>
  The stored holds and their evaluation. A row of \<open>heartbeat_loss_holds\<close> is open while it has no end; a partial
  unique index allows one open row, and \<open>Start\<close> inserts with ON CONFLICT DO NOTHING. \<open>Evaluate\<close> reads the open
  hold, counts the devices, applies \<open>Decide\<close> and stores what it decided. The interface the service
  calls is the record \<open>HeartbeatLossHoldRepository\<close>, its contract the locale \<open>hold_store\<close>.
\<close>

subsection \<open>The repository\<close>

definition is_open :: "hold_row \<Rightarrow> bool" where
  "is_open h \<longleftrightarrow> ho_ended_at h = None"

definition recent_devices :: "time \<Rightarrow> database \<Rightarrow> edge_device_row list" where
  "recent_devices since d =
     filter (\<lambda>r. er_kind r = ''observation_page'' \<and> \<not> er_unregistered r \<and>
       (case er_last_heartbeat_at r of None \<Rightarrow> False | Some t \<Rightarrow> since \<le> t)) (db_edge_devices d)"

definition count_devices :: "time \<Rightarrow> time \<Rightarrow> database \<Rightarrow> HeartbeatLossCount" where
  "count_devices recentSince lostBefore d =
     (let rows = recent_devices recentSince d in
      \<lparr>hc_Recent = int (length rows),
       hc_Lost = int (length (filter (\<lambda>r. case er_last_heartbeat_at r of None \<Rightarrow> False | Some t \<Rightarrow> t < lostBefore) rows))\<rparr>)"

definition insert_hold :: "time \<Rightarrow> int \<Rightarrow> database \<Rightarrow> err + (int \<times> database)" where
  "insert_hold startedAt deviceCount d =
     (if list_ex is_open (db_holds d) then Inr (0, d)
      else Inr (1, d\<lparr>db_holds := db_holds d @ [\<lparr>ho_id = next_id ho_id (db_holds d), ho_started_at = startedAt,
        ho_ended_at = None, ho_device_count = deviceCount\<rparr>]\<rparr>))"

definition end_hold :: "time \<Rightarrow> time \<Rightarrow> database \<Rightarrow> err + (int \<times> database)" where
  "end_hold startedAt endedAt d =
     (let matches = (\<lambda>h. is_open h \<and> ho_started_at h = startedAt) in
      Inr (int (length (filter matches (db_holds d))),
        d\<lparr>db_holds := update_where matches (\<lambda>h. h\<lparr>ho_ended_at := Some (max endedAt (ho_started_at h))\<rparr>) (db_holds d)\<rparr>))"

definition affectedOne :: "int \<Rightarrow> ('x, bool) action" where
  "affectedOne affected = returnE (affected = 1)"

definition CountAcrossTenants :: "(time \<Rightarrow> time) \<Rightarrow> Ctx \<Rightarrow> time \<Rightarrow> time \<Rightarrow> ('x, HeartbeatLossCount) action" where
  "CountAcrossTenants ts ctx recentSince lostBefore =
     wrapE (Wrap ''count edge devices by heartbeat'') (query (count_devices (ts recentSince) (ts lostBefore)))"

definition FindOpen :: "Ctx \<Rightarrow> ('x, time \<times> bool) action" where
  "FindOpen ctx =
     catchE (bindE (query_one (\<lambda>d. map ho_started_at (filter is_open (db_holds d)))) (\<lambda>startedAt. returnE (startedAt, True)))
       (\<lambda>err. if errors_is err SqlErrNoRows then returnE (0, False)
              else throwE (Wrap ''select open heartbeat loss hold'' err))"

definition Start :: "(time \<Rightarrow> time) \<Rightarrow> Ctx \<Rightarrow> time \<Rightarrow> int \<Rightarrow> ('x, bool) action" where
  "Start ts ctx startedAt deviceCount =
     bindE (wrapE (Wrap ''insert heartbeat loss hold'') (sql (insert_hold (ts startedAt) deviceCount))) affectedOne"

definition End :: "(time \<Rightarrow> time) \<Rightarrow> Ctx \<Rightarrow> time \<Rightarrow> time \<Rightarrow> ('x, bool) action" where
  "End ts ctx startedAt endedAt =
     bindE (wrapE (Wrap ''end heartbeat loss hold'') (sql (end_hold (ts startedAt) (ts endedAt)))) affectedOne"

record 'x HeartbeatLossHoldRepository =
  hr_CountAcrossTenants :: "Ctx \<Rightarrow> time \<Rightarrow> time \<Rightarrow> ('x, HeartbeatLossCount) action"
  hr_FindOpen :: "Ctx \<Rightarrow> ('x, time \<times> bool) action"
  hr_Start :: "Ctx \<Rightarrow> time \<Rightarrow> int \<Rightarrow> ('x, bool) action"
  hr_End :: "Ctx \<Rightarrow> time \<Rightarrow> time \<Rightarrow> ('x, bool) action"

definition NewPostgresHeartbeatLossHoldRepository :: "(time \<Rightarrow> time) \<Rightarrow> 'x HeartbeatLossHoldRepository" where
  "NewPostgresHeartbeatLossHoldRepository ts =
     \<lparr>hr_CountAcrossTenants = CountAcrossTenants ts, hr_FindOpen = FindOpen, hr_Start = Start ts, hr_End = End ts\<rparr>"

subsection \<open>The evaluation\<close>

record 'x HeartbeatLossHolds =
  hs_holds :: "'x HeartbeatLossHoldRepository"
  hs_policy :: HeartbeatLossHoldPolicy

definition NewHeartbeatLossHolds ::
  "'x HeartbeatLossHoldRepository \<Rightarrow> HeartbeatLossHoldPolicy \<Rightarrow> 'x HeartbeatLossHolds" where
  "NewHeartbeatLossHolds holds policy = \<lparr>hs_holds = holds, hs_policy = policy\<rparr>"

text \<open>\<open>Evaluate\<close> in its three stages: what it reads, the \<open>if end\<close> block, and what follows \<open>if !start\<close>.\<close>

definition end_decided ::
  "'x HeartbeatLossHoldRepository \<Rightarrow> Ctx \<Rightarrow> time \<Rightarrow> time \<Rightarrow> bool \<Rightarrow> HeartbeatLossHold \<Rightarrow> ('x, HeartbeatLossHold) action" where
  "end_decided repo ctx startedAt t end' hold =
     (if end' then
        bindE (wrapE (Wrap ''end heartbeat loss hold'') (hr_End repo ctx startedAt t)) (\<lambda>ended.
        bindE (whenE ended (slog ''heartbeat loss hold ended'')) (\<lambda>_.
        returnE (hold\<lparr>hh_StartedAt := None\<rparr>)))
      else returnE hold)"

definition start_decided ::
  "'x HeartbeatLossHoldRepository \<Rightarrow> Ctx \<Rightarrow> time \<Rightarrow> bool \<Rightarrow> int \<Rightarrow> HeartbeatLossHold \<Rightarrow> ('x, HeartbeatLossHold) action" where
  "start_decided repo ctx t start lost hold =
     (if \<not> start then returnE hold
      else
        bindE (wrapE (Wrap ''start heartbeat loss hold'') (hr_Start repo ctx t lost)) (\<lambda>started.
        bindE (whenE started (slog ''heartbeat loss hold started'')) (\<lambda>_.
        bindE (wrapE (Wrap ''find open heartbeat loss hold'') (hr_FindOpen repo ctx)) (\<lambda>(startedAt, opened).
        returnE (if opened then hold\<lparr>hh_StartedAt := Some startedAt\<rparr> else hold)))))"

definition Evaluate :: "'x HeartbeatLossHolds \<Rightarrow> Ctx \<Rightarrow> time \<Rightarrow> ('x, HeartbeatLossHold) action" where
  "Evaluate h ctx t =
     (let p = hs_policy h; repo = hs_holds h in
      bindE (wrapE (Wrap ''find open heartbeat loss hold'') (hr_FindOpen repo ctx)) (\<lambda>(startedAt, opened).
      let hold = \<lparr>hh_Policy = p, hh_StartedAt = (if opened then Some startedAt else None)\<rparr> in
      bindE (wrapE (Wrap ''count heartbeat loss'') (hr_CountAcrossTenants repo ctx (RecentSince p t) (LostBefore p t))) (\<lambda>count.
      let (end', start) = Decide p t (hh_StartedAt hold) count in
      bindE (end_decided repo ctx startedAt t end' hold) (start_decided repo ctx t start (hc_Lost count)))))"

subsection \<open>The contract of the repository\<close>

text \<open>
  What the evaluation relies on, over an abstraction of the database to the start of the open hold, if any
  (\<open>opened\<close>), and an invariant \<open>ok\<close>: \<open>FindOpen\<close> reports it, \<open>End\<close> closes it, \<open>Start\<close> opens one at the stored
  time, the count is that of the devices, and nothing else of the database is touched.
\<close>

text \<open>The only thing that happens to a stored hold: an open one ends, not before its start. Holds are appended, never removed.\<close>

definition hold_evolves :: "hold_row \<Rightarrow> hold_row \<Rightarrow> bool" where
  "hold_evolves h h' \<longleftrightarrow> h' = h \<or> is_open h \<and> (\<exists>t \<ge> ho_started_at h. h' = h\<lparr>ho_ended_at := Some t\<rparr>)"

definition holds_evolve :: "hold_row list \<Rightarrow> hold_row list \<Rightarrow> bool" where
  "holds_evolve hs hs' \<longleftrightarrow> length hs \<le> length hs' \<and> (\<forall>i < length hs. hold_evolves (hs ! i) (hs' ! i))"

definition only_holds :: "database \<Rightarrow> database \<Rightarrow> bool" where
  "only_holds d d' \<longleftrightarrow> d'\<lparr>db_holds := []\<rparr> = d\<lparr>db_holds := []\<rparr> \<and> holds_evolve (db_holds d) (db_holds d')"

definition same_but_holds :: "'x world \<Rightarrow> 'x world \<Rightarrow> bool" where
  "same_but_holds w w' \<longleftrightarrow> only_holds (w_db w) (w_db w')"

lemma hold_evolves_trans: "hold_evolves h h1 \<Longrightarrow> hold_evolves h1 h2 \<Longrightarrow> hold_evolves h h2"
  by (auto simp: hold_evolves_def is_open_def)

lemma holds_evolve_refl [simp, intro]: "holds_evolve hs hs"
  by (simp add: holds_evolve_def hold_evolves_def)

lemma holds_evolve_trans: "holds_evolve hs hs1 \<Longrightarrow> holds_evolve hs1 hs2 \<Longrightarrow> holds_evolve hs hs2"
  unfolding holds_evolve_def by (meson hold_evolves_trans le_trans less_le_trans)

lemma holds_evolve_append [simp]: "holds_evolve hs (hs @ new)"
  by (simp add: holds_evolve_def hold_evolves_def nth_append)

lemma holds_evolve_end:
  "holds_evolve hs (update_where (\<lambda>h. is_open h \<and> P h) (\<lambda>h. h\<lparr>ho_ended_at := Some (max t (ho_started_at h))\<rparr>) hs)"
proof -
  have "hold_evolves h (h\<lparr>ho_ended_at := Some (max t (ho_started_at h))\<rparr>)" if "is_open h" for h
    unfolding hold_evolves_def using that by (intro disjI2 conjI exI [of _ "max t (ho_started_at h)"]) simp_all
  then show ?thesis by (simp add: holds_evolve_def update_where_def hold_evolves_def [of h h for h])
qed

lemma only_holds_refl [simp]: "only_holds d d"
  by (simp add: only_holds_def)

lemma only_holds_trans: "only_holds d d1 \<Longrightarrow> only_holds d1 d2 \<Longrightarrow> only_holds d d2"
  unfolding only_holds_def by (metis holds_evolve_trans)

text \<open>What does not look at the holds is the same.\<close>

lemma only_holds_same: "only_holds d d' \<Longrightarrow> (\<And>d. f (d\<lparr>db_holds := []\<rparr>) = f d) \<Longrightarrow> f d' = f d"
  unfolding only_holds_def by metis

lemma same_but_holds_rules [relates_rules, simp]: "reflp same_but_holds" "transp same_but_holds"
  by (auto simp: reflp_def transp_def same_but_holds_def intro: only_holds_trans)

lemma same_db_holds: "same_db w w' \<Longrightarrow> same_but_holds w w'"
  by (simp add: same_db_def same_but_holds_def)

lemma reader_holds: "reader m \<Longrightarrow> relates same_but_holds m"
  by (simp add: relates_def same_db_holds)

definition hold_step ::
  "(time \<Rightarrow> time) \<Rightarrow> HeartbeatLossHoldPolicy \<Rightarrow> time \<Rightarrow> time option \<Rightarrow> HeartbeatLossCount \<Rightarrow> time option" where
  "hold_step ts p t opened count =
     (let (end', start) = Decide p t opened count in
      if start then Some (ts t) else if end' then None else opened)"

lemma hold_step_Some:
  assumes "hold_step ts p t opened c = Some s"
  shows "s = ts t \<or> (opened = Some s \<and> \<not> fst (Decide p t (Some s) c))"
proof (cases "Decide p t opened c")
  case (Pair e st)
  with assms show ?thesis by (cases st; cases e) (simp_all add: hold_step_def)
qed

locale hold_store =
  fixes repo :: "'x HeartbeatLossHoldRepository"
    and ok :: "database \<Rightarrow> bool" and opened :: "database \<Rightarrow> time option" and ts :: "time \<Rightarrow> time"
  assumes FindOpen_reader: "reader (hr_FindOpen repo ctx)"
    and FindOpen_result: "ok (w_db w) \<Longrightarrow> hr_FindOpen repo ctx w = (Inr (t, b), w') \<Longrightarrow>
      opened (w_db w) = (if b then Some t else None)"
    and Count_reader: "reader (hr_CountAcrossTenants repo ctx since before)"
    and Count_result: "hr_CountAcrossTenants repo ctx since before w = (Inr c, w') \<Longrightarrow>
      c = count_devices (ts since) (ts before) (w_db w)"
    and Start_frame: "relates same_but_holds (hr_Start repo ctx t n)"
    and Start_ok: "db_keeps ok (hr_Start repo ctx t n)"
    and Start_result: "ok (w_db w) \<Longrightarrow> opened (w_db w) = None \<Longrightarrow> hr_Start repo ctx t n w = (Inr b, w') \<Longrightarrow>
      opened (w_db w') = Some (ts t)"
    and End_frame: "relates same_but_holds (hr_End repo ctx s t)"
    and End_ok: "db_keeps ok (hr_End repo ctx s t)"
    and End_result: "ok (w_db w) \<Longrightarrow> opened (w_db w) = Some s \<Longrightarrow> hr_End repo ctx s t w = (Inr b, w') \<Longrightarrow>
      opened (w_db w') = None"
begin

lemma Evaluate_ok: "db_keeps ok (Evaluate \<lparr>hs_holds = repo, hs_policy = p\<rparr> ctx t)"
  unfolding Evaluate_def end_decided_def start_decided_def Let_def
  by (auto intro!: keeps_rules Start_ok End_ok FindOpen_reader [THEN reader_keeps] Count_reader [THEN reader_keeps]
      reader_basic [THEN reader_keeps] simp: case_prod_unfold)

lemma Evaluate_frame: "relates same_but_holds (Evaluate \<lparr>hs_holds = repo, hs_policy = p\<rparr> ctx t)"
  unfolding Evaluate_def end_decided_def start_decided_def Let_def
  by (auto intro!: relates_bind relates_wrap relates_if relates_when relates_basic Start_frame End_frame
      FindOpen_reader [THEN reader_holds] Count_reader [THEN reader_holds] reader_basic [THEN reader_holds]
      simp: case_prod_unfold)

lemma end_stage:
  assumes ok: "ok (w_db w)" and o: "opened (w_db w) = (if b then Some s else None)"
    and d: "e \<Longrightarrow> b"
    and run: "end_decided repo ctx s t e \<lparr>hh_Policy = p, hh_StartedAt = opened (w_db w)\<rparr> w = (Inr hold, w')"
  shows "hold = \<lparr>hh_Policy = p, hh_StartedAt = opened (w_db w')\<rparr> \<and>
    opened (w_db w') = (if e then None else opened (w_db w)) \<and> ok (w_db w')"
proof (cases e)
  case False
  with run ok show ?thesis by (auto simp: end_decided_def)
next
  case True
  then have some: "opened (w_db w) = Some s" using d o by simp
  from run True obtain en w1 where end': "hr_End repo ctx s t w = (Inr en, w1)"
    and log: "whenE en (slog ''heartbeat loss hold ended'') w1 = (Inr (), w')"
    and hold: "hold = \<lparr>hh_Policy = p, hh_StartedAt = None\<rparr>"
    by (auto simp: end_decided_def bindE_Inr)
  have "w_db w' = w_db w1" using log by (auto simp: whenE_def slog_def split: if_splits)
  moreover have "ok (w_db w1)" using keepsD [OF End_ok ok end'] .
  moreover have "opened (w_db w1) = None" using End_result [OF ok some end'] .
  ultimately show ?thesis using hold True by simp
qed

lemma start_stage:
  assumes ok: "ok (w_db w)" and none: "st \<Longrightarrow> opened (w_db w) = None"
    and run: "start_decided repo ctx t st n \<lparr>hh_Policy = p, hh_StartedAt = opened (w_db w)\<rparr> w = (Inr hold, w')"
  shows "hold = \<lparr>hh_Policy = p, hh_StartedAt = opened (w_db w')\<rparr> \<and>
    opened (w_db w') = (if st then Some (ts t) else opened (w_db w))"
proof (cases st)
  case False
  with run show ?thesis by (auto simp: start_decided_def)
next
  case True
  with run obtain b w1 w2 s o' where start: "hr_Start repo ctx t n w = (Inr b, w1)"
    and log: "whenE b (slog ''heartbeat loss hold started'') w1 = (Inr (), w2)"
    and find: "hr_FindOpen repo ctx w2 = (Inr (s, o'), w')"
    and hold: "hold = (if o' then \<lparr>hh_Policy = p, hh_StartedAt = Some s\<rparr> else \<lparr>hh_Policy = p, hh_StartedAt = opened (w_db w)\<rparr>)"
    by (auto simp: start_decided_def bindE_Inr split: if_splits)
  have db: "w_db w2 = w_db w1" using log by (auto simp: whenE_def slog_def split: if_splits)
  have o1: "opened (w_db w2) = Some (ts t)" using Start_result [OF ok none [OF True] start] db by simp
  have "ok (w_db w2)" using keepsD [OF Start_ok ok start] db by simp
  from FindOpen_result [OF this find] o1 have "o'" "s = ts t" by (auto split: if_splits)
  moreover have "w_db w' = w_db w2" using readerD [OF FindOpen_reader find] .
  ultimately show ?thesis using o1 hold True by simp
qed

text \<open>The evaluation refines one step of the abstract state machine on the open hold.\<close>

lemma Evaluate_step:
  assumes ok: "ok (w_db w)"
    and run: "Evaluate \<lparr>hs_holds = repo, hs_policy = p\<rparr> ctx t w = (Inr hold, w')"
  shows "opened (w_db w') = hold_step ts p t (opened (w_db w))
      (count_devices (ts (RecentSince p t)) (ts (LostBefore p t)) (w_db w)) \<and>
    hold = \<lparr>hh_Policy = p, hh_StartedAt = opened (w_db w')\<rparr>"
proof -
  obtain s b w1 where find: "hr_FindOpen repo ctx w = (Inr (s, b), w1)"
    using run by (auto simp: Evaluate_def Let_def bindE_Inr)
  have open1: "opened (w_db w) = (if b then Some s else None)" using FindOpen_result [OF ok find] .
  have db1: "w_db w1 = w_db w" using readerD [OF FindOpen_reader find] .
  obtain c w2 where count: "hr_CountAcrossTenants repo ctx (RecentSince p t) (LostBefore p t) w1 = (Inr c, w2)"
    using run find by (auto simp: Evaluate_def Let_def bindE_Inr)
  have c: "c = count_devices (ts (RecentSince p t)) (ts (LostBefore p t)) (w_db w)"
    using Count_result [OF count] db1 by simp
  have db2: "w_db w2 = w_db w" using readerD [OF Count_reader count] db1 by simp
  obtain e st where d: "Decide p t (opened (w_db w)) c = (e, st)" by fastforce
  have "bindE (end_decided repo ctx s t e \<lparr>hh_Policy = p, hh_StartedAt = opened (w_db w2)\<rparr>)
      (start_decided repo ctx t st (hc_Lost c)) w2 = (Inr hold, w')"
    using run find count d open1 db2 by (auto simp: Evaluate_def Let_def bindE_Inr)
  then obtain h3 w3 where
    end': "end_decided repo ctx s t e \<lparr>hh_Policy = p, hh_StartedAt = opened (w_db w2)\<rparr> w2 = (Inr h3, w3)"
    and start: "start_decided repo ctx t st (hc_Lost c) h3 w3 = (Inr hold, w')"
    by (auto simp: bindE_Inr)
  have "e \<Longrightarrow> b" using d open1 by (auto dest: Decide_none split: if_splits)
  from end_stage [OF _ _ this end'] ok open1 db2 have
    h3: "h3 = \<lparr>hh_Policy = p, hh_StartedAt = opened (w_db w3)\<rparr>"
    "opened (w_db w3) = (if e then None else opened (w_db w))" "ok (w_db w3)" by simp_all
  have "st \<Longrightarrow> opened (w_db w3) = None"
    using h3(2) d by (auto simp: Decide_def Let_def split: if_splits)
  from start_stage [OF h3(3) this start [unfolded h3(1)]] h3(2) d c show ?thesis
    by (simp add: hold_step_def)
qed

end

subsection \<open>PostgreSQL provides it\<close>

definition hold_inv :: "(time \<Rightarrow> time) \<Rightarrow> database \<Rightarrow> bool" where
  "hold_inv ts d \<longleftrightarrow> length (filter is_open (db_holds d)) \<le> 1 \<and>
     list_all (\<lambda>h. ts (ho_started_at h) = ho_started_at h \<and>
       (case ho_ended_at h of None \<Rightarrow> True | Some e \<Rightarrow> ho_started_at h \<le> e)) (db_holds d)"

definition open_hold :: "database \<Rightarrow> time option" where
  "open_hold d = (case filter is_open (db_holds d) of [] \<Rightarrow> None | h # _ \<Rightarrow> Some (ho_started_at h))"

lemma FindOpen_Inr:
  assumes "FindOpen ctx w = (Inr (s, b), w')"
  shows "open_hold (w_db w) = (if b then Some s else None)"
  using assms unfolding FindOpen_def catchE_Inr
proof (elim disjE exE conjE)
  let ?q = "query_one (\<lambda>d. map ho_started_at (filter is_open (db_holds d)))"
  assume "bindE ?q (\<lambda>startedAt. returnE (startedAt, True)) w = (Inr (s, b), w')"
  then show ?thesis by (auto simp: bindE_Inr query_one_Inr open_hold_def split: list.splits)
next
  fix e w1
  let ?q = "query_one (\<lambda>d. map ho_started_at (filter is_open (db_holds d)))"
  assume "bindE ?q (\<lambda>startedAt. returnE (startedAt, True)) w = (Inl e, w1)"
    and e: "(if errors_is e SqlErrNoRows then returnE (0, False) else throwE (Wrap ''select open heartbeat loss hold'' e)) w1
      = (Inr (s, b), w')"
  then have "?q w = (Inl e, w1)" "errors_is e SqlErrNoRows" "\<not> b" by (auto simp: bindE_Inl split: if_splits)
  from query_one_none [OF this(1,2)] \<open>\<not> b\<close> show ?thesis by (simp add: open_hold_def)
qed

lemma sql_but_holds:
  assumes "\<And>d x d'. stmt d = Inr (x, d') \<Longrightarrow> only_holds d d'"
  shows "relates same_but_holds (sql stmt)"
proof (unfold relates_def same_but_holds_def, rule allI)
  fix w
  obtain r w' where "sql stmt w = (r, w')" by fastforce
  with sql_db [OF this] assms show "only_holds (w_db w) (w_db (snd (sql stmt w)))" by auto
qed

lemma filter_update_closed:
  "filter is_open (update_where P (\<lambda>h. h\<lparr>ho_ended_at := Some (f h)\<rparr>) hs) = filter (\<lambda>h. is_open h \<and> \<not> P h) hs"
  by (induction hs) (auto simp: update_where_def is_open_def)

lemma end_hold_inv: "hold_inv ts d \<Longrightarrow> end_hold s t d = Inr (n, d') \<Longrightarrow> hold_inv ts d'"
proof -
  assume inv: "hold_inv ts d" and e: "end_hold s t d = Inr (n, d')"
  let ?P = "\<lambda>h. is_open h \<and> ho_started_at h = s"
  have d': "db_holds d' = update_where ?P (\<lambda>h. h\<lparr>ho_ended_at := Some (max t (ho_started_at h))\<rparr>) (db_holds d)"
    using e by (auto simp: end_hold_def Let_def)
  have "length (filter (\<lambda>h. is_open h \<and> \<not> ?P h) hs) \<le> length (filter is_open hs)" for hs
    by (induction hs) simp_all
  moreover have "list_all (\<lambda>h. ts (ho_started_at h) = ho_started_at h \<and>
       (case ho_ended_at h of None \<Rightarrow> True | Some e \<Rightarrow> ho_started_at h \<le> e)) (db_holds d')"
    using inv unfolding d' hold_inv_def list_all_iff set_update_where by (auto split: option.splits)
  moreover have "filter is_open (db_holds d') = filter (\<lambda>h. is_open h \<and> \<not> ?P h) (db_holds d)"
    unfolding d' by (rule filter_update_closed)
  ultimately show ?thesis using inv unfolding hold_inv_def by (metis (mono_tags) order_trans)
qed

lemma insert_hold_only: "insert_hold t n d = Inr (k, d') \<Longrightarrow> only_holds d d'"
  by (auto simp: insert_hold_def only_holds_def split: if_splits)

lemma end_hold_only: "end_hold s t d = Inr (n, d') \<Longrightarrow> only_holds d d'"
  by (auto simp: end_hold_def Let_def only_holds_def holds_evolve_end)

lemma Start_frame: "relates same_but_holds (Start ts ctx t n)"
  unfolding Start_def affectedOne_def
  by (intro relates_bind relates_wrap relates_basic sql_but_holds same_but_holds_rules) (rule insert_hold_only)

lemma End_frame: "relates same_but_holds (End ts ctx s t)"
  unfolding End_def affectedOne_def
  by (intro relates_bind relates_wrap relates_basic sql_but_holds same_but_holds_rules) (rule end_hold_only)

lemma insert_hold_inv: "hold_inv ts d \<Longrightarrow> ts t = t \<Longrightarrow> insert_hold t n d = Inr (k, d') \<Longrightarrow> hold_inv ts d'"
  by (auto simp: insert_hold_def hold_inv_def is_open_def list_ex_iff Let_def filter_empty_conv split: if_splits)

lemma Start_ok: "(\<And>t. ts (ts t) = ts t) \<Longrightarrow> db_keeps (hold_inv ts) (Start ts ctx t n)"
  unfolding Start_def affectedOne_def
  by (intro keeps_rules db_keeps_sql) (rule insert_hold_inv)

lemma End_ok: "db_keeps (hold_inv ts) (End ts ctx s t)"
  unfolding End_def affectedOne_def
  by (intro keeps_rules db_keeps_sql) (rule end_hold_inv)

lemma Start_opens:
  "open_hold (w_db w) = None \<Longrightarrow> Start ts ctx t n w = (Inr b, w') \<Longrightarrow> open_hold (w_db w') = Some (ts t)"
  by (auto simp: Start_def affectedOne_def bindE_Inr sql_Inr insert_hold_def open_hold_def
        filter_empty_conv list_ex_iff is_open_def Let_def split: list.splits if_splits)

lemma open_one: "hold_inv ts d \<Longrightarrow> open_hold d = Some s \<Longrightarrow> h \<in> set (db_holds d) \<Longrightarrow> is_open h \<Longrightarrow> ho_started_at h = s"
proof -
  assume inv: "hold_inv ts d" and o: "open_hold d = Some s" and h: "h \<in> set (db_holds d)" "is_open h"
  from o obtain g gs where g: "filter is_open (db_holds d) = g # gs" "ho_started_at g = s"
    by (auto simp: open_hold_def split: list.splits)
  with inv have "gs = []" by (simp add: hold_inv_def)
  moreover have "h \<in> set (filter is_open (db_holds d))" using h by simp
  ultimately show ?thesis using g by simp
qed

lemma postgres_hold_store:
  assumes "timestamptz ts"
  shows "hold_store (NewPostgresHeartbeatLossHoldRepository ts) (hold_inv ts) open_hold ts"
proof
  note ts_idem = timestamptz.ts_idem [OF assms]
  fix ctx :: Ctx and t s since before :: time and n :: int and b :: bool and c :: HeartbeatLossCount
    and w w' :: "'a world"
  let ?R = "NewPostgresHeartbeatLossHoldRepository ts :: 'a HeartbeatLossHoldRepository"
  note defs = NewPostgresHeartbeatLossHoldRepository_def
  show "reader (hr_FindOpen ?R ctx)"
    by (auto simp: defs FindOpen_def intro!: relates_rules)
  show "reader (hr_CountAcrossTenants ?R ctx since before)"
    by (auto simp: defs CountAcrossTenants_def intro!: relates_rules)
  show "hr_CountAcrossTenants ?R ctx since before w = (Inr c, w') \<Longrightarrow>
      c = count_devices (ts since) (ts before) (w_db w)"
    by (auto simp: defs CountAcrossTenants_def query_Inr)
  show "relates same_but_holds (hr_Start ?R ctx t n)" by (simp add: defs Start_frame)
  show "relates same_but_holds (hr_End ?R ctx s t)" by (simp add: defs End_frame)
  show "db_keeps (hold_inv ts) (hr_Start ?R ctx t n)" by (simp add: defs Start_ok ts_idem)
  show "db_keeps (hold_inv ts) (hr_End ?R ctx s t)" by (simp add: defs End_ok)
  show "open_hold (w_db w') = Some (ts t)"
    if "open_hold (w_db w) = None" "hr_Start ?R ctx t n w = (Inr b, w')"
    using that Start_opens by (simp add: defs)
  show "open_hold (w_db w') = None"
    if "hold_inv ts (w_db w)" "open_hold (w_db w) = Some s" "hr_End ?R ctx s t w = (Inr b, w')"
  proof -
    have "ts s = s" using that(1,2) by (auto simp: hold_inv_def open_hold_def list_all_iff filter_eq_Cons_iff split: list.splits)
    then show ?thesis
      using that(3) open_one [OF that(1,2)]
      by (auto simp: defs End_def affectedOne_def bindE_Inr sql_Inr end_hold_def open_hold_def Let_def
          filter_update_closed filter_empty_conv split: list.splits)
  qed
  show "open_hold (w_db w) = (if b then Some t else None)"
    if "hr_FindOpen ?R ctx w = (Inr (t, b), w')"
    using that FindOpen_Inr [of ctx w t b w'] unfolding defs by simp
qed

sublocale timestamptz \<subseteq> pg: hold_store "NewPostgresHeartbeatLossHoldRepository ts" "hold_inv ts" open_hold ts
  by (rule postgres_hold_store) (rule timestamptz_axioms)

subsection \<open>Properties\<close>

text \<open>C12. The stored hold follows the decision exactly: after an evaluation that returns, whatever
  faults it met, the open hold of the database is one step of the abstract state machine \<open>hold_step\<close>
  from the open hold before, over the device counts of the database, and the returned hold is that one.\<close>

theorem Evaluate_refines:
  assumes "timestamptz ts" and "hold_inv ts (w_db w)"
    and "Evaluate (NewHeartbeatLossHolds (NewPostgresHeartbeatLossHoldRepository ts) p) ctx t w = (Inr hold, w')"
  shows "open_hold (w_db w') = hold_step ts p t (open_hold (w_db w))
      (count_devices (ts (RecentSince p t)) (ts (LostBefore p t)) (w_db w)) \<and>
    hold = \<lparr>hh_Policy = p, hh_StartedAt = open_hold (w_db w')\<rparr>"
  using hold_store.Evaluate_step [OF postgres_hold_store [OF assms(1)] assms(2), of p ctx t hold w'] assms(3)
  by (simp add: NewHeartbeatLossHolds_def)

definition sample_policy :: HeartbeatLossHoldPolicy where
  "sample_policy = \<lparr>hp_HeartbeatTimeout = 30 * second, hp_Threshold = Num False 1, hp_MinDevices = 1,
     hp_MaxDuration = 10 * minute\<rparr>"

definition sample_hold_db :: database where
  "sample_hold_db = empty_db\<lparr>db_holds := [sample_hold_row]\<rparr>"

abbreviation sample_holds :: "unit HeartbeatLossHolds" where
  "sample_holds \<equiv> NewHeartbeatLossHolds (NewPostgresHeartbeatLossHoldRepository trunc_us) sample_policy"

lemma sample_evaluation:
  "\<exists>hold w'. Evaluate sample_holds (sample_ctx ''t'' ''e'') (20 * minute) (sample_world [] sample_hold_db ()) = (Inr hold, w')"
  by (simp add: Evaluate_def end_decided_def start_decided_def NewHeartbeatLossHolds_def
      NewPostgresHeartbeatLossHoldRepository_def FindOpen_def CountAcrossTenants_def End_def affectedOne_def
      sample_world_def sample_hold_db_def empty_db_def sample_hold_row_def sample_policy_def is_open_def
      bindE_def catchE_def wrapE_def query_def query_one_def sql_def next_fault_def effect_simps Let_def
      count_devices_def recent_devices_def Decide_def time_add_def duration_units end_hold_def slog_def)

lemma sample_hold_inv: "hold_inv trunc_us (w_db (sample_world fs sample_hold_db x))"
  by (simp add: hold_inv_def sample_world_def sample_hold_db_def empty_db_def sample_hold_row_def trunc_us_def
      time_truncate_def is_open_def)

lemma Evaluate_refines_witness:
  "\<exists>hold w'. Evaluate sample_holds (sample_ctx ''t'' ''e'') (20 * minute) (sample_world [] sample_hold_db ()) = (Inr hold, w') \<and>
     hh_StartedAt hold = None \<and> open_hold (w_db w') = None"
proof -
  obtain hold w' where run: "Evaluate sample_holds (sample_ctx ''t'' ''e'') (20 * minute)
      (sample_world [] sample_hold_db ()) = (Inr hold, w')"
    using sample_evaluation by blast
  have "open_hold (w_db (sample_world [] sample_hold_db ())) = Some 0"
    by (simp add: open_hold_def sample_world_def sample_hold_db_def empty_db_def sample_hold_row_def is_open_def)
  moreover have "count_devices since before (w_db (sample_world [] sample_hold_db ())) = \<lparr>hc_Recent = 0, hc_Lost = 0\<rparr>"
    for since before by (simp add: count_devices_def recent_devices_def sample_world_def sample_hold_db_def empty_db_def Let_def)
  ultimately have "open_hold (w_db w') = None \<and> hold = \<lparr>hh_Policy = sample_policy, hh_StartedAt = open_hold (w_db w')\<rparr>"
    using Evaluate_refines [OF trunc_us sample_hold_inv run]
    by (simp add: hold_step_def Decide_def Let_def sample_policy_def time_add_def duration_units)
  with run show ?thesis by auto
qed

text \<open>C14. Whatever faults hit it, an evaluation leaves at most one open hold, ended ones that end no earlier
  than they started, the holds there were (an open one may have ended), and every other table as it was.\<close>

theorem Evaluate_one_open_hold:
  assumes "timestamptz ts" and "hold_inv ts (w_db w)"
    and "Evaluate (NewHeartbeatLossHolds (NewPostgresHeartbeatLossHoldRepository ts) p) ctx t w = (r, w')"
  shows "length (filter is_open (db_holds (w_db w'))) \<le> 1 \<and>
    list_all (\<lambda>h. case ho_ended_at h of None \<Rightarrow> True | Some e \<Rightarrow> ho_started_at h \<le> e) (db_holds (w_db w')) \<and>
    w_db w'\<lparr>db_holds := []\<rparr> = w_db w\<lparr>db_holds := []\<rparr> \<and> holds_evolve (db_holds (w_db w)) (db_holds (w_db w'))"
proof -
  note store = postgres_hold_store [OF assms(1)]
  note run = assms(3) [unfolded NewHeartbeatLossHolds_def]
  have inv: "hold_inv ts (w_db w')" by (rule keepsD [OF hold_store.Evaluate_ok [OF store] assms(2) run])
  have frame: "same_but_holds w w'" by (rule relatesD [OF hold_store.Evaluate_frame [OF store] run])
  have ended: "list_all (\<lambda>h. case ho_ended_at h of None \<Rightarrow> True | Some e \<Rightarrow> ho_started_at h \<le> e) (db_holds (w_db w'))"
    by (rule list.pred_mono_strong [OF conjunct2 [OF inv [unfolded hold_inv_def]]]) simp
  show ?thesis
    by (rule conjI [OF conjunct1 [OF inv [unfolded hold_inv_def]] conjI [OF ended frame [unfolded same_but_holds_def only_holds_def]]])
qed

lemma Evaluate_one_open_hold_witness:
  "\<exists>r w'. Evaluate sample_holds (sample_ctx ''t'' ''e'') (20 * minute)
      (sample_world [NoFault, NoFault, FailAfter DriverDeadline] sample_hold_db ()) = (r, w') \<and>
    length (filter is_open (db_holds (w_db w'))) \<le> 1"
proof -
  obtain r w' where run: "Evaluate sample_holds (sample_ctx ''t'' ''e'') (20 * minute)
      (sample_world [NoFault, NoFault, FailAfter DriverDeadline] sample_hold_db ()) = (r, w')" by fastforce
  from Evaluate_one_open_hold [OF trunc_us sample_hold_inv run] run show ?thesis by blast
qed

text \<open>C13. A hold never outlives its bound: the hold that an evaluation at \<open>t\<close> returns has started less than
  the policy's maximum before \<open>t\<close>, a maximum longer than the microsecond that storing the start may add.\<close>

theorem Evaluate_bounded:
  assumes "timestamptz ts" and "hold_inv ts (w_db w)" and "microsecond < hp_MaxDuration p"
    and "Evaluate (NewHeartbeatLossHolds (NewPostgresHeartbeatLossHoldRepository ts) p) ctx t w = (Inr hold, w')"
    and "hh_StartedAt hold = Some s"
  shows "t < s + hp_MaxDuration p"
proof -
  let ?count = "count_devices (ts (RecentSince p t)) (ts (LostBefore p t)) (w_db w)"
  have "hold_step ts p t (open_hold (w_db w)) ?count = Some s"
    using hold_store.Evaluate_step [OF postgres_hold_store [OF assms(1)] assms(2), of p ctx t hold w'] assms(4,5)
    by (simp add: NewHeartbeatLossHolds_def)
  then consider (new) "s = ts t" | (kept) "open_hold (w_db w) = Some s" "\<not> fst (Decide p t (Some s) ?count)"
    using hold_step_Some by blast
  then show ?thesis
  proof cases
    case new
    then show ?thesis using timestamptz.ts_near [OF assms(1), of t] assms(3) by linarith
  next
    case kept
    then show ?thesis using Decide_expired [of s p t ?count] by fastforce
  qed
qed

lemma Evaluate_bounded_witness:
  "\<exists>hold w'. Evaluate sample_holds (sample_ctx ''t'' ''e'') (5 * minute) (sample_world [] sample_hold_db ()) = (Inr hold, w') \<and>
     hh_StartedAt hold = Some 0 \<and> 5 * minute < 0 + hp_MaxDuration sample_policy"
proof -
  have run: "\<exists>hold w'. Evaluate sample_holds (sample_ctx ''t'' ''e'') (5 * minute) (sample_world [] sample_hold_db ()) = (Inr hold, w') \<and>
     hh_StartedAt hold = Some 0"
    by (simp add: Evaluate_def end_decided_def start_decided_def NewHeartbeatLossHolds_def
      NewPostgresHeartbeatLossHoldRepository_def FindOpen_def CountAcrossTenants_def
      sample_world_def sample_hold_db_def empty_db_def sample_hold_row_def sample_policy_def is_open_def
      bindE_def catchE_def wrapE_def query_def query_one_def sql_def next_fault_def effect_simps Let_def
      count_devices_def recent_devices_def Decide_def time_add_def duration_units)
  then obtain hold w' where "Evaluate sample_holds (sample_ctx ''t'' ''e'') (5 * minute) (sample_world [] sample_hold_db ()) = (Inr hold, w')"
    "hh_StartedAt hold = Some 0" by blast
  from Evaluate_bounded [OF trunc_us sample_hold_inv _ this] this show ?thesis
    by (auto simp: sample_policy_def duration_units)
qed

text \<open>The threshold at its extremes, for every accepted policy: from no open hold, losing every recent
  device of enough devices starts a hold; losing none never does, and ends an open one.\<close>

theorem Decide_extremes:
  assumes "policy_ok p" and "hp_MinDevices p \<le> n" and "n \<le> 2 ^ 53"
  shows "snd (Decide p t None \<lparr>hc_Recent = n, hc_Lost = n\<rparr>) \<and>
    Decide p t opened \<lparr>hc_Recent = n, hc_Lost = 0\<rparr> = (opened \<noteq> None, False)"
proof -
  have n: "0 < n" using assms(1,2) by (simp add: policy_ok_def)
  have "fle (fmul (hp_Threshold p) (f_of_int n)) (f_of_int n)" using suspected_all [OF assms(1)] n assms(3) by simp
  moreover have "\<not> fle (fmul (hp_Threshold p) (f_of_int n)) (f_of_int 0)"
    using suspected_none [OF assms(1) n assms(3)] .
  ultimately show ?thesis using assms(2) by (simp add: Decide_def Let_def split: option.split)
qed

lemma Decide_extremes_witness:
  "snd (Decide sample_policy 7 None \<lparr>hc_Recent = 5, hc_Lost = 5\<rparr>) \<and>
   Decide sample_policy 7 (Some 3) \<lparr>hc_Recent = 5, hc_Lost = 0\<rparr> = (True, False)"
proof -
  have one: "f_of_int 1 = Num False 1" by (simp add: f_of_int_exact)
  have "policy_ok sample_policy"
    by (simp add: policy_ok_def sample_policy_def one flt_def f_zero_def duration_units is_int64_def min_int64_def max_int64_def)
  from Decide_extremes [OF this, of 5 7 "Some 3"] show ?thesis by (simp add: sample_policy_def)
qed

end
