(* ===== verification/EdgeDeviceUseCases.thy ===== *)
theory EdgeDeviceUseCases
  imports EdgeDeviceStore HoldStore
begin

section \<open>application/edge\_device.go: the edge device use cases\<close>

text \<open>
  \<open>EdgeDeviceService\<close> holds the repository, the heartbeat loss holds and the configuration; each use case is one
  definition over them, with the closures it hands to \<open>WithinTransaction\<close> as definitions of their
  own. \<open>config.Now\<close> is the clock of the world.
\<close>

record ('x, 'r) EdgeDeviceService =
  sv_devices :: "('x, 'r) EdgeDeviceRepository"
  sv_holds :: "'x HeartbeatLossHolds"
  sv_HeartbeatTimeout :: duration

definition NewEdgeDeviceService ::
  "('x, 'r) EdgeDeviceRepository \<Rightarrow> 'x HeartbeatLossHolds \<Rightarrow> duration \<Rightarrow> ('x, 'r) EdgeDeviceService" where
  "NewEdgeDeviceService devices holds timeout =
     \<lparr>sv_devices = devices, sv_holds = holds, sv_HeartbeatTimeout = timeout\<rparr>"

record RegisterEdgeDeviceInput =
  rg_EventID :: string
  rg_Name :: string
  rg_ObservationPointNames :: "string list"
  rg_Kind :: EdgeDeviceKind
  rg_LinkedObservationPointID :: string

record EdgeDeviceView =
  vw_Device :: EdgeDevice
  vw_Online :: bool

record RegisterEdgeDeviceOutput =
  ro_Device :: EdgeDeviceView
  ro_ObservationPagePath :: string

record UnregisterEdgeDeviceInput =
  un_EventID :: string
  un_EdgeDeviceID :: string

record ListEdgeDevicesInput =
  li_EventID :: string
  li_IncludeUnregistered :: bool

record ListEdgeDeviceObservationPointsInput =
  lp_EventID :: string
  lp_EdgeDeviceID :: string

record HeartbeatInput =
  hb_EventID :: string
  hb_EdgeDeviceID :: string
  hb_ActiveObservationPointIDs :: "string list"

record UpdateObservationPointConfigInput =
  up_EventID :: string
  up_ObservationPointID :: string
  up_Name :: string
  up_Enabled :: bool

definition view :: "('x, 'r) EdgeDeviceService \<Rightarrow> EdgeDevice \<Rightarrow> ('x, EdgeDeviceView) action" where
  "view s device =
     bindE now (\<lambda>t. returnE \<lparr>vw_Device = device, vw_Online = Online device t (sv_HeartbeatTimeout s)\<rparr>)"

definition applyEffectiveEnabled :: "bool \<Rightarrow> EdgeDevice \<Rightarrow> EdgeDevice" where
  "applyEffectiveEnabled isConnected device =
     device\<lparr>dev_ObservationPoints :=
       map (\<lambda>p. p\<lparr>pt_Enabled := pt_Enabled p \<and> isConnected\<rparr>) (dev_ObservationPoints device)\<rparr>"

subsection \<open>RegisterEdgeDevice\<close>

definition validateCameraLink ::
  "('x, 'r) EdgeDeviceService \<Rightarrow> Ctx \<Rightarrow> string \<Rightarrow> CameraLink \<Rightarrow> ('x, unit) action" where
  "validateCameraLink s ctx eventID link =
     bindE (wrapE (Wrap ''find linked observation point'')
         (dr_FindByObservationPointIDForUpdate (sv_devices s) ctx (cl_ObservationPointID link))) (\<lambda>owner.
     if dev_EventID owner \<noteq> eventID then throwE (Err ErrForeignEvent)
     else if dev_Kind owner = EdgeDeviceKindCamera then throwE (Err ErrCameraLinkToCamera)
     else if dev_Unregistered owner then throwE (Err ErrEdgeDeviceUnregistered)
     else if list_ex (\<lambda>existing. cl_ObservationPointID existing = cl_ObservationPointID link) (dev_CameraLinks owner)
       then throwE (Err ErrObservationPointAlreadyLinked)
     else returnE ())"

definition register_create ::
  "('x, 'r) EdgeDeviceService \<Rightarrow> string \<Rightarrow> EdgeDevice \<Rightarrow> Ctx \<Rightarrow> ('x, unit) action" where
  "register_create s eventID device ctx =
     bindE (if dev_Kind device = EdgeDeviceKindCamera
            then (case dev_CameraLinks device of
                    [] \<Rightarrow> throwE (GoPanic ''index out of range [0] with length 0'')
                  | link # _ \<Rightarrow> validateCameraLink s ctx eventID link)
            else returnE ()) (\<lambda>_.
     wrapE (Wrap ''create edge device'') (dr_Create (sv_devices s) ctx device))"

definition RegisterEdgeDevice ::
  "('x, unit) EdgeDeviceService \<Rightarrow> Ctx \<Rightarrow> RegisterEdgeDeviceInput \<Rightarrow> ('x, RegisterEdgeDeviceOutput) action" where
  "RegisterEdgeDevice s ctx input =
     bindE (liftE (EnsureEvent ctx (rg_EventID input))) (\<lambda>_.
     case TenantPublicIDFromContext ctx of
       None \<Rightarrow> throwE (Err ErrMissing)
     | Some tenantPublicID \<Rightarrow>
         bindE (draw (NewEdgeDeviceWithKind tenantPublicID (rg_EventID input) (rg_Name input) (rg_Kind input)
             (rg_ObservationPointNames input) (rg_LinkedObservationPointID input))) (\<lambda>device.
         bindE (if dev_Kind device = EdgeDeviceKindCamera
                then dr_WithinTransaction (sv_devices s) ctx (register_create s (rg_EventID input) device)
                else register_create s (rg_EventID input) device ctx) (\<lambda>_.
         bindE (view s device) (\<lambda>v.
         returnE \<lparr>ro_Device = v, ro_ObservationPagePath =
           (if dev_Kind device = EdgeDeviceKindObservationPage
            then ''/event/'' @ dev_EventID device @ ''/observation/'' @ dev_ID device else '''')\<rparr>))))"

subsection \<open>UnregisterEdgeDevice\<close>

text \<open>The loop over the cameras linked to a page.\<close>

definition unregister_camera ::
  "('x, 'r) EdgeDeviceService \<Rightarrow> Ctx \<Rightarrow> EdgeDeviceID \<Rightarrow> ('x, unit) action" where
  "unregister_camera s ctx cameraID =
     bindE (wrapE (Wrap ''find linked camera'') (dr_FindByIDForUpdate (sv_devices s) ctx cameraID)) (\<lambda>camera.
     if dev_Unregistered camera then returnE ()
     else bindE (liftE (Unregister camera)) (\<lambda>camera.
          wrapE (Wrap ''save linked camera'') (dr_Save (sv_devices s) ctx camera)))"

definition linked_cameras :: "EdgeDevice \<Rightarrow> EdgeDeviceID list" where
  "linked_cameras device = remdups_adj (sort (map cl_CameraEdgeDeviceID (dev_CameraLinks device)))"

definition unregister_cameras ::
  "('x, 'r) EdgeDeviceService \<Rightarrow> Ctx \<Rightarrow> EdgeDevice \<Rightarrow> ('x, EdgeDevice) action" where
  "unregister_cameras s ctx device =
     (if dev_Kind device = EdgeDeviceKindObservationPage
      then bindE (forE (unregister_camera s ctx) (linked_cameras device)) (\<lambda>_. returnE (device\<lparr>dev_CameraLinks := []\<rparr>))
      else returnE device)"

definition unregister_body ::
  "('x, 'r) EdgeDeviceService \<Rightarrow> UnregisterEdgeDeviceInput \<Rightarrow> EdgeDeviceID \<Rightarrow> Ctx \<Rightarrow> ('x, EdgeDeviceView) action" where
  "unregister_body s input pid ctx =
     bindE (wrapE (Wrap ''find edge device'') (dr_FindByIDForUpdate (sv_devices s) ctx pid)) (\<lambda>device.
     if dev_EventID device \<noteq> un_EventID input then throwE (Err ErrForeignEvent)
     else bindE (liftE (Unregister device)) (\<lambda>device.
     bindE (unregister_cameras s ctx device) (\<lambda>device.
     bindE (wrapE (Wrap ''save edge device'') (dr_Save (sv_devices s) ctx device)) (\<lambda>_. view s device))))"

definition UnregisterEdgeDevice ::
  "('x, EdgeDeviceView) EdgeDeviceService \<Rightarrow> Ctx \<Rightarrow> UnregisterEdgeDeviceInput \<Rightarrow> ('x, EdgeDeviceView) action" where
  "UnregisterEdgeDevice s ctx input =
     bindE (liftE (EnsureEvent ctx (un_EventID input))) (\<lambda>_.
     bindE (liftE (ParseEdgeDeviceID (un_EdgeDeviceID input))) (\<lambda>pid.
     dr_WithinTransaction (sv_devices s) ctx (unregister_body s input pid)))"

subsection \<open>Listing\<close>

definition ListEdgeDevices ::
  "('x, 'r) EdgeDeviceService \<Rightarrow> Ctx \<Rightarrow> ListEdgeDevicesInput \<Rightarrow> ('x, EdgeDeviceView list) action" where
  "ListEdgeDevices s ctx input =
     bindE (liftE (EnsureEvent ctx (li_EventID input))) (\<lambda>_.
     bindE (wrapE (Wrap ''list edge devices'')
         (dr_ListByEvent (sv_devices s) ctx (li_EventID input) (li_IncludeUnregistered input))) (\<lambda>devices.
     bindE now (\<lambda>t.
     bindE (Evaluate (sv_holds s) ctx t) (\<lambda>hold.
     mapE (\<lambda>device. bindE (view s device) (\<lambda>v.
       returnE (v\<lparr>vw_Device := applyEffectiveEnabled (Connected hold device t) (vw_Device v)\<rparr>))) devices))))"

definition ListEdgeDeviceObservationPoints ::
  "('x, 'r) EdgeDeviceService \<Rightarrow> Ctx \<Rightarrow> ListEdgeDeviceObservationPointsInput \<Rightarrow> ('x, ObservationPoint list) action" where
  "ListEdgeDeviceObservationPoints s ctx input =
     bindE (liftE (EnsureEvent ctx (lp_EventID input))) (\<lambda>_.
     bindE (liftE (ParseEdgeDeviceID (lp_EdgeDeviceID input))) (\<lambda>pid.
     bindE (wrapE (Wrap ''find edge device'') (dr_FindByID (sv_devices s) ctx pid)) (\<lambda>device.
     if dev_EventID device \<noteq> lp_EventID input then throwE (Err ErrForeignEvent)
     else if dev_Kind device = EdgeDeviceKindCamera then throwE (Err ErrEdgeDeviceCameraUnsupported)
     else if dev_Unregistered device then throwE (Err ErrEdgeDeviceUnregistered)
     else bindE now (\<lambda>t.
       bindE (Evaluate (sv_holds s) ctx t) (\<lambda>hold.
       returnE (dev_ObservationPoints (applyEffectiveEnabled (Connected hold device t) device)))))))"

subsection \<open>Heartbeat\<close>

text \<open>
  The use case is not one transaction: \<open>FindByID\<close> reads, and \<open>SaveHeartbeat\<close> writes later. Its two halves are
  definitions of their own, so that other requests can be placed between them.
\<close>

definition heartbeat_read ::
  "('x, 'r) EdgeDeviceService \<Rightarrow> Ctx \<Rightarrow> HeartbeatInput \<Rightarrow> ('x, EdgeDevice) action" where
  "heartbeat_read s ctx input =
     bindE (liftE (EnsureEvent ctx (hb_EventID input))) (\<lambda>_.
     bindE (liftE (ParseEdgeDeviceID (hb_EdgeDeviceID input))) (\<lambda>pid.
     bindE (wrapE (Wrap ''find edge device'') (dr_FindByID (sv_devices s) ctx pid)) (\<lambda>device.
     if dev_EventID device \<noteq> hb_EventID input then throwE (Err ErrForeignEvent)
     else if dev_Kind device = EdgeDeviceKindCamera then throwE (Err ErrEdgeDeviceCameraUnsupported)
     else bindE (liftE (mapS ParseObservationPointID (hb_ActiveObservationPointIDs input))) (\<lambda>activeIDs.
     bindE now (\<lambda>t. liftE (Heartbeat t activeIDs device))))))"

definition heartbeat_write ::
  "('x, 'r) EdgeDeviceService \<Rightarrow> Ctx \<Rightarrow> EdgeDevice \<Rightarrow> ('x, unit) action" where
  "heartbeat_write s ctx device =
     wrapE (Wrap ''save edge device heartbeat'') (dr_SaveHeartbeat (sv_devices s) ctx device)"

definition HeartbeatUseCase :: "('x, 'r) EdgeDeviceService \<Rightarrow> Ctx \<Rightarrow> HeartbeatInput \<Rightarrow> ('x, unit) action" where
  "HeartbeatUseCase s ctx input = bindE (heartbeat_read s ctx input) (heartbeat_write s ctx)"

subsection \<open>UpdateObservationPointConfig\<close>

definition update_point_body ::
  "('x, 'r) EdgeDeviceService \<Rightarrow> UpdateObservationPointConfigInput \<Rightarrow> ObservationPointID \<Rightarrow> Ctx
     \<Rightarrow> ('x, ObservationPoint) action" where
  "update_point_body s input pid ctx =
     bindE (wrapE (Wrap ''find edge device by observation point'')
         (dr_FindByObservationPointIDForUpdate (sv_devices s) ctx pid)) (\<lambda>device.
     if dev_EventID device \<noteq> up_EventID input then throwE (Err ErrForeignEvent)
     else bindE (liftE (UpdateObservationPoint pid (up_Name input) (up_Enabled input) device)) (\<lambda>(q, device).
     bindE (wrapE (Wrap ''save edge device'') (dr_Save (sv_devices s) ctx device)) (\<lambda>_.
     bindE now (\<lambda>t.
     bindE (Evaluate (sv_holds s) ctx t) (\<lambda>hold.
     let device = applyEffectiveEnabled (Connected hold device t) device in
     case List.find (\<lambda>p. pt_ID p = pid) (dev_ObservationPoints device) of
       Some point \<Rightarrow> returnE point
     | None \<Rightarrow> throwE (Err ErrObservationPointNotFound))))))"

definition UpdateObservationPointConfig ::
  "('x, ObservationPoint) EdgeDeviceService \<Rightarrow> Ctx \<Rightarrow> UpdateObservationPointConfigInput \<Rightarrow> ('x, ObservationPoint) action" where
  "UpdateObservationPointConfig s ctx input =
     bindE (liftE (EnsureEvent ctx (up_EventID input))) (\<lambda>_.
     bindE (liftE (ParseObservationPointID (up_ObservationPointID input))) (\<lambda>pid.
     dr_WithinTransaction (sv_devices s) ctx (update_point_body s input pid)))"

end
