(* ===== verification/DeviceInvariant.thy ===== *)
theory DeviceInvariant
  imports EdgeDeviceStore
begin

section \<open>What the stored devices, points and camera links always satisfy\<close>

text \<open>
  \<open>device_inv\<close> joins the constraints of the schema (keys, kinds) with what only the code guarantees: points
  belong to observation pages and those of an unregistered page are disabled; a camera link joins a registered
  camera to a point of a registered page of the same event and tenant; every registered camera has its
  link. The second half of the theory gives the use cases' effects as functions on the tables.
\<close>

definition devices_ok :: "(time \<Rightarrow> time) \<Rightarrow> database \<Rightarrow> bool" where
  "devices_ok ts d \<longleftrightarrow> distinct (map er_id (db_edge_devices d)) \<and> distinct (map er_edge_device_id (db_edge_devices d)) \<and>
     (\<forall>r \<in> set (db_edge_devices d). kind_check (er_kind r) \<and> trimmed (er_event_id r) \<and>
        map_option ts (er_last_heartbeat_at r) = er_last_heartbeat_at r)"

definition points_ok :: "(time \<Rightarrow> time) \<Rightarrow> database \<Rightarrow> bool" where
  "points_ok ts d \<longleftrightarrow> distinct (map op_id (db_observation_points d)) \<and>
     distinct (map op_observation_point_id (db_observation_points d)) \<and>
     (\<forall>p \<in> set (db_observation_points d). map_option ts (op_last_active_at p) = op_last_active_at p \<and>
        (\<exists>r \<in> set (db_edge_devices d). er_id r = op_edge_device_id p \<and> er_kind r = ''observation_page'' \<and>
          (er_unregistered r \<longrightarrow> \<not> op_enabled p)))"

definition link_ok :: "database \<Rightarrow> camera_link_row \<Rightarrow> bool" where
  "link_ok d l \<longleftrightarrow>
     (\<exists>c \<in> set (db_edge_devices d). \<exists>p \<in> set (db_observation_points d). \<exists>r \<in> set (db_edge_devices d).
        er_id c = lk_camera_edge_device_id l \<and> er_kind c = ''camera'' \<and> \<not> er_unregistered c \<and>
        op_id p = lk_observation_point_id l \<and> er_id r = op_edge_device_id p \<and> \<not> er_unregistered r \<and>
        er_event_id r = er_event_id c \<and> er_tenant_public_id r = er_tenant_public_id c)"

definition links_ok :: "database \<Rightarrow> bool" where
  "links_ok d \<longleftrightarrow> distinct (map lk_camera_edge_device_id (db_camera_links d)) \<and>
     distinct (map lk_observation_point_id (db_camera_links d)) \<and>
     (\<forall>l \<in> set (db_camera_links d). link_ok d l) \<and>
     (\<forall>c \<in> set (db_edge_devices d). er_kind c = ''camera'' \<and> \<not> er_unregistered c \<longrightarrow>
        er_id c \<in> lk_camera_edge_device_id ` set (db_camera_links d))"

definition device_inv :: "(time \<Rightarrow> time) \<Rightarrow> database \<Rightarrow> bool" where
  "device_inv ts d \<longleftrightarrow> devices_ok ts d \<and> points_ok ts d \<and> links_ok d"

lemma row_by_id:
  "devices_ok ts d \<Longrightarrow> r \<in> set (db_edge_devices d) \<Longrightarrow> s \<in> set (db_edge_devices d) \<Longrightarrow>
     er_id r = er_id s \<or> er_edge_device_id r = er_edge_device_id s \<Longrightarrow> r = s"
  by (auto simp: devices_ok_def distinct_map dest: inj_onD)

lemma point_by_id:
  "points_ok ts d \<Longrightarrow> p \<in> set (db_observation_points d) \<Longrightarrow> q \<in> set (db_observation_points d) \<Longrightarrow>
     op_id p = op_id q \<or> op_observation_point_id p = op_observation_point_id q \<Longrightarrow> p = q"
  by (auto simp: points_ok_def distinct_map dest: inj_onD)

lemma camera_owns_nothing:
  "device_inv ts d \<Longrightarrow> c \<in> set (db_edge_devices d) \<Longrightarrow> er_kind c = ''camera'' \<Longrightarrow>
     p \<in> set (db_observation_points d) \<Longrightarrow> op_edge_device_id p \<noteq> er_id c"
  unfolding device_inv_def points_ok_def using row_by_id by fastforce

subsection \<open>Loading a device\<close>

lemma set_points_of_devices:
  "set (points_of_devices [k] d) = {p \<in> set (db_observation_points d). op_edge_device_id p = k}"
  by (auto simp: points_of_devices_def)

lemma stored_points_distinct: "points_ok ts d \<Longrightarrow> distinct (map pt_ID (stored_points d r))"
proof -
  assume "points_ok ts d"
  then have "inj_on op_observation_point_id (set (db_observation_points d))" "distinct (db_observation_points d)"
    by (auto simp: points_ok_def distinct_map)
  then have "distinct (map op_observation_point_id (points_of_devices [er_id r] d))"
    by (auto simp: points_of_devices_def distinct_map intro: inj_on_subset)
  then show ?thesis by (simp add: stored_points_def point_of_row_def o_def)
qed

lemma camera_stored_points:
  "device_inv ts d \<Longrightarrow> c \<in> set (db_edge_devices d) \<Longrightarrow> er_kind c = ''camera'' \<Longrightarrow> stored_points d c = []"
  using camera_owns_nothing [of ts d c] by (auto simp: stored_points_def points_of_devices_def filter_empty_conv)

lemma set_joined_links:
  "(l, c, p) \<in> set (joined_links d) \<longleftrightarrow> l \<in> set (db_camera_links d) \<and> c \<in> set (db_edge_devices d) \<and>
     p \<in> set (db_observation_points d) \<and> er_id c = lk_camera_edge_device_id l \<and> op_id p = lk_observation_point_id l"
  by (auto simp: joined_links_def)

lemma stored_links_camera:
  "device_inv ts d \<Longrightarrow> r \<in> set (db_edge_devices d) \<Longrightarrow> er_kind r \<noteq> ''camera'' \<Longrightarrow>
     cl_CameraEdgeDeviceID ` set (stored_links d r) =
       {er_edge_device_id c | c l p. c \<in> set (db_edge_devices d) \<and> l \<in> set (db_camera_links d) \<and>
          p \<in> set (db_observation_points d) \<and> er_id c = lk_camera_edge_device_id l \<and>
          op_id p = lk_observation_point_id l \<and> op_edge_device_id p = er_id r}"
proof -
  assume inv: "device_inv ts d" and r: "r \<in> set (db_edge_devices d)" "er_kind r \<noteq> ''camera''"
  have camera: "er_kind c = ''camera'' \<and> \<not> er_unregistered c"
    if "c \<in> set (db_edge_devices d)" "l \<in> set (db_camera_links d)" "er_id c = lk_camera_edge_device_id l" for c l
    using inv that row_by_id [of ts d c] unfolding device_inv_def links_ok_def link_ok_def by metis
  have "lk_camera_edge_device_id l \<noteq> er_id r" if "l \<in> set (db_camera_links d)" for l
    using camera [of r l] r that by auto
  then have none: "links_of_cameras [er_id r] d = []"
    by (auto simp: links_of_cameras_def filter_empty_conv set_joined_links)
  show ?thesis
    unfolding stored_links_def none group_by_owner_def links_of_pages_def
    using camera by (auto simp: set_joined_links link_of_row_def image_iff) (metis, blast+)
qed

subsection \<open>Unregistering, as a function on the tables\<close>

definition linked_to_page :: "database \<Rightarrow> int \<Rightarrow> camera_link_row \<Rightarrow> bool" where
  "linked_to_page d k l \<longleftrightarrow> list_ex (\<lambda>p. op_id p = lk_observation_point_id l \<and> op_edge_device_id p = k) (db_observation_points d)"

definition retire_cameras :: "EdgeDeviceID list \<Rightarrow> database \<Rightarrow> database" where
  "retire_cameras cs d =
     d\<lparr>db_edge_devices := update_where (\<lambda>r. er_edge_device_id r \<in> set cs) (\<lambda>r. r\<lparr>er_unregistered := True\<rparr>) (db_edge_devices d),
       db_camera_links := filter (\<lambda>l. \<not> list_ex (\<lambda>c. er_edge_device_id c \<in> set cs \<and> er_id c = lk_camera_edge_device_id l)
         (db_edge_devices d)) (db_camera_links d)\<rparr>"

definition retired_cameras :: "database \<Rightarrow> int \<Rightarrow> int list" where
  "retired_cameras d k = map lk_camera_edge_device_id (filter (linked_to_page d k) (db_camera_links d))"

text \<open>
  The device with internal key \<open>k\<close> and every camera linked to one of its points become unregistered, its
  points disabled, and the links of both kinds are gone; nothing else changes.
\<close>

definition unregistered_db :: "int \<Rightarrow> database \<Rightarrow> database" where
  "unregistered_db k d =
     d\<lparr>db_edge_devices := update_where (\<lambda>r. er_id r = k \<or> er_id r \<in> set (retired_cameras d k))
         (\<lambda>r. r\<lparr>er_unregistered := True\<rparr>) (db_edge_devices d),
       db_observation_points := update_where (\<lambda>p. op_edge_device_id p = k) (\<lambda>p. p\<lparr>op_enabled := False\<rparr>) (db_observation_points d),
       db_camera_links := filter (\<lambda>l. lk_camera_edge_device_id l \<noteq> k \<and> \<not> linked_to_page d k l) (db_camera_links d)\<rparr>"

lemma retire_none [simp]: "retire_cameras [] d = d"
  by (simp add: retire_cameras_def update_where_none list_ex_iff)

lemma retire_cameras_rows:
  "db_observation_points (retire_cameras cs d) = db_observation_points d"
  "map er_id (db_edge_devices (retire_cameras cs d)) = map er_id (db_edge_devices d)"
  "map er_edge_device_id (db_edge_devices (retire_cameras cs d)) = map er_edge_device_id (db_edge_devices d)"
  by (simp_all add: retire_cameras_def map_update_where)

lemma set_retired_devices:
  "r' \<in> set (db_edge_devices (retire_cameras cs d)) \<longleftrightarrow>
     (\<exists>r \<in> set (db_edge_devices d). r' = (if er_edge_device_id r \<in> set cs then r\<lparr>er_unregistered := True\<rparr> else r))"
  by (auto simp: retire_cameras_def set_update_where image_iff)

lemma retire_cameras_fold: "retire_cameras (cs @ [c]) d = retire_cameras [c] (retire_cameras cs d)"
proof -
  have upd: "update_where (\<lambda>r. er_edge_device_id r = c) (\<lambda>r. r\<lparr>er_unregistered := True\<rparr>)
      (update_where (\<lambda>r. er_edge_device_id r \<in> set cs) (\<lambda>r. r\<lparr>er_unregistered := True\<rparr>) rs) =
    update_where (\<lambda>r. er_edge_device_id r = c \<or> er_edge_device_id r \<in> set cs) (\<lambda>r. r\<lparr>er_unregistered := True\<rparr>) rs" for rs
    by (auto simp: update_where_def)
  have ex: "list_ex (\<lambda>r. er_edge_device_id r = c \<and> er_id r = k)
      (update_where (\<lambda>r. er_edge_device_id r \<in> set cs) (\<lambda>r. r\<lparr>er_unregistered := True\<rparr>) rs) =
    list_ex (\<lambda>r. er_edge_device_id r = c \<and> er_id r = k) rs" for k rs
    by (induction rs) (auto simp: update_where_def)
  have "list_ex (\<lambda>r. (er_edge_device_id r = c \<or> er_edge_device_id r \<in> set cs) \<and> er_id r = k) rs =
    (list_ex (\<lambda>r. er_edge_device_id r \<in> set cs \<and> er_id r = k) rs \<or> list_ex (\<lambda>r. er_edge_device_id r = c \<and> er_id r = k) rs)" for k and rs :: "edge_device_row list"
    by (induction rs) auto
  then show ?thesis by (simp add: retire_cameras_def upd ex)
qed

lemma retire_cameras_inv:
  assumes inv: "device_inv ts d"
    and cs: "\<And>r. r \<in> set (db_edge_devices d) \<Longrightarrow> er_edge_device_id r \<in> set cs \<Longrightarrow> er_kind r = ''camera''"
  shows "device_inv ts (retire_cameras cs d)"
proof -
  let ?d = "retire_cameras cs d"
  note ids = row_by_id [OF conjunct1 [OF inv [unfolded device_inv_def]]]
  have dev: "devices_ok ts ?d"
    using inv by (auto simp: device_inv_def devices_ok_def retire_cameras_rows set_retired_devices)
  have pts: "points_ok ts ?d"
  proof -
    have "\<exists>r \<in> set (db_edge_devices ?d). er_id r = op_edge_device_id p \<and> er_kind r = ''observation_page'' \<and>
          (er_unregistered r \<longrightarrow> \<not> op_enabled p)" if "p \<in> set (db_observation_points d)" for p
    proof -
      from that inv obtain r where r: "r \<in> set (db_edge_devices d)" "er_id r = op_edge_device_id p"
        "er_kind r = ''observation_page''" "er_unregistered r \<longrightarrow> \<not> op_enabled p"
        by (auto simp: device_inv_def points_ok_def)
      with cs have "r \<in> set (db_edge_devices ?d)" unfolding set_retired_devices by (intro bexI [of _ r]) auto
      with r show ?thesis by blast
    qed
    with inv show ?thesis by (simp add: device_inv_def points_ok_def retire_cameras_rows)
  qed
  have lnk: "link_ok ?d l" if l: "l \<in> set (db_camera_links ?d)" for l
  proof -
    from l have l': "l \<in> set (db_camera_links d)"
      and kept: "\<And>c. c \<in> set (db_edge_devices d) \<Longrightarrow> er_id c = lk_camera_edge_device_id l \<Longrightarrow> er_edge_device_id c \<notin> set cs"
      by (auto simp: retire_cameras_def list_ex_iff)
    from l' inv obtain c p r where c: "c \<in> set (db_edge_devices d)" "p \<in> set (db_observation_points d)" "r \<in> set (db_edge_devices d)"
      "er_id c = lk_camera_edge_device_id l" "er_kind c = ''camera''" "\<not> er_unregistered c"
      "op_id p = lk_observation_point_id l" "er_id r = op_edge_device_id p" "\<not> er_unregistered r"
      "er_event_id r = er_event_id c" "er_tenant_public_id r = er_tenant_public_id c"
      unfolding device_inv_def links_ok_def link_ok_def by blast
    have "er_kind r = ''observation_page''"
      using inv c(2,3,8) ids by (auto simp: device_inv_def points_ok_def) metis
    then have "er_edge_device_id r \<notin> set cs" using cs c(3) by auto
    then have "r \<in> set (db_edge_devices ?d)" unfolding set_retired_devices using c(3) by (intro bexI [of _ r]) auto
    moreover have "c \<in> set (db_edge_devices ?d)"
      unfolding set_retired_devices using c(1,4) kept by (intro bexI [of _ c]) auto
    ultimately show ?thesis using c unfolding link_ok_def retire_cameras_rows by blast
  qed
  have "er_id c \<in> lk_camera_edge_device_id ` set (db_camera_links ?d)"
    if c: "c \<in> set (db_edge_devices ?d)" "er_kind c = ''camera''" "\<not> er_unregistered c" for c
  proof -
    from c have c': "c \<in> set (db_edge_devices d)" "er_edge_device_id c \<notin> set cs"
      by (auto simp: set_retired_devices split: if_splits dest: arg_cong [where f = er_unregistered])
    with inv c obtain l where l: "l \<in> set (db_camera_links d)" "lk_camera_edge_device_id l = er_id c"
      by (auto simp: device_inv_def links_ok_def)
    have "l \<in> set (db_camera_links ?d)" using l c' ids by (auto simp: retire_cameras_def list_ex_iff)
    with l show ?thesis by force
  qed
  with lnk inv have "links_ok ?d"
    by (auto simp: device_inv_def links_ok_def) (auto simp: retire_cameras_def distinct_map_filter)
  with dev pts show ?thesis by (simp add: device_inv_def)
qed

lemma write_same_device:
  assumes "devices_ok ts d" and "r \<in> set (db_edge_devices d)"
    and "dev_Name device = er_name r" "dev_LastHeartbeatAt device = er_last_heartbeat_at r"
      "kind_String (dev_Kind device) = er_kind r"
  shows "update_where (\<lambda>s. er_edge_device_id s = er_edge_device_id r) (write_device ts device) (db_edge_devices d) =
    update_where (\<lambda>s. er_edge_device_id s = er_edge_device_id r) (\<lambda>s. s\<lparr>er_unregistered := dev_Unregistered device\<rparr>)
      (db_edge_devices d)"
  unfolding update_where_def
proof (rule map_cong [OF refl])
  fix s assume s: "s \<in> set (db_edge_devices d)"
  have "map_option ts (er_last_heartbeat_at r) = er_last_heartbeat_at r"
    using assms(1,2) by (auto simp: devices_ok_def)
  then have "write_device ts device r = r\<lparr>er_unregistered := dev_Unregistered device\<rparr>"
    using assms(3-5) by (simp add: write_device_def)
  moreover have "s = r" if "er_edge_device_id s = er_edge_device_id r"
    using row_by_id [OF assms(1) s assms(2)] that by simp
  ultimately show "(if er_edge_device_id s = er_edge_device_id r then write_device ts device s else s) =
      (if er_edge_device_id s = er_edge_device_id r then s\<lparr>er_unregistered := dev_Unregistered device\<rparr> else s)"
    by metis
qed

lemma write_points_nil [simp]: "write_points ts k [] ps = ps"
  by (simp add: write_points_def map_idI)

text \<open>A point written back finds its own row, so only what changed in the device changes in the table.\<close>

lemma find_stored_point:
  assumes "points_ok ts d" and "p \<in> set (db_observation_points d)" and "op_edge_device_id p = er_id r"
    and "\<And>q. pt_ID (f q) = pt_ID q"
  shows "List.find (\<lambda>q. pt_ID q = op_observation_point_id p) (map f (stored_points d r)) = Some (f (point_of_row p))"
proof (rule find_unique [where g = pt_ID])
  have "map pt_ID (map f (stored_points d r)) = map pt_ID (stored_points d r)" by (simp add: assms(4))
  then show "distinct (map pt_ID (map f (stored_points d r)))" using stored_points_distinct [OF assms(1)] by metis
  have "p \<in> set (points_of_devices [er_id r] d)" using assms(2,3) by (simp add: set_points_of_devices)
  then show "f (point_of_row p) \<in> set (map f (stored_points d r))" by (simp add: stored_points_def)
qed (simp_all add: assms(4) point_of_row_def)

lemma write_stored_points:
  assumes "points_ok ts d" and "\<And>q. pt_ID (f q) = pt_ID q" and "\<And>q. pt_LastActiveAt (f q) = pt_LastActiveAt q"
  shows "write_points ts (er_id r) (map f (stored_points d r)) (db_observation_points d) =
    update_where (\<lambda>p. op_edge_device_id p = er_id r)
      (\<lambda>p. p\<lparr>op_name := pt_Name (f (point_of_row p)), op_enabled := pt_Enabled (f (point_of_row p))\<rparr>) (db_observation_points d)"
  unfolding write_points_def update_where_def
proof (rule map_cong [OF refl])
  fix p assume p: "p \<in> set (db_observation_points d)"
  have "map_option ts (op_last_active_at p) = op_last_active_at p" using assms(1) p by (auto simp: points_ok_def)
  then have "write_point ts (f (point_of_row p)) p =
      p\<lparr>op_name := pt_Name (f (point_of_row p)), op_enabled := pt_Enabled (f (point_of_row p))\<rparr>"
    by (simp add: write_point_def assms(3)) (simp add: point_of_row_def)
  then show "(if op_edge_device_id p = er_id r
      then case List.find (\<lambda>q. pt_ID q = op_observation_point_id p) (map f (stored_points d r)) of
          None \<Rightarrow> p | Some q \<Rightarrow> write_point ts q p
      else p) = (if op_edge_device_id p = er_id r
      then p\<lparr>op_name := pt_Name (f (point_of_row p)), op_enabled := pt_Enabled (f (point_of_row p))\<rparr> else p)"
    using find_stored_point [OF assms(1) p _ assms(2), of r] by simp
qed

lemma links_of_unregistered:
  "device_inv ts d \<Longrightarrow> c \<in> set (db_edge_devices d) \<Longrightarrow> er_unregistered c \<Longrightarrow> l \<in> set (db_camera_links d) \<Longrightarrow>
     lk_camera_edge_device_id l \<noteq> er_id c"
  unfolding device_inv_def links_ok_def link_ok_def using row_by_id by metis

lemma retire_unregistered:
  assumes "device_inv ts d" and "c \<in> set (db_edge_devices d)" and "er_unregistered c"
  shows "retire_cameras [er_edge_device_id c] d = d"
proof -
  note ids = row_by_id [OF conjunct1 [OF assms(1) [unfolded device_inv_def]]]
  have "update_where (\<lambda>r. er_edge_device_id r = er_edge_device_id c) (\<lambda>r. r\<lparr>er_unregistered := True\<rparr>) (db_edge_devices d)
      = db_edge_devices d"
    unfolding update_where_def
  proof (rule map_idI)
    fix r assume "r \<in> set (db_edge_devices d)"
    with ids [OF this assms(2)] assms(3)
    show "(if er_edge_device_id r = er_edge_device_id c then r\<lparr>er_unregistered := True\<rparr> else r) = r" by auto
  qed
  moreover have "filter (\<lambda>l. \<not> list_ex (\<lambda>r. er_edge_device_id r = er_edge_device_id c \<and> er_id r = lk_camera_edge_device_id l)
      (db_edge_devices d)) (db_camera_links d) = db_camera_links d"
  proof -
    have "\<not> list_ex (\<lambda>r. er_edge_device_id r = er_edge_device_id c \<and> er_id r = lk_camera_edge_device_id l) (db_edge_devices d)"
      if "l \<in> set (db_camera_links d)" for l
      unfolding list_ex_iff using links_of_unregistered [OF assms that] ids [OF _ assms(2)] by metis
    then show ?thesis by (simp add: filter_id_conv)
  qed
  ultimately show ?thesis by (simp add: retire_cameras_def)
qed

lemma retire_single:
  assumes "device_inv ts d" and "c \<in> set (db_edge_devices d)"
  shows "retire_cameras [er_edge_device_id c] d =
    d\<lparr>db_edge_devices := update_where (\<lambda>r. er_edge_device_id r = er_edge_device_id c) (\<lambda>r. r\<lparr>er_unregistered := True\<rparr>) (db_edge_devices d),
      db_camera_links := filter (\<lambda>l. lk_camera_edge_device_id l \<noteq> er_id c) (db_camera_links d)\<rparr>"
proof -
  note ids = row_by_id [OF conjunct1 [OF assms(1) [unfolded device_inv_def]]]
  have "list_ex (\<lambda>r. er_edge_device_id r = er_edge_device_id c \<and> er_id r = k) (db_edge_devices d) \<longleftrightarrow> k = er_id c" for k
    using ids [OF _ assms(2)] assms(2) by (auto simp: list_ex_iff)
  then show ?thesis by (simp add: retire_cameras_def)
qed

lemma unregister_camera_db:
  assumes "device_inv ts d" and "c \<in> set (db_edge_devices d)" and "er_kind c = ''camera''"
  shows "unregistered_db (er_id c) d = retire_cameras [er_edge_device_id c] d"
proof -
  note ids = row_by_id [OF conjunct1 [OF assms(1) [unfolded device_inv_def]] _ assms(2)]
  have own: "op_edge_device_id p \<noteq> er_id c" if "p \<in> set (db_observation_points d)" for p
    using camera_owns_nothing [OF assms that] .
  then have page: "\<not> linked_to_page d (er_id c) l" for l by (auto simp: linked_to_page_def list_ex_iff)
  then have "retired_cameras d (er_id c) = []" by (simp add: retired_cameras_def)
  moreover have "update_where (\<lambda>r. er_id r = er_id c) (\<lambda>r. r\<lparr>er_unregistered := True\<rparr>) (db_edge_devices d) =
      update_where (\<lambda>r. er_edge_device_id r = er_edge_device_id c) (\<lambda>r. r\<lparr>er_unregistered := True\<rparr>) (db_edge_devices d)"
    unfolding update_where_def using ids by (intro map_cong refl) metis
  ultimately show ?thesis
    unfolding retire_single [OF assms(1,2)] unregistered_db_def using page own by (simp add: update_where_none)
qed

lemma link_camera:
  assumes "device_inv ts d" and "l \<in> set (db_camera_links d)"
  obtains c where "c \<in> set (db_edge_devices d)" "er_id c = lk_camera_edge_device_id l" "er_kind c = ''camera''"
    "\<not> er_unregistered c"
  using assms unfolding device_inv_def links_ok_def link_ok_def by blast

lemma linked_camera_ids:
  assumes inv: "device_inv ts d" and r: "r \<in> set (db_edge_devices d)" "er_kind r \<noteq> ''camera''"
    and cs: "set cs = cl_CameraEdgeDeviceID ` set (stored_links d r)" and x: "x \<in> set (db_edge_devices d)"
  shows "er_edge_device_id x \<in> set cs \<longleftrightarrow> er_id x \<in> set (retired_cameras d (er_id r))"
proof -
  note ids = row_by_id [OF conjunct1 [OF inv [unfolded device_inv_def]]]
  have "er_edge_device_id x \<in> set cs \<longleftrightarrow> (\<exists>l \<in> set (db_camera_links d). er_id x = lk_camera_edge_device_id l \<and> linked_to_page d (er_id r) l)"
    unfolding cs stored_links_camera [OF inv r] linked_to_page_def list_ex_iff using ids [OF x] x by blast
  then show ?thesis by (auto simp: retired_cameras_def)
qed

lemma unregister_page_db:
  assumes inv: "device_inv ts d" and r: "r \<in> set (db_edge_devices d)" "er_kind r \<noteq> ''camera''"
    and cs: "set cs = cl_CameraEdgeDeviceID ` set (stored_links d r)"
  shows "(retire_cameras cs d)\<lparr>
      db_edge_devices := update_where (\<lambda>s. er_edge_device_id s = er_edge_device_id r) (\<lambda>s. s\<lparr>er_unregistered := True\<rparr>)
        (db_edge_devices (retire_cameras cs d)),
      db_observation_points := update_where (\<lambda>p. op_edge_device_id p = er_id r) (\<lambda>p. p\<lparr>op_enabled := False\<rparr>)
        (db_observation_points d)\<rparr> = unregistered_db (er_id r) d"
proof -
  note ids = row_by_id [OF conjunct1 [OF inv [unfolded device_inv_def]]]
  note cam = linked_camera_ids [OF inv r cs]
  have devices: "update_where (\<lambda>s. er_edge_device_id s = er_edge_device_id r) (\<lambda>s. s\<lparr>er_unregistered := True\<rparr>)
      (update_where (\<lambda>s. er_edge_device_id s \<in> set cs) (\<lambda>s. s\<lparr>er_unregistered := True\<rparr>) (db_edge_devices d)) =
    update_where (\<lambda>s. er_id s = er_id r \<or> er_id s \<in> set (retired_cameras d (er_id r)))
      (\<lambda>s. s\<lparr>er_unregistered := True\<rparr>) (db_edge_devices d)"
    unfolding update_where_def map_map
    using cam ids [OF _ r(1)] by (intro map_cong refl) (simp add: o_def, metis)
  have "list_ex (\<lambda>c. er_edge_device_id c \<in> set cs \<and> er_id c = lk_camera_edge_device_id l) (db_edge_devices d) \<longleftrightarrow>
      lk_camera_edge_device_id l = er_id r \<or> linked_to_page d (er_id r) l" if l: "l \<in> set (db_camera_links d)" for l
  proof -
    obtain c where c: "c \<in> set (db_edge_devices d)" "er_id c = lk_camera_edge_device_id l" "er_kind c = ''camera''"
      using link_camera [OF inv l] by metis
    then have not_r: "lk_camera_edge_device_id l \<noteq> er_id r" using ids [OF c(1) r(1)] r(2) by auto
    have "list_ex (\<lambda>c. er_edge_device_id c \<in> set cs \<and> er_id c = lk_camera_edge_device_id l) (db_edge_devices d)
        \<longleftrightarrow> lk_camera_edge_device_id l \<in> set (retired_cameras d (er_id r))"
      unfolding list_ex_iff using cam c(1,2) by metis
    also have "\<dots> \<longleftrightarrow> linked_to_page d (er_id r) l"
    proof
      assume "lk_camera_edge_device_id l \<in> set (retired_cameras d (er_id r))"
      then obtain l' where "l' \<in> set (db_camera_links d)" "linked_to_page d (er_id r) l'"
        "lk_camera_edge_device_id l' = lk_camera_edge_device_id l" by (auto simp: retired_cameras_def)
      moreover from this l have "l' = l"
        using inv by (auto simp: device_inv_def links_ok_def distinct_map dest: inj_onD)
      ultimately show "linked_to_page d (er_id r) l" by simp
    qed (use l in \<open>auto simp: retired_cameras_def\<close>)
    finally show ?thesis using not_r by simp
  qed
  then have "filter (\<lambda>l. \<not> list_ex (\<lambda>c. er_edge_device_id c \<in> set cs \<and> er_id c = lk_camera_edge_device_id l)
      (db_edge_devices d)) (db_camera_links d) =
    filter (\<lambda>l. lk_camera_edge_device_id l \<noteq> er_id r \<and> \<not> linked_to_page d (er_id r) l) (db_camera_links d)"
    by (intro filter_cong) auto
  with devices show ?thesis by (simp add: retire_cameras_def unregistered_db_def)
qed

lemma unregistered_db_rows:
  "map er_id (db_edge_devices (unregistered_db k d)) = map er_id (db_edge_devices d)"
  "map er_edge_device_id (db_edge_devices (unregistered_db k d)) = map er_edge_device_id (db_edge_devices d)"
  "map op_id (db_observation_points (unregistered_db k d)) = map op_id (db_observation_points d)"
  "map op_observation_point_id (db_observation_points (unregistered_db k d)) = map op_observation_point_id (db_observation_points d)"
  by (simp_all add: unregistered_db_def map_update_where)

definition retire_row :: "database \<Rightarrow> int \<Rightarrow> edge_device_row \<Rightarrow> edge_device_row" where
  "retire_row d k r = (if er_id r = k \<or> er_id r \<in> set (retired_cameras d k) then r\<lparr>er_unregistered := True\<rparr> else r)"

definition disable_row :: "int \<Rightarrow> observation_point_row \<Rightarrow> observation_point_row" where
  "disable_row k p = (if op_edge_device_id p = k then p\<lparr>op_enabled := False\<rparr> else p)"

lemma unregistered_db_sets:
  "set (db_edge_devices (unregistered_db k d)) = retire_row d k ` set (db_edge_devices d)"
  "set (db_observation_points (unregistered_db k d)) = disable_row k ` set (db_observation_points d)"
  by (simp_all add: unregistered_db_def set_update_where retire_row_def [abs_def] disable_row_def [abs_def])

lemma retire_row_fields [simp]:
  "er_id (retire_row d k r) = er_id r" "er_kind (retire_row d k r) = er_kind r"
  "er_event_id (retire_row d k r) = er_event_id r" "er_tenant_public_id (retire_row d k r) = er_tenant_public_id r"
  "er_last_heartbeat_at (retire_row d k r) = er_last_heartbeat_at r"
  "er_edge_device_id (retire_row d k r) = er_edge_device_id r"
  "er_unregistered r \<Longrightarrow> er_unregistered (retire_row d k r)"
  by (simp_all add: retire_row_def)

lemma disable_row_fields [simp]:
  "op_id (disable_row k p) = op_id p" "op_edge_device_id (disable_row k p) = op_edge_device_id p"
  "op_last_active_at (disable_row k p) = op_last_active_at p"
  "op_enabled (disable_row k p) \<longleftrightarrow> op_enabled p \<and> op_edge_device_id p \<noteq> k"
  by (simp_all add: disable_row_def)

lemma retired_are_cameras:
  assumes "device_inv ts d" and "r \<in> set (db_edge_devices d)" and "er_id r \<in> set (retired_cameras d k)"
  shows "er_kind r = ''camera''"
proof -
  from assms(3) obtain l where l: "l \<in> set (db_camera_links d)" "lk_camera_edge_device_id l = er_id r"
    by (auto simp: retired_cameras_def)
  obtain c where "c \<in> set (db_edge_devices d)" "er_id c = er_id r" "er_kind c = ''camera''"
    using link_camera [OF assms(1) l(1)] l(2) by metis
  with row_by_id [of ts d c r] assms(1,2) show ?thesis by (simp add: device_inv_def)
qed

lemma page_of_point:
  assumes "device_inv ts d" and "p \<in> set (db_observation_points d)" and "r \<in> set (db_edge_devices d)"
    and "er_id r = op_edge_device_id p"
  shows "er_kind r = ''observation_page''"
  using assms row_by_id [of ts d] by (auto simp: device_inv_def points_ok_def) metis

lemma unregistered_points_ok:
  assumes inv: "device_inv ts d"
  shows "points_ok ts (unregistered_db k d)"
proof -
  have "\<exists>r \<in> set (db_edge_devices (unregistered_db k d)). er_id r = op_edge_device_id p \<and> er_kind r = ''observation_page'' \<and>
      (er_unregistered r \<longrightarrow> \<not> op_enabled (disable_row k p))" if p: "p \<in> set (db_observation_points d)" for p
  proof -
    from p inv obtain r where r: "r \<in> set (db_edge_devices d)" "er_id r = op_edge_device_id p"
      "er_kind r = ''observation_page''" "er_unregistered r \<longrightarrow> \<not> op_enabled p"
      by (auto simp: device_inv_def points_ok_def)
    have "er_unregistered (retire_row d k r) \<longrightarrow> \<not> op_enabled (disable_row k p)"
      using retired_are_cameras [OF inv r(1)] r by (auto simp: retire_row_def)
    moreover have "retire_row d k r \<in> set (db_edge_devices (unregistered_db k d))"
      unfolding unregistered_db_sets using r(1) by (rule imageI)
    ultimately show ?thesis using r by (intro bexI [of _ "retire_row d k r"]) simp_all
  qed
  with inv show ?thesis
    unfolding device_inv_def points_ok_def unregistered_db_rows unregistered_db_sets(2) by auto
qed

lemma unregistered_link_ok:
  assumes inv: "device_inv ts d" and l: "l \<in> set (db_camera_links (unregistered_db k d))"
  shows "link_ok (unregistered_db k d) l"
proof -
  from l have l': "l \<in> set (db_camera_links d)" and kept: "lk_camera_edge_device_id l \<noteq> k" "\<not> linked_to_page d k l"
    by (auto simp: unregistered_db_def)
  from l' inv obtain c p r where c: "c \<in> set (db_edge_devices d)" "p \<in> set (db_observation_points d)" "r \<in> set (db_edge_devices d)"
    "er_id c = lk_camera_edge_device_id l" "er_kind c = ''camera''" "\<not> er_unregistered c"
    "op_id p = lk_observation_point_id l" "er_id r = op_edge_device_id p" "\<not> er_unregistered r"
    "er_event_id r = er_event_id c" "er_tenant_public_id r = er_tenant_public_id c"
    unfolding device_inv_def links_ok_def link_ok_def by blast
  have "op_edge_device_id p \<noteq> k" using kept(2) c(2,7) by (auto simp: linked_to_page_def list_ex_iff)
  moreover have "er_id c \<notin> set (retired_cameras d k)"
  proof
    assume "er_id c \<in> set (retired_cameras d k)"
    then obtain l2 where "l2 \<in> set (db_camera_links d)" "linked_to_page d k l2" "lk_camera_edge_device_id l2 = lk_camera_edge_device_id l"
      using c(4) by (auto simp: retired_cameras_def)
    moreover from this l' have "l2 = l" using inv by (auto simp: device_inv_def links_ok_def distinct_map dest: inj_onD)
    ultimately show False using kept(2) by simp
  qed
  ultimately have same: "retire_row d k c = c" "retire_row d k r = r" "disable_row k p = p"
    using kept(1) c(4,8) page_of_point [OF inv c(2,3,8)] retired_are_cameras [OF inv c(3)]
    by (auto simp: retire_row_def disable_row_def)
  have "retire_row d k c \<in> set (db_edge_devices (unregistered_db k d))" "retire_row d k r \<in> set (db_edge_devices (unregistered_db k d))"
    "disable_row k p \<in> set (db_observation_points (unregistered_db k d))"
    unfolding unregistered_db_sets using c(1-3) by (blast intro: imageI)+
  then show ?thesis using c unfolding same link_ok_def by blast
qed

lemma unregistered_camera_linked:
  assumes inv: "device_inv ts d" and c: "c \<in> set (db_edge_devices (unregistered_db k d))" "er_kind c = ''camera''" "\<not> er_unregistered c"
  shows "er_id c \<in> lk_camera_edge_device_id ` set (db_camera_links (unregistered_db k d))"
proof -
  from c(1) obtain c0 where c0: "c0 \<in> set (db_edge_devices d)" "c = retire_row d k c0" unfolding unregistered_db_sets by blast
  then have keep: "er_id c0 \<noteq> k" "er_id c0 \<notin> set (retired_cameras d k)" "c = c0"
    using c(3) by (auto simp: retire_row_def split: if_splits)
  with inv c c0 obtain l where l: "l \<in> set (db_camera_links d)" "lk_camera_edge_device_id l = er_id c0"
    by (auto simp: device_inv_def links_ok_def)
  have "\<not> linked_to_page d k l" using l keep(2) by (force simp: retired_cameras_def)
  then have "l \<in> set (db_camera_links (unregistered_db k d))" using l keep(1) by (simp add: unregistered_db_def)
  with l keep(3) show ?thesis by force
qed

lemma unregistered_db_inv:
  assumes inv: "device_inv ts d"
  shows "device_inv ts (unregistered_db k d)"
proof -
  have "devices_ok ts (unregistered_db k d)"
    using inv unfolding device_inv_def devices_ok_def unregistered_db_rows unregistered_db_sets by auto
  moreover have "links_ok (unregistered_db k d)"
    using inv unregistered_link_ok [OF inv] unregistered_camera_linked [OF inv]
    unfolding device_inv_def links_ok_def by (auto simp: unregistered_db_def distinct_map_filter)
  ultimately show ?thesis using unregistered_points_ok [OF inv] by (simp add: device_inv_def)
qed

end
