(* ===== verification/EdgeDeviceProperties.thy ===== *)
theory EdgeDeviceProperties
  imports EdgeDeviceUseCases DeviceInvariant
begin

section \<open>The edge device use cases on PostgreSQL\<close>

text \<open>
  The service as \<open>main.go\<close> wires it, and what its use cases do to the tables: a functional
  specification of each state-changing one, under any script of faults, and from these the invariant
  of the tables, the permanence of an unregistration and the isolation of tenants.
\<close>

definition PostgresEdgeDeviceService ::
  "(time \<Rightarrow> time) \<Rightarrow> HeartbeatLossHoldPolicy \<Rightarrow> duration \<Rightarrow> ('x, 'r) EdgeDeviceService" where
  "PostgresEdgeDeviceService ts policy timeout =
     NewEdgeDeviceService (NewPostgresEdgeDeviceRepository ts)
       (NewHeartbeatLossHolds (NewPostgresHeartbeatLossHoldRepository ts) policy) timeout"

lemma pg_devices [simp]:
  "sv_devices (PostgresEdgeDeviceService ts p t) = NewPostgresEdgeDeviceRepository ts"
  "sv_holds (PostgresEdgeDeviceService ts p t) = NewHeartbeatLossHolds (NewPostgresHeartbeatLossHoldRepository ts) p"
  "sv_HeartbeatTimeout (PostgresEdgeDeviceService ts p t) = t"
  by (simp_all add: PostgresEdgeDeviceService_def NewEdgeDeviceService_def)

lemma pg_repository [simp]:
  "dr_WithinTransaction (NewPostgresEdgeDeviceRepository ts) = RunInTransaction"
  "dr_Create (NewPostgresEdgeDeviceRepository ts) = Create ts"
  "dr_FindByID (NewPostgresEdgeDeviceRepository ts) = FindByID"
  "dr_FindByIDForUpdate (NewPostgresEdgeDeviceRepository ts) = FindByIDForUpdate"
  "dr_FindByObservationPointID (NewPostgresEdgeDeviceRepository ts) = FindByObservationPointID"
  "dr_FindByObservationPointIDForUpdate (NewPostgresEdgeDeviceRepository ts) = FindByObservationPointIDForUpdate"
  "dr_ListByEvent (NewPostgresEdgeDeviceRepository ts) = ListByEvent"
  "dr_Save (NewPostgresEdgeDeviceRepository ts) = Save ts"
  "dr_SaveHeartbeat (NewPostgresEdgeDeviceRepository ts) = SaveHeartbeat ts"
  by (simp_all add: NewPostgresEdgeDeviceRepository_def)

subsection \<open>Saving an unregistered device\<close>

lemma devices_by_id_unique:
  assumes "devices_ok ts d" and "r \<in> set (db_edge_devices d)" and "devices_by_id (er_edge_device_id r) d = s # rest"
  shows "s = r"
proof -
  have "s \<in> set (devices_by_id (er_edge_device_id r) d)" using assms(3) by simp
  then show ?thesis using row_by_id [OF assms(1)] assms(2) by (auto simp: devices_by_id_def)
qed

lemma stored_device_fields [simp]:
  "dev_ID (stored_device d r) = er_edge_device_id r" "dev_TenantPublicID (stored_device d r) = er_tenant_public_id r"
  "dev_EventID (stored_device d r) = er_event_id r" "dev_Name (stored_device d r) = er_name r"
  "dev_Unregistered (stored_device d r) = er_unregistered r"
  "dev_LastHeartbeatAt (stored_device d r) = er_last_heartbeat_at r"
  "dev_ObservationPoints (stored_device d r) = stored_points d r" "dev_CameraLinks (stored_device d r) = stored_links d r"
  "dev_Kind (stored_device d r) = EdgeDeviceKindCamera \<longleftrightarrow> er_kind r = ''camera''"
  "dev_Kind (stored_device d r) = EdgeDeviceKindObservationPage \<longleftrightarrow> er_kind r \<noteq> ''camera''"
  by (simp_all add: stored_device_def toDomain_kind)

lemma stored_kind: "kind_check (er_kind r) \<Longrightarrow> kind_String (dev_Kind (stored_device d r)) = er_kind r"
  by (simp add: stored_device_def toDomain_kind)

lemma inv_kind: "device_inv ts d \<Longrightarrow> r \<in> set (db_edge_devices d) \<Longrightarrow> kind_check (er_kind r)"
  by (simp add: device_inv_def devices_ok_def)

lemma inv_parts: "device_inv ts d \<Longrightarrow> devices_ok ts d" "device_inv ts d \<Longrightarrow> points_ok ts d" "device_inv ts d \<Longrightarrow> links_ok d"
  by (simp_all add: device_inv_def)

lemma save_retired_camera:
  assumes inv: "device_inv ts (w_db w)" and c: "c \<in> set (db_edge_devices (w_db w))" "er_kind c = ''camera''"
    and dev: "Unregister (stored_device (w_db w) c) = Inr device" and save: "Save ts ctx device w = (Inr u, w')"
  shows "w_db w' = retire_cameras [er_edge_device_id c] (w_db w)"
proof -
  have fields: "dev_ID device = er_edge_device_id c" "dev_Unregistered device" "dev_Name device = er_name c"
    "dev_LastHeartbeatAt device = er_last_heartbeat_at c" "dev_Kind device = EdgeDeviceKindCamera"
    "dev_ObservationPoints device = []" "dev_CameraLinks device = []"
    using dev c(2) camera_stored_points [OF inv c] by (auto simp: Unregister_def Let_def split: if_splits)
  from save show ?thesis
  proof (rule Save_Inr)
    fix r rest
    assume "devices_by_id (dev_ID device) (w_db w) = r # rest"
    then have r: "r = c" using devices_by_id_unique [OF inv_parts(1) [OF inv] c(1)] fields(1) by simp
    assume "w_db w' = (w_db w)\<lparr>
       db_edge_devices := update_where (\<lambda>r. er_edge_device_id r = dev_ID device) (write_device ts device) (db_edge_devices (w_db w)),
       db_observation_points := write_points ts (er_id r) (dev_ObservationPoints device) (db_observation_points (w_db w)),
       db_camera_links := (if dev_Kind device = EdgeDeviceKindCamera
         then filter (\<lambda>l. lk_camera_edge_device_id l \<noteq> er_id r) (db_camera_links (w_db w))
         else db_camera_links (w_db w))\<rparr>"
    then show ?thesis
      using write_same_device [OF inv_parts(1) [OF inv] c(1), of device] c(2)
      by (simp add: fields r retire_single [OF inv c(1)])
  qed (simp_all add: fields)
qed

lemma save_retired_page:
  assumes inv: "device_inv ts d" and r: "r \<in> set (db_edge_devices d)" "er_kind r \<noteq> ''camera''"
    and cs: "set cs = cl_CameraEdgeDeviceID ` set (stored_links d r)"
    and dev: "Unregister (stored_device d r) = Inr device"
    and w: "w_db w = retire_cameras cs d" and save: "Save ts ctx (device\<lparr>dev_CameraLinks := []\<rparr>) w = (Inr u, w')"
  shows "w_db w' = unregistered_db (er_id r) d"
proof -
  have cam: "er_kind x = ''camera''" if "x \<in> set (db_edge_devices d)" "er_edge_device_id x \<in> set cs" for x
    using linked_camera_ids [OF inv r cs that(1)] that(2) retired_are_cameras [OF inv that(1)] by blast
  have inv': "device_inv ts (w_db w)" unfolding w using retire_cameras_inv [OF inv cam] .
  have r': "r \<in> set (db_edge_devices (w_db w))"
    unfolding w set_retired_devices using r cam by (intro bexI [of _ r]) auto
  have pts: "stored_points d r = stored_points (w_db w) r"
    by (simp add: stored_points_def points_of_devices_def w retire_cameras_rows)
  have fields: "dev_ID device = er_edge_device_id r" "dev_Unregistered device" "dev_Name device = er_name r"
    "dev_LastHeartbeatAt device = er_last_heartbeat_at r" "kind_String (dev_Kind device) = er_kind r"
    "dev_Kind device \<noteq> EdgeDeviceKindCamera"
    "dev_ObservationPoints device = map (\<lambda>p. p\<lparr>pt_Enabled := False\<rparr>) (stored_points (w_db w) r)"
    using dev r stored_kind [OF inv_kind [OF inv r(1)], of d] pts
    by (auto simp: Unregister_def Let_def split: if_splits)
  from save show ?thesis
  proof (rule Save_Inr)
    have "map pt_ID (dev_ObservationPoints device) = map pt_ID (stored_points (w_db w) r)" by (simp add: fields(7))
    then show "distinct (map pt_ID (dev_ObservationPoints (device\<lparr>dev_CameraLinks := []\<rparr>)))"
      using stored_points_distinct [OF inv_parts(2) [OF inv']] by simp
    fix s rest
    assume "devices_by_id (dev_ID (device\<lparr>dev_CameraLinks := []\<rparr>)) (w_db w) = s # rest"
    then have s: "s = r" using devices_by_id_unique [OF inv_parts(1) [OF inv'] r'] fields(1) by simp
    let ?device = "device\<lparr>dev_CameraLinks := []\<rparr>"
    assume "w_db w' = (w_db w)\<lparr>
       db_edge_devices := update_where (\<lambda>r. er_edge_device_id r = dev_ID ?device) (write_device ts ?device) (db_edge_devices (w_db w)),
       db_observation_points := write_points ts (er_id s) (dev_ObservationPoints ?device) (db_observation_points (w_db w)),
       db_camera_links := (if dev_Kind ?device = EdgeDeviceKindCamera
         then filter (\<lambda>l. lk_camera_edge_device_id l \<noteq> er_id s) (db_camera_links (w_db w))
         else db_camera_links (w_db w))\<rparr>"
    moreover have "write_points ts (er_id r) (dev_ObservationPoints ?device) (db_observation_points (w_db w)) =
        update_where (\<lambda>p. op_edge_device_id p = er_id r) (\<lambda>p. p\<lparr>op_enabled := False\<rparr>) (db_observation_points (w_db w))"
      using write_stored_points [OF inv_parts(2) [OF inv'], of "\<lambda>p. p\<lparr>pt_Enabled := False\<rparr>" r]
      by (simp add: fields(7)) (simp add: point_of_row_def update_where_def)
    ultimately have "w_db w' = (w_db w)\<lparr>
       db_edge_devices := update_where (\<lambda>x. er_edge_device_id x = er_edge_device_id r) (\<lambda>x. x\<lparr>er_unregistered := True\<rparr>)
         (db_edge_devices (w_db w)),
       db_observation_points := update_where (\<lambda>p. op_edge_device_id p = er_id r) (\<lambda>p. p\<lparr>op_enabled := False\<rparr>)
         (db_observation_points (w_db w))\<rparr>"
      using write_same_device [OF inv_parts(1) [OF inv'] r', of ?device] by (simp add: fields s)
    then show ?thesis
      using unregister_page_db [OF inv r cs] by (simp add: w retire_cameras_rows)
  qed (simp add: fields)
qed

subsection \<open>UnregisterEdgeDevice\<close>

lemma forE_snoc: "forE f (xs @ [x]) = bindE (forE f xs) (\<lambda>_. f x)"
proof (induction xs)
  case (Cons y xs)
  then show ?case by (auto simp: bindE_def fun_eq_iff split: prod.splits sum.splits)
qed (simp add: bindE_def fun_eq_iff effect_simps split: prod.splits sum.splits)

lemma unregister_camera_Inr:
  fixes s :: "('x, 'r) EdgeDeviceService" and ts p timeout
  defines "s \<equiv> PostgresEdgeDeviceService ts p timeout"
  assumes inv: "device_inv ts (w_db w)"
    and cam: "\<And>r. r \<in> set (db_edge_devices (w_db w)) \<Longrightarrow> er_edge_device_id r = cid \<Longrightarrow> er_kind r = ''camera''"
    and run: "unregister_camera s ctx cid w = (Inr u, w')"
  shows "w_db w' = retire_cameras [cid] (w_db w)"
proof -
  from run obtain device w1 where find: "FindByIDForUpdate ctx cid w = (Inr device, w1)"
    and rest: "(if dev_Unregistered device then returnE ()
     else bindE (liftE (Unregister device)) (\<lambda>camera. wrapE (Wrap ''save linked camera'') (Save ts ctx camera))) w1 = (Inr u, w')"
    by (auto simp: unregister_camera_def s_def bindE_Inr cong: if_cong)
  from find show ?thesis
  proof (rule FindByIDForUpdate_Inr)
    fix c assume c: "c \<in> set (db_edge_devices (w_db w))" "er_edge_device_id c = cid"
      "device = stored_device (w_db w) c" and w1: "w_db w1 = w_db w"
    show ?thesis
    proof (cases "er_unregistered c")
      case True
      with rest c w1 retire_unregistered [OF inv c(1)] show ?thesis by auto
    next
      case False
      with rest c(3) obtain camera where "Unregister (stored_device (w_db w1) c) = Inr camera" "Save ts ctx camera w1 = (Inr u, w')"
        by (auto simp: bindE_Inr w1)
      from save_retired_camera [OF _ _ _ this] inv c cam [OF c(1,2)] w1 show ?thesis by simp
    qed
  qed
qed

lemma unregister_cameras_Inr:
  fixes s :: "('x, 'r) EdgeDeviceService" and ts p timeout
  defines "s \<equiv> PostgresEdgeDeviceService ts p timeout"
  assumes inv: "device_inv ts (w_db w)"
    and cam: "\<And>r. r \<in> set (db_edge_devices (w_db w)) \<Longrightarrow> er_edge_device_id r \<in> set cs \<Longrightarrow> er_kind r = ''camera''"
    and run: "forE (unregister_camera s ctx) cs w = (Inr u, w')"
  shows "w_db w' = retire_cameras cs (w_db w)"
  using cam run
proof (induction cs arbitrary: w' u rule: rev_induct)
  case (snoc c cs)
  from snoc.prems(2) obtain w1 where
    front: "forE (unregister_camera s ctx) cs w = (Inr (), w1)"
    and last: "unregister_camera s ctx c w1 = (Inr u, w')"
    unfolding forE_snoc bindE_Inr by auto
  have w1: "w_db w1 = retire_cameras cs (w_db w)" using snoc.IH [OF _ front] snoc.prems(1) by simp
  have "device_inv ts (w_db w1)" unfolding w1 using retire_cameras_inv [OF inv] snoc.prems(1) by simp
  moreover have "er_kind r = ''camera''" if r: "r \<in> set (db_edge_devices (w_db w1))" "er_edge_device_id r = c" for r
  proof -
    from r(1) obtain q where q: "q \<in> set (db_edge_devices (w_db w))"
      "r = (if er_edge_device_id q \<in> set cs then q\<lparr>er_unregistered := True\<rparr> else q)"
      unfolding w1 set_retired_devices by blast
    then have "er_edge_device_id q = c" "er_kind r = er_kind q" using r(2) by (auto split: if_splits)
    with snoc.prems(1) [OF q(1)] show ?thesis by simp
  qed
  ultimately have "w_db w' = retire_cameras [c] (w_db w1)"
    using unregister_camera_Inr [OF _ _ last [unfolded s_def]] by blast
  then show ?case by (simp add: w1 retire_cameras_fold)
qed simp

lemma set_linked_cameras: "set (linked_cameras device) = cl_CameraEdgeDeviceID ` set (dev_CameraLinks device)"
  by (simp add: linked_cameras_def)

lemma view_reads: "view s device w = (Inr v, w') \<Longrightarrow> w_db w' = w_db w \<and> vw_Device v = device"
  by (auto simp: view_def bindE_Inr now_def)

lemma unregister_body_Inr:
  fixes s :: "('x, 'r) EdgeDeviceService" and ts p timeout
  defines "s \<equiv> PostgresEdgeDeviceService ts p timeout"
  assumes inv: "device_inv ts (w_db w)"
    and run: "unregister_body s input pid ctx w = (Inr v, w')"
  shows "\<exists>r \<in> set (db_edge_devices (w_db w)). er_edge_device_id r = pid \<and> er_event_id r = un_EventID input \<and>
    \<not> er_unregistered r \<and> tenant_allows ctx (er_tenant_public_id r) \<and> w_db w' = unregistered_db (er_id r) (w_db w)"
proof -
  from run obtain device0 w1 device device1 w2 w3 where find: "FindByIDForUpdate ctx pid w = (Inr device0, w1)"
    and event: "dev_EventID device0 = un_EventID input" and un: "Unregister device0 = Inr device"
    and cams: "unregister_cameras s ctx device w1 = (Inr device1, w2)"
    and save: "Save ts ctx device1 w2 = (Inr (), w3)" and view: "view s device1 w3 = (Inr v, w')"
    by (auto simp: unregister_body_def s_def bindE_Inr split: if_splits)
  from find show ?thesis
  proof (rule FindByIDForUpdate_Inr)
    fix r assume r: "r \<in> set (db_edge_devices (w_db w))" "er_edge_device_id r = pid" "device0 = stored_device (w_db w) r"
      and allow: "tenant_allows ctx (er_tenant_public_id r)" and w1: "w_db w1 = w_db w"
    have "w_db w3 = unregistered_db (er_id r) (w_db w)"
    proof (cases "er_kind r = ''camera''")
      case True
      then have "dev_Kind device = EdgeDeviceKindCamera" using un r(3) by (auto simp: Unregister_def Let_def split: if_splits)
      with cams have "device1 = device" "w2 = w1" by (auto simp: unregister_cameras_def)
      with save_retired_camera [of ts w1 r device ctx "()" w3] save inv r True un w1
        unregister_camera_db [OF inv r(1) True] show ?thesis by simp
    next
      case False
      then have kind: "dev_Kind device = EdgeDeviceKindObservationPage" and links: "dev_CameraLinks device = stored_links (w_db w) r"
        using un r(3) by (auto simp: Unregister_def Let_def split: if_splits)
      from cams kind have loop: "forE (unregister_camera s ctx) (linked_cameras device) w1 = (Inr (), w2)"
        and device1: "device1 = device\<lparr>dev_CameraLinks := []\<rparr>" by (auto simp: unregister_cameras_def bindE_Inr)
      have cs: "set (linked_cameras device) = cl_CameraEdgeDeviceID ` set (stored_links (w_db w) r)"
        by (simp add: set_linked_cameras links)
      have "er_kind x = ''camera''" if "x \<in> set (db_edge_devices (w_db w))" "er_edge_device_id x \<in> set (linked_cameras device)" for x
        using linked_camera_ids [OF inv r(1) False cs that(1)] that(2) retired_are_cameras [OF inv that(1)] by blast
      then have "w_db w2 = retire_cameras (linked_cameras device) (w_db w)"
        using unregister_cameras_Inr [OF _ _ loop [unfolded s_def]] inv w1 by simp
      from save_retired_page [OF inv r(1) False cs _ this save [unfolded device1]] un r(3) show ?thesis by simp
    qed
    with view_reads [OF view] r event allow un show ?thesis
      by (intro bexI [of _ r]) (auto simp: Unregister_def Let_def split: if_splits)
  qed
qed

lemma ParseEdgeDeviceID_Inr [simp]: "ParseEdgeDeviceID s = Inr t \<longleftrightarrow> is_public_id s \<and> t = s"
  by (simp add: parsePublicID_iff)

lemma UnregisterEdgeDevice_outcome:
  fixes s :: "('x, EdgeDeviceView) EdgeDeviceService" and ts p timeout
  defines "s \<equiv> PostgresEdgeDeviceService ts p timeout"
  assumes tx: "\<not> ctx_tx ctx" and inv: "device_inv ts (w_db w)"
    and run: "UnregisterEdgeDevice s ctx input w = (r, w')"
  shows "((\<exists>e. r = Inl e) \<and> w_db w' = w_db w) \<or>
    ((\<exists>v. r = Inr v) \<or> (\<exists>e. r = Inl (Wrap ''commit transaction'' e))) \<and>
    (\<exists>row \<in> set (db_edge_devices (w_db w)). er_edge_device_id row = un_EdgeDeviceID input \<and>
       er_event_id row = un_EventID input \<and> \<not> er_unregistered row \<and> tenant_allows ctx (er_tenant_public_id row) \<and>
       w_db w' = unregistered_db (er_id row) (w_db w))"
proof (cases "EnsureEvent ctx (un_EventID input) = Inr () \<and> is_public_id (un_EdgeDeviceID input)")
  case False
  then have "(\<exists>e. r = Inl e) \<and> w' = w"
    using run by (cases "EnsureEvent ctx (un_EventID input)")
      (auto simp: UnregisterEdgeDevice_def parsePublicID_eq effect_simps)
  then show ?thesis by blast
next
  case True
  with run have "RunInTransaction ctx (unregister_body s input (un_EdgeDeviceID input)) w = (r, w')"
    by (simp add: UnregisterEdgeDevice_def parsePublicID_eq s_def)
  then show ?thesis
    unfolding RunInTransaction_def
  proof (rule runInTransaction_outcome [OF _ tx])
    fix x and w0 w1 :: "'x world"
    assume begin': "next_fault w = (NoFault, w0)" and body: "unregister_body s input (un_EdgeDeviceID input) (ctx\<lparr>ctx_tx := True\<rparr>) w0 = (Inr x, w1)"
      and w': "w_db w' = w_db w1" and r: "r = Inr x \<or> (\<exists>e. r = Inl (Wrap ''commit transaction'' e))"
    have "device_inv ts (w_db w0)" using inv next_fault_db [OF begin'] by simp
    from unregister_body_Inr [OF this body [unfolded s_def]] show ?thesis
      using r w' next_fault_db [OF begin'] by auto
  qed blast
qed

text \<open>C10. Unregistering is one all-or-nothing step with a cascade. Whatever faults occur, either nothing is
  stored and the request fails, or the request found a registered device of its event that the tenant
  may touch, and then that device and every camera linked to one of its points are unregistered, its points
  disabled and all those links removed, and nothing else has changed; only a lost answer to COMMIT reports the
  second outcome as an error.\<close>

theorem UnregisterEdgeDevice_cascade:
  assumes "\<not> ctx_tx ctx" and "device_inv ts (w_db w)"
    and "UnregisterEdgeDevice (PostgresEdgeDeviceService ts p timeout) ctx input w = (r, w')"
  shows "((\<exists>e. r = Inl e) \<and> w_db w' = w_db w) \<or>
    ((\<exists>v. r = Inr v) \<or> (\<exists>e. r = Inl (Wrap ''commit transaction'' e))) \<and>
    (\<exists>row \<in> set (db_edge_devices (w_db w)). er_edge_device_id row = un_EdgeDeviceID input \<and>
       er_event_id row = un_EventID input \<and> \<not> er_unregistered row \<and> tenant_allows ctx (er_tenant_public_id row) \<and>
       w_db w' = unregistered_db (er_id row) (w_db w))"
  by (rule UnregisterEdgeDevice_outcome [OF assms])

definition sample_page :: edge_device_row where
  "sample_page = \<lparr>er_id = 1, er_edge_device_id = ''00000000000000aa'', er_tenant_public_id = ''t'', er_event_id = ''e'',
     er_name = ''gate'', er_unregistered = False, er_last_heartbeat_at = None, er_kind = ''observation_page''\<rparr>"

definition sample_camera_row :: edge_device_row where
  "sample_camera_row = \<lparr>er_id = 2, er_edge_device_id = ''00000000000000bb'', er_tenant_public_id = ''t'', er_event_id = ''e'',
     er_name = ''camera'', er_unregistered = False, er_last_heartbeat_at = None, er_kind = ''camera''\<rparr>"

definition sample_point_row :: observation_point_row where
  "sample_point_row = \<lparr>op_id = 1, op_observation_point_id = ''00000000000000cc'', op_edge_device_id = 1,
     op_name = ''north'', op_enabled = True, op_last_active_at = None\<rparr>"

definition sample_device_db :: database where
  "sample_device_db = empty_db\<lparr>db_edge_devices := [sample_page, sample_camera_row],
     db_observation_points := [sample_point_row],
     db_camera_links := [\<lparr>lk_id = 1, lk_camera_edge_device_id = 2, lk_observation_point_id = 1\<rparr>]\<rparr>"

lemma trimmed_e: "trimmed ''e''"
  by code_simp

lemma sample_device_inv: "device_inv ts (w_db (sample_world fs sample_device_db x))"
  by (simp add: sample_world_def device_inv_def devices_ok_def points_ok_def links_ok_def link_ok_def
      sample_device_db_def sample_page_def sample_camera_row_def sample_point_row_def kind_check_def trimmed_e empty_db_def)

definition sample_unregister :: UnregisterEdgeDeviceInput where
  "sample_unregister = \<lparr>un_EventID = ''e'', un_EdgeDeviceID = ''00000000000000aa''\<rparr>"

lemma UnregisterEdgeDevice_cascade_witness:
  "\<exists>v w'. UnregisterEdgeDevice (PostgresEdgeDeviceService trunc_us sample_policy minute) (sample_ctx ''t'' ''e'') sample_unregister
       (sample_world [] sample_device_db ()) = (Inr v, w') \<and>
     w_db w' = unregistered_db 1 sample_device_db \<and>
     map er_unregistered (db_edge_devices (unregistered_db 1 sample_device_db)) = [True, True] \<and>
     db_camera_links (unregistered_db 1 sample_device_db) = []"
proof -
  obtain r w' where run: "UnregisterEdgeDevice (PostgresEdgeDeviceService trunc_us sample_policy minute) (sample_ctx ''t'' ''e'')
      sample_unregister (sample_world [] sample_device_db ()) = (r, w')" by fastforce
  have "case fst (UnregisterEdgeDevice (PostgresEdgeDeviceService trunc_us sample_policy minute) (sample_ctx ''t'' ''e'')
      sample_unregister (sample_world [] sample_device_db ())) of Inl e \<Rightarrow> False | Inr v \<Rightarrow> True"
    by code_simp
  then obtain v where v: "r = Inr v" unfolding run by (cases r) simp_all
  have db: "w_db (sample_world [] sample_device_db ()) = sample_device_db" by (simp add: sample_world_def)
  have "w_db w' = unregistered_db 1 sample_device_db"
    using UnregisterEdgeDevice_cascade [OF sample_ctx_tx sample_device_inv run] unfolding db v
    by (auto simp: sample_device_db_def sample_unregister_def sample_page_def sample_camera_row_def)
  moreover have "map er_unregistered (db_edge_devices (unregistered_db 1 sample_device_db)) = [True, True] \<and>
     db_camera_links (unregistered_db 1 sample_device_db) = []"
    by code_simp
  ultimately show ?thesis using run unfolding v by (intro exI [of _ v] exI [of _ w'] conjI) simp_all
qed

end
