(* ===== verification/DeviceLifecycle.thy ===== *)
theory DeviceLifecycle
  imports EdgeDeviceProperties
begin

section \<open>Registering, configuring and heartbeats, and the system of concurrent requests\<close>

text \<open>
  What registering a device, configuring a point and storing a heartbeat do to the tables, each as
  a function on them, and the system in which requests of all kinds follow one another, the two halves of a
  heartbeat with others in between. From the functions follow the invariant of every reachable database,
  that nothing ever undoes an unregistration, and that a request writes only what its tenant and event own.
\<close>

subsection \<open>Creating a device\<close>

definition new_device_row :: "(time \<Rightarrow> time) \<Rightarrow> int \<Rightarrow> EdgeDevice \<Rightarrow> edge_device_row" where
  "new_device_row ts k device = \<lparr>er_id = k, er_edge_device_id = dev_ID device, er_tenant_public_id = dev_TenantPublicID device,
     er_event_id = dev_EventID device, er_name = dev_Name device, er_unregistered = dev_Unregistered device,
     er_last_heartbeat_at = map_option ts (dev_LastHeartbeatAt device), er_kind = kind_String (dev_Kind device)\<rparr>"

definition new_point_row :: "(time \<Rightarrow> time) \<Rightarrow> int \<Rightarrow> int \<Rightarrow> ObservationPoint \<Rightarrow> observation_point_row" where
  "new_point_row ts k i q = \<lparr>op_id = i, op_observation_point_id = pt_ID q, op_edge_device_id = k, op_name = pt_Name q,
     op_enabled = pt_Enabled q, op_last_active_at = map_option ts (pt_LastActiveAt q)\<rparr>"

definition append_points ::
  "(time \<Rightarrow> time) \<Rightarrow> int \<Rightarrow> ObservationPoint list \<Rightarrow> observation_point_row list \<Rightarrow> observation_point_row list" where
  "append_points ts k = fold (\<lambda>q rows. rows @ [new_point_row ts k (next_id op_id rows) q])"

definition stored_point :: "(time \<Rightarrow> time) \<Rightarrow> ObservationPoint \<Rightarrow> ObservationPoint" where
  "stored_point ts q = q\<lparr>pt_LastActiveAt := map_option ts (pt_LastActiveAt q)\<rparr>"

lemma point_fields [simp]:
  "pt_ID (point_of_row p) = op_observation_point_id p" "pt_Name (point_of_row p) = op_name p"
  "pt_Enabled (point_of_row p) = op_enabled p" "pt_LastActiveAt (point_of_row p) = op_last_active_at p"
  "pt_ID (stored_point ts q) = pt_ID q" "pt_Name (stored_point ts q) = pt_Name q"
  "pt_Enabled (stored_point ts q) = pt_Enabled q" "pt_LastActiveAt (stored_point ts q) = map_option ts (pt_LastActiveAt q)"
  by (simp_all add: point_of_row_def stored_point_def)

lemma append_points_spec:
  obtains news where "append_points ts k qs rows = rows @ news" "map point_of_row news = map (stored_point ts) qs"
    "\<And>p. p \<in> set news \<Longrightarrow> op_edge_device_id p = k" "sorted_wrt (<) (map op_id news)"
    "\<And>p r. p \<in> set news \<Longrightarrow> r \<in> set rows \<Longrightarrow> op_id r < op_id p"
proof -
  have "\<exists>news. append_points ts k qs rows = rows @ news \<and> map point_of_row news = map (stored_point ts) qs \<and>
    (\<forall>p \<in> set news. op_edge_device_id p = k) \<and> sorted_wrt (<) (map op_id news) \<and>
    (\<forall>p \<in> set news. \<forall>r \<in> set rows. op_id r < op_id p)"
  proof (induction qs arbitrary: rows)
    case (Cons q qs)
    let ?row = "new_point_row ts k (next_id op_id rows) q"
    obtain news where "append_points ts k qs (rows @ [?row]) = (rows @ [?row]) @ news"
      "map point_of_row news = map (stored_point ts) qs" "\<forall>p \<in> set news. op_edge_device_id p = k"
      "sorted_wrt (<) (map op_id news)" "\<forall>p \<in> set news. \<forall>r \<in> set (rows @ [?row]). op_id r < op_id p"
      using Cons [of "rows @ [?row]"] by blast
    moreover have "op_id r < op_id ?row" if "r \<in> set rows" for r
      using next_id_fresh [OF that, of op_id] by (simp add: new_point_row_def)
    moreover have "point_of_row ?row = stored_point ts q"
      by (simp add: new_point_row_def point_of_row_def stored_point_def)
    ultimately show ?case
      by (intro exI [of _ "?row # news"]) (auto simp: append_points_def, simp_all add: new_point_row_def)
  qed (simp add: append_points_def)
  then show thesis using that by blast
qed

lemma insert_device_Inr:
  "insert_edge_device ts device d = Inr (k, d') \<longleftrightarrow>
     kind_check (kind_String (dev_Kind device)) \<and> dev_ID device \<notin> er_edge_device_id ` set (db_edge_devices d) \<and>
     k = next_id er_id (db_edge_devices d) \<and> d' = d\<lparr>db_edge_devices := db_edge_devices d @ [new_device_row ts k device]\<rparr>"
  by (auto simp: insert_edge_device_def Let_def list_ex_iff new_device_row_def image_iff) metis

lemma insert_points_Inr:
  assumes "forE (\<lambda>point. wrapE f (sql (insert_observation_point ts k point))) qs w = (Inr u, w')"
  shows "w_db w' = (w_db w)\<lparr>db_observation_points := append_points ts k qs (db_observation_points (w_db w))\<rparr> \<and>
    (distinct (map op_observation_point_id (db_observation_points (w_db w))) \<longrightarrow>
       distinct (map op_observation_point_id (db_observation_points (w_db w'))))"
  using assms
proof (induction qs arbitrary: w)
  case (Cons q qs)
  then obtain w1 where first: "sql (insert_observation_point ts k q) w = (Inr (), w1)"
    and rest: "forE (\<lambda>point. wrapE f (sql (insert_observation_point ts k point))) qs w1 = (Inr u, w')"
    by (auto simp: bindE_Inr)
  from first have w1: "w_db w1 = (w_db w)\<lparr>db_observation_points := db_observation_points (w_db w) @
      [new_point_row ts k (next_id op_id (db_observation_points (w_db w))) q]\<rparr>"
    and fresh: "pt_ID q \<notin> op_observation_point_id ` set (db_observation_points (w_db w))"
    by (auto simp: sql_Inr insert_observation_point_def Let_def list_ex_iff new_point_row_def split: if_splits)
  from Cons.IH [OF rest] fresh show ?case
    by (auto simp: w1 append_points_def) (simp add: new_point_row_def)
qed (simp add: append_points_def)

text \<open>The tables after creating an observation page.\<close>

definition page_created_db :: "(time \<Rightarrow> time) \<Rightarrow> EdgeDevice \<Rightarrow> database \<Rightarrow> database" where
  "page_created_db ts device d =
     (let k = next_id er_id (db_edge_devices d) in
      d\<lparr>db_edge_devices := db_edge_devices d @ [new_device_row ts k device],
        db_observation_points := append_points ts k (dev_ObservationPoints device) (db_observation_points d)\<rparr>)"

definition camera_created_db :: "(time \<Rightarrow> time) \<Rightarrow> EdgeDevice \<Rightarrow> int \<Rightarrow> database \<Rightarrow> database" where
  "camera_created_db ts device point d =
     (let k = next_id er_id (db_edge_devices d) in
      d\<lparr>db_edge_devices := db_edge_devices d @ [new_device_row ts k device],
        db_camera_links := db_camera_links d @ [\<lparr>lk_id = next_id lk_id (db_camera_links d),
          lk_camera_edge_device_id = k, lk_observation_point_id = point\<rparr>]\<rparr>)"

lemma create_page_Inr:
  assumes "create_body ts device c w = (Inr u, w')" and "dev_CameraLinks device = []"
  shows "w_db w' = page_created_db ts device (w_db w) \<and> kind_check (kind_String (dev_Kind device)) \<and>
    dev_ID device \<notin> er_edge_device_id ` set (db_edge_devices (w_db w)) \<and>
    (distinct (map op_observation_point_id (db_observation_points (w_db w))) \<longrightarrow>
       distinct (map op_observation_point_id (db_observation_points (w_db w'))))"
proof -
  from assms(1) obtain k w2 where row: "sql (insert_edge_device ts device) w = (Inr k, w2)"
    and pts: "forE (\<lambda>point. wrapE (Wrap ''insert observation point'')
           (sql (insert_observation_point ts k point))) (dev_ObservationPoints device) w2 = (Inr (), w')"
    by (auto simp: create_body_def bindE_Inr assms(2) insertCameraLinks_def)
  from row show ?thesis
    using insert_points_Inr [OF pts] by (auto simp: sql_Inr insert_device_Inr page_created_db_def Let_def)
qed

lemma create_camera_Inr:
  assumes "create_body ts device c w = (Inr u, w')" and "dev_CameraLinks device = [link]" and "dev_ObservationPoints device = []"
  obtains p where "p \<in> set (db_observation_points (w_db w))" "op_observation_point_id p = cl_ObservationPointID link"
    "w_db w' = camera_created_db ts device (op_id p) (w_db w)" "kind_check (kind_String (dev_Kind device))"
    "dev_ID device \<notin> er_edge_device_id ` set (db_edge_devices (w_db w))"
    "op_id p \<notin> lk_observation_point_id ` set (db_camera_links (w_db w))"
    "next_id er_id (db_edge_devices (w_db w)) \<notin> lk_camera_edge_device_id ` set (db_camera_links (w_db w))"
proof -
  from assms(1) obtain k w2 pid w3 where row: "sql (insert_edge_device ts device) w = (Inr k, w2)"
    and found: "query_one (\<lambda>d. map op_id (points_by_id (cl_ObservationPointID link) d)) w2 = (Inr pid, w3)"
    and ins: "sql (insert_camera_link k pid) w3 = (Inr (), w')"
    by (auto simp: create_body_def bindE_Inr assms(2,3) insertCameraLinks_def)
  from row have w2: "w_db w2 = (w_db w)\<lparr>db_edge_devices := db_edge_devices (w_db w) @ [new_device_row ts k device]\<rparr>"
    and k: "kind_check (kind_String (dev_Kind device))" "dev_ID device \<notin> er_edge_device_id ` set (db_edge_devices (w_db w))"
      "k = next_id er_id (db_edge_devices (w_db w))"
    by (auto simp: sql_Inr insert_device_Inr)
  from query_one_reads [OF found] obtain p where p: "p \<in> set (db_observation_points (w_db w))"
    "op_observation_point_id p = cl_ObservationPointID link" "pid = op_id p" and w3: "w_db w3 = w_db w2"
    by (auto simp: points_by_id_def w2 map_eq_Cons_conv filter_eq_Cons_iff) blast
  from ins have "w_db w' = camera_created_db ts device (op_id p) (w_db w)"
    and free: "\<forall>l \<in> set (db_camera_links (w_db w)). lk_camera_edge_device_id l \<noteq> k \<and> lk_observation_point_id l \<noteq> op_id p"
    by (auto simp: sql_Inr insert_camera_link_def list_ex_iff p(3) k(3) w3 w2 camera_created_db_def Let_def split: if_splits)
  then show thesis
    using that [OF p(1,2)] k by (simp add: image_iff) metis
qed

text \<open>Both keep the invariant.\<close>

lemma link_ok_mono:
  assumes "link_ok d l" and "set (db_edge_devices d) \<subseteq> set (db_edge_devices d')"
    and "set (db_observation_points d) \<subseteq> set (db_observation_points d')"
  shows "link_ok d' l"
  using assms unfolding link_ok_def by (meson subsetD)

lemma stamp_idem: "timestamptz ts \<Longrightarrow> map_option ts (map_option ts x) = map_option ts x"
  by (cases x) (simp_all add: timestamptz.ts_idem)

lemma append_device_ok:
  assumes "devices_ok ts d" and "timestamptz ts" and "kind_check (kind_String (dev_Kind device))"
    and "dev_ID device \<notin> er_edge_device_id ` set (db_edge_devices d)" and "trimmed (dev_EventID device)"
    and "db_edge_devices d' = db_edge_devices d @ [new_device_row ts (next_id er_id (db_edge_devices d)) device]"
  shows "devices_ok ts d'"
  using assms(1,3-6) next_id_notin [of er_id "db_edge_devices d"] stamp_idem [OF assms(2)]
  by (auto simp: devices_ok_def new_device_row_def)

lemma page_created_inv:
  assumes inv: "device_inv ts d" and ts: "timestamptz ts" and kind: "dev_Kind device = EdgeDeviceKindObservationPage"
    and fresh: "dev_ID device \<notin> er_edge_device_id ` set (db_edge_devices d)"
    and dev: "trimmed (dev_EventID device)" "\<not> dev_Unregistered device"
    and pids: "distinct (map op_observation_point_id (db_observation_points (page_created_db ts device d)))"
  shows "device_inv ts (page_created_db ts device d)"
proof -
  let ?d = "page_created_db ts device d" and ?k = "next_id er_id (db_edge_devices d)"
  have rows: "db_edge_devices ?d = db_edge_devices d @ [new_device_row ts ?k device]" "db_camera_links ?d = db_camera_links d"
    by (simp_all add: page_created_db_def Let_def)
  obtain news where news: "append_points ts ?k (dev_ObservationPoints device) (db_observation_points d) = db_observation_points d @ news"
    "map point_of_row news = map (stored_point ts) (dev_ObservationPoints device)" "\<And>p. p \<in> set news \<Longrightarrow> op_edge_device_id p = ?k"
    "sorted_wrt (<) (map op_id news)" "\<And>p r. p \<in> set news \<Longrightarrow> r \<in> set (db_observation_points d) \<Longrightarrow> op_id r < op_id p"
    by (rule append_points_spec [of ts ?k "dev_ObservationPoints device" "db_observation_points d"], rule that)
  have points: "db_observation_points ?d = db_observation_points d @ news"
    using news(1) by (simp add: page_created_db_def Let_def)
  have "devices_ok ts ?d"
    using append_device_ok [OF inv_parts(1) [OF inv] ts _ fresh dev(1) rows(1)] by (simp add: kind kind_check_def)
  moreover have "points_ok ts ?d"
  proof -
    have "distinct (map op_id news)" using news(4) unfolding strict_sorted_iff by simp
    moreover have "op_id ` set (db_observation_points d) \<inter> op_id ` set news = {}" using news(5) by fastforce
    moreover have "distinct (map op_id (db_observation_points d))" using inv by (simp add: device_inv_def points_ok_def)
    ultimately have "distinct (map op_id (db_observation_points ?d))" by (simp add: points)
    moreover have "map_option ts (op_last_active_at p) = op_last_active_at p" if "p \<in> set news" for p
    proof -
      have "point_of_row p \<in> set (map (stored_point ts) (dev_ObservationPoints device))"
        using that unfolding news(2) [symmetric] by simp
      then obtain q where "point_of_row p = stored_point ts q" by auto
      then have "op_last_active_at p = map_option ts (pt_LastActiveAt q)"
        using point_fields(4,8) by metis
      then show ?thesis by (simp add: stamp_idem [OF ts])
    qed
    moreover have "new_device_row ts ?k device \<in> set (db_edge_devices ?d)" by (simp add: rows)
    ultimately show ?thesis
      using inv pids news(3) dev(2) kind unfolding points_ok_def device_inv_def points rows
      by (auto simp: new_device_row_def)
  qed
  moreover have "links_ok ?d"
  proof -
    have "link_ok ?d l" if "l \<in> set (db_camera_links d)" for l
    proof (rule link_ok_mono)
      show "link_ok d l" using inv that by (simp add: device_inv_def links_ok_def)
    qed (auto simp: rows points)
    with inv kind show ?thesis by (auto simp: device_inv_def links_ok_def rows new_device_row_def)
  qed
  ultimately show ?thesis by (simp add: device_inv_def)
qed

lemma camera_created_inv:
  assumes inv: "device_inv ts d" and ts: "timestamptz ts" and kind: "dev_Kind device = EdgeDeviceKindCamera"
    and fresh: "dev_ID device \<notin> er_edge_device_id ` set (db_edge_devices d)"
    and dev: "trimmed (dev_EventID device)" "\<not> dev_Unregistered device"
    and p: "p \<in> set (db_observation_points d)" and r: "r \<in> set (db_edge_devices d)" "er_id r = op_edge_device_id p" "\<not> er_unregistered r"
    and own: "er_event_id r = dev_EventID device" "er_tenant_public_id r = dev_TenantPublicID device"
    and free: "op_id p \<notin> lk_observation_point_id ` set (db_camera_links d)"
      "next_id er_id (db_edge_devices d) \<notin> lk_camera_edge_device_id ` set (db_camera_links d)"
  shows "device_inv ts (camera_created_db ts device (op_id p) d)"
proof -
  let ?d = "camera_created_db ts device (op_id p) d" and ?k = "next_id er_id (db_edge_devices d)"
  have rows: "db_edge_devices ?d = db_edge_devices d @ [new_device_row ts ?k device]"
    "db_observation_points ?d = db_observation_points d"
    "db_camera_links ?d = db_camera_links d @ [\<lparr>lk_id = next_id lk_id (db_camera_links d),
          lk_camera_edge_device_id = ?k, lk_observation_point_id = op_id p\<rparr>]"
    by (simp_all add: camera_created_db_def Let_def)
  have "devices_ok ts ?d"
    using append_device_ok [OF inv_parts(1) [OF inv] ts _ fresh dev(1) rows(1)] by (simp add: kind kind_check_def)
  moreover have "points_ok ts ?d"
    using inv unfolding device_inv_def points_ok_def rows by auto
  moreover have "links_ok ?d"
  proof -
    have "link_ok ?d l" if "l \<in> set (db_camera_links d)" for l
    proof (rule link_ok_mono)
      show "link_ok d l" using inv that by (simp add: device_inv_def links_ok_def)
    qed (auto simp: rows)
    moreover have "link_ok ?d \<lparr>lk_id = next_id lk_id (db_camera_links d), lk_camera_edge_device_id = ?k, lk_observation_point_id = op_id p\<rparr>"
      unfolding link_ok_def rows using p r own dev(2) kind
      by (intro bexI [of _ "new_device_row ts ?k device"] bexI [of _ p] bexI [of _ r]) (simp_all add: new_device_row_def)
    ultimately show ?thesis
      using inv free unfolding device_inv_def links_ok_def rows by (auto simp: new_device_row_def)
  qed
  ultimately show ?thesis by (simp add: device_inv_def)
qed

subsection \<open>RegisterEdgeDevice\<close>

text \<open>
  What registering \<open>device\<close> makes of the tables: its row and points are appended, or, for a camera,
  its row and its link to a point that no camera has, of a registered page of the same event and tenant.
\<close>

definition linkable :: "database \<Rightarrow> EdgeDevice \<Rightarrow> observation_point_row \<Rightarrow> bool" where
  "linkable d device p \<longleftrightarrow> p \<in> set (db_observation_points d) \<and>
     map cl_ObservationPointID (dev_CameraLinks device) = [op_observation_point_id p] \<and>
     op_id p \<notin> lk_observation_point_id ` set (db_camera_links d) \<and>
     list_ex (\<lambda>r. er_id r = op_edge_device_id p \<and> \<not> er_unregistered r \<and> er_event_id r = dev_EventID device \<and>
        er_tenant_public_id r = dev_TenantPublicID device) (db_edge_devices d)"

definition registers :: "(time \<Rightarrow> time) \<Rightarrow> EdgeDevice \<Rightarrow> database \<Rightarrow> database \<Rightarrow> bool" where
  "registers ts device d d' \<longleftrightarrow> dev_ID device \<notin> er_edge_device_id ` set (db_edge_devices d) \<and>
     (if dev_Kind device = EdgeDeviceKindCamera
      then \<exists>p. linkable d device p \<and> next_id er_id (db_edge_devices d) \<notin> lk_camera_edge_device_id ` set (db_camera_links d) \<and>
             d' = camera_created_db ts device (op_id p) d
      else d' = page_created_db ts device d \<and> distinct (map op_observation_point_id (db_observation_points d')))"

lemma camera_device_fields:
  assumes "edge_device_wf device" and "dev_Kind device = EdgeDeviceKindCamera" and "\<not> dev_Unregistered device"
  obtains link where "dev_CameraLinks device = [link]" "dev_ObservationPoints device = []" "cl_CameraEdgeDeviceID link = dev_ID device"
  using assms by (auto simp: edge_device_wf_def length_Suc_conv)

lemma validateCameraLink_Inr:
  fixes s :: "('x, 'r) EdgeDeviceService" and ts p timeout
  defines "s \<equiv> PostgresEdgeDeviceService ts p timeout"
  assumes run: "validateCameraLink s ctx eventID link w = (Inr u, w')"
  shows "w_db w' = w_db w \<and> (\<exists>r \<in> set (db_edge_devices (w_db w)). \<exists>q \<in> set (db_observation_points (w_db w)).
    op_observation_point_id q = cl_ObservationPointID link \<and> op_edge_device_id q = er_id r \<and>
    er_event_id r = eventID \<and> \<not> er_unregistered r \<and> tenant_allows ctx (er_tenant_public_id r))"
proof -
  from run obtain owner where "FindByObservationPointIDForUpdate ctx (cl_ObservationPointID link) w = (Inr owner, w')"
    and "dev_EventID owner = eventID" "\<not> dev_Unregistered owner"
    by (auto simp: validateCameraLink_def s_def bindE_Inr split: if_splits)
  then show ?thesis by (elim FindByPointForUpdate_Inr) auto
qed

lemma register_create_page:
  fixes s :: "('x, 'r) EdgeDeviceService" and ts p timeout
  defines "s \<equiv> PostgresEdgeDeviceService ts p timeout"
  assumes inv: "device_inv ts (w_db w)" and kind: "dev_Kind device = EdgeDeviceKindObservationPage" "dev_CameraLinks device = []"
    and tx: "\<not> ctx_tx ctx" and run: "register_create s ev device ctx w = (r, w')"
  shows "((\<exists>e. r = Inl e) \<and> w_db w' = w_db w) \<or>
    (r = Inr () \<or> (\<exists>e. r = Inl (Wrap ''create edge device'' (Wrap ''commit transaction'' e)))) \<and> registers ts device (w_db w) (w_db w')"
proof -
  obtain q where create: "Create ts ctx device w = (q, w')" and r: "r = (case q of Inl e \<Rightarrow> Inl (Wrap ''create edge device'' e) | Inr u \<Rightarrow> Inr u)"
    using run kind by (auto simp: register_create_def s_def wrapE_def split: prod.splits sum.splits)
  have pids: "distinct (map op_observation_point_id (db_observation_points (w_db w)))"
    using inv by (simp add: device_inv_def points_ok_def)
  from create [unfolded Create_def RunInTransaction_def] show ?thesis
  proof (rule runInTransaction_outcome [OF _ tx])
    fix x w0 w1
    assume "next_fault w = (NoFault, w0)" and body: "create_body ts device (ctx\<lparr>ctx_tx := True\<rparr>) w0 = (Inr x, w1)"
      and w': "w_db w' = w_db w1" and "q = Inr x \<or> (\<exists>e. q = Inl (Wrap ''commit transaction'' e))"
    moreover from this have "w_db w0 = w_db w" by (simp add: next_fault_db)
    ultimately show ?thesis
      using create_page_Inr [OF body kind(2)] pids kind r by (auto simp: registers_def)
  qed (simp add: r)
qed

lemma register_create_camera:
  fixes s :: "('x, 'r) EdgeDeviceService" and ts p timeout
  defines "s \<equiv> PostgresEdgeDeviceService ts p timeout"
  assumes inv: "device_inv ts (w_db w)" and wf: "edge_device_wf device" "\<not> dev_Unregistered device"
    and kind: "dev_Kind device = EdgeDeviceKindCamera" and ids: "dev_EventID device = trim_space ev" "TenantPublicIDFromContext ctx = Some (dev_TenantPublicID device)"
    and tx: "ctx_tx ctx" and run: "register_create s ev device ctx w = (Inr u, w')"
  shows "registers ts device (w_db w) (w_db w')"
proof -
  obtain link where link: "dev_CameraLinks device = [link]" "dev_ObservationPoints device = []"
    using camera_device_fields [OF wf(1) kind wf(2)] by metis
  from run obtain w1 where valid: "validateCameraLink s ctx ev link w = (Inr (), w1)" and create: "Create ts ctx device w1 = (Inr u, w')"
    by (auto simp: register_create_def s_def kind link(1) bindE_Inr)
  from validateCameraLink_Inr [OF valid [unfolded s_def]] obtain r q where w1: "w_db w1 = w_db w"
    and r: "r \<in> set (db_edge_devices (w_db w))" "q \<in> set (db_observation_points (w_db w))" "op_observation_point_id q = cl_ObservationPointID link"
      "op_edge_device_id q = er_id r" "er_event_id r = ev" "\<not> er_unregistered r" "tenant_allows ctx (er_tenant_public_id r)" by blast
  have "trimmed ev" using inv r(1,5) by (auto simp: device_inv_def devices_ok_def)
  then have own: "er_event_id r = dev_EventID device" "er_tenant_public_id r = dev_TenantPublicID device"
    using ids r(5,7) by (simp_all add: trimmed_def tenant_allows_def)
  from create tx have "create_body ts device ctx w1 = (Inr u, w')" by (simp add: Create_def RunInTransaction_def)
  then show ?thesis
  proof (rule create_camera_Inr [OF _ link])
    fix p assume p: "p \<in> set (db_observation_points (w_db w1))" "op_observation_point_id p = cl_ObservationPointID link"
      and rest: "w_db w' = camera_created_db ts device (op_id p) (w_db w1)" "dev_ID device \<notin> er_edge_device_id ` set (db_edge_devices (w_db w1))"
      "op_id p \<notin> lk_observation_point_id ` set (db_camera_links (w_db w1))"
      "next_id er_id (db_edge_devices (w_db w1)) \<notin> lk_camera_edge_device_id ` set (db_camera_links (w_db w1))"
    have "p = q" using point_by_id [OF inv_parts(2) [OF inv], of p q] p r(2,3) by (simp add: w1)
    then have "linkable (w_db w) device p"
      using p rest(3) r own link(1) by (auto simp: linkable_def w1 list_ex_iff)
    with rest kind show ?thesis by (auto simp: registers_def w1)
  qed
qed

lemma registers_inv:
  assumes "device_inv ts d" and "timestamptz ts" and "edge_device_wf device" and "\<not> dev_Unregistered device"
    and reg: "registers ts device d d'"
  shows "device_inv ts d'"
proof (cases "dev_Kind device = EdgeDeviceKindCamera")
  case True
  with reg obtain p where p: "linkable d device p" "dev_ID device \<notin> er_edge_device_id ` set (db_edge_devices d)"
    "next_id er_id (db_edge_devices d) \<notin> lk_camera_edge_device_id ` set (db_camera_links d)" "d' = camera_created_db ts device (op_id p) d"
    by (auto simp: registers_def)
  then show ?thesis
    using camera_created_inv [OF assms(1,2) True p(2)] assms(3,4) by (auto simp: linkable_def list_ex_iff edge_device_wf_def)
next
  case False
  with assms(3) have "dev_Kind device = EdgeDeviceKindObservationPage"
    by (cases "dev_Kind device") (simp_all add: edge_device_wf_def)
  with reg assms(3,4) False show ?thesis
    using page_created_inv [OF assms(1,2)] by (auto simp: registers_def edge_device_wf_def)
qed

text \<open>A device as registering makes it from the request, before anything is stored.\<close>

definition requested_device :: "Ctx \<Rightarrow> RegisterEdgeDeviceInput \<Rightarrow> EdgeDevice \<Rightarrow> bool" where
  "requested_device ctx input device \<longleftrightarrow> edge_device_wf device \<and> \<not> dev_Unregistered device \<and> dev_Kind device = rg_Kind input \<and>
     dev_EventID device = trim_space (rg_EventID input) \<and> dev_Name device = trim_space (rg_Name input) \<and>
     TenantPublicIDFromContext ctx = Some (dev_TenantPublicID device) \<and> dev_LastHeartbeatAt device = None \<and>
     list_all (\<lambda>q. pt_LastActiveAt q = None \<and> pt_Enabled q) (dev_ObservationPoints device) \<and>
     (dev_Kind device = EdgeDeviceKindObservationPage \<longrightarrow> dev_CameraLinks device = [] \<and>
        map pt_Name (dev_ObservationPoints device) = map trim_space (rg_ObservationPointNames input))"

lemma requested_deviceI:
  assumes "NewEdgeDeviceWithKind tenant (rg_EventID input) (rg_Name input) (rg_Kind input) (rg_ObservationPointNames input)
      (rg_LinkedObservationPointID input) src = (Inr device, src')" and "TenantPublicIDFromContext ctx = Some tenant"
  shows "requested_device ctx input device"
proof -
  note wf = NewEdgeDeviceWithKind_wf [OF assms(1)]
  have "dev_TenantPublicID device = tenant" using wf TenantPublicID_nonempty [OF assms(2)] by simp
  moreover have "dev_LastHeartbeatAt device = None \<and> list_all (\<lambda>q. pt_LastActiveAt q = None \<and> pt_Enabled q) (dev_ObservationPoints device) \<and>
     (dev_Kind device = EdgeDeviceKindObservationPage \<longrightarrow> dev_CameraLinks device = [] \<and>
        map pt_Name (dev_ObservationPoints device) = map trim_space (rg_ObservationPointNames input))"
    using assms(1)
    by (auto simp: NewEdgeDeviceWithKind_def Let_def bindE_Inr list_all_iff split: if_splits EdgeDeviceKind.splits
        dest!: new_points_wf)
  ultimately show ?thesis using wf assms(2) by (simp add: requested_device_def)
qed

lemma draw_reads: "draw m w = (r, w') \<Longrightarrow> w_db w' = w_db w \<and> fst (m (w_entropy w)) = r"
  by (auto simp: draw_def split: prod.splits)

lemma RegisterEdgeDevice_outcome:
  fixes s :: "('x, unit) EdgeDeviceService" and ts p timeout
  defines "s \<equiv> PostgresEdgeDeviceService ts p timeout"
  assumes tx: "\<not> ctx_tx ctx" and inv: "device_inv ts (w_db w)"
    and run: "RegisterEdgeDevice s ctx input w = (r, w')"
  shows "((\<exists>e. r = Inl e) \<and> w_db w' = w_db w) \<or>
    (\<exists>device. requested_device ctx input device \<and> registers ts device (w_db w) (w_db w') \<and>
       ((\<exists>out. r = Inr out \<and> vw_Device (ro_Device out) = device) \<or>
        (\<exists>e. r = Inl (Wrap ''commit transaction'' e) \<or> r = Inl (Wrap ''create edge device'' (Wrap ''commit transaction'' e)))))"
proof (cases "EnsureEvent ctx (rg_EventID input)")
  case (Inl e)
  then show ?thesis using run by (auto simp: RegisterEdgeDevice_def throwE_def)
next
  case ev: (Inr u)
  show ?thesis
  proof (cases "TenantPublicIDFromContext ctx")
    case None
    then show ?thesis using run ev by (auto simp: RegisterEdgeDevice_def throwE_def)
  next
    case (Some tenant)
    let ?new = "draw (NewEdgeDeviceWithKind tenant (rg_EventID input) (rg_Name input) (rg_Kind input)
             (rg_ObservationPointNames input) (rg_LinkedObservationPointID input))"
    obtain rn w1 where new: "?new w = (rn, w1)" by fastforce
    then have w1: "w_db w1 = w_db w" by (simp add: draw_reads)
    show ?thesis
    proof (cases rn)
      case (Inl e)
      then show ?thesis using run ev Some new w1 by (auto simp: RegisterEdgeDevice_def bindE_def)
    next
      case (Inr device)
      have req: "requested_device ctx input device"
        using draw_reads [OF new] Inr
        by (intro requested_deviceI [OF prod_eqI Some]) auto
      let ?create = "if dev_Kind device = EdgeDeviceKindCamera
                then RunInTransaction ctx (register_create s (rg_EventID input) device)
                else register_create s (rg_EventID input) device ctx"
      obtain rc w2 where create: "?create w1 = (rc, w2)" by fastforce
      have r: "(rc = Inr () \<longrightarrow> w_db w' = w_db w2 \<and> (\<exists>out. r = Inr out \<and> vw_Device (ro_Device out) = device)) \<and>
          (\<forall>e. rc = Inl e \<longrightarrow> w' = w2 \<and> r = Inl e)"
      proof -
        have "RegisterEdgeDevice s ctx input w = bindE ?create (\<lambda>_. bindE (view s device) (\<lambda>v.
            returnE \<lparr>ro_Device = v, ro_ObservationPagePath =
              (if dev_Kind device = EdgeDeviceKindObservationPage
               then ''/event/'' @ dev_EventID device @ ''/observation/'' @ dev_ID device else '''')\<rparr>)) w1"
          using ev Some by (simp add: RegisterEdgeDevice_def s_def bindE_step [where m = ?new and w = w and x = device and w' = w1] new Inr)
        with run create show ?thesis
          by (cases rc) (auto simp: bindE_def view_def now_def effect_simps)
      qed
      have inv1: "device_inv ts (w_db w1)" using inv w1 by simp
      have "((\<exists>e. rc = Inl e) \<and> w_db w2 = w_db w1) \<or> registers ts device (w_db w1) (w_db w2) \<and>
        (rc = Inr () \<or> (\<exists>e. rc = Inl (Wrap ''commit transaction'' e) \<or> rc = Inl (Wrap ''create edge device'' (Wrap ''commit transaction'' e))))"
      proof (cases "dev_Kind device = EdgeDeviceKindCamera")
        case True
        with create have "runInTransaction ctx (register_create s (rg_EventID input) device) w1 = (rc, w2)" by (simp add: RunInTransaction_def)
        then show ?thesis
        proof (rule runInTransaction_outcome [OF _ tx])
          fix x w3 w4
          assume begin': "next_fault w1 = (NoFault, w3)"
            and body: "register_create s (rg_EventID input) device (ctx\<lparr>ctx_tx := True\<rparr>) w3 = (Inr x, w4)"
            and w2: "w_db w2 = w_db w4" "rc = Inr x \<or> (\<exists>e. rc = Inl (Wrap ''commit transaction'' e))"
          have w3: "w_db w3 = w_db w1" using begin' by (rule next_fault_db)
          from body [unfolded s_def] have "registers ts device (w_db w3) (w_db w4)"
            by (rule register_create_camera [rotated -1]) (use req inv1 True w3 in \<open>simp_all add: requested_device_def\<close>)
          with w2 w3 show ?thesis by auto
        qed blast
      next
        case False
        with req have kind: "dev_Kind device = EdgeDeviceKindObservationPage" "dev_CameraLinks device = []"
          by (cases "dev_Kind device"; simp add: requested_device_def edge_device_wf_def)+
        from create False have "register_create s (rg_EventID input) device ctx w1 = (rc, w2)" by simp
        from register_create_page [OF inv1 kind tx this [unfolded s_def]] show ?thesis by blast
      qed
      with r req w1 show ?thesis by (cases rc) auto
    qed
  qed
qed

subsection \<open>UpdateObservationPointConfig\<close>

definition same_devices :: "database \<Rightarrow> database \<Rightarrow> bool" where
  "same_devices d d' \<longleftrightarrow> db_edge_devices d' = db_edge_devices d \<and> db_observation_points d' = db_observation_points d \<and>
     db_camera_links d' = db_camera_links d"

lemma same_devices_inv: "same_devices d d' \<Longrightarrow> device_inv ts d' = device_inv ts d"
  by (simp add: same_devices_def device_inv_def devices_ok_def points_ok_def links_ok_def link_ok_def)

lemma only_holds_devices: "only_holds d d' \<Longrightarrow> same_devices d d'"
proof -
  assume "only_holds d d'"
  from only_holds_same [OF this, of db_edge_devices] only_holds_same [OF this, of db_observation_points]
    only_holds_same [OF this, of db_camera_links]
  show ?thesis by (simp add: same_devices_def)
qed

lemma same_but_holds_devices: "same_but_holds w w' \<Longrightarrow> same_devices (w_db w) (w_db w')"
  unfolding same_but_holds_def by (rule only_holds_devices)

lemma Evaluate_devices:
  assumes "timestamptz ts"
    and "Evaluate (NewHeartbeatLossHolds (NewPostgresHeartbeatLossHoldRepository ts) p) ctx t w = (r, w')"
  shows "same_but_holds w w'"
  using relatesD [OF hold_store.Evaluate_frame [OF postgres_hold_store [OF assms(1)]]] assms(2)
  by (simp add: NewHeartbeatLossHolds_def)

text \<open>The tables after renaming and switching one point.\<close>

definition configured_db :: "ObservationPointID \<Rightarrow> string \<Rightarrow> bool \<Rightarrow> database \<Rightarrow> database" where
  "configured_db pid name enabled d = d\<lparr>db_observation_points :=
     update_where (\<lambda>p. op_observation_point_id p = pid) (\<lambda>p. p\<lparr>op_name := name, op_enabled := enabled\<rparr>) (db_observation_points d)\<rparr>"

lemma update_first_point_map:
  "distinct (map pt_ID ps) \<Longrightarrow> update_first_point pid n b ps = Some (q, qs) \<Longrightarrow>
     qs = map (\<lambda>p. if pt_ID p = pid then p\<lparr>pt_Name := n, pt_Enabled := b\<rparr> else p) ps \<and>
     pt_ID q = pid \<and> pt_Name q = n \<and> pt_Enabled q = b \<and> q \<in> set qs"
proof (induction ps arbitrary: qs)
  case (Cons p ps)
  show ?case
  proof (cases "pt_ID p = pid")
    case True
    moreover have "map (\<lambda>p. if pt_ID p = pid then p\<lparr>pt_Name := n, pt_Enabled := b\<rparr> else p) ps = ps"
      using True Cons.prems(1) by (intro map_idI) (simp, metis image_eqI)
    ultimately show ?thesis using Cons.prems by (auto simp: Let_def)
  next
    case False
    with Cons.prems obtain rs where "update_first_point pid n b ps = Some (q, rs)" "qs = p # rs" by auto
    with Cons.IH [of rs] Cons.prems(1) False show ?thesis by auto
  qed
qed simp

lemma save_configured:
  assumes inv: "device_inv ts (w_db w)" and r: "r \<in> set (db_edge_devices (w_db w))" "er_kind r \<noteq> ''camera''" "\<not> er_unregistered r"
    and p: "p \<in> set (db_observation_points (w_db w))" "op_edge_device_id p = er_id r" "op_observation_point_id p = pid"
    and dev: "UpdateObservationPoint pid name enabled (stored_device (w_db w) r) = Inr (q, device)"
    and save: "Save ts ctx device w = (Inr u, w')"
  shows "w_db w' = configured_db pid (trim_space name) enabled (w_db w) \<and> trim_space name \<noteq> '''' \<and>
    q = point_of_row p\<lparr>pt_Name := trim_space name, pt_Enabled := enabled\<rparr>"
proof -
  let ?d = "w_db w"
  let ?f = "\<lambda>p. if pt_ID p = pid then p\<lparr>pt_Name := trim_space name, pt_Enabled := enabled\<rparr> else p"
  have distinct: "distinct (map pt_ID (stored_points ?d r))" using stored_points_distinct inv_parts(2) [OF inv] .
  from dev obtain ps where up: "update_first_point pid (trim_space name) enabled (stored_points ?d r) = Some (q, ps)"
    and device: "device = stored_device ?d r\<lparr>dev_ObservationPoints := ps\<rparr>" and name: "trim_space name \<noteq> ''''"
    by (auto simp: UpdateObservationPoint_def Let_def split: if_splits option.splits)
  note ps = update_first_point_map [OF distinct up]
  have pts: "dev_ObservationPoints device = map ?f (stored_points ?d r)" using ps device by simp
  have own: "op_edge_device_id x = er_id r" if "x \<in> set (db_observation_points ?d)" "op_observation_point_id x = pid" for x
    using point_by_id [OF inv_parts(2) [OF inv] that(1) p(1)] that(2) p by simp
  from save have db: "w_db w' = configured_db pid (trim_space name) enabled ?d"
  proof (rule Save_Inr)
    have "map pt_ID (dev_ObservationPoints device) = map pt_ID (stored_points ?d r)" unfolding pts by simp
    with distinct show "distinct (map pt_ID (dev_ObservationPoints device))" by metis
    fix s rest
    assume "devices_by_id (dev_ID device) ?d = s # rest"
    then have s: "s = r" using devices_by_id_unique [OF inv_parts(1) [OF inv] r(1)] device by simp
    have keep: "update_where (\<lambda>x. er_edge_device_id x = er_edge_device_id r) (\<lambda>x. x\<lparr>er_unregistered := False\<rparr>) (db_edge_devices ?d)
        = db_edge_devices ?d"
      unfolding update_where_def
    proof (rule map_idI)
      fix x assume x: "x \<in> set (db_edge_devices ?d)"
      show "(if er_edge_device_id x = er_edge_device_id r then x\<lparr>er_unregistered := False\<rparr> else x) = x"
        using row_by_id [OF inv_parts(1) [OF inv] x r(1)] r(3) by auto
    qed
    have points: "write_points ts (er_id r) (map ?f (stored_points ?d r)) (db_observation_points ?d) =
        update_where (\<lambda>p. op_observation_point_id p = pid) (\<lambda>p. p\<lparr>op_name := trim_space name, op_enabled := enabled\<rparr>) (db_observation_points ?d)"
    proof -
      have "write_points ts (er_id r) (map ?f (stored_points ?d r)) (db_observation_points ?d) =
          update_where (\<lambda>p. op_edge_device_id p = er_id r) (\<lambda>p. p\<lparr>op_name := pt_Name (?f (point_of_row p)),
            op_enabled := pt_Enabled (?f (point_of_row p))\<rparr>) (db_observation_points ?d)"
        by (rule write_stored_points [OF inv_parts(2) [OF inv]]) simp_all
      also have "\<dots> = update_where (\<lambda>p. op_observation_point_id p = pid)
          (\<lambda>p. p\<lparr>op_name := trim_space name, op_enabled := enabled\<rparr>) (db_observation_points ?d)"
        unfolding update_where_def using own by (intro map_cong refl) auto
      finally show ?thesis .
    qed
    assume "w_db w' = ?d\<lparr>
       db_edge_devices := update_where (\<lambda>r. er_edge_device_id r = dev_ID device) (write_device ts device) (db_edge_devices ?d),
       db_observation_points := write_points ts (er_id s) (dev_ObservationPoints device) (db_observation_points ?d),
       db_camera_links := (if dev_Kind device = EdgeDeviceKindCamera
         then filter (\<lambda>l. lk_camera_edge_device_id l \<noteq> er_id s) (db_camera_links ?d)
         else db_camera_links ?d)\<rparr>"
    then show ?thesis
      using write_same_device [OF inv_parts(1) [OF inv] r(1), of device] stored_kind [OF inv_kind [OF inv r(1)], of ?d] r(2,3) keep points
      by (simp add: s device configured_db_def conjunct1 [OF ps])
  qed (use device r in simp)
  have stored: "point_of_row p \<in> set (stored_points ?d r)" using p by (simp add: stored_points_def set_points_of_devices)
  have "q \<in> set ps" and q_id: "pt_ID q = pid" using ps by blast+
  then have "q \<in> set (map ?f (stored_points ?d r))" using ps by metis
  then obtain q0 where q0: "q0 \<in> set (stored_points ?d r)" "q = ?f q0" by auto
  then have "pt_ID q0 = pt_ID (point_of_row p)" using q_id p(3) by (cases "pt_ID q0 = pid") simp_all
  then have "q0 = point_of_row p" using distinct q0(1) stored unfolding distinct_map by (meson inj_onD)
  with q0(2) db name p(3) show ?thesis by simp
qed

definition configures ::
  "Ctx \<Rightarrow> UpdateObservationPointConfigInput \<Rightarrow> database \<Rightarrow> database \<Rightarrow> ObservationPoint \<Rightarrow> bool" where
  "configures ctx input d d' q \<longleftrightarrow> trim_space (up_Name input) \<noteq> '''' \<and>
     only_holds (configured_db (up_ObservationPointID input) (trim_space (up_Name input)) (up_Enabled input) d) d' \<and>
     pt_ID q = up_ObservationPointID input \<and> pt_Name q = trim_space (up_Name input) \<and> (pt_Enabled q \<longrightarrow> up_Enabled input) \<and>
     list_ex (\<lambda>r. er_event_id r = up_EventID input \<and> \<not> er_unregistered r \<and> tenant_allows ctx (er_tenant_public_id r) \<and>
       list_ex (\<lambda>p. op_observation_point_id p = up_ObservationPointID input \<and> op_edge_device_id p = er_id r)
         (db_observation_points d)) (db_edge_devices d)"

lemma update_point_body_Inr:
  fixes s :: "('x, 'r) EdgeDeviceService" and ts p timeout
  defines "s \<equiv> PostgresEdgeDeviceService ts p timeout"
  assumes inv: "device_inv ts (w_db w)" and ts: "timestamptz ts"
    and run: "update_point_body s input (up_ObservationPointID input) ctx w = (Inr q, w')"
  shows "configures ctx input (w_db w) (w_db w') q"
proof -
  let ?pid = "up_ObservationPointID input"
  from run obtain device0 w1 q1 device w2 w3 t w4 hold where
    find: "FindByObservationPointIDForUpdate ctx ?pid w = (Inr device0, w1)"
    and event: "dev_EventID device0 = up_EventID input"
    and up: "UpdateObservationPoint ?pid (up_Name input) (up_Enabled input) device0 = Inr (q1, device)"
    and save: "Save ts ctx device w1 = (Inr (), w2)" and clock: "now w2 = (Inr t, w3)"
    and eval: "Evaluate (NewHeartbeatLossHolds (NewPostgresHeartbeatLossHoldRepository ts) p) ctx t w3 = (Inr hold, w4)"
    and found: "(case List.find (\<lambda>p. pt_ID p = ?pid) (dev_ObservationPoints (applyEffectiveEnabled (Connected hold device t) device)) of
       Some point \<Rightarrow> returnE point | None \<Rightarrow> throwE (Err ErrObservationPointNotFound)) w4 = (Inr q, w')"
    by (auto simp: update_point_body_def s_def bindE_Inr split: if_splits)
  from find show ?thesis
  proof (rule FindByPointForUpdate_Inr)
    fix r x
    assume r: "r \<in> set (db_edge_devices (w_db w))" and x: "x \<in> set (db_observation_points (w_db w))"
      "op_observation_point_id x = ?pid" "op_edge_device_id x = er_id r"
      and dev0: "device0 = stored_device (w_db w) r" and allow: "tenant_allows ctx (er_tenant_public_id r)" and w1: "w_db w1 = w_db w"
    have kind: "er_kind r \<noteq> ''camera''" using page_of_point [OF inv x(1) r] x(3) by simp
    have reg: "\<not> er_unregistered r" using up dev0 by (auto simp: UpdateObservationPoint_def split: if_splits)
    from up save have saved: "w_db w2 = configured_db ?pid (trim_space (up_Name input)) (up_Enabled input) (w_db w) \<and>
        trim_space (up_Name input) \<noteq> '''' \<and> q1 = point_of_row x\<lparr>pt_Name := trim_space (up_Name input), pt_Enabled := up_Enabled input\<rparr>"
      using save_configured [of ts w1 r x ?pid "up_Name input" "up_Enabled input" q1 device ctx "()" w2] inv r kind reg x
      unfolding w1 dev0 by blast
    have "w_db w3 = w_db w2" using clock by (auto simp: now_def)
    moreover have "w' = w4" "q \<in> set (dev_ObservationPoints (applyEffectiveEnabled (Connected hold device t) device))" "pt_ID q = ?pid"
      using found by (auto split: option.splits dest: find_Some_in)
    moreover from this(2) obtain q0 where q0: "q0 \<in> set (dev_ObservationPoints device)" "pt_ID q = pt_ID q0" "pt_Name q = pt_Name q0" "pt_Enabled q \<longrightarrow> pt_Enabled q0"
      by (auto simp: applyEffectiveEnabled_def)
    have "distinct (map pt_ID (dev_ObservationPoints device))"
      using UpdateObservationPoint_frame [OF up] stored_points_distinct [OF inv_parts(2) [OF inv], of r] dev0 by simp
    moreover have "q1 \<in> set (dev_ObservationPoints device)" "pt_ID q1 = ?pid"
      using up by (auto simp: UpdateObservationPoint_def Let_def split: if_splits option.splits dest!: update_first_point_Some)
    ultimately have "q0 = q1" using q0(1,2) unfolding distinct_map by (metis inj_onD)
    moreover have "only_holds (w_db w2) (w_db w4)"
      using Evaluate_devices [OF ts eval] \<open>w_db w3 = w_db w2\<close> by (simp add: same_but_holds_def)
    ultimately show ?thesis
      using saved \<open>w' = w4\<close> \<open>pt_ID q = ?pid\<close> q0 event allow reg r x dev0 unfolding configures_def list_ex_iff by auto
  qed
qed

lemma UpdateObservationPointConfig_outcome:
  fixes s :: "('x, ObservationPoint) EdgeDeviceService" and ts p timeout
  defines "s \<equiv> PostgresEdgeDeviceService ts p timeout"
  assumes tx: "\<not> ctx_tx ctx" and inv: "device_inv ts (w_db w)" and ts: "timestamptz ts"
    and run: "UpdateObservationPointConfig s ctx input w = (r, w')"
  shows "((\<exists>e. r = Inl e) \<and> w_db w' = w_db w) \<or>
    (\<exists>q. (r = Inr q \<or> (\<exists>e. r = Inl (Wrap ''commit transaction'' e))) \<and> configures ctx input (w_db w) (w_db w') q \<and>
      EnsureEvent ctx (up_EventID input) = Inr ())"
proof (cases "EnsureEvent ctx (up_EventID input) = Inr () \<and> is_public_id (up_ObservationPointID input)")
  case False
  then have "(\<exists>e. r = Inl e) \<and> w' = w"
    using run by (cases "EnsureEvent ctx (up_EventID input)")
      (auto simp: UpdateObservationPointConfig_def parsePublicID_eq effect_simps)
  then show ?thesis by blast
next
  case True
  with run have "RunInTransaction ctx (update_point_body s input (up_ObservationPointID input)) w = (r, w')"
    by (simp add: UpdateObservationPointConfig_def parsePublicID_eq s_def)
  then show ?thesis
    unfolding RunInTransaction_def
  proof (rule runInTransaction_outcome [OF _ tx])
    fix x and w0 w1 :: "'x world"
    assume begin': "next_fault w = (NoFault, w0)"
      and body: "update_point_body s input (up_ObservationPointID input) (ctx\<lparr>ctx_tx := True\<rparr>) w0 = (Inr x, w1)"
      and w': "w_db w' = w_db w1" and r: "r = Inr x \<or> (\<exists>e. r = Inl (Wrap ''commit transaction'' e))"
    have "device_inv ts (w_db w0)" using inv next_fault_db [OF begin'] by simp
    from update_point_body_Inr [OF this ts body [unfolded s_def]] show ?thesis
      using True r w' next_fault_db [OF begin'] by (auto simp: configures_def)
  qed blast
qed

subsection \<open>What registering stores is what reading returns\<close>

lemma stored_points_appended:
  assumes inv: "device_inv ts d" and dev: "list_all (\<lambda>q. pt_LastActiveAt q = None \<and> pt_Enabled q) (dev_ObservationPoints device)"
    and r: "er_id r = next_id er_id (db_edge_devices d)"
  shows "stored_points (page_created_db ts device d) r = dev_ObservationPoints device"
proof -
  let ?k = "next_id er_id (db_edge_devices d)"
  obtain news where news: "append_points ts ?k (dev_ObservationPoints device) (db_observation_points d) = db_observation_points d @ news"
    "map point_of_row news = map (stored_point ts) (dev_ObservationPoints device)" "\<And>p. p \<in> set news \<Longrightarrow> op_edge_device_id p = ?k"
    "sorted_wrt (<) (map op_id news)" "\<And>p r. p \<in> set news \<Longrightarrow> r \<in> set (db_observation_points d) \<Longrightarrow> op_id r < op_id p"
    by (rule append_points_spec [of ts ?k "dev_ObservationPoints device" "db_observation_points d"], rule that)
  have "op_edge_device_id p \<noteq> ?k" if "p \<in> set (db_observation_points d)" for p
    using inv_parts(2) [OF inv] that next_id_notin [of er_id "db_edge_devices d"] unfolding points_ok_def by (metis imageI)
  then have "filter (\<lambda>p. List.member [er_id r] (op_edge_device_id p)) (db_observation_points d @ news) = news"
    using news(3) by (auto simp: r filter_empty_conv filter_id_conv)
  moreover have "sort_key op_id news = news"
    using news(4) unfolding strict_sorted_iff by (simp add: sort_key_id_if_sorted)
  ultimately have "stored_points (page_created_db ts device d) r = map (stored_point ts) (dev_ObservationPoints device)"
    by (simp add: stored_points_def points_of_devices_def page_created_db_def Let_def news)
  also have "\<dots> = dev_ObservationPoints device"
    using dev by (intro map_idI) (auto simp: list_all_iff stored_point_def)
  finally show ?thesis .
qed

lemma page_has_no_links:
  assumes inv: "device_inv ts d'" and r: "r \<in> set (db_edge_devices d')" "er_kind r \<noteq> ''camera''"
    and none: "\<And>l p. l \<in> set (db_camera_links d') \<Longrightarrow> p \<in> set (db_observation_points d') \<Longrightarrow> op_id p = lk_observation_point_id l \<Longrightarrow>
      op_edge_device_id p \<noteq> er_id r"
  shows "stored_links d' r = []"
proof -
  have "cl_CameraEdgeDeviceID ` set (stored_links d' r) = {}"
    unfolding stored_links_camera [OF inv r] using none by blast
  then show ?thesis by simp
qed

lemma page_new_links:
  assumes inv: "device_inv ts d" and inv': "device_inv ts (page_created_db ts device d)"
    and r: "r = new_device_row ts (next_id er_id (db_edge_devices d)) device" and kind: "dev_Kind device = EdgeDeviceKindObservationPage"
  shows "stored_links (page_created_db ts device d) r = []"
proof (rule page_has_no_links [OF inv'])
  let ?d = "page_created_db ts device d"
  show "r \<in> set (db_edge_devices ?d)" "er_kind r \<noteq> ''camera''"
    by (simp_all add: page_created_db_def Let_def r new_device_row_def kind)
  fix l p assume l: "l \<in> set (db_camera_links ?d)" and p: "p \<in> set (db_observation_points ?d)" "op_id p = lk_observation_point_id l"
  from l have "link_ok d l" using inv by (simp add: page_created_db_def Let_def device_inv_def links_ok_def)
  then obtain q s where q: "q \<in> set (db_observation_points d)" "op_id q = lk_observation_point_id l" "s \<in> set (db_edge_devices d)"
    "er_id s = op_edge_device_id q" by (auto simp: link_ok_def)
  obtain news where "append_points ts (next_id er_id (db_edge_devices d)) (dev_ObservationPoints device) (db_observation_points d)
      = db_observation_points d @ news" by (rule append_points_spec)
  then have "q \<in> set (db_observation_points ?d)" using q(1) by (simp add: page_created_db_def Let_def)
  then have "p = q" using point_by_id [OF inv_parts(2) [OF inv'] p(1)] p(2) q(2) by simp
  moreover have "er_id s \<noteq> er_id r" using next_id_fresh [OF q(3), of er_id] by (simp add: r new_device_row_def)
  ultimately show "op_edge_device_id p \<noteq> er_id r" using q(4) by simp
qed

lemma camera_new_link:
  assumes inv: "device_inv ts d" and p: "p \<in> set (db_observation_points d)"
    and kind: "dev_Kind device = EdgeDeviceKindCamera"
    and free: "next_id er_id (db_edge_devices d) \<notin> lk_camera_edge_device_id ` set (db_camera_links d)"
    and r: "r = new_device_row ts (next_id er_id (db_edge_devices d)) device"
  shows "stored_links (camera_created_db ts device (op_id p) d) r = [link_of_row r p]"
proof -
  let ?k = "next_id er_id (db_edge_devices d)" and ?d = "camera_created_db ts device (op_id p) d"
  let ?l = "\<lparr>lk_id = next_id lk_id (db_camera_links d), lk_camera_edge_device_id = ?k, lk_observation_point_id = op_id p\<rparr>"
  have rows: "db_edge_devices ?d = db_edge_devices d @ [r]" "db_observation_points ?d = db_observation_points d"
    "sort_key lk_id (db_camera_links ?d) = sort_key lk_id (db_camera_links d) @ [?l]"
    using next_id_fresh [of _ "db_camera_links d" lk_id]
    by (simp_all add: camera_created_db_def Let_def r sort_key_append_last del: sort_key_simps)
  have old: "filter (\<lambda>x. lk_camera_edge_device_id (fst x) = ?k) (concat (map f (sort_key lk_id (db_camera_links d)))) = []"
    if "\<And>l x. x \<in> set (f l) \<Longrightarrow> fst x = l" for f :: "camera_link_row \<Rightarrow> (camera_link_row \<times> edge_device_row \<times> observation_point_row) list"
    unfolding filter_empty_conv
  proof (intro ballI notI)
    fix x assume "x \<in> set (concat (map f (sort_key lk_id (db_camera_links d))))" and key: "lk_camera_edge_device_id (fst x) = ?k"
    then obtain l where "l \<in> set (db_camera_links d)" "x \<in> set (f l)" by auto
    with that have "fst x \<in> set (db_camera_links d)" by metis
    with key free show False by (metis image_eqI)
  qed
  have pts: "concat (map (\<lambda>q. if op_id q = op_id p then [(?l, r, q)] else []) (db_observation_points d)) = [(?l, r, p)]"
    using inv_parts(2) [OF inv] p by (intro concat_only [of op_id]) (simp_all add: points_ok_def)
  have devs: "concat (map (\<lambda>c. concat (map (\<lambda>q. if er_id c = ?k \<and> op_id q = op_id p then [(?l, c, q)] else []) (db_observation_points d)))
      (db_edge_devices d @ [r])) = [(?l, r, p)]"
  proof -
    have "concat (map (\<lambda>q. if er_id c = ?k \<and> op_id q = op_id p then [(?l, c, q)] else []) (db_observation_points d)) = []"
      if "c \<in> set (db_edge_devices d)" for c
      using next_id_fresh [OF that, of er_id] by simp
    then have "concat (map (\<lambda>c. concat (map (\<lambda>q. if er_id c = ?k \<and> op_id q = op_id p then [(?l, c, q)] else [])
        (db_observation_points d))) (db_edge_devices d)) = []" by simp
    moreover have "er_id r = ?k" by (simp add: r new_device_row_def)
    ultimately show ?thesis using pts by simp
  qed
  define f where "f l = concat (map (\<lambda>c. concat (map (\<lambda>q. if er_id c = lk_camera_edge_device_id l \<and> op_id q = lk_observation_point_id l
      then [(l, c, q)] else []) (db_observation_points d))) (db_edge_devices d @ [r]))" for l :: camera_link_row
  have "joined_links ?d = concat (map f (sort_key lk_id (db_camera_links d))) @ f ?l"
    unfolding joined_links_def rows f_def [abs_def] by (simp only: map_append concat_append list.map concat.simps append_Nil2)
  moreover have "f ?l = [(?l, r, p)]" using devs unfolding f_def by (simp only: camera_link_row.select_convs)
  moreover have "fst x = l" if "x \<in> set (f l)" for x l
    using that by (auto simp: f_def split: if_splits)
  ultimately have "filter (\<lambda>x. lk_camera_edge_device_id (fst x) = ?k) (joined_links ?d) = [(?l, r, p)]"
    by (simp add: old)
  then have "links_of_cameras [er_id r] ?d = [(?k, link_of_row r p)]"
    by (simp add: links_of_cameras_def case_prod_unfold r new_device_row_def)
  moreover have "links_of_pages [er_id r] ?d = []"
  proof -
    have "op_edge_device_id q \<noteq> er_id r" if "q \<in> set (db_observation_points d)" for q
      using inv_parts(2) [OF inv] that next_id_notin [of er_id "db_edge_devices d"]
      unfolding points_ok_def r new_device_row_def by (metis edge_device_row.select_convs(1) imageI)
    then show ?thesis by (auto simp: links_of_pages_def filter_empty_conv set_joined_links rows(2))
  qed
  ultimately show ?thesis by (simp add: stored_links_def group_by_owner_def r new_device_row_def)
qed

lemma stored_new_device:
  assumes inv: "device_inv ts d" and ts: "timestamptz ts" and req: "requested_device ctx input device"
    and reg: "registers ts device d d'" and r: "r \<in> set (db_edge_devices d')" "er_edge_device_id r = dev_ID device"
  shows "stored_device d' r = device"
proof -
  have wf: "edge_device_wf device" "\<not> dev_Unregistered device" "dev_LastHeartbeatAt device = None"
    using req by (simp_all add: requested_device_def)
  have inv': "device_inv ts d'" using registers_inv [OF inv ts wf(1,2) reg] .
  let ?row = "new_device_row ts (next_id er_id (db_edge_devices d)) device"
  have "?row \<in> set (db_edge_devices d')"
    using reg by (auto simp: registers_def page_created_db_def camera_created_db_def Let_def split: if_splits)
  moreover have "er_edge_device_id ?row = dev_ID device" by (simp add: new_device_row_def)
  ultimately have row: "r = ?row" using row_by_id [OF inv_parts(1) [OF inv'] r(1)] r(2) by simp
  have base: "dev_ID (stored_device d' r) = dev_ID device" "dev_TenantPublicID (stored_device d' r) = dev_TenantPublicID device"
    "dev_EventID (stored_device d' r) = dev_EventID device" "dev_Name (stored_device d' r) = dev_Name device"
    "dev_Unregistered (stored_device d' r) = dev_Unregistered device" "dev_LastHeartbeatAt (stored_device d' r) = dev_LastHeartbeatAt device"
    by (simp_all add: row new_device_row_def wf(3))
  have kind: "dev_Kind (stored_device d' r) = dev_Kind device"
    using wf(1) by (cases "dev_Kind device") (simp_all add: row new_device_row_def edge_device_wf_def stored_device_def toDomain_def)
  have "dev_ObservationPoints (stored_device d' r) = dev_ObservationPoints device \<and> dev_CameraLinks (stored_device d' r) = dev_CameraLinks device"
  proof (cases "dev_Kind device = EdgeDeviceKindCamera")
    case True
    obtain link where link: "dev_CameraLinks device = [link]" "dev_ObservationPoints device = []" "cl_CameraEdgeDeviceID link = dev_ID device"
      by (rule camera_device_fields [OF wf(1) True wf(2)])
    from reg True obtain p where p: "linkable d device p" "next_id er_id (db_edge_devices d) \<notin> lk_camera_edge_device_id ` set (db_camera_links d)"
      "d' = camera_created_db ts device (op_id p) d" by (auto simp: registers_def)
    have "stored_links d' r = [link_of_row r p]"
      unfolding p(3) using p(1) by (intro camera_new_link [OF inv _ True p(2) row]) (simp add: linkable_def)
    moreover have "link_of_row r p = link"
      using p(1) link by (simp add: link_of_row_def linkable_def row new_device_row_def)
    moreover have "stored_points d' r = []"
      by (rule camera_stored_points [OF inv' r(1)]) (simp add: row new_device_row_def True)
    ultimately show ?thesis using link by simp
  next
    case False
    then have page: "dev_Kind device = EdgeDeviceKindObservationPage" using wf(1) by (cases "dev_Kind device") (simp_all add: edge_device_wf_def)
    have d': "d' = page_created_db ts device d" using reg False by (simp add: registers_def)
    have "stored_points d' r = dev_ObservationPoints device"
      unfolding d' using req by (intro stored_points_appended [OF inv]) (simp_all add: requested_device_def row new_device_row_def)
    moreover have "stored_links d' r = []"
      unfolding d' by (rule page_new_links [OF inv inv' [unfolded d'] row page])
    ultimately show ?thesis using req page by (simp add: requested_device_def)
  qed
  with base kind show ?thesis by (intro EdgeDevice.equality) simp_all
qed

text \<open>C21. Registering is all-or-nothing under every fault: either the request fails and nothing is stored, or one device, made
  from the trimmed request under the tenant of the claims, has been appended with its points, or with its link to a free
  point of a registered page of the same event and tenant; only a lost answer to COMMIT reports that as an error.\<close>

theorem RegisterEdgeDevice_creates:
  assumes "\<not> ctx_tx ctx" and "device_inv ts (w_db w)"
    and "RegisterEdgeDevice (PostgresEdgeDeviceService ts p timeout) ctx input w = (r, w')"
  shows "((\<exists>e. r = Inl e) \<and> w_db w' = w_db w) \<or>
    (\<exists>device. requested_device ctx input device \<and> registers ts device (w_db w) (w_db w') \<and>
       ((\<exists>out. r = Inr out \<and> vw_Device (ro_Device out) = device) \<or>
        (\<exists>e. r = Inl (Wrap ''commit transaction'' e) \<or> r = Inl (Wrap ''create edge device'' (Wrap ''commit transaction'' e)))))"
  by (rule RegisterEdgeDevice_outcome [OF assms])

text \<open>C20. Registering and finding are inverse: looking up the identifier that a registration returned gives back exactly
  the device it returned, with its kind, points and links.\<close>

theorem RegisterEdgeDevice_roundtrip:
  assumes "\<not> ctx_tx ctx" and "device_inv ts (w_db w)" and "timestamptz ts"
    and "RegisterEdgeDevice (PostgresEdgeDeviceService ts p timeout) ctx input w = (Inr out, w1)"
    and "w_db w2 = w_db w1" and "FindByID ctx2 (dev_ID (vw_Device (ro_Device out))) w2 = (Inr found, w3)"
  shows "found = vw_Device (ro_Device out)"
proof -
  let ?device = "vw_Device (ro_Device out)"
  have "requested_device ctx input ?device" "registers ts ?device (w_db w) (w_db w1)"
    using RegisterEdgeDevice_outcome [OF assms(1,2,4)] by auto
  from stored_new_device [OF assms(2,3) this] assms(5,6) show ?thesis by (elim FindByID_Inr) simp
qed

text \<open>C22. Configuring a point is all-or-nothing. When it takes effect the caller's token is of the event, the named point, of a registered
  device of the event that the tenant may touch, has the trimmed name and the requested switch, and the point returned has them too, its
  switch never more than requested. Every other row of every table stays, except that judging the connection in the same transaction may
  start or end a heartbeat loss hold (\<open>only_holds\<close>).\<close>

theorem UpdateObservationPointConfig_effect:
  assumes "\<not> ctx_tx ctx" and "device_inv ts (w_db w)" and "timestamptz ts"
    and "UpdateObservationPointConfig (PostgresEdgeDeviceService ts p timeout) ctx input w = (r, w')"
  shows "((\<exists>e. r = Inl e) \<and> w_db w' = w_db w) \<or>
    (\<exists>q. (r = Inr q \<or> (\<exists>e. r = Inl (Wrap ''commit transaction'' e))) \<and> configures ctx input (w_db w) (w_db w') q \<and>
      EnsureEvent ctx (up_EventID input) = Inr ())"
  by (rule UpdateObservationPointConfig_outcome [OF assms])

definition sample_camera_request :: RegisterEdgeDeviceInput where
  "sample_camera_request = \<lparr>rg_EventID = ''e'', rg_Name = ''cam'', rg_ObservationPointNames = [], rg_Kind = EdgeDeviceKindCamera,
     rg_LinkedObservationPointID = ''00000000000000cc''\<rparr>"

definition sample_page_db :: database where
  "sample_page_db = empty_db\<lparr>db_edge_devices := [sample_page], db_observation_points := [sample_point_row]\<rparr>"

lemma sample_page_inv: "device_inv ts (w_db (sample_world fs sample_page_db x))"
  by (simp add: sample_world_def device_inv_def devices_ok_def points_ok_def links_ok_def
      sample_page_db_def sample_page_def sample_point_row_def kind_check_def trimmed_e empty_db_def)

lemma RegisterEdgeDevice_creates_witness:
  "\<exists>w' device. snd (RegisterEdgeDevice (PostgresEdgeDeviceService trunc_us sample_policy minute) (sample_ctx ''t'' ''e'') sample_camera_request
       (sample_world [] sample_page_db ())) = w' \<and> registers trunc_us device sample_page_db (w_db w') \<and>
     map lk_observation_point_id (db_camera_links (w_db w')) = [1]"
proof -
  let ?run = "RegisterEdgeDevice (PostgresEdgeDeviceService trunc_us sample_policy minute) (sample_ctx ''t'' ''e'') sample_camera_request
       (sample_world [] sample_page_db ())"
  obtain r w' where run: "?run = (r, w')" by fastforce
  have links: "map lk_observation_point_id (db_camera_links (w_db (snd ?run))) = [1]" by code_simp
  then have "w_db w' \<noteq> w_db (sample_world [] sample_page_db ())"
    unfolding run by (auto simp: sample_world_def sample_page_db_def empty_db_def)
  then obtain device where "registers trunc_us device sample_page_db (w_db w')"
    using RegisterEdgeDevice_creates [OF sample_ctx_tx sample_page_inv run] by (auto simp: sample_world_def)
  moreover have "map lk_observation_point_id (db_camera_links (w_db w')) = [1]" using links unfolding run snd_conv .
  ultimately show ?thesis unfolding run snd_conv by (intro exI [where x = w'] exI [where x = device]) simp
qed

lemma RegisterEdgeDevice_roundtrip_witness:
  "\<exists>out w1 found w3. RegisterEdgeDevice (PostgresEdgeDeviceService trunc_us sample_policy minute) (sample_ctx ''t'' ''e'') sample_camera_request
       (sample_world [] sample_page_db ()) = (Inr out, w1) \<and>
     FindByID (sample_ctx ''t'' ''e'') (dev_ID (vw_Device (ro_Device out))) w1 = (Inr found, w3) \<and>
     found = vw_Device (ro_Device out) \<and> map cl_ObservationPointID (dev_CameraLinks found) = [''00000000000000cc'']"
proof -
  let ?run = "RegisterEdgeDevice (PostgresEdgeDeviceService trunc_us sample_policy minute) (sample_ctx ''t'' ''e'') sample_camera_request
       (sample_world [] sample_page_db ())"
  obtain r w1 where run: "?run = (r, w1)" by fastforce
  have "case fst ?run of Inl e \<Rightarrow> False
    | Inr out \<Rightarrow> (case fst (FindByID (sample_ctx ''t'' ''e'') (dev_ID (vw_Device (ro_Device out))) (snd ?run)) of Inl e \<Rightarrow> False
      | Inr found \<Rightarrow> map cl_ObservationPointID (dev_CameraLinks found) = [''00000000000000cc''])" by code_simp
  then obtain out where out: "r = Inr out" and chk: "case fst (FindByID (sample_ctx ''t'' ''e'') (dev_ID (vw_Device (ro_Device out))) w1) of
      Inl e \<Rightarrow> False | Inr found \<Rightarrow> map cl_ObservationPointID (dev_CameraLinks found) = [''00000000000000cc'']"
    unfolding run by (cases r) simp_all
  obtain r3 w3 where find: "FindByID (sample_ctx ''t'' ''e'') (dev_ID (vw_Device (ro_Device out))) w1 = (r3, w3)" by fastforce
  then obtain found where found: "FindByID (sample_ctx ''t'' ''e'') (dev_ID (vw_Device (ro_Device out))) w1 = (Inr found, w3)"
    and links: "map cl_ObservationPointID (dev_CameraLinks found) = [''00000000000000cc'']"
    using chk by (cases r3) simp_all
  show ?thesis
  proof (intro exI conjI)
    show "?run = (Inr out, w1)" by (rule run [unfolded out])
    show "FindByID (sample_ctx ''t'' ''e'') (dev_ID (vw_Device (ro_Device out))) w1 = (Inr found, w3)" by (rule found)
    show "found = vw_Device (ro_Device out)"
      by (rule RegisterEdgeDevice_roundtrip [OF sample_ctx_tx sample_page_inv trunc_us run [unfolded out] refl found])
    show "map cl_ObservationPointID (dev_CameraLinks found) = [''00000000000000cc'']" by (rule links)
  qed
qed

definition sample_config :: UpdateObservationPointConfigInput where
  "sample_config = \<lparr>up_EventID = ''e'', up_ObservationPointID = ''00000000000000cc'', up_Name = '' south '', up_Enabled = False\<rparr>"

lemma UpdateObservationPointConfig_effect_witness:
  "\<exists>w' q. snd (UpdateObservationPointConfig (PostgresEdgeDeviceService trunc_us sample_policy minute) (sample_ctx ''t'' ''e'') sample_config
       (sample_world [] sample_device_db ())) = w' \<and> configures (sample_ctx ''t'' ''e'') sample_config sample_device_db (w_db w') q \<and>
     map op_name (db_observation_points (w_db w')) = [''south''] \<and> pt_Name q = ''south''"
proof -
  let ?run = "UpdateObservationPointConfig (PostgresEdgeDeviceService trunc_us sample_policy minute) (sample_ctx ''t'' ''e'') sample_config
       (sample_world [] sample_device_db ())"
  obtain r w' where run: "?run = (r, w')" by fastforce
  have name: "map op_name (db_observation_points (w_db (snd ?run))) = [''south'']" by code_simp
  then have "w_db w' \<noteq> w_db (sample_world [] sample_device_db ())"
    unfolding run by (auto simp: sample_world_def sample_device_db_def sample_point_row_def)
  then obtain q where q: "configures (sample_ctx ''t'' ''e'') sample_config sample_device_db (w_db w') q"
    using UpdateObservationPointConfig_effect [OF sample_ctx_tx sample_device_inv trunc_us run] by (auto simp: sample_world_def)
  moreover have "trim_space (up_Name sample_config) = ''south''" by code_simp
  then have "pt_Name q = ''south''" using q by (simp add: configures_def)
  moreover have "map op_name (db_observation_points (w_db w')) = [''south'']" using name unfolding run snd_conv .
  ultimately show ?thesis unfolding run snd_conv by (intro exI [where x = w'] exI [where x = q]) simp
qed

end
