(* ===== verification/DeviceSystem.thy ===== *)
theory DeviceSystem
  imports DeviceLifecycle
begin

section \<open>The system of concurrent device requests\<close>

text \<open>
  Requests of all kinds in any order, on one database. A request that is one transaction is one step; the
  heartbeat, which reads first and writes in a transaction of its own later, is two, with the device it read
  pending in between, so that any other step may come first. The environment may do anything to what is not a
  device table, to the clock, the random source and the faults to come. The theorems: the invariant of every reachable
  database, that an unregistered device never changes again, and that a step of one tenant leaves the devices of
  every other as they are.
\<close>

type_synonym 'x device_state = "'x world \<times> (Ctx \<times> EdgeDevice) list"

inductive device_step ::
  "(time \<Rightarrow> time) \<Rightarrow> HeartbeatLossHoldPolicy \<Rightarrow> duration \<Rightarrow> 'x device_state \<Rightarrow> Ctx option \<Rightarrow> 'x device_state \<Rightarrow> bool"
  for ts :: "time \<Rightarrow> time" and p :: HeartbeatLossHoldPolicy and timeout :: duration where
  register: "\<not> ctx_tx ctx \<Longrightarrow> RegisterEdgeDevice (PostgresEdgeDeviceService ts p timeout) ctx rg w = (r1, w') \<Longrightarrow>
     device_step ts p timeout (w, hs) (Some ctx) (w', hs)"
| unregister: "\<not> ctx_tx ctx \<Longrightarrow> UnregisterEdgeDevice (PostgresEdgeDeviceService ts p timeout) ctx un w = (r2, w') \<Longrightarrow>
     device_step ts p timeout (w, hs) (Some ctx) (w', hs)"
| config: "\<not> ctx_tx ctx \<Longrightarrow> UpdateObservationPointConfig (PostgresEdgeDeviceService ts p timeout) ctx up w = (r3, w') \<Longrightarrow>
     device_step ts p timeout (w, hs) (Some ctx) (w', hs)"
| heartbeat_read: "\<not> ctx_tx ctx \<Longrightarrow>
     heartbeat_read (PostgresEdgeDeviceService ts p timeout :: ('x, unit) EdgeDeviceService) ctx hb w = (Inr device, w') \<Longrightarrow>
     device_step ts p timeout (w, hs) (Some ctx) (w', (ctx, device) # hs)"
| heartbeat_write: "(ctx, device) \<in> set hs \<Longrightarrow>
     heartbeat_write (PostgresEdgeDeviceService ts p timeout :: ('x, unit) EdgeDeviceService) ctx device w = (r4, w') \<Longrightarrow>
     device_step ts p timeout (w, hs) (Some ctx) (w', remove1 (ctx, device) hs)"
| list_devices: "ListEdgeDevices (PostgresEdgeDeviceService ts p timeout :: ('x, unit) EdgeDeviceService) ctx li w = (r5, w') \<Longrightarrow>
     device_step ts p timeout (w, hs) (Some ctx) (w', hs)"
| list_points: "ListEdgeDeviceObservationPoints (PostgresEdgeDeviceService ts p timeout :: ('x, unit) EdgeDeviceService) ctx lp w = (r6, w') \<Longrightarrow>
     device_step ts p timeout (w, hs) (Some ctx) (w', hs)"
| environment: "same_devices (w_db w) (w_db w') \<Longrightarrow> device_step ts p timeout (w, hs) None (w', hs)"

subsection \<open>How the tables evolve\<close>

text \<open>
  \<open>evolves d d'\<close>: rows keep their keys, identifiers, tenant, event and kind, and an unregistered device and its points
  do not change at all. \<open>spares t d d'\<close>: the devices of other tenants than \<open>t\<close>, with their points, are as before.
\<close>

definition same_key :: "edge_device_row \<Rightarrow> edge_device_row \<Rightarrow> bool" where
  "same_key r r' \<longleftrightarrow> er_id r' = er_id r \<and> er_edge_device_id r' = er_edge_device_id r \<and>
     er_tenant_public_id r' = er_tenant_public_id r \<and> er_event_id r' = er_event_id r \<and> er_kind r' = er_kind r"

definition evolves :: "database \<Rightarrow> database \<Rightarrow> bool" where
  "evolves d d' \<longleftrightarrow>
     (\<forall>r \<in> set (db_edge_devices d). \<exists>r' \<in> set (db_edge_devices d'). same_key r r' \<and> (er_unregistered r \<longrightarrow> r' = r)) \<and>
     (\<forall>p \<in> set (db_observation_points d). (\<exists>r \<in> set (db_edge_devices d). er_id r = op_edge_device_id p \<and> er_unregistered r)
        \<longrightarrow> p \<in> set (db_observation_points d'))"

definition spares :: "string \<Rightarrow> database \<Rightarrow> database \<Rightarrow> bool" where
  "spares t d d' \<longleftrightarrow>
     (\<forall>r \<in> set (db_edge_devices d). er_tenant_public_id r \<noteq> t \<longrightarrow> r \<in> set (db_edge_devices d') \<and>
        (\<forall>p \<in> set (db_observation_points d). op_edge_device_id p = er_id r \<longrightarrow> p \<in> set (db_observation_points d')))"

lemma evolves_refl: "same_devices d d' \<Longrightarrow> evolves d d'"
  by (auto simp: same_devices_def evolves_def same_key_def)

lemma evolves_trans:
  assumes "evolves d d'" and "evolves d' d''"
  shows "evolves d d''"
  unfolding evolves_def
proof (intro conjI ballI impI)
  fix r assume "r \<in> set (db_edge_devices d)"
  with assms show "\<exists>r' \<in> set (db_edge_devices d''). same_key r r' \<and> (er_unregistered r \<longrightarrow> r' = r)"
    unfolding evolves_def same_key_def by metis
next
  fix p assume p: "p \<in> set (db_observation_points d)"
    "\<exists>r \<in> set (db_edge_devices d). er_id r = op_edge_device_id p \<and> er_unregistered r"
  then obtain r where r: "r \<in> set (db_edge_devices d)" "er_id r = op_edge_device_id p" "er_unregistered r" by blast
  with assms(1) have "r \<in> set (db_edge_devices d')" unfolding evolves_def by metis
  moreover have "p \<in> set (db_observation_points d')" using assms(1) p unfolding evolves_def by blast
  ultimately show "p \<in> set (db_observation_points d'')" using assms(2) r unfolding evolves_def by blast
qed

lemma evolves_same: "evolves d d' \<Longrightarrow> same_devices d' d'' \<Longrightarrow> evolves d d''"
  using evolves_refl evolves_trans by blast

lemma spares_same: "spares t d d' \<Longrightarrow> same_devices d' d'' \<Longrightarrow> spares t d d''"
  by (simp add: spares_def same_devices_def)

lemma spares_refl: "same_devices d d' \<Longrightarrow> spares t d d'"
  by (auto simp: same_devices_def spares_def)

text \<open>Registering.\<close>

lemma registers_rows:
  assumes "registers ts device d d'"
  shows "\<exists>row. db_edge_devices d' = db_edge_devices d @ [row]" "set (db_observation_points d) \<subseteq> set (db_observation_points d')"
proof -
  obtain news where "append_points ts (next_id er_id (db_edge_devices d)) (dev_ObservationPoints device) (db_observation_points d)
      = db_observation_points d @ news" by (rule append_points_spec)
  with assms show "\<exists>row. db_edge_devices d' = db_edge_devices d @ [row]" "set (db_observation_points d) \<subseteq> set (db_observation_points d')"
    by (auto simp: registers_def page_created_db_def camera_created_db_def Let_def split: if_splits)
qed

lemma registers_evolves: "registers ts device d d' \<Longrightarrow> evolves d d' \<and> spares t d d'"
  using registers_rows [of ts device d d'] by (auto simp: evolves_def spares_def same_key_def)

text \<open>Unregistering.\<close>

lemma unregistered_evolves: "device_inv ts d \<Longrightarrow> evolves d (unregistered_db k d)"
  unfolding evolves_def
proof (intro conjI ballI impI)
  fix r assume "r \<in> set (db_edge_devices d)"
  then show "\<exists>r' \<in> set (db_edge_devices (unregistered_db k d)). same_key r r' \<and> (er_unregistered r \<longrightarrow> r' = r)"
    unfolding unregistered_db_sets
    by (intro bexI [of _ "retire_row d k r"]) (auto simp: same_key_def, simp add: retire_row_def)
next
  fix p assume inv: "device_inv ts d" and p: "p \<in> set (db_observation_points d)"
    "\<exists>r \<in> set (db_edge_devices d). er_id r = op_edge_device_id p \<and> er_unregistered r"
  then have "\<not> op_enabled p"
    using row_by_id [OF inv_parts(1) [OF inv]] unfolding device_inv_def points_ok_def by metis
  then have "disable_row k p = p" by (simp add: disable_row_def)
  with p show "p \<in> set (db_observation_points (unregistered_db k d))" unfolding unregistered_db_sets by force
qed

lemma unregistered_spares:
  assumes inv: "device_inv ts d" and k: "r \<in> set (db_edge_devices d)" "er_tenant_public_id r = t"
  shows "spares t d (unregistered_db (er_id r) d)"
  unfolding spares_def
proof (intro ballI impI conjI)
  note ids = row_by_id [OF inv_parts(1) [OF inv]]
  fix x assume x: "x \<in> set (db_edge_devices d)" "er_tenant_public_id x \<noteq> t"
  have other: "er_id x \<noteq> er_id r" using ids [OF x(1) k(1)] x(2) k(2) by auto
  have "er_id x \<notin> set (retired_cameras d (er_id r))"
  proof
    assume "er_id x \<in> set (retired_cameras d (er_id r))"
    then obtain l where l: "l \<in> set (db_camera_links d)" "linked_to_page d (er_id r) l" "lk_camera_edge_device_id l = er_id x"
      by (auto simp: retired_cameras_def)
    then obtain c q s where c: "c \<in> set (db_edge_devices d)" "q \<in> set (db_observation_points d)" "s \<in> set (db_edge_devices d)"
      "er_id c = er_id x" "op_id q = lk_observation_point_id l" "er_id s = op_edge_device_id q" "er_tenant_public_id s = er_tenant_public_id c"
      using inv unfolding device_inv_def links_ok_def link_ok_def by (metis l(3))
    have "c = x" using ids [OF c(1) x(1)] c(4) by simp
    moreover from l(2) obtain q' where q': "q' \<in> set (db_observation_points d)" "op_id q' = op_id q" "op_edge_device_id q' = er_id r"
      unfolding linked_to_page_def list_ex_iff c(5) by auto
    from point_by_id [OF inv_parts(2) [OF inv] q'(1) c(2)] q'(2) have "q' = q" by simp
    then have "s = r" using ids [OF c(3) k(1)] c(6) q'(3) by simp
    ultimately show False using c(7) x(2) k(2) by simp
  qed
  with other have "retire_row d (er_id r) x = x" by (simp add: retire_row_def)
  with x(1) show "x \<in> set (db_edge_devices (unregistered_db (er_id r) d))" unfolding unregistered_db_sets by force
  fix p assume "p \<in> set (db_observation_points d)" "op_edge_device_id p = er_id x"
  moreover from this other have "disable_row (er_id r) p = p" by (simp add: disable_row_def)
  ultimately show "p \<in> set (db_observation_points (unregistered_db (er_id r) d))" unfolding unregistered_db_sets by force
qed

text \<open>Configuring a point.\<close>

lemma update_points_inv:
  assumes inv: "device_inv ts d"
    and pts: "db_observation_points d' = map f (db_observation_points d)" and rest: "db_camera_links d' = db_camera_links d"
    and devs: "db_edge_devices d' = map g (db_edge_devices d)"
    and g: "\<And>r. r \<in> set (db_edge_devices d) \<Longrightarrow> same_key r (g r) \<and> er_unregistered (g r) = er_unregistered r \<and>
      map_option ts (er_last_heartbeat_at (g r)) = er_last_heartbeat_at (g r)"
    and f: "\<And>p. p \<in> set (db_observation_points d) \<Longrightarrow> op_id (f p) = op_id p \<and> op_observation_point_id (f p) = op_observation_point_id p \<and>
      op_edge_device_id (f p) = op_edge_device_id p \<and> map_option ts (op_last_active_at (f p)) = op_last_active_at (f p)"
    and on: "\<And>p r. p \<in> set (db_observation_points d) \<Longrightarrow> r \<in> set (db_edge_devices d) \<Longrightarrow> er_id r = op_edge_device_id p \<Longrightarrow>
      er_unregistered r \<Longrightarrow> op_enabled (f p) = op_enabled p"
  shows "device_inv ts d'"
proof -
  have keys: "map er_id (db_edge_devices d') = map er_id (db_edge_devices d)"
    "map er_edge_device_id (db_edge_devices d') = map er_edge_device_id (db_edge_devices d)"
    "map op_id (db_observation_points d') = map op_id (db_observation_points d)"
    "map op_observation_point_id (db_observation_points d') = map op_observation_point_id (db_observation_points d)"
    using g f by (simp_all add: pts devs same_key_def)
  have gm: "g r \<in> set (db_edge_devices d')" if "r \<in> set (db_edge_devices d)" for r using that by (simp add: devs)
  have fm: "f p \<in> set (db_observation_points d')" if "p \<in> set (db_observation_points d)" for p using that by (simp add: pts)
  have "devices_ok ts d'"
    using inv g unfolding device_inv_def devices_ok_def keys by (auto simp: devs same_key_def)
  moreover have "points_ok ts d'"
  proof -
    have "map_option ts (op_last_active_at q) = op_last_active_at q \<and>
        (\<exists>r \<in> set (db_edge_devices d'). er_id r = op_edge_device_id q \<and> er_kind r = ''observation_page'' \<and>
          (er_unregistered r \<longrightarrow> \<not> op_enabled q))" if "q \<in> set (db_observation_points d')" for q
    proof -
      from that obtain p where p: "p \<in> set (db_observation_points d)" "q = f p" by (auto simp: pts)
      with inv obtain r where r: "r \<in> set (db_edge_devices d)" "er_id r = op_edge_device_id p" "er_kind r = ''observation_page''"
        "er_unregistered r \<longrightarrow> \<not> op_enabled p" unfolding device_inv_def points_ok_def by blast
      show ?thesis
        using f [OF p(1)] g [OF r(1)] on [OF p(1) r(1,2)] r p(2) gm [OF r(1)]
        by (intro conjI bexI [of _ "g r"]) (auto simp: same_key_def)
    qed
    with inv show ?thesis unfolding device_inv_def points_ok_def keys by blast
  qed
  moreover have "links_ok d'"
  proof -
    have "link_ok d' l" if "l \<in> set (db_camera_links d)" for l
    proof -
      from that inv obtain c p r where c: "c \<in> set (db_edge_devices d)" "p \<in> set (db_observation_points d)" "r \<in> set (db_edge_devices d)"
        "er_id c = lk_camera_edge_device_id l \<and> er_kind c = ''camera'' \<and> \<not> er_unregistered c \<and>
         op_id p = lk_observation_point_id l \<and> er_id r = op_edge_device_id p \<and> \<not> er_unregistered r \<and>
         er_event_id r = er_event_id c \<and> er_tenant_public_id r = er_tenant_public_id c"
        unfolding device_inv_def links_ok_def link_ok_def by blast
      show ?thesis
        unfolding link_ok_def using c(4) g [OF c(1)] g [OF c(3)] f [OF c(2)] gm [OF c(1)] gm [OF c(3)] fm [OF c(2)]
        by (intro bexI [of _ "g c"] bexI [of _ "f p"] bexI [of _ "g r"]) (auto simp: same_key_def)
    qed
    moreover have "er_id c \<in> lk_camera_edge_device_id ` set (db_camera_links d')"
      if c: "c \<in> set (db_edge_devices d')" "er_kind c = ''camera'' \<and> \<not> er_unregistered c" for c
    proof -
      from c(1) obtain c0 where "c0 \<in> set (db_edge_devices d)" "c = g c0" by (auto simp: devs)
      with g [of c0] c(2) inv show ?thesis unfolding rest device_inv_def links_ok_def by (auto simp: same_key_def)
    qed
    ultimately show ?thesis using inv unfolding device_inv_def links_ok_def rest by blast
  qed
  ultimately show ?thesis by (simp add: device_inv_def)
qed

lemma configures_point:
  assumes inv: "device_inv ts d" and cfg: "configures ctx input d d' q"
    and p: "p \<in> set (db_observation_points d)" "op_observation_point_id p = up_ObservationPointID input"
  obtains r where "r \<in> set (db_edge_devices d)" "er_id r = op_edge_device_id p" "\<not> er_unregistered r" "tenant_allows ctx (er_tenant_public_id r)"
proof -
  from cfg obtain r x where r: "r \<in> set (db_edge_devices d)" "\<not> er_unregistered r" "tenant_allows ctx (er_tenant_public_id r)"
    and x: "x \<in> set (db_observation_points d)" "op_observation_point_id x = up_ObservationPointID input" "op_edge_device_id x = er_id r"
    by (auto simp: configures_def list_ex_iff)
  have "x = p" using point_by_id [OF inv_parts(2) [OF inv] x(1) p(1)] x(2) p(2) by simp
  with r x(3) that show thesis by simp
qed

lemma configures_effect:
  assumes inv: "device_inv ts d" and cfg: "configures ctx input d d' q"
  shows "device_inv ts d' \<and> evolves d d' \<and> (\<forall>t. TenantPublicIDFromContext ctx = Some t \<longrightarrow> spares t d d')"
proof -
  let ?n = "trim_space (up_Name input)" and ?i = "up_ObservationPointID input"
  let ?f = "\<lambda>p. if op_observation_point_id p = ?i then p\<lparr>op_name := ?n, op_enabled := up_Enabled input\<rparr> else p"
  have rows: "db_edge_devices d' = db_edge_devices d" "db_observation_points d' = map ?f (db_observation_points d)"
    "db_camera_links d' = db_camera_links d"
    using cfg only_holds_devices [of "configured_db ?i ?n (up_Enabled input) d" d']
    by (auto simp: configures_def same_devices_def configured_db_def update_where_def)
  note ids = row_by_id [OF inv_parts(1) [OF inv]]
  have same: "?f p = p" if "p \<in> set (db_observation_points d)" "r \<in> set (db_edge_devices d)" "er_id r = op_edge_device_id p"
    "er_unregistered r \<or> \<not> tenant_allows ctx (er_tenant_public_id r)" for p r
  proof (cases "op_observation_point_id p = ?i")
    case True
    then show ?thesis using that by (elim configures_point [OF inv cfg that(1)]) (metis ids)
  qed simp
  have keep: "p \<in> set (db_observation_points d')" if p: "p \<in> set (db_observation_points d)"
    and ex: "\<exists>r \<in> set (db_edge_devices d). er_id r = op_edge_device_id p \<and> (er_unregistered r \<or> \<not> tenant_allows ctx (er_tenant_public_id r))" for p
  proof -
    from ex obtain r where "r \<in> set (db_edge_devices d)" "er_id r = op_edge_device_id p"
      "er_unregistered r \<or> \<not> tenant_allows ctx (er_tenant_public_id r)" by blast
    from same [OF p this] have "p = ?f p" by (rule sym)
    then show ?thesis unfolding rows set_map using p by (rule image_eqI)
  qed
  have "device_inv ts d'"
  proof (rule update_points_inv [OF inv rows(2,3), of "\<lambda>r. r"])
    show "same_key r r \<and> er_unregistered r = er_unregistered r \<and> map_option ts (er_last_heartbeat_at r) = er_last_heartbeat_at r"
      if "r \<in> set (db_edge_devices d)" for r using inv that by (simp add: same_key_def device_inv_def devices_ok_def)
    show "op_id (?f p) = op_id p \<and> op_observation_point_id (?f p) = op_observation_point_id p \<and>
      op_edge_device_id (?f p) = op_edge_device_id p \<and> map_option ts (op_last_active_at (?f p)) = op_last_active_at (?f p)"
      if "p \<in> set (db_observation_points d)" for p using inv that by (simp add: device_inv_def points_ok_def)
    show "op_enabled (?f p) = op_enabled p" if "p \<in> set (db_observation_points d)" "r \<in> set (db_edge_devices d)"
      "er_id r = op_edge_device_id p" "er_unregistered r" for p r using same [OF that(1-3)] that(4) by simp
  qed (simp add: rows(1))
  moreover have "evolves d d'" unfolding evolves_def rows(1) using keep by (auto simp: same_key_def)
  moreover have "spares t d d'" if "TenantPublicIDFromContext ctx = Some t" for t
  proof -
    have "\<not> tenant_allows ctx u" if "u \<noteq> t" for u
      using that \<open>TenantPublicIDFromContext ctx = Some t\<close> by (simp add: tenant_allows_def)
    then show ?thesis unfolding spares_def rows(1) using keep by metis
  qed
  ultimately show ?thesis by blast
qed

text \<open>A heartbeat's write.\<close>

lemma heartbeat_effect:
  assumes inv: "device_inv ts (w_db w)" and ts: "timestamptz ts" and distinct: "distinct (map pt_ID (dev_ObservationPoints device))"
    and run: "save_heartbeat_body ts device c w = (Inr u, w')"
    and own: "s \<in> set (db_edge_devices (w_db w))" "er_edge_device_id s = dev_ID device"
  shows "device_inv ts (w_db w') \<and> evolves (w_db w) (w_db w') \<and> spares (er_tenant_public_id s) (w_db w) (w_db w')"
  using run distinct
proof (rule save_heartbeat_Inr)
  let ?d = "w_db w"
  note ids = row_by_id [OF inv_parts(1) [OF inv]]
  fix r assume r: "r \<in> set (db_edge_devices ?d)" "er_edge_device_id r = dev_ID device" "\<not> er_unregistered r"
  let ?g = "\<lambda>r. if er_edge_device_id r = dev_ID device \<and> \<not> er_unregistered r
    then r\<lparr>er_last_heartbeat_at := map_option ts (dev_LastHeartbeatAt device)\<rparr> else r"
  let ?f = "\<lambda>p. if op_edge_device_id p = er_id r
    then (case List.find (\<lambda>q. pt_ID q = op_observation_point_id p) (dev_ObservationPoints device) of
            Some q \<Rightarrow> touch_point ts q p | None \<Rightarrow> p)
    else p"
  assume "w_db w' = ?d\<lparr>
       db_edge_devices := update_where (\<lambda>r. er_edge_device_id r = dev_ID device \<and> \<not> er_unregistered r)
         (\<lambda>r. r\<lparr>er_last_heartbeat_at := map_option ts (dev_LastHeartbeatAt device)\<rparr>) (db_edge_devices ?d),
       db_observation_points := touch_points ts (er_id r) (dev_ObservationPoints device) (db_observation_points ?d)\<rparr>"
  then have rows: "db_observation_points (w_db w') = map ?f (db_observation_points ?d)"
    "db_camera_links (w_db w') = db_camera_links ?d" "db_edge_devices (w_db w') = map ?g (db_edge_devices ?d)"
    by (simp_all add: update_where_def touch_points_def)
  have "s = r" using ids [OF own(1) r(1)] own(2) r(2) by simp
  have "device_inv ts (w_db w')"
  proof (rule update_points_inv [OF inv rows])
    show "same_key x (?g x) \<and> er_unregistered (?g x) = er_unregistered x \<and>
        map_option ts (er_last_heartbeat_at (?g x)) = er_last_heartbeat_at (?g x)"
      if "x \<in> set (db_edge_devices ?d)" for x
      using inv that stamp_idem [OF ts] by (auto simp: same_key_def device_inv_def devices_ok_def)
    show "op_id (?f p) = op_id p \<and> op_observation_point_id (?f p) = op_observation_point_id p \<and>
      op_edge_device_id (?f p) = op_edge_device_id p \<and> map_option ts (op_last_active_at (?f p)) = op_last_active_at (?f p)"
      if "p \<in> set (db_observation_points ?d)" for p
    proof -
      have "map_option ts (op_last_active_at p) = op_last_active_at p" using inv that by (simp add: device_inv_def points_ok_def)
      then have "map_option ts (op_last_active_at (touch_point ts q p)) = op_last_active_at (touch_point ts q p)" for q
        by (simp add: touch_point_def timestamptz.ts_idem [OF ts] split: option.split)
      with \<open>map_option ts (op_last_active_at p) = op_last_active_at p\<close> show ?thesis by (simp split: option.split)
    qed
  qed (simp split: option.split)
  moreover have "evolves ?d (w_db w')"
    unfolding evolves_def
  proof (intro conjI ballI impI)
    fix x assume "x \<in> set (db_edge_devices ?d)"
    then show "\<exists>x' \<in> set (db_edge_devices (w_db w')). same_key x x' \<and> (er_unregistered x \<longrightarrow> x' = x)"
      unfolding rows set_map by (intro bexI [of _ "?g x"] imageI) (auto simp: same_key_def)
  next
    fix p assume p: "p \<in> set (db_observation_points ?d)" "\<exists>x \<in> set (db_edge_devices ?d). er_id x = op_edge_device_id p \<and> er_unregistered x"
    then have "op_edge_device_id p \<noteq> er_id r" using ids [OF _ r(1)] r(3) by metis
    then have "p = ?f p" by simp
    then show "p \<in> set (db_observation_points (w_db w'))" unfolding rows set_map using p(1) by (rule image_eqI)
  qed
  moreover have "spares (er_tenant_public_id s) ?d (w_db w')"
    unfolding spares_def
  proof (intro ballI impI conjI)
    fix x assume x: "x \<in> set (db_edge_devices ?d)" "er_tenant_public_id x \<noteq> er_tenant_public_id s"
    then have other: "x \<noteq> r" using \<open>s = r\<close> by blast
    then have "x = ?g x" using ids [OF x(1) r(1)] r(2) by auto
    then show "x \<in> set (db_edge_devices (w_db w'))" unfolding rows set_map using x(1) by (rule image_eqI)
    fix p assume p: "p \<in> set (db_observation_points ?d)" "op_edge_device_id p = er_id x"
    then have "p = ?f p" using ids [OF x(1) r(1)] other by auto
    then show "p \<in> set (db_observation_points (w_db w'))" unfolding rows set_map using p(1) by (rule image_eqI)
  qed
  ultimately show ?thesis by blast
qed

subsection \<open>Steps\<close>

definition pending_ok :: "database \<Rightarrow> Ctx \<times> EdgeDevice \<Rightarrow> bool" where
  "pending_ok d = (\<lambda>(ctx, device). \<not> ctx_tx ctx \<and> distinct (map pt_ID (dev_ObservationPoints device)) \<and>
     (\<exists>r \<in> set (db_edge_devices d). er_edge_device_id r = dev_ID device \<and> tenant_allows ctx (er_tenant_public_id r)))"

definition system_inv :: "(time \<Rightarrow> time) \<Rightarrow> 'x device_state \<Rightarrow> bool" where
  "system_inv ts = (\<lambda>(w, hs). device_inv ts (w_db w) \<and> (\<forall>h \<in> set hs. pending_ok (w_db w) h))"

lemma pending_evolves: "pending_ok d h \<Longrightarrow> evolves d d' \<Longrightarrow> pending_ok d' h"
  unfolding pending_ok_def evolves_def same_key_def case_prod_unfold by metis

definition good_effect :: "(time \<Rightarrow> time) \<Rightarrow> Ctx option \<Rightarrow> database \<Rightarrow> database \<Rightarrow> bool" where
  "good_effect ts label d d' \<longleftrightarrow> device_inv ts d' \<and> evolves d d' \<and>
     (\<forall>ctx t. label = Some ctx \<longrightarrow> TenantPublicIDFromContext ctx = Some t \<longrightarrow> spares t d d')"

lemma same_effect: "device_inv ts d \<Longrightarrow> same_devices d d' \<Longrightarrow> good_effect ts l d d'"
  by (simp add: good_effect_def same_devices_inv evolves_refl spares_refl)

lemma same_db_devices: "d' = d \<Longrightarrow> same_devices d d'"
  by (simp add: same_devices_def)

lemma allowed_tenant: "tenant_allows ctx u \<Longrightarrow> TenantPublicIDFromContext ctx = Some t \<Longrightarrow> u = t"
  by (simp add: tenant_allows_def)

lemma heartbeat_read_Inr:
  fixes s :: "('x, 'r) EdgeDeviceService" and ts p timeout
  defines "s \<equiv> PostgresEdgeDeviceService ts p timeout"
  assumes inv: "device_inv ts (w_db w)" and tx: "\<not> ctx_tx ctx" and run: "heartbeat_read s ctx hb w = (Inr device, w')"
  shows "w_db w' = w_db w \<and> pending_ok (w_db w) (ctx, device)"
proof -
  from run obtain pid device0 w1 t ids where find: "FindByID ctx pid w = (Inr device0, w1)"
    and hb: "Heartbeat t ids device0 = Inr device" and clock: "now w1 = (Inr t, w')"
    by (auto simp: heartbeat_read_def s_def bindE_Inr split: if_splits)
  from find show ?thesis
  proof (rule FindByID_Inr)
    fix r assume r: "r \<in> set (db_edge_devices (w_db w))" "device0 = stored_device (w_db w) r" "tenant_allows ctx (er_tenant_public_id r)"
      and w1: "w_db w1 = w_db w"
    have "distinct (map pt_ID (stored_points (w_db w) r))" using stored_points_distinct inv_parts(2) [OF inv] .
    with Heartbeat_frame [OF hb] r tx clock w1 show ?thesis
      by (auto simp: pending_ok_def now_def intro!: bexI [of _ r])
  qed
qed

lemma heartbeat_write_effect:
  fixes s :: "('x, 'r) EdgeDeviceService" and ts p timeout
  defines "s \<equiv> PostgresEdgeDeviceService ts p timeout"
  assumes inv: "device_inv ts (w_db w)" and ts: "timestamptz ts" and pending: "pending_ok (w_db w) (ctx, device)"
    and run: "heartbeat_write s ctx device w = (r, w')"
  shows "good_effect ts (Some ctx) (w_db w) (w_db w')"
proof -
  from pending obtain row where row: "row \<in> set (db_edge_devices (w_db w))" "er_edge_device_id row = dev_ID device"
    "tenant_allows ctx (er_tenant_public_id row)" and tx: "\<not> ctx_tx ctx" and distinct: "distinct (map pt_ID (dev_ObservationPoints device))"
    by (auto simp: pending_ok_def)
  from run obtain q where "runInTransaction ctx (save_heartbeat_body ts device) w = (q, w')"
    by (auto simp: heartbeat_write_def s_def SaveHeartbeat_def RunInTransaction_def wrapE_def split: prod.splits sum.splits)
  then show ?thesis
  proof (rule runInTransaction_outcome [OF _ tx])
    fix x and w0 w1 :: "'x world"
    assume begin': "next_fault w = (NoFault, w0)" and body: "save_heartbeat_body ts device (ctx\<lparr>ctx_tx := True\<rparr>) w0 = (Inr x, w1)"
      and w': "w_db w' = w_db w1"
    have w0: "w_db w0 = w_db w" using begin' by (rule next_fault_db)
    have "device_inv ts (w_db w0)" "row \<in> set (db_edge_devices (w_db w0))" using inv row w0 by simp_all
    from heartbeat_effect [OF this(1) ts distinct body this(2) row(2)] show ?thesis
      using allowed_tenant [OF row(3)] by (auto simp: good_effect_def w0 w')
  qed (use inv in \<open>simp add: same_effect same_db_devices\<close>)
qed

lemma register_effect:
  assumes "\<not> ctx_tx ctx" and inv: "device_inv ts (w_db w)" and ts: "timestamptz ts"
    and "RegisterEdgeDevice (PostgresEdgeDeviceService ts p timeout) ctx input w = (r, w')"
  shows "good_effect ts (Some ctx) (w_db w) (w_db w')"
  using RegisterEdgeDevice_outcome [OF assms(1,2,4)]
proof
  assume "\<exists>device. requested_device ctx input device \<and> registers ts device (w_db w) (w_db w') \<and>
     ((\<exists>out. r = Inr out \<and> vw_Device (ro_Device out) = device) \<or>
      (\<exists>e. r = Inl (Wrap ''commit transaction'' e) \<or> r = Inl (Wrap ''create edge device'' (Wrap ''commit transaction'' e))))"
  then obtain device where reg: "requested_device ctx input device" "registers ts device (w_db w) (w_db w')" by blast
  then have "device_inv ts (w_db w')" by (intro registers_inv [OF inv ts]) (simp_all add: requested_device_def)
  with registers_evolves [OF reg(2)] show ?thesis by (simp add: good_effect_def)
qed (use inv in \<open>simp add: same_effect same_db_devices\<close>)

lemma unregister_effect:
  assumes "\<not> ctx_tx ctx" and inv: "device_inv ts (w_db w)"
    and "UnregisterEdgeDevice (PostgresEdgeDeviceService ts p timeout) ctx input w = (r, w')"
  shows "good_effect ts (Some ctx) (w_db w) (w_db w')"
  using UnregisterEdgeDevice_outcome [OF assms]
proof
  assume "((\<exists>v. r = Inr v) \<or> (\<exists>e. r = Inl (Wrap ''commit transaction'' e))) \<and>
    (\<exists>row \<in> set (db_edge_devices (w_db w)). er_edge_device_id row = un_EdgeDeviceID input \<and>
       er_event_id row = un_EventID input \<and> \<not> er_unregistered row \<and> tenant_allows ctx (er_tenant_public_id row) \<and>
       w_db w' = unregistered_db (er_id row) (w_db w))"
  then obtain row where row: "row \<in> set (db_edge_devices (w_db w))" "tenant_allows ctx (er_tenant_public_id row)"
    "w_db w' = unregistered_db (er_id row) (w_db w)" by blast
  show ?thesis
    unfolding good_effect_def row(3)
    using unregistered_db_inv [OF inv] unregistered_evolves [OF inv] unregistered_spares [OF inv row(1)] allowed_tenant [OF row(2)]
    by blast
qed (use inv in \<open>simp add: same_effect same_db_devices\<close>)

lemma config_effect:
  assumes "\<not> ctx_tx ctx" and inv: "device_inv ts (w_db w)" and "timestamptz ts"
    and "UpdateObservationPointConfig (PostgresEdgeDeviceService ts p timeout) ctx input w = (r, w')"
  shows "good_effect ts (Some ctx) (w_db w) (w_db w')"
  using UpdateObservationPointConfig_outcome [OF assms]
proof
  assume "\<exists>q. (r = Inr q \<or> (\<exists>e. r = Inl (Wrap ''commit transaction'' e))) \<and> configures ctx input (w_db w) (w_db w') q \<and>
    EnsureEvent ctx (up_EventID input) = Inr ()"
  then obtain q where "configures ctx input (w_db w) (w_db w') q" by blast
  from configures_effect [OF inv this] show ?thesis by (simp add: good_effect_def)
qed (use inv in \<open>simp add: same_effect same_db_devices\<close>)

lemma lists_devices:
  assumes "timestamptz ts"
  shows "relates same_but_holds (ListEdgeDevices (PostgresEdgeDeviceService ts p timeout) ctx li)"
    and "relates same_but_holds (ListEdgeDeviceObservationPoints (PostgresEdgeDeviceService ts p timeout) ctx lp)"
proof -
  have eval: "relates same_but_holds (Evaluate (NewHeartbeatLossHolds (NewPostgresHeartbeatLossHoldRepository ts) p) ctx t)" for t
    unfolding relates_def using Evaluate_devices [OF assms] by (metis prod.collapse)
  have view: "relates same_but_holds (view (PostgresEdgeDeviceService ts p timeout) device)" for device
    unfolding view_def by (intro relates_bind relates_basic same_but_holds_rules reader_basic [THEN reader_holds])
  note rules = relates_bind relates_wrap relates_map relates_if relates_basic same_but_holds_rules eval view
    reader_basic [THEN reader_holds] reader_list [THEN reader_holds] reader_finders [THEN reader_holds]
  show "relates same_but_holds (ListEdgeDevices (PostgresEdgeDeviceService ts p timeout) ctx li)"
    unfolding ListEdgeDevices_def pg_devices pg_repository by (intro rules)
  show "relates same_but_holds (ListEdgeDeviceObservationPoints (PostgresEdgeDeviceService ts p timeout) ctx lp)"
    unfolding ListEdgeDeviceObservationPoints_def pg_devices pg_repository by (intro rules)
qed

lemma device_step_effect:
  assumes step: "device_step ts p timeout s label s'" and ts: "timestamptz ts" and inv: "system_inv ts s"
  shows "system_inv ts s' \<and> good_effect ts label (w_db (fst s)) (w_db (fst s'))"
proof -
  have keep: "system_inv ts (w', hs') \<and> good_effect ts l (w_db w) (w_db w')"
    if "good_effect ts l (w_db w) (w_db w')" "\<forall>h \<in> set hs'. pending_ok (w_db w) h" for l and w w' :: "'a world" and hs'
    using that pending_evolves by (auto simp: system_inv_def good_effect_def)
  note inv = inv [unfolded system_inv_def case_prod_unfold]
  from step show ?thesis
  proof cases
    case (register ctx rg w r w' hs)
    with inv have i: "device_inv ts (w_db w)" "\<forall>h \<in> set hs. pending_ok (w_db w) h" by auto
    show ?thesis
      unfolding register(1-3) fst_conv by (rule keep [OF register_effect [OF register(4) i(1) ts register(5)] i(2)])
  next
    case (unregister ctx un w r w' hs)
    with inv have i: "device_inv ts (w_db w)" "\<forall>h \<in> set hs. pending_ok (w_db w) h" by auto
    show ?thesis
      unfolding unregister(1-3) fst_conv by (rule keep [OF unregister_effect [OF unregister(4) i(1) unregister(5)] i(2)])
  next
    case (config ctx up w r w' hs)
    with inv have i: "device_inv ts (w_db w)" "\<forall>h \<in> set hs. pending_ok (w_db w) h" by auto
    show ?thesis
      unfolding config(1-3) fst_conv by (rule keep [OF config_effect [OF config(4) i(1) ts config(5)] i(2)])
  next
    case (heartbeat_read ctx hb w device w' hs)
    with inv have i: "device_inv ts (w_db w)" "\<forall>h \<in> set hs. pending_ok (w_db w) h" by auto
    note read = heartbeat_read_Inr [OF i(1) heartbeat_read(4,5)]
    show ?thesis
      unfolding heartbeat_read(1-3) fst_conv
      by (rule keep [OF same_effect [OF i(1) same_db_devices [OF conjunct1 [OF read]]]]) (use read i(2) in auto)
  next
    case (heartbeat_write ctx device hs w r w')
    with inv have i: "device_inv ts (w_db w)" "\<forall>h \<in> set hs. pending_ok (w_db w) h" by auto
    have "pending_ok (w_db w) (ctx, device)" using i(2) heartbeat_write(4) by blast
    from keep [OF heartbeat_write_effect [OF i(1) ts this heartbeat_write(5)]] show ?thesis
      unfolding heartbeat_write(1-3) fst_conv using i(2) by (meson notin_set_remove1)
  next
    case (list_devices ctx li w r w' hs)
    with inv have i: "device_inv ts (w_db w)" "\<forall>h \<in> set hs. pending_ok (w_db w) h" by auto
    show ?thesis
      unfolding list_devices(1-3) fst_conv
      by (rule keep [OF same_effect [OF i(1) same_but_holds_devices [OF relatesD [OF lists_devices(1) [OF ts] list_devices(4)]]] i(2)])
  next
    case (list_points ctx lp w r w' hs)
    with inv have i: "device_inv ts (w_db w)" "\<forall>h \<in> set hs. pending_ok (w_db w) h" by auto
    show ?thesis
      unfolding list_points(1-3) fst_conv
      by (rule keep [OF same_effect [OF i(1) same_but_holds_devices [OF relatesD [OF lists_devices(2) [OF ts] list_points(4)]]] i(2)])
  next
    case (environment w w' hs)
    with inv have i: "device_inv ts (w_db w)" "\<forall>h \<in> set hs. pending_ok (w_db w) h" by auto
    show ?thesis
      unfolding environment(1-3) fst_conv by (rule keep [OF same_effect [OF i(1) environment(4)] i(2)])
  qed
qed

subsection \<open>Runs\<close>

inductive device_run ::
  "(time \<Rightarrow> time) \<Rightarrow> HeartbeatLossHoldPolicy \<Rightarrow> duration \<Rightarrow> 'x device_state \<Rightarrow> Ctx option list \<Rightarrow> 'x device_state \<Rightarrow> bool"
  for ts :: "time \<Rightarrow> time" and p :: HeartbeatLossHoldPolicy and timeout :: duration where
  run_nil: "device_run ts p timeout s [] s"
| run_cons: "device_step ts p timeout s l s1 \<Longrightarrow> device_run ts p timeout s1 ls s2 \<Longrightarrow> device_run ts p timeout s (l # ls) s2"

inductive_simps device_run_nil [simp]: "device_run ts p timeout s [] s'"
inductive_cases device_run_consE: "device_run ts p timeout s (l # ls) s'"

lemma device_run_inv:
  "device_run ts p timeout s ls s' \<Longrightarrow> timestamptz ts \<Longrightarrow> system_inv ts s \<Longrightarrow>
     system_inv ts s' \<and> evolves (w_db (fst s)) (w_db (fst s'))"
proof (induction rule: device_run.induct)
  case (run_nil s)
  then show ?case by (simp add: evolves_refl same_devices_def)
next
  case (run_cons s l s1 ls s2)
  from device_step_effect [OF run_cons(1,4,5)] run_cons.IH [OF run_cons(4)] show ?case
    by (auto simp: good_effect_def intro: evolves_trans)
qed

lemma device_run_spares:
  "device_run ts p timeout s ls s' \<Longrightarrow> timestamptz ts \<Longrightarrow> system_inv ts s \<Longrightarrow>
     \<forall>ctx. Some ctx \<in> set ls \<longrightarrow> (\<exists>t. TenantPublicIDFromContext ctx = Some t \<and> t \<noteq> u) \<Longrightarrow>
     r \<in> set (db_edge_devices (w_db (fst s))) \<Longrightarrow> er_tenant_public_id r = u \<Longrightarrow>
     r \<in> set (db_edge_devices (w_db (fst s'))) \<and>
     (\<forall>q \<in> set (db_observation_points (w_db (fst s))). op_edge_device_id q = er_id r \<longrightarrow> q \<in> set (db_observation_points (w_db (fst s'))))"
proof (induction rule: device_run.induct)
  case (run_cons s l s1 ls s2)
  note effect = device_step_effect [OF run_cons(1,4,5)]
  have "r \<in> set (db_edge_devices (w_db (fst s1))) \<and>
     (\<forall>q \<in> set (db_observation_points (w_db (fst s))). op_edge_device_id q = er_id r \<longrightarrow> q \<in> set (db_observation_points (w_db (fst s1))))"
  proof (cases l)
    case None
    from run_cons(1) None have "same_devices (w_db (fst s)) (w_db (fst s1))" by cases auto
    with run_cons.prems(4) show ?thesis by (simp add: same_devices_def)
  next
    case (Some ctx)
    with run_cons.prems(3) obtain t where "TenantPublicIDFromContext ctx = Some t" "t \<noteq> u" by auto
    with effect Some have "spares t (w_db (fst s)) (w_db (fst s1))" by (simp add: good_effect_def)
    with run_cons.prems(4,5) \<open>t \<noteq> u\<close> show ?thesis unfolding spares_def by auto
  qed
  with run_cons.IH [OF run_cons(4)] effect run_cons.prems(3,5) show ?case by auto
qed simp

lemma empty_system_inv:
  "db_edge_devices (w_db w) = [] \<Longrightarrow> db_observation_points (w_db w) = [] \<Longrightarrow> db_camera_links (w_db w) = [] \<Longrightarrow>
     system_inv ts (w, [])"
  by (simp add: system_inv_def device_inv_def devices_ok_def points_ok_def links_ok_def)

text \<open>C1. Every database reachable from empty device tables, whatever requests, interleavings of heartbeats and faults
  led to it, satisfies the invariant: identifiers are unique, points belong to observation pages, the points of an
  unregistered page are disabled, a camera link joins a registered camera to a point of a registered page of
  the same event and tenant, and every registered camera has its link.\<close>

theorem device_system_invariant:
  assumes "timestamptz ts" and "device_run ts p timeout (w, []) ls (w', hs)"
    and "db_edge_devices (w_db w) = []" and "db_observation_points (w_db w) = []" and "db_camera_links (w_db w) = []"
  shows "device_inv ts (w_db w')"
  using device_run_inv [OF assms(2,1) empty_system_inv [OF assms(3-5)]] by (simp add: system_inv_def)

text \<open>C2. Unregistration is permanent: from the moment a device is unregistered, and also under heartbeats that had
  read it before, its row and its points never change again, its points are disabled and no camera link
  names it.\<close>

theorem unregistration_permanent:
  assumes "timestamptz ts" and "system_inv ts (w, hs)" and "device_run ts p timeout (w, hs) ls (w', hs')"
    and "r \<in> set (db_edge_devices (w_db w))" and "er_unregistered r"
  shows "r \<in> set (db_edge_devices (w_db w')) \<and>
    (\<forall>q \<in> set (db_observation_points (w_db w)). op_edge_device_id q = er_id r \<longrightarrow> \<not> op_enabled q \<and> q \<in> set (db_observation_points (w_db w'))) \<and>
    (\<forall>l \<in> set (db_camera_links (w_db w')). lk_camera_edge_device_id l \<noteq> er_id r)"
proof -
  have inv: "device_inv ts (w_db w)" "device_inv ts (w_db w')" and ev: "evolves (w_db w) (w_db w')"
    using device_run_inv [OF assms(3,1,2)] assms(2) by (simp_all add: system_inv_def)
  have r': "r \<in> set (db_edge_devices (w_db w'))" using ev assms(4,5) unfolding evolves_def by blast
  moreover have "\<not> op_enabled q \<and> q \<in> set (db_observation_points (w_db w'))"
    if "q \<in> set (db_observation_points (w_db w))" "op_edge_device_id q = er_id r" for q
  proof -
    have "\<exists>s \<in> set (db_edge_devices (w_db w)). er_id s = op_edge_device_id q \<and> er_kind s = ''observation_page'' \<and>
        (er_unregistered s \<longrightarrow> \<not> op_enabled q)"
      using inv_parts(2) [OF inv(1)] that(1) by (simp add: points_ok_def)
    then obtain s where s: "s \<in> set (db_edge_devices (w_db w))" "er_id s = op_edge_device_id q" "er_unregistered s \<longrightarrow> \<not> op_enabled q"
      by blast
    have "s = r" by (rule row_by_id [OF inv_parts(1) [OF inv(1)] s(1) assms(4)]) (simp add: s(2) that(2))
    then have "\<not> op_enabled q" using assms(5) s(3) by simp
    moreover have "q \<in> set (db_observation_points (w_db w'))"
      by (rule mp [OF bspec [OF conjunct2 [OF ev [unfolded evolves_def]] that(1)]])
        (use assms(4,5) that(2) in \<open>auto intro!: bexI [of _ r]\<close>)
    ultimately show ?thesis by blast
  qed
  ultimately show ?thesis using links_of_unregistered [OF inv(2) r' assms(5)] by blast
qed

text \<open>C3. Tenants are isolated: no sequence of steps in which every request comes with the claims of another tenant
  changes a device of this tenant, its points included, not even through the cascade of an unregistration.\<close>

theorem tenant_isolation:
  assumes "timestamptz ts" and "system_inv ts (w, hs)" and "device_run ts p timeout (w, hs) ls (w', hs')"
    and "\<forall>ctx. Some ctx \<in> set ls \<longrightarrow> (\<exists>t. TenantPublicIDFromContext ctx = Some t \<and> t \<noteq> u)"
    and "r \<in> set (db_edge_devices (w_db w))" and "er_tenant_public_id r = u"
  shows "r \<in> set (db_edge_devices (w_db w')) \<and>
    (\<forall>q \<in> set (db_observation_points (w_db w)). op_edge_device_id q = er_id r \<longrightarrow> q \<in> set (db_observation_points (w_db w')))"
  using device_run_spares [OF assms(3,1,2,4)] assms(5,6) by simp

subsection \<open>Examples\<close>

definition sample_service :: "(unit, 'r) EdgeDeviceService" where
  "sample_service = PostgresEdgeDeviceService trunc_us sample_policy minute"

definition sample_register :: RegisterEdgeDeviceInput where
  "sample_register = \<lparr>rg_EventID = ''e'', rg_Name = '' gate '', rg_ObservationPointNames = [], rg_Kind = EdgeDeviceKindObservationPage,
     rg_LinkedObservationPointID = ''''\<rparr>"

definition sample_heartbeat :: HeartbeatInput where
  "sample_heartbeat = \<lparr>hb_EventID = ''e'', hb_EdgeDeviceID = ''00000000000000aa'', hb_ActiveObservationPointIDs = [''00000000000000cc'']\<rparr>"

lemma device_system_invariant_witness:
  "\<exists>(w1 :: unit world) w2. device_run trunc_us sample_policy minute (sample_world [] empty_db (), [])
       [Some (sample_ctx ''t'' ''e''), Some (sample_ctx ''t'' ''e'')] (w2, []) \<and>
     map er_unregistered (db_edge_devices (w_db w1)) = [False] \<and> map er_unregistered (db_edge_devices (w_db w2)) = [True] \<and>
     device_inv trunc_us (w_db w2)"
proof -
  let ?c = "sample_ctx ''t'' ''e''" and ?w = "sample_world [] empty_db ()"
  let ?un = "\<lparr>un_EventID = ''e'', un_EdgeDeviceID = ''0000000000000000''\<rparr>"
  obtain r1 w1 where reg: "RegisterEdgeDevice sample_service ?c sample_register ?w = (r1, w1)" by fastforce
  obtain r2 w2 where un: "UnregisterEdgeDevice sample_service ?c ?un w1 = (r2, w2)" by fastforce
  have flags: "map er_unregistered (db_edge_devices (w_db (snd (RegisterEdgeDevice sample_service ?c sample_register ?w)))) = [False]"
    "map er_unregistered (db_edge_devices (w_db (snd (UnregisterEdgeDevice sample_service ?c ?un
      (snd (RegisterEdgeDevice sample_service ?c sample_register ?w)))))) = [True]"
    by code_simp+
  have run: "device_run trunc_us sample_policy minute (?w, []) [Some ?c, Some ?c] (w2, [])"
    using reg un sample_ctx_tx unfolding sample_service_def
    by (intro run_cons [OF device_step.register] run_cons [OF device_step.unregister] run_nil) auto
  have inv: "device_inv trunc_us (w_db w2)"
    by (rule device_system_invariant [OF trunc_us run]) (simp_all add: empty_db_def)
  show ?thesis
    by (rule exI [of _ w1], rule exI [of _ w2]) (intro conjI run inv flags [unfolded reg snd_conv un])
qed

definition retired_page :: edge_device_row where
  "retired_page = sample_page\<lparr>er_unregistered := True\<rparr>"

lemma unregistration_permanent_witness:
  "\<exists>w1 (w2 :: unit world) w3 device.
     heartbeat_read (sample_service :: (unit, unit) EdgeDeviceService) (sample_ctx ''t'' ''e'') sample_heartbeat (sample_world [] sample_device_db ()) = (Inr device, w1) \<and>
     w_db w2 = unregistered_db 1 sample_device_db \<and>
     device_run trunc_us sample_policy minute (w2, [(sample_ctx ''t'' ''e'', device)]) [Some (sample_ctx ''t'' ''e'')] (w3, []) \<and>
     retired_page \<in> set (db_edge_devices (w_db w3))"
proof -
  let ?c = "sample_ctx ''t'' ''e''" and ?w = "sample_world [] sample_device_db ()" and ?s = "sample_service :: (unit, unit) EdgeDeviceService"
  obtain r1 w1 where read: "heartbeat_read ?s ?c sample_heartbeat ?w = (r1, w1)" by fastforce
  have "case fst (heartbeat_read ?s ?c sample_heartbeat ?w) of Inl e \<Rightarrow> False | Inr d \<Rightarrow> True" by code_simp
  then obtain device where device: "r1 = Inr device" unfolding read by (cases r1) simp_all
  let ?w2 = "w1\<lparr>w_db := unregistered_db 1 sample_device_db\<rparr>"
  obtain r3 w3 where wr: "heartbeat_write ?s ?c device ?w2 = (r3, w3)" by fastforce
  have inv: "device_inv trunc_us sample_device_db" using sample_device_inv [of trunc_us "[]" "()"] by simp
  have "pending_ok sample_device_db (?c, device)"
    using heartbeat_read_Inr [where 'r = unit, of trunc_us ?w ?c sample_policy minute sample_heartbeat device w1] read inv sample_ctx_tx
    unfolding sample_service_def device by simp
  then have sys: "system_inv trunc_us (?w2, [(?c, device)])"
    using unregistered_db_inv [OF inv] pending_evolves [OF _ unregistered_evolves [OF inv]] by (simp add: system_inv_def)
  have run: "device_run trunc_us sample_policy minute (?w2, [(?c, device)]) [Some ?c] (w3, [])"
    using run_cons [OF device_step.heartbeat_write [of ?c device "[(?c, device)]" trunc_us sample_policy minute ?w2 r3 w3] run_nil] wr
    unfolding sample_service_def by simp
  have "retired_page \<in> set (db_edge_devices (w_db ?w2))"
    by (simp add: unregistered_db_def update_where_def sample_device_db_def retired_page_def sample_page_def)
  from unregistration_permanent [OF trunc_us sys run this] have kept: "retired_page \<in> set (db_edge_devices (w_db w3))"
    by (simp add: retired_page_def)
  have "w_db ?w2 = unregistered_db 1 sample_device_db" by simp
  then show ?thesis
    by - (rule exI [of _ w1], rule exI [of _ ?w2], rule exI [of _ w3], rule exI [of _ device],
        intro conjI read [unfolded device] run kept)
qed

lemma tenant_isolation_witness:
  "\<exists>w2. device_run trunc_us sample_policy minute (sample_world [] sample_device_db (), []) [Some (sample_ctx ''u'' ''e'')] (w2, []) \<and>
     length (db_edge_devices (w_db w2)) = 3 \<and> sample_page \<in> set (db_edge_devices (w_db w2)) \<and>
     sample_point_row \<in> set (db_observation_points (w_db w2))"
proof -
  let ?c = "sample_ctx ''u'' ''e''" and ?w = "sample_world [] sample_device_db ()"
  obtain r w2 where reg: "RegisterEdgeDevice sample_service ?c sample_register ?w = (r, w2)" by fastforce
  have "length (db_edge_devices (w_db (snd (RegisterEdgeDevice sample_service ?c sample_register ?w)))) = 3" by code_simp
  moreover have run: "device_run trunc_us sample_policy minute (?w, []) [Some ?c] (w2, [])"
    using reg sample_ctx_tx unfolding sample_service_def
    by (intro run_cons [OF device_step.register] run_nil) auto
  moreover have "system_inv trunc_us (?w, [])" using sample_device_inv [of trunc_us "[]" "()"] by (simp add: system_inv_def)
  moreover have "TenantPublicIDFromContext ?c = Some ''u''" by code_simp
  ultimately have "sample_page \<in> set (db_edge_devices (w_db w2)) \<and>
    (\<forall>q \<in> set (db_observation_points (w_db ?w)). op_edge_device_id q = er_id sample_page \<longrightarrow> q \<in> set (db_observation_points (w_db w2)))"
    by (intro tenant_isolation [OF trunc_us _ run, where u = "''t''"])
      (simp_all add: sample_device_db_def sample_page_def)
  then have "sample_page \<in> set (db_edge_devices (w_db w2)) \<and> sample_point_row \<in> set (db_observation_points (w_db w2))"
    by (simp add: sample_device_db_def) (simp add: sample_page_def sample_point_row_def)
  with run \<open>length _ = 3\<close> show ?thesis unfolding reg snd_conv by blast
qed

end
