(* ===== verification/JsonCodec.thy ===== *)
theory JsonCodec
  imports Database
begin

section \<open>encoding/json and JSONB columns\<close>

text \<open>
  What the repositories use of \<open>json.Marshal\<close>, of \<open>json.Unmarshal\<close> and of the JSONB type that keeps the document in
  between. Marshalling fails on a float that is not a number of JSON. Unmarshalling leaves the zero value where
  a field is missing or \<open>null\<close>, takes the last of equal names, ignores what it does not know and fails on another type.
  Field names are matched exactly: every stored document was written by the same struct's encoder. JSONB keeps numbers
  as NUMERIC, which has no negative zero (\<open>jsonb\<close>). Strings are taken to be valid UTF-8, as protobuf and
  the text columns guarantee them; a text that the server refuses is one of its faults.
\<close>

definition marshal_error :: err where "marshal_error = OtherError ''json: unsupported value''"
definition unmarshal_error :: err where "unmarshal_error = OtherError ''json: cannot unmarshal''"

definition json_float :: "f64 \<Rightarrow> err + json" where
  "json_float x = (if finite_f x then Inr (JNum x) else Inl marshal_error)"

definition json_optional :: "f64 option \<Rightarrow> err + json" where
  "json_optional x = (case x of None \<Rightarrow> Inr JNull | Some v \<Rightarrow> json_float v)"

definition json_strings :: "string list \<Rightarrow> json" where
  "json_strings xs = JArr (map JStr xs)"

definition positive_zero :: "f64 \<Rightarrow> f64" where
  "positive_zero x = (case x of Num s m \<Rightarrow> Num (s \<and> m \<noteq> 0) m | _ \<Rightarrow> x)"

fun jsonb :: "json \<Rightarrow> json" where
  "jsonb (JNum x) = JNum (positive_zero x)"
| "jsonb (JArr xs) = JArr (map jsonb xs)"
| "jsonb (JObj fs) = JObj (map (\<lambda>(k, v). (k, jsonb v)) fs)"
| "jsonb j = j"

fun decode_string :: "json \<Rightarrow> err + string" where
  "decode_string (JStr s) = Inr s"
| "decode_string _ = Inl unmarshal_error"

fun decode_bool :: "json \<Rightarrow> err + bool" where
  "decode_bool (JBool b) = Inr b"
| "decode_bool _ = Inl unmarshal_error"

fun decode_float :: "json \<Rightarrow> err + f64" where
  "decode_float (JNum x) = Inr x"
| "decode_float (JInt k) = Inr (f_of_int k)"
| "decode_float _ = Inl unmarshal_error"

definition decode_int_in :: "int \<Rightarrow> int \<Rightarrow> json \<Rightarrow> err + int" where
  "decode_int_in lo hi j =
     (case j of JInt k \<Rightarrow> if lo \<le> k \<and> k \<le> hi then Inr k else Inl unmarshal_error | _ \<Rightarrow> Inl unmarshal_error)"

definition decode_int :: "json \<Rightarrow> err + int" where
  "decode_int = decode_int_in min_int64 max_int64"

definition decode_int32 :: "json \<Rightarrow> err + int32" where
  "decode_int32 j = bindS (decode_int_in (- (2 ^ 31)) (2 ^ 31 - 1) j) (\<lambda>k. Inr (word_of_int k))"

definition decode_optional :: "(json \<Rightarrow> err + 'a) \<Rightarrow> json \<Rightarrow> err + 'a option" where
  "decode_optional dec j = bindS (dec j) (\<lambda>x. Inr (Some x))"

text \<open>A value where \<open>null\<close> stands for the zero value.\<close>

definition decode_or :: "'a \<Rightarrow> (json \<Rightarrow> err + 'a) \<Rightarrow> json \<Rightarrow> err + 'a" where
  "decode_or zero dec j = (if j = JNull then Inr zero else dec j)"

fun decode_list :: "'a \<Rightarrow> (json \<Rightarrow> err + 'a) \<Rightarrow> json \<Rightarrow> err + 'a list" where
  "decode_list zero dec (JArr xs) = mapS (decode_or zero dec) xs"
| "decode_list zero dec JNull = Inr []"
| "decode_list zero dec _ = Inl unmarshal_error"

definition decode_strings :: "json \<Rightarrow> err + string list" where
  "decode_strings = decode_list '''' decode_string"

fun json_field :: "string \<Rightarrow> 'a \<Rightarrow> (json \<Rightarrow> err + 'a) \<Rightarrow> json \<Rightarrow> err + 'a" where
  "json_field name zero dec (JObj fs) =
     (case map_of (rev fs) name of None \<Rightarrow> Inr zero | Some j \<Rightarrow> decode_or zero dec j)"
| "json_field name zero dec _ = Inl unmarshal_error"

subsection \<open>Reading back what was written\<close>

named_theorems codec_simps \<open>decoding what was encoded and stored\<close>

lemma positive_zero_finite [simp]: "finite_f (positive_zero x) = finite_f x"
  by (cases x) (simp_all add: positive_zero_def)

lemma positive_zero_id: "feq (positive_zero x) x \<or> x = NaN"
  by (cases x) (auto simp: positive_zero_def)

lemma json_float_Inr: "json_float x = Inr j \<longleftrightarrow> finite_f x \<and> j = JNum x"
  by (auto simp: json_float_def)

lemma json_optional_Inr:
  "json_optional x = Inr j \<longleftrightarrow> (case x of None \<Rightarrow> j = JNull | Some v \<Rightarrow> finite_f v \<and> j = JNum v)"
  by (auto simp: json_optional_def json_float_Inr split: option.splits)

lemma decode_strings_json [codec_simps]: "decode_strings (jsonb (json_strings xs)) = Inr xs"
proof -
  have "mapS (decode_or '''' decode_string) (map JStr xs) = Inr (map id xs)"
    by (subst mapS_Inr) (simp add: list_all2_map1 list_all2_map2 list_all2_same decode_or_def)
  then show ?thesis by (simp add: decode_strings_def json_strings_def o_def)
qed

lemma decode_list_json:
  assumes "list_all2 (\<lambda>x j. dec (jsonb j) = Inr (f x) \<and> jsonb j \<noteq> JNull) xs js"
  shows "decode_list zero dec (jsonb (JArr js)) = Inr (map f xs)"
proof -
  have "list_all2 (\<lambda>j y. decode_or zero dec j = Inr y) (map jsonb js) (map f xs)"
    using assms by (auto simp: list_all2_conv_all_nth decode_or_def)
  then show ?thesis by (simp add: mapS_Inr)
qed

lemma decode_int32_json [codec_simps]: "decode_int32 (JInt (sint x)) = Inr (x :: int32)"
  using int32_bounds [of x] by (simp add: decode_int32_def decode_int_in_def)

lemma decode_optional_float:
  "json_optional x = Inr j \<Longrightarrow> decode_or None (decode_optional decode_float) (jsonb j) = Inr (map_option positive_zero x)"
  by (auto simp: json_optional_Inr decode_or_def decode_optional_def split: option.splits)

end
