(* ===== verification/Measurement.thy ===== *)
theory Measurement
  imports EdgeDevice Float64
begin

section \<open>domain/measurement.go: measurements and the canonical rate\<close>

text \<open>
  A \<open>*float64\<close> is an \<open>f64 option\<close>. \<open>measurement_wf\<close> is what the constructor
  guarantees of a measurement that the rest of the service sees.
\<close>

record Measurement =
  ms_ObservationPointID :: ObservationPointID
  ms_WindowStart :: time
  ms_WindowEnd :: time
  ms_CountIn :: int32
  ms_CountOut :: int32
  ms_MeanDetectedPeople :: "f64 option"

definition NewMeasurement ::
  "string \<Rightarrow> time \<Rightarrow> time \<Rightarrow> int32 \<Rightarrow> int32 \<Rightarrow> f64 option \<Rightarrow> err + Measurement" where
  "NewMeasurement observationPointID windowStart windowEnd countIn countOut meanDetectedPeople =
     bindS (ParseObservationPointID (trim_space observationPointID)) (\<lambda>pointID.
       if \<not> windowEnd > windowStart then Inl (Err ErrInvalidMeasurementWindow)
       else if sint countIn < 0 \<or> sint countOut < 0 then Inl (Err ErrNegativeCount)
       else if (case meanDetectedPeople of None \<Rightarrow> False
                | Some m \<Rightarrow> flt m f_zero \<or> is_nan m \<or> is_inf m) then Inl (Err ErrInvalidDetectedPeople)
       else Inr \<lparr>ms_ObservationPointID = pointID, ms_WindowStart = windowStart, ms_WindowEnd = windowEnd,
         ms_CountIn = countIn, ms_CountOut = countOut, ms_MeanDetectedPeople = meanDetectedPeople\<rparr>)"

definition rate :: "Measurement \<Rightarrow> int32 \<Rightarrow> f64" where
  "rate m count =
     (let minutes = dur_minutes (time_sub (ms_WindowEnd m) (ms_WindowStart m)) in
      if fle minutes f_zero then f_zero else fdiv (f_of_int (sint count)) minutes)"

definition RateIn :: "Measurement \<Rightarrow> f64" where "RateIn m = rate m (ms_CountIn m)"
definition RateOut :: "Measurement \<Rightarrow> f64" where "RateOut m = rate m (ms_CountOut m)"

definition people_ok :: "f64 \<Rightarrow> bool" where
  "people_ok v \<longleftrightarrow> finite_f v \<and> fle f_zero v"

definition measurement_wf :: "Measurement \<Rightarrow> bool" where
  "measurement_wf m \<longleftrightarrow>
     is_public_id (ms_ObservationPointID m) \<and> ms_WindowStart m < ms_WindowEnd m \<and>
     0 \<le> sint (ms_CountIn m) \<and> 0 \<le> sint (ms_CountOut m) \<and>
     (case ms_MeanDetectedPeople m of None \<Rightarrow> True | Some v \<Rightarrow> people_ok v)"

lemma people_check: "\<not> (flt v f_zero \<or> is_nan v \<or> is_inf v) \<longleftrightarrow> people_ok v"
  by (cases v) (auto simp: people_ok_def flt_iff is_nan_def is_inf_def f_zero_def)

lemma NewMeasurement_wf: "NewMeasurement p s e i c v = Inr m \<Longrightarrow> measurement_wf m"
  by (auto simp: NewMeasurement_def bindS_Inr measurement_wf_def parsePublicID_iff
      simp flip: people_check split: if_splits option.splits)

lemma NewMeasurement_complete:
  assumes "is_public_id (trim_space p)" and "s < e" and "0 \<le> sint i" and "0 \<le> sint c"
    and "case v of None \<Rightarrow> True | Some x \<Rightarrow> people_ok x"
  shows "NewMeasurement p s e i c v =
    Inr \<lparr>ms_ObservationPointID = trim_space p, ms_WindowStart = s, ms_WindowEnd = e,
      ms_CountIn = i, ms_CountOut = c, ms_MeanDetectedPeople = v\<rparr>"
  using assms by (auto simp: NewMeasurement_def parsePublicID_eq simp flip: people_check split: option.splits)

lemma nneg_dur_minutes: "0 \<le> d \<Longrightarrow> nneg (dur_minutes d)"
proof -
  assume d: "0 \<le> d"
  have "f_of_int minute = Num False 60000000000"
    using f_of_int_exact [of minute] by (simp add: minute_def)
  with d show ?thesis
    unfolding dur_minutes_def by (intro nneg_fadd nneg_fdiv) (auto simp: minute_def)
qed

lemma f_of_int32: "f_of_int (sint (c :: int32)) = Num (sint c < 0) (of_int \<bar>sint c\<bar>)"
proof -
  have "\<bar>sint c\<bar> \<le> 2 ^ 31" using int32_bounds [of c] by linarith
  then have "\<bar>sint c\<bar> \<le> 2 ^ 53" by simp
  then show ?thesis by (rule f_of_int_exact)
qed

lemma fdiv_nneg: "0 \<le> n \<Longrightarrow> nneg y \<Longrightarrow> \<not> fle y f_zero \<Longrightarrow> nneg (fdiv (Num False n) y)"
  by (cases y) (auto simp: f_zero_def)

text \<open>A rate is zero or a non-negative number, never a NaN, whatever the window.\<close>

lemma nneg_rate:
  assumes "0 \<le> sint count" and "ms_WindowStart m < ms_WindowEnd m"
  shows "nneg (rate m count)"
proof -
  let ?d = "time_sub (ms_WindowEnd m) (ms_WindowStart m)"
  have "0 \<le> ?d" using assms(2) by (meson less_imp_le time_sub_pos)
  then have "nneg (dur_minutes ?d)" by (rule nneg_dur_minutes)
  moreover obtain n where "f_of_int (sint count) = Num False n" and "0 \<le> n"
    using assms(1) f_of_int32 [of count] by (metis abs_ge_zero linorder_not_less of_int_0_le_iff)
  ultimately show ?thesis
    by (auto simp: rate_def Let_def intro: fdiv_nneg)
qed

text \<open>Over a whole number of minutes the float is the count divided by that number, correctly rounded.\<close>

lemma dur_minutes_exact:
  assumes "0 \<le> k" and "k \<le> 2 ^ 53"
  shows "dur_minutes (k * minute) = Num False (of_int k)"
proof -
  have pos: "0 < minute" by (simp add: minute_def)
  have k: "f_of_int k = Num False (of_int k)" using assms by (simp add: f_of_int_exact)
  have m: "f_of_int minute = Num False (of_int minute)"
    using f_of_int_exact [of minute] by (simp add: minute_def)
  have "fadd (Num False (of_int k)) f_zero = Num False (of_int k)"
  proof (rule fadd_zero_right [OF refl])
    show "round_mag (of_int k) = of_int k" using assms by (rule round_mag_int)
    have "(of_int k :: rat) \<le> of_int (2 ^ 53)" using assms(2) by (simp only: of_int_le_iff)
    then show "(of_int k :: rat) < 2 ^ 1024" by simp
  qed (use assms in simp)
  moreover have "quot (k * minute) minute = k" and "rem (k * minute) minute = 0"
    using assms pos by simp_all
  ultimately show ?thesis
    using pos by (simp add: dur_minutes_def k m f_zero_def)
qed

lemma rate_whole_minutes:
  assumes "ms_WindowEnd m = ms_WindowStart m + k * minute" and "0 < k" and "k \<le> 100000000" and "0 \<le> sint count"
  shows "rate m count = mk False (of_int (sint count) / of_int k)"
proof -
  have "is_int64 (k * minute)"
    using assms(2,3) by (simp add: is_int64_def minute_def min_int64_def max_int64_def)
  then have "time_sub (ms_WindowEnd m) (ms_WindowStart m) = k * minute"
    using assms(1) by (simp add: time_sub_exact)
  with assms(2-4) show ?thesis
    by (simp add: rate_def dur_minutes_exact f_of_int32 f_zero_def)
qed

end
