(* ===== verification/Snapshot.thy ===== *)
theory Snapshot
  imports EventGraph Measurement HeartbeatLossHold
begin

section \<open>domain/snapshot.go: composing the observation of one window\<close>

text \<open>
  \<open>NewSnapshot\<close> reduces the measurements of a window to one score per anchor (a point or a route of
  the event graph), in four stages, one group of definitions each: the \<open>reading\<close> of every
  observation point (\<open>read_measurement\<close> folded over the measurements), the \<open>anchorScore\<close> of every
  anchor (\<open>add_mapping\<close> folded over the mappings), \<open>compose\<close>, which decides the confidence
  of an anchor, and \<open>place\<close>, which puts it into the snapshot, the held scores or the invalid
  anchors. Go maps that are only looked up are HOL maps; \<open>anchors\<close>, which is iterated in sorted order,
  is an association list. A \<open>*float64\<close> is an \<open>f64 option\<close> and its dereference a \<open>GoPanic\<close> at nil.
\<close>

subsection \<open>Data\<close>

datatype MeasurementMethod = MeasurementMethodCamera | MeasurementMethodQR

record ObservationPointMapping =
  mp_ObservationPointID :: ObservationPointID
  mp_Anchor :: GraphAnchor
  mp_Method :: MeasurementMethod

record PointScore =
  ps_PointID :: string
  ps_PeopleScore :: "f64 option"
  ps_OccupancyDelta :: "f64 option"
  ps_Exhaustive :: bool

record RouteScore =
  rs_RouteID :: string
  rs_Forward :: f64
  rs_Backward :: f64
  rs_ScalarFlow :: "f64 option"
  rs_StagnationScore :: "f64 option"
  rs_Exhaustive :: bool
  rs_SameSensorFlow :: bool

record MissingAnchors =
  mi_PointIDs :: "string list"
  mi_RouteIDs :: "string list"

record Snapshot =
  sn_ID :: string
  sn_EventID :: string
  sn_WindowStart :: time
  sn_WindowEnd :: time
  sn_PointScores :: "PointScore list"
  sn_RouteScores :: "RouteScore list"
  sn_Missing :: MissingAnchors
  sn_Resolutions :: "GraphAnchor \<rightharpoonup> duration"

record Gaps =
  ga_HeldPointScores :: "PointScore list"
  ga_HeldRouteScores :: "RouteScore list"
  ga_InvalidPointIDs :: "string list"
  ga_InvalidRouteIDs :: "string list"

record SensorSet =
  ss_Anchor :: GraphAnchor
  ss_ObservationPointIDs :: "ObservationPointID list"
  ss_ChangedAt :: time

definition MaxHold :: duration where "MaxHold = 15 * minute"
definition OccupancyTrendSpan :: duration where "OccupancyTrendSpan = 5 * minute"

datatype confidence = confidenceOK | confidenceHold | confidenceInvalid

record peopleSample =
  sm_at :: time
  sm_people :: f64

record reading =
  rd_latest :: Measurement
  rd_detected :: "f64 list"
  rd_trend :: "peopleSample list"
  rd_countIn :: int

record cameraScore =
  cam_rateIn :: f64
  cam_rateOut :: f64
  cam_detected :: f64
  cam_trend :: "f64 option"

record anchorScore =
  as_fresh :: "cameraScore list"
  as_held :: "cameraScore list"
  as_cameras :: int
  as_qrRateIn :: f64
  as_sensors :: "ObservationPointID list"
  as_qr :: bool
  as_resolution :: duration

record composedScore =
  co_confidence :: confidence
  co_rateIn :: f64
  co_rateOut :: f64
  co_detected :: "f64 option"
  co_occupancyDelta :: "f64 option"

subsection \<open>Averages and trends\<close>

definition f_sum :: "f64 list \<Rightarrow> f64" where
  "f_sum values = fold (\<lambda>v s. fadd s v) values f_zero"

definition mean :: "f64 list \<Rightarrow> f64" where
  "mean values = fdiv (f_sum values) (f_of_int (int (length values)))"

definition peopleTrend :: "peopleSample list \<Rightarrow> f64 option" where
  "peopleTrend samples =
     (if length samples < 2 then None
      else
        let t0 = sm_at (hd samples);
            first_at = fold (\<lambda>s t. if sm_at s < t then sm_at s else t) samples t0;
            last_at = fold (\<lambda>s t. if t < sm_at s then sm_at s else t) samples t0
        in if time_sub last_at first_at < quot OccupancyTrendSpan 2 then None
        else
          let count = f_of_int (int (length samples));
              meanAt = fdiv (f_sum (map (\<lambda>s. dur_minutes (time_sub (sm_at s) first_at)) samples)) count;
              meanPeople = fdiv (f_sum (map sm_people samples)) count;
              offsets = map (\<lambda>s. (fsub (dur_minutes (time_sub (sm_at s) first_at)) meanAt, sm_people s)) samples;
              covariance = f_sum (map (\<lambda>(x, people). fmul x (fsub people meanPeople)) offsets);
              variance = f_sum (map (\<lambda>(x, people). fmul x x) offsets)
          in Some (fdiv covariance variance))"

subsection \<open>Stage 1: a reading per observation point\<close>

definition usable_measurement ::
  "ObservationPointID set \<Rightarrow> (ObservationPointID \<rightharpoonup> ObservationPointState) \<Rightarrow> time \<Rightarrow> Measurement \<Rightarrow> bool" where
  "usable_measurement qr states windowEnd m =
     (let pid = ms_ObservationPointID m;
          usable = (pid \<in> qr \<or>
            states pid \<noteq> None \<and> states pid \<noteq> Some ObservationPointDisabled \<and> ms_MeanDetectedPeople m \<noteq> None)
      in usable \<and> \<not> MaxHold < time_sub windowEnd (ms_WindowEnd m))"

definition update_reading :: "time \<Rightarrow> time \<Rightarrow> Measurement \<Rightarrow> reading \<Rightarrow> reading" where
  "update_reading windowStart windowEnd m r =
     (let r = (if windowStart < ms_WindowEnd m then r\<lparr>rd_countIn := wrap64 (rd_countIn r + sint (ms_CountIn m))\<rparr> else r);
          r = (if ms_WindowEnd (rd_latest r) < ms_WindowEnd m then r\<lparr>rd_latest := m\<rparr> else r)
      in case ms_MeanDetectedPeople m of
           None \<Rightarrow> r
         | Some people \<Rightarrow>
             let r = (if time_sub windowEnd (ms_WindowEnd m) < OccupancyTrendSpan
                      then r\<lparr>rd_trend := rd_trend r @ [\<lparr>sm_at = ms_WindowEnd m, sm_people = people\<rparr>]\<rparr> else r)
             in if windowStart < ms_WindowEnd m then r\<lparr>rd_detected := rd_detected r @ [people]\<rparr> else r)"

definition new_reading :: "Measurement \<Rightarrow> reading" where
  "new_reading m = \<lparr>rd_latest = m, rd_detected = [], rd_trend = [], rd_countIn = 0\<rparr>"

definition read_measurement ::
  "ObservationPointID set \<Rightarrow> (ObservationPointID \<rightharpoonup> ObservationPointState) \<Rightarrow> time \<Rightarrow> time
     \<Rightarrow> Measurement \<Rightarrow> (ObservationPointID \<rightharpoonup> reading) \<Rightarrow> (ObservationPointID \<rightharpoonup> reading)" where
  "read_measurement qr states windowStart windowEnd m readings =
     (if \<not> usable_measurement qr states windowEnd m then readings
      else
        let pid = ms_ObservationPointID m;
            current = (case readings pid of Some r \<Rightarrow> r | None \<Rightarrow> new_reading m)
        in readings(pid \<mapsto> update_reading windowStart windowEnd m current))"

definition qr_points :: "ObservationPointMapping list \<Rightarrow> ObservationPointID set" where
  "qr_points mappings =
     set (map mp_ObservationPointID (filter (\<lambda>m. mp_Method m = MeasurementMethodQR) mappings))"

subsection \<open>Stage 2: a score per anchor\<close>

definition new_score :: anchorScore where
  "new_score = \<lparr>as_fresh = [], as_held = [], as_cameras = 0, as_qrRateIn = f_zero, as_sensors = [],
     as_qr = False, as_resolution = 0\<rparr>"

definition effective_mapping ::
  "(ObservationPointID \<rightharpoonup> ObservationPointState) \<Rightarrow> ObservationPointMapping \<Rightarrow> bool" where
  "effective_mapping states mp \<longleftrightarrow> \<not> (states (mp_ObservationPointID mp) = None \<and> mp_Method mp \<noteq> MeasurementMethodQR)"

definition camera_score :: "f64 \<Rightarrow> reading \<Rightarrow> cameraScore" where
  "camera_score detected r =
     \<lparr>cam_rateIn = RateIn (rd_latest r), cam_rateOut = RateOut (rd_latest r), cam_detected = detected,
      cam_trend = peopleTrend (rd_trend r)\<rparr>"

definition score_mapping ::
  "time \<Rightarrow> f64 \<Rightarrow> ObservationPointMapping \<Rightarrow> reading option \<Rightarrow> anchorScore \<Rightarrow> err + anchorScore" where
  "score_mapping windowStart windowMinutes mp current score =
     (let score = score\<lparr>as_sensors := as_sensors score @ [mp_ObservationPointID mp]\<rparr>;
          score = (case current of
              None \<Rightarrow> score
            | Some r \<Rightarrow> score\<lparr>as_resolution := max (as_resolution score)
                  (time_sub (ms_WindowEnd (rd_latest r)) (ms_WindowStart (rd_latest r)))\<rparr>)
      in if mp_Method mp = MeasurementMethodQR then
           let score = score\<lparr>as_qr := True\<rparr>
           in case current of
                None \<Rightarrow> Inr score
              | Some r \<Rightarrow> Inr (score\<lparr>as_qrRateIn :=
                    fadd (as_qrRateIn score) (fdiv (f_of_int (rd_countIn r)) windowMinutes)\<rparr>)
         else
           let score = score\<lparr>as_cameras := as_cameras score + 1\<rparr>
           in case current of
                None \<Rightarrow> Inr score
              | Some r \<Rightarrow>
                  if windowStart < ms_WindowEnd (rd_latest r)
                  then Inr (score\<lparr>as_fresh := as_fresh score @ [camera_score (mean (rd_detected r)) r]\<rparr>)
                  else case ms_MeanDetectedPeople (rd_latest r) of
                      None \<Rightarrow> Inl (GoPanic ''invalid memory address or nil pointer dereference'')
                    | Some people \<Rightarrow> Inr (score\<lparr>as_held := as_held score @ [camera_score people r]\<rparr>))"

definition add_mapping ::
  "(ObservationPointID \<rightharpoonup> ObservationPointState) \<Rightarrow> (ObservationPointID \<rightharpoonup> reading) \<Rightarrow> time \<Rightarrow> f64
     \<Rightarrow> ObservationPointMapping \<Rightarrow> (GraphAnchor \<times> anchorScore) list \<Rightarrow> err + (GraphAnchor \<times> anchorScore) list" where
  "add_mapping states readings windowStart windowMinutes mp anchors =
     (if \<not> effective_mapping states mp then Inr anchors
      else
        let score = (case map_of anchors (mp_Anchor mp) of Some s \<Rightarrow> s | None \<Rightarrow> new_score)
        in bindS (score_mapping windowStart windowMinutes mp (readings (mp_ObservationPointID mp)) score)
             (\<lambda>score. Inr (AList.update (mp_Anchor mp) score anchors)))"

subsection \<open>Stage 3: the confidence of an anchor\<close>

definition averageCameraScores :: "confidence \<Rightarrow> cameraScore list \<Rightarrow> f64 \<Rightarrow> composedScore" where
  "averageCameraScores level scores qrRateIn =
     (let rateIn = f_sum (map cam_rateIn scores); rateOut = f_sum (map cam_rateOut scores);
          count = f_of_int (int (length scores));
          detected = fdiv (f_sum (map cam_detected scores)) count;
          trends = List.map_filter cam_trend scores
      in \<lparr>co_confidence = level, co_rateIn = fadd (fdiv rateIn count) qrRateIn, co_rateOut = fdiv rateOut count,
          co_detected = Some detected,
          co_occupancyDelta = (if length trends > 0 then Some (mean trends) else None)\<rparr>)"

definition compose :: "anchorScore \<Rightarrow> composedScore" where
  "compose s =
     (if length (as_fresh s) > 0 then averageCameraScores confidenceOK (as_fresh s) (as_qrRateIn s)
      else if length (as_held s) > 0 then averageCameraScores confidenceHold (as_held s) (as_qrRateIn s)
      else if as_cameras s > 0 then
        \<lparr>co_confidence = confidenceInvalid, co_rateIn = f_zero, co_rateOut = f_zero, co_detected = None, co_occupancyDelta = None\<rparr>
      else
        \<lparr>co_confidence = confidenceOK, co_rateIn = as_qrRateIn s, co_rateOut = f_zero, co_detected = None,
         co_occupancyDelta = Some (as_qrRateIn s)\<rparr>)"

definition distinctSensors :: "anchorScore \<Rightarrow> ObservationPointID list" where
  "distinctSensors s = remdups_adj (sort (as_sensors s))"

definition sensorSet :: "anchorScore \<Rightarrow> GraphAnchor \<Rightarrow> SensorSet" where
  "sensorSet s anchor = \<lparr>ss_Anchor = anchor, ss_ObservationPointIDs = distinctSensors s, ss_ChangedAt = 0\<rparr>"

definition route :: "anchorScore \<Rightarrow> string \<Rightarrow> composedScore \<Rightarrow> RouteScore" where
  "route s routeID composed =
     (if as_qr s then
        \<lparr>rs_RouteID = routeID, rs_Forward = f_zero, rs_Backward = f_zero,
         rs_ScalarFlow = Some (fadd (co_rateIn composed) (co_rateOut composed)),
         rs_StagnationScore = co_detected composed, rs_Exhaustive = False, rs_SameSensorFlow = False\<rparr>
      else
        \<lparr>rs_RouteID = routeID, rs_Forward = co_rateIn composed, rs_Backward = co_rateOut composed,
         rs_ScalarFlow = None, rs_StagnationScore = co_detected composed, rs_Exhaustive = True,
         rs_SameSensorFlow = (co_detected composed \<noteq> None \<and> length (distinctSensors s) = 1)\<rparr>)"

definition point :: "anchorScore \<Rightarrow> string \<Rightarrow> composedScore \<Rightarrow> PointScore" where
  "point s pointID composed =
     \<lparr>ps_PointID = pointID, ps_PeopleScore = co_detected composed,
      ps_OccupancyDelta = co_occupancyDelta composed, ps_Exhaustive = (\<not> as_qr s)\<rparr>"

subsection \<open>Stage 4: the snapshot\<close>

definition place ::
  "(GraphAnchor \<times> anchorScore) list \<Rightarrow> GraphAnchor \<Rightarrow> Snapshot \<times> Gaps \<times> SensorSet list
     \<Rightarrow> Snapshot \<times> Gaps \<times> SensorSet list" where
  "place anchors anchor acc =
     (let (snapshot, gaps, sensors) = acc;
          score = (case map_of anchors anchor of Some s \<Rightarrow> s | None \<Rightarrow> new_score);
          composed = compose score;
          snapshot = (if as_resolution score > 0
            then snapshot\<lparr>sn_Resolutions := (sn_Resolutions snapshot)(anchor \<mapsto> as_resolution score)\<rparr> else snapshot);
          missing = sn_Missing snapshot;
          rid = ga_RouteID anchor; pid = ga_PointID anchor
      in if rid \<noteq> '''' \<and> co_confidence composed = confidenceInvalid then
           (snapshot\<lparr>sn_Missing := missing\<lparr>mi_RouteIDs := mi_RouteIDs missing @ [rid]\<rparr>\<rparr>,
            gaps\<lparr>ga_InvalidRouteIDs := ga_InvalidRouteIDs gaps @ [rid]\<rparr>, sensors)
         else if rid \<noteq> '''' \<and> co_confidence composed = confidenceHold then
           (snapshot\<lparr>sn_Missing := missing\<lparr>mi_RouteIDs := mi_RouteIDs missing @ [rid]\<rparr>\<rparr>,
            gaps\<lparr>ga_HeldRouteScores := ga_HeldRouteScores gaps @ [route score rid composed]\<rparr>, sensors)
         else if rid \<noteq> '''' then
           (snapshot\<lparr>sn_RouteScores := sn_RouteScores snapshot @ [route score rid composed]\<rparr>, gaps,
            sensors @ [sensorSet score anchor])
         else if pid \<noteq> '''' \<and> co_confidence composed = confidenceInvalid then
           (snapshot\<lparr>sn_Missing := missing\<lparr>mi_PointIDs := mi_PointIDs missing @ [pid]\<rparr>\<rparr>,
            gaps\<lparr>ga_InvalidPointIDs := ga_InvalidPointIDs gaps @ [pid]\<rparr>, sensors)
         else if pid \<noteq> '''' \<and> co_confidence composed = confidenceHold then
           (snapshot\<lparr>sn_Missing := missing\<lparr>mi_PointIDs := mi_PointIDs missing @ [pid]\<rparr>\<rparr>,
            gaps\<lparr>ga_HeldPointScores := ga_HeldPointScores gaps @ [point score pid composed]\<rparr>, sensors)
         else if pid \<noteq> '''' then
           (snapshot\<lparr>sn_PointScores := sn_PointScores snapshot @ [point score pid composed]\<rparr>, gaps,
            sensors @ [sensorSet score anchor])
         else (snapshot, gaps, sensors))"

definition no_gaps :: Gaps where
  "no_gaps = \<lparr>ga_HeldPointScores = [], ga_HeldRouteScores = [], ga_InvalidPointIDs = [], ga_InvalidRouteIDs = []\<rparr>"

definition empty_snapshot :: "string \<Rightarrow> string \<Rightarrow> time \<Rightarrow> time \<Rightarrow> Snapshot" where
  "empty_snapshot sid eventID windowStart windowEnd =
     \<lparr>sn_ID = sid, sn_EventID = eventID, sn_WindowStart = windowStart, sn_WindowEnd = windowEnd,
      sn_PointScores = [], sn_RouteScores = [], sn_Missing = \<lparr>mi_PointIDs = [], mi_RouteIDs = []\<rparr>,
      sn_Resolutions = Map.empty\<rparr>"

definition NewSnapshot ::
  "string \<Rightarrow> time \<Rightarrow> time \<Rightarrow> Measurement list \<Rightarrow> ObservationPointMapping list
     \<Rightarrow> (ObservationPointID \<rightharpoonup> ObservationPointState)
     \<Rightarrow> (entropy, err, Snapshot \<times> Gaps \<times> SensorSet list) prog" where
  "NewSnapshot eventID windowStart windowEnd measurements mappings states =
     bindE newPublicID (\<lambda>sid.
       let readings = fold (read_measurement (qr_points mappings) states windowStart windowEnd) measurements Map.empty;
           windowMinutes = dur_minutes (time_sub windowEnd windowStart)
       in bindE (liftE (foldS (add_mapping states readings windowStart windowMinutes) mappings [])) (\<lambda>anchors.
            returnE (fold (place anchors) (sort (map fst anchors))
              (empty_snapshot sid eventID windowStart windowEnd, no_gaps, []))))"

subsection \<open>Stage 1 meets its specification\<close>

text \<open>The usable measurements of one point, in arrival order, are all that its reading depends on.\<close>

definition usable_for ::
  "ObservationPointID set \<Rightarrow> (ObservationPointID \<rightharpoonup> ObservationPointState) \<Rightarrow> time \<Rightarrow> ObservationPointID
     \<Rightarrow> Measurement list \<Rightarrow> Measurement list" where
  "usable_for qr states windowEnd pid ms =
     filter (\<lambda>m. usable_measurement qr states windowEnd m \<and> ms_ObservationPointID m = pid) ms"

lemma readings_from:
  "fold (read_measurement qr states ws we) ms R pid =
     (case usable_for qr states we pid ms of
        [] \<Rightarrow> R pid
      | m # rest \<Rightarrow> Some (fold (update_reading ws we) (m # rest)
          (case R pid of Some r \<Rightarrow> r | None \<Rightarrow> new_reading m)))"
proof (induction ms arbitrary: R)
  case (Cons m ms)
  then show ?case
    by (auto simp: usable_for_def read_measurement_def Let_def split: list.splits option.splits)
qed (simp add: usable_for_def)

lemma reading_of_point:
  "fold (read_measurement qr states ws we) ms Map.empty pid =
     (case usable_for qr states we pid ms of
        [] \<Rightarrow> None
      | m # rest \<Rightarrow> Some (fold (update_reading ws we) (m # rest) (new_reading m)))"
  by (simp add: readings_from split: list.split)

lemma update_reading_latest:
  "rd_latest (update_reading ws we m r) = (if ms_WindowEnd (rd_latest r) < ms_WindowEnd m then m else rd_latest r)"
  by (simp add: update_reading_def Let_def split: option.split)

lemma update_reading_detected:
  "rd_detected (update_reading ws we m r) =
     rd_detected r @ (case ms_MeanDetectedPeople m of Some p \<Rightarrow> if ws < ms_WindowEnd m then [p] else [] | None \<Rightarrow> [])"
  by (simp add: update_reading_def Let_def split: option.split)

lemma fold_update_latest:
  "rd_latest (fold (update_reading ws we) ms r) \<in> insert (rd_latest r) (set ms) \<and>
   ms_WindowEnd (rd_latest r) \<le> ms_WindowEnd (rd_latest (fold (update_reading ws we) ms r)) \<and>
   (\<forall>m \<in> set ms. ms_WindowEnd m \<le> ms_WindowEnd (rd_latest (fold (update_reading ws we) ms r)))"
proof (induction ms arbitrary: r)
  case (Cons m ms)
  show ?case using Cons [of "update_reading ws we m r"]
    by (auto simp: update_reading_latest split: if_splits)
qed simp

lemma fold_update_detected:
  "rd_detected (fold (update_reading ws we) ms r) =
     rd_detected r @ List.map_filter (\<lambda>m. if ws < ms_WindowEnd m then ms_MeanDetectedPeople m else None) ms"
  by (induction ms arbitrary: r)
    (auto simp: update_reading_detected List.map_filter_def split: option.splits)

lemma reading_None_iff:
  "fold (read_measurement qr states ws we) ms Map.empty pid = None \<longleftrightarrow> usable_for qr states we pid ms = []"
  by (simp add: reading_of_point split: list.split)

lemma reading_latest:
  assumes "fold (read_measurement qr states ws we) ms Map.empty pid = Some r"
  shows "rd_latest r \<in> set (usable_for qr states we pid ms) \<and>
    (\<forall>m \<in> set (usable_for qr states we pid ms). ms_WindowEnd m \<le> ms_WindowEnd (rd_latest r))"
proof -
  from assms obtain m rest where u: "usable_for qr states we pid ms = m # rest"
    and r: "r = fold (update_reading ws we) (m # rest) (new_reading m)"
    by (auto simp: reading_of_point split: list.splits)
  from fold_update_latest [of ws we "m # rest" "new_reading m", folded r] u
  show ?thesis by (auto simp: new_reading_def)
qed

lemma reading_fresh_iff:
  assumes "fold (read_measurement qr states ws we) ms Map.empty pid = Some r"
  shows "ws < ms_WindowEnd (rd_latest r) \<longleftrightarrow> (\<exists>m \<in> set (usable_for qr states we pid ms). ws < ms_WindowEnd m)"
  using reading_latest [OF assms] by (meson order.strict_trans2)

subsection \<open>Stage 2 meets its specification\<close>

definition anchor_mappings ::
  "(ObservationPointID \<rightharpoonup> ObservationPointState) \<Rightarrow> ObservationPointMapping list \<Rightarrow> GraphAnchor
     \<Rightarrow> ObservationPointMapping list" where
  "anchor_mappings states mappings a = filter (\<lambda>mp. effective_mapping states mp \<and> mp_Anchor mp = a) mappings"

definition score_of ::
  "(ObservationPointID \<rightharpoonup> reading) \<Rightarrow> time \<Rightarrow> f64 \<Rightarrow> ObservationPointMapping list \<Rightarrow> anchorScore \<Rightarrow> err + anchorScore" where
  "score_of readings ws wm mps s =
     foldS (\<lambda>mp. score_mapping ws wm mp (readings (mp_ObservationPointID mp))) mps s"

lemma anchors_lookup_from:
  "foldS (add_mapping states readings ws wm) mps anchors = Inr anchors' \<Longrightarrow>
     (case anchor_mappings states mps a of
        [] \<Rightarrow> map_of anchors' a = map_of anchors a
      | ms \<Rightarrow> (\<exists>s. map_of anchors' a = Some s \<and>
          score_of readings ws wm ms (case map_of anchors a of Some s \<Rightarrow> s | None \<Rightarrow> new_score) = Inr s))"
proof (induction mps arbitrary: anchors)
  case Nil
  then show ?case by (simp add: anchor_mappings_def)
next
  case (Cons mp mps)
  from Cons.prems obtain next_anchors where
    step: "add_mapping states readings ws wm mp anchors = Inr next_anchors"
    and rest: "foldS (add_mapping states readings ws wm) mps next_anchors = Inr anchors'"
    by (auto simp: bindS_Inr)
  note IH = Cons.IH [OF rest]
  show ?case
  proof (cases "effective_mapping states mp")
    case False
    with step have "next_anchors = anchors" by (simp add: add_mapping_def)
    from False IH [unfolded this] show ?thesis by (simp add: anchor_mappings_def)
  next
    case True
    define s0 where "s0 = (case map_of anchors (mp_Anchor mp) of Some s \<Rightarrow> s | None \<Rightarrow> new_score)"
    from True step obtain s1 where
      s1: "score_mapping ws wm mp (readings (mp_ObservationPointID mp)) s0 = Inr s1"
      and upd: "next_anchors = AList.update (mp_Anchor mp) s1 anchors"
      by (auto simp: add_mapping_def bindS_Inr Let_def s0_def)
    show ?thesis
    proof (cases "mp_Anchor mp = a")
      case False
      with IH upd show ?thesis by (auto simp: anchor_mappings_def update_conv' split: list.splits)
    next
      case True
      with IH upd have "case anchor_mappings states mps a of [] \<Rightarrow> map_of anchors' a = Some s1
        | ms \<Rightarrow> (\<exists>s. map_of anchors' a = Some s \<and> score_of readings ws wm ms s1 = Inr s)"
        by (simp add: update_conv' split: list.splits)
      moreover have "anchor_mappings states (mp # mps) a = mp # anchor_mappings states mps a"
        using True \<open>effective_mapping states mp\<close> by (simp add: anchor_mappings_def)
      ultimately show ?thesis using s1 True
        by (auto simp: score_of_def s0_def split: list.splits)
    qed
  qed
qed

lemma anchors_lookup:
  assumes "foldS (add_mapping states readings ws wm) mps [] = Inr anchors"
  shows "map_of anchors a = None \<longleftrightarrow> anchor_mappings states mps a = []"
    and "anchor_mappings states mps a \<noteq> [] \<Longrightarrow> \<exists>s. map_of anchors a = Some s \<and>
           score_of readings ws wm (anchor_mappings states mps a) new_score = Inr s"
  using anchors_lookup_from [OF assms, of a] by (auto split: list.splits)

lemma distinct_anchors:
  assumes "foldS (add_mapping states readings ws wm) mps [] = Inr anchors"
  shows "distinct (map fst anchors)"
  by (rule foldS_invariant [OF assms])
    (auto simp: add_mapping_def Let_def bindS_Inr distinct_update split: if_splits)

definition observed_anchors ::
  "(ObservationPointID \<rightharpoonup> ObservationPointState) \<Rightarrow> ObservationPointMapping list \<Rightarrow> GraphAnchor list" where
  "observed_anchors states mappings =
     sort (remdups (map mp_Anchor (filter (effective_mapping states) mappings)))"

lemma set_observed_anchors:
  "a \<in> set (observed_anchors states mps) \<longleftrightarrow> anchor_mappings states mps a \<noteq> []"
  by (auto simp: observed_anchors_def anchor_mappings_def filter_empty_conv)

lemma sorted_anchor_keys:
  assumes "foldS (add_mapping states readings ws wm) mps [] = Inr anchors"
  shows "sort (map fst anchors) = observed_anchors states mps"
proof (rule sorted_distinct_set_unique)
  show "distinct (sort (map fst anchors))" using distinct_anchors [OF assms] by simp
  have "a \<in> set (map fst anchors) \<longleftrightarrow> map_of anchors a \<noteq> None" for a
    by (simp add: map_of_eq_None_iff)
  then show "set (sort (map fst anchors)) = set (observed_anchors states mps)"
    using anchors_lookup(1) [OF assms] set_observed_anchors by (metis set_eqI set_sort)
qed (simp_all add: observed_anchors_def)

lemma score_of_snoc:
  "score_of readings ws wm (mps @ [mp]) s =
     bindS (score_of readings ws wm mps s) (score_mapping ws wm mp (readings (mp_ObservationPointID mp)))"
  by (simp add: score_of_def foldS_snoc)

definition is_camera :: "ObservationPointMapping \<Rightarrow> bool" where
  "is_camera mp \<longleftrightarrow> mp_Method mp = MeasurementMethodCamera"

definition fresh_reading :: "time \<Rightarrow> reading \<Rightarrow> bool" where
  "fresh_reading ws r \<longleftrightarrow> ws < ms_WindowEnd (rd_latest r)"

definition camera_readings ::
  "(ObservationPointID \<rightharpoonup> reading) \<Rightarrow> ObservationPointMapping list \<Rightarrow> reading list" where
  "camera_readings readings mps =
     List.map_filter (\<lambda>mp. if is_camera mp then readings (mp_ObservationPointID mp) else None) mps"

lemma not_QR: "m \<noteq> MeasurementMethodQR \<longleftrightarrow> m = MeasurementMethodCamera"
  by (cases m) auto

lemma score_mapping_spec:
  assumes "score_mapping ws wm mp cur s = Inr t"
  shows "as_sensors t = as_sensors s @ [mp_ObservationPointID mp]"
    and "as_qr t \<longleftrightarrow> as_qr s \<or> \<not> is_camera mp"
    and "as_cameras t = as_cameras s + (if is_camera mp then 1 else 0)"
    and "as_fresh t = as_fresh s @ (case cur of None \<Rightarrow> [] | Some r \<Rightarrow>
           if is_camera mp \<and> fresh_reading ws r then [camera_score (mean (rd_detected r)) r] else [])"
    and "as_held t = as_held s @ (case cur of None \<Rightarrow> [] | Some r \<Rightarrow>
           if is_camera mp \<and> \<not> fresh_reading ws r
           then [camera_score (the (ms_MeanDetectedPeople (rd_latest r))) r] else [])"
  using assms
  by (auto simp: score_mapping_def Let_def is_camera_def not_QR fresh_reading_def
      split: if_splits option.splits)

lemma score_of_spec:
  assumes "score_of readings ws wm mps new_score = Inr s"
  shows "as_sensors s = map mp_ObservationPointID mps \<and>
    (as_qr s \<longleftrightarrow> (\<exists>mp \<in> set mps. \<not> is_camera mp)) \<and>
    as_cameras s = int (length (filter is_camera mps)) \<and>
    as_fresh s = map (\<lambda>r. camera_score (mean (rd_detected r)) r)
           (filter (fresh_reading ws) (camera_readings readings mps)) \<and>
    as_held s = map (\<lambda>r. camera_score (the (ms_MeanDetectedPeople (rd_latest r))) r)
           (filter (\<lambda>r. \<not> fresh_reading ws r) (camera_readings readings mps))"
  using assms
proof (induction mps arbitrary: s rule: rev_induct)
  case Nil
  then show ?case by (auto simp: score_of_def new_score_def camera_readings_def List.map_filter_simps)
next
  case (snoc mp mps)
  from snoc.prems obtain s0 where s0: "score_of readings ws wm mps new_score = Inr s0"
    and s: "score_mapping ws wm mp (readings (mp_ObservationPointID mp)) s0 = Inr s"
    by (auto simp: score_of_snoc bindS_Inr)
  from snoc.IH [OF s0] score_mapping_spec [OF s] show ?case
    by (auto simp: camera_readings_def List.map_filter_def split: option.splits)
qed

subsection \<open>Stages 3 and 4 meet their specification\<close>

text \<open>
  The confidence of an anchor straight from the inputs: some camera reported inside the window; or
  some camera reported recently enough to be held; or there is a camera, but nothing usable from it;
  or the anchor has no camera at all and its QR counts are taken as they are.
\<close>

definition window_confidence ::
  "(ObservationPointID \<rightharpoonup> ObservationPointState) \<Rightarrow> time \<Rightarrow> time \<Rightarrow> Measurement list
     \<Rightarrow> ObservationPointMapping list \<Rightarrow> GraphAnchor \<Rightarrow> confidence" where
  "window_confidence states ws we ms mappings a =
     (let cameras = filter is_camera (anchor_mappings states mappings a);
          seen = (\<lambda>P. list_ex (\<lambda>mp. list_ex P
            (usable_for (qr_points mappings) states we (mp_ObservationPointID mp) ms)) cameras)
      in if seen (\<lambda>m. ws < ms_WindowEnd m) then confidenceOK
         else if seen (\<lambda>m. True) then confidenceHold
         else if cameras \<noteq> [] then confidenceInvalid
         else confidenceOK)"

lemma compose_confidence:
  "co_confidence (compose s) =
     (if as_fresh s \<noteq> [] then confidenceOK else if as_held s \<noteq> [] then confidenceHold
      else if 0 < as_cameras s then confidenceInvalid else confidenceOK)"
  by (simp add: compose_def averageCameraScores_def Let_def)

lemma set_camera_readings:
  "r \<in> set (camera_readings readings mps) \<longleftrightarrow>
     (\<exists>mp \<in> set mps. is_camera mp \<and> readings (mp_ObservationPointID mp) = Some r)"
  by (auto simp: camera_readings_def List.map_filter_def image_iff split: if_splits)

lemma compose_window_confidence:
  fixes mappings :: "ObservationPointMapping list" and states :: "ObservationPointID \<rightharpoonup> ObservationPointState"
  defines "readings ws we ms \<equiv> fold (read_measurement (qr_points mappings) states ws we) ms Map.empty"
  assumes s: "score_of (readings ws we ms) ws wm (anchor_mappings states mappings a) new_score = Inr s"
  shows "co_confidence (compose s) = window_confidence states ws we ms mappings a"
proof -
  let ?mps = "anchor_mappings states mappings a"
  let ?u = "\<lambda>mp. usable_for (qr_points mappings) states we (mp_ObservationPointID mp) ms"
  note spec = score_of_spec [OF s]
  have some: "\<exists>r. readings ws we ms (mp_ObservationPointID mp) = Some r" if "?u mp \<noteq> []" for mp
    using that reading_None_iff [of "qr_points mappings" states ws we ms "mp_ObservationPointID mp"]
    by (auto simp: readings_def)
  have usable: "?u mp \<noteq> []" if "readings ws we ms (mp_ObservationPointID mp) = Some r" for mp r
    using that reading_None_iff [of "qr_points mappings" states ws we ms "mp_ObservationPointID mp"]
    by (auto simp: readings_def)
  have fresh: "fresh_reading ws r \<longleftrightarrow> (\<exists>m \<in> set (?u mp). ws < ms_WindowEnd m)"
    if "readings ws we ms (mp_ObservationPointID mp) = Some r" for mp r
    using reading_fresh_iff that by (auto simp: readings_def fresh_reading_def)
  have a: "as_fresh s \<noteq> [] \<longleftrightarrow> (\<exists>mp \<in> set ?mps. is_camera mp \<and> (\<exists>m \<in> set (?u mp). ws < ms_WindowEnd m))"
  proof -
    have "as_fresh s \<noteq> [] \<longleftrightarrow> (\<exists>r \<in> set (camera_readings (readings ws we ms) ?mps). fresh_reading ws r)"
      using spec by (auto simp: filter_empty_conv)
    also have "\<dots> \<longleftrightarrow> (\<exists>mp \<in> set ?mps. is_camera mp \<and> (\<exists>m \<in> set (?u mp). ws < ms_WindowEnd m))"
    proof
      assume "\<exists>r \<in> set (camera_readings (readings ws we ms) ?mps). fresh_reading ws r"
      then obtain r mp where "mp \<in> set ?mps" "is_camera mp" "fresh_reading ws r"
        "readings ws we ms (mp_ObservationPointID mp) = Some r" by (auto simp: set_camera_readings)
      with fresh show "\<exists>mp \<in> set ?mps. is_camera mp \<and> (\<exists>m \<in> set (?u mp). ws < ms_WindowEnd m)" by blast
    next
      assume "\<exists>mp \<in> set ?mps. is_camera mp \<and> (\<exists>m \<in> set (?u mp). ws < ms_WindowEnd m)"
      then obtain mp m where mp: "mp \<in> set ?mps" "is_camera mp" "m \<in> set (?u mp)" "ws < ms_WindowEnd m" by blast
      then have "?u mp \<noteq> []" by auto
      from some [OF this] obtain r where r: "readings ws we ms (mp_ObservationPointID mp) = Some r" by blast
      have "fresh_reading ws r" using fresh [OF r] mp(3,4) by blast
      moreover have "r \<in> set (camera_readings (readings ws we ms) ?mps)"
        unfolding set_camera_readings using mp(1,2) r by blast
      ultimately show "\<exists>r \<in> set (camera_readings (readings ws we ms) ?mps). fresh_reading ws r" by blast
    qed
    finally show ?thesis .
  qed
  have b: "as_held s \<noteq> [] \<longleftrightarrow> (\<exists>mp \<in> set ?mps. is_camera mp \<and> ?u mp \<noteq> [])" if "as_fresh s = []"
  proof -
    have "filter (\<lambda>r. \<not> fresh_reading ws r) (camera_readings (readings ws we ms) ?mps) = camera_readings (readings ws we ms) ?mps"
      using spec that by (simp add: filter_id_conv filter_empty_conv)
    then have "as_held s \<noteq> [] \<longleftrightarrow> (\<exists>r. r \<in> set (camera_readings (readings ws we ms) ?mps))"
      using spec by (simp add: ex_in_conv)
    also have "\<dots> \<longleftrightarrow> (\<exists>mp \<in> set ?mps. is_camera mp \<and> ?u mp \<noteq> [])"
      unfolding set_camera_readings using some usable by blast
    finally show ?thesis .
  qed
  have c: "0 < as_cameras s \<longleftrightarrow> filter is_camera ?mps \<noteq> []" using spec by simp
  show ?thesis
    unfolding compose_confidence window_confidence_def Let_def list_ex_iff set_filter
    using a b c by auto
qed

text \<open>A camera's reading is only dereferenced without a value when its point is also a QR location.\<close>

definition points_exclusive :: "ObservationPointMapping list \<Rightarrow> bool" where
  "points_exclusive mappings \<longleftrightarrow>
     list_all (\<lambda>mp. is_camera mp \<longrightarrow> mp_ObservationPointID mp \<notin> qr_points mappings) mappings"

lemma add_mapping_total:
  assumes "points_exclusive mappings" and "mp \<in> set mappings"
  shows "\<exists>anchors'. add_mapping states
           (fold (read_measurement (qr_points mappings) states ws we) ms Map.empty) ws wm mp anchors = Inr anchors'"
proof -
  let ?R = "fold (read_measurement (qr_points mappings) states ws we) ms Map.empty"
  have "ms_MeanDetectedPeople (rd_latest r) \<noteq> None" if "is_camera mp" "?R (mp_ObservationPointID mp) = Some r" for r
  proof -
    have "mp_ObservationPointID mp \<notin> qr_points mappings"
      using assms that(1) by (auto simp: points_exclusive_def list_all_iff)
    with reading_latest [OF that(2)] show ?thesis
      by (auto simp: usable_for_def usable_measurement_def Let_def)
  qed
  then show ?thesis
    by (fastforce simp: add_mapping_def score_mapping_def Let_def is_camera_def not_QR bindS_Inr
        split: option.splits)
qed

lemma anchors_total:
  assumes "points_exclusive mappings"
  shows "\<exists>anchors. foldS (add_mapping states
           (fold (read_measurement (qr_points mappings) states ws we) ms Map.empty) ws wm) mappings [] = Inr anchors"
proof -
  have "set mps \<subseteq> set mappings \<Longrightarrow> \<exists>anchors'. foldS (add_mapping states
           (fold (read_measurement (qr_points mappings) states ws we) ms Map.empty) ws wm) mps anchors = Inr anchors'"
    for mps anchors
  proof (induction mps arbitrary: anchors)
    case (Cons mp mps)
    then obtain n where "add_mapping states
        (fold (read_measurement (qr_points mappings) states ws we) ms Map.empty) ws wm mp anchors = Inr n"
      using add_mapping_total [OF assms] by (metis list.set_intros(1) subsetD)
    with Cons show ?case by simp
  qed simp
  then show ?thesis by simp
qed

definition score_at :: "(GraphAnchor \<times> anchorScore) list \<Rightarrow> GraphAnchor \<Rightarrow> anchorScore" where
  "score_at anchors a = (case map_of anchors a of Some s \<Rightarrow> s | None \<Rightarrow> new_score)"

definition is_route :: "GraphAnchor \<Rightarrow> bool" where "is_route a \<longleftrightarrow> ga_RouteID a \<noteq> ''''"
definition is_point :: "GraphAnchor \<Rightarrow> bool" where
  "is_point a \<longleftrightarrow> ga_RouteID a = '''' \<and> ga_PointID a \<noteq> ''''"

abbreviation conf_at :: "(GraphAnchor \<times> anchorScore) list \<Rightarrow> GraphAnchor \<Rightarrow> confidence" where
  "conf_at anchors a \<equiv> co_confidence (compose (score_at anchors a))"

abbreviation route_at :: "(GraphAnchor \<times> anchorScore) list \<Rightarrow> GraphAnchor \<Rightarrow> RouteScore" where
  "route_at anchors a \<equiv> route (score_at anchors a) (ga_RouteID a) (compose (score_at anchors a))"

abbreviation point_at :: "(GraphAnchor \<times> anchorScore) list \<Rightarrow> GraphAnchor \<Rightarrow> PointScore" where
  "point_at anchors a \<equiv> point (score_at anchors a) (ga_PointID a) (compose (score_at anchors a))"

lemma place_step:
  "sn_RouteScores (fst (place anchors a acc)) = sn_RouteScores (fst acc) @
     (if is_route a \<and> conf_at anchors a = confidenceOK then [route_at anchors a] else [])"
  "sn_PointScores (fst (place anchors a acc)) = sn_PointScores (fst acc) @
     (if is_point a \<and> conf_at anchors a = confidenceOK then [point_at anchors a] else [])"
  "ga_HeldRouteScores (fst (snd (place anchors a acc))) = ga_HeldRouteScores (fst (snd acc)) @
     (if is_route a \<and> conf_at anchors a = confidenceHold then [route_at anchors a] else [])"
  "ga_HeldPointScores (fst (snd (place anchors a acc))) = ga_HeldPointScores (fst (snd acc)) @
     (if is_point a \<and> conf_at anchors a = confidenceHold then [point_at anchors a] else [])"
  "ga_InvalidRouteIDs (fst (snd (place anchors a acc))) = ga_InvalidRouteIDs (fst (snd acc)) @
     (if is_route a \<and> conf_at anchors a = confidenceInvalid then [ga_RouteID a] else [])"
  "ga_InvalidPointIDs (fst (snd (place anchors a acc))) = ga_InvalidPointIDs (fst (snd acc)) @
     (if is_point a \<and> conf_at anchors a = confidenceInvalid then [ga_PointID a] else [])"
  "mi_RouteIDs (sn_Missing (fst (place anchors a acc))) = mi_RouteIDs (sn_Missing (fst acc)) @
     (if is_route a \<and> conf_at anchors a \<noteq> confidenceOK then [ga_RouteID a] else [])"
  "mi_PointIDs (sn_Missing (fst (place anchors a acc))) = mi_PointIDs (sn_Missing (fst acc)) @
     (if is_point a \<and> conf_at anchors a \<noteq> confidenceOK then [ga_PointID a] else [])"
  "snd (snd (place anchors a acc)) = snd (snd acc) @
     (if (is_route a \<or> is_point a) \<and> conf_at anchors a = confidenceOK then [sensorSet (score_at anchors a) a] else [])"
  "sn_WindowStart (fst (place anchors a acc)) = sn_WindowStart (fst acc)"
  "sn_WindowEnd (fst (place anchors a acc)) = sn_WindowEnd (fst acc)"
  "sn_ID (fst (place anchors a acc)) = sn_ID (fst acc)"
  "sn_EventID (fst (place anchors a acc)) = sn_EventID (fst acc)"
  by (cases acc; cases "conf_at anchors a";
      simp add: place_def Let_def is_route_def is_point_def flip: score_at_def)+

lemma fold_place:
  "sn_RouteScores (fst (fold (place anchors) keys acc)) = sn_RouteScores (fst acc) @
     map (route_at anchors) (filter (\<lambda>a. is_route a \<and> conf_at anchors a = confidenceOK) keys)"
  "sn_PointScores (fst (fold (place anchors) keys acc)) = sn_PointScores (fst acc) @
     map (point_at anchors) (filter (\<lambda>a. is_point a \<and> conf_at anchors a = confidenceOK) keys)"
  "ga_HeldRouteScores (fst (snd (fold (place anchors) keys acc))) = ga_HeldRouteScores (fst (snd acc)) @
     map (route_at anchors) (filter (\<lambda>a. is_route a \<and> conf_at anchors a = confidenceHold) keys)"
  "ga_HeldPointScores (fst (snd (fold (place anchors) keys acc))) = ga_HeldPointScores (fst (snd acc)) @
     map (point_at anchors) (filter (\<lambda>a. is_point a \<and> conf_at anchors a = confidenceHold) keys)"
  "ga_InvalidRouteIDs (fst (snd (fold (place anchors) keys acc))) = ga_InvalidRouteIDs (fst (snd acc)) @
     map ga_RouteID (filter (\<lambda>a. is_route a \<and> conf_at anchors a = confidenceInvalid) keys)"
  "ga_InvalidPointIDs (fst (snd (fold (place anchors) keys acc))) = ga_InvalidPointIDs (fst (snd acc)) @
     map ga_PointID (filter (\<lambda>a. is_point a \<and> conf_at anchors a = confidenceInvalid) keys)"
  "mi_RouteIDs (sn_Missing (fst (fold (place anchors) keys acc))) = mi_RouteIDs (sn_Missing (fst acc)) @
     map ga_RouteID (filter (\<lambda>a. is_route a \<and> conf_at anchors a \<noteq> confidenceOK) keys)"
  "mi_PointIDs (sn_Missing (fst (fold (place anchors) keys acc))) = mi_PointIDs (sn_Missing (fst acc)) @
     map ga_PointID (filter (\<lambda>a. is_point a \<and> conf_at anchors a \<noteq> confidenceOK) keys)"
  "snd (snd (fold (place anchors) keys acc)) = snd (snd acc) @
     map (\<lambda>a. sensorSet (score_at anchors a) a)
       (filter (\<lambda>a. (is_route a \<or> is_point a) \<and> conf_at anchors a = confidenceOK) keys)"
  by (rule fold_appends [where g = "\<lambda>acc. sn_RouteScores (fst acc)"], rule place_step)
    (rule fold_appends [where g = "\<lambda>acc. sn_PointScores (fst acc)"], rule place_step,
     rule fold_appends [where g = "\<lambda>acc. ga_HeldRouteScores (fst (snd acc))"], rule place_step,
     rule fold_appends [where g = "\<lambda>acc. ga_HeldPointScores (fst (snd acc))"], rule place_step,
     rule fold_appends [where g = "\<lambda>acc. ga_InvalidRouteIDs (fst (snd acc))"], rule place_step,
     rule fold_appends [where g = "\<lambda>acc. ga_InvalidPointIDs (fst (snd acc))"], rule place_step,
     rule fold_appends [where g = "\<lambda>acc. mi_RouteIDs (sn_Missing (fst acc))"], rule place_step,
     rule fold_appends [where g = "\<lambda>acc. mi_PointIDs (sn_Missing (fst acc))"], rule place_step,
     rule fold_appends [where g = "\<lambda>acc. snd (snd acc)"], rule place_step)

lemma fold_place_frame:
  "sn_WindowStart (fst (fold (place anchors) keys acc)) = sn_WindowStart (fst acc)"
  "sn_WindowEnd (fst (fold (place anchors) keys acc)) = sn_WindowEnd (fst acc)"
  "sn_ID (fst (fold (place anchors) keys acc)) = sn_ID (fst acc)"
  "sn_EventID (fst (fold (place anchors) keys acc)) = sn_EventID (fst acc)"
  by (rule fold_constant [where g = "\<lambda>acc. sn_WindowStart (fst acc)"], rule place_step)
    (rule fold_constant [where g = "\<lambda>acc. sn_WindowEnd (fst acc)"], rule place_step,
     rule fold_constant [where g = "\<lambda>acc. sn_ID (fst acc)"], rule place_step,
     rule fold_constant [where g = "\<lambda>acc. sn_EventID (fst acc)"], rule place_step)

lemma NewSnapshot_stages:
  assumes "NewSnapshot ev ws we ms mappings states src = (Inr (sn, g, sets), src')"
  obtains anchors sid where
    "foldS (add_mapping states (fold (read_measurement (qr_points mappings) states ws we) ms Map.empty) ws
       (dur_minutes (time_sub we ws))) mappings [] = Inr anchors"
    and "(sn, g, sets) = fold (place anchors) (observed_anchors states mappings) (empty_snapshot sid ev ws we, no_gaps, [])"
    and "is_public_id sid"
  using assms
  by (auto simp: NewSnapshot_def Let_def bindE_Inr sorted_anchor_keys dest!: newPublicID_valid) metis

lemma score_at_observed:
  assumes "foldS (add_mapping states readings ws wm) mps [] = Inr anchors"
    and "a \<in> set (observed_anchors states mps)"
  shows "score_of readings ws wm (anchor_mappings states mps a) new_score = Inr (score_at anchors a)"
  using anchors_lookup(2) [OF assms(1), of a] assms(2)
  by (auto simp: score_at_def set_observed_anchors)

lemma conf_at_observed:
  assumes "foldS (add_mapping states (fold (read_measurement (qr_points mappings) states ws we) ms Map.empty) ws wm)
      mappings [] = Inr anchors"
    and "a \<in> set (observed_anchors states mappings)"
  shows "conf_at anchors a = window_confidence states ws we ms mappings a"
  using score_at_observed [OF assms] by (rule compose_window_confidence)

lemma route_ID [simp]: "rs_RouteID (route s r c) = r" and point_ID [simp]: "ps_PointID (point s p c) = p"
  and sensorSet_anchor [simp]: "ss_Anchor (sensorSet s a) = a"
  by (simp_all add: route_def point_def sensorSet_def)

lemma NewSnapshot_places:
  assumes "NewSnapshot ev ws we ms mappings states src = (Inr (sn, g, sets), src')"
  obtains anchors sid where
    "foldS (add_mapping states (fold (read_measurement (qr_points mappings) states ws we) ms Map.empty) ws
       (dur_minutes (time_sub we ws))) mappings [] = Inr anchors"
    "sn = fst (fold (place anchors) (observed_anchors states mappings) (empty_snapshot sid ev ws we, no_gaps, []))"
    "g = fst (snd (fold (place anchors) (observed_anchors states mappings) (empty_snapshot sid ev ws we, no_gaps, [])))"
    "sets = snd (snd (fold (place anchors) (observed_anchors states mappings) (empty_snapshot sid ev ws we, no_gaps, [])))"
    "\<And>P Q. filter (\<lambda>a. P a \<and> Q (conf_at anchors a)) (observed_anchors states mappings) =
       filter (\<lambda>a. P a \<and> Q (window_confidence states ws we ms mappings a)) (observed_anchors states mappings)"
proof -
  obtain anchors sid where stage:
    "foldS (add_mapping states (fold (read_measurement (qr_points mappings) states ws we) ms Map.empty) ws
       (dur_minutes (time_sub we ws))) mappings [] = Inr anchors"
    "(sn, g, sets) = fold (place anchors) (observed_anchors states mappings) (empty_snapshot sid ev ws we, no_gaps, [])"
    using NewSnapshot_stages [OF assms(1)] by metis
  show thesis
    by (rule that [OF stage(1), of sid])
      (auto simp: stage(2) [symmetric] conf_at_observed [OF stage(1)] intro!: filter_cong)
qed

lemma NewSnapshot_route_ids:
  assumes "NewSnapshot ev ws we ms mappings states src = (Inr (sn, g, sets), src')"
  shows "map rs_RouteID (sn_RouteScores sn) = map ga_RouteID (filter
    (\<lambda>a. is_route a \<and> window_confidence states ws we ms mappings a = confidenceOK) (observed_anchors states mappings))"
proof (rule NewSnapshot_places [OF assms])
  fix anchors sid
  assume "sn = fst (fold (place anchors) (observed_anchors states mappings) (empty_snapshot sid ev ws we, no_gaps, []))"
    and conf: "\<And>P Q. filter (\<lambda>a. P a \<and> Q (conf_at anchors a)) (observed_anchors states mappings) =
       filter (\<lambda>a. P a \<and> Q (window_confidence states ws we ms mappings a)) (observed_anchors states mappings)"
  then show ?thesis by (simp add: fold_place empty_snapshot_def o_def conf [of _ "\<lambda>c. c = _"])
qed

text \<open>C15. Every anchor that some effective mapping names ends up in exactly the place its
  window confidence says: with confidence OK in the scores (and in the composed sensor sets), held
  or invalid otherwise, and then also among the missing anchors; each list is in anchor order, without
  any other element.\<close>

theorem NewSnapshot_classifies:
  assumes "NewSnapshot ev ws we ms mappings states src = (Inr (sn, g, sets), src')"
  defines "keys \<equiv> observed_anchors states mappings"
    and "conf \<equiv> window_confidence states ws we ms mappings"
  shows "map rs_RouteID (sn_RouteScores sn) = map ga_RouteID (filter (\<lambda>a. is_route a \<and> conf a = confidenceOK) keys) \<and>
    map ps_PointID (sn_PointScores sn) = map ga_PointID (filter (\<lambda>a. is_point a \<and> conf a = confidenceOK) keys) \<and>
    map ss_Anchor sets = filter (\<lambda>a. (is_route a \<or> is_point a) \<and> conf a = confidenceOK) keys \<and>
    map rs_RouteID (ga_HeldRouteScores g) = map ga_RouteID (filter (\<lambda>a. is_route a \<and> conf a = confidenceHold) keys) \<and>
    map ps_PointID (ga_HeldPointScores g) = map ga_PointID (filter (\<lambda>a. is_point a \<and> conf a = confidenceHold) keys) \<and>
    ga_InvalidRouteIDs g = map ga_RouteID (filter (\<lambda>a. is_route a \<and> conf a = confidenceInvalid) keys) \<and>
    ga_InvalidPointIDs g = map ga_PointID (filter (\<lambda>a. is_point a \<and> conf a = confidenceInvalid) keys) \<and>
    mi_RouteIDs (sn_Missing sn) = map ga_RouteID (filter (\<lambda>a. is_route a \<and> conf a \<noteq> confidenceOK) keys) \<and>
    mi_PointIDs (sn_Missing sn) = map ga_PointID (filter (\<lambda>a. is_point a \<and> conf a \<noteq> confidenceOK) keys)"
proof -
  obtain anchors sid where stage:
    "foldS (add_mapping states (fold (read_measurement (qr_points mappings) states ws we) ms Map.empty) ws
       (dur_minutes (time_sub we ws))) mappings [] = Inr anchors"
    "(sn, g, sets) = fold (place anchors) keys (empty_snapshot sid ev ws we, no_gaps, [])"
    using NewSnapshot_stages [OF assms(1)] unfolding keys_def by metis
  have conf: "filter (\<lambda>a. P a \<and> Q (conf_at anchors a)) keys = filter (\<lambda>a. P a \<and> Q (conf a)) keys" for P Q
    unfolding keys_def conf_def using conf_at_observed [OF stage(1)] by (auto intro: filter_cong)
  have parts: "sn = fst (fold (place anchors) keys (empty_snapshot sid ev ws we, no_gaps, []))"
    "g = fst (snd (fold (place anchors) keys (empty_snapshot sid ev ws we, no_gaps, [])))"
    "sets = snd (snd (fold (place anchors) keys (empty_snapshot sid ev ws we, no_gaps, [])))"
    by (metis stage(2) fst_conv snd_conv)+
  show ?thesis
    unfolding parts fold_place
    by (simp add: empty_snapshot_def no_gaps_def o_def conf [of _ "\<lambda>c. c = _"] conf [of _ "\<lambda>c. c \<noteq> _"])
qed

definition sample_camera :: "string \<Rightarrow> string \<Rightarrow> ObservationPointMapping" where
  "sample_camera pid rid = \<lparr>mp_ObservationPointID = pid, mp_Anchor = GraphAnchor '''' rid, mp_Method = MeasurementMethodCamera\<rparr>"

definition sample_qr :: "string \<Rightarrow> string \<Rightarrow> ObservationPointMapping" where
  "sample_qr qid pid = \<lparr>mp_ObservationPointID = qid, mp_Anchor = GraphAnchor pid '''', mp_Method = MeasurementMethodQR\<rparr>"

definition sample_mappings :: "ObservationPointMapping list" where
  "sample_mappings = [sample_camera ''c1'' ''r1'', sample_qr ''q1'' ''p1'']"

definition sample_entropy :: entropy where "sample_entropy = (\<lambda>_. Inr [])"

lemma NewSnapshot_classifies_witness:
  "\<exists>sn g sets src'. NewSnapshot ''e'' 0 60000000000 [] sample_mappings [''c1'' \<mapsto> ObservationPointActive] sample_entropy
      = (Inr (sn, g, sets), src') \<and>
    map ps_PointID (sn_PointScores sn) = [''p1''] \<and> mi_RouteIDs (sn_Missing sn) = [''r1'']"
proof -
  let ?st = "[''c1'' \<mapsto> ObservationPointActive]"
  obtain sn g sets src' where run:
    "NewSnapshot ''e'' 0 60000000000 [] sample_mappings ?st sample_entropy = (Inr (sn, g, sets), src')"
    by (simp add: NewSnapshot_def sample_mappings_def sample_camera_def sample_qr_def newPublicID_def bindE_def
        wrapE_def rand_read_def sample_entropy_def effect_simps add_mapping_def effective_mapping_def
        score_mapping_def Let_def)
      (metis prod_cases3)
  have "observed_anchors ?st sample_mappings = [GraphAnchor ''p1'' '''', GraphAnchor '''' ''r1'']"
    by (simp add: observed_anchors_def sample_mappings_def sample_camera_def sample_qr_def effective_mapping_def
        less_eq_anchor_pair)
  moreover have "window_confidence ?st 0 60000000000 [] sample_mappings (GraphAnchor ''p1'' '''') = confidenceOK"
    "window_confidence ?st 0 60000000000 [] sample_mappings (GraphAnchor '''' ''r1'') = confidenceInvalid"
    by (simp_all add: window_confidence_def anchor_mappings_def effective_mapping_def sample_mappings_def
        sample_camera_def sample_qr_def is_camera_def usable_for_def Let_def)
  ultimately show ?thesis
    using run NewSnapshot_classifies [OF run] by (simp add: is_point_def is_route_def)
qed

text \<open>C17. As long as no observation point is also mapped as a QR location and the random source
  delivers, composing a snapshot returns one: no nil dereference, whatever was measured.\<close>

theorem NewSnapshot_total:
  assumes "points_exclusive mappings" and "src 0 = Inr bs"
  shows "\<exists>sn g sets. NewSnapshot ev ws we ms mappings states src = (Inr (sn, g, sets), \<lambda>i. src (Suc i)) \<and>
    sn_EventID sn = ev \<and> sn_WindowStart sn = ws \<and> sn_WindowEnd sn = we \<and> is_public_id (sn_ID sn)"
proof -
  obtain anchors where anchors: "foldS (add_mapping states (fold (read_measurement (qr_points mappings) states ws we) ms
      Map.empty) ws (dur_minutes (time_sub we ws))) mappings [] = Inr anchors"
    using anchors_total [OF assms(1)] by blast
  let ?sid = "hex_encode (take publicIDByteLength (bs @ replicate publicIDByteLength 0))"
  let ?acc = "fold (place anchors) (sort (map fst anchors)) (empty_snapshot ?sid ev ws we, no_gaps, [])"
  have draw: "newPublicID src = (Inr ?sid, \<lambda>i. src (Suc i))"
    using assms(2) by (simp add: newPublicID_def bindE_def wrapE_def rand_read_def effect_simps)
  have "NewSnapshot ev ws we ms mappings states src = (Inr ?acc, \<lambda>i. src (Suc i))"
    using draw anchors by (simp add: NewSnapshot_def Let_def bindE_def effect_simps)
  moreover have "sn_EventID (fst ?acc) = ev" "sn_WindowStart (fst ?acc) = ws" "sn_WindowEnd (fst ?acc) = we"
    "is_public_id (sn_ID (fst ?acc))"
    using newPublicID_valid [OF draw] unfolding fold_place_frame by (simp_all add: empty_snapshot_def)
  ultimately show ?thesis by (metis prod.collapse)
qed

lemma NewSnapshot_total_witness:
  "\<exists>sn g sets. NewSnapshot ''e'' 0 60000000000 [] sample_mappings [''c1'' \<mapsto> ObservationPointActive] sample_entropy
      = (Inr (sn, g, sets), \<lambda>i. sample_entropy (Suc i)) \<and> sn_EventID sn = ''e'' \<and> sn_WindowStart sn = 0 \<and>
      sn_WindowEnd sn = 60000000000 \<and> is_public_id (sn_ID sn)"
  by (rule NewSnapshot_total [where bs = "[]"])
    (simp_all add: points_exclusive_def qr_points_def sample_mappings_def sample_camera_def sample_qr_def
      is_camera_def sample_entropy_def)

text \<open>C16. What a route's score says of its sensors: it is exhaustive exactly when no QR location is
  mapped to the route, it carries a scalar flow exactly otherwise, and it claims to come from one single
  sensor exactly when all mappings of the route are cameras at one observation point.\<close>

theorem NewSnapshot_route_flags:
  assumes "NewSnapshot ev ws we ms mappings states src = (Inr (sn, g, sets), src')"
    and "score \<in> set (sn_RouteScores sn)"
  shows "\<exists>a \<in> set (observed_anchors states mappings). ga_RouteID a = rs_RouteID score \<and>
    (let mps = anchor_mappings states mappings a in
      rs_Exhaustive score = list_all is_camera mps \<and>
      rs_ScalarFlow score \<noteq> None = (\<not> list_all is_camera mps) \<and>
      rs_SameSensorFlow score = (list_all is_camera mps \<and> card (mp_ObservationPointID ` set mps) = 1))"
proof -
  obtain anchors sid where stage:
    "foldS (add_mapping states (fold (read_measurement (qr_points mappings) states ws we) ms Map.empty) ws
       (dur_minutes (time_sub we ws))) mappings [] = Inr anchors"
    "(sn, g, sets) = fold (place anchors) (observed_anchors states mappings) (empty_snapshot sid ev ws we, no_gaps, [])"
    using NewSnapshot_stages [OF assms(1)] by metis
  have "sn = fst (fold (place anchors) (observed_anchors states mappings) (empty_snapshot sid ev ws we, no_gaps, []))"
    by (metis stage(2) fst_conv)
  with assms(2) obtain a where a: "a \<in> set (observed_anchors states mappings)" "score = route_at anchors a"
    and ok: "conf_at anchors a = confidenceOK"
    by (auto simp: fold_place empty_snapshot_def)
  let ?s = "score_at anchors a" and ?mps = "anchor_mappings states mappings a"
  have mps: "?mps \<noteq> []" using a(1) by (simp add: set_observed_anchors)
  note spec = score_of_spec [OF score_at_observed [OF stage(1) a(1)]]
  have qr: "as_qr ?s \<longleftrightarrow> \<not> list_all is_camera ?mps" using spec by (auto simp: list_all_iff)
  have sensors: "length (distinctSensors ?s) = card (mp_ObservationPointID ` set ?mps)"
    using spec by (simp add: distinctSensors_def compact_sorted)
  have "co_detected (compose ?s) \<noteq> None" if "list_all is_camera ?mps"
  proof -
    have "filter is_camera ?mps = ?mps" using that by (simp add: list_all_iff filter_id_conv)
    then have "0 < as_cameras ?s" using spec mps by simp
    then have "as_fresh ?s \<noteq> []" using ok by (auto simp: compose_confidence split: if_splits)
    then show ?thesis by (simp add: compose_def averageCameraScores_def Let_def)
  qed
  with qr sensors a show ?thesis
    by (intro bexI [of _ a]) (auto simp: route_def Let_def)
qed

definition sample_gate :: "ObservationPointMapping list" where
  "sample_gate = [\<lparr>mp_ObservationPointID = ''q1'', mp_Anchor = GraphAnchor '''' ''r1'', mp_Method = MeasurementMethodQR\<rparr>]"

lemma NewSnapshot_route_flags_witness:
  "\<exists>sn g sets src' score. NewSnapshot ''e'' 0 60000000000 [] sample_gate [''c1'' \<mapsto> ObservationPointActive] sample_entropy
      = (Inr (sn, g, sets), src') \<and>
    sn_RouteScores sn = [score] \<and> \<not> rs_Exhaustive score \<and> rs_ScalarFlow score \<noteq> None \<and> \<not> rs_SameSensorFlow score"
proof -
  let ?st = "[''c1'' \<mapsto> ObservationPointActive]"
  obtain sn g sets src' where run:
    "NewSnapshot ''e'' 0 60000000000 [] sample_gate ?st sample_entropy = (Inr (sn, g, sets), src')"
    by (simp add: NewSnapshot_def sample_gate_def newPublicID_def bindE_def
        wrapE_def rand_read_def sample_entropy_def effect_simps add_mapping_def effective_mapping_def
        score_mapping_def Let_def)
      (metis prod_cases3)
  have keys: "observed_anchors ?st sample_gate = [GraphAnchor '''' ''r1'']"
    by (simp add: observed_anchors_def sample_gate_def effective_mapping_def)
  have "window_confidence ?st 0 60000000000 [] sample_gate (GraphAnchor '''' ''r1'') = confidenceOK"
    by (simp add: window_confidence_def anchor_mappings_def effective_mapping_def sample_gate_def is_camera_def usable_for_def Let_def)
  then have "map rs_RouteID (sn_RouteScores sn) = [''r1'']"
    using NewSnapshot_route_ids [OF run] keys by (simp add: is_route_def)
  then obtain score where score: "sn_RouteScores sn = [score]" by (auto simp: map_eq_Cons_conv)
  then have "\<not> list_all is_camera (anchor_mappings ?st sample_gate (GraphAnchor '''' ''r1''))"
    by (simp add: anchor_mappings_def effective_mapping_def sample_gate_def is_camera_def)
  then have "\<not> rs_Exhaustive score \<and> rs_ScalarFlow score \<noteq> None \<and> \<not> rs_SameSensorFlow score"
    using NewSnapshot_route_flags [OF run, of score] unfolding keys score Let_def by simp
  with run score show ?thesis by blast
qed

end
