(* ===== verification/ArcHistories.thy ===== *)
theory ArcHistories
  imports Snapshot
begin

section \<open>domain/snapshot.go: arc history and the flow sensitivity\<close>

text \<open>
  The summary of one route's history and the least-squares slope of stagnation against flow,
  whose negation is the flow sensitivity eta. The sums are those of the samples; a slope is only
  reported from \<open>minFlowSensitivitySamples\<close> samples on, when the flow varies and the slope is negative.
\<close>

record FlowRegression =
  fr_SampleCount :: int
  fr_StagnationSum :: f64
  fr_FlowSum :: f64
  fr_FlowSquareSum :: f64
  fr_FlowStagnationSum :: f64

record FlowDwellSummary =
  fd_FlowP90 :: f64
  fd_FreeFlowDwellMin :: "f64 option"
  fd_Span :: duration

record ArcHistory =
  ah_RouteID :: string
  ah_SampleCount :: int
  ah_P90Stagnation :: f64
  ah_MeanStagnation :: f64
  ah_FirstStart :: time
  ah_LastEnd :: time
  ah_Flow :: FlowRegression
  ah_SameSensorFlow :: FlowRegression
  ah_FlowDwell :: FlowDwellSummary

definition minFlowSensitivitySamples :: int where "minFlowSensitivitySamples = 12"

text \<open>The constant \<open>1e-9\<close> is the double nearest to it.\<close>

definition f_nano :: f64 where "f_nano = f_of_rat (1 / 1000000000)"

definition eta :: "FlowRegression \<Rightarrow> f64 \<times> bool" where
  "eta r =
     (if fr_SampleCount r < minFlowSensitivitySamples then (f_zero, False)
      else
        let n = f_of_int (fr_SampleCount r);
            flowVariance = fsub (fmul n (fr_FlowSquareSum r)) (fmul (fr_FlowSum r) (fr_FlowSum r))
        in if fle flowVariance (fmul (fmul f_nano n) (fr_FlowSquareSum r)) then (f_zero, False)
        else
          let covariance = fsub (fmul n (fr_FlowStagnationSum r)) (fmul (fr_FlowSum r) (fr_StagnationSum r));
              slope = fdiv (fneg covariance) flowVariance
          in if fle slope f_zero then (f_zero, False) else (slope, True))"

definition FlowSensitivityEta :: "ArcHistory \<Rightarrow> f64 \<times> bool" where
  "FlowSensitivityEta h =
     (if fr_SampleCount (ah_SameSensorFlow h) \<ge> minFlowSensitivitySamples then eta (ah_SameSensorFlow h)
      else eta (ah_Flow h))"

record OptimizationOutcome =
  oo_SnapshotID :: string
  oo_ServerTime :: time
  oo_Verdict :: string
  oo_DetectionState :: "byte list option"
  oo_OptimizationResult :: "byte list option"
  oo_FeedbackValues :: "byte list option"
  oo_Diagnostics :: "byte list option"

lemma eta_needs_samples: "snd (eta r) \<Longrightarrow> minFlowSensitivitySamples \<le> fr_SampleCount r"
  by (auto simp: eta_def Let_def split: if_splits)

lemma eta_positive: "eta r = (v, True) \<Longrightarrow> \<not> fle v f_zero"
  by (auto simp: eta_def Let_def split: if_splits)

lemma eta_absent: "eta r = (v, False) \<Longrightarrow> v = f_zero"
  by (auto simp: eta_def Let_def split: if_splits)

end
