(* ===== verification/ArcStore.thy ===== *)
theory ArcStore
  imports JsonCodec ArcHistories
begin

section \<open>infra/db/snapshot.go: the hourly history of an arc\<close>

text \<open>
  Every route score with a stagnation adds one sample to two tables of hourly cells: stagnation by bucket, and flow by
  dwell. \<open>SummarizeArcHistory\<close> reads them back: per route the sums of a regression and quantiles over the buckets. The cells of a
  route count only from the last change of its sensors on. The bucket of a value is computed by the server's
  logarithm and power (\<open>ln_pow\<close>, a parameter); sums of floats are taken in the stored order, which
  SQL leaves open. Floats are compared and combined as the server does: NaN is the greatest value and equal to itself, and an
  operation that overflows or underflows is an error.
\<close>

subsection \<open>float8 and timestamptz as the server has them\<close>

definition numeric_out_of_range :: err where "numeric_out_of_range = PgError ''22003''"

definition pg_le :: "f64 \<Rightarrow> f64 \<Rightarrow> bool" where
  "pg_le x y \<longleftrightarrow> is_nan y \<or> fle x y"

definition pg_lt :: "f64 \<Rightarrow> f64 \<Rightarrow> bool" where
  "pg_lt x y \<longleftrightarrow> \<not> pg_le y x"

definition is_zero :: "f64 \<Rightarrow> bool" where
  "is_zero x \<longleftrightarrow> feq x f_zero"

definition pg_add :: "f64 \<Rightarrow> f64 \<Rightarrow> err + f64" where
  "pg_add x y = (if is_inf (fadd x y) \<and> \<not> is_inf x \<and> \<not> is_inf y then Inl numeric_out_of_range else Inr (fadd x y))"

definition pg_mul :: "f64 \<Rightarrow> f64 \<Rightarrow> err + f64" where
  "pg_mul x y =
     (if is_inf (fmul x y) \<and> \<not> is_inf x \<and> \<not> is_inf y then Inl numeric_out_of_range
      else if is_zero (fmul x y) \<and> \<not> is_zero x \<and> \<not> is_zero y then Inl numeric_out_of_range
      else Inr (fmul x y))"

definition pg_div :: "f64 \<Rightarrow> f64 \<Rightarrow> err + f64" where
  "pg_div x y =
     (if is_zero y \<and> \<not> is_nan x then Inl (PgError ''22012'')
      else if is_inf (fdiv x y) \<and> \<not> is_inf x then Inl numeric_out_of_range
      else if is_zero (fdiv x y) \<and> \<not> is_zero x \<and> \<not> is_inf y then Inl numeric_out_of_range
      else Inr (fdiv x y))"

text \<open>Equal values are the same group: a value's group is named by the value without a negative zero.\<close>

definition pg_same :: "f64 \<Rightarrow> f64 \<Rightarrow> bool" where
  "pg_same x y \<longleftrightarrow> positive_zero x = positive_zero y"

definition pg_sum :: "f64 list \<Rightarrow> err + f64" where
  "pg_sum xs = foldS (\<lambda>x acc. pg_add acc x) xs f_zero"

definition date_trunc_hour :: "time \<Rightarrow> time" where
  "date_trunc_hour t = t - t mod hour"

text \<open>migrations/000001: \<open>arc_stagnation_bucket\<close>.\<close>

definition arc_stagnation_bucket :: "(f64 \<Rightarrow> err + f64) \<Rightarrow> f64 \<Rightarrow> err + f64" where
  "arc_stagnation_bucket ln_pow stagnation = (if pg_le stagnation f_zero then Inr f_zero else ln_pow stagnation)"

subsection \<open>Adding a sample\<close>

definition stagnation_sample ::
  "(f64 \<Rightarrow> err + f64) \<Rightarrow> string \<Rightarrow> time \<Rightarrow> string \<Rightarrow> f64 \<Rightarrow> time \<Rightarrow> f64 \<Rightarrow> bool \<Rightarrow> err + stagnation_row" where
  "stagnation_sample ln_pow eventID windowStart routeID stagnation windowEnd flow sameSensorFlow =
     bindS (arc_stagnation_bucket ln_pow stagnation) (\<lambda>bucket.
     bindS (pg_mul flow flow) (\<lambda>square.
     bindS (pg_mul flow stagnation) (\<lambda>product.
     Inr \<lparr>ag_event_id = eventID, ag_hour_start = date_trunc_hour windowStart, ag_route_id = routeID,
       ag_stagnation_bucket = bucket, ag_same_sensor_flow = sameSensorFlow, ag_sample_count = 1, ag_stagnation_sum = stagnation,
       ag_flow_sum = flow, ag_flow_square_sum = square, ag_flow_stagnation_sum = product,
       ag_first_start = windowStart, ag_last_end = windowEnd\<rparr>)))"

definition same_stagnation_cell :: "stagnation_row \<Rightarrow> stagnation_row \<Rightarrow> bool" where
  "same_stagnation_cell a b \<longleftrightarrow> ag_event_id a = ag_event_id b \<and> ag_hour_start a = ag_hour_start b \<and>
     ag_route_id a = ag_route_id b \<and> pg_same (ag_stagnation_bucket a) (ag_stagnation_bucket b) \<and>
     ag_same_sensor_flow a = ag_same_sensor_flow b"

definition merge_stagnation :: "stagnation_row \<Rightarrow> stagnation_row \<Rightarrow> err + stagnation_row" where
  "merge_stagnation h excluded =
     bindS (pg_add (ag_stagnation_sum h) (ag_stagnation_sum excluded)) (\<lambda>stagnation.
     bindS (pg_add (ag_flow_sum h) (ag_flow_sum excluded)) (\<lambda>flow.
     bindS (pg_add (ag_flow_square_sum h) (ag_flow_square_sum excluded)) (\<lambda>square.
     bindS (pg_add (ag_flow_stagnation_sum h) (ag_flow_stagnation_sum excluded)) (\<lambda>product.
     if max_int64 < ag_sample_count h + 1 then Inl numeric_out_of_range
     else Inr (h\<lparr>ag_sample_count := ag_sample_count h + 1, ag_stagnation_sum := stagnation,
       ag_first_start := min (ag_first_start h) (ag_first_start excluded), ag_last_end := max (ag_last_end h) (ag_last_end excluded),
       ag_flow_sum := flow, ag_flow_square_sum := square, ag_flow_stagnation_sum := product\<rparr>)))))"

text \<open>An upsert on a unique key: the one row with the key is merged with the new one, or the new one is added.\<close>

fun upsert_row :: "('r \<Rightarrow> bool) \<Rightarrow> ('r \<Rightarrow> err + 'r) \<Rightarrow> 'r \<Rightarrow> 'r list \<Rightarrow> err + 'r list" where
  "upsert_row same merge new [] = Inr [new]"
| "upsert_row same merge new (h # rows) =
     (if same h then bindS (merge h) (\<lambda>h'. Inr (h' # rows))
      else bindS (upsert_row same merge new rows) (\<lambda>rows'. Inr (h # rows')))"

definition upsert_stagnation :: "stagnation_row \<Rightarrow> database \<Rightarrow> err + (unit \<times> database)" where
  "upsert_stagnation new d =
     bindS (upsert_row (same_stagnation_cell new) (\<lambda>h. merge_stagnation h new) new (db_stagnation d)) (\<lambda>rows.
     Inr ((), d\<lparr>db_stagnation := rows\<rparr>))"

definition flow_dwell_sample ::
  "(f64 \<Rightarrow> err + f64) \<Rightarrow> string \<Rightarrow> time \<Rightarrow> string \<Rightarrow> f64 \<Rightarrow> f64 \<Rightarrow> time \<Rightarrow> err + flow_dwell_row" where
  "flow_dwell_sample ln_pow eventID windowStart routeID stagnation flow windowEnd =
     bindS (arc_stagnation_bucket ln_pow flow) (\<lambda>flowBucket.
     bindS (if pg_lt f_zero flow
       then bindS (pg_div stagnation flow) (\<lambda>dwell. bindS (arc_stagnation_bucket ln_pow dwell) (\<lambda>b. Inr (Some b)))
       else Inr None) (\<lambda>dwellBucket.
     Inr \<lparr>dw_event_id = eventID, dw_hour_start = date_trunc_hour windowStart, dw_route_id = routeID,
       dw_flow_bucket = flowBucket, dw_dwell_bucket = dwellBucket, dw_sample_count = 1,
       dw_first_start = windowStart, dw_last_end = windowEnd\<rparr>))"

definition same_dwell_cell :: "flow_dwell_row \<Rightarrow> flow_dwell_row \<Rightarrow> bool" where
  "same_dwell_cell a b \<longleftrightarrow> dw_event_id a = dw_event_id b \<and> dw_hour_start a = dw_hour_start b \<and>
     dw_route_id a = dw_route_id b \<and> pg_same (dw_flow_bucket a) (dw_flow_bucket b) \<and>
     map_option positive_zero (dw_dwell_bucket a) = map_option positive_zero (dw_dwell_bucket b)"

definition merge_dwell :: "flow_dwell_row \<Rightarrow> flow_dwell_row \<Rightarrow> err + flow_dwell_row" where
  "merge_dwell h excluded =
     (if max_int64 < dw_sample_count h + 1 then Inl numeric_out_of_range
      else Inr (h\<lparr>dw_sample_count := dw_sample_count h + 1,
        dw_first_start := min (dw_first_start h) (dw_first_start excluded), dw_last_end := max (dw_last_end h) (dw_last_end excluded)\<rparr>))"

definition upsert_flow_dwell :: "flow_dwell_row \<Rightarrow> database \<Rightarrow> err + (unit \<times> database)" where
  "upsert_flow_dwell new d =
     bindS (upsert_row (same_dwell_cell new) (\<lambda>h. merge_dwell h new) new (db_flow_dwell d)) (\<lambda>rows.
     Inr ((), d\<lparr>db_flow_dwell := rows\<rparr>))"

text \<open>The body of the loop of \<open>SaveSnapshot\<close>: the two statements for one route score.\<close>

definition record_route ::
  "(time \<Rightarrow> time) \<Rightarrow> (f64 \<Rightarrow> err + f64) \<Rightarrow> Snapshot \<Rightarrow> RouteScore \<Rightarrow> ('x, unit) action" where
  "record_route ts ln_pow snapshot score =
     (case rs_StagnationScore score of
        None \<Rightarrow> returnE ()
      | Some stagnation \<Rightarrow>
          let start = ts (sn_WindowStart snapshot); end' = ts (sn_WindowEnd snapshot);
              flow = fadd (rs_Forward score) (rs_Backward score) in
          bindE (wrapE (Wrap ''upsert arc stagnation'') (sql (\<lambda>d.
            bindS (stagnation_sample ln_pow (sn_EventID snapshot) start (rs_RouteID score) stagnation end' flow (rs_SameSensorFlow score))
              (\<lambda>row. upsert_stagnation row d)))) (\<lambda>_.
          wrapE (Wrap ''upsert arc flow dwell'') (sql (\<lambda>d.
            bindS (flow_dwell_sample ln_pow (sn_EventID snapshot) start (rs_RouteID score) stagnation flow end')
              (\<lambda>row. upsert_flow_dwell row d)))))"

subsection \<open>Groups, cumulative counts and quantiles\<close>

text \<open>\<open>GROUP BY\<close>: the keys in order of first appearance, each with its rows.\<close>

definition grouped :: "('r \<Rightarrow> 'k) \<Rightarrow> 'r list \<Rightarrow> ('k \<times> 'r list) list" where
  "grouped key rows = map (\<lambda>k. (k, filter (\<lambda>r. key r = k) rows)) (remdups (map key rows))"

text \<open>\<open>sum(n) OVER (PARTITION BY route ORDER BY bucket)\<close> on the cells of one route, and without the order the total.\<close>

definition cumulative :: "(f64 \<times> int) list \<Rightarrow> f64 \<Rightarrow> int" where
  "cumulative cells b = sum_list (map snd (filter (\<lambda>(b', n). pg_le b' b) cells))"

definition total :: "(f64 \<times> int) list \<Rightarrow> int" where
  "total cells = sum_list (map snd cells)"

definition least_bucket :: "f64 list \<Rightarrow> f64 option" where
  "least_bucket bs = (case bs of [] \<Rightarrow> None | b # rest \<Rightarrow> Some (fold (\<lambda>x m. if pg_le m x then m else x) rest b))"

text \<open>\<open>min(bucket) FILTER (WHERE cumulative >= (p / q) * total)\<close>; the fractions are exact NUMERICs.\<close>

definition quantile :: "int \<Rightarrow> int \<Rightarrow> (f64 \<times> int) list \<Rightarrow> f64 option" where
  "quantile p q cells = least_bucket (map fst (filter (\<lambda>(b, n). p * total cells \<le> q * cumulative cells b) cells))"

definition least_time :: "time list \<Rightarrow> time" where "least_time ts = fold min (tl ts) (hd ts)"
definition greatest_time :: "time list \<Rightarrow> time" where "greatest_time ts = fold max (tl ts) (hd ts)"

text \<open>\<open>LEFT JOIN anchor_sensor_sets ... AND (s.changed_at IS NULL OR h.first_start >= s.changed_at)\<close>.\<close>

definition since_change :: "sensor_set_row list \<Rightarrow> string \<Rightarrow> string \<Rightarrow> time \<Rightarrow> nat" where
  "since_change sets eventID routeID first =
     (case filter (\<lambda>s. sv_event_id s = eventID \<and> sv_route_id s = routeID) sets of
        [] \<Rightarrow> 1
      | matches \<Rightarrow> length (filter (\<lambda>s. case sv_changed_at s of None \<Rightarrow> True | Some t \<Rightarrow> t \<le> first) matches))"

definition joined_rows :: "('r \<Rightarrow> nat) \<Rightarrow> 'r list \<Rightarrow> 'r list" where
  "joined_rows copies rows = concat (map (\<lambda>r. replicate (copies r) r) rows)"

subsection \<open>SummarizeArcHistory\<close>

record stagnation_bucket_row =
  bk_bucket :: f64
  bk_sample_count :: int
  bk_stagnation_sum :: f64
  bk_first_start :: time
  bk_last_end :: time
  bk_flow_sum :: f64
  bk_flow_square_sum :: f64
  bk_flow_stagnation_sum :: f64
  bk_same_sample_count :: int
  bk_same_stagnation_sum :: f64
  bk_same_flow_sum :: f64
  bk_same_flow_square_sum :: f64
  bk_same_flow_stagnation_sum :: f64

definition stagnation_bucket :: "f64 \<times> stagnation_row list \<Rightarrow> err + stagnation_bucket_row" where
  "stagnation_bucket g =
     (let (bucket, rows) = g; same = filter ag_same_sensor_flow rows in
      bindS (pg_sum (map ag_stagnation_sum rows)) (\<lambda>stagnation.
      bindS (pg_sum (map ag_flow_sum rows)) (\<lambda>flow.
      bindS (pg_sum (map ag_flow_square_sum rows)) (\<lambda>square.
      bindS (pg_sum (map ag_flow_stagnation_sum rows)) (\<lambda>product.
      bindS (pg_sum (map ag_stagnation_sum same)) (\<lambda>sameStagnation.
      bindS (pg_sum (map ag_flow_sum same)) (\<lambda>sameFlow.
      bindS (pg_sum (map ag_flow_square_sum same)) (\<lambda>sameSquare.
      bindS (pg_sum (map ag_flow_stagnation_sum same)) (\<lambda>sameProduct.
      Inr \<lparr>bk_bucket = bucket, bk_sample_count = sum_list (map ag_sample_count rows), bk_stagnation_sum = stagnation,
        bk_first_start = least_time (map ag_first_start rows), bk_last_end = greatest_time (map ag_last_end rows),
        bk_flow_sum = flow, bk_flow_square_sum = square, bk_flow_stagnation_sum = product,
        bk_same_sample_count = sum_list (map ag_sample_count same), bk_same_stagnation_sum = sameStagnation,
        bk_same_flow_sum = sameFlow, bk_same_flow_square_sum = sameSquare, bk_same_flow_stagnation_sum = sameProduct\<rparr>)))))))))"

definition zero_flow_dwell :: FlowDwellSummary where
  "zero_flow_dwell = \<lparr>fd_FlowP90 = f_zero, fd_FreeFlowDwellMin = None, fd_Span = 0\<rparr>"

text \<open>A NULL quantile cannot be scanned into a \<open>float64\<close>.\<close>

definition scan_error :: err where "scan_error = OtherError ''converting NULL to float64 is unsupported''"

definition arc_history :: "string \<times> stagnation_row list \<Rightarrow> err + ArcHistory" where
  "arc_history g =
     (let (route, rows) = g in
      bindS (mapS stagnation_bucket (grouped (\<lambda>r. positive_zero (ag_stagnation_bucket r)) rows)) (\<lambda>buckets.
      bindS (pg_sum (map bk_stagnation_sum buckets)) (\<lambda>stagnation.
      bindS (pg_sum (map bk_flow_sum buckets)) (\<lambda>flow.
      bindS (pg_sum (map bk_flow_square_sum buckets)) (\<lambda>square.
      bindS (pg_sum (map bk_flow_stagnation_sum buckets)) (\<lambda>product.
      bindS (pg_sum (map bk_same_stagnation_sum buckets)) (\<lambda>sameStagnation.
      bindS (pg_sum (map bk_same_flow_sum buckets)) (\<lambda>sameFlow.
      bindS (pg_sum (map bk_same_flow_square_sum buckets)) (\<lambda>sameSquare.
      bindS (pg_sum (map bk_same_flow_stagnation_sum buckets)) (\<lambda>sameProduct.
      let cells = map (\<lambda>b. (bk_bucket b, bk_sample_count b)) buckets; n = total cells in
      case quantile 9 10 cells of
        None \<Rightarrow> Inl scan_error
      | Some p90 \<Rightarrow> Inr
          \<lparr>ah_RouteID = route, ah_SampleCount = n, ah_P90Stagnation = p90, ah_MeanStagnation = fdiv stagnation (f_of_int n),
           ah_FirstStart = least_time (map bk_first_start buckets), ah_LastEnd = greatest_time (map bk_last_end buckets),
           ah_Flow = \<lparr>fr_SampleCount = n, fr_StagnationSum = stagnation, fr_FlowSum = flow, fr_FlowSquareSum = square,
             fr_FlowStagnationSum = product\<rparr>,
           ah_SameSensorFlow = \<lparr>fr_SampleCount = sum_list (map bk_same_sample_count buckets), fr_StagnationSum = sameStagnation,
             fr_FlowSum = sameFlow, fr_FlowSquareSum = sameSquare, fr_FlowStagnationSum = sameProduct\<rparr>,
           ah_FlowDwell = zero_flow_dwell\<rparr>))))))))))"

definition stagnation_cells :: "string \<Rightarrow> time \<Rightarrow> database \<Rightarrow> stagnation_row list" where
  "stagnation_cells eventID since d =
     joined_rows (\<lambda>h. since_change (db_sensor_sets d) eventID (ag_route_id h) (ag_first_start h))
       (filter (\<lambda>h. ag_event_id h = eventID \<and> since \<le> ag_hour_start h) (db_stagnation d))"

text \<open>The order of the routes is that of the database's collation, given by its sort key \<open>coll\<close>.\<close>

definition select_arc_history :: "(string \<Rightarrow> string) \<Rightarrow> string \<Rightarrow> time \<Rightarrow> database \<Rightarrow> err + ArcHistory list" where
  "select_arc_history coll eventID since d =
     mapS arc_history (sort_key (\<lambda>g. coll (fst g)) (grouped ag_route_id (stagnation_cells eventID since d)))"

definition dwell_cells :: "string \<Rightarrow> time \<Rightarrow> database \<Rightarrow> flow_dwell_row list" where
  "dwell_cells eventID since d =
     joined_rows (\<lambda>h. since_change (db_sensor_sets d) eventID (dw_route_id h) (dw_first_start h))
       (filter (\<lambda>h. dw_event_id h = eventID \<and> since \<le> dw_hour_start h) (db_flow_dwell d))"

text \<open>Per route: the flow buckets with their counts, the middle half of the flows, the dwell buckets in that band.\<close>

definition flow_counts :: "flow_dwell_row list \<Rightarrow> (f64 \<times> int) list" where
  "flow_counts cells = map (\<lambda>(b, rows). (b, sum_list (map dw_sample_count rows))) (grouped (\<lambda>r. positive_zero (dw_flow_bucket r)) cells)"

definition band_counts :: "f64 \<Rightarrow> f64 \<Rightarrow> flow_dwell_row list \<Rightarrow> (f64 \<times> int) list" where
  "band_counts p25 p75 cells =
     map (\<lambda>(b, rows). (the b, sum_list (map dw_sample_count rows)))
       (grouped (\<lambda>r. map_option positive_zero (dw_dwell_bucket r))
         (filter (\<lambda>r. dw_dwell_bucket r \<noteq> None \<and> pg_le p25 (dw_flow_bucket r) \<and> pg_le (dw_flow_bucket r) p75) cells))"

definition flow_dwell_summary :: "string \<times> flow_dwell_row list \<Rightarrow> err + (string \<times> FlowDwellSummary)" where
  "flow_dwell_summary g =
     (let (route, cells) = g; flows = flow_counts cells in
      case quantile 9 10 flows of
        None \<Rightarrow> Inl scan_error
      | Some p90 \<Rightarrow> Inr (route,
          \<lparr>fd_FlowP90 = p90,
           fd_FreeFlowDwellMin = (case (quantile 1 4 flows, quantile 3 4 flows) of
               (Some p25, Some p75) \<Rightarrow> quantile 1 2 (band_counts p25 p75 cells) | _ \<Rightarrow> None),
           fd_Span = time_sub (greatest_time (map dw_last_end cells)) (least_time (map dw_first_start cells))\<rparr>))"

definition select_flow_dwell :: "string \<Rightarrow> time \<Rightarrow> database \<Rightarrow> err + (string \<times> FlowDwellSummary) list" where
  "select_flow_dwell eventID since d = mapS flow_dwell_summary (grouped dw_route_id (dwell_cells eventID since d))"

definition summarizeArcFlowDwell :: "(time \<Rightarrow> time) \<Rightarrow> Ctx \<Rightarrow> string \<Rightarrow> time \<Rightarrow> ('x, (string \<times> FlowDwellSummary) list) action" where
  "summarizeArcFlowDwell ts ctx eventID since =
     wrapE (Wrap ''summarize arc flow dwell'') (sql (\<lambda>d. bindS (select_flow_dwell eventID (ts since) d) (\<lambda>s. Inr (s, d))))"

definition SummarizeArcHistory ::
  "(time \<Rightarrow> time) \<Rightarrow> (string \<Rightarrow> string) \<Rightarrow> Ctx \<Rightarrow> string \<Rightarrow> time \<Rightarrow> ('x, ArcHistory list) action" where
  "SummarizeArcHistory ts coll ctx eventID since =
     bindE (wrapE (Wrap ''summarize arc history'') (sql (\<lambda>d. bindS (select_arc_history coll eventID (ts since) d) (\<lambda>hs. Inr (hs, d))))) (\<lambda>rows.
     bindE (summarizeArcFlowDwell ts ctx eventID since) (\<lambda>flowDwell.
     returnE (map (\<lambda>h. h\<lparr>ah_FlowDwell := (case map_of flowDwell (ah_RouteID h) of None \<Rightarrow> zero_flow_dwell | Some s \<Rightarrow> s)\<rparr>) rows)))"

subsection \<open>The order of buckets, groups and quantiles\<close>

lemma pg_le_refl [simp]: "pg_le x x"
  by (cases x) (auto simp: pg_le_def is_nan_def)

lemma pg_le_trans: "pg_le x y \<Longrightarrow> pg_le y z \<Longrightarrow> pg_le x z"
  using fle_trans by (auto simp: pg_le_def is_nan_def)

lemma pg_le_total: "pg_le x y \<or> pg_le y x"
  using fle_total by (auto simp: pg_le_def is_nan_def)

lemma least_bucket_least:
  assumes "least_bucket bs = Some m"
  shows "m \<in> set bs \<and> (\<forall>b \<in> set bs. pg_le m b)"
proof -
  have least: "fold (\<lambda>x m. if pg_le m x then m else x) rest b \<in> insert b (set rest) \<and>
      pg_le (fold (\<lambda>x m. if pg_le m x then m else x) rest b) b \<and>
      (\<forall>x \<in> set rest. pg_le (fold (\<lambda>x m. if pg_le m x then m else x) rest b) x)" for rest b
  proof (induction rest arbitrary: b)
    case (Cons y rest)
    let ?b = "if pg_le b y then b else y"
    have "pg_le ?b b" "pg_le ?b y" using pg_le_total [of b y] by auto
    with Cons.IH [of ?b] show ?case by (auto intro: pg_le_trans split: if_splits)
  qed simp
  from assms least [of "tl bs" "hd bs"] show ?thesis by (cases bs) (auto simp: least_bucket_def)
qed

lemma least_bucket_None [simp]: "least_bucket bs = None \<longleftrightarrow> bs = []"
  by (cases bs) (simp_all add: least_bucket_def)

text \<open>A quantile is the least bucket that enough samples lie in or below.\<close>

lemma quantile_least:
  assumes "quantile p q cells = Some m"
  shows "m \<in> fst ` set cells" and "p * total cells \<le> q * cumulative cells m"
    and "\<forall>b \<in> fst ` set cells. pg_lt b m \<longrightarrow> q * cumulative cells b < p * total cells"
proof -
  let ?ok = "filter (\<lambda>(b, n). p * total cells \<le> q * cumulative cells b) cells"
  from least_bucket_least [OF assms [unfolded quantile_def]]
  have m: "m \<in> fst ` set ?ok" "\<forall>b \<in> fst ` set ?ok. pg_le m b" by auto
  then show "m \<in> fst ` set cells" "p * total cells \<le> q * cumulative cells m" by auto
  show "\<forall>b \<in> fst ` set cells. pg_lt b m \<longrightarrow> q * cumulative cells b < p * total cells"
  proof (intro ballI impI)
    fix b assume "b \<in> fst ` set cells" "pg_lt b m"
    then have "b \<notin> fst ` set ?ok" using m(2) by (auto simp: pg_lt_def)
    with \<open>b \<in> fst ` set cells\<close> have "\<not> p * total cells \<le> q * cumulative cells b" by (force simp: image_iff)
    then show "q * cumulative cells b < p * total cells" by simp
  qed
qed

lemma greatest_bucket: "cells \<noteq> [] \<Longrightarrow> \<exists>b \<in> fst ` set cells. \<forall>c \<in> fst ` set cells. pg_le c b"
proof (induction cells)
  case (Cons c cells)
  show ?case
  proof (cases "cells = []")
    case False
    with Cons obtain b where b: "b \<in> fst ` set cells" "\<forall>c \<in> fst ` set cells. pg_le c b" by auto
    show ?thesis
    proof (cases "pg_le (fst c) b")
      case True
      with b show ?thesis by auto
    next
      case False
      with pg_le_total [of "fst c" b] have "pg_le b (fst c)" by simp
      with b show ?thesis by (auto intro: pg_le_trans)
    qed
  qed auto
qed simp

lemma quantile_exists:
  assumes "cells \<noteq> []" and "0 \<le> total cells" and "p \<le> q"
  shows "\<exists>m. quantile p q cells = Some m"
proof -
  obtain b where b: "b \<in> fst ` set cells" "\<forall>c \<in> fst ` set cells. pg_le c b" using greatest_bucket [OF assms(1)] by blast
  then have "filter (\<lambda>(b', n). pg_le b' b) cells = cells" by (auto simp: filter_id_conv)
  then have "cumulative cells b = total cells" by (simp add: cumulative_def total_def)
  then have "p * total cells \<le> q * cumulative cells b" using assms(2,3) by (simp add: mult_right_mono)
  then have "filter (\<lambda>(b, n). p * total cells \<le> q * cumulative cells b) cells \<noteq> []"
    using b(1) by (auto simp: filter_empty_conv)
  then have "quantile p q cells \<noteq> None" by (simp add: quantile_def)
  then show ?thesis by auto
qed

lemma grouped_sum:
  fixes f :: "'r \<Rightarrow> int"
  assumes "distinct ks"
  shows "sum_list (map (\<lambda>k. sum_list (map f (filter (\<lambda>r. key r = k) rows))) ks) =
    sum_list (map f (filter (\<lambda>r. key r \<in> set ks) rows))"
  using assms
proof (induction ks)
  case (Cons k ks)
  have "sum_list (map f (filter (\<lambda>r. key r = k) rs)) + sum_list (map f (filter (\<lambda>r. key r \<in> set ks) rs)) =
      sum_list (map f (filter (\<lambda>r. key r \<in> set (k # ks)) rs))" for rs
    using Cons.prems by (induction rs) auto
  with Cons show ?case by simp
qed simp

lemma grouped_counts:
  fixes f :: "'r \<Rightarrow> int" and key :: "'r \<Rightarrow> f64" and rows :: "'r list"
  defines "cells \<equiv> map (\<lambda>(k, rs). (k, sum_list (map f rs))) (grouped key rows)"
  shows "total cells = sum_list (map f rows)"
    and "cumulative cells b = sum_list (map f (filter (\<lambda>r. pg_le (key r) b) rows))"
proof -
  have cells: "cells = map (\<lambda>k. (k, sum_list (map f (filter (\<lambda>r. key r = k) rows)))) (remdups (map key rows))"
    by (simp add: cells_def grouped_def)
  have "filter (\<lambda>r. key r \<in> key ` set rows) rows = rows" by (simp add: filter_id_conv)
  then show "total cells = sum_list (map f rows)"
    using grouped_sum [of "remdups (map key rows)" f key rows] by (simp add: total_def cells o_def)
  have "filter (\<lambda>(k, n). pg_le k b) cells =
      map (\<lambda>k. (k, sum_list (map f (filter (\<lambda>r. key r = k) rows)))) (filter (\<lambda>k. pg_le k b) (remdups (map key rows)))"
    by (simp add: cells filter_map o_def)
  moreover have "filter (\<lambda>r. key r \<in> set (filter (\<lambda>k. pg_le k b) (remdups (map key rows)))) rows =
      filter (\<lambda>r. pg_le (key r) b) rows" by (intro filter_cong) auto
  ultimately show "cumulative cells b = sum_list (map f (filter (\<lambda>r. pg_le (key r) b) rows))"
    using grouped_sum [of "filter (\<lambda>k. pg_le k b) (remdups (map key rows))" f key rows]
    by (simp add: cumulative_def o_def)
qed

lemma grouped_keys [simp]: "fst ` set (grouped key rows) = key ` set rows"
  by (auto simp: grouped_def image_iff)

lemma grouped_rows: "(k, rs) \<in> set (grouped key rows) \<Longrightarrow> rs = filter (\<lambda>r. key r = k) rows \<and> rs \<noteq> []"
  by (auto simp: grouped_def filter_empty_conv)

lemma pg_le_positive_zero [simp]: "pg_le (positive_zero x) y = pg_le x y" "pg_le x (positive_zero y) = pg_le x y"
  by (cases x; cases y; auto simp: pg_le_def is_nan_def positive_zero_def)+

subsection \<open>What a summary says of the samples\<close>

definition samples :: "stagnation_row list \<Rightarrow> int" where
  "samples rows = sum_list (map ag_sample_count rows)"

definition route_cells :: "string \<Rightarrow> time \<Rightarrow> database \<Rightarrow> string \<Rightarrow> stagnation_row list" where
  "route_cells eventID since d routeID = filter (\<lambda>r. ag_route_id r = routeID) (stagnation_cells eventID since d)"

text \<open>\<open>b\<close> is the 90th percentile of the samples: 90 of 100 samples lie in buckets up to \<open>b\<close>, and in no lower one.\<close>

definition percentile_90 :: "stagnation_row list \<Rightarrow> f64 \<Rightarrow> bool" where
  "percentile_90 rows b \<longleftrightarrow>
     9 * samples rows \<le> 10 * samples (filter (\<lambda>r. pg_le (ag_stagnation_bucket r) b) rows) \<and>
     (\<forall>c \<in> ag_stagnation_bucket ` set rows. pg_lt c b \<longrightarrow>
        10 * samples (filter (\<lambda>r. pg_le (ag_stagnation_bucket r) c) rows) < 9 * samples rows) \<and>
     (\<exists>r \<in> set rows. pg_same (ag_stagnation_bucket r) b)"

lemma stagnation_bucket_Inr:
  "stagnation_bucket g = Inr b \<Longrightarrow> bk_bucket b = fst g \<and> bk_sample_count b = sum_list (map ag_sample_count (snd g)) \<and>
     bk_same_sample_count b = sum_list (map ag_sample_count (filter ag_same_sensor_flow (snd g)))"
  by (auto simp: stagnation_bucket_def bindS_Inr Let_def split: prod.splits)

lemma stagnation_buckets_cells:
  assumes "mapS stagnation_bucket gs = Inr bs"
  shows "map (\<lambda>b. (bk_bucket b, bk_sample_count b)) bs = map (\<lambda>(k, rs). (k, sum_list (map ag_sample_count rs))) gs"
proof -
  from assms have "list_all2 (\<lambda>g b. stagnation_bucket g = Inr b) gs bs" by (simp add: mapS_Inr)
  then have "list_all2 (\<lambda>g b. (bk_bucket b, bk_sample_count b) = (\<lambda>(k, rs). (k, sum_list (map ag_sample_count rs))) g) gs bs"
    by (rule list_all2_mono) (auto dest: stagnation_bucket_Inr)
  then show ?thesis by (induction rule: list_all2_induct) simp_all
qed

lemma arc_history_Inr:
  assumes "arc_history (routeID, rows) = Inr h"
  shows "ah_RouteID h = routeID" and "ah_SampleCount h = samples rows" and "percentile_90 rows (ah_P90Stagnation h)"
    and "fr_SampleCount (ah_Flow h) = samples rows" and "ah_MeanStagnation h = fdiv (fr_StagnationSum (ah_Flow h)) (f_of_int (samples rows))"
proof -
  let ?key = "\<lambda>r. positive_zero (ag_stagnation_bucket r)"
  let ?cells = "map (\<lambda>(k, rs). (k, sum_list (map ag_sample_count rs))) (grouped ?key rows)"
  from assms obtain bs where bs: "mapS stagnation_bucket (grouped ?key rows) = Inr bs"
    and h: "ah_RouteID h = routeID" "ah_SampleCount h = total (map (\<lambda>b. (bk_bucket b, bk_sample_count b)) bs)"
    "quantile 9 10 (map (\<lambda>b. (bk_bucket b, bk_sample_count b)) bs) = Some (ah_P90Stagnation h)"
    "fr_SampleCount (ah_Flow h) = ah_SampleCount h"
    "ah_MeanStagnation h = fdiv (fr_StagnationSum (ah_Flow h)) (f_of_int (ah_SampleCount h))"
    by (auto simp: arc_history_def bindS_Inr Let_def split: option.splits)
  note cells = stagnation_buckets_cells [OF bs]
  have tot: "total ?cells = samples rows"
    and cum: "cumulative ?cells b = samples (filter (\<lambda>r. pg_le (ag_stagnation_bucket r) b) rows)" for b
    using grouped_counts [of ag_sample_count ?key rows] by (simp_all add: samples_def)
  show "ah_RouteID h = routeID" "ah_SampleCount h = samples rows" "fr_SampleCount (ah_Flow h) = samples rows"
    "ah_MeanStagnation h = fdiv (fr_StagnationSum (ah_Flow h)) (f_of_int (samples rows))"
    using h cells tot by simp_all
  have keys: "fst ` set ?cells = ?key ` set rows"
    using grouped_keys [of ?key rows] by (simp add: image_image case_prod_unfold)
  note q = quantile_least [OF h(3) [unfolded cells]]
  show "percentile_90 rows (ah_P90Stagnation h)"
    unfolding percentile_90_def
  proof (intro conjI ballI impI)
    show "9 * samples rows \<le> 10 * samples (filter (\<lambda>r. pg_le (ag_stagnation_bucket r) (ah_P90Stagnation h)) rows)"
      using q(2) unfolding tot cum .
    show "\<exists>r \<in> set rows. pg_same (ag_stagnation_bucket r) (ah_P90Stagnation h)"
    proof -
      from q(1) obtain r where r: "r \<in> set rows" "ah_P90Stagnation h = ?key r" unfolding keys by auto
      have "positive_zero (positive_zero x) = positive_zero x" for x by (cases x) (simp_all add: positive_zero_def)
      with r show ?thesis by (auto simp: pg_same_def)
    qed
    fix c assume "c \<in> ag_stagnation_bucket ` set rows" "pg_lt c (ah_P90Stagnation h)"
    then have "positive_zero c \<in> fst ` set ?cells" "pg_lt (positive_zero c) (ah_P90Stagnation h)"
      unfolding keys by (auto simp: pg_lt_def)
    with q(3) have "10 * cumulative ?cells (positive_zero c) < 9 * total ?cells" by blast
    then show "10 * samples (filter (\<lambda>r. pg_le (ag_stagnation_bucket r) c) rows) < 9 * samples rows"
      unfolding tot cum by simp
  qed
qed

lemma distinct_grouped: "distinct (map fst (grouped key rows))"
  by (simp add: grouped_def o_def)

lemma select_arc_history_Inr:
  assumes "select_arc_history coll e since d = Inr hs" and "h \<in> set hs"
  shows "arc_history (ah_RouteID h, route_cells e since d (ah_RouteID h)) = Inr h"
proof -
  from assms(1) have all2: "list_all2 (\<lambda>g h. arc_history g = Inr h)
      (sort_key (\<lambda>g. coll (fst g)) (grouped ag_route_id (stagnation_cells e since d))) hs"
    by (simp add: select_arc_history_def mapS_Inr)
  from list_all2_right [OF this assms(2)] obtain routeID rows where
    g: "arc_history (routeID, rows) = Inr h" "(routeID, rows) \<in> set (grouped ag_route_id (stagnation_cells e since d))" by auto
  then show ?thesis
    using arc_history_Inr(1) [OF g(1)] grouped_rows [OF g(2)] by (simp add: route_cells_def)
qed

lemma SummarizeArcHistory_Inr:
  assumes "SummarizeArcHistory ts coll ctx e since w = (Inr hs, w')"
  obtains rows flowDwell where "select_arc_history coll e (ts since) (w_db w) = Inr rows"
    "select_flow_dwell e (ts since) (w_db w) = Inr flowDwell" "w_db w' = w_db w"
    "hs = map (\<lambda>h. h\<lparr>ah_FlowDwell := (case map_of flowDwell (ah_RouteID h) of None \<Rightarrow> zero_flow_dwell | Some s \<Rightarrow> s)\<rparr>) rows"
proof -
  from assms obtain rows w1 flowDwell where
    "sql (\<lambda>d. bindS (select_arc_history coll e (ts since) d) (\<lambda>hs. Inr (hs, d))) w = (Inr rows, w1)"
    "sql (\<lambda>d. bindS (select_flow_dwell e (ts since) d) (\<lambda>s. Inr (s, d))) w1 = (Inr flowDwell, w')"
    "hs = map (\<lambda>h. h\<lparr>ah_FlowDwell := (case map_of flowDwell (ah_RouteID h) of None \<Rightarrow> zero_flow_dwell | Some s \<Rightarrow> s)\<rparr>) rows"
    by (auto simp: SummarizeArcHistory_def summarizeArcFlowDwell_def bindE_Inr)
  then show thesis by (intro that [of rows flowDwell]) (auto simp: sql_Inr bindS_Inr next_fault_db)
qed

lemma reader_SummarizeArcHistory [relates_rules]: "reader (SummarizeArcHistory ts coll ctx e since)"
  unfolding SummarizeArcHistory_def summarizeArcFlowDwell_def
  by (auto intro!: relates_rules reader_sql simp: bindS_Inr)

subsection \<open>The summary against its specification\<close>

text \<open>The cells that count for a route, as the SQL of the query defines them: those of the event and the route in hours from \<open>since\<close>
  on, once for each matching sensor set, or once without any, that has not changed after the first window of the cell.\<close>

definition joined_sets :: "database \<Rightarrow> string \<Rightarrow> string \<Rightarrow> sensor_set_row option list" where
  "joined_sets d eventID routeID =
     (let sets = filter (\<lambda>s. sv_event_id s = eventID \<and> sv_route_id s = routeID) (db_sensor_sets d) in if sets = [] then [None] else map Some sets)"

definition unchanged_since :: "time \<Rightarrow> sensor_set_row option \<Rightarrow> bool" where
  "unchanged_since first s \<longleftrightarrow> (\<forall>t. Option.bind s sv_changed_at = Some t \<longrightarrow> t \<le> first)"

definition counted_cells :: "string \<Rightarrow> time \<Rightarrow> database \<Rightarrow> string \<Rightarrow> stagnation_row list" where
  "counted_cells eventID since d routeID =
     concat (map (\<lambda>h. map (\<lambda>s. h) (filter (unchanged_since (ag_first_start h)) (joined_sets d eventID routeID)))
       (filter (\<lambda>h. ag_event_id h = eventID \<and> ag_route_id h = routeID \<and> since \<le> ag_hour_start h) (db_stagnation d)))"

lemma joined_sets_length:
  "length (filter (unchanged_since first) (joined_sets d e r)) = since_change (db_sensor_sets d) e r first"
proof -
  have "unchanged_since first (Some s) = (case sv_changed_at s of None \<Rightarrow> True | Some t \<Rightarrow> t \<le> first)" for s
    by (auto simp: unchanged_since_def split: option.split)
  then have some: "length (filter (unchanged_since first) (map Some sets)) =
      length (filter (\<lambda>s. case sv_changed_at s of None \<Rightarrow> True | Some t \<Rightarrow> t \<le> first) sets)" for sets
    by (simp add: filter_map o_def)
  have none: "unchanged_since first None" by (simp add: unchanged_since_def)
  define sets where "sets = filter (\<lambda>s. sv_event_id s = e \<and> sv_route_id s = r) (db_sensor_sets d)"
  show ?thesis
    unfolding joined_sets_def since_change_def sets_def [symmetric] Let_def
    using some [of sets] none by (cases sets) simp_all
qed

lemma filter_joined_rows:
  "filter P (joined_rows copies rows) = joined_rows copies (filter P rows)"
  by (induction rows) (simp_all add: joined_rows_def)

lemma joined_rows_cong:
  "(\<And>r. r \<in> set rows \<Longrightarrow> copies r = copies' r) \<Longrightarrow> joined_rows copies rows = joined_rows copies' rows"
  unfolding joined_rows_def by (metis (mono_tags, lifting) map_eq_conv)

lemma route_cells_counted: "route_cells e since d r = counted_cells e since d r"
proof -
  have "map (\<lambda>s. h) (filter (unchanged_since (ag_first_start h)) (joined_sets d e r)) =
      replicate (since_change (db_sensor_sets d) e r (ag_first_start h)) h" for h :: stagnation_row
    by (simp add: map_replicate_const joined_sets_length)
  then have "counted_cells e since d r = joined_rows (\<lambda>h. since_change (db_sensor_sets d) e r (ag_first_start h))
      (filter (\<lambda>h. ag_event_id h = e \<and> ag_route_id h = r \<and> since \<le> ag_hour_start h) (db_stagnation d))"
    by (simp add: counted_cells_def joined_rows_def)
  also have "\<dots> = joined_rows (\<lambda>h. since_change (db_sensor_sets d) e (ag_route_id h) (ag_first_start h))
      (filter (\<lambda>h. ag_event_id h = e \<and> ag_route_id h = r \<and> since \<le> ag_hour_start h) (db_stagnation d))"
    by (rule joined_rows_cong) simp
  also have "\<dots> = route_cells e since d r"
    unfolding route_cells_def stagnation_cells_def filter_joined_rows filter_filter by (rule arg_cong [of _ _ "joined_rows _"]) (auto intro: filter_cong)
  finally show ?thesis ..
qed

text \<open>With one sensor set, or none, that is a selection of the stored cells.\<close>

lemma counted_cells_one:
  assumes "length (filter (\<lambda>s. sv_event_id s = e \<and> sv_route_id s = r) (db_sensor_sets d)) \<le> 1"
  shows "counted_cells e since d r = filter (\<lambda>h. ag_event_id h = e \<and> ag_route_id h = r \<and> since \<le> ag_hour_start h \<and>
    list_all (unchanged_since (ag_first_start h)) (joined_sets d e r)) (db_stagnation d)"
proof -
  from assms have "length (joined_sets d e r) = 1" by (auto simp: joined_sets_def Let_def le_Suc_eq)
  then obtain s where "joined_sets d e r = [s]" by (auto simp: length_Suc_conv)
  then have s: "joined_sets d e r = [s]" .
  have "concat (map (\<lambda>h. map (\<lambda>s. h) (filter (unchanged_since (ag_first_start h)) [s])) (filter P rows)) =
      filter (\<lambda>h. P h \<and> list_all (unchanged_since (ag_first_start h)) [s]) rows" for P and rows :: "stagnation_row list"
    by (induction rows) auto
  then show ?thesis by (simp add: counted_cells_def s)
qed

text \<open>The sums: over the rows of each bucket, and then over the buckets, as the two \<open>GROUP BY\<close> of the query.\<close>

abbreviation bucket_key :: "stagnation_row \<Rightarrow> f64" where
  "bucket_key r \<equiv> positive_zero (ag_stagnation_bucket r)"

definition bucket_sum :: "(stagnation_row \<Rightarrow> f64) \<Rightarrow> (stagnation_row \<Rightarrow> bool) \<Rightarrow> stagnation_row list \<Rightarrow> err + f64" where
  "bucket_sum f P rows =
     bindS (mapS (\<lambda>k. pg_sum (map f (filter (\<lambda>r. bucket_key r = k \<and> P r) rows))) (remdups (map bucket_key rows))) pg_sum"

definition regression_of :: "(stagnation_row \<Rightarrow> bool) \<Rightarrow> stagnation_row list \<Rightarrow> FlowRegression \<Rightarrow> bool" where
  "regression_of P rows reg \<longleftrightarrow> fr_SampleCount reg = samples (filter P rows) \<and>
     bucket_sum ag_stagnation_sum P rows = Inr (fr_StagnationSum reg) \<and> bucket_sum ag_flow_sum P rows = Inr (fr_FlowSum reg) \<and>
     bucket_sum ag_flow_square_sum P rows = Inr (fr_FlowSquareSum reg) \<and>
     bucket_sum ag_flow_stagnation_sum P rows = Inr (fr_FlowStagnationSum reg)"

definition summary_of :: "stagnation_row list \<Rightarrow> ArcHistory \<Rightarrow> bool" where
  "summary_of rows h \<longleftrightarrow> ah_SampleCount h = samples rows \<and> percentile_90 rows (ah_P90Stagnation h) \<and>
     ah_MeanStagnation h = fdiv (fr_StagnationSum (ah_Flow h)) (f_of_int (samples rows)) \<and>
     ah_FirstStart h = Min (ag_first_start ` set rows) \<and> ah_LastEnd h = Max (ag_last_end ` set rows) \<and>
     regression_of (\<lambda>r. True) rows (ah_Flow h) \<and> regression_of ag_same_sensor_flow rows (ah_SameSensorFlow h)"

lemma bucket_sum_field:
  assumes bs: "mapS stagnation_bucket (grouped bucket_key rows) = Inr bs" and sum: "pg_sum (map g bs) = Inr s"
    and field: "\<And>k rs b. stagnation_bucket (k, rs) = Inr b \<Longrightarrow> pg_sum (map f (filter P rs)) = Inr (g b)"
  shows "bucket_sum f P rows = Inr s"
proof -
  let ?keys = "remdups (map bucket_key rows)"
  have "list_all2 (\<lambda>k b. stagnation_bucket (k, filter (\<lambda>r. bucket_key r = k) rows) = Inr b) ?keys bs"
    using bs by (simp add: mapS_Inr grouped_def list_all2_map1)
  then have "list_all2 (\<lambda>k b. pg_sum (map f (filter (\<lambda>r. bucket_key r = k \<and> P r) rows)) = Inr (g b)) ?keys bs"
    by (rule list_all2_mono) (auto dest!: field simp: conj_commute)
  then have "mapS (\<lambda>k. pg_sum (map f (filter (\<lambda>r. bucket_key r = k \<and> P r) rows))) ?keys = Inr (map g bs)"
    by (simp add: mapS_Inr list_all2_map2)
  with sum show ?thesis by (simp add: bucket_sum_def)
qed

lemma least_time_Min: "xs \<noteq> [] \<Longrightarrow> least_time xs = Min (set xs)"
  by (cases xs) (simp_all add: least_time_def Min.set_eq_fold [symmetric] del: list.set)

lemma greatest_time_Max: "xs \<noteq> [] \<Longrightarrow> greatest_time xs = Max (set xs)"
  by (cases xs) (simp_all add: greatest_time_def Max.set_eq_fold [symmetric] del: list.set)

text \<open>The earliest time over the buckets is the earliest over their rows, and so is the latest.\<close>

lemma bucket_times:
  assumes all: "list_all2 (\<lambda>g b. stagnation_bucket g = Inr b) (grouped bucket_key rows) bs" and rows: "rows \<noteq> []"
  shows "least_time (map bk_first_start bs) = Min (ag_first_start ` set rows)"
    and "greatest_time (map bk_last_end bs) = Max (ag_last_end ` set rows)"
proof -
  have field: "bk_first_start b = Min (ag_first_start ` set rs) \<and> bk_last_end b = Max (ag_last_end ` set rs)"
    if "stagnation_bucket (k, rs) = Inr b" "rs \<noteq> []" for k rs b
    using that by (auto simp: stagnation_bucket_def bindS_Inr Let_def least_time_Min greatest_time_Max)
  have left: "\<exists>b \<in> set bs. bk_first_start b \<le> ag_first_start r \<and> ag_last_end r \<le> bk_last_end b" if "r \<in> set rows" for r
  proof -
    define rs where "rs = filter (\<lambda>q. bucket_key q = bucket_key r) rows"
    have "(bucket_key r, rs) \<in> set (grouped bucket_key rows)" using that by (auto simp: grouped_def rs_def)
    from list_all2_left [OF all this] obtain b where b: "b \<in> set bs" "stagnation_bucket (bucket_key r, rs) = Inr b"
      by blast
    have r: "r \<in> set rs" using that by (simp add: rs_def)
    then have "rs \<noteq> []" by auto
    from field [OF b(2) this] have "bk_first_start b = Min (ag_first_start ` set rs)" "bk_last_end b = Max (ag_last_end ` set rs)" by simp_all
    moreover have "Min (ag_first_start ` set rs) \<le> ag_first_start r" "ag_last_end r \<le> Max (ag_last_end ` set rs)"
      using r by (intro Min_le Max_ge; simp)+
    ultimately show ?thesis using b(1) by force
  qed
  have right: "bk_first_start b \<in> ag_first_start ` set rows \<and> bk_last_end b \<in> ag_last_end ` set rows" if "b \<in> set bs" for b
  proof -
    from list_all2_right [OF all that] obtain k rs where g: "(k, rs) \<in> set (grouped bucket_key rows)" "stagnation_bucket (k, rs) = Inr b" by auto
    from grouped_rows [OF g(1)] have rs: "rs \<noteq> []" "set rs \<subseteq> set rows" by auto
    have "Min (ag_first_start ` set rs) \<in> ag_first_start ` set rows" "Max (ag_last_end ` set rs) \<in> ag_last_end ` set rows"
      using rs(1) by (intro subsetD [OF image_mono [OF rs(2)]] Min_in Max_in; simp)+
    then show ?thesis using field [OF g(2) rs(1)] by simp
  qed
  have bs: "bs \<noteq> []" using left [of "hd rows"] rows by auto
  have "Min (bk_first_start ` set bs) = Min (ag_first_start ` set rows)" "Max (bk_last_end ` set bs) = Max (ag_last_end ` set rows)"
    using left right rows by (intro Min_cofinal Max_cofinal; fastforce)+
  with bs show "least_time (map bk_first_start bs) = Min (ag_first_start ` set rows)"
    "greatest_time (map bk_last_end bs) = Max (ag_last_end ` set rows)" by (simp_all add: least_time_Min greatest_time_Max)
qed

lemma arc_history_summary:
  assumes "arc_history (routeID, rows) = Inr h" and "rows \<noteq> []"
  shows "summary_of rows h"
proof -
  from assms(1) obtain bs where bs: "mapS stagnation_bucket (grouped bucket_key rows) = Inr bs"
    and sums: "pg_sum (map bk_stagnation_sum bs) = Inr (fr_StagnationSum (ah_Flow h))" "pg_sum (map bk_flow_sum bs) = Inr (fr_FlowSum (ah_Flow h))"
      "pg_sum (map bk_flow_square_sum bs) = Inr (fr_FlowSquareSum (ah_Flow h))"
      "pg_sum (map bk_flow_stagnation_sum bs) = Inr (fr_FlowStagnationSum (ah_Flow h))"
      "pg_sum (map bk_same_stagnation_sum bs) = Inr (fr_StagnationSum (ah_SameSensorFlow h))"
      "pg_sum (map bk_same_flow_sum bs) = Inr (fr_FlowSum (ah_SameSensorFlow h))"
      "pg_sum (map bk_same_flow_square_sum bs) = Inr (fr_FlowSquareSum (ah_SameSensorFlow h))"
      "pg_sum (map bk_same_flow_stagnation_sum bs) = Inr (fr_FlowStagnationSum (ah_SameSensorFlow h))"
    and same: "fr_SampleCount (ah_SameSensorFlow h) = sum_list (map bk_same_sample_count bs)"
    and times: "ah_FirstStart h = least_time (map bk_first_start bs)" "ah_LastEnd h = greatest_time (map bk_last_end bs)"
    by (auto simp: arc_history_def bindS_Inr Let_def split: option.splits)
  have all: "list_all2 (\<lambda>g b. stagnation_bucket g = Inr b) (grouped bucket_key rows) bs" using bs by (simp add: mapS_Inr)
  have field: "stagnation_bucket (k, rs) = Inr b \<Longrightarrow> pg_sum (map ag_stagnation_sum rs) = Inr (bk_stagnation_sum b) \<and>
      pg_sum (map ag_flow_sum rs) = Inr (bk_flow_sum b) \<and> pg_sum (map ag_flow_square_sum rs) = Inr (bk_flow_square_sum b) \<and>
      pg_sum (map ag_flow_stagnation_sum rs) = Inr (bk_flow_stagnation_sum b) \<and>
      pg_sum (map ag_stagnation_sum (filter ag_same_sensor_flow rs)) = Inr (bk_same_stagnation_sum b) \<and>
      pg_sum (map ag_flow_sum (filter ag_same_sensor_flow rs)) = Inr (bk_same_flow_sum b) \<and>
      pg_sum (map ag_flow_square_sum (filter ag_same_sensor_flow rs)) = Inr (bk_same_flow_square_sum b) \<and>
      pg_sum (map ag_flow_stagnation_sum (filter ag_same_sensor_flow rs)) = Inr (bk_same_flow_stagnation_sum b) \<and>
      bk_same_sample_count b = samples (filter ag_same_sensor_flow rs) \<and>
      bk_first_start b = least_time (map ag_first_start rs) \<and> bk_last_end b = greatest_time (map ag_last_end rs)" for k rs b
    by (auto simp: stagnation_bucket_def bindS_Inr Let_def samples_def)
  have regression: "regression_of (\<lambda>r. True) rows (ah_Flow h)"
    unfolding regression_of_def
    using arc_history_Inr(4) [OF assms(1)] bucket_sum_field [OF bs sums(1)] bucket_sum_field [OF bs sums(2)]
      bucket_sum_field [OF bs sums(3)] bucket_sum_field [OF bs sums(4)] field by simp
  have "list_all2 (\<lambda>g b. bk_same_sample_count b = samples (filter ag_same_sensor_flow (snd g))) (grouped bucket_key rows) bs"
    by (rule list_all2_mono [OF all]) (auto dest: field)
  then have "map bk_same_sample_count bs = map (\<lambda>g. samples (filter ag_same_sensor_flow (snd g))) (grouped bucket_key rows)"
    by (induction rule: list_all2_induct) simp_all
  moreover have "samples (filter ag_same_sensor_flow rs) = sum_list (map (\<lambda>r. if ag_same_sensor_flow r then ag_sample_count r else 0) rs)" for rs
    unfolding samples_def by (rule sum_list_map_filter') 
  moreover have "filter (\<lambda>r. bucket_key r \<in> bucket_key ` set rows) rows = rows" by (simp add: filter_id_conv)
  ultimately have "fr_SampleCount (ah_SameSensorFlow h) = samples (filter ag_same_sensor_flow rows)"
    using grouped_sum [of "remdups (map bucket_key rows)" "\<lambda>r. if ag_same_sensor_flow r then ag_sample_count r else 0" bucket_key rows]
    by (simp add: same grouped_def o_def)
  then have same_regression: "regression_of ag_same_sensor_flow rows (ah_SameSensorFlow h)"
    unfolding regression_of_def
    using bucket_sum_field [OF bs sums(5)] bucket_sum_field [OF bs sums(6)]
      bucket_sum_field [OF bs sums(7)] bucket_sum_field [OF bs sums(8)] field by simp
  show ?thesis
    unfolding summary_of_def
    using arc_history_Inr [OF assms(1)] regression same_regression bucket_times [OF all assms(2)] times by simp
qed

lemma select_arc_history_routes:
  assumes "select_arc_history coll e since d = Inr hs"
  shows "distinct (map ah_RouteID hs)" "sorted (map (\<lambda>h. coll (ah_RouteID h)) hs)"
    "set (map ah_RouteID hs) = {r. counted_cells e since d r \<noteq> []}"
proof -
  let ?groups = "sort_key (\<lambda>g. coll (fst g)) (grouped ag_route_id (stagnation_cells e since d))"
  have "list_all2 (\<lambda>g h. arc_history g = Inr h) ?groups hs"
    using assms by (simp add: select_arc_history_def mapS_Inr)
  then have "list_all2 (\<lambda>g h. ah_RouteID h = fst g) ?groups hs"
    by (rule list_all2_mono) (auto dest: arc_history_Inr(1))
  then have routes: "map ah_RouteID hs = map fst ?groups" by (induction rule: list_all2_induct) simp_all
  then show "distinct (map ah_RouteID hs)"
    using distinct_grouped [of ag_route_id "stagnation_cells e since d"] by (simp add: distinct_map)
  have "map (\<lambda>h. coll (ah_RouteID h)) hs = map (\<lambda>g. coll (fst g)) ?groups"
    using arg_cong [OF routes, of "map coll"] by (simp add: o_def)
  then show "sorted (map (\<lambda>h. coll (ah_RouteID h)) hs)" by simp
  show "set (map ah_RouteID hs) = {r. counted_cells e since d r \<noteq> []}"
    unfolding routes route_cells_counted [symmetric] route_cells_def by (auto simp: filter_empty_conv)
qed

text \<open>C29. The arc history of an event is, for each route with cells that count (of the event, in the hours asked for, begun no earlier than
  the sensors of the route changed) and for no other, once and in the order of the route IDs, the summary of those cells: the number of
  samples; the 90th percentile as the least stored bucket that nine in ten samples lie in or below; the mean as the sum of the stagnation
  over that number; the first start and the last end; and the sums of both regressions, the second over the cells of same-sensor flow.
  Reading it changes nothing.\<close>

theorem SummarizeArcHistory_spec:
  assumes "SummarizeArcHistory ts coll ctx e since w = (Inr hs, w')"
  shows "distinct (map ah_RouteID hs) \<and> sorted (map (\<lambda>h. coll (ah_RouteID h)) hs) \<and>
    set (map ah_RouteID hs) = {r. counted_cells e (ts since) (w_db w) r \<noteq> []} \<and>
    list_all (\<lambda>h. summary_of (counted_cells e (ts since) (w_db w) (ah_RouteID h)) h) hs \<and> w_db w' = w_db w"
  using assms
proof (rule SummarizeArcHistory_Inr)
  fix rows flowDwell
  assume sel: "select_arc_history coll e (ts since) (w_db w) = Inr rows" and db: "w_db w' = w_db w"
    and hs: "hs = map (\<lambda>h. h\<lparr>ah_FlowDwell := (case map_of flowDwell (ah_RouteID h) of None \<Rightarrow> zero_flow_dwell | Some s \<Rightarrow> s)\<rparr>) rows"
  have routes: "map ah_RouteID hs = map ah_RouteID rows" "map (\<lambda>h. coll (ah_RouteID h)) hs = map (\<lambda>h. coll (ah_RouteID h)) rows"
    by (simp_all add: hs)
  have "summary_of (counted_cells e (ts since) (w_db w) (ah_RouteID h)) h" if "h \<in> set rows" for h
  proof -
    have "counted_cells e (ts since) (w_db w) (ah_RouteID h) \<noteq> []" using select_arc_history_routes(3) [OF sel] that by force
    with arc_history_summary [OF select_arc_history_Inr [OF sel that]] show ?thesis by (simp add: route_cells_counted)
  qed
  then have "list_all (\<lambda>h. summary_of (counted_cells e (ts since) (w_db w) (ah_RouteID h)) h) hs"
    by (simp add: hs list_all_iff summary_of_def)
  with select_arc_history_routes [OF sel] db show ?thesis unfolding routes by blast
qed

subsection \<open>The two tables count the same samples\<close>

definition stagnation_count :: "database \<Rightarrow> string \<Rightarrow> string \<Rightarrow> int" where
  "stagnation_count d eventID routeID =
     sum_list (map ag_sample_count (filter (\<lambda>r. ag_event_id r = eventID \<and> ag_route_id r = routeID) (db_stagnation d)))"

definition dwell_count :: "database \<Rightarrow> string \<Rightarrow> string \<Rightarrow> int" where
  "dwell_count d eventID routeID =
     sum_list (map dw_sample_count (filter (\<lambda>r. dw_event_id r = eventID \<and> dw_route_id r = routeID) (db_flow_dwell d)))"

definition arcs_inv :: "database \<Rightarrow> bool" where
  "arcs_inv d \<longleftrightarrow> (\<forall>eventID routeID. stagnation_count d eventID routeID = dwell_count d eventID routeID) \<and>
     list_all (\<lambda>r. 1 \<le> ag_sample_count r) (db_stagnation d) \<and> list_all (\<lambda>r. 1 \<le> dw_sample_count r) (db_flow_dwell d)"

text \<open>The number of samples that a snapshot has of a route.\<close>

definition route_samples :: "Snapshot \<Rightarrow> string \<Rightarrow> string \<Rightarrow> int" where
  "route_samples snapshot eventID routeID = (if sn_EventID snapshot \<noteq> eventID then 0
     else int (length (filter (\<lambda>s. rs_RouteID s = routeID \<and> rs_StagnationScore s \<noteq> None) (sn_RouteScores snapshot))))"

lemma upsert_row_count:
  fixes f :: "'r \<Rightarrow> int"
  assumes "upsert_row same merge new rows = Inr rows'"
    and "\<And>h h'. same h \<Longrightarrow> merge h = Inr h' \<Longrightarrow> P h = P new \<and> P h' = P new \<and> f h' = f h + f new"
  shows "sum_list (map f (filter P rows')) = sum_list (map f (filter P rows)) + (if P new then f new else 0)"
  using assms(1)
proof (induction rows arbitrary: rows')
  case (Cons h rows)
  then show ?case using assms(2) by (auto simp: bindS_Inr split: if_splits)
qed auto

lemma upsert_row_all:
  assumes "upsert_row same merge new rows = Inr rows'" and "list_all Q rows" and "Q new"
    and "\<And>h h'. Q h \<Longrightarrow> merge h = Inr h' \<Longrightarrow> Q h'"
  shows "list_all Q rows'"
  using assms(1,2)
proof (induction rows arbitrary: rows')
  case (Cons h rows)
  then show ?case using assms(4) by (auto simp: bindS_Inr split: if_splits)
qed (use assms(3) in auto)

lemma merge_stagnation_Inr:
  "merge_stagnation h n = Inr h' \<Longrightarrow> ag_event_id h' = ag_event_id h \<and> ag_route_id h' = ag_route_id h \<and>
     ag_sample_count h' = ag_sample_count h + 1"
  by (auto simp: merge_stagnation_def bindS_Inr split: if_splits)

lemma merge_dwell_Inr:
  "merge_dwell h n = Inr h' \<Longrightarrow> dw_event_id h' = dw_event_id h \<and> dw_route_id h' = dw_route_id h \<and>
     dw_sample_count h' = dw_sample_count h + 1"
  by (auto simp: merge_dwell_def split: if_splits)

definition same_but_arcs :: "database \<Rightarrow> database \<Rightarrow> bool" where
  "same_but_arcs d d' \<longleftrightarrow> d'\<lparr>db_stagnation := [], db_flow_dwell := []\<rparr> = d\<lparr>db_stagnation := [], db_flow_dwell := []\<rparr>"

text \<open>One sample more of one route, in both tables.\<close>

definition counts_more :: "string \<Rightarrow> (string \<Rightarrow> int) \<Rightarrow> database \<Rightarrow> database \<Rightarrow> bool" where
  "counts_more eventID k d d' \<longleftrightarrow> same_but_arcs d d' \<and> (arcs_inv d \<longrightarrow> arcs_inv d') \<and>
     (\<forall>e r. stagnation_count d' e r = stagnation_count d e r + (if e = eventID then k r else 0))"

lemma upsert_stagnation_count:
  assumes "upsert_stagnation new d = Inr ((), d')" and "ag_sample_count new = 1"
  shows "stagnation_count d' e r = stagnation_count d e r + (if ag_event_id new = e \<and> ag_route_id new = r then 1 else 0)"
    and "db_flow_dwell d' = db_flow_dwell d" and "same_but_arcs d d'"
    and "list_all (\<lambda>r. 1 \<le> ag_sample_count r) (db_stagnation d) \<Longrightarrow> list_all (\<lambda>r. 1 \<le> ag_sample_count r) (db_stagnation d')"
proof -
  from assms(1) obtain rows where rows: "upsert_row (same_stagnation_cell new) (\<lambda>h. merge_stagnation h new) new (db_stagnation d) = Inr rows"
    and d': "d' = d\<lparr>db_stagnation := rows\<rparr>" by (auto simp: upsert_stagnation_def bindS_Inr)
  show "stagnation_count d' e r = stagnation_count d e r + (if ag_event_id new = e \<and> ag_route_id new = r then 1 else 0)"
  proof -
    let ?P = "\<lambda>r'. ag_event_id r' = e \<and> ag_route_id r' = r"
    have "?P h = ?P new \<and> ?P h' = ?P new \<and> ag_sample_count h' = ag_sample_count h + ag_sample_count new"
      if "same_stagnation_cell new h" "merge_stagnation h new = Inr h'" for h h'
      using that(1) merge_stagnation_Inr [OF that(2)] assms(2) by (simp add: same_stagnation_cell_def)
    from upsert_row_count [where P = ?P and f = ag_sample_count, OF rows this] show ?thesis
      unfolding stagnation_count_def d' using assms(2) by simp
  qed
  show "db_flow_dwell d' = db_flow_dwell d" "same_but_arcs d d'" by (simp_all add: d' same_but_arcs_def)
  show "list_all (\<lambda>r. 1 \<le> ag_sample_count r) (db_stagnation d) \<Longrightarrow> list_all (\<lambda>r. 1 \<le> ag_sample_count r) (db_stagnation d')"
  proof -
    assume ok: "list_all (\<lambda>r. 1 \<le> ag_sample_count r) (db_stagnation d)"
    have "list_all (\<lambda>r. 1 \<le> ag_sample_count r) rows"
    proof (rule upsert_row_all [OF rows ok])
      show "1 \<le> ag_sample_count h'" if "1 \<le> ag_sample_count h" "merge_stagnation h new = Inr h'" for h h'
        using that(1) merge_stagnation_Inr [OF that(2)] by simp
    qed (simp add: assms(2))
    then show ?thesis by (simp add: d')
  qed
qed

lemma upsert_flow_dwell_count:
  assumes "upsert_flow_dwell new d = Inr ((), d')" and "dw_sample_count new = 1"
  shows "dwell_count d' e r = dwell_count d e r + (if dw_event_id new = e \<and> dw_route_id new = r then 1 else 0)"
    and "db_stagnation d' = db_stagnation d" and "same_but_arcs d d'"
    and "list_all (\<lambda>r. 1 \<le> dw_sample_count r) (db_flow_dwell d) \<Longrightarrow> list_all (\<lambda>r. 1 \<le> dw_sample_count r) (db_flow_dwell d')"
proof -
  from assms(1) obtain rows where rows: "upsert_row (same_dwell_cell new) (\<lambda>h. merge_dwell h new) new (db_flow_dwell d) = Inr rows"
    and d': "d' = d\<lparr>db_flow_dwell := rows\<rparr>" by (auto simp: upsert_flow_dwell_def bindS_Inr)
  show "dwell_count d' e r = dwell_count d e r + (if dw_event_id new = e \<and> dw_route_id new = r then 1 else 0)"
  proof -
    let ?P = "\<lambda>r'. dw_event_id r' = e \<and> dw_route_id r' = r"
    have "?P h = ?P new \<and> ?P h' = ?P new \<and> dw_sample_count h' = dw_sample_count h + dw_sample_count new"
      if "same_dwell_cell new h" "merge_dwell h new = Inr h'" for h h'
      using that(1) merge_dwell_Inr [OF that(2)] assms(2) by (simp add: same_dwell_cell_def)
    from upsert_row_count [where P = ?P and f = dw_sample_count, OF rows this] show ?thesis
      unfolding dwell_count_def d' using assms(2) by simp
  qed
  show "db_stagnation d' = db_stagnation d" "same_but_arcs d d'" by (simp_all add: d' same_but_arcs_def)
  show "list_all (\<lambda>r. 1 \<le> dw_sample_count r) (db_flow_dwell d) \<Longrightarrow> list_all (\<lambda>r. 1 \<le> dw_sample_count r) (db_flow_dwell d')"
  proof -
    assume ok: "list_all (\<lambda>r. 1 \<le> dw_sample_count r) (db_flow_dwell d)"
    have "list_all (\<lambda>r. 1 \<le> dw_sample_count r) rows"
    proof (rule upsert_row_all [OF rows ok])
      show "1 \<le> dw_sample_count h'" if "1 \<le> dw_sample_count h" "merge_dwell h new = Inr h'" for h h'
        using that(1) merge_dwell_Inr [OF that(2)] by simp
    qed (simp add: assms(2))
    then show ?thesis by (simp add: d')
  qed
qed

lemma record_route_Inr:
  assumes "record_route ts ln_pow snapshot score w = (Inr u, w')"
  shows "counts_more (sn_EventID snapshot) (\<lambda>r. if rs_RouteID score = r \<and> rs_StagnationScore score \<noteq> None then 1 else 0)
    (w_db w) (w_db w')"
proof (cases "rs_StagnationScore score")
  case None
  with assms show ?thesis by (simp add: record_route_def counts_more_def same_but_arcs_def)
next
  case (Some stagnation)
  let ?start = "ts (sn_WindowStart snapshot)" and ?fin = "ts (sn_WindowEnd snapshot)" and ?flow = "fadd (rs_Forward score) (rs_Backward score)"
  from assms Some obtain w1 where
    first: "sql (\<lambda>d. bindS (stagnation_sample ln_pow (sn_EventID snapshot) ?start (rs_RouteID score) stagnation ?fin ?flow
        (rs_SameSensorFlow score)) (\<lambda>row. upsert_stagnation row d)) w = (Inr (), w1)"
    and second: "sql (\<lambda>d. bindS (flow_dwell_sample ln_pow (sn_EventID snapshot) ?start (rs_RouteID score) stagnation ?flow ?fin)
        (\<lambda>row. upsert_flow_dwell row d)) w1 = (Inr (), w')"
    by (auto simp: record_route_def Let_def bindE_Inr)
  from first obtain row where 1: "upsert_stagnation row (w_db w) = Inr ((), w_db w1)"
    "ag_event_id row = sn_EventID snapshot" "ag_route_id row = rs_RouteID score" "ag_sample_count row = 1"
    by (auto simp: sql_Inr bindS_Inr stagnation_sample_def)
  from second obtain row2 where 2: "upsert_flow_dwell row2 (w_db w1) = Inr ((), w_db w')"
    "dw_event_id row2 = sn_EventID snapshot" "dw_route_id row2 = rs_RouteID score" "dw_sample_count row2 = 1"
    by (auto simp: sql_Inr bindS_Inr flow_dwell_sample_def)
  note s = upsert_stagnation_count [OF 1(1,4)] and t = upsert_flow_dwell_count [OF 2(1,4)]
  have "same_but_arcs (w_db w) (w_db w')" using s(3) t(3) by (simp add: same_but_arcs_def)
  moreover have "stagnation_count (w_db w') e r = stagnation_count (w_db w1) e r" for e r
    using t(2) by (simp add: stagnation_count_def)
  moreover have "dwell_count (w_db w1) e r = dwell_count (w_db w) e r" for e r
    using s(2) by (simp add: dwell_count_def)
  ultimately show ?thesis
    using s t 1(2,3) 2(2,3) Some by (simp add: counts_more_def arcs_inv_def)
qed

lemma record_routes_Inr:
  "forE (record_route ts ln_pow snapshot) scores w = (Inr u, w') \<Longrightarrow>
     counts_more (sn_EventID snapshot) (\<lambda>r. int (length (filter (\<lambda>s. rs_RouteID s = r \<and> rs_StagnationScore s \<noteq> None) scores)))
       (w_db w) (w_db w')"
proof (induction scores arbitrary: w)
  case Nil
  then show ?case by (simp add: counts_more_def same_but_arcs_def)
next
  case (Cons s scores)
  then obtain w1 where "record_route ts ln_pow snapshot s w = (Inr (), w1)" "forE (record_route ts ln_pow snapshot) scores w1 = (Inr u, w')"
    by (auto simp: bindE_Inr)
  from record_route_Inr [OF this(1)] Cons.IH [OF this(2)] show ?case
    by (auto simp: counts_more_def same_but_arcs_def)
qed

end
