(* ===== verification/SensorSets.thy ===== *)
theory SensorSets
  imports Snapshot "HOL-Library.Multiset"
begin

section \<open>domain/sensor\_set.go: which sensors a score was measured with\<close>

text \<open>
  A change of the set of observation points behind an anchor makes older scores incomparable.
  \<open>TrackSensorSets\<close> merges the sets of this window into the recorded ones and says which changed;
  \<open>HistorySinceSensorSetChanges\<close> drops the scores that predate the last change of their anchor.
\<close>

definition track_step ::
  "time \<Rightarrow> SensorSet \<Rightarrow> (GraphAnchor \<times> SensorSet) list \<times> SensorSet list
     \<Rightarrow> (GraphAnchor \<times> SensorSet) list \<times> SensorSet list" where
  "track_step t s acc =
     (let (byAnchor, updated) = acc in
      case map_of byAnchor (ss_Anchor s) of
        None \<Rightarrow>
          let s = s\<lparr>ss_ChangedAt := 0\<rparr> in (AList.update (ss_Anchor s) s byAnchor, updated @ [s])
      | Some previous \<Rightarrow>
          if ss_ObservationPointIDs previous = ss_ObservationPointIDs s then (byAnchor, updated)
          else let s = s\<lparr>ss_ChangedAt := t\<rparr> in (AList.update (ss_Anchor s) s byAnchor, updated @ [s]))"

definition index_sets :: "SensorSet list \<Rightarrow> (GraphAnchor \<times> SensorSet) list" where
  "index_sets recorded = fold (\<lambda>s. AList.update (ss_Anchor s) s) recorded []"

definition TrackSensorSets ::
  "SensorSet list \<Rightarrow> SensorSet list \<Rightarrow> time \<Rightarrow> SensorSet list \<times> SensorSet list" where
  "TrackSensorSets recorded composed t =
     (let (byAnchor, updated) = fold (track_step t) composed (index_sets recorded, [])
      in (sort_key ss_Anchor (map snd byAnchor), updated))"

definition SensorSetsChangedAfter :: "SensorSet list \<Rightarrow> time \<Rightarrow> SensorSet list" where
  "SensorSetsChangedAfter sets after = filter (\<lambda>s. after < ss_ChangedAt s) sets"

definition changed_at :: "SensorSet list \<Rightarrow> (GraphAnchor \<rightharpoonup> time)" where
  "changed_at sets =
     fold (\<lambda>s m. if ss_ChangedAt s \<noteq> 0 then m(ss_Anchor s \<mapsto> ss_ChangedAt s) else m) sets Map.empty"

definition predates :: "(GraphAnchor \<rightharpoonup> time) \<Rightarrow> Snapshot \<Rightarrow> GraphAnchor \<Rightarrow> bool" where
  "predates changedAt snapshot anchor =
     (case changedAt anchor of None \<Rightarrow> False | Some t \<Rightarrow> sn_WindowEnd snapshot < t)"

definition HistorySinceSensorSetChanges :: "Snapshot list \<Rightarrow> SensorSet list \<Rightarrow> Snapshot list" where
  "HistorySinceSensorSetChanges history sets =
     (let changedAt = changed_at sets in
      map (\<lambda>snapshot. snapshot\<lparr>
          sn_PointScores := filter (\<lambda>s. \<not> predates changedAt snapshot (GraphAnchor (ps_PointID s) ''''))
            (sn_PointScores snapshot),
          sn_RouteScores := filter (\<lambda>s. \<not> predates changedAt snapshot (GraphAnchor '''' (rs_RouteID s)))
            (sn_RouteScores snapshot)\<rparr>) history)"

subsection \<open>Looking up the set of an anchor\<close>

definition set_of :: "GraphAnchor \<Rightarrow> SensorSet list \<Rightarrow> SensorSet option" where
  "set_of a sets = List.find (\<lambda>s. ss_Anchor s = a) sets"

definition keyed :: "(GraphAnchor \<times> SensorSet) list \<Rightarrow> bool" where
  "keyed xs \<longleftrightarrow> distinct (map fst xs) \<and> map fst xs = map (ss_Anchor \<circ> snd) xs"

lemma set_of_simps [simp]:
  "set_of a [] = None" "set_of a (s # sets) = (if ss_Anchor s = a then Some s else set_of a sets)"
  by (simp_all add: set_of_def)

lemma set_of_None: "set_of a sets = None \<longleftrightarrow> a \<notin> ss_Anchor ` set sets"
  by (induction sets) auto

lemma set_of_append: "set_of a (xs @ ys) = (case set_of a xs of Some s \<Rightarrow> Some s | None \<Rightarrow> set_of a ys)"
  by (induction xs) simp_all

lemma set_of_Some: "set_of a sets = Some s \<Longrightarrow> s \<in> set sets \<and> ss_Anchor s = a"
  by (auto simp: set_of_def dest: find_Some_in)

lemma set_of_distinct: "distinct (map ss_Anchor sets) \<Longrightarrow> s \<in> set sets \<Longrightarrow> set_of (ss_Anchor s) sets = Some s"
  unfolding set_of_def by (rule find_unique [where g = ss_Anchor]) auto

lemma set_of_rev: "distinct (map ss_Anchor sets) \<Longrightarrow> set_of a (rev sets) = set_of a sets"
proof (cases "set_of a sets")
  case None
  then have "a \<notin> ss_Anchor ` set (rev sets)" by (simp add: set_of_None)
  then show ?thesis using None set_of_None by metis
next
  case (Some s)
  assume "distinct (map ss_Anchor sets)"
  then have "distinct (map ss_Anchor (rev sets))" by (metis distinct_rev rev_map)
  moreover have "s \<in> set (rev sets)" "ss_Anchor s = a" using set_of_Some [OF Some] by simp_all
  ultimately show ?thesis using Some set_of_distinct by metis
qed

lemma keyed_entry: "keyed xs \<Longrightarrow> (k, s) \<in> set xs \<Longrightarrow> ss_Anchor s = k"
  by (auto simp: keyed_def)

lemma keyed_intro: "distinct (map fst xs) \<Longrightarrow> (\<And>k s. (k, s) \<in> set xs \<Longrightarrow> ss_Anchor s = k) \<Longrightarrow> keyed xs"
  by (auto simp: keyed_def)

lemma keyed_update: "keyed xs \<Longrightarrow> ss_Anchor s = a \<Longrightarrow> keyed (AList.update a s xs)"
proof (rule keyed_intro)
  assume k: "keyed xs" "ss_Anchor s = a"
  show "distinct (map fst (AList.update a s xs))" using k by (simp add: keyed_def distinct_update)
  fix k t assume t: "(k, t) \<in> set (AList.update a s xs)"
  have "set (AList.update a s xs) \<subseteq> insert (a, s) (set xs)" by (induction xs) auto
  with t k show "ss_Anchor t = k" by (auto dest: keyed_entry)
qed

lemma keyed_index: "keyed (index_sets recorded)"
proof -
  have "keyed xs \<Longrightarrow> keyed (fold (\<lambda>s. AList.update (ss_Anchor s) s) recorded xs)" for xs
    by (induction recorded arbitrary: xs) (simp_all add: keyed_update)
  from this [of "[]"] show ?thesis unfolding index_sets_def by (simp add: keyed_def)
qed

lemma index_lookup: "map_of (index_sets recorded) a = set_of a (rev recorded)"
proof -
  have "map_of (fold (\<lambda>s. AList.update (ss_Anchor s) s) recorded xs) a =
      (case set_of a (rev recorded) of Some s \<Rightarrow> Some s | None \<Rightarrow> map_of xs a)" for xs
    by (induction recorded arbitrary: xs)
      (auto simp: set_of_append update_conv' split: option.split)
  then show ?thesis by (simp add: index_sets_def split: option.split)
qed

lemma index_distinct:
  "distinct (map ss_Anchor sets) \<Longrightarrow> index_sets sets = map (\<lambda>s. (ss_Anchor s, s)) sets"
proof -
  have "distinct (map fst xs @ map ss_Anchor sets) \<Longrightarrow>
      fold (\<lambda>s. AList.update (ss_Anchor s) s) sets xs = xs @ map (\<lambda>s. (ss_Anchor s, s)) sets" for xs
  proof (induction sets arbitrary: xs)
    case (Cons s sets)
    have "AList.update (ss_Anchor s) s xs = xs @ [(ss_Anchor s, s)]"
      using Cons.prems by (induction xs) auto
    with Cons show ?case by simp
  qed simp
  then show "distinct (map ss_Anchor sets) \<Longrightarrow> ?thesis" by (simp add: index_sets_def)
qed

lemma sort_keyed_lookup:
  assumes "keyed xs"
  shows "set_of a (sort_key ss_Anchor (map snd xs)) = map_of xs a"
    and "sorted (map ss_Anchor (sort_key ss_Anchor (map snd xs)))"
    and "distinct (map ss_Anchor (sort_key ss_Anchor (map snd xs)))"
proof -
  let ?l = "sort_key ss_Anchor (map snd xs)"
  have "mset (map ss_Anchor ?l) = mset (map (ss_Anchor \<circ> snd) xs)" by (simp add: multiset.map_comp)
  also have "map (ss_Anchor \<circ> snd) xs = map fst xs" using assms unfolding keyed_def by metis
  finally have anchors: "mset (map ss_Anchor ?l) = mset (map fst xs)" .
  show d: "distinct (map ss_Anchor ?l)" using anchors assms by (metis keyed_def mset_eq_imp_distinct_iff)
  show "sorted (map ss_Anchor ?l)" by simp
  show "set_of a ?l = map_of xs a"
  proof (cases "map_of xs a")
    case None
    then have "a \<notin> set (map ss_Anchor ?l)" by (metis anchors map_of_eq_None_iff mset_eq_setD image_set)
    then show ?thesis using None by (auto simp: set_of_def find_None_iff_all)
  next
    case (Some s)
    then have "(a, s) \<in> set xs" by (rule map_of_SomeD)
    then have "s \<in> set ?l" "ss_Anchor s = a" using keyed_entry [OF assms] by force+
    with set_of_distinct [OF d] Some show ?thesis by metis
  qed
qed

subsection \<open>Tracking\<close>

definition tracked_set :: "time \<Rightarrow> SensorSet option \<Rightarrow> SensorSet \<Rightarrow> SensorSet" where
  "tracked_set t previous s =
     (case previous of
        None \<Rightarrow> s\<lparr>ss_ChangedAt := 0\<rparr>
      | Some p \<Rightarrow> if ss_ObservationPointIDs p = ss_ObservationPointIDs s then p else s\<lparr>ss_ChangedAt := t\<rparr>)"

lemma tracked_set_ids [simp]:
  "ss_ObservationPointIDs (tracked_set t p s) = ss_ObservationPointIDs s"
  by (simp add: tracked_set_def split: option.split)

lemma track_step_lookup:
  "map_of (fst (track_step t s (xs, us))) a =
     (if a = ss_Anchor s then Some (tracked_set t (map_of xs a) s) else map_of xs a)"
  by (simp add: track_step_def tracked_set_def Let_def update_conv' split: option.split)

lemma track_step_keyed: "keyed xs \<Longrightarrow> keyed (fst (track_step t s (xs, us)))"
  by (simp add: track_step_def Let_def keyed_update split: option.split)

lemma track_step_updated:
  "snd (track_step t s (xs, us)) = us @
     (if map_of xs (ss_Anchor s) = Some (tracked_set t (map_of xs (ss_Anchor s)) s)
        \<and> (\<exists>p. map_of xs (ss_Anchor s) = Some p \<and> ss_ObservationPointIDs p = ss_ObservationPointIDs s)
      then [] else [tracked_set t (map_of xs (ss_Anchor s)) s])"
  by (auto simp: track_step_def tracked_set_def Let_def split: option.splits)

lemma fold_track:
  assumes "distinct (map ss_Anchor composed)" and "keyed xs"
  shows "keyed (fst (fold (track_step t) composed (xs, us))) \<and>
    (\<forall>a. map_of (fst (fold (track_step t) composed (xs, us))) a =
      (case set_of a composed of None \<Rightarrow> map_of xs a | Some s \<Rightarrow> Some (tracked_set t (map_of xs a) s))) \<and>
    snd (fold (track_step t) composed (xs, us)) = us @
      List.map_filter (\<lambda>s. case map_of xs (ss_Anchor s) of
          Some p \<Rightarrow> if ss_ObservationPointIDs p = ss_ObservationPointIDs s then None else Some (tracked_set t (Some p) s)
        | None \<Rightarrow> Some (tracked_set t None s)) composed"
  using assms
proof (induction composed arbitrary: xs us)
  case (Cons s composed)
  obtain ys vs where step: "track_step t s (xs, us) = (ys, vs)" by fastforce
  have lookup: "map_of ys a = (if a = ss_Anchor s then Some (tracked_set t (map_of xs a) s) else map_of xs a)" for a
    using track_step_lookup [of t s xs us a] step by simp
  have vs: "vs = us @ (case map_of xs (ss_Anchor s) of
          Some p \<Rightarrow> if ss_ObservationPointIDs p = ss_ObservationPointIDs s then [] else [tracked_set t (Some p) s]
        | None \<Rightarrow> [tracked_set t None s])"
    using track_step_updated [of t s xs us] step by (auto simp: tracked_set_def split: option.splits)
  have fresh: "set_of (ss_Anchor s) composed = None"
    using Cons.prems(1) by (simp add: set_of_None)
  have same: "List.map_filter (\<lambda>s. f (map_of ys (ss_Anchor s)) s) composed =
      List.map_filter (\<lambda>s. f (map_of xs (ss_Anchor s)) s) composed" for f :: "SensorSet option \<Rightarrow> SensorSet \<Rightarrow> SensorSet option"
    using Cons.prems(1) lookup by (induction composed) (auto simp: List.map_filter_simps split: option.split)
  have "keyed ys" using track_step_keyed [OF Cons.prems(2), of t s us] step by simp
  with Cons.IH [of ys vs] Cons.prems(1) have IH: "keyed (fst (fold (track_step t) composed (ys, vs))) \<and>
    (\<forall>a. map_of (fst (fold (track_step t) composed (ys, vs))) a =
      (case set_of a composed of None \<Rightarrow> map_of ys a | Some s \<Rightarrow> Some (tracked_set t (map_of ys a) s))) \<and>
    snd (fold (track_step t) composed (ys, vs)) = vs @
      List.map_filter (\<lambda>s. case map_of ys (ss_Anchor s) of
          Some p \<Rightarrow> if ss_ObservationPointIDs p = ss_ObservationPointIDs s then None else Some (tracked_set t (Some p) s)
        | None \<Rightarrow> Some (tracked_set t None s)) composed" by simp
  have "set_of a composed = Some u \<Longrightarrow> a \<noteq> ss_Anchor s" for a u
    using fresh by auto
  with IH show ?case
    unfolding fold_simps step same [of "\<lambda>m s. case m of
          Some p \<Rightarrow> if ss_ObservationPointIDs p = ss_ObservationPointIDs s then None else Some (tracked_set t (Some p) s)
        | None \<Rightarrow> Some (tracked_set t None s)"]
    using fresh by (auto simp: lookup vs List.map_filter_simps split: option.splits)
qed (simp add: List.map_filter_simps)

lemma TrackSensorSets_lookup:
  assumes "distinct (map ss_Anchor composed)" and "TrackSensorSets recorded composed t = (tracked, updated)"
  shows "sorted (map ss_Anchor tracked)" and "distinct (map ss_Anchor tracked)"
    and "set_of a tracked = (case set_of a composed of None \<Rightarrow> set_of a (rev recorded)
           | Some s \<Rightarrow> Some (tracked_set t (set_of a (rev recorded)) s))"
    and "updated = List.map_filter (\<lambda>s. case set_of (ss_Anchor s) (rev recorded) of
          Some p \<Rightarrow> if ss_ObservationPointIDs p = ss_ObservationPointIDs s then None else Some (tracked_set t (Some p) s)
        | None \<Rightarrow> Some (tracked_set t None s)) composed"
proof -
  note f = fold_track [OF assms(1) keyed_index [of recorded], of t "[]", unfolded index_lookup]
  have t: "tracked = sort_key ss_Anchor (map snd (fst (fold (track_step t) composed (index_sets recorded, []))))"
    and u: "updated = snd (fold (track_step t) composed (index_sets recorded, []))"
    using assms(2) by (auto simp: TrackSensorSets_def split: prod.splits)
  note l = sort_keyed_lookup [OF conjunct1 [OF f]]
  show "sorted (map ss_Anchor tracked)" "distinct (map ss_Anchor tracked)" unfolding t by (rule l)+
  show "set_of a tracked = (case set_of a composed of None \<Rightarrow> set_of a (rev recorded)
           | Some s \<Rightarrow> Some (tracked_set t (set_of a (rev recorded)) s))"
    unfolding t l(1) using f by blast
  show "updated = List.map_filter (\<lambda>s. case set_of (ss_Anchor s) (rev recorded) of
          Some p \<Rightarrow> if ss_ObservationPointIDs p = ss_ObservationPointIDs s then None else Some (tracked_set t (Some p) s)
        | None \<Rightarrow> Some (tracked_set t None s)) composed"
    unfolding u using f by simp
qed

lemma changed_at_lookup:
  assumes "distinct (map ss_Anchor sets)"
  shows "changed_at sets a =
    (case set_of a sets of Some s \<Rightarrow> if ss_ChangedAt s \<noteq> 0 then Some (ss_ChangedAt s) else None | None \<Rightarrow> None)"
proof -
  have "fold (\<lambda>s m. if ss_ChangedAt s \<noteq> 0 then m(ss_Anchor s \<mapsto> ss_ChangedAt s) else m) sets m a =
    (case set_of a sets of Some s \<Rightarrow> if ss_ChangedAt s \<noteq> 0 then Some (ss_ChangedAt s) else m a | None \<Rightarrow> m a)" for m
    using assms
  proof (induction sets arbitrary: m)
    case (Cons s sets)
    then have "set_of (ss_Anchor s) sets = None" by (simp add: set_of_None)
    with Cons show ?case by (auto split: option.split)
  qed simp
  from this [of Map.empty] show ?thesis by (simp add: changed_at_def)
qed

text \<open>C18. One window's tracking: the tracked sets are sorted by anchor and have one set per
  anchor; an anchor that was not composed keeps its recorded set; a new anchor gets its set with no change
  time; an anchor with the same sensors keeps its recorded set and change time; and one whose sensors
  differ gets the new set, changed at this window. Exactly the new and the changed sets are updates.\<close>

theorem TrackSensorSets_spec:
  assumes "distinct (map ss_Anchor composed)" and "TrackSensorSets recorded composed t = (tracked, updated)"
  shows "sorted_wrt (<) (map ss_Anchor tracked) \<and>
    (\<forall>a. set_of a tracked =
      (case (set_of a composed, set_of a (rev recorded)) of
         (None, previous) \<Rightarrow> previous
       | (Some s, None) \<Rightarrow> Some (s\<lparr>ss_ChangedAt := 0\<rparr>)
       | (Some s, Some previous) \<Rightarrow>
           if ss_ObservationPointIDs previous = ss_ObservationPointIDs s then Some previous
           else Some (s\<lparr>ss_ChangedAt := t\<rparr>))) \<and>
    map ss_Anchor updated = filter (\<lambda>a. map_option ss_ObservationPointIDs (set_of a (rev recorded)) \<noteq>
        map_option ss_ObservationPointIDs (set_of a composed)) (map ss_Anchor composed)"
proof -
  note l = TrackSensorSets_lookup [OF assms]
  have "sorted_wrt (<) (map ss_Anchor tracked)" using l(1,2) by (simp add: strict_sorted_iff)
  moreover have "set_of (ss_Anchor s) composed = Some s" if "s \<in> set composed" for s
    using assms(1) that by (rule set_of_distinct)
  then have "map ss_Anchor updated = filter (\<lambda>a. map_option ss_ObservationPointIDs (set_of a (rev recorded)) \<noteq>
        map_option ss_ObservationPointIDs (set_of a composed)) (map ss_Anchor composed)"
    unfolding l(4) List.map_filter_def filter_map o_def map_map
    by (intro map_cong filter_cong) (auto simp: tracked_set_def split: option.splits)
  ultimately show ?thesis using l(3) by (auto simp: tracked_set_def split: option.split)
qed

definition sample_set :: "string \<Rightarrow> string list \<Rightarrow> time \<Rightarrow> SensorSet" where
  "sample_set r ids t = \<lparr>ss_Anchor = GraphAnchor '''' r, ss_ObservationPointIDs = ids, ss_ChangedAt = t\<rparr>"

lemma TrackSensorSets_spec_witness:
  "\<exists>tracked updated. TrackSensorSets [sample_set ''r'' [''a''] 5] [sample_set ''r'' [''b''] 0] 9 = (tracked, updated) \<and>
     map ss_Anchor updated = [GraphAnchor '''' ''r''] \<and>
     set_of (GraphAnchor '''' ''r'') tracked = Some (sample_set ''r'' [''b''] 9)"
proof -
  obtain tracked updated where run:
    "TrackSensorSets [sample_set ''r'' [''a''] 5] [sample_set ''r'' [''b''] 0] 9 = (tracked, updated)" by fastforce
  have "distinct (map ss_Anchor [sample_set ''r'' [''b''] 0])" by simp
  from TrackSensorSets_spec [OF this run] run show ?thesis by (auto simp: sample_set_def)
qed

text \<open>Tracking the same composition again, at any later window, changes and reports nothing.\<close>

theorem TrackSensorSets_idempotent:
  assumes "distinct (map ss_Anchor composed)" and "TrackSensorSets recorded composed t = (tracked, updated)"
  shows "TrackSensorSets tracked composed t' = (tracked, [])"
proof -
  note l = TrackSensorSets_lookup [OF assms]
  note rev = set_of_rev [OF l(2)]
  have known: "map_of (index_sets tracked) (ss_Anchor s) = Some (tracked_set t (set_of (ss_Anchor s) (rev recorded)) s)"
    if "s \<in> set composed" for s
    unfolding index_lookup rev l(3) using set_of_distinct [OF assms(1) that] by simp
  have "track_step t' s (index_sets tracked, []) = (index_sets tracked, [])" if "s \<in> set composed" for s
    using known [OF that] by (simp add: track_step_def)
  then have "fold (track_step t') composed (index_sets tracked, []) = (index_sets tracked, [])"
    by (induction composed) auto
  moreover have "sort_key ss_Anchor (map snd (index_sets tracked)) = tracked"
    unfolding index_distinct [OF l(2)] using l(1) by (simp add: o_def sort_key_id_if_sorted)
  ultimately show ?thesis by (simp add: TrackSensorSets_def)
qed

lemma TrackSensorSets_idempotent_witness:
  "\<exists>tracked updated. TrackSensorSets [sample_set ''r'' [''a''] 5] [sample_set ''r'' [''b''] 0] 9 = (tracked, updated) \<and>
     TrackSensorSets tracked [sample_set ''r'' [''b''] 0] 12 = (tracked, [])"
proof -
  obtain tracked updated where run:
    "TrackSensorSets [sample_set ''r'' [''a''] 5] [sample_set ''r'' [''b''] 0] 9 = (tracked, updated)" by fastforce
  have "distinct (map ss_Anchor [sample_set ''r'' [''b''] 0])" by simp
  from TrackSensorSets_idempotent [OF this run] run show ?thesis by blast
qed

text \<open>C19. History after a sensor change: no snapshot is dropped or reordered, and a snapshot keeps a
  score exactly when its window does not end before the recorded change of the score's anchor.\<close>

theorem HistorySince_spec:
  assumes "distinct (map ss_Anchor sets)"
  shows "list_all2 (\<lambda>old new.
      (\<forall>p. p \<in> set (sn_PointScores new) \<longleftrightarrow> p \<in> set (sn_PointScores old) \<and>
        (\<forall>s. set_of (GraphAnchor (ps_PointID p) '''') sets = Some s \<and> ss_ChangedAt s \<noteq> 0 \<longrightarrow> ss_ChangedAt s \<le> sn_WindowEnd old)) \<and>
      (\<forall>r. r \<in> set (sn_RouteScores new) \<longleftrightarrow> r \<in> set (sn_RouteScores old) \<and>
        (\<forall>s. set_of (GraphAnchor '''' (rs_RouteID r)) sets = Some s \<and> ss_ChangedAt s \<noteq> 0 \<longrightarrow> ss_ChangedAt s \<le> sn_WindowEnd old)) \<and>
      sn_ID new = sn_ID old \<and> sn_WindowStart new = sn_WindowStart old \<and> sn_WindowEnd new = sn_WindowEnd old \<and>
      sn_Missing new = sn_Missing old)
    history (HistorySinceSensorSetChanges history sets)"
proof -
  have "\<not> predates (changed_at sets) old a \<longleftrightarrow>
      (\<forall>s. set_of a sets = Some s \<and> ss_ChangedAt s \<noteq> 0 \<longrightarrow> ss_ChangedAt s \<le> sn_WindowEnd old)" for old a
    by (auto simp: predates_def changed_at_lookup [OF assms] split: option.split)
  then show ?thesis
    by (auto simp: HistorySinceSensorSetChanges_def Let_def list_all2_conv_all_nth)
qed

definition sample_route :: "string \<Rightarrow> RouteScore" where
  "sample_route r = \<lparr>rs_RouteID = r, rs_Forward = f_zero, rs_Backward = f_zero, rs_ScalarFlow = None,
     rs_StagnationScore = None, rs_Exhaustive = True, rs_SameSensorFlow = True\<rparr>"

definition sample_history :: "Snapshot list" where
  "sample_history =
     [(empty_snapshot ''a'' ''e'' 0 5)\<lparr>sn_RouteScores := [sample_route ''r'']\<rparr>,
      (empty_snapshot ''b'' ''e'' 5 10)\<lparr>sn_RouteScores := [sample_route ''r'']\<rparr>]"

lemma HistorySince_spec_witness:
  "\<exists>before after. HistorySinceSensorSetChanges sample_history [sample_set ''r'' [''b''] 9] = [before, after] \<and>
     sample_route ''r'' \<notin> set (sn_RouteScores before) \<and> sample_route ''r'' \<in> set (sn_RouteScores after)"
proof -
  have d: "distinct (map ss_Anchor [sample_set ''r'' [''b''] 9])" by simp
  from HistorySince_spec [OF d, of sample_history] show ?thesis
    unfolding sample_history_def
    by (auto simp: list_all2_Cons1 sample_set_def sample_route_def empty_snapshot_def)
qed

end
