(* ===== verification/SnapshotStore.thy ===== *)
theory SnapshotStore
  imports ArcStore SensorSets
begin

section \<open>infra/db/snapshot.go: snapshots, sensor sets and optimization outcomes\<close>

text \<open>
  A snapshot is one row with its scores as JSON, stored in one transaction with the hourly cells of its
  routes. Sensor sets are upserted by anchor. An optimization outcome keeps three opaque JSON texts of the flow
  service; what JSONB makes of such a text, or that it is none, is the parameter \<open>json_text\<close>. A nil byte slice is
  \<open>None\<close>. The cells and their summary are in \<open>ArcStore\<close>.
\<close>

subsection \<open>Scores as JSON\<close>

definition json_point :: "PointScore \<Rightarrow> err + json" where
  "json_point s =
     bindS (json_optional (ps_PeopleScore s)) (\<lambda>people.
     bindS (json_optional (ps_OccupancyDelta s)) (\<lambda>delta.
     Inr (JObj [(''point_id'', JStr (ps_PointID s)), (''people_score'', people), (''occupancy_delta'', delta),
       (''exhaustive'', JBool (ps_Exhaustive s))])))"

definition json_route :: "RouteScore \<Rightarrow> err + json" where
  "json_route s =
     bindS (json_float (rs_Forward s)) (\<lambda>forward.
     bindS (json_float (rs_Backward s)) (\<lambda>backward.
     bindS (json_optional (rs_ScalarFlow s)) (\<lambda>scalar.
     bindS (json_optional (rs_StagnationScore s)) (\<lambda>stagnation.
     Inr (JObj ([(''route_id'', JStr (rs_RouteID s)), (''forward'', forward), (''backward'', backward)] @
       (if rs_ScalarFlow s = None then [] else [(''scalar_flow'', scalar)]) @
       [(''stagnation_score'', stagnation), (''exhaustive'', JBool (rs_Exhaustive s)),
        (''same_sensor_flow'', JBool (rs_SameSensorFlow s))]))))))"

definition json_missing :: "MissingAnchors \<Rightarrow> json" where
  "json_missing m = JObj
     ((if mi_PointIDs m = [] then [] else [(''points'', json_strings (mi_PointIDs m))]) @
      (if mi_RouteIDs m = [] then [] else [(''routes'', json_strings (mi_RouteIDs m))]))"

text \<open>\<open>omitzero\<close> leaves the field out when both slices are nil; as the model does not tell nil from empty, when both are empty.\<close>

definition json_scores :: "Snapshot \<Rightarrow> err + json" where
  "json_scores s =
     bindS (mapS json_point (sn_PointScores s)) (\<lambda>points.
     bindS (mapS json_route (sn_RouteScores s)) (\<lambda>routes.
     Inr (JObj ([(''points'', JArr points), (''routes'', JArr routes)] @
       (if mi_PointIDs (sn_Missing s) = [] \<and> mi_RouteIDs (sn_Missing s) = [] then []
        else [(''missing'', json_missing (sn_Missing s))])))))"

definition zero_point :: PointScore where
  "zero_point = \<lparr>ps_PointID = '''', ps_PeopleScore = None, ps_OccupancyDelta = None, ps_Exhaustive = False\<rparr>"

definition decode_point :: "json \<Rightarrow> err + PointScore" where
  "decode_point j =
     bindS (json_field ''point_id'' '''' decode_string j) (\<lambda>pointID.
     bindS (json_field ''people_score'' None (decode_optional decode_float) j) (\<lambda>people.
     bindS (json_field ''occupancy_delta'' None (decode_optional decode_float) j) (\<lambda>delta.
     bindS (json_field ''exhaustive'' False decode_bool j) (\<lambda>exhaustive.
     Inr \<lparr>ps_PointID = pointID, ps_PeopleScore = people, ps_OccupancyDelta = delta, ps_Exhaustive = exhaustive\<rparr>))))"

definition zero_route :: RouteScore where
  "zero_route = \<lparr>rs_RouteID = '''', rs_Forward = f_zero, rs_Backward = f_zero, rs_ScalarFlow = None, rs_StagnationScore = None,
     rs_Exhaustive = False, rs_SameSensorFlow = False\<rparr>"

definition decode_route :: "json \<Rightarrow> err + RouteScore" where
  "decode_route j =
     bindS (json_field ''route_id'' '''' decode_string j) (\<lambda>routeID.
     bindS (json_field ''forward'' f_zero decode_float j) (\<lambda>forward.
     bindS (json_field ''backward'' f_zero decode_float j) (\<lambda>backward.
     bindS (json_field ''scalar_flow'' None (decode_optional decode_float) j) (\<lambda>scalar.
     bindS (json_field ''stagnation_score'' None (decode_optional decode_float) j) (\<lambda>stagnation.
     bindS (json_field ''exhaustive'' False decode_bool j) (\<lambda>exhaustive.
     bindS (json_field ''same_sensor_flow'' False decode_bool j) (\<lambda>same.
     Inr \<lparr>rs_RouteID = routeID, rs_Forward = forward, rs_Backward = backward, rs_ScalarFlow = scalar,
       rs_StagnationScore = stagnation, rs_Exhaustive = exhaustive, rs_SameSensorFlow = same\<rparr>)))))))"

definition zero_missing :: MissingAnchors where
  "zero_missing = \<lparr>mi_PointIDs = [], mi_RouteIDs = []\<rparr>"

definition decode_missing :: "json \<Rightarrow> err + MissingAnchors" where
  "decode_missing j =
     bindS (json_field ''points'' [] decode_strings j) (\<lambda>points.
     bindS (json_field ''routes'' [] decode_strings j) (\<lambda>routes. Inr \<lparr>mi_PointIDs = points, mi_RouteIDs = routes\<rparr>))"

text \<open>\<open>snapshotRow.snapshot\<close>.\<close>

definition snapshot_of_row :: "snapshot_row \<Rightarrow> err + Snapshot" where
  "snapshot_of_row row =
     (case bindS (json_field ''points'' [] (decode_list zero_point decode_point) (sr_scores row)) (\<lambda>points.
           bindS (json_field ''routes'' [] (decode_list zero_route decode_route) (sr_scores row)) (\<lambda>routes.
           bindS (json_field ''missing'' zero_missing decode_missing (sr_scores row)) (\<lambda>missing.
           Inr (points, routes, missing)))) of
        Inl err \<Rightarrow> Inl (Wrap ''decode snapshot scores'' err)
      | Inr (points, routes, missing) \<Rightarrow> Inr
          \<lparr>sn_ID = sr_snapshot_id row, sn_EventID = sr_event_id row, sn_WindowStart = sr_window_start row,
           sn_WindowEnd = sr_window_end row, sn_PointScores = points, sn_RouteScores = routes, sn_Missing = missing,
           sn_Resolutions = Map.empty\<rparr>)"

subsection \<open>Snapshots\<close>

definition insert_snapshot :: "(time \<Rightarrow> time) \<Rightarrow> string \<Rightarrow> Snapshot \<Rightarrow> json \<Rightarrow> database \<Rightarrow> err + (unit \<times> database)" where
  "insert_snapshot ts tenantPublicID snapshot encoded d =
     (if list_ex (\<lambda>r. sr_snapshot_id r = sn_ID snapshot) (db_snapshots d) then Inl (PgError sqlStateUniqueViolation)
      else Inr ((), d\<lparr>db_snapshots := db_snapshots d @
        [\<lparr>sr_id = next_id sr_id (db_snapshots d), sr_snapshot_id = sn_ID snapshot, sr_tenant_public_id = tenantPublicID,
          sr_event_id = sn_EventID snapshot, sr_window_start = ts (sn_WindowStart snapshot),
          sr_window_end = ts (sn_WindowEnd snapshot), sr_scores = jsonb encoded\<rparr>]\<rparr>))"

definition SaveSnapshot ::
  "(time \<Rightarrow> time) \<Rightarrow> (f64 \<Rightarrow> err + f64) \<Rightarrow> Ctx \<Rightarrow> string \<Rightarrow> Snapshot \<Rightarrow> ('x, unit) action" where
  "SaveSnapshot ts ln_pow ctx tenantPublicID snapshot =
     (case json_scores snapshot of
        Inl err \<Rightarrow> throwE (Wrap ''encode snapshot scores'' err)
      | Inr encoded \<Rightarrow>
          RunInTransaction ctx (\<lambda>ctx.
            bindE (wrapE (Wrap ''insert snapshot'') (sql (insert_snapshot ts tenantPublicID snapshot encoded))) (\<lambda>_.
            forE (record_route ts ln_pow snapshot) (sn_RouteScores snapshot))))"

definition latest_rows :: "('r \<Rightarrow> int) \<Rightarrow> 'r list \<Rightarrow> 'r list" where
  "latest_rows key rows = rev (sort_key key rows)"

definition LatestSnapshot :: "Ctx \<Rightarrow> string \<Rightarrow> ('x, Snapshot) action" where
  "LatestSnapshot ctx eventID =
     bindE (catchE (query_one (\<lambda>d. latest_rows sr_id (filter (\<lambda>r. sr_event_id r = eventID) (db_snapshots d))))
       (\<lambda>err. if errors_is err SqlErrNoRows then throwE (Err ErrSnapshotNotFound)
              else throwE (Wrap ''select snapshot'' err))) (\<lambda>row. liftE (snapshot_of_row row))"

definition ListSnapshotsEndingAfter :: "(time \<Rightarrow> time) \<Rightarrow> Ctx \<Rightarrow> string \<Rightarrow> time \<Rightarrow> ('x, Snapshot list) action" where
  "ListSnapshotsEndingAfter ts ctx eventID after =
     bindE (wrapE (Wrap ''select snapshots'') (query (\<lambda>d. sort_key (\<lambda>r. (sr_window_end r, sr_id r))
       (filter (\<lambda>r. sr_event_id r = eventID \<and> ts after < sr_window_end r) (db_snapshots d)))))
     (\<lambda>rows. liftE (mapS snapshot_of_row rows))"

definition EarliestSnapshotStart :: "Ctx \<Rightarrow> string \<Rightarrow> ('x, time) action" where
  "EarliestSnapshotStart ctx eventID =
     bindE (wrapE (Wrap ''select earliest snapshot start'') (query (\<lambda>d.
       map sr_window_start (filter (\<lambda>r. sr_event_id r = eventID) (db_snapshots d)))))
     (\<lambda>starts. if starts = [] then throwE (Err ErrSnapshotNotFound) else returnE (least_time starts))"

subsection \<open>Optimization outcomes\<close>

definition jsonb_column :: "(byte list \<Rightarrow> byte list option) \<Rightarrow> byte list option \<Rightarrow> err + byte list option" where
  "jsonb_column json_text value =
     (case value of None \<Rightarrow> Inr None
      | Some text \<Rightarrow> (case json_text text of None \<Rightarrow> Inl (PgError ''22P02'') | Some stored \<Rightarrow> Inr (Some stored)))"

definition nullableJSON :: "byte list option \<Rightarrow> byte list option" where
  "nullableJSON v = (case v of None \<Rightarrow> None | Some text \<Rightarrow> Some text)"

definition insert_outcome ::
  "(byte list \<Rightarrow> byte list option) \<Rightarrow> string \<Rightarrow> OptimizationOutcome \<Rightarrow> database \<Rightarrow> err + (unit \<times> database)" where
  "insert_outcome json_text eventID outcome d =
     bindS (jsonb_column json_text (oo_DetectionState outcome)) (\<lambda>state.
     bindS (jsonb_column json_text (nullableJSON (oo_OptimizationResult outcome))) (\<lambda>result.
     bindS (jsonb_column json_text (nullableJSON (oo_Diagnostics outcome))) (\<lambda>diagnostics.
     case state of
       None \<Rightarrow> Inl (PgError ''23502'')
     | Some state \<Rightarrow> Inr ((), d\<lparr>db_optimization_results := db_optimization_results d @
         [\<lparr>or_id = next_id or_id (db_optimization_results d), or_event_id = eventID, or_snapshot_id = oo_SnapshotID outcome,
           or_verdict = oo_Verdict outcome, or_detection_state = state, or_optimization_result = result,
           or_diagnostics = diagnostics\<rparr>]\<rparr>))))"

definition SaveOptimizationOutcome ::
  "(byte list \<Rightarrow> byte list option) \<Rightarrow> Ctx \<Rightarrow> string \<Rightarrow> OptimizationOutcome \<Rightarrow> ('x, unit) action" where
  "SaveOptimizationOutcome json_text ctx eventID outcome =
     wrapE (Wrap ''insert optimization result'') (sql (insert_outcome json_text eventID outcome))"

text \<open>The join with the snapshot the outcome is of, for its window end.\<close>

definition outcome_rows :: "string \<Rightarrow> database \<Rightarrow> (optimization_row \<times> snapshot_row) list" where
  "outcome_rows eventID d =
     latest_rows (\<lambda>(r, s). or_id r)
       [(r, s). r \<leftarrow> db_optimization_results d, s \<leftarrow> db_snapshots d, or_event_id r = eventID \<and> sr_snapshot_id s = or_snapshot_id r]"

definition LatestOptimizationOutcome :: "Ctx \<Rightarrow> string \<Rightarrow> ('x, OptimizationOutcome) action" where
  "LatestOptimizationOutcome ctx eventID =
     bindE (catchE (query_one (outcome_rows eventID))
       (\<lambda>err. if errors_is err SqlErrNoRows then throwE (Err ErrOptimizationOutcomeMissing)
              else throwE (Wrap ''select optimization result'' err))) (\<lambda>(row, snapshot).
     returnE \<lparr>oo_SnapshotID = or_snapshot_id row, oo_ServerTime = sr_window_end snapshot, oo_Verdict = or_verdict row,
       oo_DetectionState = Some (or_detection_state row), oo_OptimizationResult = or_optimization_result row,
       oo_FeedbackValues = None, oo_Diagnostics = or_diagnostics row\<rparr>)"

subsection \<open>Sensor sets\<close>

definition sensor_set_of_row :: "sensor_set_row \<Rightarrow> err + SensorSet" where
  "sensor_set_of_row row =
     (case decode_strings (sv_observation_point_ids row) of
        Inl err \<Rightarrow> Inl (Wrap ''decode sensor set'' err)
      | Inr ids \<Rightarrow> Inr \<lparr>ss_Anchor = GraphAnchor (sv_point_id row) (sv_route_id row), ss_ObservationPointIDs = ids,
          ss_ChangedAt = (case sv_changed_at row of None \<Rightarrow> 0 | Some t \<Rightarrow> t)\<rparr>)"

definition ListSensorSets :: "(string \<Rightarrow> string) \<Rightarrow> Ctx \<Rightarrow> string \<Rightarrow> ('x, SensorSet list) action" where
  "ListSensorSets coll ctx eventID =
     bindE (wrapE (Wrap ''select sensor sets'') (query (\<lambda>d. sort_key (\<lambda>r. (coll (sv_point_id r), coll (sv_route_id r)))
       (filter (\<lambda>r. sv_event_id r = eventID) (db_sensor_sets d)))))
     (\<lambda>rows. liftE (mapS sensor_set_of_row rows))"

definition sensor_key :: "sensor_set_row \<Rightarrow> string \<times> string \<times> string" where
  "sensor_key r = (sv_event_id r, sv_point_id r, sv_route_id r)"

definition upsert_sensor_set :: "sensor_set_row \<Rightarrow> database \<Rightarrow> err + (unit \<times> database)" where
  "upsert_sensor_set new d =
     (if (sv_point_id new = '''') = (sv_route_id new = '''') then Inl (PgError ''23514'')
      else bindS (upsert_row (\<lambda>r. sensor_key r = sensor_key new)
          (\<lambda>r. Inr (r\<lparr>sv_observation_point_ids := sv_observation_point_ids new, sv_changed_at := sv_changed_at new\<rparr>))
          new (db_sensor_sets d)) (\<lambda>rows. Inr ((), d\<lparr>db_sensor_sets := rows\<rparr>)))"

definition sensor_row :: "(time \<Rightarrow> time) \<Rightarrow> string \<Rightarrow> SensorSet \<Rightarrow> sensor_set_row" where
  "sensor_row ts eventID set' =
     \<lparr>sv_event_id = eventID, sv_point_id = ga_PointID (ss_Anchor set'), sv_route_id = ga_RouteID (ss_Anchor set'),
      sv_observation_point_ids = jsonb (json_strings (ss_ObservationPointIDs set')),
      sv_changed_at = (if ss_ChangedAt set' = 0 then None else Some (ts (ss_ChangedAt set')))\<rparr>"

definition SaveSensorSets :: "(time \<Rightarrow> time) \<Rightarrow> Ctx \<Rightarrow> string \<Rightarrow> SensorSet list \<Rightarrow> ('x, unit) action" where
  "SaveSensorSets ts ctx eventID sets =
     RunInTransaction ctx (\<lambda>ctx.
       forE (\<lambda>set'. wrapE (Wrap ''upsert sensor set'') (sql (upsert_sensor_set (sensor_row ts eventID set')))) sets)"

record 'x SnapshotRepository =
  sp_SaveSnapshot :: "Ctx \<Rightarrow> string \<Rightarrow> Snapshot \<Rightarrow> ('x, unit) action"
  sp_LatestSnapshot :: "Ctx \<Rightarrow> string \<Rightarrow> ('x, Snapshot) action"
  sp_ListSnapshotsEndingAfter :: "Ctx \<Rightarrow> string \<Rightarrow> time \<Rightarrow> ('x, Snapshot list) action"
  sp_SummarizeArcHistory :: "Ctx \<Rightarrow> string \<Rightarrow> time \<Rightarrow> ('x, ArcHistory list) action"
  sp_EarliestSnapshotStart :: "Ctx \<Rightarrow> string \<Rightarrow> ('x, time) action"
  sp_ListSensorSets :: "Ctx \<Rightarrow> string \<Rightarrow> ('x, SensorSet list) action"
  sp_SaveSensorSets :: "Ctx \<Rightarrow> string \<Rightarrow> SensorSet list \<Rightarrow> ('x, unit) action"
  sp_SaveOptimizationOutcome :: "Ctx \<Rightarrow> string \<Rightarrow> OptimizationOutcome \<Rightarrow> ('x, unit) action"
  sp_LatestOptimizationOutcome :: "Ctx \<Rightarrow> string \<Rightarrow> ('x, OptimizationOutcome) action"

definition NewPostgresSnapshotRepository ::
  "(time \<Rightarrow> time) \<Rightarrow> (f64 \<Rightarrow> err + f64) \<Rightarrow> (string \<Rightarrow> string) \<Rightarrow> (byte list \<Rightarrow> byte list option) \<Rightarrow> 'x SnapshotRepository" where
  "NewPostgresSnapshotRepository ts ln_pow coll json_text =
     \<lparr>sp_SaveSnapshot = SaveSnapshot ts ln_pow, sp_LatestSnapshot = LatestSnapshot,
      sp_ListSnapshotsEndingAfter = ListSnapshotsEndingAfter ts, sp_SummarizeArcHistory = SummarizeArcHistory ts coll,
      sp_EarliestSnapshotStart = EarliestSnapshotStart, sp_ListSensorSets = ListSensorSets coll,
      sp_SaveSensorSets = SaveSensorSets ts, sp_SaveOptimizationOutcome = SaveOptimizationOutcome json_text,
      sp_LatestOptimizationOutcome = LatestOptimizationOutcome\<rparr>"

subsection \<open>Reading back a snapshot\<close>

definition stored_point_score :: "PointScore \<Rightarrow> PointScore" where
  "stored_point_score s = s\<lparr>ps_PeopleScore := map_option positive_zero (ps_PeopleScore s),
     ps_OccupancyDelta := map_option positive_zero (ps_OccupancyDelta s)\<rparr>"

definition stored_route_score :: "RouteScore \<Rightarrow> RouteScore" where
  "stored_route_score s = s\<lparr>rs_Forward := positive_zero (rs_Forward s), rs_Backward := positive_zero (rs_Backward s),
     rs_ScalarFlow := map_option positive_zero (rs_ScalarFlow s), rs_StagnationScore := map_option positive_zero (rs_StagnationScore s)\<rparr>"

text \<open>A snapshot as it is read back: times at the column's resolution, no negative zeros, the resolutions left out.\<close>

definition stored_snapshot :: "(time \<Rightarrow> time) \<Rightarrow> Snapshot \<Rightarrow> Snapshot" where
  "stored_snapshot ts s = s\<lparr>sn_WindowStart := ts (sn_WindowStart s), sn_WindowEnd := ts (sn_WindowEnd s),
     sn_PointScores := map stored_point_score (sn_PointScores s), sn_RouteScores := map stored_route_score (sn_RouteScores s),
     sn_Resolutions := Map.empty\<rparr>"

lemma decode_json_point: "json_point s = Inr j \<Longrightarrow> decode_point (jsonb j) = Inr (stored_point_score s)"
  by (auto simp: json_point_def bindS_Inr decode_point_def stored_point_score_def decode_optional_float)
    (simp_all add: decode_or_def)

lemma decode_json_route: "json_route s = Inr j \<Longrightarrow> decode_route (jsonb j) = Inr (stored_route_score s)"
  by (cases "rs_ScalarFlow s")
    (auto simp: json_route_def bindS_Inr decode_route_def stored_route_score_def decode_optional_float json_float_Inr,
     simp_all add: decode_or_def)

lemma decode_json_missing: "decode_missing (jsonb (json_missing m)) = Inr m"
  using decode_strings_json [of "mi_PointIDs m"] decode_strings_json [of "mi_RouteIDs m"]
  by (auto simp: json_missing_def decode_missing_def decode_or_def json_strings_def)

lemma decode_json_list:
  assumes "mapS enc xs = Inr js" and "\<And>x j. enc x = Inr j \<Longrightarrow> dec (jsonb j) = Inr (f x)"
    and "\<And>x j. enc x = Inr j \<Longrightarrow> jsonb j \<noteq> JNull"
  shows "decode_list zero dec (jsonb (JArr js)) = Inr (map f xs)"
proof (rule decode_list_json)
  from assms(1) have "list_all2 (\<lambda>x j. enc x = Inr j) xs js" by (simp add: mapS_Inr)
  then show "list_all2 (\<lambda>x j. dec (jsonb j) = Inr (f x) \<and> jsonb j \<noteq> JNull) xs js"
    by (rule list_all2_mono) (auto simp: assms(2,3))
qed

definition snapshot_row_of :: "(time \<Rightarrow> time) \<Rightarrow> string \<Rightarrow> int \<Rightarrow> Snapshot \<Rightarrow> json \<Rightarrow> snapshot_row" where
  "snapshot_row_of ts t k s j = \<lparr>sr_id = k, sr_snapshot_id = sn_ID s, sr_tenant_public_id = t, sr_event_id = sn_EventID s,
     sr_window_start = ts (sn_WindowStart s), sr_window_end = ts (sn_WindowEnd s), sr_scores = jsonb j\<rparr>"

lemma snapshot_of_stored_row:
  assumes "json_scores s = Inr j"
  shows "snapshot_of_row (snapshot_row_of ts t k s j) = Inr (stored_snapshot ts s)"
proof -
  from assms obtain ps rs where ps: "mapS json_point (sn_PointScores s) = Inr ps" and rs: "mapS json_route (sn_RouteScores s) = Inr rs"
    and j: "j = JObj ([(''points'', JArr ps), (''routes'', JArr rs)] @
       (if mi_PointIDs (sn_Missing s) = [] \<and> mi_RouteIDs (sn_Missing s) = [] then [] else [(''missing'', json_missing (sn_Missing s))]))"
    by (auto simp: json_scores_def bindS_Inr)
  have dp: "decode_list zero_point decode_point (jsonb (JArr ps)) = Inr (map stored_point_score (sn_PointScores s))"
    by (rule decode_json_list [where enc = json_point, OF ps]) (auto simp: decode_json_point, auto simp: json_point_def bindS_Inr)
  have dr: "decode_list zero_route decode_route (jsonb (JArr rs)) = Inr (map stored_route_score (sn_RouteScores s))"
    by (rule decode_json_list [where enc = json_route, OF rs]) (auto simp: decode_json_route, auto simp: json_route_def bindS_Inr)
  have m: "mi_PointIDs (sn_Missing s) = [] \<Longrightarrow> mi_RouteIDs (sn_Missing s) = [] \<Longrightarrow> zero_missing = sn_Missing s"
    by (simp add: zero_missing_def)
  have null: "jsonb (json_missing (sn_Missing s)) \<noteq> JNull" by (simp add: json_missing_def)
  show ?thesis
    using dp dr m null
    by (auto simp: snapshot_of_row_def snapshot_row_of_def j stored_snapshot_def decode_or_def decode_json_missing)
qed

subsection \<open>What saving a snapshot does\<close>

definition snapshot_saved :: "(time \<Rightarrow> time) \<Rightarrow> string \<Rightarrow> Snapshot \<Rightarrow> database \<Rightarrow> database \<Rightarrow> bool" where
  "snapshot_saved ts t s d d' \<longleftrightarrow>
     (\<exists>j. json_scores s = Inr j \<and> db_snapshots d' = db_snapshots d @ [snapshot_row_of ts t (next_id sr_id (db_snapshots d)) s j]) \<and>
     (\<forall>r \<in> set (db_snapshots d). sr_snapshot_id r \<noteq> sn_ID s) \<and>
     d'\<lparr>db_snapshots := [], db_stagnation := [], db_flow_dwell := []\<rparr> = d\<lparr>db_snapshots := [], db_stagnation := [], db_flow_dwell := []\<rparr> \<and>
     (arcs_inv d \<longrightarrow> arcs_inv d') \<and>
     (\<forall>e r. stagnation_count d' e r = stagnation_count d e r + route_samples s e r)"

lemma save_body_Inr:
  assumes "bindE (wrapE (Wrap ''insert snapshot'') (sql (insert_snapshot ts t s j))) (\<lambda>_.
      forE (record_route ts ln_pow s) (sn_RouteScores s)) w = (Inr u, w')" and "json_scores s = Inr j"
  shows "snapshot_saved ts t s (w_db w) (w_db w')"
proof -
  from assms(1) obtain w1 where ins: "sql (insert_snapshot ts t s j) w = (Inr (), w1)"
    and routes: "forE (record_route ts ln_pow s) (sn_RouteScores s) w1 = (Inr u, w')" by (auto simp: bindE_Inr)
  from ins have fresh: "\<forall>r \<in> set (db_snapshots (w_db w)). sr_snapshot_id r \<noteq> sn_ID s"
    and d1: "w_db w1 = w_db w\<lparr>db_snapshots := db_snapshots (w_db w) @
      [snapshot_row_of ts t (next_id sr_id (db_snapshots (w_db w))) s j]\<rparr>"
    by (auto simp: sql_Inr insert_snapshot_def list_ex_iff snapshot_row_of_def split: if_splits)
  have arcs: "arcs_inv (w_db w1) = arcs_inv (w_db w)" "stagnation_count (w_db w1) e r = stagnation_count (w_db w) e r" for e r
    by (simp_all add: d1 arcs_inv_def stagnation_count_def dwell_count_def)
  note more = record_routes_Inr [OF routes]
  then have frame: "w_db w'\<lparr>db_stagnation := [], db_flow_dwell := []\<rparr> = w_db w1\<lparr>db_stagnation := [], db_flow_dwell := []\<rparr>"
    by (simp add: counts_more_def same_but_arcs_def)
  have "db_snapshots (w_db w') = db_snapshots (w_db w1)" using arg_cong [OF frame, of db_snapshots] by simp
  moreover have "w_db w'\<lparr>db_snapshots := [], db_stagnation := [], db_flow_dwell := []\<rparr> =
      w_db w\<lparr>db_snapshots := [], db_stagnation := [], db_flow_dwell := []\<rparr>"
    using arg_cong [OF frame, of "\<lambda>d. d\<lparr>db_snapshots := []\<rparr>"]
    unfolding d1 by (cases "w_db w'"; cases "w_db w") simp
  ultimately show ?thesis
    using assms(2) fresh more arcs unfolding snapshot_saved_def counts_more_def by (auto simp: d1 route_samples_def)
qed

lemma SaveSnapshot_outcome:
  assumes "SaveSnapshot ts ln_pow ctx t s w = (r, w')" and "\<not> ctx_tx ctx"
  obtains (unchanged) err where "r = Inl err" "w_db w' = w_db w"
  | (saved) "snapshot_saved ts t s (w_db w) (w_db w')" "r = Inr () \<or> (\<exists>err. r = Inl (Wrap ''commit transaction'' err))"
proof (cases "json_scores s")
  case (Inl err)
  with assms(1) unchanged [of "Wrap ''encode snapshot scores'' err"] show thesis by (simp add: SaveSnapshot_def throwE_def)
next
  case (Inr j)
  with assms(1) have run: "runInTransaction ctx (\<lambda>ctx. bindE (wrapE (Wrap ''insert snapshot'') (sql (insert_snapshot ts t s j))) (\<lambda>_.
      forE (record_route ts ln_pow s) (sn_RouteScores s))) w = (r, w')"
    by (simp add: SaveSnapshot_def RunInTransaction_def)
  show thesis
  proof (rule runInTransaction_outcome [OF run assms(2)])
    fix x w0 w1
    assume begun: "next_fault w = (NoFault, w0)"
      and body: "bindE (wrapE (Wrap ''insert snapshot'') (sql (insert_snapshot ts t s j))) (\<lambda>_.
        forE (record_route ts ln_pow s) (sn_RouteScores s)) w0 = (Inr x, w1)"
      and db: "w_db w' = w_db w1" and r: "r = Inr x \<or> (\<exists>e. r = Inl (Wrap ''commit transaction'' e))"
    note stored = save_body_Inr [OF body Inr, unfolded next_fault_db [OF begun]]
    show thesis by (rule saved) (use stored db r in simp_all)
  qed (rule unchanged)
qed

lemma SaveSnapshot_Inr:
  assumes "SaveSnapshot ts ln_pow ctx t s w = (Inr u, w')"
  shows "snapshot_saved ts t s (w_db w) (w_db w')"
proof (cases "json_scores s")
  case (Inl err)
  with assms show ?thesis by (simp add: SaveSnapshot_def)
next
  case (Inr j)
  with assms have "RunInTransaction ctx (\<lambda>ctx. bindE (wrapE (Wrap ''insert snapshot'') (sql (insert_snapshot ts t s j))) (\<lambda>_.
      forE (record_route ts ln_pow s) (sn_RouteScores s))) w = (Inr u, w')" by (simp add: SaveSnapshot_def)
  then show ?thesis
  proof (rule transaction_Inr)
    fix c w0 w1
    assume "bindE (wrapE (Wrap ''insert snapshot'') (sql (insert_snapshot ts t s j))) (\<lambda>_.
      forE (record_route ts ln_pow s) (sn_RouteScores s)) w0 = (Inr u, w1)" "w_db w0 = w_db w" "w_db w' = w_db w1"
    with save_body_Inr [OF _ Inr, of ts t ln_pow w0 u w1] show ?thesis by simp
  qed
qed

lemma latest_rows_snoc: "(\<And>x. x \<in> set xs \<Longrightarrow> k x < k y) \<Longrightarrow> latest_rows k (xs @ [y]) = y # latest_rows k xs"
  by (simp add: latest_rows_def sort_key_append_last)

lemma LatestSnapshot_Inr:
  "LatestSnapshot ctx e w = (Inr s, w') \<Longrightarrow>
     \<exists>row rest. latest_rows sr_id (filter (\<lambda>r. sr_event_id r = e) (db_snapshots (w_db w))) = row # rest \<and> snapshot_of_row row = Inr s"
  by (auto simp: LatestSnapshot_def bindE_Inr catchE_Inr query_one_Inr split: if_splits)

text \<open>C28. Under every fault, saving a snapshot either changes nothing and fails, or appends the snapshot and adds exactly one sample to
  each table of hourly cells for every route score that has a stagnation: the two tables keep counting the
  same samples, and nothing else changes.\<close>

theorem SaveSnapshot_effect:
  assumes "SaveSnapshot ts ln_pow ctx t s w = (r, w')" and "\<not> ctx_tx ctx"
  shows "((\<exists>err. r = Inl err) \<and> w_db w' = w_db w) \<or>
    (snapshot_saved ts t s (w_db w) (w_db w') \<and> (r = Inr () \<or> (\<exists>err. r = Inl (Wrap ''commit transaction'' err))))"
  using assms by (rule SaveSnapshot_outcome) auto

lemma saved_latest:
  assumes "snapshot_saved ts t s d d1"
  shows "\<exists>row rest. latest_rows sr_id (filter (\<lambda>r. sr_event_id r = sn_EventID s) (db_snapshots d1)) = row # rest \<and>
    sr_snapshot_id row = sn_ID s \<and> row \<in> set (db_snapshots d1) \<and> snapshot_of_row row = Inr (stored_snapshot ts s)"
proof -
  from assms obtain j where j: "json_scores s = Inr j"
    and rows: "db_snapshots d1 = db_snapshots d @ [snapshot_row_of ts t (next_id sr_id (db_snapshots d)) s j]"
    by (auto simp: snapshot_saved_def)
  let ?row = "snapshot_row_of ts t (next_id sr_id (db_snapshots d)) s j"
  have "latest_rows sr_id (filter (\<lambda>r. sr_event_id r = sn_EventID s) (db_snapshots d1)) =
    ?row # latest_rows sr_id (filter (\<lambda>r. sr_event_id r = sn_EventID s) (db_snapshots d))"
    using next_id_fresh [of _ "db_snapshots d" sr_id]
    by (subst latest_rows_snoc [symmetric]) (auto simp: rows snapshot_row_of_def)
  moreover have "sr_snapshot_id ?row = sn_ID s" by (simp add: snapshot_row_of_def)
  ultimately show ?thesis using snapshot_of_stored_row [OF j] rows by auto
qed

text \<open>C30. Saving a snapshot and reading the latest of its event are inverse, through the JSON of its scores: what is read is the snapshot
  saved, up to the resolution of the times and the sign of a zero, without its resolutions.\<close>

theorem Snapshot_roundtrip:
  fixes w w1 w2 w3 :: "'x world"
  assumes "SaveSnapshot ts ln_pow ctx t s w = (Inr u, w1)" and "w_db w2 = w_db w1"
    and "LatestSnapshot ctx2 (sn_EventID s) w2 = (Inr found, w3)"
  shows "found = stored_snapshot ts s"
  using saved_latest [OF SaveSnapshot_Inr [OF assms(1)]] LatestSnapshot_Inr [OF assms(3)] assms(2) by auto

subsection \<open>Outcomes and sensor sets\<close>

definition stored_outcome :: "(byte list \<Rightarrow> byte list option) \<Rightarrow> time \<Rightarrow> OptimizationOutcome \<Rightarrow> OptimizationOutcome" where
  "stored_outcome json_text t oc = oc\<lparr>oo_ServerTime := t, oo_DetectionState := Option.bind (oo_DetectionState oc) json_text,
     oo_OptimizationResult := Option.bind (oo_OptimizationResult oc) json_text, oo_FeedbackValues := None,
     oo_Diagnostics := Option.bind (oo_Diagnostics oc) json_text\<rparr>"

lemma jsonb_column_Inr: "jsonb_column json_text v = Inr v' \<Longrightarrow> v' = Option.bind v json_text"
  by (auto simp: jsonb_column_def split: option.splits)

lemma insert_outcome_Inr:
  assumes "insert_outcome json_text e oc d = Inr ((), d')"
  obtains row where "d' = d\<lparr>db_optimization_results := db_optimization_results d @ [row]\<rparr>"
    "or_id row = next_id or_id (db_optimization_results d)" "or_event_id row = e" "or_snapshot_id row = oo_SnapshotID oc"
    "\<forall>t. \<lparr>oo_SnapshotID = or_snapshot_id row, oo_ServerTime = t, oo_Verdict = or_verdict row,
       oo_DetectionState = Some (or_detection_state row), oo_OptimizationResult = or_optimization_result row,
       oo_FeedbackValues = None, oo_Diagnostics = or_diagnostics row\<rparr> = stored_outcome json_text t oc"
proof -
  from assms obtain state result diagnostics where cols: "jsonb_column json_text (oo_DetectionState oc) = Inr (Some state)"
    "jsonb_column json_text (nullableJSON (oo_OptimizationResult oc)) = Inr result"
    "jsonb_column json_text (nullableJSON (oo_Diagnostics oc)) = Inr diagnostics"
    and d': "d' = d\<lparr>db_optimization_results := db_optimization_results d @
         [\<lparr>or_id = next_id or_id (db_optimization_results d), or_event_id = e, or_snapshot_id = oo_SnapshotID oc,
           or_verdict = oo_Verdict oc, or_detection_state = state, or_optimization_result = result,
           or_diagnostics = diagnostics\<rparr>]\<rparr>"
    by (auto simp: insert_outcome_def bindS_Inr split: option.splits)
  have id: "nullableJSON v = v" for v by (cases v) (simp_all add: nullableJSON_def)
  show thesis
    using cols [THEN jsonb_column_Inr] id by (intro that [OF d']) (simp_all add: stored_outcome_def)
qed

lemma insert_outcome_latest:
  assumes ins: "insert_outcome json_text e outcome d = Inr ((), d1)"
    and keys: "distinct (map sr_snapshot_id (db_snapshots d))" "s \<in> set (db_snapshots d)" "sr_snapshot_id s = oo_SnapshotID outcome"
  shows "\<exists>row. outcome_rows e d1 = (row, s) # outcome_rows e d \<and> db_snapshots d1 = db_snapshots d \<and>
    \<lparr>oo_SnapshotID = or_snapshot_id row, oo_ServerTime = sr_window_end s, oo_Verdict = or_verdict row,
       oo_DetectionState = Some (or_detection_state row), oo_OptimizationResult = or_optimization_result row,
       oo_FeedbackValues = None, oo_Diagnostics = or_diagnostics row\<rparr> = stored_outcome json_text (sr_window_end s) outcome"
proof -
  let ?join = "\<lambda>d r. concat (map (\<lambda>s'. if or_event_id r = e \<and> sr_snapshot_id s' = or_snapshot_id r then [(r, s')] else []) (db_snapshots d))"
  obtain row where d1: "d1 = d\<lparr>db_optimization_results := db_optimization_results d @ [row]\<rparr>"
    and row: "or_id row = next_id or_id (db_optimization_results d)" "or_event_id row = e" "or_snapshot_id row = oo_SnapshotID outcome"
    and out: "\<forall>t. \<lparr>oo_SnapshotID = or_snapshot_id row, oo_ServerTime = t, oo_Verdict = or_verdict row,
       oo_DetectionState = Some (or_detection_state row), oo_OptimizationResult = or_optimization_result row,
       oo_FeedbackValues = None, oo_Diagnostics = or_diagnostics row\<rparr> = stored_outcome json_text t outcome"
    by (rule insert_outcome_Inr [OF ins], rule that)
  have "?join d1 row = [(row, s)]"
    using concat_only [of sr_snapshot_id "db_snapshots d" s "\<lambda>s'. (row, s')"] keys row by (simp add: d1)
  moreover have "concat (map (?join d1) rs) = concat (map (?join d) rs)" for rs by (simp add: d1)
  ultimately have "outcome_rows e d1 = (row, s) # outcome_rows e d"
    unfolding outcome_rows_def using row next_id_fresh [of _ "db_optimization_results d" or_id]
    by (subst latest_rows_snoc [symmetric]) (auto simp: d1 split: if_splits)
  with out d1 show ?thesis by auto
qed

text \<open>C31. Saving an optimization outcome of a stored snapshot and reading the latest outcome of the event are inverse: what is read is the
  outcome, its JSON texts as the server keeps them, with the end of the snapshot's window as its server time and
  without feedback values.\<close>

theorem OptimizationOutcome_roundtrip:
  fixes w w1 w2 w3 :: "'x world"
  assumes "SaveOptimizationOutcome json_text ctx e outcome w = (Inr u, w1)" and "w_db w2 = w_db w1"
    and "distinct (map sr_snapshot_id (db_snapshots (w_db w)))" and "s \<in> set (db_snapshots (w_db w))"
    and "sr_snapshot_id s = oo_SnapshotID outcome"
    and "LatestOptimizationOutcome ctx2 e w2 = (Inr found, w3)"
  shows "found = stored_outcome json_text (sr_window_end s) outcome"
proof -
  have "insert_outcome json_text e outcome (w_db w) = Inr ((), w_db w1)"
    using assms(1) by (auto simp: SaveOptimizationOutcome_def sql_Inr)
  from insert_outcome_latest [OF this assms(3-5)] assms(2,6) show ?thesis
    by (auto simp: LatestOptimizationOutcome_def bindE_Inr catchE_Inr query_one_Inr split: if_splits)
qed

definition stored_set :: "(time \<Rightarrow> time) \<Rightarrow> SensorSet \<Rightarrow> SensorSet" where
  "stored_set ts s = s\<lparr>ss_ChangedAt := (if ss_ChangedAt s = 0 then 0 else ts (ss_ChangedAt s))\<rparr>"

definition sensor_at :: "database \<Rightarrow> string \<Rightarrow> GraphAnchor \<Rightarrow> sensor_set_row option" where
  "sensor_at d e a = List.find (\<lambda>r. sensor_key r = (e, ga_PointID a, ga_RouteID a)) (db_sensor_sets d)"

definition sensors_inv :: "database \<Rightarrow> bool" where
  "sensors_inv d \<longleftrightarrow> distinct (map sensor_key (db_sensor_sets d))"

lemma find_key: "distinct (map k xs) \<Longrightarrow> List.find (\<lambda>x. k x = b) xs = Some x \<longleftrightarrow> x \<in> set xs \<and> k x = b"
  by (induction xs) (auto simp: image_iff)

lemma option_eqI: "(\<And>r. x = Some r \<longleftrightarrow> y = Some r) \<Longrightarrow> x = y"
  by (cases x; cases y) auto

lemma upsert_find:
  assumes "upsert_row (\<lambda>r. k r = k new) (\<lambda>r. Inr (g r)) new rows = Inr rows'" and "\<And>r. k r = k new \<Longrightarrow> k (g r) = k new"
  shows "List.find (\<lambda>r. k r = b) rows' = (if b = k new then
      (case List.find (\<lambda>r. k r = b) rows of None \<Rightarrow> Some new | Some r \<Rightarrow> Some (g r)) else List.find (\<lambda>r. k r = b) rows)"
    and "map k rows' = (if k new \<in> k ` set rows then map k rows else map k rows @ [k new])"
proof -
  have "List.find (\<lambda>r. k r = b) rows' = (if b = k new then
      (case List.find (\<lambda>r. k r = b) rows of None \<Rightarrow> Some new | Some r \<Rightarrow> Some (g r)) else List.find (\<lambda>r. k r = b) rows) \<and>
    map k rows' = (if k new \<in> k ` set rows then map k rows else map k rows @ [k new])"
    using assms
  proof (induction rows arbitrary: rows')
    case (Cons h rows)
    show ?case
    proof (cases "k h = k new")
      case True
      with Cons.prems(1) have "rows' = g h # rows" by simp
      moreover have "k (g h) = k new" using Cons.prems(2) [OF True] .
      ultimately show ?thesis using True by simp
    next
      case False
      with Cons.prems(1) obtain rest where rest: "upsert_row (\<lambda>r. k r = k new) (\<lambda>r. Inr (g r)) new rows = Inr rest" "rows' = h # rest"
        by (auto simp: bindS_Inr)
      from Cons.IH [OF rest(1) Cons.prems(2)] False rest(2) show ?thesis by auto
    qed
  qed auto
  then show "List.find (\<lambda>r. k r = b) rows' = (if b = k new then
      (case List.find (\<lambda>r. k r = b) rows of None \<Rightarrow> Some new | Some r \<Rightarrow> Some (g r)) else List.find (\<lambda>r. k r = b) rows)"
    and "map k rows' = (if k new \<in> k ` set rows then map k rows else map k rows @ [k new])" by blast+
qed

lemma upsert_sensor_set_Inr:
  assumes "upsert_sensor_set new d = Inr ((), d')"
  shows "sensors_inv d \<Longrightarrow> sensors_inv d'" and "d'\<lparr>db_sensor_sets := []\<rparr> = d\<lparr>db_sensor_sets := []\<rparr>"
    and "sensor_at d' e a = (if sensor_key new = (e, ga_PointID a, ga_RouteID a) then Some new else sensor_at d e a)"
proof -
  let ?g = "\<lambda>r. r\<lparr>sv_observation_point_ids := sv_observation_point_ids new, sv_changed_at := sv_changed_at new\<rparr>"
  from assms obtain rows where rows: "upsert_row (\<lambda>r. sensor_key r = sensor_key new) (\<lambda>r. Inr (?g r)) new (db_sensor_sets d) = Inr rows"
    and d': "d' = d\<lparr>db_sensor_sets := rows\<rparr>" by (auto simp: upsert_sensor_set_def bindS_Inr split: if_splits)
  have key: "sensor_key (?g r) = sensor_key r" for r by (simp add: sensor_key_def)
  have same: "?g r = new" if "sensor_key r = sensor_key new" for r
    using that by (simp add: sensor_key_def)
  note up = upsert_find [OF rows, unfolded key]
  show "d'\<lparr>db_sensor_sets := []\<rparr> = d\<lparr>db_sensor_sets := []\<rparr>" by (simp add: d')
  show "sensors_inv d \<Longrightarrow> sensors_inv d'" using up(2) by (auto simp: sensors_inv_def d')
  show "sensor_at d' e a = (if sensor_key new = (e, ga_PointID a, ga_RouteID a) then Some new else sensor_at d e a)"
    using up(1) [of "(e, ga_PointID a, ga_RouteID a)"]
    by (auto simp: sensor_at_def d' split: option.splits dest!: find_Some_in intro: same)
qed

definition last_set :: "GraphAnchor \<Rightarrow> SensorSet list \<Rightarrow> SensorSet option" where
  "last_set a sets = List.find (\<lambda>s. ss_Anchor s = a) (rev sets)"

lemma last_set_Cons:
  "last_set a (s # sets) = (case last_set a sets of None \<Rightarrow> if ss_Anchor s = a then Some s else None | Some s' \<Rightarrow> Some s')"
  by (simp add: last_set_def find_append split: option.split)

lemma SaveSensorSets_body:
  assumes "forE (\<lambda>set'. wrapE (Wrap m) (sql (upsert_sensor_set (sensor_row ts e set')))) sets w = (Inr u, w')"
  shows "(sensors_inv (w_db w) \<longrightarrow> sensors_inv (w_db w')) \<and> w_db w'\<lparr>db_sensor_sets := []\<rparr> = w_db w\<lparr>db_sensor_sets := []\<rparr> \<and>
    (\<forall>a. sensor_at (w_db w') e a = (case last_set a sets of Some s \<Rightarrow> Some (sensor_row ts e s) | None \<Rightarrow> sensor_at (w_db w) e a))"
  using assms
proof (induction sets arbitrary: w)
  case Nil
  then show ?case by (simp add: last_set_def)
next
  case (Cons s sets)
  from Cons.prems obtain w1 where stmt: "sql (upsert_sensor_set (sensor_row ts e s)) w = (Inr (), w1)"
    and rest: "forE (\<lambda>set'. wrapE (Wrap m) (sql (upsert_sensor_set (sensor_row ts e set')))) sets w1 = (Inr u, w')"
    by (auto simp: bindE_Inr)
  from stmt have one: "upsert_sensor_set (sensor_row ts e s) (w_db w) = Inr ((), w_db w1)" by (auto simp: sql_Inr)
  have key: "sensor_key (sensor_row ts e s) = (e, ga_PointID a, ga_RouteID a) \<longleftrightarrow> ss_Anchor s = a" for a
    by (cases "ss_Anchor s"; cases a) (auto simp: sensor_key_def sensor_row_def)
  from upsert_sensor_set_Inr [OF one] Cons.IH [OF rest] show ?case
    by (auto simp: last_set_Cons key split: option.splits)
qed

lemma sensor_set_of_sensor_row: "sensor_set_of_row (sensor_row ts e s) = Inr (stored_set ts s)"
  by (cases "ss_Anchor s") (simp add: sensor_set_of_row_def sensor_row_def decode_strings_json stored_set_def)

lemma ListSensorSets_Inr:
  assumes inv: "sensors_inv (w_db w)" and run: "ListSensorSets coll ctx e w = (Inr sets, w')"
  shows "set_of a sets = (case sensor_at (w_db w) e a of None \<Rightarrow> None
    | Some r \<Rightarrow> (case sensor_set_of_row r of Inr s \<Rightarrow> Some s | Inl _ \<Rightarrow> None))"
proof -
  let ?f = "\<lambda>r. (coll (sv_point_id r), coll (sv_route_id r))"
  let ?rows = "sort_key ?f (filter (\<lambda>r. sv_event_id r = e) (db_sensor_sets (w_db w)))"
  from run have all2: "list_all2 (\<lambda>r s. sensor_set_of_row r = Inr s) ?rows sets"
    by (auto simp: ListSensorSets_def bindE_Inr query_Inr mapS_Inr)
  have anchor: "ss_Anchor s = GraphAnchor (sv_point_id r) (sv_route_id r)" if "sensor_set_of_row r = Inr s" for r s
    using that by (auto simp: sensor_set_of_row_def split: sum.splits)
  have find: "set_of a sets = (case List.find (\<lambda>r. GraphAnchor (sv_point_id r) (sv_route_id r) = a) rows of None \<Rightarrow> None
      | Some r \<Rightarrow> (case sensor_set_of_row r of Inr s \<Rightarrow> Some s | Inl _ \<Rightarrow> None))"
    if "list_all2 (\<lambda>r s. sensor_set_of_row r = Inr s) rows sets" for rows
    using that
  proof (induction rule: list_all2_induct)
    case (Cons r rs s ss)
    then show ?case using anchor [of r s] by (auto simp: set_of_def)
  qed (simp add: set_of_def)
  have dist: "distinct (map (\<lambda>r. GraphAnchor (sv_point_id r) (sv_route_id r)) ?rows)"
  proof -
    have "inj_on (\<lambda>r. GraphAnchor (sv_point_id r) (sv_route_id r)) (set ?rows)"
      using inv by (auto simp: sensors_inv_def distinct_map inj_on_def sensor_key_def)
    moreover have "distinct ?rows" using inv by (simp add: sensors_inv_def distinct_map)
    ultimately show ?thesis by (simp only: distinct_map)
  qed
  have "List.find (\<lambda>r. GraphAnchor (sv_point_id r) (sv_route_id r) = a) ?rows = Some r \<longleftrightarrow> sensor_at (w_db w) e a = Some r" for r
    unfolding find_key [OF dist] sensor_at_def find_key [OF inv [unfolded sensors_inv_def]]
    by (cases a) (auto simp: sensor_key_def)
  then have "List.find (\<lambda>r. GraphAnchor (sv_point_id r) (sv_route_id r) = a) ?rows = sensor_at (w_db w) e a"
    by (rule option_eqI)
  with find [OF all2] show ?thesis by simp
qed

text \<open>Saving sensor sets and listing them are inverse: afterwards every anchor has the last set saved for it, with the time of its
  change at the column's resolution, and every other anchor the set it had.\<close>

theorem SensorSets_roundtrip:
  fixes w w1 w2 w3 w4 :: "'x world"
  assumes "sensors_inv (w_db w)" and "ListSensorSets coll ctx e w = (Inr before, w2)"
    and "SaveSensorSets ts ctx e sets w = (Inr u, w1)" and "ListSensorSets coll ctx e w1 = (Inr out, w3)"
  shows "set_of a out = (case last_set a sets of Some s \<Rightarrow> Some (stored_set ts s) | None \<Rightarrow> set_of a before)"
  using assms(3) unfolding SaveSensorSets_def
proof (rule transaction_Inr)
  fix c w0 w5
  assume body: "forE (\<lambda>set'. wrapE (Wrap ''upsert sensor set'') (sql (upsert_sensor_set (sensor_row ts e set')))) sets w0 = (Inr u, w5)"
    and db: "w_db w0 = w_db w" "w_db w1 = w_db w5"
  note saved = SaveSensorSets_body [OF body, unfolded db(1) db(2) [symmetric]]
  then have inv: "sensors_inv (w_db w1)" using assms(1) by blast
  from saved have at: "sensor_at (w_db w1) e a =
      (case last_set a sets of Some s \<Rightarrow> Some (sensor_row ts e s) | None \<Rightarrow> sensor_at (w_db w) e a)" by blast
  from ListSensorSets_Inr [OF inv assms(4), of a] ListSensorSets_Inr [OF assms(1,2), of a] at show ?thesis
    by (auto simp: sensor_set_of_sensor_row split: option.splits)
qed

subsection \<open>Examples\<close>

definition sample_snapshot :: Snapshot where
  "sample_snapshot = \<lparr>sn_ID = ''s1'', sn_EventID = ''e'', sn_WindowStart = hour, sn_WindowEnd = hour + minute,
     sn_PointScores = [\<lparr>ps_PointID = ''p'', ps_PeopleScore = Some (Num False 3), ps_OccupancyDelta = None, ps_Exhaustive = True\<rparr>],
     sn_RouteScores = [\<lparr>rs_RouteID = ''r'', rs_Forward = f_zero, rs_Backward = f_zero, rs_ScalarFlow = None,
       rs_StagnationScore = Some (Num False 4), rs_Exhaustive = False, rs_SameSensorFlow = True\<rparr>],
     sn_Missing = \<lparr>mi_PointIDs = [], mi_RouteIDs = [''r2'']\<rparr>, sn_Resolutions = Map.empty\<rparr>"

text \<open>For the examples a value is its own bucket.\<close>

definition own_bucket :: "f64 \<Rightarrow> err + f64" where "own_bucket x = Inr x"

definition sample_save :: "fault list \<Rightarrow> (err + unit) \<times> unit world" where
  "sample_save fs = SaveSnapshot trunc_us own_bucket (sample_ctx ''t'' ''e'') ''t'' sample_snapshot (sample_world fs empty_db ())"

lemma sample_save_ok:
  "(case fst (sample_save []) of Inl _ \<Rightarrow> False | Inr _ \<Rightarrow> True) \<and>
   map ag_sample_count (db_stagnation (w_db (snd (sample_save [])))) = [1] \<and>
   w_faults (snd (sample_save [])) = []"
  by code_simp

lemma SaveSnapshot_effect_witness:
  "\<exists>r w'. SaveSnapshot trunc_us own_bucket (sample_ctx ''t'' ''e'') ''t'' sample_snapshot
      (sample_world [NoFault, NoFault, NoFault, FailBefore (ConnectionError ''reset'')] empty_db ()) = (r, w') \<and> w_db w' = empty_db"
proof -
  let ?fs = "[NoFault, NoFault, NoFault, FailBefore (ConnectionError ''reset'')]"
  obtain r w' where run: "sample_save ?fs = (r, w')" by fastforce
  have "case fst (sample_save ?fs) of Inl e \<Rightarrow> errors_is e ErrInternal \<noteq> True \<and> (case e of Wrap m _ \<Rightarrow> m \<noteq> ''commit transaction'' | _ \<Rightarrow> False) | Inr _ \<Rightarrow> False"
    by code_simp
  then have r: "r \<noteq> Inr () \<and> (\<forall>err. r \<noteq> Inl (Wrap ''commit transaction'' err))" using run by (auto split: sum.splits)
  from SaveSnapshot_effect [OF run [unfolded sample_save_def] sample_ctx_tx] r have "w_db w' = empty_db" by simp
  with run show ?thesis by (auto simp: sample_save_def)
qed

lemma Snapshot_roundtrip_witness:
  "\<exists>w1 w3. SaveSnapshot trunc_us own_bucket (sample_ctx ''t'' ''e'') ''t'' sample_snapshot (sample_world [] empty_db ()) = (Inr (), w1) \<and>
     LatestSnapshot (sample_ctx ''t'' ''e'') ''e'' w1 = (Inr (stored_snapshot trunc_us sample_snapshot), w3)"
proof -
  obtain r w1 where save: "sample_save [] = (r, w1)" by fastforce
  obtain q w3 where find: "LatestSnapshot (sample_ctx ''t'' ''e'') ''e'' w1 = (q, w3)" by fastforce
  have "case fst (LatestSnapshot (sample_ctx ''t'' ''e'') ''e'' (snd (sample_save []))) of Inl _ \<Rightarrow> False | Inr _ \<Rightarrow> True" by code_simp
  then obtain found where rs: "r = Inr ()" "q = Inr found" using sample_save_ok save find by (cases r; cases q) simp_all
  have e: "sn_EventID sample_snapshot = ''e''" by (simp add: sample_snapshot_def)
  have "found = stored_snapshot trunc_us sample_snapshot"
    by (rule Snapshot_roundtrip [OF save [unfolded rs sample_save_def] refl find [unfolded rs, folded e]])
  with save find show ?thesis by (auto simp: rs sample_save_def)
qed

definition sample_arc_row :: stagnation_row where
  "sample_arc_row = \<lparr>ag_event_id = ''e'', ag_hour_start = 0, ag_route_id = ''r'', ag_stagnation_bucket = Num False 4,
     ag_same_sensor_flow = True, ag_sample_count = 3, ag_stagnation_sum = f_zero, ag_flow_sum = f_zero, ag_flow_square_sum = f_zero,
     ag_flow_stagnation_sum = f_zero, ag_first_start = 0, ag_last_end = minute\<rparr>"

definition sample_arc_db :: database where
  "sample_arc_db = empty_db\<lparr>db_stagnation := [sample_arc_row, sample_arc_row\<lparr>ag_hour_start := hour, ag_sample_count := 1\<rparr>,
     sample_arc_row\<lparr>ag_hour_start := hour, ag_stagnation_bucket := Num False 9, ag_sample_count := 1\<rparr>]\<rparr>"

lemma SummarizeArcHistory_spec_witness:
  "\<exists>h w'. SummarizeArcHistory trunc_us (\<lambda>s. s) (sample_ctx ''t'' ''e'') ''e'' 0 (sample_world [] sample_arc_db ()) = (Inr [h], w') \<and>
     ah_SampleCount h = 5 \<and> ah_P90Stagnation h = Num False 9 \<and> summary_of (counted_cells ''e'' 0 sample_arc_db ''r'') h"
proof -
  let ?run = "SummarizeArcHistory trunc_us (\<lambda>s. s) (sample_ctx ''t'' ''e'') ''e'' 0 (sample_world [] sample_arc_db ())"
  obtain r w' where run: "?run = (r, w')" by fastforce
  have "case fst ?run of Inl _ \<Rightarrow> False
    | Inr hs \<Rightarrow> map (\<lambda>h. (ah_RouteID h, ah_SampleCount h, ah_P90Stagnation h)) hs = [(''r'', 5, Num False 9)]" by code_simp
  then obtain h where h: "r = Inr [h]" "ah_RouteID h = ''r''" "ah_SampleCount h = 5" "ah_P90Stagnation h = Num False 9"
    using run by (auto simp: map_eq_Cons_conv split: sum.splits)
  have "trunc_us 0 = 0" by (simp add: trunc_us_def time_truncate_def)
  with SummarizeArcHistory_spec [OF run [unfolded h(1)]] h run show ?thesis by auto
qed

definition sample_outcome :: OptimizationOutcome where
  "sample_outcome = \<lparr>oo_SnapshotID = ''s1'', oo_ServerTime = 0, oo_Verdict = ''none'', oo_DetectionState = Some [123, 125],
     oo_OptimizationResult = None, oo_FeedbackValues = Some [49], oo_Diagnostics = Some [91, 93]\<rparr>"

definition sample_snapshot_row :: snapshot_row where
  "sample_snapshot_row = \<lparr>sr_id = 1, sr_snapshot_id = ''s1'', sr_tenant_public_id = ''t'', sr_event_id = ''e'', sr_window_start = 0,
     sr_window_end = minute, sr_scores = JNull\<rparr>"

definition sample_snapshot_db :: database where
  "sample_snapshot_db = empty_db\<lparr>db_snapshots := [sample_snapshot_row]\<rparr>"

lemma OptimizationOutcome_roundtrip_witness:
  "\<exists>w1 w3 found. SaveOptimizationOutcome Some (sample_ctx ''t'' ''e'') ''e'' sample_outcome (sample_world [] sample_snapshot_db ()) =
      (Inr (), w1) \<and>
     LatestOptimizationOutcome (sample_ctx ''t'' ''e'') ''e'' w1 = (Inr found, w3) \<and> found = stored_outcome Some minute sample_outcome"
proof -
  let ?save = "SaveOptimizationOutcome Some (sample_ctx ''t'' ''e'') ''e'' sample_outcome (sample_world [] sample_snapshot_db ())"
  obtain r w1 where save: "?save = (r, w1)" by fastforce
  obtain q w3 where find: "LatestOptimizationOutcome (sample_ctx ''t'' ''e'') ''e'' w1 = (q, w3)" by fastforce
  have "(case fst ?save of Inl _ \<Rightarrow> False | Inr _ \<Rightarrow> True)"
    and "(case fst (LatestOptimizationOutcome (sample_ctx ''t'' ''e'') ''e'' (snd ?save)) of Inl _ \<Rightarrow> False | Inr _ \<Rightarrow> True)"
    by code_simp+
  then obtain found where rs: "r = Inr ()" "q = Inr found" using save find by (cases r; cases q) simp_all
  have "found = stored_outcome Some (sr_window_end sample_snapshot_row) sample_outcome"
    by (rule OptimizationOutcome_roundtrip [OF save [unfolded rs] refl _ _ _ find [unfolded rs]])
      (simp_all add: sample_snapshot_db_def sample_outcome_def sample_snapshot_row_def)
  with save find show ?thesis by (simp add: rs sample_snapshot_row_def)
qed

definition sample_set :: SensorSet where
  "sample_set = \<lparr>ss_Anchor = GraphAnchor '''' ''r'', ss_ObservationPointIDs = [''a'', ''b''], ss_ChangedAt = minute\<rparr>"

lemma SensorSets_roundtrip_witness:
  "\<exists>w1 w3 out. SaveSensorSets trunc_us (sample_ctx ''t'' ''e'') ''e'' [sample_set] (sample_world [] empty_db ()) = (Inr (), w1) \<and>
     ListSensorSets (\<lambda>s. s) (sample_ctx ''t'' ''e'') ''e'' w1 = (Inr out, w3) \<and>
     set_of (GraphAnchor '''' ''r'') out = Some sample_set \<and> set_of (GraphAnchor ''p'' '''') out = None"
proof -
  let ?w = "sample_world [] empty_db ()"
  let ?save = "SaveSensorSets trunc_us (sample_ctx ''t'' ''e'') ''e'' [sample_set] ?w"
  obtain r w1 where save: "?save = (r, w1)" by fastforce
  obtain q w3 where list: "ListSensorSets (\<lambda>s. s) (sample_ctx ''t'' ''e'') ''e'' w1 = (q, w3)" by fastforce
  obtain b w2 where before: "ListSensorSets (\<lambda>s. s) (sample_ctx ''t'' ''e'') ''e'' ?w = (b, w2)" by fastforce
  have "(case fst ?save of Inl _ \<Rightarrow> False | Inr _ \<Rightarrow> True)"
    and "(case fst (ListSensorSets (\<lambda>s. s) (sample_ctx ''t'' ''e'') ''e'' (snd ?save)) of Inl _ \<Rightarrow> False | Inr _ \<Rightarrow> True)"
    and "fst (ListSensorSets (\<lambda>s. s) (sample_ctx ''t'' ''e'') ''e'' ?w) = Inr []"
    by code_simp+
  then obtain out where rs: "r = Inr ()" "q = Inr out" "b = Inr []" using save list before by (cases r; cases q) simp_all
  have "sensors_inv (w_db ?w)" by (simp add: sensors_inv_def empty_db_def)
  note round = SensorSets_roundtrip [OF this before [unfolded rs] save [unfolded rs] list [unfolded rs]]
  have "stored_set trunc_us sample_set = sample_set"
    by (simp add: stored_set_def sample_set_def trunc_us_def time_truncate_def duration_units)
  with round [of "GraphAnchor '''' ''r''"] round [of "GraphAnchor ''p'' ''''"] save list show ?thesis
    by (simp add: rs last_set_def sample_set_def set_of_def)
qed

end
