(* ===== verification/ConnectErrors.thy ===== *)
theory ConnectErrors
  imports Database
begin

section \<open>infra/connect/errors.go: what a client learns of an error\<close>

text \<open>
  The table \<open>clientErrors\<close> maps each sentinel a client may act on to a code and a fixed message, in the order in which an error is
  compared with them; everything else is an internal error, logged on the server and answered with a message that says nothing.
  A \<open>connectrpc.Error\<close> is \<open>RpcError\<close>: the code and the message go to the client, the cause stays in the process.
\<close>

definition clientErrors :: "(sentinel \<times> Code \<times> string) list" where
  "clientErrors =
     [(ErrMeasurementSourceRequired, CodeInvalidArgument, ''measurement source is required''),
      (ErrQRLocationNotAllowed, CodeInvalidArgument, ''qr_location_id is not allowed for edge measurements''),
      (ErrObservationPointNotAllowed, CodeInvalidArgument, ''observation_point_id is not allowed for QR measurements''),
      (ErrEdgeDeviceNotAllowed, CodeInvalidArgument, ''edge_device_id is not allowed for QR measurements''),
      (ErrMixedMeasurementSources, CodeInvalidArgument, ''measurements of one request must share a source''),
      (ErrInvalidPublicID, CodeInvalidArgument, ''invalid public ID''),
      (ErrTenantRequired, CodeInvalidArgument, ''tenant_id is required''),
      (ErrEventRequired, CodeInvalidArgument, ''event_id is required''),
      (ErrEdgeDeviceNameRequired, CodeInvalidArgument, ''edge device name is required''),
      (ErrEdgeDeviceKindInvalid, CodeInvalidArgument, ''invalid edge device kind''),
      (ErrCameraPointNamesNotAllowed, CodeInvalidArgument, ''camera edge device must not have observation points''),
      (ErrCameraLinkedPointRequired, CodeInvalidArgument, ''camera edge device requires one linked observation point''),
      (ErrPageLinkedPointNotAllowed, CodeInvalidArgument, ''observation page edge device must not have a linked observation point''),
      (ErrCameraLinkToCamera, CodeInvalidArgument, ''a camera cannot be linked to another camera''),
      (ErrObservationPointAlreadyLinked, CodeInvalidArgument, ''observation point is already linked to a camera''),
      (ErrObservationPointNameRequired, CodeInvalidArgument, ''observation point name is required''),
      (ErrInvalidMeasurementWindow, CodeInvalidArgument, ''measurement window end must be after window start''),
      (ErrNegativeCount, CodeInvalidArgument, ''measurement count must not be negative''),
      (ErrInvalidDetectedPeople, CodeInvalidArgument, ''mean detected people must be a finite non-negative number''),
      (ErrInvalidHistoryWindow, CodeInvalidArgument, ''history_window_days must be at least 1''),
      (ErrEventTypeRequired, CodeInvalidArgument, ''event_type is required''),
      (ErrEdgeDeviceRequired, CodeInvalidArgument, ''edge_device_id is required for edge measurements''),
      (ErrEdgeDeviceNotFound, CodeNotFound, ''edge device not found''),
      (ErrGuestStatusNotFound, CodeNotFound, ''guest status not found''),
      (ErrObservationPointNotFound, CodeNotFound, ''observation point not found''),
      (ErrEdgeDeviceUnregistered, CodeFailedPrecondition, ''edge device is unregistered''),
      (ErrEdgeDeviceCameraUnsupported, CodeFailedPrecondition, ''camera edge device does not support this operation''),
      (ErrMissing, CodePermissionDenied, ''tenant ID is missing from the token''),
      (ErrMismatch, CodePermissionDenied, ''tenant ID does not match the token''),
      (ErrEventMissing, CodePermissionDenied, ''event ID is missing from the token''),
      (ErrEventMismatch, CodePermissionDenied, ''event ID does not match the token''),
      (ErrForeignEvent, CodePermissionDenied, ''resource belongs to another event'')]"

definition InternalError :: "err \<Rightarrow> ('x, err) action" where
  "InternalError err =
     (if errors_is err ContextCanceled then returnE (RpcError CodeCanceled ''canceled'' (Some err))
      else if errors_is err ContextDeadlineExceeded then returnE (RpcError CodeDeadlineExceeded ''deadline exceeded'' (Some err))
      else bindE (slog ''internal error'') (\<lambda>_. returnE (RpcError CodeInternal ''internal error'' (Some (Err ErrInternal)))))"

definition clientError :: "err \<Rightarrow> ('x, err) action" where
  "clientError err =
     (case List.find (\<lambda>(target, code, message). errors_is err target) clientErrors of
        Some (target, code, message) \<Rightarrow> returnE (RpcError code message (Some err))
      | None \<Rightarrow> InternalError err)"

text \<open>A handler returns \<open>nil, clientError(ctx, err)\<close> for an error of what it called; a panic is no error.\<close>

definition client_errors :: "('x, 'a) action \<Rightarrow> ('x, 'a) action" where
  "client_errors m = catchE m (\<lambda>err. if is_panic err then throwE err else bindE (clientError err) throwE)"

subsection \<open>What the client sees\<close>

text \<open>The answers a client can get: a code and a message, fixed texts all of them.\<close>

definition client_answers :: "(Code \<times> string) list" where
  "client_answers = map snd clientErrors @
     [(CodeCanceled, ''canceled''), (CodeDeadlineExceeded, ''deadline exceeded''), (CodeInternal, ''internal error'')]"

text \<open>The sentinels an error carries anywhere in its tree, in the order of \<open>errors.Is\<close>.\<close>

fun sentinels :: "err \<Rightarrow> sentinel list" where
  "sentinels (Err e) = [e]"
| "sentinels (RpcError code message None) = []"
| "sentinels (RpcError code message (Some cause)) = sentinels cause"
| "sentinels (PgError code) = []"
| "sentinels (OtherError text) = []"
| "sentinels (Wrap m e) = sentinels e"
| "sentinels (Join a b) = sentinels a @ sentinels b"
| "sentinels (GoPanic text) = []"

lemma errors_is_sentinels: "errors_is e s \<longleftrightarrow> s \<in> set (sentinels e)"
  by (induction e s rule: errors_is.induct) auto

lemma clientErrors_distinct: "distinct (map fst clientErrors)"
  by code_simp

lemma clientError_unique:
  assumes "(s, code, message) \<in> set clientErrors" and "\<And>s'. s' \<in> set (sentinels err) \<Longrightarrow> s' = s" and "errors_is err s"
  shows "clientError err w = (Inr (RpcError code message (Some err)), w)"
proof -
  have "List.find (\<lambda>(target, code, message). errors_is err target) clientErrors = Some (s, code, message)"
  proof (rule find_unique [where g = fst, OF clientErrors_distinct assms(1)])
    show "(case (s, code, message) of (target, code, message) \<Rightarrow> errors_is err target)" using assms(3) by simp
    fix x assume x: "x \<in> set clientErrors" and p: "case x of (target, code, message) \<Rightarrow> errors_is err target"
    then have "fst x = s" using assms(2) by (auto simp: errors_is_sentinels)
    then show "fst x = fst (s, code, message)" by simp
  qed
  then show ?thesis by (simp add: clientError_def returnE_def)
qed

lemma listed_codes: "(code, message) \<in> snd ` set clientErrors \<Longrightarrow>
    code \<in> {CodeInvalidArgument, CodeNotFound, CodeFailedPrecondition, CodePermissionDenied}"
  by (auto simp: clientErrors_def)

text \<open>Whatever an error is, the client learns one of the fixed answers: that of the table when the error carries a listed sentinel,
  which is when the code blames the request, and otherwise cancellation, an expired deadline or a bare \<open>internal error\<close>. Only
  the last is logged, and it drops its cause: no text of a driver, a peer or a wrapped error ever leaves the process.\<close>

theorem clientError_answer:
  "\<exists>code message cause w'. clientError err w = (Inr (RpcError code message (Some cause)), w') \<and>
     (code, message) \<in> set client_answers \<and>
     (list_ex (\<lambda>(s, answer). errors_is err s) clientErrors \<longleftrightarrow>
        code \<in> {CodeInvalidArgument, CodeNotFound, CodeFailedPrecondition, CodePermissionDenied}) \<and>
     (if code = CodeInternal then cause = Err ErrInternal \<and> w' = w\<lparr>w_log := w_log w @ [''internal error'']\<rparr>
      else cause = err \<and> w' = w)"
proof (cases "List.find (\<lambda>(target, code, message). errors_is err target) clientErrors")
  case None
  then have "\<not> list_ex (\<lambda>(s, answer). errors_is err s) clientErrors"
    by (auto simp: find_None_iff_all list_ex_iff)
  with None show ?thesis
    by (simp add: clientError_def InternalError_def client_answers_def returnE_def bindE_def slog_def)
next
  case (Some c)
  obtain s code message where c: "c = (s, code, message)" by (cases c)
  with find_Some_in [OF Some] have listed: "(s, code, message) \<in> set clientErrors" and carried: "errors_is err s" by auto
  have "list_ex (\<lambda>(s, answer). errors_is err s) clientErrors" using listed carried by (auto simp: list_ex_iff)
  moreover have "(code, message) \<in> snd ` set clientErrors" using listed by force
  moreover note listed_codes [OF this]
  ultimately show ?thesis using Some c by (auto simp: clientError_def client_answers_def returnE_def)
qed

end
