(* ===== verification/MeasurementStore.thy ===== *)
theory MeasurementStore
  imports Database Measurement "HOL-Library.Multiset"
begin

section \<open>infra/db/measurement.go: recording the measurements of a report\<close>

text \<open>
  A report is recorded in one transaction, one INSERT per measurement. A partial unique index on tenant, event,
  device, point and window start makes the resend of a device's window a conflict that inserts nothing; QR
  measurements name no device, are stored with a NULL device and never conflict. \<open>accepted\<close> counts the rows inserted,
  as an \<open>int32\<close>. The CHECK constraints of the table are on what is stored: a window
  shorter than the resolution of the column can lose its length there, and is refused by the server.
\<close>

subsection \<open>The statements\<close>

definition sqlStateCheckViolation :: string where "sqlStateCheckViolation = ''23514''"

definition nullif_empty :: "string \<Rightarrow> string option" where
  "nullif_empty s = (if s = '''' then None else Some s)"

definition measurement_row_of ::
  "(time \<Rightarrow> time) \<Rightarrow> string \<Rightarrow> string \<Rightarrow> EdgeDeviceID \<Rightarrow> int \<Rightarrow> Measurement \<Rightarrow> measurement_row" where
  "measurement_row_of ts tenantPublicID eventID edgeDeviceID k m =
     \<lparr>me_id = k, me_tenant_public_id = tenantPublicID, me_event_id = eventID,
      me_edge_device_id = nullif_empty edgeDeviceID, me_observation_point_id = ms_ObservationPointID m,
      me_window_start = ts (ms_WindowStart m), me_window_end = ts (ms_WindowEnd m),
      me_count_in = ms_CountIn m, me_count_out = ms_CountOut m, me_rate_in = RateIn m, me_rate_out = RateOut m,
      me_mean_detected_people = ms_MeanDetectedPeople m\<rparr>"

text \<open>The constraints of the table; the server orders NaN above every number.\<close>

definition measurement_check :: "measurement_row \<Rightarrow> bool" where
  "measurement_check r \<longleftrightarrow> me_window_start r < me_window_end r \<and>
     (case me_mean_detected_people r of None \<Rightarrow> True | Some v \<Rightarrow> is_nan v \<or> fle f_zero v)"

definition edge_window :: "measurement_row \<Rightarrow> string \<times> string \<times> string option \<times> string \<times> time" where
  "edge_window r = (me_tenant_public_id r, me_event_id r, me_edge_device_id r, me_observation_point_id r, me_window_start r)"

definition window_taken :: "measurement_row list \<Rightarrow> measurement_row \<Rightarrow> bool" where
  "window_taken rows r \<longleftrightarrow> me_edge_device_id r \<noteq> None \<and> list_ex (\<lambda>q. edge_window q = edge_window r) rows"

definition insert_measurement ::
  "(time \<Rightarrow> time) \<Rightarrow> string \<Rightarrow> string \<Rightarrow> EdgeDeviceID \<Rightarrow> Measurement \<Rightarrow> database \<Rightarrow> err + (int \<times> database)" where
  "insert_measurement ts tenantPublicID eventID edgeDeviceID m d =
     (let r = measurement_row_of ts tenantPublicID eventID edgeDeviceID (next_id me_id (db_measurements d)) m in
      if \<not> measurement_check r then Inl (PgError sqlStateCheckViolation)
      else if window_taken (db_measurements d) r then Inr (0, d)
      else Inr (1, d\<lparr>db_measurements := db_measurements d @ [r]\<rparr>))"

definition select_accepted ::
  "(time \<Rightarrow> time) \<Rightarrow> string \<Rightarrow> string \<Rightarrow> EdgeDeviceID \<Rightarrow> Measurement \<Rightarrow> database \<Rightarrow> measurement_row list" where
  "select_accepted ts tenantPublicID eventID edgeDeviceID resent d =
     filter (\<lambda>r. edge_window r = (tenantPublicID, eventID, Some edgeDeviceID, ms_ObservationPointID resent,
       ts (ms_WindowStart resent))) (db_measurements d)"

definition equalOptional :: "f64 option \<Rightarrow> f64 option \<Rightarrow> bool" where
  "equalOptional a b =
     (case (a, b) of (Some x, Some y) \<Rightarrow> feq x y | (None, None) \<Rightarrow> True | _ \<Rightarrow> False)"

definition logDivergentResend ::
  "(time \<Rightarrow> time) \<Rightarrow> Ctx \<Rightarrow> string \<Rightarrow> string \<Rightarrow> EdgeDeviceID \<Rightarrow> Measurement \<Rightarrow> ('x, unit) action" where
  "logDivergentResend ts ctx tenantPublicID eventID edgeDeviceID resent =
     bindE (wrapE (Wrap ''select accepted measurement'')
       (query_one (select_accepted ts tenantPublicID eventID edgeDeviceID resent))) (\<lambda>stored.
     if me_window_end stored = time_round (ms_WindowEnd resent) microsecond \<and>
        me_count_in stored = ms_CountIn resent \<and> me_count_out stored = ms_CountOut resent \<and>
        equalOptional (me_mean_detected_people stored) (ms_MeanDetectedPeople resent) then returnE ()
     else slog ''resent measurement differs from the accepted one'')"

definition record_one ::
  "(time \<Rightarrow> time) \<Rightarrow> Ctx \<Rightarrow> string \<Rightarrow> string \<Rightarrow> EdgeDeviceID \<Rightarrow> Measurement \<Rightarrow> int32 \<Rightarrow> ('x, int32) action" where
  "record_one ts ctx tenantPublicID eventID edgeDeviceID m accepted =
     bindE (wrapE (Wrap ''insert measurement'') (sql (insert_measurement ts tenantPublicID eventID edgeDeviceID m))) (\<lambda>inserted.
     if inserted = 1 then returnE (accepted + 1)
     else bindE (logDivergentResend ts ctx tenantPublicID eventID edgeDeviceID m) (\<lambda>_. returnE accepted))"

definition RecordAll ::
  "(time \<Rightarrow> time) \<Rightarrow> Ctx \<Rightarrow> string \<Rightarrow> string \<Rightarrow> EdgeDeviceID \<Rightarrow> Measurement list \<Rightarrow> ('x, int32) action" where
  "RecordAll ts ctx tenantPublicID eventID edgeDeviceID measurements =
     (if measurements = [] then returnE 0
      else RunInTransaction ctx (\<lambda>ctx.
        foldE (record_one ts ctx tenantPublicID eventID edgeDeviceID) measurements 0))"

definition measurement_of_row :: "measurement_row \<Rightarrow> Measurement" where
  "measurement_of_row r =
     \<lparr>ms_ObservationPointID = me_observation_point_id r, ms_WindowStart = me_window_start r,
      ms_WindowEnd = me_window_end r, ms_CountIn = me_count_in r, ms_CountOut = me_count_out r,
      ms_MeanDetectedPeople = me_mean_detected_people r\<rparr>"

definition window_rows :: "string \<Rightarrow> time \<Rightarrow> database \<Rightarrow> measurement_row list" where
  "window_rows eventID since d =
     sort_key (\<lambda>r. (me_window_end r, me_id r))
       (filter (\<lambda>r. me_event_id r = eventID \<and> since \<le> me_window_end r) (db_measurements d))"

definition ListWindowEndingSince :: "(time \<Rightarrow> time) \<Rightarrow> Ctx \<Rightarrow> string \<Rightarrow> time \<Rightarrow> ('x, Measurement list) action" where
  "ListWindowEndingSince ts ctx eventID since =
     wrapE (Wrap ''select measurements'')
       (bindE (query (window_rows eventID (ts since))) (\<lambda>rows. returnE (map measurement_of_row rows)))"

record 'x MeasurementRepository =
  mr_RecordAll :: "Ctx \<Rightarrow> string \<Rightarrow> string \<Rightarrow> EdgeDeviceID \<Rightarrow> Measurement list \<Rightarrow> ('x, int32) action"
  mr_ListWindowEndingSince :: "Ctx \<Rightarrow> string \<Rightarrow> time \<Rightarrow> ('x, Measurement list) action"

definition NewPostgresMeasurementRepository :: "(time \<Rightarrow> time) \<Rightarrow> 'x MeasurementRepository" where
  "NewPostgresMeasurementRepository ts =
     \<lparr>mr_RecordAll = RecordAll ts, mr_ListWindowEndingSince = ListWindowEndingSince ts\<rparr>"

subsection \<open>What recording a list of measurements stores\<close>

text \<open>
  The specification: going through the report in order, a measurement whose window is taken is dropped, every other
  one becomes a row. \<open>new_rows\<close> are the rows a report adds to those stored.
\<close>

fun new_rows ::
  "(time \<Rightarrow> time) \<Rightarrow> string \<Rightarrow> string \<Rightarrow> EdgeDeviceID \<Rightarrow> Measurement list \<Rightarrow> measurement_row list \<Rightarrow> measurement_row list" where
  "new_rows ts t e dev [] rows = []"
| "new_rows ts t e dev (m # ms) rows =
     (let r = measurement_row_of ts t e dev (next_id me_id rows) m in
      if window_taken rows r then new_rows ts t e dev ms rows else r # new_rows ts t e dev ms (rows @ [r]))"

definition stores :: "(time \<Rightarrow> time) \<Rightarrow> string \<Rightarrow> string \<Rightarrow> EdgeDeviceID \<Rightarrow> Measurement list \<Rightarrow> database \<Rightarrow> database \<Rightarrow> bool" where
  "stores ts t e dev ms d d' \<longleftrightarrow>
     d' = d\<lparr>db_measurements := db_measurements d @ new_rows ts t e dev ms (db_measurements d)\<rparr>"

definition window_ok :: "(time \<Rightarrow> time) \<Rightarrow> Measurement \<Rightarrow> bool" where
  "window_ok ts m \<longleftrightarrow> measurement_check (measurement_row_of ts '''' '''' '''' 0 m)"

lemma check_window_ok: "measurement_check (measurement_row_of ts t e dev k m) \<longleftrightarrow> window_ok ts m"
  by (simp add: window_ok_def measurement_check_def measurement_row_of_def)

lemma insert_measurement_eq:
  "insert_measurement ts t e dev m d =
     (if \<not> window_ok ts m then Inl (PgError sqlStateCheckViolation)
      else Inr (int (length (new_rows ts t e dev [m] (db_measurements d))),
        d\<lparr>db_measurements := db_measurements d @ new_rows ts t e dev [m] (db_measurements d)\<rparr>))"
  by (simp add: insert_measurement_def Let_def check_window_ok)

lemma reader_logDivergentResend [relates_rules]: "reader (logDivergentResend ts ctx t e dev m)"
  unfolding logDivergentResend_def by (auto intro!: relates_rules)

lemma record_one_Inr:
  assumes "record_one ts ctx t e dev m n w = (Inr n', w')"
  shows "window_ok ts m" and "stores ts t e dev [m] (w_db w) (w_db w')"
    and "n' = n + word_of_nat (length (new_rows ts t e dev [m] (db_measurements (w_db w))))"
proof -
  from assms obtain k w1 where ins: "sql (insert_measurement ts t e dev m) w = (Inr k, w1)"
    and rest: "(if k = 1 then returnE (n + 1) else bindE (logDivergentResend ts ctx t e dev m) (\<lambda>_. returnE n)) w1 = (Inr n', w')"
    by (auto simp: record_one_def bindE_Inr)
  from ins obtain w0 d where step: "next_fault w = (NoFault, w0)" "insert_measurement ts t e dev m (w_db w) = Inr (k, d)"
    "w1 = w0\<lparr>w_db := d\<rparr>" by (auto simp: sql_Inr)
  then show "window_ok ts m" by (simp add: insert_measurement_eq split: if_splits)
  with step have k: "k = int (length (new_rows ts t e dev [m] (db_measurements (w_db w))))"
    and d: "stores ts t e dev [m] (w_db w) (w_db w1)" by (auto simp: insert_measurement_eq stores_def)
  have "length (new_rows ts t e dev [m] (db_measurements (w_db w))) \<le> 1" by (simp add: Let_def)
  then have one: "k = 1 \<or> k = 0" using k by linarith
  have "w_db w' = w_db w1"
    using rest readerD [OF reader_logDivergentResend] by (auto simp: bindE_Inr split: if_splits)
  with d show "stores ts t e dev [m] (w_db w) (w_db w')" by simp
  from rest one k show "n' = n + word_of_nat (length (new_rows ts t e dev [m] (db_measurements (w_db w))))"
    by (auto simp: bindE_Inr split: if_splits)
qed

lemma new_rows_append:
  "new_rows ts t e dev (ms @ ms') rows =
     new_rows ts t e dev ms rows @ new_rows ts t e dev ms' (rows @ new_rows ts t e dev ms rows)"
  by (induction ms arbitrary: rows) (simp_all add: Let_def)

lemma record_fold_Inr:
  assumes "foldE (record_one ts ctx t e dev) ms n w = (Inr n', w')"
  shows "list_all (window_ok ts) ms \<and> stores ts t e dev ms (w_db w) (w_db w') \<and>
    n' = n + word_of_nat (length (new_rows ts t e dev ms (db_measurements (w_db w))))"
  using assms
proof (induction ms arbitrary: n w)
  case Nil
  then show ?case by (simp add: stores_def)
next
  case (Cons m ms)
  from Cons.prems obtain k w1 where one: "record_one ts ctx t e dev m n w = (Inr k, w1)"
    and rest: "foldE (record_one ts ctx t e dev) ms k w1 = (Inr n', w')" by (auto simp: bindE_Inr)
  note this1 = record_one_Inr [OF one] and more = Cons.IH [OF rest]
  have rows: "new_rows ts t e dev (m # ms) rows =
      new_rows ts t e dev [m] rows @ new_rows ts t e dev ms (rows @ new_rows ts t e dev [m] rows)" for rows
    using new_rows_append [of ts t e dev "[m]" ms rows] by simp
  from this1(2) have db: "db_measurements (w_db w1) =
      db_measurements (w_db w) @ new_rows ts t e dev [m] (db_measurements (w_db w))" by (simp only: stores_def) simp
  have "stores ts t e dev (m # ms) (w_db w) (w_db w')"
    using this1(2) more unfolding stores_def rows by (simp only: database.update_convs database.select_convs) simp
  moreover have "n' = n + word_of_nat (length (new_rows ts t e dev (m # ms) (db_measurements (w_db w))))"
    using this1(3) more db unfolding rows by simp
  ultimately show ?case using this1(1) more by simp
qed

subsection \<open>The outcome of recording, under every fault\<close>

lemma new_rows_taken:
  "(\<And>m k. m \<in> set ms \<Longrightarrow> window_taken rows (measurement_row_of ts t e dev k m)) \<Longrightarrow> new_rows ts t e dev ms rows = []"
  by (induction ms) (simp_all add: Let_def)

lemma window_taken_append: "window_taken rows r \<Longrightarrow> window_taken (rows @ rest) r"
  by (auto simp: window_taken_def)

lemma edge_window_row [simp]:
  "edge_window (measurement_row_of ts t e dev k m) = (t, e, nullif_empty dev, ms_ObservationPointID m, ts (ms_WindowStart m))"
  by (simp add: edge_window_def measurement_row_of_def)

lemma window_taken_row:
  "window_taken rows (measurement_row_of ts t e dev k m) \<longleftrightarrow> dev \<noteq> '''' \<and>
     (\<exists>q \<in> set rows. edge_window q = (t, e, nullif_empty dev, ms_ObservationPointID m, ts (ms_WindowStart m)))"
  by (auto simp: window_taken_def list_ex_iff) (auto simp: measurement_row_of_def nullif_empty_def)

text \<open>Every measurement that a device has reported has its window taken.\<close>

lemma window_taken_new:
  assumes "dev \<noteq> ''''" and "m \<in> set ms"
  shows "window_taken (rows @ new_rows ts t e dev ms rows) (measurement_row_of ts t e dev k m)"
  using assms(2)
proof (induction ms arbitrary: rows)
  case (Cons a ms)
  let ?r = "measurement_row_of ts t e dev (next_id me_id rows) a"
  show ?case
  proof (cases "m = a")
    case True
    then have "window_taken (rows @ [?r]) (measurement_row_of ts t e dev k m)"
      using assms(1) by (simp add: window_taken_row)
    moreover have "window_taken rows ?r = window_taken rows (measurement_row_of ts t e dev k m)"
      using True by (simp add: window_taken_row)
    ultimately show ?thesis
      using window_taken_append [of "rows @ [?r]"] window_taken_append [of rows] by (simp add: Let_def)
  next
    case False
    then have m: "m \<in> set ms" using Cons.prems by simp
    show ?thesis using Cons.IH [OF m, of rows] Cons.IH [OF m, of "rows @ [?r]"] by (simp add: Let_def)
  qed
qed simp

lemma RecordAll_outcome:
  assumes "RecordAll ts ctx t e dev ms w = (r, w')" and "\<not> ctx_tx ctx"
  obtains (unchanged) err where "r = Inl err" "w_db w' = w_db w"
  | (recorded) n where "list_all (window_ok ts) ms" "stores ts t e dev ms (w_db w) (w_db w')"
      "n = word_of_nat (length (new_rows ts t e dev ms (db_measurements (w_db w))))"
      "r = Inr n \<or> (\<exists>err. r = Inl (Wrap ''commit transaction'' err))"
proof (cases "ms = []")
  case True
  with assms(1) have "r = Inr 0" "w' = w" by (auto simp: RecordAll_def returnE_def)
  with True recorded [of 0] show thesis by (simp add: stores_def)
next
  case False
  with assms(1) have run: "runInTransaction ctx (\<lambda>ctx. foldE (record_one ts ctx t e dev) ms 0) w = (r, w')"
    by (simp add: RecordAll_def RunInTransaction_def)
  show thesis
  proof (rule runInTransaction_outcome [OF run assms(2)])
    fix x w0 w1
    assume begun: "next_fault w = (NoFault, w0)"
      and body: "foldE (record_one ts (ctx\<lparr>ctx_tx := True\<rparr>) t e dev) ms 0 w0 = (Inr x, w1)"
      and db: "w_db w' = w_db w1" and r: "r = Inr x \<or> (\<exists>e. r = Inl (Wrap ''commit transaction'' e))"
    note stored = record_fold_Inr [OF body, unfolded next_fault_db [OF begun]]
    show thesis by (rule recorded [of x]) (use stored db r in simp_all)
  qed (rule unchanged)
qed

lemma RecordAll_Inr:
  assumes "RecordAll ts ctx t e dev ms w = (Inr n, w')"
  shows "list_all (window_ok ts) ms" and "stores ts t e dev ms (w_db w) (w_db w')"
    and "n = word_of_nat (length (new_rows ts t e dev ms (db_measurements (w_db w))))"
proof -
  have "list_all (window_ok ts) ms \<and> stores ts t e dev ms (w_db w) (w_db w') \<and>
    n = word_of_nat (length (new_rows ts t e dev ms (db_measurements (w_db w))))"
  proof (cases "ms = []")
    case True
    with assms show ?thesis by (simp add: RecordAll_def stores_def)
  next
    case False
    with assms have "RunInTransaction ctx (\<lambda>ctx. foldE (record_one ts ctx t e dev) ms 0) w = (Inr n, w')"
      by (simp add: RecordAll_def)
    then show ?thesis
    proof (rule transaction_Inr)
      fix c w0 w1
      assume "foldE (record_one ts c t e dev) ms 0 w0 = (Inr n, w1)" "w_db w0 = w_db w" "w_db w' = w_db w1"
      with record_fold_Inr [of ts c t e dev ms 0 w0 n w1] show ?thesis by simp
    qed
  qed
  then show "list_all (window_ok ts) ms" and "stores ts t e dev ms (w_db w) (w_db w')"
    and "n = word_of_nat (length (new_rows ts t e dev ms (db_measurements (w_db w))))" by blast+
qed

lemma new_rows_length: "length (new_rows ts t e dev ms rows) \<le> length ms"
  by (induction ms arbitrary: rows) (auto simp: Let_def le_SucI)

text \<open>When a report adds as many rows as it has measurements, the rows are the measurements as stored.\<close>

definition stored_measurement :: "(time \<Rightarrow> time) \<Rightarrow> Measurement \<Rightarrow> Measurement" where
  "stored_measurement ts m = m\<lparr>ms_WindowStart := ts (ms_WindowStart m), ms_WindowEnd := ts (ms_WindowEnd m)\<rparr>"

lemma measurement_of_new_row [simp]: "measurement_of_row (measurement_row_of ts t e dev k m) = stored_measurement ts m"
  by (simp add: measurement_of_row_def measurement_row_of_def stored_measurement_def)

lemma new_rows_all:
  "length (new_rows ts t e dev ms rows) = length ms \<Longrightarrow>
     map measurement_of_row (new_rows ts t e dev ms rows) = map (stored_measurement ts) ms"
proof (induction ms arbitrary: rows)
  case (Cons m ms)
  let ?r = "measurement_row_of ts t e dev (next_id me_id rows) m"
  have "\<not> window_taken rows ?r"
    using Cons.prems new_rows_length [of ts t e dev ms rows] by (auto simp: Let_def)
  with Cons show ?case by (simp add: Let_def)
qed simp

lemma new_rows_event: "r \<in> set (new_rows ts t e dev ms rows) \<Longrightarrow> me_event_id r = e \<and> me_tenant_public_id r = t"
  by (induction ms arbitrary: rows) (auto simp: Let_def measurement_row_of_def split: if_splits)

lemma ListWindow_Inr:
  "ListWindowEndingSince ts ctx e since w = (Inr out, w') \<Longrightarrow>
     out = map measurement_of_row (window_rows e (ts since) (w_db w)) \<and> w_db w' = w_db w"
  by (auto simp: ListWindowEndingSince_def bindE_Inr query_Inr next_fault_db)

lemma reader_ListWindow [relates_rules]: "reader (ListWindowEndingSince ts ctx e since)"
  unfolding ListWindowEndingSince_def by (auto intro!: relates_rules)

subsection \<open>Resending, listing, the invariant of the table, progress\<close>

lemma new_rows_again:
  assumes "dev \<noteq> ''''" and "set again \<subseteq> set ms"
  shows "new_rows ts t e dev again ((rows @ new_rows ts t e dev ms rows) @ later) = []"
  using assms(2) by (intro new_rows_taken window_taken_append window_taken_new [OF assms(1)]) auto

text \<open>The rows of one window of a device; after a report with that window there is one, if there was none.\<close>

definition window_count :: "(time \<Rightarrow> time) \<Rightarrow> string \<Rightarrow> string \<Rightarrow> EdgeDeviceID \<Rightarrow> Measurement \<Rightarrow> measurement_row list \<Rightarrow> nat" where
  "window_count ts t e dev m rows = length (filter (\<lambda>r. me_tenant_public_id r = t \<and> me_event_id r = e \<and> me_edge_device_id r = Some dev \<and>
     me_observation_point_id r = ms_ObservationPointID m \<and> me_window_start r = ts (ms_WindowStart m)) rows)"

lemma window_count_key:
  "window_count ts t e dev m rows = length (filter (\<lambda>r. edge_window r = (t, e, Some dev, ms_ObservationPointID m, ts (ms_WindowStart m))) rows)"
  by (simp add: window_count_def edge_window_def)

lemma count_row_of:
  assumes "dev \<noteq> ''''"
  shows "window_taken rows (measurement_row_of ts t e dev k m) \<longleftrightarrow> 0 < window_count ts t e dev m rows"
    and "window_count ts t e dev m' [measurement_row_of ts t e dev k m] =
      (if ms_ObservationPointID m = ms_ObservationPointID m' \<and> ts (ms_WindowStart m) = ts (ms_WindowStart m') then 1 else 0)"
  using assms
  by (auto simp: window_taken_def window_count_key list_ex_iff filter_empty_conv edge_window_def measurement_row_of_def nullif_empty_def)

definition same_window :: "(time \<Rightarrow> time) \<Rightarrow> Measurement \<Rightarrow> Measurement \<Rightarrow> bool" where
  "same_window ts a m \<longleftrightarrow> ms_ObservationPointID a = ms_ObservationPointID m \<and> ts (ms_WindowStart a) = ts (ms_WindowStart m)"

lemma window_count_append: "window_count ts t e dev m (rows @ new) = window_count ts t e dev m rows + window_count ts t e dev m new"
  by (simp add: window_count_def)

lemma new_rows_count:
  assumes "dev \<noteq> ''''"
  shows "window_count ts t e dev m (rows @ new_rows ts t e dev ms rows) =
    (if \<exists>a \<in> set ms. same_window ts a m then max 1 (window_count ts t e dev m rows) else window_count ts t e dev m rows)"
proof (induction ms arbitrary: rows)
  case (Cons a ms)
  let ?r = "measurement_row_of ts t e dev (next_id me_id rows) a"
  let ?c = "window_count ts t e dev m"
  have r: "?c [?r] = (if same_window ts a m then 1 else 0)" using count_row_of(2) [OF assms, of ts t e] by (simp add: same_window_def)
  have c: "same_window ts a m \<Longrightarrow> window_count ts t e dev a rows = ?c rows" by (simp add: same_window_def window_count_def)
  show ?case
  proof (cases "window_taken rows ?r")
    case True
    then have "same_window ts a m \<Longrightarrow> 0 < ?c rows" using count_row_of(1) [OF assms] c by simp
    with True Cons [of rows] show ?thesis by (auto simp: Let_def)
  next
    case False
    then have "same_window ts a m \<Longrightarrow> ?c rows = 0" using count_row_of(1) [OF assms] c by simp
    moreover have "?c (rows @ [?r]) = ?c rows + ?c [?r]" by (rule window_count_append)
    moreover have "?c (rows @ new_rows ts t e dev (a # ms) rows) = ?c ((rows @ [?r]) @ new_rows ts t e dev ms (rows @ [?r]))"
      using False by (simp add: Let_def)
    ultimately show ?thesis using Cons [of "rows @ [?r]"] r by simp
  qed
qed simp

text \<open>Measurements without a device are outside the index: a report of them adds a row for each, resent or not.\<close>

lemma new_rows_qr: "length (new_rows ts t e '''' ms rows) = length ms"
  by (induction ms arbitrary: rows) (simp_all add: Let_def window_taken_def measurement_row_of_def nullif_empty_def)

text \<open>C24. Reports of a device are idempotent: after a report of a device was recorded, and whatever was recorded after it, resending any
  of its measurements accepts none and changes nothing. QR reports, which name no device, are outside the unique index and are not
  (\<open>new_rows_qr\<close>).\<close>

theorem RecordAll_resend:
  assumes "RecordAll ts ctx t e dev ms w = (Inr n, w1)" and "dev \<noteq> ''''"
    and "db_measurements (w_db w2) = db_measurements (w_db w1) @ later" and "set again \<subseteq> set ms"
    and "RecordAll ts ctx2 t e dev again w2 = (Inr n2, w3)"
  shows "n2 = 0 \<and> w_db w3 = w_db w2"
proof -
  have "db_measurements (w_db w1) = db_measurements (w_db w) @ new_rows ts t e dev ms (db_measurements (w_db w))"
    using RecordAll_Inr(2) [OF assms(1)] by (simp only: stores_def) simp
  then have none: "new_rows ts t e dev again (db_measurements (w_db w2)) = []"
    using new_rows_again [OF assms(2,4)] assms(3) by simp
  with RecordAll_Inr(2,3) [OF assms(5)] show ?thesis by (simp only: stores_def) simp
qed

text \<open>C23. A report of a device may be retried until it is answered: whatever became of the first attempt, even when its answer was lost
  with the COMMIT, after a retry that is answered the measurements are those that one undisturbed attempt would have stored, and for every
  window of the report there is exactly one row with its tenant, event, device, point and start (or those there were before the report).
  The report names a device; QR reports are stored again by a retry (\<open>new_rows_qr\<close>).\<close>

theorem RecordAll_exactly_once:
  assumes "RecordAll ts ctx t e dev ms w = (r, w1)" and "\<not> ctx_tx ctx" and "dev \<noteq> ''''"
    and "w_db w2 = w_db w1" and "RecordAll ts ctx2 t e dev ms w2 = (Inr n, w3)"
  shows "stores ts t e dev ms (w_db w) (w_db w3) \<and>
    list_all (\<lambda>m. window_count ts t e dev m (db_measurements (w_db w3)) = max 1 (window_count ts t e dev m (db_measurements (w_db w)))) ms"
proof -
  have stored: "stores ts t e dev ms (w_db w) (w_db w3)"
  proof (rule RecordAll_outcome [OF assms(1,2)])
    fix err assume "w_db w1 = w_db w"
    with RecordAll_Inr(2) [OF assms(5)] assms(4) show ?thesis by simp
  next
    fix n1 assume first: "stores ts t e dev ms (w_db w) (w_db w1)"
    then have "db_measurements (w_db w1) = db_measurements (w_db w) @ new_rows ts t e dev ms (db_measurements (w_db w))"
      by (simp only: stores_def) simp
    then have "new_rows ts t e dev ms (db_measurements (w_db w2)) = []"
      using new_rows_again [OF assms(3) order_refl, where later = "[]"] assms(4) by simp
    with RecordAll_Inr(2) [OF assms(5)] assms(4) have "w_db w3 = w_db w1" by (simp only: stores_def) simp
    with first show ?thesis by simp
  qed
  then have rows: "db_measurements (w_db w3) = db_measurements (w_db w) @ new_rows ts t e dev ms (db_measurements (w_db w))"
    by (simp only: stores_def) simp
  have "window_count ts t e dev m (db_measurements (w_db w3)) = max 1 (window_count ts t e dev m (db_measurements (w_db w)))" if "m \<in> set ms" for m
    unfolding rows new_rows_count [OF assms(3)] using that by (auto simp: same_window_def)
  with stored show ?thesis by (simp add: list_all_iff)
qed

text \<open>C26. Recording and listing are inverse: a report that was accepted in full appears in the measurements of its event
  with its times as stored, besides those listed before, and the list is in the order of the windows' ends.\<close>

theorem RecordAll_listed:
  assumes "RecordAll ts ctx t e dev ms w = (Inr n, w1)" and "unat n = length ms"
    and "ListWindowEndingSince ts ctx e since w = (Inr before, w2)"
    and "ListWindowEndingSince ts ctx e since w1 = (Inr out, w3)"
  shows "mset out = mset before + mset (filter (\<lambda>m. ts since \<le> ms_WindowEnd m) (map (stored_measurement ts) ms)) \<and>
    sorted (map ms_WindowEnd out)"
proof
  let ?new = "new_rows ts t e dev ms (db_measurements (w_db w))"
  have rows: "db_measurements (w_db w1) = db_measurements (w_db w) @ ?new"
    using RecordAll_Inr(2) [OF assms(1)] by (simp only: stores_def) simp
  have "unat (word_of_nat (length ?new) :: int32) = length ms" using RecordAll_Inr(3) [OF assms(1)] assms(2) by simp
  then have "length ms \<le> length ?new" by (metis unat_of_nat mod_less_eq_dividend)
  then have "length ?new = length ms" using new_rows_length [of ts t e dev ms] by (simp add: le_antisym)
  from new_rows_all [OF this] have all: "map measurement_of_row ?new = map (stored_measurement ts) ms" .
  let ?late = "\<lambda>r. ts since \<le> me_window_end r"
  have late: "filter (\<lambda>m. ts since \<le> ms_WindowEnd m) (map measurement_of_row rs) = map measurement_of_row (filter ?late rs)" for rs
    by (simp add: filter_map o_def measurement_of_row_def)
  have "filter (\<lambda>r. me_event_id r = e \<and> ?late r) ?new = filter ?late ?new"
    using new_rows_event by (intro filter_cong) fastforce+
  then have "mset out = mset before + mset (map measurement_of_row (filter ?late ?new))"
    using ListWindow_Inr [OF assms(3)] ListWindow_Inr [OF assms(4)] rows by (simp add: window_rows_def)
  then show "mset out = mset before + mset (filter (\<lambda>m. ts since \<le> ms_WindowEnd m) (map (stored_measurement ts) ms))"
    by (simp only: late flip: all)
  have "sorted (map fst (map (\<lambda>r. (me_window_end r, me_id r)) (window_rows e (ts since) (w_db w1))))"
    unfolding window_rows_def by (intro sorted_map_mono [of _ fst] sorted_sort_key) (auto simp: mono_on_def less_eq_prod_def)
  then show "sorted (map ms_WindowEnd out)"
    using ListWindow_Inr [OF assms(4)] by (simp add: o_def measurement_of_row_def)
qed

text \<open>What the constraints and the unique index keep of the table.\<close>

definition measurements_inv :: "database \<Rightarrow> bool" where
  "measurements_inv d \<longleftrightarrow> distinct (map me_id (db_measurements d)) \<and> list_all measurement_check (db_measurements d) \<and>
     distinct (map edge_window (filter (\<lambda>r. me_edge_device_id r \<noteq> None) (db_measurements d)))"

lemma insert_measurement_inv:
  assumes inv: "measurements_inv d" and ins: "insert_measurement ts t e dev m d = Inr (k, d')"
  shows "measurements_inv d'"
proof (cases "d' = d")
  case False
  let ?r = "measurement_row_of ts t e dev (next_id me_id (db_measurements d)) m"
  from ins False have new: "measurement_check ?r" "\<not> window_taken (db_measurements d) ?r"
    "db_measurements d' = db_measurements d @ [?r]"
    by (auto simp: insert_measurement_def Let_def split: if_splits)
  have "me_id ?r \<notin> me_id ` set (db_measurements d)"
    using next_id_notin [of me_id "db_measurements d"] by (simp add: measurement_row_of_def)
  moreover have "me_edge_device_id ?r \<noteq> None \<Longrightarrow>
      edge_window ?r \<notin> edge_window ` set (filter (\<lambda>r. me_edge_device_id r \<noteq> None) (db_measurements d))"
    using new(2) unfolding window_taken_def list_ex_iff by fastforce
  ultimately show ?thesis using inv new(1) unfolding measurements_inv_def new(3) by auto
qed (use inv in simp)

text \<open>The table of measurements keeps its invariant under every fault: distinct keys, non-empty windows, no negative mean,
  and at most one row for a window of a device's point.\<close>

theorem RecordAll_invariant: "db_keeps measurements_inv (RecordAll ts ctx t e dev ms)"
proof -
  have "db_keeps measurements_inv (record_one ts c t e dev m n)" for c m n
    unfolding record_one_def
    by (auto intro!: keeps_rules db_keeps_sql reader_logDivergentResend [THEN reader_keeps] intro: insert_measurement_inv)
  then show ?thesis unfolding RecordAll_def by (auto intro!: keeps_rules)
qed

lemma window_ok_storable:
  assumes "timestamptz ts" and "measurement_wf m" and "ms_WindowStart m + 2 * microsecond \<le> ms_WindowEnd m"
  shows "window_ok ts m"
proof -
  have "ts (ms_WindowStart m) < ts (ms_WindowEnd m)"
  proof -
    let ?k = "((ms_WindowStart m) div microsecond + 1) * microsecond"
    have us: "microsecond = 1000" by (simp add: microsecond_def)
    have k: "ms_WindowStart m \<le> ?k" "?k + microsecond \<le> ms_WindowEnd m"
      using assms(3) div_mult_mod_eq [of "ms_WindowStart m" 1000] pos_mod_bound [of 1000 "ms_WindowStart m"]
        pos_mod_sign [of 1000 "ms_WindowStart m"] unfolding us by (simp_all add: algebra_simps)
    have "ts ?k = ?k" "ts (?k + microsecond) = ?k + microsecond"
      using timestamptz.ts_exact [OF assms(1)] by simp_all
    then have "ts (ms_WindowStart m) \<le> ?k" "?k + microsecond \<le> ts (ms_WindowEnd m)"
      using timestamptz.ts_mono [OF assms(1) k(1)] timestamptz.ts_mono [OF assms(1) k(2)] by simp_all
    then show ?thesis by (simp add: us)
  qed
  with assms(2) show ?thesis
    by (auto simp: window_ok_def measurement_check_def measurement_row_of_def measurement_wf_def people_ok_def split: option.splits)
qed

lemma logDivergentResend_quiet:
  assumes "w_faults w = []" and "window_taken (db_measurements (w_db w)) (measurement_row_of ts t e dev k m)"
  shows "\<exists>w'. logDivergentResend ts ctx t e dev m w = (Inr (), w') \<and> w_faults w' = []"
proof -
  from assms(2) obtain q where "q \<in> set (db_measurements (w_db w))"
    "edge_window q = (t, e, Some dev, ms_ObservationPointID m, ts (ms_WindowStart m))"
    by (auto simp: window_taken_row nullif_empty_def)
  then have "select_accepted ts t e dev m (w_db w) \<noteq> []" by (auto simp: select_accepted_def filter_empty_conv)
  then obtain s rest where "select_accepted ts t e dev m (w_db w) = s # rest" by (cases "select_accepted ts t e dev m (w_db w)") auto
  with assms(1) show ?thesis
    by (simp add: logDivergentResend_def bindE_def wrapE_def query_one_def sql_quiet slog_def returnE_def)
qed

lemma record_one_quiet:
  assumes "w_faults w = []" and "window_ok ts m"
  shows "\<exists>n' w'. record_one ts ctx t e dev m n w = (Inr n', w') \<and> w_faults w' = []"
proof (cases "window_taken (db_measurements (w_db w)) (measurement_row_of ts t e dev (next_id me_id (db_measurements (w_db w))) m)")
  case False
  with assms show ?thesis
    by (simp add: record_one_def bindE_def wrapE_def sql_quiet insert_measurement_def Let_def check_window_ok returnE_def)
next
  case True
  from logDivergentResend_quiet [OF assms(1) True, of ctx] obtain w' where
    "logDivergentResend ts ctx t e dev m w = (Inr (), w')" "w_faults w' = []" by blast
  with assms True show ?thesis
    by (simp add: record_one_def bindE_def wrapE_def sql_quiet insert_measurement_def Let_def check_window_ok returnE_def)
qed

lemma record_fold_quiet:
  "w_faults w = [] \<Longrightarrow> list_all (window_ok ts) ms \<Longrightarrow>
     \<exists>n' w'. foldE (record_one ts ctx t e dev) ms n w = (Inr n', w') \<and> w_faults w' = []"
proof (induction ms arbitrary: n w)
  case (Cons m ms)
  from record_one_quiet [of w ts m ctx t e dev n] Cons.prems obtain k w1
    where one: "record_one ts ctx t e dev m n w = (Inr k, w1)" "w_faults w1 = []" by auto
  from Cons.IH [OF one(2), of k] Cons.prems(2) one(1) show ?case by (simp add: bindE_def)
qed (simp add: returnE_def)

text \<open>C25. Recording makes progress: when the database answers, a report of validated measurements whose windows last two
  microseconds or more is always recorded, resent windows included.\<close>

theorem RecordAll_progress:
  assumes "w_faults w = []" and "timestamptz ts"
    and "\<forall>m \<in> set ms. measurement_wf m \<and> ms_WindowStart m + 2 * microsecond \<le> ms_WindowEnd m"
  shows "\<exists>n w'. RecordAll ts ctx t e dev ms w = (Inr n, w')"
proof -
  have "list_all (window_ok ts) ms" using assms(2,3) by (auto simp: list_all_iff intro: window_ok_storable)
  then have "\<exists>n' w'. foldE (record_one ts c t e dev) ms 0 w = (Inr n', w') \<and> w_faults w' = []" for c
    using record_fold_quiet [OF assms(1)] by blast
  with RunInTransaction_quiet [where fn = "\<lambda>c. foldE (record_one ts c t e dev) ms 0", OF assms(1), of ctx]
  have "\<exists>x w'. RunInTransaction ctx (\<lambda>c. foldE (record_one ts c t e dev) ms 0) w = (Inr x, w')" by blast
  then show ?thesis
    by (cases "ms = []") (auto simp: RecordAll_def returnE_def)
qed

text \<open>C27. A window that the resolution of the column makes empty is never recorded, though the domain accepts
  it: the report fails on the CHECK constraint of the table, and nothing of it is stored.\<close>

theorem RecordAll_refuses_empty_window:
  assumes "RecordAll ts ctx t e dev ms w = (r, w')" and "\<not> ctx_tx ctx"
    and "m \<in> set ms" and "ts (ms_WindowEnd m) \<le> ts (ms_WindowStart m)"
  shows "\<exists>err. r = Inl err \<and> w_db w' = w_db w"
proof (rule RecordAll_outcome [OF assms(1,2)])
  assume "list_all (window_ok ts) ms"
  with assms(3,4) show ?thesis
    by (auto simp: list_all_iff window_ok_def measurement_check_def measurement_row_of_def)
qed blast

subsection \<open>Examples\<close>

definition sample_measurement :: Measurement where
  "sample_measurement = \<lparr>ms_ObservationPointID = ''00000000000000aa'', ms_WindowStart = 0, ms_WindowEnd = minute,
     ms_CountIn = 3, ms_CountOut = 1, ms_MeanDetectedPeople = Some (Num False 2)\<rparr>"

definition sample_stored :: database where
  "sample_stored = empty_db\<lparr>db_measurements :=
     [measurement_row_of trunc_us ''t'' ''e'' ''00000000000000bb'' 1 sample_measurement]\<rparr>"

lemma sample_measurement_ok: "window_ok trunc_us sample_measurement"
  by (simp add: window_ok_def measurement_check_def measurement_row_of_def sample_measurement_def trunc_us_def
      time_truncate_def duration_units f_zero_def)

lemma sample_record:
  "\<exists>w'. RecordAll trunc_us (sample_ctx ''t'' ''e'') ''t'' ''e'' ''00000000000000bb'' [sample_measurement] (sample_world fs empty_db ()) =
      ((if fs = [] then Inr 1 else Inl (Wrap ''commit transaction'' (OtherError ''reset''))), w') \<and> w_db w' = sample_stored \<and> w_faults w' = []"
  if "fs = [] \<or> fs = [NoFault, NoFault, FailAfter (ConnectionError ''reset'')]"
proof -
  have "\<not> window_taken [] (measurement_row_of trunc_us ''t'' ''e'' ''00000000000000bb'' k sample_measurement)" for k
    by (simp add: window_taken_def)
  with that show ?thesis
    by (elim disjE) (simp_all add: RecordAll_def RunInTransaction_def runInTransaction_def sample_ctx_def sample_world_def
        next_fault_def record_one_def insert_measurement_def Let_def check_window_ok sample_measurement_ok bindE_def wrapE_def
        sql_def returnE_def commit_def empty_db_def sample_stored_def next_id_def)
qed

lemma sample_resend:
  "\<exists>w'. RecordAll trunc_us (sample_ctx ''t'' ''e'') ''t'' ''e'' ''00000000000000bb'' [sample_measurement] (sample_world [] sample_stored ()) =
      (Inr 0, w')"
  by (simp add: RecordAll_def RunInTransaction_def runInTransaction_def sample_ctx_def sample_world_def logDivergentResend_def
      next_fault_def record_one_def insert_measurement_def Let_def check_window_ok sample_measurement_ok bindE_def wrapE_def
      sql_def returnE_def commit_def empty_db_def sample_stored_def next_id_def window_taken_row nullif_empty_def
      query_one_def select_accepted_def slog_def)

lemma RecordAll_resend_witness:
  "\<exists>w1 w3. RecordAll trunc_us (sample_ctx ''t'' ''e'') ''t'' ''e'' ''00000000000000bb'' [sample_measurement] (sample_world [] empty_db ()) =
      (Inr 1, w1) \<and> w_db w1 = sample_stored \<and>
    RecordAll trunc_us (sample_ctx ''t'' ''e'') ''t'' ''e'' ''00000000000000bb'' [sample_measurement] (sample_world [] sample_stored ()) =
      (Inr 0, w3) \<and> w_db w3 = sample_stored"
proof -
  from sample_record [of "[]"] obtain w1 where first: "RecordAll trunc_us (sample_ctx ''t'' ''e'') ''t'' ''e'' ''00000000000000bb''
    [sample_measurement] (sample_world [] empty_db ()) = (Inr 1, w1)" "w_db w1 = sample_stored" by auto
  from sample_resend obtain w3 where again: "RecordAll trunc_us (sample_ctx ''t'' ''e'') ''t'' ''e'' ''00000000000000bb''
    [sample_measurement] (sample_world [] sample_stored ()) = (Inr 0, w3)" by blast
  have "w_db w3 = w_db (sample_world [] sample_stored ())"
    using RecordAll_resend [OF first(1) _ _ order_refl again, of "[]"] first(2) by simp
  with first again show ?thesis by auto
qed

lemma RecordAll_exactly_once_witness:
  "\<exists>e w1 w3. RecordAll trunc_us (sample_ctx ''t'' ''e'') ''t'' ''e'' ''00000000000000bb'' [sample_measurement]
      (sample_world [NoFault, NoFault, FailAfter (ConnectionError ''reset'')] empty_db ()) = (Inl e, w1) \<and>
    RecordAll trunc_us (sample_ctx ''t'' ''e'') ''t'' ''e'' ''00000000000000bb'' [sample_measurement] (sample_world [] (w_db w1) ()) =
      (Inr 0, w3) \<and> stores trunc_us ''t'' ''e'' ''00000000000000bb'' [sample_measurement] empty_db (w_db w3)"
proof -
  let ?w = "sample_world [NoFault, NoFault, FailAfter (ConnectionError ''reset'')] empty_db ()"
  from sample_record [of "[NoFault, NoFault, FailAfter (ConnectionError ''reset'')]"] obtain w1 where first:
    "RecordAll trunc_us (sample_ctx ''t'' ''e'') ''t'' ''e'' ''00000000000000bb'' [sample_measurement] ?w =
      (Inl (Wrap ''commit transaction'' (OtherError ''reset'')), w1)" "w_db w1 = sample_stored" by auto
  from sample_resend obtain w3 where again: "RecordAll trunc_us (sample_ctx ''t'' ''e'') ''t'' ''e'' ''00000000000000bb''
    [sample_measurement] (sample_world [] sample_stored ()) = (Inr 0, w3)" by blast
  have "stores trunc_us ''t'' ''e'' ''00000000000000bb'' [sample_measurement] (w_db ?w) (w_db w3)"
    using RecordAll_exactly_once [OF first(1) sample_ctx_tx _ _ again] first(2) by simp
  with first again show ?thesis by auto
qed

lemma RecordAll_listed_witness:
  "\<exists>w1 out w3. RecordAll trunc_us (sample_ctx ''t'' ''e'') ''t'' ''e'' ''00000000000000bb'' [sample_measurement] (sample_world [] empty_db ()) =
      (Inr 1, w1) \<and>
    ListWindowEndingSince trunc_us (sample_ctx ''t'' ''e'') ''e'' 0 w1 = (Inr out, w3) \<and> mset out = {#sample_measurement#}"
proof -
  let ?w = "sample_world [] empty_db ()"
  from sample_record [of "[]"] obtain w1 where first: "RecordAll trunc_us (sample_ctx ''t'' ''e'') ''t'' ''e'' ''00000000000000bb''
    [sample_measurement] ?w = (Inr 1, w1)" "w_faults w1 = []" by auto
  have before: "ListWindowEndingSince trunc_us (sample_ctx ''t'' ''e'') ''e'' 0 ?w = (Inr [], ?w)"
    by (simp add: ListWindowEndingSince_def sample_world_def empty_db_def window_rows_def wrapE_def bindE_def query_def sql_def
        next_fault_def returnE_def)
  from first(2) obtain out where list: "ListWindowEndingSince trunc_us (sample_ctx ''t'' ''e'') ''e'' 0 w1 = (Inr out, w1)"
    by (simp add: ListWindowEndingSince_def wrapE_def bindE_def query_def sql_quiet returnE_def)
  have "stored_measurement trunc_us sample_measurement = sample_measurement"
    by (simp add: stored_measurement_def sample_measurement_def trunc_us_def time_truncate_def duration_units)
  then have "mset out = {#sample_measurement#}"
    using RecordAll_listed [OF first(1) _ before list]
    by (simp add: trunc_us_def time_truncate_def duration_units sample_measurement_def)
  with first list show ?thesis by blast
qed

lemma RecordAll_progress_witness:
  "\<exists>n w'. RecordAll trunc_us (sample_ctx ''t'' ''e'') ''t'' ''e'' ''00000000000000bb'' [sample_measurement]
     (sample_world [] sample_stored ()) = (Inr n, w')"
proof (rule RecordAll_progress [OF _ trunc_us])
  have "measurement_wf sample_measurement" by code_simp
  then show "\<forall>m \<in> set [sample_measurement]. measurement_wf m \<and> ms_WindowStart m + 2 * microsecond \<le> ms_WindowEnd m"
    by (simp add: sample_measurement_def duration_units)
qed simp

lemma RecordAll_refuses_empty_window_witness:
  "\<exists>m err w'. NewMeasurement ''00000000000000aa'' 0 999 1 1 None = Inr m \<and>
     RecordAll trunc_us (sample_ctx ''t'' ''e'') ''t'' ''e'' ''00000000000000bb'' [m] (sample_world [] empty_db ()) = (Inl err, w') \<and>
     w_db w' = empty_db"
proof -
  let ?m = "\<lparr>ms_ObservationPointID = ''00000000000000aa'', ms_WindowStart = 0, ms_WindowEnd = 999, ms_CountIn = 1, ms_CountOut = 1,
    ms_MeanDetectedPeople = None\<rparr>"
  have m: "NewMeasurement ''00000000000000aa'' 0 999 1 1 None = Inr ?m" by code_simp
  obtain r w' where run: "RecordAll trunc_us (sample_ctx ''t'' ''e'') ''t'' ''e'' ''00000000000000bb'' [?m] (sample_world [] empty_db ()) =
    (r, w')" by fastforce
  have "\<exists>err. r = Inl err \<and> w_db w' = w_db (sample_world [] empty_db ())"
    by (rule RecordAll_refuses_empty_window [OF run sample_ctx_tx, of ?m])
      (simp_all add: trunc_us_def time_truncate_def duration_units)
  with m run show ?thesis by auto
qed

end
