(* ===== verification/SettingsStore.thy ===== *)
theory SettingsStore
  imports Database
begin

section \<open>infra/db/observation\_settings.go and application/observation\_settings.go\<close>

text \<open>
  The settings of an event, one row by event ID, owned by the tenant that stored it first: the upsert's
  UPDATE carries the condition that the tenant is the same, and an upsert that affects no row is reported as
  \<open>ErrMismatch\<close>. The interface of the use cases is the record \<open>ObservationSettingsRepository\<close>,
  its contract the locale \<open>settings_store\<close>, provided by the PostgreSQL repository.
\<close>

subsection \<open>The repository\<close>

definition eventTypeValues :: "(EventType \<times> string) list" where
  "eventTypeValues = [(EventTypeShortTerm, ''short_term''), (EventTypeLongTerm, ''long_term'')]"

text \<open>Indexing a Go map with a key it does not have yields the empty string.\<close>

definition event_type_value :: "EventType \<Rightarrow> string" where
  "event_type_value t = (case map_of eventTypeValues t of None \<Rightarrow> '''' | Some v \<Rightarrow> v)"

definition settings_check :: "settings_row \<Rightarrow> bool" where
  "settings_check r \<longleftrightarrow> 1 \<le> sint (se_history_window_days r) \<and> se_event_type r \<in> {''short_term'', ''long_term''}"

definition upsert_settings :: "settings_row \<Rightarrow> database \<Rightarrow> err + (int \<times> database)" where
  "upsert_settings r d =
     (let mine = (\<lambda>q. se_event_id q = se_event_id r \<and> se_tenant_public_id q = se_tenant_public_id r) in
      if \<not> settings_check r then Inl (PgError ''23514'')
      else if list_ex (\<lambda>q. se_event_id q = se_event_id r) (db_settings d) then
        Inr (int (length (filter mine (db_settings d))),
          d\<lparr>db_settings := update_where mine
            (\<lambda>q. q\<lparr>se_history_window_days := se_history_window_days r, se_event_type := se_event_type r\<rparr>) (db_settings d)\<rparr>)
      else Inr (1, d\<lparr>db_settings := db_settings d @ [r]\<rparr>))"

definition Settings_Find :: "Ctx \<Rightarrow> string \<Rightarrow> ('x, ObservationSettings) action" where
  "Settings_Find ctx eventID =
     bindE (catchE (query_one (\<lambda>d. filter (\<lambda>q. se_event_id q = eventID) (db_settings d)))
       (\<lambda>err. if errors_is err SqlErrNoRows then throwE (Err ErrObservationSettingsNotFound)
              else throwE (Wrap ''select observation settings'' err))) (\<lambda>row.
     bindE (liftE (VerifyOwnership ctx (se_tenant_public_id row))) (\<lambda>_.
     case List.find (\<lambda>(eventType, v). v = se_event_type row) eventTypeValues of
       Some (eventType, v) \<Rightarrow> returnE \<lparr>os_HistoryWindowDays = se_history_window_days row, os_EventType = eventType\<rparr>
     | None \<Rightarrow> throwE (OtherError ''unknown stored event type'')))"

definition Settings_Save :: "Ctx \<Rightarrow> string \<Rightarrow> string \<Rightarrow> ObservationSettings \<Rightarrow> ('x, unit) action" where
  "Settings_Save ctx tenantPublicID eventID settings =
     bindE (wrapE (Wrap ''upsert observation settings'') (sql (upsert_settings
       \<lparr>se_event_id = eventID, se_tenant_public_id = tenantPublicID,
        se_history_window_days = os_HistoryWindowDays settings, se_event_type = event_type_value (os_EventType settings)\<rparr>)))
     (\<lambda>affected. if affected = 0 then throwE (Err ErrMismatch) else returnE ())"

record 'x ObservationSettingsRepository =
  or_Find :: "Ctx \<Rightarrow> string \<Rightarrow> ('x, ObservationSettings) action"
  or_Save :: "Ctx \<Rightarrow> string \<Rightarrow> string \<Rightarrow> ObservationSettings \<Rightarrow> ('x, unit) action"

definition NewPostgresObservationSettingsRepository :: "'x ObservationSettingsRepository" where
  "NewPostgresObservationSettingsRepository = \<lparr>or_Find = Settings_Find, or_Save = Settings_Save\<rparr>"

subsection \<open>The use cases\<close>

record UpdateObservationSettingsInput =
  us_EventID :: string
  us_HistoryWindowDays :: int32
  us_EventType :: EventType

definition findObservationSettings :: "Ctx \<Rightarrow> 'x ObservationSettingsRepository \<Rightarrow> string \<Rightarrow> ('x, ObservationSettings) action" where
  "findObservationSettings ctx settings eventID =
     catchE (or_Find settings ctx eventID)
       (\<lambda>err. if errors_is err ErrObservationSettingsNotFound then returnE DefaultObservationSettings
              else throwE (Wrap ''find observation settings'' err))"

definition GetObservationSettings :: "'x ObservationSettingsRepository \<Rightarrow> Ctx \<Rightarrow> string \<Rightarrow> ('x, ObservationSettings) action" where
  "GetObservationSettings settings ctx eventID =
     bindE (liftE (EnsureEvent ctx eventID)) (\<lambda>_. findObservationSettings ctx settings eventID)"

definition UpdateObservationSettings ::
  "'x ObservationSettingsRepository \<Rightarrow> Ctx \<Rightarrow> UpdateObservationSettingsInput \<Rightarrow> ('x, ObservationSettings) action" where
  "UpdateObservationSettings repo ctx input =
     bindE (liftE (EnsureEvent ctx (us_EventID input))) (\<lambda>_.
     case TenantPublicIDFromContext ctx of
       None \<Rightarrow> throwE (Err ErrMissing)
     | Some tenantPublicID \<Rightarrow>
         bindE (liftE (NewObservationSettings (us_HistoryWindowDays input) (us_EventType input))) (\<lambda>settings.
         bindE (wrapE (Wrap ''save observation settings'') (or_Save repo ctx tenantPublicID (us_EventID input) settings)) (\<lambda>_.
         returnE settings)))"

subsection \<open>The contract of the repository\<close>

text \<open>
  What the use cases rely on, over an abstraction of the database to a map from events to the owning tenant and
  its settings. \<open>Find\<close> reads it at an event the tenant may see; \<open>Save\<close> sets one event, and only one that is free or
  already owned by the tenant, and touches no other table; an error leaves the database as it was, or comes from a statement whose
  answer was lost after that very update.
\<close>

definition only_settings :: "database \<Rightarrow> database \<Rightarrow> bool" where
  "only_settings d d' \<longleftrightarrow> d'\<lparr>db_settings := []\<rparr> = d\<lparr>db_settings := []\<rparr>"

locale settings_store =
  fixes repo :: "'x ObservationSettingsRepository" and ok :: "database \<Rightarrow> bool"
    and settings_at :: "database \<Rightarrow> string \<Rightarrow> (string \<times> ObservationSettings) option"
  assumes Find_reader: "reader (or_Find repo ctx e)"
    and Find_result: "ok (w_db w) \<Longrightarrow> or_Find repo ctx e w = (Inr s, w') \<Longrightarrow>
      \<exists>t. settings_at (w_db w) e = Some (t, s) \<and> tenant_allows ctx t"
    and Find_missing: "ok (w_db w) \<Longrightarrow> or_Find repo ctx e w = (Inl err, w') \<Longrightarrow> errors_is err ErrObservationSettingsNotFound \<Longrightarrow>
      settings_at (w_db w) e = None"
    and Save_ok: "db_keeps ok (or_Save repo ctx t e s)"
    and Save_effect: "ok (w_db w) \<Longrightarrow> settings_ok s \<Longrightarrow> or_Save repo ctx t e s w = (r, w') \<Longrightarrow>
      (w_db w' = w_db w \<and> (\<exists>err. r = Inl err)) \<or>
      settings_at (w_db w') = (settings_at (w_db w))(e \<mapsto> (t, s)) \<and> only_settings (w_db w) (w_db w') \<and>
        (case settings_at (w_db w) e of None \<Rightarrow> True | Some (u, _) \<Rightarrow> u = t)"
begin

lemma find_settings:
  assumes "ok (w_db w)" and "findObservationSettings ctx repo e w = (Inr s, w')"
  shows "(case settings_at (w_db w) e of None \<Rightarrow> s = DefaultObservationSettings | Some (t, s') \<Rightarrow> s = s' \<and> tenant_allows ctx t)
    \<and> w_db w' = w_db w"
  using assms(2) unfolding findObservationSettings_def catchE_Inr
proof (elim disjE exE conjE)
  assume "or_Find repo ctx e w = (Inr s, w')"
  with Find_result [OF assms(1) this] readerD [OF Find_reader this] show ?thesis by auto
next
  fix err w1
  assume f: "or_Find repo ctx e w = (Inl err, w1)"
    and h: "(if errors_is err ErrObservationSettingsNotFound then returnE DefaultObservationSettings
      else throwE (Wrap ''find observation settings'' err)) w1 = (Inr s, w')"
  then show ?thesis using Find_missing [OF assms(1) f] readerD [OF Find_reader f] by (auto split: if_splits)
qed

lemma update_settings:
  assumes inv: "ok (w_db w)" and run: "UpdateObservationSettings repo ctx input w = (r, w')"
  shows "(w_db w' = w_db w \<and> (\<exists>err. r = Inl err)) \<or>
    (\<exists>t s. EnsureEvent ctx (us_EventID input) = Inr () \<and> TenantPublicIDFromContext ctx = Some t \<and>
       NewObservationSettings (us_HistoryWindowDays input) (us_EventType input) = Inr s \<and> only_settings (w_db w) (w_db w') \<and>
       settings_at (w_db w') = (settings_at (w_db w))(us_EventID input \<mapsto> (t, s)) \<and>
       (case settings_at (w_db w) (us_EventID input) of None \<Rightarrow> True | Some (u, _) \<Rightarrow> u = t) \<and>
       (r = Inr s \<or> (\<exists>err. r = Inl err)))"
proof (cases "EnsureEvent ctx (us_EventID input)")
  case (Inl err)
  with run show ?thesis by (auto simp: UpdateObservationSettings_def throwE_def)
next
  case ev: (Inr u)
  show ?thesis
  proof (cases "TenantPublicIDFromContext ctx")
    case None
    with run ev show ?thesis by (auto simp: UpdateObservationSettings_def throwE_def)
  next
    case t: (Some t)
    show ?thesis
    proof (cases "NewObservationSettings (us_HistoryWindowDays input) (us_EventType input)")
      case (Inl err)
      from run show ?thesis unfolding UpdateObservationSettings_def ev t Inl by (auto simp: throwE_def)
    next
      case s: (Inr s)
      then have sok: "settings_ok s" using NewObservationSettings_iff by blast
      obtain q w1 where save: "or_Save repo ctx t (us_EventID input) s w = (q, w1)" by fastforce
      with run ev t s have "w' = w1" "r = (case q of Inl err \<Rightarrow> Inl (Wrap ''save observation settings'' err) | Inr _ \<Rightarrow> Inr s)"
        by (auto simp: UpdateObservationSettings_def bindE_def wrapE_def returnE_def split: sum.splits)
      with Save_effect [OF inv sok save] ev t s show ?thesis by (cases q) auto
    qed
  qed
qed

lemma update_keeps: "db_keeps ok (UpdateObservationSettings repo ctx input)"
  unfolding UpdateObservationSettings_def
  by (auto intro!: keeps_rules Save_ok)

text \<open>What was updated is what is read afterwards, by whoever may read it.\<close>

lemma update_get:
  assumes "ok (w_db w)" and "UpdateObservationSettings repo ctx input w = (Inr s, w1)"
    and "w_db w2 = w_db w1" and "GetObservationSettings repo ctx2 (us_EventID input) w2 = (Inr s2, w3)"
  shows "s2 = s \<and> settings_ok s"
proof -
  from update_settings [OF assms(1,2)] obtain t where
    at: "settings_at (w_db w1) = (settings_at (w_db w))(us_EventID input \<mapsto> (t, s))" and ok: "settings_ok s"
    by (auto simp: NewObservationSettings_iff)
  have "ok (w_db w2)" using keepsD [OF update_keeps assms(1,2)] assms(3) by simp
  moreover have "findObservationSettings ctx2 repo (us_EventID input) w2 = (Inr s2, w3)"
    using assms(4) by (auto simp: GetObservationSettings_def bindE_Inr)
  ultimately show ?thesis using find_settings at ok assms(3) by fastforce
qed

end

subsection \<open>PostgreSQL provides it\<close>

definition settings_inv :: "database \<Rightarrow> bool" where
  "settings_inv d \<longleftrightarrow> distinct (map se_event_id (db_settings d)) \<and> list_all settings_check (db_settings d)"

definition settings_of_row :: "settings_row \<Rightarrow> ObservationSettings" where
  "settings_of_row r = \<lparr>os_HistoryWindowDays = se_history_window_days r,
     os_EventType = (if se_event_type r = ''short_term'' then EventTypeShortTerm else EventTypeLongTerm)\<rparr>"

definition stored_settings :: "database \<Rightarrow> string \<Rightarrow> (string \<times> ObservationSettings) option" where
  "stored_settings d = map_of (map (\<lambda>r. (se_event_id r, se_tenant_public_id r, settings_of_row r)) (db_settings d))"

lemma stored_settings_at:
  "stored_settings d e = (case filter (\<lambda>r. se_event_id r = e) (db_settings d) of [] \<Rightarrow> None
     | r # _ \<Rightarrow> Some (se_tenant_public_id r, settings_of_row r))"
  by (simp add: stored_settings_def map_of_first)

lemma event_type_of_value: "settings_ok s \<Longrightarrow>
  event_type_value (os_EventType s) = (if os_EventType s = EventTypeShortTerm then ''short_term'' else ''long_term'')"
  by (auto simp: settings_ok_def event_type_value_def eventTypeValues_def)

lemma settings_of_new_row: "settings_ok s \<Longrightarrow>
  settings_of_row \<lparr>se_event_id = e, se_tenant_public_id = t, se_history_window_days = os_HistoryWindowDays s,
     se_event_type = event_type_value (os_EventType s)\<rparr> = s"
  by (auto simp: settings_of_row_def event_type_of_value settings_ok_def)

lemma upsert_settings_effect:
  assumes inv: "settings_inv d" and ok: "settings_ok s"
    and up: "upsert_settings \<lparr>se_event_id = e, se_tenant_public_id = t, se_history_window_days = os_HistoryWindowDays s,
      se_event_type = event_type_value (os_EventType s)\<rparr> d = Inr (n, d')"
  shows "settings_inv d'" and "if n = 0 then d' = d else stored_settings d' = (stored_settings d)(e \<mapsto> (t, s)) \<and>
      (case stored_settings d e of None \<Rightarrow> True | Some (u, _) \<Rightarrow> u = t)"
proof -
  let ?r = "\<lparr>se_event_id = e, se_tenant_public_id = t, se_history_window_days = os_HistoryWindowDays s,
      se_event_type = event_type_value (os_EventType s)\<rparr>"
  let ?mine = "\<lambda>q. se_event_id q = e \<and> se_tenant_public_id q = t"
  let ?set = "\<lambda>q. q\<lparr>se_history_window_days := os_HistoryWindowDays s, se_event_type := event_type_value (os_EventType s)\<rparr>"
  have check: "settings_check ?r" using ok by (auto simp: settings_check_def settings_ok_def event_type_of_value)
  have dist: "distinct (map se_event_id (db_settings d))" using inv by (simp add: settings_inv_def)
  have both: "settings_inv d' \<and> (if n = 0 then d' = d else stored_settings d' = (stored_settings d)(e \<mapsto> (t, s)) \<and>
      (case stored_settings d e of None \<Rightarrow> True | Some (u, _) \<Rightarrow> u = t))"
  proof (cases "list_ex (\<lambda>q. se_event_id q = e) (db_settings d)")
    case False
    then have "filter (\<lambda>q. se_event_id q = e) (db_settings d) = []" by (simp add: list_ex_iff filter_empty_conv)
    moreover have d': "d' = d\<lparr>db_settings := db_settings d @ [?r]\<rparr>" "n = 1"
      using up check False by (auto simp: upsert_settings_def Let_def)
    moreover have "settings_inv d'"
      using inv check False by (auto simp: d' settings_inv_def list_ex_iff)
    moreover have "stored_settings d' = (stored_settings d)(e \<mapsto> (t, s))"
      using calculation(1) by (auto simp: fun_eq_iff stored_settings_at d' settings_of_new_row [OF ok] split: list.splits)
    ultimately show ?thesis by (simp add: stored_settings_at)
  next
    case True
    with up check have n: "n = int (length (filter ?mine (db_settings d)))"
      and d': "d' = d\<lparr>db_settings := update_where ?mine ?set (db_settings d)\<rparr>"
      by (auto simp: upsert_settings_def Let_def)
    from True filter_key_distinct [OF dist, of e] obtain q where q: "q \<in> set (db_settings d)" "se_event_id q = e"
      "filter (\<lambda>r. se_event_id r = e) (db_settings d) = [q]"
      by (auto simp: list_ex_iff filter_empty_conv)
    have mine: "filter ?mine (db_settings d) = (if se_tenant_public_id q = t then [q] else [])"
      using arg_cong [OF q(3), of "filter (\<lambda>q. se_tenant_public_id q = t)"] by (simp add: conj_commute)
    show ?thesis
    proof (cases "se_tenant_public_id q = t")
      case False
      then have "update_where ?mine ?set (db_settings d) = db_settings d"
        using mine by (intro update_where_none) (auto simp: filter_empty_conv)
      with mine n inv d' False show ?thesis by simp
    next
      case True
      have "se_event_id (?set r) = se_event_id r" for r by simp
      note rows = filter_update_where [of se_event_id, OF this]
      have inv': "settings_inv d'"
        using inv check unfolding settings_inv_def d' list_all_iff
        by (auto simp: map_update_where set_update_where settings_check_def)
      have "stored_settings d' e' = ((stored_settings d)(e \<mapsto> (t, s))) e'" for e'
      proof (cases "e' = e")
        case same: True
        have "filter (\<lambda>r. se_event_id r = e) (db_settings d') = [?set q]"
          using rows [of e ?mine "db_settings d"] q True by (simp add: d' update_where_def)
        with same True show ?thesis
          using settings_of_new_row [OF ok] by (simp add: stored_settings_at settings_of_row_def)
      next
        case False
        have "update_where ?mine ?set (filter (\<lambda>r. se_event_id r = e') (db_settings d)) = filter (\<lambda>r. se_event_id r = e') (db_settings d)"
          using False by (intro update_where_none) auto
        with rows [of e' ?mine "db_settings d"] False show ?thesis by (simp add: stored_settings_at d')
      qed
      with inv' mine n True q show ?thesis by (auto simp: stored_settings_at)
    qed
  qed
  then show "settings_inv d'" and "if n = 0 then d' = d else stored_settings d' = (stored_settings d)(e \<mapsto> (t, s)) \<and>
      (case stored_settings d e of None \<Rightarrow> True | Some (u, _) \<Rightarrow> u = t)" by blast+
qed

lemma Settings_Find_reader: "reader (Settings_Find ctx e)"
  unfolding Settings_Find_def by (auto intro!: relates_rules)

lemma type_value_inverse:
  assumes "settings_check r"
  shows "\<exists>v. List.find (\<lambda>(eventType, v). v = se_event_type r) eventTypeValues = Some (os_EventType (settings_of_row r), v)"
  using assms by (auto simp: settings_check_def eventTypeValues_def settings_of_row_def)

lemma Settings_Find_Inr:
  assumes inv: "settings_inv (w_db w)" and run: "Settings_Find ctx e w = (Inr s, w')"
  shows "\<exists>t. stored_settings (w_db w) e = Some (t, s) \<and> tenant_allows ctx t"
proof -
  let ?q = "query_one (\<lambda>d. filter (\<lambda>q. se_event_id q = e) (db_settings d))"
  from run obtain row w1 where "?q w = (Inr row, w1)" and own: "tenant_allows ctx (se_tenant_public_id row)"
    and last: "(case List.find (\<lambda>(eventType, v). v = se_event_type row) eventTypeValues of
       Some (eventType, v) \<Rightarrow> returnE \<lparr>os_HistoryWindowDays = se_history_window_days row, os_EventType = eventType\<rparr>
     | None \<Rightarrow> throwE (OtherError ''unknown stored event type'')) w1 = (Inr s, w')"
    by (auto simp: Settings_Find_def bindE_Inr catchE_Inr VerifyOwnership_iff split: if_splits)
  then obtain rest where row: "filter (\<lambda>q. se_event_id q = e) (db_settings (w_db w)) = row # rest" by (auto simp: query_one_Inr)
  then have "row \<in> set (db_settings (w_db w))" by (metis filter_is_subset list.set_intros(1) subsetD)
  then have "settings_check row" using inv by (simp add: settings_inv_def list_all_iff)
  with last have "s = settings_of_row row" using type_value_inverse [of row] by (auto simp: settings_of_row_def)
  with row own show ?thesis by (simp add: stored_settings_at)
qed

lemma Settings_Find_missing:
  assumes run: "Settings_Find ctx e w = (Inl err, w')" and "errors_is err ErrObservationSettingsNotFound"
  shows "stored_settings (w_db w) e = None"
proof -
  let ?q = "query_one (\<lambda>d. filter (\<lambda>q. se_event_id q = e) (db_settings d))"
  obtain q w1 where q: "?q w = (q, w1)" by fastforce
  show ?thesis
  proof (cases q)
    case (Inr row)
    with run assms(2) q have False
      by (auto simp: Settings_Find_def bindE_def catchE_def effect_simps VerifyOwnership_error split: sum.splits option.splits)
    then show ?thesis ..
  next
    case (Inl err')
    show ?thesis
    proof (cases "errors_is err' SqlErrNoRows")
      case True
      from query_one_none [OF q [unfolded Inl] True] show ?thesis by (simp add: stored_settings_at)
    next
      case False
      with run q Inl have "err = Wrap ''select observation settings'' err'"
        by (auto simp: Settings_Find_def bindE_def catchE_def throwE_def)
      moreover have "\<exists>de. err' = driver_err de"
        using q False unfolding Inl query_one_def by (auto dest!: sql_Inl split: list.splits)
      ultimately show ?thesis using assms(2) driver_err_is by auto
    qed
  qed
qed

lemma upsert_settings_ok:
  "upsert_settings \<lparr>se_event_id = e, se_tenant_public_id = t, se_history_window_days = os_HistoryWindowDays s,
     se_event_type = event_type_value (os_EventType s)\<rparr> d = Inr r \<Longrightarrow> settings_ok s"
  by (auto simp: upsert_settings_def Let_def settings_check_def settings_ok_def event_type_value_def eventTypeValues_def
      split: if_splits)

lemma upsert_settings_only: "upsert_settings r d = Inr (n, d') \<Longrightarrow> only_settings d d'"
  by (auto simp: upsert_settings_def only_settings_def Let_def split: if_splits)

lemma Settings_Save_ok: "db_keeps settings_inv (Settings_Save ctx t e s)"
  unfolding Settings_Save_def
  by (auto intro!: keeps_rules db_keeps_sql intro: upsert_settings_effect(1) upsert_settings_ok)

lemma Settings_Save_effect:
  assumes inv: "settings_inv (w_db w)" and ok: "settings_ok s" and run: "Settings_Save ctx t e s w = (r, w')"
  shows "(w_db w' = w_db w \<and> (\<exists>err. r = Inl err)) \<or>
      stored_settings (w_db w') = (stored_settings (w_db w))(e \<mapsto> (t, s)) \<and> only_settings (w_db w) (w_db w') \<and>
        (case stored_settings (w_db w) e of None \<Rightarrow> True | Some (u, _) \<Rightarrow> u = t)"
proof -
  let ?stmt = "upsert_settings \<lparr>se_event_id = e, se_tenant_public_id = t, se_history_window_days = os_HistoryWindowDays s,
    se_event_type = event_type_value (os_EventType s)\<rparr>"
  obtain q w1 where up: "sql ?stmt w = (q, w1)" by fastforce
  with run have r: "w' = w1" "(\<exists>n. q = Inr n \<and> n \<noteq> 0 \<and> r = Inr ()) \<or> (\<exists>err. r = Inl err \<and> (\<forall>n. q = Inr n \<longrightarrow> n = 0))"
    by (auto simp: Settings_Save_def bindE_def wrapE_def throwE_def returnE_def split: sum.splits if_splits)
  from sql_db [OF up] consider (same) "w_db w1 = w_db w" "\<exists>err. q = Inl err"
    | (saved) n where "?stmt (w_db w) = Inr (n, w_db w1)" "\<forall>m. q = Inr m \<longrightarrow> m = n"
    using up by (cases q) (auto simp: sql_Inr)
  then show ?thesis
  proof cases
    case same
    with r show ?thesis by auto
  next
    case saved
    show ?thesis
    proof (cases "n = 0")
      case True
      with upsert_settings_effect(2) [OF inv ok saved(1)] r saved(2) show ?thesis by auto
    next
      case False
      with upsert_settings_effect(2) [OF inv ok saved(1)] upsert_settings_only [OF saved(1)] r show ?thesis by simp
    qed
  qed
qed

interpretation postgres_settings: settings_store "NewPostgresObservationSettingsRepository :: 'x ObservationSettingsRepository"
  settings_inv stored_settings
proof
  fix ctx e t s w r err and w' :: "'x world"
  show "reader (or_Find (NewPostgresObservationSettingsRepository :: 'x ObservationSettingsRepository) ctx e)"
    by (simp add: NewPostgresObservationSettingsRepository_def Settings_Find_reader)
  show "db_keeps settings_inv (or_Save (NewPostgresObservationSettingsRepository :: 'x ObservationSettingsRepository) ctx t e s)"
    by (simp add: NewPostgresObservationSettingsRepository_def Settings_Save_ok)
  show "settings_inv (w_db w) \<Longrightarrow> or_Find NewPostgresObservationSettingsRepository ctx e w = (Inr s, w') \<Longrightarrow>
      \<exists>t. stored_settings (w_db w) e = Some (t, s) \<and> tenant_allows ctx t"
    by (simp add: NewPostgresObservationSettingsRepository_def Settings_Find_Inr)
  show "settings_inv (w_db w) \<Longrightarrow> or_Find NewPostgresObservationSettingsRepository ctx e w = (Inl err, w') \<Longrightarrow>
      errors_is err ErrObservationSettingsNotFound \<Longrightarrow> stored_settings (w_db w) e = None"
    by (simp add: NewPostgresObservationSettingsRepository_def Settings_Find_missing)
  show "settings_inv (w_db w) \<Longrightarrow> settings_ok s \<Longrightarrow> or_Save NewPostgresObservationSettingsRepository ctx t e s w = (r, w') \<Longrightarrow>
      (w_db w' = w_db w \<and> (\<exists>err. r = Inl err)) \<or>
      stored_settings (w_db w') = (stored_settings (w_db w))(e \<mapsto> (t, s)) \<and> only_settings (w_db w) (w_db w') \<and>
        (case stored_settings (w_db w) e of None \<Rightarrow> True | Some (u, _) \<Rightarrow> u = t)"
    by (simp add: NewPostgresObservationSettingsRepository_def Settings_Save_effect)
qed

subsection \<open>Properties\<close>

text \<open>Updating and reading the settings of an event are inverse: what an update returned, validated, is what
  any later read returns, whichever member reads it.\<close>

theorem ObservationSettings_roundtrip:
  fixes w w1 w2 w3 :: "'x world"
  assumes "settings_inv (w_db w)"
    and "UpdateObservationSettings NewPostgresObservationSettingsRepository ctx input w = (Inr s, w1)"
    and "w_db w2 = w_db w1"
    and "GetObservationSettings NewPostgresObservationSettingsRepository ctx2 (us_EventID input) w2 = (Inr s2, w3)"
  shows "s2 = s \<and> settings_ok s"
  by (rule postgres_settings.update_get [OF assms])

text \<open>C32. Under every fault an update either changes nothing and fails, or the caller's token is of the event, and the update sets exactly
  the settings of that event, which was free or the tenant's already, to the validated request: no tenant overwrites the settings of another,
  no token those of another event, and no other table changes.\<close>

theorem UpdateObservationSettings_effect:
  assumes "settings_inv (w_db w)"
    and "UpdateObservationSettings NewPostgresObservationSettingsRepository ctx input w = (r, w')"
  shows "(w_db w' = w_db w \<and> (\<exists>err. r = Inl err)) \<or>
    (\<exists>t s. EnsureEvent ctx (us_EventID input) = Inr () \<and> TenantPublicIDFromContext ctx = Some t \<and>
       NewObservationSettings (us_HistoryWindowDays input) (us_EventType input) = Inr s \<and> only_settings (w_db w) (w_db w') \<and>
       stored_settings (w_db w') = (stored_settings (w_db w))(us_EventID input \<mapsto> (t, s)) \<and>
       (case stored_settings (w_db w) (us_EventID input) of None \<Rightarrow> True | Some (u, _) \<Rightarrow> u = t) \<and>
       (r = Inr s \<or> (\<exists>err. r = Inl err)))"
  by (rule postgres_settings.update_settings [OF assms])

text \<open>Reading settings returns those stored for the event if the tenant may see them, and the defaults when there are none;
  it never fails for want of settings and changes nothing.\<close>

theorem GetObservationSettings_result:
  assumes "settings_inv (w_db w)"
    and "GetObservationSettings NewPostgresObservationSettingsRepository ctx e w = (Inr s, w')"
  shows "(case stored_settings (w_db w) e of None \<Rightarrow> s = DefaultObservationSettings | Some (t, s') \<Rightarrow> s = s' \<and> tenant_allows ctx t)
    \<and> w_db w' = w_db w"
  using assms(2) postgres_settings.find_settings [OF assms(1)] by (auto simp: GetObservationSettings_def bindE_Inr)

subsection \<open>Examples\<close>

definition sample_settings_input :: UpdateObservationSettingsInput where
  "sample_settings_input = \<lparr>us_EventID = ''e'', us_HistoryWindowDays = 7, us_EventType = EventTypeLongTerm\<rparr>"

lemma settings_inv_empty: "settings_inv empty_db"
  by (simp add: settings_inv_def empty_db_def)

lemma ObservationSettings_roundtrip_witness:
  "\<exists>s w1 w3. UpdateObservationSettings NewPostgresObservationSettingsRepository (sample_ctx ''t'' ''e'') sample_settings_input
      (sample_world [] empty_db ()) = (Inr s, w1) \<and>
    GetObservationSettings NewPostgresObservationSettingsRepository (sample_ctx ''t'' ''e'') ''e'' w1 =
      (Inr \<lparr>os_HistoryWindowDays = 7, os_EventType = EventTypeLongTerm\<rparr>, w3) \<and>
    s = \<lparr>os_HistoryWindowDays = 7, os_EventType = EventTypeLongTerm\<rparr>"
proof -
  let ?up = "UpdateObservationSettings NewPostgresObservationSettingsRepository (sample_ctx ''t'' ''e'') sample_settings_input
      (sample_world [] empty_db ())"
  obtain r w1 where up: "?up = (r, w1)" by fastforce
  let ?s = "\<lparr>os_HistoryWindowDays = 7, os_EventType = EventTypeLongTerm\<rparr>"
  obtain r2 w3 where get: "GetObservationSettings NewPostgresObservationSettingsRepository (sample_ctx ''t'' ''e'') ''e'' w1 = (r2, w3)"
    by fastforce
  have "fst (GetObservationSettings NewPostgresObservationSettingsRepository (sample_ctx ''t'' ''e'') ''e'' (snd ?up)) = Inr ?s"
    by code_simp
  then have r2: "r2 = Inr ?s" using up get by simp
  have "case fst ?up of Inl _ \<Rightarrow> False | Inr _ \<Rightarrow> True" by code_simp
  then obtain s where r: "r = Inr s" using up by (cases r) simp_all
  have e: "us_EventID sample_settings_input = ''e''" by (simp add: sample_settings_input_def)
  have "?s = s \<and> settings_ok s"
    by (rule ObservationSettings_roundtrip [OF _ up [unfolded r] refl get [unfolded r2 e [symmetric]]]) (simp add: settings_inv_empty)
  with up r get r2 show ?thesis by auto
qed

definition foreign_settings_db :: database where
  "foreign_settings_db = empty_db\<lparr>db_settings := [\<lparr>se_event_id = ''e'', se_tenant_public_id = ''other'',
     se_history_window_days = 3, se_event_type = ''short_term''\<rparr>]\<rparr>"

lemma foreign_settings_inv: "settings_inv foreign_settings_db"
  by (simp add: settings_inv_def foreign_settings_db_def settings_check_def)

lemma UpdateObservationSettings_effect_witness:
  "\<exists>err w'. UpdateObservationSettings NewPostgresObservationSettingsRepository (sample_ctx ''t'' ''e'') sample_settings_input
      (sample_world [] foreign_settings_db ()) = (Inl err, w') \<and> w_db w' = foreign_settings_db"
proof -
  obtain r w' where up: "UpdateObservationSettings NewPostgresObservationSettingsRepository (sample_ctx ''t'' ''e'')
      sample_settings_input (sample_world [] foreign_settings_db ()) = (r, w')" by fastforce
  have "TenantPublicIDFromContext (sample_ctx ''t'' ''e'') = Some ''t''" by code_simp
  moreover have "stored_settings foreign_settings_db ''e'' \<noteq> None"
    and "fst (the (stored_settings foreign_settings_db ''e'')) = ''other''" by code_simp+
  ultimately show ?thesis
    using UpdateObservationSettings_effect [OF _ up] foreign_settings_inv up by (auto simp: sample_settings_input_def)
qed

lemma GetObservationSettings_result_witness:
  "\<exists>s w'. GetObservationSettings NewPostgresObservationSettingsRepository (sample_ctx ''t'' ''e'') ''e''
      (sample_world [] empty_db ()) = (Inr s, w') \<and> s = DefaultObservationSettings"
proof -
  obtain r w' where get: "GetObservationSettings NewPostgresObservationSettingsRepository (sample_ctx ''t'' ''e'') ''e''
      (sample_world [] empty_db ()) = (r, w')" by fastforce
  have "case fst (GetObservationSettings NewPostgresObservationSettingsRepository (sample_ctx ''t'' ''e'') ''e''
      (sample_world [] empty_db ())) of Inl _ \<Rightarrow> False | Inr _ \<Rightarrow> True" by code_simp
  then obtain s where r: "r = Inr s" using get by (cases r) simp_all
  have "stored_settings empty_db ''e'' = None" by code_simp
  with GetObservationSettings_result [OF _ get [unfolded r]] settings_inv_empty get r show ?thesis by simp
qed

end
