(* ===== verification/GuestStore.thy ===== *)
theory GuestStore
  imports JsonCodec
begin

section \<open>infra/db/guest\_status.go: the guest status of an event\<close>

text \<open>
  One row by event ID, with the crowd and queue statuses as JSONB. Saving upserts the row and numbers it: the first
  status of an event has sequence 1, every later one the next. Go's \<open>int\<close> levels travel as JSON
  integers, so a level outside the named ones survives; \<open>level_wf\<close> says that a value is named when it can be.
\<close>

definition int_of_level :: "CrowdLevel \<Rightarrow> int" where
  "int_of_level l = (case l of CrowdLevelUnspecified \<Rightarrow> 0 | CrowdLevelLow \<Rightarrow> 1 | CrowdLevelMid \<Rightarrow> 2 | CrowdLevelHigh \<Rightarrow> 3
     | CrowdLevelOther n \<Rightarrow> n)"

definition level_of_int :: "int \<Rightarrow> CrowdLevel" where
  "level_of_int n = (if n = 0 then CrowdLevelUnspecified else if n = 1 then CrowdLevelLow else if n = 2 then CrowdLevelMid
     else if n = 3 then CrowdLevelHigh else CrowdLevelOther n)"

definition json_crowd :: "CrowdStatus \<Rightarrow> json" where
  "json_crowd c = JObj
     ((if ga_PointID (cs_Anchor c) = '''' then [] else [(''point_id'', JStr (ga_PointID (cs_Anchor c)))]) @
      (if ga_RouteID (cs_Anchor c) = '''' then [] else [(''route_id'', JStr (ga_RouteID (cs_Anchor c)))]) @
      [(''level'', JInt (int_of_level (cs_Level c))), (''danger'', JBool (cs_Danger c))])"

definition json_queue :: "QueueStatus \<Rightarrow> err + json" where
  "json_queue q = bindS (json_float (qs_WaitTimeMinutes q)) (\<lambda>wait. Inr (JObj
     [(''queue_id'', JStr (qs_QueueID q)), (''gate_point_ids'', json_strings (qs_GatePointIDs q)),
      (''wait_time_minutes'', wait), (''turnaround_count'', JInt (sint (qs_TurnaroundCount q))),
      (''recommended_gate_point_ids'', json_strings (qs_RecommendedGatePointIDs q))]))"

definition zero_crowd :: CrowdStatus where
  "zero_crowd = \<lparr>cs_Anchor = GraphAnchor '''' '''', cs_Level = CrowdLevelUnspecified, cs_Danger = False\<rparr>"

definition decode_crowd :: "json \<Rightarrow> err + CrowdStatus" where
  "decode_crowd j =
     bindS (json_field ''point_id'' '''' decode_string j) (\<lambda>pointID.
     bindS (json_field ''route_id'' '''' decode_string j) (\<lambda>routeID.
     bindS (json_field ''level'' 0 decode_int j) (\<lambda>level.
     bindS (json_field ''danger'' False decode_bool j) (\<lambda>danger.
     Inr \<lparr>cs_Anchor = GraphAnchor pointID routeID, cs_Level = level_of_int level, cs_Danger = danger\<rparr>))))"

definition zero_queue :: QueueStatus where
  "zero_queue = \<lparr>qs_QueueID = '''', qs_GatePointIDs = [], qs_WaitTimeMinutes = f_zero, qs_TurnaroundCount = 0,
     qs_RecommendedGatePointIDs = []\<rparr>"

definition decode_queue :: "json \<Rightarrow> err + QueueStatus" where
  "decode_queue j =
     bindS (json_field ''queue_id'' '''' decode_string j) (\<lambda>queueID.
     bindS (json_field ''gate_point_ids'' [] decode_strings j) (\<lambda>gates.
     bindS (json_field ''wait_time_minutes'' f_zero decode_float j) (\<lambda>wait.
     bindS (json_field ''turnaround_count'' 0 decode_int32 j) (\<lambda>turnaround.
     bindS (json_field ''recommended_gate_point_ids'' [] decode_strings j) (\<lambda>recommended.
     Inr \<lparr>qs_QueueID = queueID, qs_GatePointIDs = gates, qs_WaitTimeMinutes = wait, qs_TurnaroundCount = turnaround,
       qs_RecommendedGatePointIDs = recommended\<rparr>)))))"

text \<open>The sequence is a BIGINT: past its largest value the server refuses the update.\<close>

definition upsert_guest ::
  "(time \<Rightarrow> time) \<Rightarrow> string \<Rightarrow> string \<Rightarrow> time \<Rightarrow> json \<Rightarrow> json \<Rightarrow> database \<Rightarrow> err + (int \<times> database)" where
  "upsert_guest ts eventID tenantPublicID takenAt crowd queues d =
     (case filter (\<lambda>g. gu_event_id g = eventID) (db_guest_statuses d) of
        [] \<Rightarrow> Inr (1, d\<lparr>db_guest_statuses := db_guest_statuses d @
          [\<lparr>gu_event_id = eventID, gu_tenant_public_id = tenantPublicID, gu_sequence = 1, gu_taken_at = ts takenAt,
            gu_crowd = jsonb crowd, gu_queues = jsonb queues\<rparr>]\<rparr>)
      | g # _ \<Rightarrow>
          if max_int64 < gu_sequence g + 1 then Inl (PgError ''22003'')
          else Inr (gu_sequence g + 1, d\<lparr>db_guest_statuses := update_where (\<lambda>g. gu_event_id g = eventID)
            (\<lambda>g. g\<lparr>gu_sequence := gu_sequence g + 1, gu_taken_at := ts takenAt, gu_crowd := jsonb crowd, gu_queues := jsonb queues\<rparr>)
            (db_guest_statuses d)\<rparr>))"

definition SaveGuestStatus :: "(time \<Rightarrow> time) \<Rightarrow> Ctx \<Rightarrow> string \<Rightarrow> GuestStatus \<Rightarrow> ('x, GuestStatus) action" where
  "SaveGuestStatus ts ctx tenantPublicID status =
     (let encodedCrowd = JArr (map json_crowd (gs_Crowd status)) in
      bindE (liftE (case mapS json_queue (gs_Queues status) of
          Inl err \<Rightarrow> Inl (Wrap ''encode guest queue status'' err) | Inr js \<Rightarrow> Inr (JArr js))) (\<lambda>encodedQueues.
      bindE (wrapE (Wrap ''upsert guest status'')
        (sql (upsert_guest ts (gs_EventID status) tenantPublicID (gs_TakenAt status) encodedCrowd encodedQueues))) (\<lambda>sequence.
      returnE (status\<lparr>gs_Sequence := word_of_int sequence\<rparr>))))"

definition guest_of_row :: "guest_row \<Rightarrow> err + GuestStatus" where
  "guest_of_row g =
     (case decode_list zero_crowd decode_crowd (gu_crowd g) of
        Inl err \<Rightarrow> Inl (Wrap ''decode guest crowd status'' err)
      | Inr crowd \<Rightarrow>
          (case decode_list zero_queue decode_queue (gu_queues g) of
             Inl err \<Rightarrow> Inl (Wrap ''decode guest queue status'' err)
           | Inr queues \<Rightarrow> Inr \<lparr>gs_EventID = gu_event_id g, gs_Sequence = word_of_int (gu_sequence g), gs_TakenAt = gu_taken_at g,
               gs_Crowd = crowd, gs_Queues = queues\<rparr>))"

definition LatestGuestStatus :: "Ctx \<Rightarrow> string \<Rightarrow> ('x, GuestStatus) action" where
  "LatestGuestStatus ctx eventID =
     bindE (catchE (query_one (\<lambda>d. filter (\<lambda>g. gu_event_id g = eventID) (db_guest_statuses d)))
       (\<lambda>err. if errors_is err SqlErrNoRows then throwE (Err ErrGuestStatusNotFound)
              else throwE (Wrap ''select guest status'' err))) (\<lambda>row. liftE (guest_of_row row))"

record 'x GuestStatusRepository =
  gr_SaveGuestStatus :: "Ctx \<Rightarrow> string \<Rightarrow> GuestStatus \<Rightarrow> ('x, GuestStatus) action"
  gr_LatestGuestStatus :: "Ctx \<Rightarrow> string \<Rightarrow> ('x, GuestStatus) action"

definition NewPostgresGuestStatusRepository :: "(time \<Rightarrow> time) \<Rightarrow> 'x GuestStatusRepository" where
  "NewPostgresGuestStatusRepository ts =
     \<lparr>gr_SaveGuestStatus = SaveGuestStatus ts, gr_LatestGuestStatus = LatestGuestStatus\<rparr>"

subsection \<open>Reading back a saved status\<close>

definition level_wf :: "CrowdLevel \<Rightarrow> bool" where
  "level_wf l = (case l of CrowdLevelOther n \<Rightarrow> is_int64 n \<and> n \<notin> {0, 1, 2, 3} | _ \<Rightarrow> True)"

definition stored_queue :: "QueueStatus \<Rightarrow> QueueStatus" where
  "stored_queue q = q\<lparr>qs_WaitTimeMinutes := positive_zero (qs_WaitTimeMinutes q)\<rparr>"

text \<open>A status as the database keeps it: the time at the column's resolution, no negative zero.\<close>

definition stored_guest :: "(time \<Rightarrow> time) \<Rightarrow> GuestStatus \<Rightarrow> GuestStatus" where
  "stored_guest ts s = s\<lparr>gs_TakenAt := ts (gs_TakenAt s), gs_Queues := map stored_queue (gs_Queues s)\<rparr>"

lemma level_of_level: "level_wf l \<Longrightarrow> level_of_int (int_of_level l) = l"
  by (cases l) (auto simp: level_wf_def level_of_int_def int_of_level_def)

lemma level_int64: "level_wf l \<Longrightarrow> is_int64 (int_of_level l)"
  by (cases l) (auto simp: level_wf_def int_of_level_def is_int64_def min_int64_def max_int64_def)

lemma decode_int_json: "is_int64 n \<Longrightarrow> decode_int (JInt n) = Inr n"
  by (simp add: decode_int_def decode_int_in_def is_int64_def)

lemma decode_json_crowd: "level_wf (cs_Level c) \<Longrightarrow> decode_crowd (jsonb (json_crowd c)) = Inr c"
  using decode_int_json [OF level_int64, of "cs_Level c"] level_of_level [of "cs_Level c"]
  by (cases "cs_Anchor c") (simp add: json_crowd_def decode_crowd_def decode_or_def)

lemma decode_json_queue: "json_queue q = Inr j \<Longrightarrow> decode_queue (jsonb j) = Inr (stored_queue q)"
  by (auto simp: json_queue_def bindS_Inr json_float_Inr decode_queue_def decode_or_def stored_queue_def codec_simps)
    (auto simp: json_strings_def decode_strings_json [unfolded json_strings_def])

lemma decode_crowds:
  "list_all (\<lambda>c. level_wf (cs_Level c)) cs \<Longrightarrow>
     decode_list zero_crowd decode_crowd (jsonb (JArr (map json_crowd cs))) = Inr cs"
  using decode_list_json [of decode_crowd id cs "map json_crowd cs" zero_crowd]
  by (simp add: list_all_iff list_all2_map2 list_all2_same decode_json_crowd) (simp add: json_crowd_def)

lemma decode_queues:
  assumes "mapS json_queue qs = Inr js"
  shows "decode_list zero_queue decode_queue (jsonb (JArr js)) = Inr (map stored_queue qs)"
proof (rule decode_list_json)
  from assms have "list_all2 (\<lambda>q j. json_queue q = Inr j) qs js" by (simp add: mapS_Inr)
  then show "list_all2 (\<lambda>q j. decode_queue (jsonb j) = Inr (stored_queue q) \<and> jsonb j \<noteq> JNull) qs js"
    by (rule list_all2_mono) (auto simp: decode_json_queue, auto simp: json_queue_def bindS_Inr)
qed

subsection \<open>The row of an event\<close>

definition guest_at :: "database \<Rightarrow> string \<Rightarrow> guest_row option" where
  "guest_at d e = List.find (\<lambda>g. gu_event_id g = e) (db_guest_statuses d)"

definition last_sequence :: "database \<Rightarrow> string \<Rightarrow> int" where
  "last_sequence d e = (case guest_at d e of None \<Rightarrow> 0 | Some g \<Rightarrow> gu_sequence g)"

definition guests_inv :: "database \<Rightarrow> bool" where
  "guests_inv d \<longleftrightarrow> distinct (map gu_event_id (db_guest_statuses d)) \<and>
     list_all (\<lambda>g. 1 \<le> gu_sequence g \<and> gu_sequence g \<le> max_int64) (db_guest_statuses d)"

definition guest_saved :: "(time \<Rightarrow> time) \<Rightarrow> GuestStatus \<Rightarrow> database \<Rightarrow> database \<Rightarrow> bool" where
  "guest_saved ts status d d' \<longleftrightarrow> d'\<lparr>db_guest_statuses := []\<rparr> = d\<lparr>db_guest_statuses := []\<rparr> \<and>
     last_sequence d' (gs_EventID status) = last_sequence d (gs_EventID status) + 1 \<and>
     (\<exists>g. guest_at d' (gs_EventID status) = Some g \<and>
        guest_of_row g = Inr (stored_guest ts (status\<lparr>gs_Sequence := word_of_int (last_sequence d' (gs_EventID status))\<rparr>))) \<and>
     (\<forall>e. e \<noteq> gs_EventID status \<longrightarrow> guest_at d' e = guest_at d e)"

lemma upsert_guest_effect:
  assumes inv: "guests_inv d" and levels: "list_all (\<lambda>c. level_wf (cs_Level c)) (gs_Crowd status)"
    and queues: "mapS json_queue (gs_Queues status) = Inr js"
    and up: "upsert_guest ts (gs_EventID status) t (gs_TakenAt status) (JArr (map json_crowd (gs_Crowd status))) (JArr js) d = Inr (n, d')"
  shows "guests_inv d' \<and> guest_saved ts status d d' \<and> n = last_sequence d' (gs_EventID status) \<and> 1 \<le> n \<and> n \<le> max_int64"
proof -
  let ?e = "gs_EventID status"
  let ?row = "\<lambda>t n. \<lparr>gu_event_id = ?e, gu_tenant_public_id = t, gu_sequence = n, gu_taken_at = ts (gs_TakenAt status),
    gu_crowd = jsonb (JArr (map json_crowd (gs_Crowd status))), gu_queues = jsonb (JArr js)\<rparr>"
  have row: "guest_of_row (?row u k) = Inr (stored_guest ts (status\<lparr>gs_Sequence := word_of_int k\<rparr>))" for u k
    using decode_crowds [OF levels] decode_queues [OF queues] by (simp add: guest_of_row_def stored_guest_def)
  show ?thesis
  proof (cases "filter (\<lambda>g. gu_event_id g = ?e) (db_guest_statuses d)")
    case Nil
    with up have new: "n = 1" "d' = d\<lparr>db_guest_statuses := db_guest_statuses d @ [?row t 1]\<rparr>"
      by (simp_all add: upsert_guest_def)
    have none: "guest_at d ?e = None" using Nil by (simp add: guest_at_def find_filter)
    have "guest_at d' e = (if e = ?e then Some (?row t 1) else guest_at d e)" for e
      using none by (auto simp: guest_at_def new find_append split: option.split)
    moreover have "guests_inv d'"
      using inv Nil by (auto simp: guests_inv_def new filter_empty_conv max_int64_def)
    ultimately show ?thesis
      using none row by (simp add: guest_saved_def last_sequence_def new max_int64_def)
  next
    case (Cons g rest)
    let ?f = "\<lambda>g. g\<lparr>gu_sequence := gu_sequence g + 1, gu_taken_at := ts (gs_TakenAt status),
      gu_crowd := jsonb (JArr (map json_crowd (gs_Crowd status))), gu_queues := jsonb (JArr js)\<rparr>"
    from Cons up have new: "n = gu_sequence g + 1" "n \<le> max_int64"
      "d' = d\<lparr>db_guest_statuses := update_where (\<lambda>g. gu_event_id g = ?e) ?f (db_guest_statuses d)\<rparr>"
      by (auto simp: upsert_guest_def split: if_splits)
    have old: "guest_at d ?e = Some g" using Cons by (simp add: guest_at_def find_filter)
    have at: "guest_at d' e = (if e = ?e then Some (?f g) else guest_at d e)" for e
      using old find_update_where_key [of gu_event_id ?f e ?e "db_guest_statuses d"] by (simp add: guest_at_def new)
    have g: "g \<in> set (db_guest_statuses d)" "gu_event_id g = ?e"
      using find_Some_in [OF old [unfolded guest_at_def]] by simp_all
    have only: "h = g" if "h \<in> set (db_guest_statuses d)" "gu_event_id h = ?e" for h
      using inv g that unfolding guests_inv_def distinct_map by (metis inj_onD)
    have inv': "guests_inv d'"
      unfolding guests_inv_def list_all_iff
    proof (intro conjI ballI)
      show "distinct (map gu_event_id (db_guest_statuses d'))" using inv by (simp add: new(3) map_update_where guests_inv_def)
      fix h assume "h \<in> set (db_guest_statuses d')"
      then obtain k where k: "k \<in> set (db_guest_statuses d)" "h = (if gu_event_id k = ?e then ?f k else k)"
        by (auto simp: new(3) set_update_where)
      have "1 \<le> gu_sequence k \<and> gu_sequence k \<le> max_int64" using inv k(1) by (simp add: guests_inv_def list_all_iff)
      moreover have "gu_event_id k = ?e \<Longrightarrow> gu_sequence k + 1 \<le> max_int64" using only [OF k(1)] new(1,2) by simp
      ultimately show "1 \<le> gu_sequence h" "gu_sequence h \<le> max_int64" by (simp_all add: k(2))
    qed
    have f: "?f g = ?row (gu_tenant_public_id g) n" using g(2) new(1) by simp
    have at_e: "guest_at d' ?e = Some (?row (gu_tenant_public_id g) n)" using at [of ?e] f by simp
    have seq: "last_sequence d' ?e = n" "last_sequence d ?e = gu_sequence g"
      unfolding last_sequence_def at_e old by simp_all
    have "guest_saved ts status d d'"
      unfolding guest_saved_def seq at_e using row at new(1) by (simp add: new(3))
    moreover have "1 \<le> n" using inv g(1) new(1) by (auto simp: guests_inv_def list_all_iff)
    ultimately show ?thesis using inv' new(2) seq(1) by blast
  qed
qed

lemma SaveGuestStatus_outcome:
  assumes inv: "guests_inv (w_db w)" and levels: "list_all (\<lambda>c. level_wf (cs_Level c)) (gs_Crowd status)"
    and run: "SaveGuestStatus ts ctx t status w = (r, w')"
  obtains (unchanged) err where "r = Inl err" "w_db w' = w_db w"
  | (saved) "guests_inv (w_db w')" "guest_saved ts status (w_db w) (w_db w')"
      "1 \<le> last_sequence (w_db w') (gs_EventID status)" "last_sequence (w_db w') (gs_EventID status) \<le> max_int64"
      "r = Inr (status\<lparr>gs_Sequence := word_of_int (last_sequence (w_db w') (gs_EventID status))\<rparr>) \<or> (\<exists>err. r = Inl err)"
proof (cases "mapS json_queue (gs_Queues status)")
  case (Inl err)
  with run unchanged [of "Wrap ''encode guest queue status'' err"] show thesis
    by (auto simp: SaveGuestStatus_def Let_def throwE_def)
next
  case (Inr js)
  let ?stmt = "upsert_guest ts (gs_EventID status) t (gs_TakenAt status) (JArr (map json_crowd (gs_Crowd status))) (JArr js)"
  note effect = upsert_guest_effect [OF inv levels Inr]
  obtain q w1 where up: "sql ?stmt w = (q, w1)" by fastforce
  with run Inr have r: "w' = w1" "r = (case q of Inl err \<Rightarrow> Inl (Wrap ''upsert guest status'' err)
      | Inr n \<Rightarrow> Inr (status\<lparr>gs_Sequence := word_of_int n\<rparr>))"
    by (auto simp: SaveGuestStatus_def Let_def bindE_def wrapE_def returnE_def split: sum.splits)
  show thesis
  proof (cases "w_db w1 = w_db w \<and> (\<exists>err. q = Inl err)")
    case True
    with r unchanged show thesis by auto
  next
    case False
    with sql_db [OF up] obtain n where n: "?stmt (w_db w) = Inr (n, w_db w1)" and q: "\<forall>m. q = Inr m \<longrightarrow> m = n"
      using up by (cases q) (auto simp: sql_Inr)
    from effect [OF n] show thesis using r q by (intro saved) (auto split: sum.splits)
  qed
qed

text \<open>Saving a guest status is all-or-nothing under every fault: an error that changes nothing, or the event's row holds
  exactly this status with the next number of the event's sequence, and no other event's row changes.\<close>

theorem SaveGuestStatus_effect:
  assumes "guests_inv (w_db w)" and "list_all (\<lambda>c. level_wf (cs_Level c)) (gs_Crowd status)"
    and "SaveGuestStatus ts ctx t status w = (r, w')"
  shows "((\<exists>err. r = Inl err) \<and> w_db w' = w_db w) \<or>
    (guests_inv (w_db w') \<and> guest_saved ts status (w_db w) (w_db w') \<and>
     (r = Inr (status\<lparr>gs_Sequence := word_of_int (last_sequence (w_db w') (gs_EventID status))\<rparr>) \<or> (\<exists>err. r = Inl err)))"
  using assms by (rule SaveGuestStatus_outcome) auto

lemma LatestGuestStatus_Inr:
  "LatestGuestStatus ctx e w = (Inr s, w') \<Longrightarrow> (\<exists>g. guest_at (w_db w) e = Some g \<and> guest_of_row g = Inr s) \<and> w_db w' = w_db w"
  by (auto simp: LatestGuestStatus_def bindE_Inr catchE_Inr query_one_Inr guest_at_def find_filter next_fault_db split: if_splits)

text \<open>C33. Encoding a guest status as JSON, storing it and reading it back is the identity, up to what the columns do to a time and to a
  negative zero; and the number it was saved under, read as the unsigned integer it is, is one more than
  the event's last.\<close>

theorem GuestStatus_roundtrip:
  fixes w w1 w2 w3 :: "'x world"
  assumes "guests_inv (w_db w)" and "list_all (\<lambda>c. level_wf (cs_Level c)) (gs_Crowd status)"
    and "SaveGuestStatus ts ctx t status w = (Inr saved, w1)" and "w_db w2 = w_db w1"
    and "LatestGuestStatus ctx2 (gs_EventID status) w2 = (Inr found, w3)"
  shows "found = stored_guest ts saved \<and> uint (gs_Sequence saved) = last_sequence (w_db w) (gs_EventID status) + 1"
proof (rule SaveGuestStatus_outcome [OF assms(1-3)])
  assume saved: "guest_saved ts status (w_db w) (w_db w1)" and "1 \<le> last_sequence (w_db w1) (gs_EventID status)"
    "last_sequence (w_db w1) (gs_EventID status) \<le> max_int64"
    and r: "Inr saved = Inr (status\<lparr>gs_Sequence := word_of_int (last_sequence (w_db w1) (gs_EventID status))\<rparr>) \<or>
      (\<exists>err. Inr saved = Inl err)"
  then have "uint (word_of_int (last_sequence (w_db w1) (gs_EventID status)) :: uint64) = last_sequence (w_db w1) (gs_EventID status)"
    by (simp add: uint_word_of_int max_int64_def)
  with saved r LatestGuestStatus_Inr [OF assms(5)] assms(4) show ?thesis by (auto simp: guest_saved_def)
qed simp

subsection \<open>Examples\<close>

definition sample_guest :: GuestStatus where
  "sample_guest = \<lparr>gs_EventID = ''e'', gs_Sequence = 0, gs_TakenAt = second,
     gs_Crowd = [\<lparr>cs_Anchor = GraphAnchor ''p'' '''', cs_Level = CrowdLevelHigh, cs_Danger = True\<rparr>],
     gs_Queues = [\<lparr>qs_QueueID = ''q'', qs_GatePointIDs = [''g''], qs_WaitTimeMinutes = Num False (3 / 2), qs_TurnaroundCount = 4,
       qs_RecommendedGatePointIDs = []\<rparr>]\<rparr>"

definition sample_guest_db :: database where
  "sample_guest_db = empty_db\<lparr>db_guest_statuses := [\<lparr>gu_event_id = ''e'', gu_tenant_public_id = ''t'', gu_sequence = 5,
     gu_taken_at = 0, gu_crowd = JArr [], gu_queues = JArr []\<rparr>]\<rparr>"

lemma sample_guest_ok: "guests_inv sample_guest_db" "list_all (\<lambda>c. level_wf (cs_Level c)) (gs_Crowd sample_guest)"
  by (simp_all add: guests_inv_def sample_guest_db_def max_int64_def sample_guest_def level_wf_def)

lemma SaveGuestStatus_effect_witness:
  "\<exists>err w'. SaveGuestStatus trunc_us (sample_ctx ''t'' ''e'') ''t'' sample_guest
      (sample_world [FailAfter (ConnectionError ''reset'')] sample_guest_db ()) = (Inl err, w') \<and>
    guest_saved trunc_us sample_guest sample_guest_db (w_db w')"
proof -
  let ?run = "SaveGuestStatus trunc_us (sample_ctx ''t'' ''e'') ''t'' sample_guest
      (sample_world [FailAfter (ConnectionError ''reset'')] sample_guest_db ())"
  obtain r w' where run: "?run = (r, w')" by fastforce
  have "map gu_sequence (db_guest_statuses (w_db (snd ?run))) = [6]" and "(case fst ?run of Inl _ \<Rightarrow> True | Inr _ \<Rightarrow> False)"
    by code_simp+
  then have "w_db w' \<noteq> sample_guest_db" and err: "\<exists>err. r = Inl err"
    using run by (auto simp: sample_guest_db_def split: sum.splits)
  with SaveGuestStatus_effect [OF _ _ run] sample_guest_ok err run show ?thesis by auto
qed

lemma GuestStatus_roundtrip_witness:
  "\<exists>saved w1 found w3. SaveGuestStatus trunc_us (sample_ctx ''t'' ''e'') ''t'' sample_guest (sample_world [] sample_guest_db ()) =
      (Inr saved, w1) \<and> LatestGuestStatus (sample_ctx ''t'' ''e'') ''e'' w1 = (Inr found, w3) \<and>
    found = stored_guest trunc_us saved \<and> uint (gs_Sequence saved) = 6"
proof -
  let ?save = "SaveGuestStatus trunc_us (sample_ctx ''t'' ''e'') ''t'' sample_guest (sample_world [] sample_guest_db ())"
  obtain r w1 where save: "?save = (r, w1)" by fastforce
  obtain q w3 where find: "LatestGuestStatus (sample_ctx ''t'' ''e'') ''e'' w1 = (q, w3)" by fastforce
  have "(case fst ?save of Inl _ \<Rightarrow> False | Inr _ \<Rightarrow> True)"
    and "(case fst (LatestGuestStatus (sample_ctx ''t'' ''e'') ''e'' (snd ?save)) of Inl _ \<Rightarrow> False | Inr _ \<Rightarrow> True)"
    by code_simp+
  then obtain saved found where rs: "r = Inr saved" "q = Inr found" using save find by (cases r; cases q) simp_all
  have e: "gs_EventID sample_guest = ''e''" by (simp add: sample_guest_def)
  have "last_sequence (w_db (sample_world [] sample_guest_db ())) ''e'' = 5"
    by (simp add: last_sequence_def guest_at_def sample_guest_db_def)
  moreover have "found = stored_guest trunc_us saved \<and>
      uint (gs_Sequence saved) = last_sequence (w_db (sample_world [] sample_guest_db ())) (gs_EventID sample_guest) + 1"
    by (rule GuestStatus_roundtrip [OF _ _ save [unfolded rs] refl find [unfolded rs e [symmetric]]]) (simp_all add: sample_guest_ok)
  ultimately show ?thesis using save find e by (simp add: rs)
qed

end
