(* ===== verification/ObservationCycle.thy ===== *)
theory ObservationCycle
  imports SnapshotStore MeasurementStore SettingsStore GuestStore EdgeDeviceUseCases
begin

section \<open>application/observation\_cycle.go: the observation cycle\<close>

text \<open>
  After a report the cycle reads the graph of the event and the measurements of the last \<open>MaxHold\<close>, composes a snapshot,
  stores it, publishes the guest status, asks flow control to optimize and passes the outcome on to the operation
  service. Each remote service is an interface, a record of functions. \<open>Run\<close> is the method in its order, in stages:
  what is composed, the sensor sets, the history, what is stored, the optimization and the delivery.
  The two delivery calls run concurrently, each in a goroutine started in the random order of a Go map; each is
  one request, so the result is that of one of the two orders, and \<open>oc_schedule\<close> is the scheduler's choice, any function of the world.
\<close>

definition handleE :: "('x, 'a) action \<Rightarrow> (err \<Rightarrow> ('x, 'a) action) \<Rightarrow> ('x, 'a) action" where
  "handleE m h = catchE m (\<lambda>err. if is_panic err then throwE err else h err)"

definition historyWindow :: duration where "historyWindow = 30 * minute"

record 'x GraphSupply =
  gq_CurrentGraph :: "Ctx \<Rightarrow> string \<Rightarrow> ('x, Graph) action"
  gq_ObservationPointMappings :: "Ctx \<Rightarrow> string \<Rightarrow> string \<Rightarrow> ('x, ObservationPointMapping list) action"
  gq_QrLocations :: "Ctx \<Rightarrow> string \<Rightarrow> string \<Rightarrow> string \<Rightarrow> ('x, ObservationPointMapping list) action"

record OptimizeInput =
  oi_TenantPublicID :: string
  oi_EventType :: EventType
  oi_Graph :: Graph
  oi_Snapshot :: Snapshot
  oi_Gaps :: Gaps
  oi_SensorSetChanges :: "SensorSet list"
  oi_History :: "Snapshot list"
  oi_ArcHistory :: "ArcHistory list"
  oi_AvailableHistory :: duration
  oi_Previous :: "OptimizationOutcome option"
  oi_ServerTime :: time

record 'x FlowControl =
  fc_Optimize :: "Ctx \<Rightarrow> OptimizeInput \<Rightarrow> ('x, OptimizationOutcome) action"

record 'x Operation =
  on_RequestProposalDelivery :: "Ctx \<Rightarrow> string \<Rightarrow> string \<Rightarrow> OptimizationOutcome \<Rightarrow> ('x, unit) action"
  on_RecordFeedbackValues :: "Ctx \<Rightarrow> string \<Rightarrow> string \<Rightarrow> OptimizationOutcome \<Rightarrow> ('x, unit) action"

record 'x GuestStatusPublisher =
  pb_PublishGuestStatus :: "Ctx \<Rightarrow> GuestStatus \<Rightarrow> ('x, unit) action"

record ObservationCycleConfig =
  cc_Window :: duration
  cc_OptimizeTimeout :: duration
  cc_OperationTimeout :: duration

record ('x, 'r) ObservationCycle =
  oc_graphs :: "'x GraphSupply"
  oc_flow :: "'x FlowControl"
  oc_operation :: "'x Operation"
  oc_devices :: "('x, 'r) EdgeDeviceRepository"
  oc_holds :: "'x HeartbeatLossHolds"
  oc_measurements :: "'x MeasurementRepository"
  oc_snapshots :: "'x SnapshotRepository"
  oc_settings :: "'x ObservationSettingsRepository"
  oc_guests :: "'x GuestStatusRepository"
  oc_guestPublish :: "'x GuestStatusPublisher"
  oc_config :: ObservationCycleConfig
  oc_schedule :: "'x world \<Rightarrow> bool"

definition NewObservationCycle ::
  "'x GraphSupply \<Rightarrow> 'x FlowControl \<Rightarrow> 'x Operation \<Rightarrow> ('x, 'r) EdgeDeviceRepository \<Rightarrow> 'x HeartbeatLossHolds
     \<Rightarrow> 'x MeasurementRepository \<Rightarrow> 'x SnapshotRepository \<Rightarrow> 'x ObservationSettingsRepository \<Rightarrow> 'x GuestStatusRepository
     \<Rightarrow> 'x GuestStatusPublisher \<Rightarrow> ObservationCycleConfig \<Rightarrow> ('x world \<Rightarrow> bool) \<Rightarrow> ('x, 'r) ObservationCycle" where
  "NewObservationCycle graphs flow operation devices holds measurements snapshots settings guests guestPublish config schedule =
     \<lparr>oc_graphs = graphs, oc_flow = flow, oc_operation = operation, oc_devices = devices, oc_holds = holds,
      oc_measurements = measurements, oc_snapshots = snapshots, oc_settings = settings, oc_guests = guests,
      oc_guestPublish = guestPublish, oc_config = config, oc_schedule = schedule\<rparr>"

subsection \<open>The parts of a cycle\<close>

definition observationPointStates ::
  "('x, 'r) ObservationCycle \<Rightarrow> Ctx \<Rightarrow> string \<Rightarrow> time \<Rightarrow> ('x, ObservationPointID \<rightharpoonup> ObservationPointState) action" where
  "observationPointStates c ctx eventID t =
     bindE (wrapE (Wrap ''list edge devices'') (dr_ListByEvent (oc_devices c) ctx eventID True)) (\<lambda>devices.
     bindE (Evaluate (oc_holds c) ctx t) (\<lambda>hold.
     returnE (ObservationPointStates devices t hold)))"

definition availableHistory :: "('x, 'r) ObservationCycle \<Rightarrow> Ctx \<Rightarrow> string \<Rightarrow> time \<Rightarrow> ('x, duration) action" where
  "availableHistory c ctx eventID t =
     catchE (bindE (sp_EarliestSnapshotStart (oc_snapshots c) ctx eventID) (\<lambda>earliest. returnE (time_sub t earliest)))
       (\<lambda>err. if errors_is err ErrSnapshotNotFound then returnE 0
              else throwE (Wrap ''find earliest snapshot start'' err))"

definition publishGuestStatus ::
  "('x, 'r) ObservationCycle \<Rightarrow> Ctx \<Rightarrow> string \<Rightarrow> string \<Rightarrow> time \<Rightarrow> ('x, unit) action" where
  "publishGuestStatus c ctx tenantPublicID eventID takenAt =
     bindE (wrapE (Wrap ''save guest status'') (gr_SaveGuestStatus (oc_guests c) ctx tenantPublicID
       \<lparr>gs_EventID = eventID, gs_Sequence = 0, gs_TakenAt = takenAt, gs_Crowd = [], gs_Queues = []\<rparr>)) (\<lambda>status.
     handleE (pb_PublishGuestStatus (oc_guestPublish c) ctx status) (\<lambda>err. slog ''guest status publish failed''))"

definition call_operation ::
  "('x, 'r) ObservationCycle \<Rightarrow> Ctx \<Rightarrow> (Ctx \<Rightarrow> ('x, unit) action) \<Rightarrow> ('x, unit) action" where
  "call_operation c ctx call =
     bindE now (\<lambda>t. handleE (call (WithTimeout ctx t (cc_OperationTimeout (oc_config c)))) (\<lambda>err. slog ''operation call failed''))"

definition deliverToOperation ::
  "('x, 'r) ObservationCycle \<Rightarrow> Ctx \<Rightarrow> string \<Rightarrow> string \<Rightarrow> OptimizationOutcome \<Rightarrow> ('x, unit) action" where
  "deliverToOperation c ctx tenantPublicID eventID outcome w =
     (let proposals = call_operation c ctx (\<lambda>callCtx. on_RequestProposalDelivery (oc_operation c) callCtx tenantPublicID eventID outcome);
          feedback = call_operation c ctx (\<lambda>callCtx. on_RecordFeedbackValues (oc_operation c) callCtx tenantPublicID eventID outcome)
      in if oc_schedule c w then bindE proposals (\<lambda>_. feedback) w else bindE feedback (\<lambda>_. proposals) w)"

subsection \<open>The cycle\<close>

definition cycle_compose ::
  "('x, 'r) ObservationCycle \<Rightarrow> Ctx \<Rightarrow> string \<Rightarrow> string
     \<Rightarrow> ('x, Graph \<times> time \<times> Snapshot \<times> Gaps \<times> SensorSet list) action" where
  "cycle_compose c ctx tenantPublicID eventID =
     bindE (wrapE (Wrap ''get current graph'') (gq_CurrentGraph (oc_graphs c) ctx eventID)) (\<lambda>graph.
     bindE (wrapE (Wrap ''get observation point mappings'')
       (gq_ObservationPointMappings (oc_graphs c) ctx eventID (gr_RevisionID graph))) (\<lambda>mappings.
     bindE (wrapE (Wrap ''get qr locations'')
       (gq_QrLocations (oc_graphs c) ctx tenantPublicID eventID (gr_RevisionID graph))) (\<lambda>qrLocations.
     let mappings = mappings @ qrLocations in
     bindE now (\<lambda>t.
     let windowEnd = time_truncate t microsecond;
         windowStart = time_add windowEnd (dur_neg (cc_Window (oc_config c)))
     in
     bindE (wrapE (Wrap ''list window measurements'')
       (mr_ListWindowEndingSince (oc_measurements c) ctx eventID (time_add windowEnd (dur_neg MaxHold)))) (\<lambda>measurements.
     bindE (observationPointStates c ctx eventID windowEnd) (\<lambda>states.
     bindE (draw (NewSnapshot eventID windowStart windowEnd measurements mappings states)) (\<lambda>(snapshot, gaps, composed).
     returnE (graph, windowEnd, snapshot, gaps, composed))))))))"

definition cycle_sensor_sets ::
  "('x, 'r) ObservationCycle \<Rightarrow> Ctx \<Rightarrow> string \<Rightarrow> time \<Rightarrow> SensorSet list \<Rightarrow> ('x, SensorSet list) action" where
  "cycle_sensor_sets c ctx eventID windowEnd composed =
     bindE (wrapE (Wrap ''list sensor sets'') (sp_ListSensorSets (oc_snapshots c) ctx eventID)) (\<lambda>recorded.
     let (sensorSets, updated) = TrackSensorSets recorded composed windowEnd in
     bindE (wrapE (Wrap ''save sensor sets'') (sp_SaveSensorSets (oc_snapshots c) ctx eventID updated)) (\<lambda>_.
     returnE sensorSets))"

definition cycle_history ::
  "('x, 'r) ObservationCycle \<Rightarrow> Ctx \<Rightarrow> string \<Rightarrow> time \<Rightarrow> ObservationSettings \<Rightarrow> SensorSet list
     \<Rightarrow> ('x, Snapshot list \<times> ArcHistory list \<times> duration) action" where
  "cycle_history c ctx eventID windowEnd settings sensorSets =
     bindE (wrapE (Wrap ''list history snapshots'')
       (sp_ListSnapshotsEndingAfter (oc_snapshots c) ctx eventID (time_add windowEnd (dur_neg historyWindow)))) (\<lambda>history.
     let history = HistorySinceSensorSetChanges history sensorSets;
         since = time_add windowEnd (dur_mul (dur_mul (dur_neg (sint (os_HistoryWindowDays settings))) 24) hour)
     in
     bindE (wrapE (Wrap ''summarize arc history'') (sp_SummarizeArcHistory (oc_snapshots c) ctx eventID since)) (\<lambda>arcHistory.
     bindE (availableHistory c ctx eventID windowEnd) (\<lambda>available.
     returnE (history, arcHistory, available))))"

definition cycle_previous :: "('x, 'r) ObservationCycle \<Rightarrow> Ctx \<Rightarrow> string \<Rightarrow> ('x, OptimizationOutcome option) action" where
  "cycle_previous c ctx eventID =
     catchE (bindE (sp_LatestOptimizationOutcome (oc_snapshots c) ctx eventID) (\<lambda>latest. returnE (Some latest)))
       (\<lambda>err. if errors_is err ErrOptimizationOutcomeMissing then returnE None
              else throwE (Wrap ''find previous optimization outcome'' err))"

definition cycle_optimize ::
  "('x, 'r) ObservationCycle \<Rightarrow> Ctx \<Rightarrow> string \<Rightarrow> string \<Rightarrow> ObservationSettings \<Rightarrow> Graph \<Rightarrow> time \<Rightarrow> Snapshot \<Rightarrow> Gaps
     \<Rightarrow> SensorSet list \<Rightarrow> Snapshot list \<times> ArcHistory list \<times> duration \<Rightarrow> ('x, unit) action" where
  "cycle_optimize c ctx tenantPublicID eventID settings graph windowEnd snapshot gaps sensorSets past =
     (let (history, arcHistory, available) = past in
      bindE (cycle_previous c ctx eventID) (\<lambda>previous.
      let previousCycle = (case previous of None \<Rightarrow> 0 | Some latest \<Rightarrow> oo_ServerTime latest) in
      bindE now (\<lambda>t.
      bindE (wrapE (Wrap ''optimize'') (fc_Optimize (oc_flow c) (WithTimeout ctx t (cc_OptimizeTimeout (oc_config c)))
        \<lparr>oi_TenantPublicID = tenantPublicID, oi_EventType = os_EventType settings, oi_Graph = graph, oi_Snapshot = snapshot,
         oi_Gaps = gaps, oi_SensorSetChanges = SensorSetsChangedAfter sensorSets previousCycle, oi_History = history,
         oi_ArcHistory = arcHistory, oi_AvailableHistory = available, oi_Previous = previous, oi_ServerTime = windowEnd\<rparr>)) (\<lambda>outcome.
      let outcome = outcome\<lparr>oo_SnapshotID := sn_ID snapshot\<rparr> in
      bindE (wrapE (Wrap ''save optimization outcome'') (sp_SaveOptimizationOutcome (oc_snapshots c) ctx eventID outcome)) (\<lambda>_.
      deliverToOperation c ctx tenantPublicID eventID outcome)))))"

definition Run :: "('x, 'r) ObservationCycle \<Rightarrow> Ctx \<Rightarrow> string \<Rightarrow> string \<Rightarrow> ('x, unit) action" where
  "Run c ctx tenantPublicID eventID =
     bindE (cycle_compose c ctx tenantPublicID eventID) (\<lambda>(graph, windowEnd, snapshot, gaps, composed).
     bindE (cycle_sensor_sets c ctx eventID windowEnd composed) (\<lambda>sensorSets.
     bindE (findObservationSettings ctx (oc_settings c) eventID) (\<lambda>settings.
     bindE (cycle_history c ctx eventID windowEnd settings sensorSets) (\<lambda>past.
     bindE (wrapE (Wrap ''save snapshot'') (sp_SaveSnapshot (oc_snapshots c) ctx tenantPublicID snapshot)) (\<lambda>_.
     bindE (publishGuestStatus c ctx tenantPublicID eventID windowEnd) (\<lambda>_.
     cycle_optimize c ctx tenantPublicID eventID settings graph windowEnd snapshot gaps sensorSets past))))))"

end
