(* ===== verification/MeasurementIngest.thy ===== *)
theory MeasurementIngest
  imports ObservationCycle
begin

section \<open>application/measurement\_ingest.go: reporting measurements\<close>

text \<open>
  A report is validated, its tenant resolved (from the edge device that reports, or for QR gates from the request, against the
  gates placed in the current graph), recorded, and followed by an observation cycle whose failure is only logged.
  The interface \<open>ObservationCycleRunner\<close> is a function.
\<close>

record MeasurementInput =
  mn_ObservationPointID :: string
  mn_WindowStart :: time
  mn_WindowEnd :: time
  mn_CountIn :: int32
  mn_CountOut :: int32
  mn_MeanDetectedPeople :: "f64 option"

record ReportMeasurementsInput =
  rm_TenantID :: string
  rm_EventID :: string
  rm_EdgeDeviceID :: string
  rm_Method :: MeasurementMethod
  rm_Measurements :: "MeasurementInput list"

type_synonym 'x ObservationCycleRunner = "Ctx \<Rightarrow> string \<Rightarrow> string \<Rightarrow> ('x, unit) action"

record ('x, 'r) MeasurementIngestService =
  mi_devices :: "('x, 'r) EdgeDeviceRepository"
  mi_measurements :: "'x MeasurementRepository"
  mi_graphs :: "'x GraphSupply"
  mi_cycle :: "'x ObservationCycleRunner"

definition NewMeasurementIngestService ::
  "('x, 'r) EdgeDeviceRepository \<Rightarrow> 'x MeasurementRepository \<Rightarrow> 'x GraphSupply \<Rightarrow> 'x ObservationCycleRunner
     \<Rightarrow> ('x, 'r) MeasurementIngestService" where
  "NewMeasurementIngestService devices measurements graphs cycle =
     \<lparr>mi_devices = devices, mi_measurements = measurements, mi_graphs = graphs, mi_cycle = cycle\<rparr>"

definition measurement_of_input :: "MeasurementInput \<Rightarrow> err + Measurement" where
  "measurement_of_input reported =
     NewMeasurement (mn_ObservationPointID reported) (mn_WindowStart reported) (mn_WindowEnd reported)
       (mn_CountIn reported) (mn_CountOut reported) (mn_MeanDetectedPeople reported)"

definition resolveQRTenant ::
  "('x, 'r) MeasurementIngestService \<Rightarrow> Ctx \<Rightarrow> string \<Rightarrow> string \<Rightarrow> Measurement list \<Rightarrow> ('x, string) action" where
  "resolveQRTenant s ctx tenantID eventID measurements =
     (if tenantID = '''' then throwE (Err ErrTenantRequired)
      else
        bindE (wrapE (Wrap ''get current graph'') (gq_CurrentGraph (mi_graphs s) ctx eventID)) (\<lambda>graph.
        bindE (wrapE (Wrap ''get qr locations'') (gq_QrLocations (mi_graphs s) ctx tenantID eventID (gr_RevisionID graph))) (\<lambda>locations.
        let placed = set (map mp_ObservationPointID locations) in
        if list_ex (\<lambda>m. ms_ObservationPointID m \<notin> placed) measurements then throwE (Err ErrForeignEvent)
        else returnE tenantID)))"

definition resolve_device_tenant ::
  "('x, 'r) MeasurementIngestService \<Rightarrow> Ctx \<Rightarrow> ReportMeasurementsInput \<Rightarrow> Measurement list
     \<Rightarrow> ('x, string \<times> EdgeDeviceID) action" where
  "resolve_device_tenant s ctx input measurements =
     (let edgeDeviceID = trim_space (rm_EdgeDeviceID input) in
      if edgeDeviceID = '''' then throwE (Err ErrEdgeDeviceRequired)
      else
        bindE (liftE (ParseEdgeDeviceID edgeDeviceID)) (\<lambda>pid.
        bindE (wrapE (Wrap ''find edge device'') (dr_FindByID (mi_devices s) ctx pid)) (\<lambda>device.
        if dev_EventID device \<noteq> rm_EventID input then throwE (Err ErrForeignEvent)
        else if dev_Kind device = EdgeDeviceKindCamera then throwE (Err ErrEdgeDeviceCameraUnsupported)
        else if dev_Unregistered device then throwE (Err ErrEdgeDeviceUnregistered)
        else if list_ex (\<lambda>m. \<not> HasObservationPoint device (ms_ObservationPointID m)) measurements then throwE (Err ErrForeignEvent)
        else returnE (dev_TenantPublicID device, dev_ID device))))"

definition resolveTenant ::
  "('x, 'r) MeasurementIngestService \<Rightarrow> Ctx \<Rightarrow> ReportMeasurementsInput \<Rightarrow> Measurement list
     \<Rightarrow> ('x, string \<times> EdgeDeviceID) action" where
  "resolveTenant s ctx input measurements =
     (let tenantID = trim_space (rm_TenantID input) in
      bindE (liftE (if tenantID \<noteq> '''' then VerifyOwnership ctx tenantID else Inr ())) (\<lambda>_.
      if rm_Method input = MeasurementMethodQR then
        bindE (resolveQRTenant s ctx tenantID (rm_EventID input) measurements) (\<lambda>tenantPublicID. returnE (tenantPublicID, ''''))
      else resolve_device_tenant s ctx input measurements))"

definition ReportMeasurements ::
  "('x, 'r) MeasurementIngestService \<Rightarrow> Ctx \<Rightarrow> ReportMeasurementsInput \<Rightarrow> ('x, int32) action" where
  "ReportMeasurements s ctx input =
     bindE (liftE (EnsureEvent ctx (rm_EventID input))) (\<lambda>_.
     bindE (liftE (mapS measurement_of_input (rm_Measurements input))) (\<lambda>measurements.
     bindE (resolveTenant s ctx input measurements) (\<lambda>(tenantPublicID, edgeDeviceID).
     bindE (wrapE (Wrap ''record measurements'')
       (mr_RecordAll (mi_measurements s) ctx tenantPublicID (rm_EventID input) edgeDeviceID measurements)) (\<lambda>accepted.
     if accepted = 0 then returnE 0
     else
       bindE (handleE (mi_cycle s ctx tenantPublicID (rm_EventID input)) (\<lambda>err. slog ''observation cycle failed'')) (\<lambda>_.
       returnE accepted)))))"

end
