(* ===== verification/StatusQuery.thy ===== *)
theory StatusQuery
  imports SnapshotStore GuestStore
begin

section \<open>application/status\_query.go: the status queries\<close>

text \<open>
  \<open>GetEventOverview\<close> joins the latest snapshot with the diagnostics of the latest optimization outcome; neither need exist.
  The service is its two repositories; a nil \<open>*Snapshot\<close> is \<open>None\<close>, so is a nil byte slice.
\<close>

record EventOverview =
  ov_Snapshot :: "Snapshot option"
  ov_Diagnostics :: "byte list option"

record 'x StatusQueryService =
  st_snapshots :: "'x SnapshotRepository"
  st_guestStatuses :: "'x GuestStatusRepository"

definition NewStatusQueryService :: "'x SnapshotRepository \<Rightarrow> 'x GuestStatusRepository \<Rightarrow> 'x StatusQueryService" where
  "NewStatusQueryService snapshots guestStatuses = \<lparr>st_snapshots = snapshots, st_guestStatuses = guestStatuses\<rparr>"

definition overview_outcome :: "'x StatusQueryService \<Rightarrow> Ctx \<Rightarrow> string \<Rightarrow> Snapshot \<Rightarrow> ('x, EventOverview) action" where
  "overview_outcome s ctx eventID snapshot =
     catchE (bindE (sp_LatestOptimizationOutcome (st_snapshots s) ctx eventID) (\<lambda>outcome.
         returnE \<lparr>ov_Snapshot = Some snapshot, ov_Diagnostics = oo_Diagnostics outcome\<rparr>))
       (\<lambda>err. if errors_is err ErrOptimizationOutcomeMissing
              then returnE \<lparr>ov_Snapshot = Some snapshot, ov_Diagnostics = None\<rparr>
              else throwE (Wrap ''find latest optimization outcome'' err))"

text \<open>\<open>Some\<close> the snapshot if there is one, so that what follows the early return is a bind.\<close>

definition overview_snapshot :: "'x StatusQueryService \<Rightarrow> Ctx \<Rightarrow> string \<Rightarrow> ('x, Snapshot option) action" where
  "overview_snapshot s ctx eventID =
     catchE (bindE (sp_LatestSnapshot (st_snapshots s) ctx eventID) (\<lambda>snapshot. returnE (Some snapshot)))
       (\<lambda>err. if errors_is err ErrSnapshotNotFound then returnE None else throwE (Wrap ''find latest snapshot'' err))"

definition GetEventOverview :: "'x StatusQueryService \<Rightarrow> Ctx \<Rightarrow> string \<Rightarrow> ('x, EventOverview) action" where
  "GetEventOverview s ctx eventID =
     bindE (liftE (EnsureEvent ctx eventID)) (\<lambda>_.
     bindE (overview_snapshot s ctx eventID) (\<lambda>found.
     case found of
       None \<Rightarrow> returnE \<lparr>ov_Snapshot = None, ov_Diagnostics = None\<rparr>
     | Some snapshot \<Rightarrow> overview_outcome s ctx eventID snapshot))"

definition GetGuestSnapshot :: "'x StatusQueryService \<Rightarrow> Ctx \<Rightarrow> string \<Rightarrow> ('x, GuestStatus) action" where
  "GetGuestSnapshot s ctx eventID =
     bindE (liftE (EnsureEvent ctx eventID)) (\<lambda>_.
     wrapE (Wrap ''find latest guest status'') (gr_LatestGuestStatus (st_guestStatuses s) ctx eventID))"

end
