(* ===== verification/GraphClient.thy ===== *)
theory GraphClient
  imports ObservationCycle
begin

section \<open>infra/connect/graph\_client.go and forward.go: the graph supply service\<close>

text \<open>
  A remote service is a function on its own state, which is \<open>w_ext\<close>: it takes what travels with a call (the \<open>Authorization\<close>
  header, forwarded from the request that is served, and the deadline) and the request, and answers with an error or a
  response. It cannot reach the database of this service. The messages of the graph service are generated from a repository that is
  not under src; the records here hold what the client reads of them through their getters. An enumeration of the wire is its number,
  which the client casts to the domain's.
\<close>

record CallInfo =
  ci_Authorization :: "string option"
  ci_Deadline :: "time option"

type_synonym ('x, 'a) rpc = "'x \<Rightarrow> (err + 'a) \<times> 'x"

definition remote :: "('x, 'a) rpc \<Rightarrow> ('x, 'a) action" where
  "remote f w = (let (r, x) = f (w_ext w) in (r, w\<lparr>w_ext := x\<rparr>))"

lemma reader_remote [relates_rules]: "reader (remote f)"
  by (simp add: relates_def same_db_def remote_def Let_def split: prod.split)

text \<open>The client interceptor: a call made while serving a request carries that request's authorization.\<close>

definition forwardAuthorization :: "Ctx \<Rightarrow> string option" where
  "forwardAuthorization ctx =
     (case ctx_authorization ctx of
        None \<Rightarrow> None
      | Some authorization \<Rightarrow> if authorization \<noteq> '''' then Some authorization else None)"

definition forwarded_call :: "Ctx \<Rightarrow> CallInfo" where
  "forwarded_call ctx = \<lparr>ci_Authorization = forwardAuthorization ctx, ci_Deadline = ctx_deadline ctx\<rparr>"

subsection \<open>Messages\<close>

record BoundaryMessage =
  bm_Direction :: int
  bm_Active :: bool

record PointMessage =
  pm_PointId :: string
  pm_Type :: int
  pm_Boundary :: "BoundaryMessage option"

datatype DirectionAttribute = DIRECTION_ATTRIBUTE_ONE_WAY | DirectionAttributeOther int

record RouteMessage =
  rm_RouteId :: string
  rm_FromPointId :: string
  rm_ToPointId :: string
  rm_Direction :: DirectionAttribute
  rm_CapacityHint :: "f64 option"

record GetCurrentRevisionResponse =
  cr_EventId :: string
  cr_RevisionId :: string
  cr_Points :: "PointMessage list"
  cr_Routes :: "RouteMessage list"

text \<open>A mapping or a QR location: its point or location identifier and the two identifiers of its anchor, empty without one.\<close>

record MappingMessage =
  mm_Id :: string
  mm_AnchorPointId :: string
  mm_AnchorRouteId :: string

record 'x GraphSupplyServiceClient =
  gc_GetCurrentRevision :: "CallInfo \<Rightarrow> string \<Rightarrow> ('x, GetCurrentRevisionResponse) rpc"
  gc_GetObservationPointMappings :: "CallInfo \<Rightarrow> string \<Rightarrow> string \<Rightarrow> ('x, MappingMessage list) rpc"
  gc_GetQrLocations :: "CallInfo \<Rightarrow> string \<Rightarrow> string \<Rightarrow> string \<Rightarrow> ('x, MappingMessage list) rpc"

subsection \<open>The client\<close>

definition point_type :: "int \<Rightarrow> PointType" where
  "point_type n =
     (if n = 0 then PointTypeUnspecified else if n = 1 then PointTypeGoal else if n = 2 then PointTypeGoalTransitMixed
      else if n = 3 then PointTypeTransitOnly else PointTypeOther n)"

definition boundary_direction :: "int \<Rightarrow> BoundaryDirection" where
  "boundary_direction n =
     (if n = 0 then BoundaryDirectionUnspecified else if n = 1 then BoundaryDirectionEntry
      else if n = 2 then BoundaryDirectionExit else if n = 3 then BoundaryDirectionEntryAndExit else BoundaryDirectionOther n)"

definition graph_point :: "PointMessage \<Rightarrow> Point" where
  "graph_point p =
     \<lparr>gp_ID = pm_PointId p, gp_Type = point_type (pm_Type p),
      gp_Boundary = map_option (\<lambda>b. \<lparr>bd_Direction = boundary_direction (bm_Direction b), bd_Active = bm_Active b\<rparr>) (pm_Boundary p)\<rparr>"

definition graph_route :: "RouteMessage \<Rightarrow> Route" where
  "graph_route r =
     \<lparr>rt_ID = rm_RouteId r, rt_FromPointID = rm_FromPointId r, rt_ToPointID = rm_ToPointId r,
      rt_OneWay = (rm_Direction r = DIRECTION_ATTRIBUTE_ONE_WAY), rt_CapacityHint = rm_CapacityHint r\<rparr>"

definition CurrentGraph :: "'x GraphSupplyServiceClient \<Rightarrow> Ctx \<Rightarrow> string \<Rightarrow> ('x, Graph) action" where
  "CurrentGraph c ctx eventID =
     bindE (wrapE (Wrap ''call GetCurrentRevision'') (remote (gc_GetCurrentRevision c (forwarded_call ctx) eventID))) (\<lambda>res.
     returnE \<lparr>gr_EventID = cr_EventId res, gr_RevisionID = cr_RevisionId res, gr_Points = map graph_point (cr_Points res),
       gr_Routes = map graph_route (cr_Routes res)\<rparr>)"

definition mapping_of_message :: "MeasurementMethod \<Rightarrow> MappingMessage \<Rightarrow> ObservationPointMapping" where
  "mapping_of_message method m =
     \<lparr>mp_ObservationPointID = mm_Id m, mp_Anchor = GraphAnchor (mm_AnchorPointId m) (mm_AnchorRouteId m), mp_Method = method\<rparr>"

definition ObservationPointMappings ::
  "'x GraphSupplyServiceClient \<Rightarrow> Ctx \<Rightarrow> string \<Rightarrow> string \<Rightarrow> ('x, ObservationPointMapping list) action" where
  "ObservationPointMappings c ctx eventID revisionID =
     bindE (wrapE (Wrap ''call GetObservationPointMappings'')
       (remote (gc_GetObservationPointMappings c (forwarded_call ctx) eventID revisionID))) (\<lambda>mappings.
     returnE (map (mapping_of_message MeasurementMethodCamera) mappings))"

text \<open>\<open>code_of\<close> is \<open>connectrpc.CodeOf\<close>, which is not under src.\<close>

definition QrLocations ::
  "(err \<Rightarrow> Code) \<Rightarrow> 'x GraphSupplyServiceClient \<Rightarrow> Ctx \<Rightarrow> string \<Rightarrow> string \<Rightarrow> string \<Rightarrow> ('x, ObservationPointMapping list) action" where
  "QrLocations code_of c ctx tenantPublicID eventID revisionID =
     bindE (wrapE (\<lambda>err. if code_of err = CodePermissionDenied then Wrap ''call GetQrLocations'' (Join (Err ErrForeignEvent) err)
         else Wrap ''call GetQrLocations'' err)
       (remote (gc_GetQrLocations c (forwarded_call ctx) eventID revisionID tenantPublicID))) (\<lambda>locations.
     returnE (map (mapping_of_message MeasurementMethodQR) locations))"

definition NewGraphSupplyClient :: "(err \<Rightarrow> Code) \<Rightarrow> 'x GraphSupplyServiceClient \<Rightarrow> 'x GraphSupply" where
  "NewGraphSupplyClient code_of c =
     \<lparr>gq_CurrentGraph = CurrentGraph c, gq_ObservationPointMappings = ObservationPointMappings c,
      gq_QrLocations = QrLocations code_of c\<rparr>"

lemma reader_graphs:
  "reader (gq_CurrentGraph (NewGraphSupplyClient code_of c) ctx e)"
  "reader (gq_ObservationPointMappings (NewGraphSupplyClient code_of c) ctx e revision)"
  "reader (gq_QrLocations (NewGraphSupplyClient code_of c) ctx t e revision)"
  by (auto simp: NewGraphSupplyClient_def CurrentGraph_def ObservationPointMappings_def QrLocations_def intro!: relates_rules)

lemma ObservationPointMappings_cameras:
  "ObservationPointMappings c ctx e revision w = (Inr ms, w') \<Longrightarrow> m \<in> set ms \<Longrightarrow> mp_Method m = MeasurementMethodCamera"
  by (auto simp: ObservationPointMappings_def bindE_Inr mapping_of_message_def)

lemma QrLocations_gates:
  "QrLocations code_of c ctx t e revision w = (Inr ms, w') \<Longrightarrow> m \<in> set ms \<Longrightarrow> mp_Method m = MeasurementMethodQR"
  by (auto simp: QrLocations_def bindE_Inr mapping_of_message_def)

end
