(* ===== verification/GuestPublisher.thy ===== *)
theory GuestPublisher
  imports GraphClient
begin

section \<open>infra/pubsub: publishing a guest status\<close>

text \<open>
  The message of a guest status, and its publication on a topic, keyed by its event. \<open>proto.Marshal\<close> and the
  publisher of the message library are parameters; the message's identifier and its trace metadata, which the library draws and
  nothing here reads, are left out. The messages are those of \<open>gen/tolo/observation/v1\<close>.
\<close>

datatype CrowdLevelMessage = CROWD_LEVEL_UNSPECIFIED | CROWD_LEVEL_LOW | CROWD_LEVEL_MID | CROWD_LEVEL_HIGH

datatype CrowdTarget = CrowdStatus_PointId string | CrowdStatus_RouteId string

record CrowdStatusMessage =
  cw_Target :: CrowdTarget
  cw_Level :: CrowdLevelMessage
  cw_Danger :: bool

record QueueStatusMessage =
  qu_QueueId :: string
  qu_GatePointIds :: "string list"
  qu_WaitTimeMinutes :: f64
  qu_TurnaroundCount :: int32
  qu_RecommendedGatePointIds :: "string list"

record GuestStatusMessage =
  gt_EventId :: string
  gt_Sequence :: uint64
  gt_TakenAt :: time
  gt_Crowd :: "CrowdStatusMessage list"
  gt_Queues :: "QueueStatusMessage list"

fun crowdLevels :: "CrowdLevel \<Rightarrow> CrowdLevelMessage" where
  "crowdLevels CrowdLevelUnspecified = CROWD_LEVEL_UNSPECIFIED"
| "crowdLevels CrowdLevelLow = CROWD_LEVEL_LOW"
| "crowdLevels CrowdLevelMid = CROWD_LEVEL_MID"
| "crowdLevels CrowdLevelHigh = CROWD_LEVEL_HIGH"
| "crowdLevels (CrowdLevelOther n) = CROWD_LEVEL_UNSPECIFIED"

definition crowd_message :: "CrowdStatus \<Rightarrow> CrowdStatusMessage" where
  "crowd_message c =
     \<lparr>cw_Target = (if ga_RouteID (cs_Anchor c) \<noteq> '''' then CrowdStatus_RouteId (ga_RouteID (cs_Anchor c))
        else CrowdStatus_PointId (ga_PointID (cs_Anchor c))),
      cw_Level = crowdLevels (cs_Level c), cw_Danger = cs_Danger c\<rparr>"

definition queue_message :: "QueueStatus \<Rightarrow> QueueStatusMessage" where
  "queue_message q =
     \<lparr>qu_QueueId = qs_QueueID q, qu_GatePointIds = qs_GatePointIDs q, qu_WaitTimeMinutes = qs_WaitTimeMinutes q,
      qu_TurnaroundCount = qs_TurnaroundCount q, qu_RecommendedGatePointIds = qs_RecommendedGatePointIDs q\<rparr>"

definition GuestStatusProto :: "GuestStatus \<Rightarrow> GuestStatusMessage" where
  "GuestStatusProto status =
     \<lparr>gt_EventId = gs_EventID status, gt_Sequence = gs_Sequence status, gt_TakenAt = gs_TakenAt status,
      gt_Crowd = map crowd_message (gs_Crowd status), gt_Queues = map queue_message (gs_Queues status)\<rparr>"

definition GuestStatusTopic :: string where "GuestStatusTopic = ''guest-status''"
definition EventIDMetadataKey :: string where "EventIDMetadataKey = ''event_id''"

record Message =
  mg_Payload :: "byte list"
  mg_Metadata :: "(string \<times> string) list"

type_synonym 'x Publisher = "string \<Rightarrow> Message \<Rightarrow> ('x, unit) rpc"

definition PublishGuestStatus ::
  "(GuestStatusMessage \<Rightarrow> err + byte list) \<Rightarrow> 'x Publisher \<Rightarrow> Ctx \<Rightarrow> GuestStatus \<Rightarrow> ('x, unit) action" where
  "PublishGuestStatus marshal publish ctx status =
     bindE (wrapE (Wrap ''encode guest status'') (liftE (marshal (GuestStatusProto status)))) (\<lambda>payload.
     wrapE (Wrap ''publish guest status'')
       (remote (publish GuestStatusTopic \<lparr>mg_Payload = payload, mg_Metadata = [(EventIDMetadataKey, gs_EventID status)]\<rparr>)))"

definition NewGuestStatusPublisher ::
  "(GuestStatusMessage \<Rightarrow> err + byte list) \<Rightarrow> 'x Publisher \<Rightarrow> 'x GuestStatusPublisher" where
  "NewGuestStatusPublisher marshal publish = \<lparr>pb_PublishGuestStatus = PublishGuestStatus marshal publish\<rparr>"

lemma reader_publisher: "reader (pb_PublishGuestStatus (NewGuestStatusPublisher marshal publish) ctx status)"
  by (auto simp: NewGuestStatusPublisher_def PublishGuestStatus_def intro!: relates_rules)

end
