(* ===== verification/FlowMessages.thy ===== *)
theory FlowMessages
  imports ObservationCycle
begin

section \<open>The messages of the flow control service\<close>

text \<open>
  The messages of \<open>gen/tolo/flow/v1\<close> as far as the client fills or reads them. A field the client always sets is a plain value, one it
  sets or leaves nil an option, one it never sets is left out; a \<open>timestamppb.Timestamp\<close> is a time. The enumerations are those of the
  generated file; a number outside of it is \<open>...Other\<close> where the code reads one. The detection state is opaque to the
  code, a type of its own (\<open>'ds\<close>).
\<close>

subsection \<open>The request\<close>

datatype EventTerm = EVENT_TERM_UNSPECIFIED | EVENT_TERM_SHORT | EVENT_TERM_LONG
datatype NodeKind = NODE_KIND_UNSPECIFIED | NODE_KIND_GOAL | NODE_KIND_GOAL_TRANSIT_MIXED | NODE_KIND_TRANSIT_ONLY
datatype FlowBoundaryDirection =
  BOUNDARY_DIRECTION_UNSPECIFIED | BOUNDARY_DIRECTION_ENTRY | BOUNDARY_DIRECTION_EXIT | BOUNDARY_DIRECTION_ENTRY_AND_EXIT
datatype DirectionConstraint =
  DIRECTION_CONSTRAINT_BIDIRECTIONAL_PRIOR | DIRECTION_CONSTRAINT_ONEWAY_A_TO_B_PRIOR
datatype CurrentDirection = CURRENT_DIRECTION_A_TO_B | CURRENT_DIRECTION_BIDIRECTIONAL
datatype ObservationType = OBSERVATION_TYPE_VECTOR
datatype ConfidenceFlag = CONFIDENCE_FLAG_OK | CONFIDENCE_FLAG_HOLD | CONFIDENCE_FLAG_INVALID
datatype FlowDirection = FLOW_DIRECTION_A_TO_B | FLOW_DIRECTION_B_TO_A
datatype StagnationDerivation = STAGNATION_DERIVATION_BASIC
datatype EventKind = EVENT_KIND_SENSOR_SET_CHANGED
datatype OptimizationMode = OPTIMIZATION_MODE_LIGHTWEIGHT

record FlowBoundary =
  fb_Direction :: FlowBoundaryDirection
  fb_Active :: bool

record FlowNode =
  nd_NodeId :: string
  nd_Kind :: NodeKind
  nd_Enabled :: bool
  nd_TimeResolutionS :: int32
  nd_DangerFlag :: bool
  nd_Boundary :: "FlowBoundary option"

record FlowEdge =
  eg_EdgeId :: string
  eg_EndpointA :: string
  eg_EndpointB :: string
  eg_DirectionConstraint :: DirectionConstraint
  eg_CurrentDirection :: CurrentDirection
  eg_Enabled :: bool
  eg_ObservationType :: ObservationType
  eg_TimeResolutionS :: int32
  eg_DangerFlag :: bool
  eg_CapacityHint :: "f64 option"

record FlowGraph =
  fg_Nodes :: "FlowNode list"
  fg_Edges :: "FlowEdge list"

record ArcFlow =
  af_EdgeId :: string
  af_Direction :: FlowDirection
  af_FlowRate :: f64
  af_ConfidenceFlag :: ConfidenceFlag

record ArcStagnation =
  ast_EdgeId :: string
  ast_Stagnation :: f64
  ast_Derivation :: StagnationDerivation
  ast_SameSensorFlow :: bool
  ast_ConfidenceFlag :: ConfidenceFlag

record NodeOccupancy =
  no_NodeId :: string
  no_Occupancy :: "f64 option"
  no_OccupancyDelta :: "f64 option"
  no_SameSensorArrival :: bool
  no_ConfidenceFlag :: ConfidenceFlag

record Observations =
  ob_ObservedAt :: time
  ob_SnapshotRef :: string
  ob_ArcFlows :: "ArcFlow list"
  ob_ArcStagnations :: "ArcStagnation list"
  ob_NodeOccupancies :: "NodeOccupancy list"

record FlowEvent =
  fe_Kind :: EventKind
  fe_TargetId :: string
  fe_OccurredAt :: time

record ArcHistoryStat =
  hs_EdgeId :: string
  hs_P90Stagnation :: "f64 option"
  hs_BaselineStagnation :: "f64 option"
  hs_FlowSensitivityEta :: "f64 option"
  hs_AvailableSpanHours :: f64
  hs_FlowP90 :: "f64 option"
  hs_FreeFlowDwellMin :: "f64 option"

record TimedValue =
  tv_At :: time
  tv_Value :: f64

record ArcWindowSeries =
  ws_EdgeId :: string
  ws_FlowSamples :: "TimedValue list"
  ws_StagnationSamples :: "TimedValue list"

record HistoryDigest =
  hd_ArcStats :: "ArcHistoryStat list"
  hd_WindowSeries :: "ArcWindowSeries list"
  hd_Completeness :: f64

record ResolvedConfig =
  cf_SurgeRateThresholdPercentPerMin :: f64
  cf_HighStagnationDurationMin :: f64
  cf_Beta :: f64
  cf_MinWindowSamples :: int32
  cf_CooldownDurationMin :: f64
  cf_WarmupDurationMin :: f64
  cf_RetriggerWarningThreshold :: int32
  cf_RetriggerResetQuietCycles :: int32
  cf_QueueScoreThreshold :: f64
  cf_QueueDiversityThreshold :: int32
  cf_OptimizationMode :: OptimizationMode
  cf_LocalRadiusHops :: int32
  cf_MaxTriggerZones :: int32
  cf_GreedyImproveMargin :: f64
  cf_RestrictionProposalEnabled :: bool
  cf_PunctureTriggerEnabled :: bool
  cf_ForecastingBudgetSec :: f64
  cf_DetourBudgetSec :: f64
  cf_LightweightOptBudgetSec :: f64
  cf_MilpTimeLimitSec :: f64
  cf_MaxConsecutiveSkips :: int32
  cf_SolverSeed :: int32
  cf_Epsilon :: f64
  cf_Epsilon_0 :: f64
  cf_BigMFactor :: f64
  cf_ConfidenceWeightFloor :: f64
  cf_MipRelGap :: f64
  cf_GravityAlpha :: f64
  cf_IpfMaxIter :: int32
  cf_IpfTolerance :: f64
  cf_MinReferenceSampleCount :: int32
  cf_KShortestPaths :: int32
  cf_FallbackEta :: f64
  cf_ScalarDirectionEnabled :: bool
  cf_KShortestPathsAuto :: bool
  cf_KShortestPathsMax :: int32
  cf_PhaseFeedbackEnabled :: bool
  cf_PhaseFeedbackCandidates :: int32
  cf_FullWeightHours :: f64
  cf_EtaMixingRatio :: f64
  cf_ThroughputWeights :: "f64 \<times> f64 \<times> f64"
  cf_TwoStageOptimization :: bool
  cf_BackoffEnabled :: bool
  cf_ImprovementThreshold :: f64
  cf_BackoffMaxFactor :: int32
  cf_DeltaObjectiveEnabled :: bool
  cf_NodeDetourEnabled :: bool
  cf_MilpBoundaryControlEnabled :: bool
  cf_ScheduledInflowPriorEnabled :: bool
  cf_LogTenantId :: bool
  cf_DeltaMinFraction :: f64
  cf_StaleObservationResolutions :: f64
  cf_StaleObservationFloorS :: f64
  cf_PunctureDwellRatioThreshold :: f64

subsection \<open>The response\<close>

datatype ImportanceDirection =
    IMPORTANCE_DIRECTION_UNSPECIFIED | IMPORTANCE_DIRECTION_A_TO_B | IMPORTANCE_DIRECTION_B_TO_A | IMPORTANCE_DIRECTION_NONE
  | ImportanceDirectionOther int

datatype ProposedDirection =
    PROPOSED_DIRECTION_UNSPECIFIED | PROPOSED_DIRECTION_A_TO_B | PROPOSED_DIRECTION_B_TO_A | PROPOSED_DIRECTION_BIDIRECTIONAL
  | ProposedDirectionOther int

datatype DirectionChangeType =
    DIRECTION_CHANGE_TYPE_UNSPECIFIED | DIRECTION_CHANGE_TYPE_CONVERT_ONEWAY | DIRECTION_CHANGE_TYPE_RELEASE_ONEWAY
  | DIRECTION_CHANGE_TYPE_FLIP_ONEWAY | DIRECTION_CHANGE_TYPE_KEEP | DirectionChangeTypeOther int

datatype RestrictionAction =
    RESTRICTION_ACTION_UNSPECIFIED | RESTRICTION_ACTION_CLOSE | RESTRICTION_ACTION_LIMIT | RESTRICTION_ACTION_RESUME
  | RestrictionActionOther int

datatype RestrictionReason =
    RESTRICTION_REASON_UNSPECIFIED | RESTRICTION_REASON_UNDRAINABLE_STAGNATION | RESTRICTION_REASON_RESIDUAL_TAU
  | RESTRICTION_REASON_PUNCTURE | RESTRICTION_REASON_NODE_DANGER_UPSTREAM | RESTRICTION_REASON_OVERLOAD
  | RestrictionReasonOther int

datatype BoundaryAction =
    BOUNDARY_ACTION_UNSPECIFIED | BOUNDARY_ACTION_PAUSE_INGRESS | BOUNDARY_ACTION_PAUSE_EGRESS | BOUNDARY_ACTION_RESUME
  | BoundaryActionOther int

record RouteImportance =
  ri_EdgeId :: string
  ri_Direction :: ImportanceDirection
  ri_Importance :: f64

record DirectionProposal =
  dp_EdgeId :: string
  dp_ProposedDirection :: ProposedDirection
  dp_ChangeType :: DirectionChangeType
  dp_Confidence :: f64

record RestrictionProposal =
  rp_EdgeId :: string
  rp_Action :: RestrictionAction
  rp_LimitValue :: "f64 option"
  rp_LimitRatio :: "f64 option"
  rp_Reason :: RestrictionReason
  rp_Confidence :: f64

record DetourPathProposal =
  dt_OriginEdgeId :: string
  dt_EdgeIds :: "string list"
  dt_Confidence :: f64

record BoundaryControl =
  bc_NodeId :: string
  bc_Action :: BoundaryAction

record OptimizationResult =
  or_RouteImportance :: "RouteImportance list"
  or_DirectionProposal :: "DirectionProposal list"
  or_RestrictionProposal :: "RestrictionProposal list"
  or_DetourPaths :: "DetourPathProposal list"
  or_BoundaryControl :: "BoundaryControl list"
  or_SolvedAt :: "time option"

record FeedbackObjectiveValues =
  fo_TauStar :: f64
  fo_Throughput :: "f64 option"

record TagObservation =
  ta_AttributeTag :: string
  ta_EtaEstimate :: f64

record FeedbackValues =
  fv_ObjectiveValues :: "FeedbackObjectiveValues option"
  fv_PerTagObservations :: "TagObservation list"

text \<open>Enumerations of the diagnostics are numbers, which the code reads by their names.\<close>

datatype ScalarValue = StringValue string | DoubleValue f64 | IntValue int | BoolValue bool | NullValue | NoValue

record ElementStateRecord =
  es_TargetKey :: string
  es_Observation :: int
  es_History :: int
  es_LinePoints :: int32
  es_Skipped :: "int list"

record FlowWarningMessage =
  wm_Code :: int
  wm_Context :: "(string \<times> ScalarValue) list"

record Diagnostics =
  dg_ElementStates :: "ElementStateRecord list"
  dg_Warnings :: "FlowWarningMessage list"

record 'ds OptimizeResponse =
  ors_Verdict :: string
  ors_UpdatedDetectionState :: "'ds option"
  ors_OptimizationResult :: "OptimizationResult option"
  ors_Diagnostics :: "Diagnostics option"
  ors_FeedbackValues :: "FeedbackValues option"

record 'ds OptimizeRequest =
  orq_RequestId :: string
  orq_SchemaVersion :: string
  orq_EventId :: string
  orq_TenantId :: string
  orq_Term :: EventTerm
  orq_AvailableHistoryHours :: f64
  orq_Graph :: FlowGraph
  orq_Observations :: Observations
  orq_HistoryDigest :: HistoryDigest
  orq_DetectionState :: 'ds
  orq_PreviousResult :: "OptimizationResult option"
  orq_Events :: "FlowEvent list"
  orq_Config :: ResolvedConfig
  orq_ServerTime :: time

subsection \<open>protojson\<close>

text \<open>
  \<open>protojson\<close> is not under src: its two directions for each message are parameters, a record of functions. \<open>pj_..._stored\<close> are
  those of \<open>storedProtoJSON\<close>, which discards unknown fields; a nil detection state is encoded too, hence the option.
\<close>

record 'ds ProtoJson =
  pj_new_state :: 'ds
  pj_encode_state :: "'ds option \<Rightarrow> err + byte list"
  pj_decode_state_stored :: "byte list \<Rightarrow> err + 'ds"
  pj_encode_result :: "OptimizationResult \<Rightarrow> err + byte list"
  pj_decode_result_stored :: "byte list \<Rightarrow> err + OptimizationResult"
  pj_decode_result :: "byte list \<Rightarrow> err + OptimizationResult"
  pj_encode_diagnostics :: "Diagnostics \<Rightarrow> err + byte list"
  pj_decode_diagnostics_stored :: "byte list \<Rightarrow> err + Diagnostics"
  pj_encode_feedback :: "FeedbackValues \<Rightarrow> err + byte list"
  pj_decode_feedback :: "byte list \<Rightarrow> err + FeedbackValues"

end
