(* ===== verification/FlowDiagnostics.thy ===== *)
theory FlowDiagnostics
  imports FlowMessages
begin

section \<open>infra/connect/flow\_diagnostics.go: diagnostics for the organizer\<close>

text \<open>
  The stored diagnostics of flow control are decoded and translated into this service's own messages. An enumeration goes by its name: the
  number's name in the flow schema, with \<open>FLOW_\<close> in front, looked up in the tables of the generated code; a name that is not
  there is zero, \<open>UNSPECIFIED\<close>. \<open>String()\<close> of a number without a name is its decimal text. The text of a \<open>float64\<close> in a warning's
  context is \<open>strconv.FormatFloat\<close>'s shortest form, kept as the number it denotes.
\<close>

datatype context_text = Text string | ShortestFloat f64

definition Judgement_name :: "(int \<times> string) list" where
  "Judgement_name = [(0, ''JUDGEMENT_UNSPECIFIED''), (1, ''JUDGEMENT_SURGE''), (2, ''JUDGEMENT_HIGH_STAGNATION''),
     (3, ''JUDGEMENT_COMBINED''), (4, ''JUDGEMENT_PUNCTURE'')]"

definition ObservationState_name :: "(int \<times> string) list" where
  "ObservationState_name = [(0, ''OBSERVATION_STATE_UNSPECIFIED''), (1, ''OBSERVATION_STATE_UNOBSERVED''),
     (2, ''OBSERVATION_STATE_INVALID''), (3, ''OBSERVATION_STATE_HOLD''), (4, ''OBSERVATION_STATE_STALE''),
     (5, ''OBSERVATION_STATE_OK'')]"

definition HistoryTier_name :: "(int \<times> string) list" where
  "HistoryTier_name = [(0, ''HISTORY_TIER_UNSPECIFIED''), (1, ''HISTORY_TIER_NONE''), (2, ''HISTORY_TIER_WINDOW_ONLY''),
     (3, ''HISTORY_TIER_SHORT''), (4, ''HISTORY_TIER_ESTABLISHED'')]"

definition WarningCode_name :: "(int \<times> string) list" where
  "WarningCode_name = [(0, ''WARNING_CODE_UNSPECIFIED''), (1, ''WARNING_CODE_RETRIGGER''), (2, ''WARNING_CODE_SIZE_NEAR_LIMIT''),
     (3, ''WARNING_CODE_CONSTRAINT_NEAR''), (4, ''WARNING_CODE_LOW_COVERAGE''), (5, ''WARNING_CODE_FALLBACK_APPLIED''),
     (6, ''WARNING_CODE_QUEUE_EXPIRED''), (7, ''WARNING_CODE_SOLVER_GIVEUP''), (8, ''WARNING_CODE_UNDRAINABLE_EDGE''),
     (9, ''WARNING_CODE_MANY_TRIGGER_ZONES''), (10, ''WARNING_CODE_LOW_CONFIDENCE_PROPOSAL''),
     (11, ''WARNING_CODE_INSUFFICIENT_WINDOW_SAMPLES''), (14, ''WARNING_CODE_PARTIAL_COMBINED_TRIGGER'')]"

definition FlowJudgement_value :: "(string \<times> int) list" where
  "FlowJudgement_value = [(''FLOW_JUDGEMENT_UNSPECIFIED'', 0), (''FLOW_JUDGEMENT_SURGE'', 1),
     (''FLOW_JUDGEMENT_HIGH_STAGNATION'', 2), (''FLOW_JUDGEMENT_COMBINED'', 3), (''FLOW_JUDGEMENT_PUNCTURE'', 4)]"

definition FlowObservationState_value :: "(string \<times> int) list" where
  "FlowObservationState_value = [(''FLOW_OBSERVATION_STATE_UNSPECIFIED'', 0), (''FLOW_OBSERVATION_STATE_UNOBSERVED'', 1),
     (''FLOW_OBSERVATION_STATE_INVALID'', 2), (''FLOW_OBSERVATION_STATE_HOLD'', 3), (''FLOW_OBSERVATION_STATE_STALE'', 4),
     (''FLOW_OBSERVATION_STATE_OK'', 5)]"

definition FlowHistoryTier_value :: "(string \<times> int) list" where
  "FlowHistoryTier_value = [(''FLOW_HISTORY_TIER_UNSPECIFIED'', 0), (''FLOW_HISTORY_TIER_NONE'', 1),
     (''FLOW_HISTORY_TIER_WINDOW_ONLY'', 2), (''FLOW_HISTORY_TIER_SHORT'', 3), (''FLOW_HISTORY_TIER_ESTABLISHED'', 4)]"

definition FlowWarningCode_value :: "(string \<times> int) list" where
  "FlowWarningCode_value = [(''FLOW_WARNING_CODE_UNSPECIFIED'', 0), (''FLOW_WARNING_CODE_RETRIGGER'', 1),
     (''FLOW_WARNING_CODE_SIZE_NEAR_LIMIT'', 2), (''FLOW_WARNING_CODE_CONSTRAINT_NEAR'', 3),
     (''FLOW_WARNING_CODE_LOW_COVERAGE'', 4), (''FLOW_WARNING_CODE_FALLBACK_APPLIED'', 5),
     (''FLOW_WARNING_CODE_QUEUE_EXPIRED'', 6), (''FLOW_WARNING_CODE_SOLVER_GIVEUP'', 7),
     (''FLOW_WARNING_CODE_UNDRAINABLE_EDGE'', 8), (''FLOW_WARNING_CODE_MANY_TRIGGER_ZONES'', 9),
     (''FLOW_WARNING_CODE_LOW_CONFIDENCE_PROPOSAL'', 10), (''FLOW_WARNING_CODE_INSUFFICIENT_WINDOW_SAMPLES'', 11),
     (''FLOW_WARNING_CODE_PARTIAL_COMBINED_TRIGGER'', 14)]"

definition enum_String :: "(int \<times> string) list \<Rightarrow> int \<Rightarrow> string" where
  "enum_String names n = (case map_of names n of Some name \<Rightarrow> name | None \<Rightarrow> int_text n)"

definition flowEnum :: "string \<Rightarrow> (string \<times> int) list \<Rightarrow> int" where
  "flowEnum name values = (case map_of values (''FLOW_'' @ name) of Some n \<Rightarrow> n | None \<Rightarrow> 0)"

fun scalarText :: "ScalarValue \<Rightarrow> context_text" where
  "scalarText (StringValue s) = Text s"
| "scalarText (DoubleValue x) = ShortestFloat x"
| "scalarText (IntValue n) = Text (int_text n)"
| "scalarText (BoolValue b) = Text (if b then ''true'' else ''false'')"
| "scalarText NullValue = Text ''''"
| "scalarText NoValue = Text ''''"

record FlowElementState =
  fs_TargetKey :: string
  fs_Observation :: int
  fs_History :: int
  fs_LinePoints :: int32
  fs_Skipped :: "int list"

record FlowWarning =
  fw_Code :: int
  fw_Context :: "string \<rightharpoonup> context_text"

definition element_state :: "ElementStateRecord \<Rightarrow> FlowElementState" where
  "element_state r =
     \<lparr>fs_TargetKey = es_TargetKey r,
      fs_Observation = flowEnum (enum_String ObservationState_name (es_Observation r)) FlowObservationState_value,
      fs_History = flowEnum (enum_String HistoryTier_name (es_History r)) FlowHistoryTier_value,
      fs_LinePoints = es_LinePoints r,
      fs_Skipped = map (\<lambda>j. flowEnum (enum_String Judgement_name j) FlowJudgement_value) (es_Skipped r)\<rparr>"

definition flow_warning :: "FlowWarningMessage \<Rightarrow> FlowWarning" where
  "flow_warning w =
     \<lparr>fw_Code = flowEnum (enum_String WarningCode_name (wm_Code w)) FlowWarningCode_value,
      fw_Context = fold (\<lambda>(key, value) m. m(key \<mapsto> scalarText value)) (wm_Context w) Map.empty\<rparr>"

definition newProtoFlowDiagnostics ::
  "'ds ProtoJson \<Rightarrow> byte list option \<Rightarrow> err + (FlowElementState list \<times> FlowWarning list)" where
  "newProtoFlowDiagnostics pj raw =
     (case raw of
        None \<Rightarrow> Inr ([], [])
      | Some json \<Rightarrow>
          (case pj_decode_diagnostics_stored pj json of
             Inl err \<Rightarrow> Inl (Wrap ''decode flow diagnostics'' err)
           | Inr diagnostics \<Rightarrow>
               Inr (map element_state (dg_ElementStates diagnostics), map flow_warning (dg_Warnings diagnostics))))"

subsection \<open>By name is by number\<close>

lemma by_name:
  assumes "list_all (\<lambda>(n, name). flowEnum name values = n) names"
    and "list_all (\<lambda>(name, n). hd (drop 5 name) \<notin> set ''-0123456789'') values"
  shows "flowEnum (enum_String names n) values = (if n \<in> fst ` set names then n else 0)"
proof (cases "map_of names n")
  case None
  have "''FLOW_'' @ int_text n \<notin> fst ` set values"
  proof
    assume "''FLOW_'' @ int_text n \<in> fst ` set values"
    then obtain m where "(''FLOW_'' @ int_text n, m) \<in> set values" by auto
    with assms(2) have "hd (drop 5 (''FLOW_'' @ int_text n)) \<notin> set ''-0123456789''" by (auto simp: list_all_iff)
    with int_text_head [of n] show False by simp
  qed
  then have "map_of values (''FLOW_'' @ int_text n) = None" by (rule map_of_eq_None_iff [THEN iffD2])
  then have "flowEnum (int_text n) values = 0" by (simp only: flowEnum_def option.case)
  moreover have "enum_String names n = int_text n" using None by (simp only: enum_String_def option.case)
  moreover have "n \<notin> fst ` set names" using None by (rule map_of_eq_None_iff [THEN iffD1])
  ultimately show ?thesis by simp
next
  case (Some name)
  then have "(n, name) \<in> set names" by (rule map_of_SomeD)
  moreover with assms(1) have "flowEnum name values = n" by (auto simp: list_all_iff)
  ultimately show ?thesis using Some by (auto simp: enum_String_def intro!: image_eqI)
qed

lemma tables:
  "list_all (\<lambda>(n, name). flowEnum name FlowJudgement_value = n) Judgement_name"
  "list_all (\<lambda>(name, n). hd (drop 5 name) \<notin> set ''-0123456789'') FlowJudgement_value"
  "list_all (\<lambda>(n, name). flowEnum name FlowObservationState_value = n) ObservationState_name"
  "list_all (\<lambda>(name, n). hd (drop 5 name) \<notin> set ''-0123456789'') FlowObservationState_value"
  "list_all (\<lambda>(n, name). flowEnum name FlowHistoryTier_value = n) HistoryTier_name"
  "list_all (\<lambda>(name, n). hd (drop 5 name) \<notin> set ''-0123456789'') FlowHistoryTier_value"
  "list_all (\<lambda>(n, name). flowEnum name FlowWarningCode_value = n) WarningCode_name"
  "list_all (\<lambda>(name, n). hd (drop 5 name) \<notin> set ''-0123456789'') FlowWarningCode_value"
  by code_simp+

lemma known_numbers:
  "fst ` set Judgement_name = {0..4}" "fst ` set ObservationState_name = {0..5}" "fst ` set HistoryTier_name = {0..4}"
  "fst ` set WarningCode_name = {0..11} \<union> {14}"
  by (auto simp: Judgement_name_def ObservationState_name_def HistoryTier_name_def WarningCode_name_def; presburger)+

text \<open>The translation by name is the identity on the numbers both schemas know and \<open>UNSPECIFIED\<close> on every other: no number of
  a newer flow schema is ever shown as another state, tier, judgement or warning.\<close>

theorem FlowDiagnostics_by_number:
  "element_state r = \<lparr>fs_TargetKey = es_TargetKey r,
     fs_Observation = (if es_Observation r \<in> {0..5} then es_Observation r else 0),
     fs_History = (if es_History r \<in> {0..4} then es_History r else 0), fs_LinePoints = es_LinePoints r,
     fs_Skipped = map (\<lambda>j. if j \<in> {0..4} then j else 0) (es_Skipped r)\<rparr> \<and>
   fw_Code (flow_warning m) = (if wm_Code m \<in> {0..11} \<union> {14} then wm_Code m else 0)"
  unfolding element_state_def flow_warning_def
  by (simp only: by_name [OF tables(1,2)] by_name [OF tables(3,4)] by_name [OF tables(5,6)] by_name [OF tables(7,8)] known_numbers
      FlowWarning.simps)

end
