(* ===== verification/ConnectService.thy ===== *)
theory ConnectService
  imports ConnectErrors MeasurementIngest StatusQuery GuestPublisher FlowDiagnostics EdgeDeviceProperties
begin

section \<open>infra/connect/service.go: the RPC handlers\<close>

text \<open>
  Each handler turns a request message into the input of a use case, calls it, and turns the result into a response message or the error into
  what the client may learn of it. The interfaces of the use cases are records of functions. The messages are those of
  \<open>gen/tolo/observation/v1\<close>, as their getters read them; those of the kernel schema, not under src, hold the fields filled here.
\<close>

subsection \<open>Messages\<close>

datatype MeasurementSource =
  MEASUREMENT_SOURCE_UNSPECIFIED | MEASUREMENT_SOURCE_EDGE | MEASUREMENT_SOURCE_QR | MeasurementSourceOther int

record MeasurementMessage =
  mx_ObservationPointId :: string
  mx_WindowStart :: "time option"
  mx_WindowEnd :: "time option"
  mx_CountIn :: int32
  mx_CountOut :: int32
  mx_Source :: MeasurementSource
  mx_QrLocationId :: string
  mx_MeanDetectedPeople :: "f64 option"

record ReportMeasurementsRequest =
  rq_EventId :: string
  rq_EdgeDeviceId :: string
  rq_Measurements :: "MeasurementMessage list"
  rq_TenantId :: string

datatype EdgeDeviceKindMessage =
    EDGE_DEVICE_KIND_UNSPECIFIED | EDGE_DEVICE_KIND_OBSERVATION_PAGE | EDGE_DEVICE_KIND_CAMERA
  | EdgeDeviceKindMessageOther int

datatype MeasurementMethodMessage =
  MEASUREMENT_METHOD_UNSPECIFIED | MEASUREMENT_METHOD_CAMERA | MEASUREMENT_METHOD_QR

record ObservationPointMessage =
  px_ObservationPointId :: string
  px_Name :: string
  px_Enabled :: bool
  px_Method :: MeasurementMethodMessage

record EdgeDeviceMessage =
  ex_EdgeDeviceId :: string
  ex_EventId :: string
  ex_Name :: string
  ex_ObservationPoints :: "ObservationPointMessage list"
  ex_Unregistered :: bool
  ex_LastHeartbeatAt :: "time option"
  ex_Online :: bool
  ex_Kind :: EdgeDeviceKindMessage
  ex_CameraLinks :: "(string \<times> string) list"

record RegisterEdgeDeviceRequest =
  rr_EventId :: string
  rr_Name :: string
  rr_ObservationPointNames :: "string list"
  rr_Kind :: EdgeDeviceKindMessage
  rr_LinkedObservationPointId :: string

datatype EventTypeMessage =
  EVENT_TYPE_UNSPECIFIED | EVENT_TYPE_SHORT_TERM | EVENT_TYPE_LONG_TERM | EventTypeMessageOther int

record ObservationSettingsMessage =
  sx_HistoryWindowDays :: int32
  sx_EventType :: EventTypeMessage

record PointScoreMessage =
  kx_PointId :: string
  kx_PeopleScore :: "f64 option"
  kx_OccupancyDelta :: "f64 option"
  kx_Exhaustive :: bool

datatype RouteFlow = NoFlow | DirectionalFlow (flow_forward: f64) (flow_backward: f64) | ScalarFlow f64

record RouteScoreMessage =
  kr_RouteId :: string
  kr_Flow :: RouteFlow
  kr_StagnationScore :: "f64 option"
  kr_Exhaustive :: bool

record ObservationSnapshotMessage =
  kn_SnapshotId :: string
  kn_EventId :: string
  kn_WindowStart :: time
  kn_WindowEnd :: time
  kn_PointScores :: "PointScoreMessage list"
  kn_RouteScores :: "RouteScoreMessage list"

record EventOverviewMessage =
  ox_Snapshot :: "ObservationSnapshotMessage option"
  ox_FlowElementStates :: "FlowElementState list"
  ox_FlowWarnings :: "FlowWarning list"

subsection \<open>The interfaces of the use cases\<close>

type_synonym 'x MeasurementIngestUseCases = "Ctx \<Rightarrow> ReportMeasurementsInput \<Rightarrow> ('x, int32) action"

record 'x EdgeDeviceUseCases =
  ec_RegisterEdgeDevice :: "Ctx \<Rightarrow> RegisterEdgeDeviceInput \<Rightarrow> ('x, RegisterEdgeDeviceOutput) action"
  ec_UnregisterEdgeDevice :: "Ctx \<Rightarrow> UnregisterEdgeDeviceInput \<Rightarrow> ('x, EdgeDeviceView) action"
  ec_ListEdgeDevices :: "Ctx \<Rightarrow> ListEdgeDevicesInput \<Rightarrow> ('x, EdgeDeviceView list) action"
  ec_ListEdgeDeviceObservationPoints :: "Ctx \<Rightarrow> ListEdgeDeviceObservationPointsInput \<Rightarrow> ('x, ObservationPoint list) action"
  ec_Heartbeat :: "Ctx \<Rightarrow> HeartbeatInput \<Rightarrow> ('x, unit) action"
  ec_UpdateObservationPointConfig :: "Ctx \<Rightarrow> UpdateObservationPointConfigInput \<Rightarrow> ('x, ObservationPoint) action"

record 'x StatusQueryUseCases =
  sc_GetEventOverview :: "Ctx \<Rightarrow> string \<Rightarrow> ('x, EventOverview) action"
  sc_GetGuestSnapshot :: "Ctx \<Rightarrow> string \<Rightarrow> ('x, GuestStatus) action"

record 'x ObservationSettingsUseCases =
  oc_GetObservationSettings :: "Ctx \<Rightarrow> string \<Rightarrow> ('x, ObservationSettings) action"
  oc_UpdateObservationSettings :: "Ctx \<Rightarrow> UpdateObservationSettingsInput \<Rightarrow> ('x, ObservationSettings) action"

subsection \<open>MeasurementIngestService\<close>

definition timestampTime :: "time option \<Rightarrow> time" where
  "timestampTime value = (case value of None \<Rightarrow> 0 | Some t \<Rightarrow> t)"

fun measurementPointID :: "MeasurementMessage \<Rightarrow> MeasurementMethod \<Rightarrow> err + string" where
  "measurementPointID m method =
     (case mx_Source m of
        MEASUREMENT_SOURCE_EDGE \<Rightarrow>
          if method \<noteq> MeasurementMethodCamera then Inl (Err ErrMixedMeasurementSources)
          else if mx_QrLocationId m \<noteq> '''' then Inl (Err ErrQRLocationNotAllowed)
          else Inr (mx_ObservationPointId m)
      | MEASUREMENT_SOURCE_QR \<Rightarrow>
          if method \<noteq> MeasurementMethodQR then Inl (Err ErrMixedMeasurementSources)
          else if mx_ObservationPointId m \<noteq> '''' then Inl (Err ErrObservationPointNotAllowed)
          else Inr (mx_QrLocationId m)
      | MEASUREMENT_SOURCE_UNSPECIFIED \<Rightarrow> Inl (Err ErrMeasurementSourceRequired)
      | MeasurementSourceOther n \<Rightarrow> Inl (Err ErrMeasurementSourceRequired))"

definition measurement_input :: "MeasurementMethod \<Rightarrow> MeasurementMessage \<Rightarrow> err + MeasurementInput" where
  "measurement_input method m =
     bindS (measurementPointID m method) (\<lambda>pointID.
     Inr \<lparr>mn_ObservationPointID = pointID, mn_WindowStart = timestampTime (mx_WindowStart m),
       mn_WindowEnd = timestampTime (mx_WindowEnd m), mn_CountIn = mx_CountIn m, mn_CountOut = mx_CountOut m,
       mn_MeanDetectedPeople = mx_MeanDetectedPeople m\<rparr>)"

definition request_method :: "MeasurementMessage list \<Rightarrow> MeasurementMethod" where
  "request_method reported =
     (case reported of
        [] \<Rightarrow> MeasurementMethodCamera
      | m # _ \<Rightarrow> if mx_Source m = MEASUREMENT_SOURCE_QR then MeasurementMethodQR else MeasurementMethodCamera)"

definition report_input :: "ReportMeasurementsRequest \<Rightarrow> err + ReportMeasurementsInput" where
  "report_input req =
     (let method = request_method (rq_Measurements req) in
      if method = MeasurementMethodQR \<and> rq_EdgeDeviceId req \<noteq> '''' then Inl (Err ErrEdgeDeviceNotAllowed)
      else
        bindS (mapS (measurement_input method) (rq_Measurements req)) (\<lambda>measurements.
        Inr \<lparr>rm_TenantID = rq_TenantId req, rm_EventID = rq_EventId req, rm_EdgeDeviceID = rq_EdgeDeviceId req,
          rm_Method = method, rm_Measurements = measurements\<rparr>))"

definition ReportMeasurements_rpc ::
  "'x MeasurementIngestUseCases \<Rightarrow> Ctx \<Rightarrow> ReportMeasurementsRequest \<Rightarrow> ('x, int32) action" where
  "ReportMeasurements_rpc useCases ctx req =
     client_errors (bindE (liftE (report_input req)) (useCases ctx))"

subsection \<open>EdgeDeviceService\<close>

fun domainEdgeDeviceKind :: "EdgeDeviceKindMessage \<Rightarrow> err + EdgeDeviceKind" where
  "domainEdgeDeviceKind EDGE_DEVICE_KIND_CAMERA = Inr EdgeDeviceKindCamera"
| "domainEdgeDeviceKind EDGE_DEVICE_KIND_OBSERVATION_PAGE = Inr EdgeDeviceKindObservationPage"
| "domainEdgeDeviceKind EDGE_DEVICE_KIND_UNSPECIFIED = Inr EdgeDeviceKindObservationPage"
| "domainEdgeDeviceKind (EdgeDeviceKindMessageOther n) = Inl (Err ErrEdgeDeviceKindInvalid)"

fun protoEdgeDeviceKind :: "EdgeDeviceKind \<Rightarrow> EdgeDeviceKindMessage" where
  "protoEdgeDeviceKind EdgeDeviceKindCamera = EDGE_DEVICE_KIND_CAMERA"
| "protoEdgeDeviceKind EdgeDeviceKindObservationPage = EDGE_DEVICE_KIND_OBSERVATION_PAGE"
| "protoEdgeDeviceKind (EdgeDeviceKindOther n) = EDGE_DEVICE_KIND_UNSPECIFIED"

definition newProtoObservationPoint :: "ObservationPoint \<Rightarrow> ObservationPointMessage" where
  "newProtoObservationPoint p =
     \<lparr>px_ObservationPointId = pt_ID p, px_Name = pt_Name p, px_Enabled = pt_Enabled p, px_Method = MEASUREMENT_METHOD_CAMERA\<rparr>"

definition newProtoEdgeDevice :: "EdgeDeviceView \<Rightarrow> EdgeDeviceMessage" where
  "newProtoEdgeDevice v =
     (let device = vw_Device v; camera = (dev_Kind device = EdgeDeviceKindCamera) in
      \<lparr>ex_EdgeDeviceId = dev_ID device, ex_EventId = dev_EventID device, ex_Name = dev_Name device,
       ex_ObservationPoints = map newProtoObservationPoint (dev_ObservationPoints device),
       ex_Unregistered = dev_Unregistered device,
       ex_LastHeartbeatAt = (if camera then None else dev_LastHeartbeatAt device),
       ex_Online = (if camera then False else vw_Online v), ex_Kind = protoEdgeDeviceKind (dev_Kind device),
       ex_CameraLinks = map (\<lambda>l. (cl_CameraEdgeDeviceID l, cl_ObservationPointID l)) (dev_CameraLinks device)\<rparr>)"

definition RegisterEdgeDevice_rpc ::
  "'x EdgeDeviceUseCases \<Rightarrow> Ctx \<Rightarrow> RegisterEdgeDeviceRequest \<Rightarrow> ('x, EdgeDeviceMessage \<times> string) action" where
  "RegisterEdgeDevice_rpc useCases ctx req =
     client_errors (
       bindE (liftE (domainEdgeDeviceKind (rr_Kind req))) (\<lambda>kind.
       bindE (ec_RegisterEdgeDevice useCases ctx
         \<lparr>rg_EventID = rr_EventId req, rg_Name = rr_Name req, rg_ObservationPointNames = rr_ObservationPointNames req,
          rg_Kind = kind, rg_LinkedObservationPointID = rr_LinkedObservationPointId req\<rparr>) (\<lambda>output.
       returnE (newProtoEdgeDevice (ro_Device output), ro_ObservationPagePath output))))"

definition UnregisterEdgeDevice_rpc ::
  "'x EdgeDeviceUseCases \<Rightarrow> Ctx \<Rightarrow> string \<Rightarrow> string \<Rightarrow> ('x, EdgeDeviceMessage) action" where
  "UnregisterEdgeDevice_rpc useCases ctx eventId edgeDeviceId =
     client_errors (
       bindE (ec_UnregisterEdgeDevice useCases ctx \<lparr>un_EventID = eventId, un_EdgeDeviceID = edgeDeviceId\<rparr>) (\<lambda>device.
       returnE (newProtoEdgeDevice device)))"

definition ListEdgeDevices_rpc ::
  "'x EdgeDeviceUseCases \<Rightarrow> Ctx \<Rightarrow> string \<Rightarrow> bool \<Rightarrow> ('x, EdgeDeviceMessage list) action" where
  "ListEdgeDevices_rpc useCases ctx eventId includeUnregistered =
     client_errors (
       bindE (ec_ListEdgeDevices useCases ctx \<lparr>li_EventID = eventId, li_IncludeUnregistered = includeUnregistered\<rparr>) (\<lambda>devices.
       returnE (map newProtoEdgeDevice devices)))"

definition ListEdgeDeviceObservationPoints_rpc ::
  "'x EdgeDeviceUseCases \<Rightarrow> Ctx \<Rightarrow> string \<Rightarrow> string \<Rightarrow> ('x, ObservationPointMessage list) action" where
  "ListEdgeDeviceObservationPoints_rpc useCases ctx eventId edgeDeviceId =
     client_errors (
       bindE (ec_ListEdgeDeviceObservationPoints useCases ctx \<lparr>lp_EventID = eventId, lp_EdgeDeviceID = edgeDeviceId\<rparr>) (\<lambda>points.
       returnE (map newProtoObservationPoint points)))"

definition Heartbeat_rpc :: "'x EdgeDeviceUseCases \<Rightarrow> Ctx \<Rightarrow> string \<Rightarrow> string \<Rightarrow> string list \<Rightarrow> ('x, unit) action" where
  "Heartbeat_rpc useCases ctx eventId edgeDeviceId activeIds =
     client_errors (ec_Heartbeat useCases ctx
       \<lparr>hb_EventID = eventId, hb_EdgeDeviceID = edgeDeviceId, hb_ActiveObservationPointIDs = activeIds\<rparr>)"

definition UpdateObservationPointConfig_rpc ::
  "'x EdgeDeviceUseCases \<Rightarrow> Ctx \<Rightarrow> string \<Rightarrow> string \<Rightarrow> string \<Rightarrow> bool \<Rightarrow> ('x, ObservationPointMessage) action" where
  "UpdateObservationPointConfig_rpc useCases ctx eventId pointId name enabled =
     client_errors (
       bindE (ec_UpdateObservationPointConfig useCases ctx
         \<lparr>up_EventID = eventId, up_ObservationPointID = pointId, up_Name = name, up_Enabled = enabled\<rparr>) (\<lambda>p.
       returnE (newProtoObservationPoint p)))"

subsection \<open>StatusQueryService\<close>

definition score_message :: "PointScore \<Rightarrow> PointScoreMessage" where
  "score_message s =
     \<lparr>kx_PointId = ps_PointID s, kx_PeopleScore = ps_PeopleScore s, kx_OccupancyDelta = ps_OccupancyDelta s,
      kx_Exhaustive = ps_Exhaustive s\<rparr>"

definition route_message :: "RouteScore \<Rightarrow> RouteScoreMessage" where
  "route_message s =
     \<lparr>kr_RouteId = rs_RouteID s,
      kr_Flow = (case rs_ScalarFlow s of None \<Rightarrow> DirectionalFlow (rs_Forward s) (rs_Backward s) | Some f \<Rightarrow> ScalarFlow f),
      kr_StagnationScore = rs_StagnationScore s, kr_Exhaustive = rs_Exhaustive s\<rparr>"

definition newProtoSnapshot :: "Snapshot option \<Rightarrow> ObservationSnapshotMessage option" where
  "newProtoSnapshot snapshot =
     (case snapshot of
        None \<Rightarrow> None
      | Some s \<Rightarrow> Some
          \<lparr>kn_SnapshotId = sn_ID s, kn_EventId = sn_EventID s, kn_WindowStart = sn_WindowStart s, kn_WindowEnd = sn_WindowEnd s,
           kn_PointScores = map score_message (sn_PointScores s) @
             map (\<lambda>p. \<lparr>kx_PointId = p, kx_PeopleScore = None, kx_OccupancyDelta = None, kx_Exhaustive = False\<rparr>)
               (mi_PointIDs (sn_Missing s)),
           kn_RouteScores = map route_message (sn_RouteScores s) @
             map (\<lambda>r. \<lparr>kr_RouteId = r, kr_Flow = NoFlow, kr_StagnationScore = None, kr_Exhaustive = False\<rparr>)
               (mi_RouteIDs (sn_Missing s))\<rparr>)"

definition GetEventOverview_rpc ::
  "'ds ProtoJson \<Rightarrow> 'x StatusQueryUseCases \<Rightarrow> Ctx \<Rightarrow> string \<Rightarrow> ('x, EventOverviewMessage) action" where
  "GetEventOverview_rpc pj useCases ctx eventId =
     client_errors (
       bindE (sc_GetEventOverview useCases ctx eventId) (\<lambda>overview.
       bindE (liftE (newProtoFlowDiagnostics pj (ov_Diagnostics overview))) (\<lambda>(elementStates, warnings).
       returnE \<lparr>ox_Snapshot = newProtoSnapshot (ov_Snapshot overview), ox_FlowElementStates = elementStates,
         ox_FlowWarnings = warnings\<rparr>)))"

definition GetGuestSnapshot_rpc :: "'x StatusQueryUseCases \<Rightarrow> Ctx \<Rightarrow> string \<Rightarrow> ('x, GuestStatusMessage) action" where
  "GetGuestSnapshot_rpc useCases ctx eventId =
     client_errors (bindE (sc_GetGuestSnapshot useCases ctx eventId) (\<lambda>status. returnE (GuestStatusProto status)))"

subsection \<open>ObservationSettingsService\<close>

fun domainEventType :: "EventTypeMessage \<Rightarrow> EventType" where
  "domainEventType EVENT_TYPE_SHORT_TERM = EventTypeShortTerm"
| "domainEventType EVENT_TYPE_LONG_TERM = EventTypeLongTerm"
| "domainEventType EVENT_TYPE_UNSPECIFIED = EventTypeUnspecified"
| "domainEventType (EventTypeMessageOther n) = EventTypeUnspecified"

fun protoEventType :: "EventType \<Rightarrow> EventTypeMessage" where
  "protoEventType EventTypeShortTerm = EVENT_TYPE_SHORT_TERM"
| "protoEventType EventTypeLongTerm = EVENT_TYPE_LONG_TERM"
| "protoEventType EventTypeUnspecified = EVENT_TYPE_UNSPECIFIED"
| "protoEventType (EventTypeOther n) = EVENT_TYPE_UNSPECIFIED"

definition newProtoObservationSettings :: "ObservationSettings \<Rightarrow> ObservationSettingsMessage" where
  "newProtoObservationSettings s =
     \<lparr>sx_HistoryWindowDays = os_HistoryWindowDays s, sx_EventType = protoEventType (os_EventType s)\<rparr>"

definition GetObservationSettings_rpc ::
  "'x ObservationSettingsUseCases \<Rightarrow> Ctx \<Rightarrow> string \<Rightarrow> ('x, ObservationSettingsMessage) action" where
  "GetObservationSettings_rpc useCases ctx eventId =
     client_errors (bindE (oc_GetObservationSettings useCases ctx eventId) (\<lambda>s. returnE (newProtoObservationSettings s)))"

definition UpdateObservationSettings_rpc ::
  "'x ObservationSettingsUseCases \<Rightarrow> Ctx \<Rightarrow> string \<Rightarrow> ObservationSettingsMessage \<Rightarrow> ('x, ObservationSettingsMessage) action" where
  "UpdateObservationSettings_rpc useCases ctx eventId settings =
     client_errors (
       bindE (oc_UpdateObservationSettings useCases ctx
         \<lparr>us_EventID = eventId, us_HistoryWindowDays = sx_HistoryWindowDays settings,
          us_EventType = domainEventType (sx_EventType settings)\<rparr>) (\<lambda>s.
       returnE (newProtoObservationSettings s)))"

end
