(* ===== verification/FlowClient.thy ===== *)
theory FlowClient
  imports FlowMessages GraphClient
begin

section \<open>infra/connect/flow\_client.go: asking flow control to optimize\<close>

text \<open>
  \<open>newOptimizeRequest\<close> turns the input of a cycle into a request: the graph, the observations that name its elements, the digest of the
  history, the sensor changes as events, and what the service itself answered last time. \<open>Optimize\<close> sends it and keeps the parts of the answer as JSON texts.
  The sets \<open>nodeIDs\<close> and \<open>edgeIDs\<close> (Go maps to \<open>true\<close>) are sets. A conversion of a \<open>float64\<close> outside the range of \<open>int32\<close> is
  left to the implementation by Go: \<open>int32_of\<close> gives what amd64 does, the least value.
\<close>

definition flowRequestSchemaVersion :: string where "flowRequestSchemaVersion = ''request/1''"
definition minArcHistorySpan :: duration where "minArcHistorySpan = 4 * hour"

fun int32_of :: "f64 \<Rightarrow> int32" where
  "int32_of (Num s m) =
     (let n = (if s then - \<lfloor>m\<rfloor> else \<lfloor>m\<rfloor>) in
      if - (2 ^ 31) \<le> n \<and> n < 2 ^ 31 then word_of_int n else word_of_int (- (2 ^ 31)))"
| "int32_of _ = word_of_int (- (2 ^ 31))"

text \<open>\<open>crypto/rand.Text\<close>: 26 letters of the base32 alphabet; a failing source of randomness ends the process.\<close>

definition base32alphabet :: string where "base32alphabet = ''ABCDEFGHIJKLMNOPQRSTUVWXYZ234567''"

definition rand_text :: "(entropy, err, string) prog" where
  "rand_text = bindE (wrapE (\<lambda>err. GoPanic ''crypto/rand'') (rand_read 26)) (\<lambda>bytes.
     returnE (map (\<lambda>b. base32alphabet ! (unat b mod 32)) bytes))"

subsection \<open>The graph\<close>

definition resolution :: "Snapshot \<Rightarrow> GraphAnchor \<Rightarrow> int32" where
  "resolution snapshot anchor =
     int32_of (dur_seconds (max (case sn_Resolutions snapshot anchor of None \<Rightarrow> 0 | Some d \<Rightarrow> d)
       (time_sub (sn_WindowEnd snapshot) (sn_WindowStart snapshot))))"

fun flowNodeKind :: "PointType \<Rightarrow> NodeKind" where
  "flowNodeKind PointTypeGoal = NODE_KIND_GOAL"
| "flowNodeKind PointTypeGoalTransitMixed = NODE_KIND_GOAL_TRANSIT_MIXED"
| "flowNodeKind PointTypeTransitOnly = NODE_KIND_TRANSIT_ONLY"
| "flowNodeKind PointTypeUnspecified = NODE_KIND_UNSPECIFIED"
| "flowNodeKind (PointTypeOther n) = NODE_KIND_UNSPECIFIED"

fun flowBoundaryDirection :: "BoundaryDirection \<Rightarrow> FlowBoundaryDirection" where
  "flowBoundaryDirection BoundaryDirectionEntry = BOUNDARY_DIRECTION_ENTRY"
| "flowBoundaryDirection BoundaryDirectionExit = BOUNDARY_DIRECTION_EXIT"
| "flowBoundaryDirection BoundaryDirectionEntryAndExit = BOUNDARY_DIRECTION_ENTRY_AND_EXIT"
| "flowBoundaryDirection BoundaryDirectionUnspecified = BOUNDARY_DIRECTION_UNSPECIFIED"
| "flowBoundaryDirection (BoundaryDirectionOther n) = BOUNDARY_DIRECTION_UNSPECIFIED"

definition flowBoundary :: "Boundary option \<Rightarrow> FlowBoundary option" where
  "flowBoundary boundary =
     (case boundary of None \<Rightarrow> None
      | Some b \<Rightarrow> Some \<lparr>fb_Direction = flowBoundaryDirection (bd_Direction b), fb_Active = bd_Active b\<rparr>)"

definition flow_node :: "(GraphAnchor \<Rightarrow> int32) \<Rightarrow> Point \<Rightarrow> FlowNode" where
  "flow_node res pt =
     \<lparr>nd_NodeId = gp_ID pt, nd_Kind = flowNodeKind (gp_Type pt), nd_Enabled = True,
      nd_TimeResolutionS = res (GraphAnchor (gp_ID pt) ''''), nd_DangerFlag = False,
      nd_Boundary = flowBoundary (gp_Boundary pt)\<rparr>"

definition flow_edge :: "(GraphAnchor \<Rightarrow> int32) \<Rightarrow> Route \<Rightarrow> FlowEdge" where
  "flow_edge res rt =
     \<lparr>eg_EdgeId = rt_ID rt, eg_EndpointA = rt_FromPointID rt, eg_EndpointB = rt_ToPointID rt,
      eg_DirectionConstraint =
        (if rt_OneWay rt then DIRECTION_CONSTRAINT_ONEWAY_A_TO_B_PRIOR else DIRECTION_CONSTRAINT_BIDIRECTIONAL_PRIOR),
      eg_CurrentDirection = (if rt_OneWay rt then CURRENT_DIRECTION_A_TO_B else CURRENT_DIRECTION_BIDIRECTIONAL),
      eg_Enabled = True, eg_ObservationType = OBSERVATION_TYPE_VECTOR,
      eg_TimeResolutionS = res (GraphAnchor '''' (rt_ID rt)), eg_DangerFlag = False,
      eg_CapacityHint = rt_CapacityHint rt\<rparr>"

definition flowGraph :: "Graph \<Rightarrow> (GraphAnchor \<Rightarrow> int32) \<Rightarrow> FlowGraph \<times> string set \<times> string set" where
  "flowGraph graph res =
     (\<lparr>fg_Nodes = map (flow_node res) (gr_Points graph), fg_Edges = map (flow_edge res) (gr_Routes graph)\<rparr>,
      set (map gp_ID (gr_Points graph)), set (map rt_ID (gr_Routes graph)))"

subsection \<open>The observations\<close>

definition appendArcObservations :: "RouteScore \<Rightarrow> ConfidenceFlag \<Rightarrow> Observations \<Rightarrow> Observations" where
  "appendArcObservations score flag obs =
     (let obs = obs\<lparr>ob_ArcFlows := ob_ArcFlows obs @
            [\<lparr>af_EdgeId = rs_RouteID score, af_Direction = FLOW_DIRECTION_A_TO_B, af_FlowRate = rs_Forward score,
              af_ConfidenceFlag = flag\<rparr>,
             \<lparr>af_EdgeId = rs_RouteID score, af_Direction = FLOW_DIRECTION_B_TO_A, af_FlowRate = rs_Backward score,
              af_ConfidenceFlag = flag\<rparr>]\<rparr>
      in case rs_StagnationScore score of
           None \<Rightarrow> obs
         | Some stagnation \<Rightarrow> obs\<lparr>ob_ArcStagnations := ob_ArcStagnations obs @
             [\<lparr>ast_EdgeId = rs_RouteID score, ast_Stagnation = stagnation, ast_Derivation = STAGNATION_DERIVATION_BASIC,
               ast_SameSensorFlow = rs_SameSensorFlow score, ast_ConfidenceFlag = flag\<rparr>]\<rparr>)"

definition addRoute :: "string set \<Rightarrow> ConfidenceFlag \<Rightarrow> RouteScore \<Rightarrow> Observations \<Rightarrow> Observations" where
  "addRoute edgeIDs flag score obs =
     (if rs_RouteID score \<in> edgeIDs \<and> rs_Exhaustive score then appendArcObservations score flag obs else obs)"

definition addPoint :: "string set \<Rightarrow> ConfidenceFlag \<Rightarrow> PointScore \<Rightarrow> Observations \<Rightarrow> Observations" where
  "addPoint nodeIDs flag score obs =
     (if ps_PointID score \<in> nodeIDs \<and> ps_Exhaustive score then
        obs\<lparr>ob_NodeOccupancies := ob_NodeOccupancies obs @
          [\<lparr>no_NodeId = ps_PointID score, no_Occupancy = ps_PeopleScore score,
            no_OccupancyDelta = (if flag = CONFIDENCE_FLAG_HOLD then None else ps_OccupancyDelta score),
            no_SameSensorArrival = False, no_ConfidenceFlag = flag\<rparr>]\<rparr>
      else obs)"

definition invalid_route :: "string \<Rightarrow> RouteScore" where
  "invalid_route routeID =
     \<lparr>rs_RouteID = routeID, rs_Forward = f_zero, rs_Backward = f_zero, rs_ScalarFlow = None, rs_StagnationScore = None,
      rs_Exhaustive = True, rs_SameSensorFlow = False\<rparr>"

definition invalid_point :: "string \<Rightarrow> PointScore" where
  "invalid_point pointID =
     \<lparr>ps_PointID = pointID, ps_PeopleScore = None, ps_OccupancyDelta = None, ps_Exhaustive = True\<rparr>"

definition flowObservations :: "Snapshot \<Rightarrow> Gaps \<Rightarrow> string set \<Rightarrow> string set \<Rightarrow> Observations" where
  "flowObservations snapshot gaps nodeIDs edgeIDs =
     (let obs = \<lparr>ob_ObservedAt = sn_WindowEnd snapshot, ob_SnapshotRef = sn_ID snapshot, ob_ArcFlows = [],
            ob_ArcStagnations = [], ob_NodeOccupancies = []\<rparr>;
          obs = fold (addRoute edgeIDs CONFIDENCE_FLAG_OK) (sn_RouteScores snapshot) obs;
          obs = fold (addRoute edgeIDs CONFIDENCE_FLAG_HOLD) (ga_HeldRouteScores gaps) obs;
          obs = fold (\<lambda>routeID. addRoute edgeIDs CONFIDENCE_FLAG_INVALID (invalid_route routeID)) (ga_InvalidRouteIDs gaps) obs;
          obs = fold (addPoint nodeIDs CONFIDENCE_FLAG_OK) (sn_PointScores snapshot) obs;
          obs = fold (addPoint nodeIDs CONFIDENCE_FLAG_HOLD) (ga_HeldPointScores gaps) obs
      in fold (\<lambda>pointID. addPoint nodeIDs CONFIDENCE_FLAG_INVALID (invalid_point pointID)) (ga_InvalidPointIDs gaps) obs)"

subsection \<open>Events\<close>

definition flow_event :: "string set \<Rightarrow> string set \<Rightarrow> SensorSet \<Rightarrow> FlowEvent list" where
  "flow_event nodeIDs edgeIDs change =
     (let event = (\<lambda>target. \<lparr>fe_Kind = EVENT_KIND_SENSOR_SET_CHANGED, fe_TargetId = target, fe_OccurredAt = ss_ChangedAt change\<rparr>) in
      if ga_RouteID (ss_Anchor change) \<in> edgeIDs then [event (''edge:'' @ ga_RouteID (ss_Anchor change))]
      else if ga_PointID (ss_Anchor change) \<in> nodeIDs then [event (''node:'' @ ga_PointID (ss_Anchor change))]
      else [])"

definition flowEvents :: "SensorSet list \<Rightarrow> string set \<Rightarrow> string set \<Rightarrow> FlowEvent list" where
  "flowEvents changes nodeIDs edgeIDs = concat (map (flow_event nodeIDs edgeIDs) (sort_key ss_ChangedAt changes))"

subsection \<open>The digest of the history\<close>

definition arc_stat :: "ArcHistory \<Rightarrow> ArcHistoryStat" where
  "arc_stat arc =
     (let span = time_sub (ah_LastEnd arc) (ah_FirstStart arc);
          stat = \<lparr>hs_EdgeId = ah_RouteID arc, hs_P90Stagnation = None, hs_BaselineStagnation = None,
            hs_FlowSensitivityEta = None, hs_AvailableSpanHours = dur_hours span, hs_FlowP90 = None, hs_FreeFlowDwellMin = None\<rparr>;
          stat = (if minArcHistorySpan \<le> fd_Span (ah_FlowDwell arc)
            then stat\<lparr>hs_FlowP90 := Some (fd_FlowP90 (ah_FlowDwell arc)),
              hs_FreeFlowDwellMin := fd_FreeFlowDwellMin (ah_FlowDwell arc)\<rparr> else stat)
      in if minArcHistorySpan \<le> span then
           let stat = stat\<lparr>hs_P90Stagnation := Some (ah_P90Stagnation arc), hs_BaselineStagnation := Some (ah_MeanStagnation arc)\<rparr>
           in case FlowSensitivityEta arc of (slope, ok) \<Rightarrow>
                if ok then stat\<lparr>hs_FlowSensitivityEta := Some slope\<rparr> else stat
         else stat)"

fun add_sample :: "string \<Rightarrow> (ArcWindowSeries \<Rightarrow> ArcWindowSeries) \<Rightarrow> ArcWindowSeries list \<Rightarrow> ArcWindowSeries list" where
  "add_sample routeID f [] = [f \<lparr>ws_EdgeId = routeID, ws_FlowSamples = [], ws_StagnationSamples = []\<rparr>]"
| "add_sample routeID f (arc # series) =
     (if ws_EdgeId arc = routeID then f arc # series else arc # add_sample routeID f series)"

definition add_score :: "string set \<Rightarrow> time \<Rightarrow> RouteScore \<Rightarrow> ArcWindowSeries list \<Rightarrow> ArcWindowSeries list" where
  "add_score edgeIDs t score series =
     (if rs_RouteID score \<notin> edgeIDs \<or> \<not> rs_Exhaustive score then series
      else add_sample (rs_RouteID score)
        (\<lambda>arc.
          let arc = arc\<lparr>ws_FlowSamples := ws_FlowSamples arc @ [\<lparr>tv_At = t, tv_Value = fadd (rs_Forward score) (rs_Backward score)\<rparr>]\<rparr>
          in case rs_StagnationScore score of
               None \<Rightarrow> arc
             | Some stagnation \<Rightarrow> arc\<lparr>ws_StagnationSamples := ws_StagnationSamples arc @ [\<lparr>tv_At = t, tv_Value = stagnation\<rparr>]\<rparr>)
        series)"

definition flowHistoryDigest :: "Snapshot list \<Rightarrow> ArcHistory list \<Rightarrow> string set \<Rightarrow> HistoryDigest" where
  "flowHistoryDigest history arcHistory edgeIDs =
     (let stats = map arc_stat (filter (\<lambda>arc. ah_RouteID arc \<in> edgeIDs) arcHistory);
          established = length (filter (\<lambda>stat. hs_P90Stagnation stat \<noteq> None) stats)
      in \<lparr>hd_ArcStats = stats,
          hd_WindowSeries = fold (\<lambda>snapshot. fold (add_score edgeIDs (sn_WindowEnd snapshot)) (sn_RouteScores snapshot)) history [],
          hd_Completeness = (if 0 < card edgeIDs then fdiv (f_of_int (int established)) (f_of_int (int (card edgeIDs))) else f_zero)\<rparr>)"

subsection \<open>The request\<close>

definition flowEventTerm :: "EventType \<Rightarrow> EventTerm" where
  "flowEventTerm eventType = (if eventType = EventTypeLongTerm then EVENT_TERM_LONG else EVENT_TERM_SHORT)"

definition defaultFlowConfig :: ResolvedConfig where
  "defaultFlowConfig =
     \<lparr>cf_SurgeRateThresholdPercentPerMin = f_of_int 5, cf_HighStagnationDurationMin = f_of_int 5, cf_Beta = f_of_int 1,
      cf_MinWindowSamples = 5, cf_CooldownDurationMin = f_of_int 60, cf_WarmupDurationMin = f_of_int 60,
      cf_RetriggerWarningThreshold = 3, cf_RetriggerResetQuietCycles = 3, cf_QueueScoreThreshold = f_of_int 80,
      cf_QueueDiversityThreshold = 3, cf_OptimizationMode = OPTIMIZATION_MODE_LIGHTWEIGHT, cf_LocalRadiusHops = 2,
      cf_MaxTriggerZones = 4, cf_GreedyImproveMargin = f_of_rat (1 / 20), cf_RestrictionProposalEnabled = False,
      cf_PunctureTriggerEnabled = False, cf_ForecastingBudgetSec = f_of_int 30, cf_DetourBudgetSec = f_of_int 30,
      cf_LightweightOptBudgetSec = f_of_int 120, cf_MilpTimeLimitSec = f_of_int 600, cf_MaxConsecutiveSkips = 3,
      cf_SolverSeed = 0, cf_Epsilon = f_of_rat (1 / 1000), cf_Epsilon_0 = f_of_rat (1 / 1000000), cf_BigMFactor = f_of_int 1,
      cf_ConfidenceWeightFloor = f_of_rat (1 / 2), cf_MipRelGap = f_of_int 0, cf_GravityAlpha = f_of_int 1, cf_IpfMaxIter = 50,
      cf_IpfTolerance = f_of_rat (1 / 1000000), cf_MinReferenceSampleCount = 5, cf_KShortestPaths = 3,
      cf_FallbackEta = f_of_rat (1 / 4), cf_ScalarDirectionEnabled = False, cf_KShortestPathsAuto = False,
      cf_KShortestPathsMax = 3, cf_PhaseFeedbackEnabled = False, cf_PhaseFeedbackCandidates = 0,
      cf_FullWeightHours = f_of_int 0, cf_EtaMixingRatio = f_of_int 0,
      cf_ThroughputWeights = (f_of_int 1, f_of_int 1, f_of_int 1), cf_TwoStageOptimization = False, cf_BackoffEnabled = False,
      cf_ImprovementThreshold = f_of_int 0, cf_BackoffMaxFactor = 1, cf_DeltaObjectiveEnabled = False,
      cf_NodeDetourEnabled = False, cf_MilpBoundaryControlEnabled = False, cf_ScheduledInflowPriorEnabled = False,
      cf_LogTenantId = False, cf_DeltaMinFraction = f_of_rat (1 / 100), cf_StaleObservationResolutions = f_of_int 2,
      cf_StaleObservationFloorS = f_of_int 60, cf_PunctureDwellRatioThreshold = f_of_rat (3 / 2)\<rparr>"

definition decode_previous ::
  "'ds ProtoJson \<Rightarrow> OptimizationOutcome option \<Rightarrow> err + ('ds \<times> OptimizationResult option)" where
  "decode_previous pj previous =
     (case previous of
        None \<Rightarrow> Inr (pj_new_state pj, None)
      | Some p \<Rightarrow>
          (case pj_decode_state_stored pj (case oo_DetectionState p of None \<Rightarrow> [] | Some text \<Rightarrow> text) of
             Inl err \<Rightarrow> Inl (Wrap ''decode previous detection state'' err)
           | Inr state \<Rightarrow>
               (case oo_OptimizationResult p of
                  None \<Rightarrow> Inr (state, None)
                | Some text \<Rightarrow>
                    (case pj_decode_result_stored pj text of
                       Inl err \<Rightarrow> Inl (Wrap ''decode previous optimization result'' err)
                     | Inr result \<Rightarrow> Inr (state, Some result)))))"

text \<open>The request, but for \<open>References\<close>: the code sends that message without any field set.\<close>

definition request_of ::
  "OptimizeInput \<Rightarrow> 'ds \<Rightarrow> OptimizationResult option \<Rightarrow> string \<Rightarrow> 'ds OptimizeRequest" where
  "request_of input state previousResult requestID =
     (let snapshot = oi_Snapshot input;
          (graph, nodes, edges) = flowGraph (oi_Graph input) (resolution snapshot)
      in \<lparr>orq_RequestId = requestID, orq_SchemaVersion = flowRequestSchemaVersion, orq_EventId = sn_EventID snapshot,
          orq_TenantId = oi_TenantPublicID input, orq_Term = flowEventTerm (oi_EventType input),
          orq_AvailableHistoryHours = dur_hours (oi_AvailableHistory input), orq_Graph = graph,
          orq_Observations = flowObservations snapshot (oi_Gaps input) nodes edges,
          orq_HistoryDigest = flowHistoryDigest (oi_History input) (oi_ArcHistory input) edges,
          orq_DetectionState = state, orq_PreviousResult = previousResult,
          orq_Events = flowEvents (oi_SensorSetChanges input) nodes edges, orq_Config = defaultFlowConfig,
          orq_ServerTime = oi_ServerTime input\<rparr>)"

definition newOptimizeRequest :: "'ds ProtoJson \<Rightarrow> OptimizeInput \<Rightarrow> ('x, 'ds OptimizeRequest) action" where
  "newOptimizeRequest pj input =
     bindE (liftE (decode_previous pj (oi_Previous input))) (\<lambda>(state, previousResult).
     bindE (draw rand_text) (\<lambda>requestID. returnE (request_of input state previousResult requestID)))"

subsection \<open>The call\<close>

type_synonym ('x, 'ds) FlowControlServiceClient = "CallInfo \<Rightarrow> 'ds OptimizeRequest \<Rightarrow> ('x, 'ds OptimizeResponse) rpc"

definition encode_part :: "string \<Rightarrow> ('m \<Rightarrow> err + byte list) \<Rightarrow> 'm option \<Rightarrow> err + byte list option" where
  "encode_part text encode part =
     (case part of
        None \<Rightarrow> Inr None
      | Some m \<Rightarrow> (case encode m of Inl err \<Rightarrow> Inl (Wrap text err) | Inr json \<Rightarrow> Inr (Some json)))"

definition outcome_of_response :: "'ds ProtoJson \<Rightarrow> OptimizeInput \<Rightarrow> 'ds OptimizeResponse \<Rightarrow> err + OptimizationOutcome" where
  "outcome_of_response pj input res =
     (case pj_encode_state pj (ors_UpdatedDetectionState res) of
        Inl err \<Rightarrow> Inl (Wrap ''encode detection state'' err)
      | Inr state \<Rightarrow>
          bindS (encode_part ''encode optimization result'' (pj_encode_result pj) (ors_OptimizationResult res)) (\<lambda>result.
          bindS (encode_part ''encode diagnostics'' (pj_encode_diagnostics pj) (ors_Diagnostics res)) (\<lambda>diagnostics.
          bindS (encode_part ''encode feedback values'' (pj_encode_feedback pj) (ors_FeedbackValues res)) (\<lambda>feedback.
          Inr \<lparr>oo_SnapshotID = sn_ID (oi_Snapshot input), oo_ServerTime = oi_ServerTime input, oo_Verdict = ors_Verdict res,
            oo_DetectionState = Some state, oo_OptimizationResult = result, oo_FeedbackValues = feedback,
            oo_Diagnostics = diagnostics\<rparr>))))"

definition Optimize ::
  "'ds ProtoJson \<Rightarrow> ('x, 'ds) FlowControlServiceClient \<Rightarrow> Ctx \<Rightarrow> OptimizeInput \<Rightarrow> ('x, OptimizationOutcome) action" where
  "Optimize pj client ctx input =
     bindE (newOptimizeRequest pj input) (\<lambda>req.
     bindE (wrapE (Wrap ''call Optimize'')
       (remote (client \<lparr>ci_Authorization = None, ci_Deadline = ctx_deadline ctx\<rparr> req))) (\<lambda>res.
     liftE (outcome_of_response pj input res)))"

definition NewFlowControlClient :: "'ds ProtoJson \<Rightarrow> ('x, 'ds) FlowControlServiceClient \<Rightarrow> 'x FlowControl" where
  "NewFlowControlClient pj client = \<lparr>fc_Optimize = Optimize pj client\<rparr>"

lemma reader_flow: "reader (fc_Optimize (NewFlowControlClient pj client) ctx input)"
  by (auto simp: NewFlowControlClient_def Optimize_def newOptimizeRequest_def intro!: relates_rules)

end
