(* ===== verification/OperationClient.thy ===== *)
theory OperationClient
  imports FlowMessages GraphClient
begin

section \<open>infra/connect/operation\_client.go: passing the outcome on to the operation service\<close>

text \<open>
  The proposals of an optimization result, and the feedback values, in the vocabulary of the operation service, whose messages are
  generated from a repository that is not under src: the records hold the fields the client fills. Its translation tables are Go
  maps; looking up a number a table does not have yields the zero value, the enumeration's \<open>UNSPECIFIED\<close>.
\<close>

datatype RouteDirection =
  ROUTE_DIRECTION_UNSPECIFIED | ROUTE_DIRECTION_FORWARD | ROUTE_DIRECTION_BACKWARD | ROUTE_DIRECTION_BOTH_WAYS

datatype DirectionChange =
    DIRECTION_CHANGE_UNSPECIFIED | DIRECTION_CHANGE_CONVERT_ONE_WAY | DIRECTION_CHANGE_RELEASE_ONE_WAY
  | DIRECTION_CHANGE_FLIP_ONE_WAY | DIRECTION_CHANGE_KEEP

datatype OperationRestrictionAction =
    OPERATION_RESTRICTION_ACTION_UNSPECIFIED | OPERATION_RESTRICTION_ACTION_CLOSE | OPERATION_RESTRICTION_ACTION_LIMIT
  | OPERATION_RESTRICTION_ACTION_RESUME

datatype OperationRestrictionReason =
    OPERATION_RESTRICTION_REASON_UNSPECIFIED | OPERATION_RESTRICTION_REASON_UNDRAINABLE_STAGNATION
  | OPERATION_RESTRICTION_REASON_RESIDUAL_STAGNATION | OPERATION_RESTRICTION_REASON_PUNCTURE
  | OPERATION_RESTRICTION_REASON_DANGER_UPSTREAM | OPERATION_RESTRICTION_REASON_OVERLOAD

datatype OperationBoundaryAction =
    OPERATION_BOUNDARY_ACTION_UNSPECIFIED | OPERATION_BOUNDARY_ACTION_PAUSE_INGRESS
  | OPERATION_BOUNDARY_ACTION_PAUSE_EGRESS | OPERATION_BOUNDARY_ACTION_RESUME

record OperationRouteImportance =
  opi_RouteId :: string
  opi_Direction :: "RouteDirection option"
  opi_Importance :: f64

record OperationDirectionProposal =
  opd_RouteId :: string
  opd_ProposedDirection :: RouteDirection
  opd_Change :: DirectionChange
  opd_Confidence :: f64

record OperationRestrictionProposal =
  opr_RouteId :: string
  opr_Action :: OperationRestrictionAction
  opr_LimitValue :: "f64 option"
  opr_LimitRatio :: "f64 option"
  opr_Reason :: OperationRestrictionReason
  opr_Confidence :: f64

record OperationDetourProposal =
  opt_OriginRouteId :: string
  opt_RouteIds :: "string list"
  opt_Confidence :: f64

record BoundaryControlProposal =
  opb_PointId :: string
  opb_Action :: OperationBoundaryAction

record FlowProposals =
  fp_RouteImportances :: "OperationRouteImportance list"
  fp_DirectionProposals :: "OperationDirectionProposal list"
  fp_RestrictionProposals :: "OperationRestrictionProposal list"
  fp_DetourProposals :: "OperationDetourProposal list"
  fp_BoundaryControls :: "BoundaryControlProposal list"
  fp_SolvedAt :: "time option"

record FeedbackEntry =
  fn_AttributeTag :: string
  fn_Kind :: string
  fn_Value :: f64

record OperationFeedbackValues =
  fx_Entries :: "FeedbackEntry list"
  fx_ComputedAt :: time

record 'x DeliveryCoordinationServiceClient =
  dc_RequestProposalDelivery :: "CallInfo \<Rightarrow> string \<Rightarrow> FlowProposals \<Rightarrow> string \<Rightarrow> ('x, unit) rpc"
  dc_RecordFeedbackValues :: "CallInfo \<Rightarrow> string \<Rightarrow> OperationFeedbackValues \<Rightarrow> string \<Rightarrow> ('x, unit) rpc"

subsection \<open>The translation tables\<close>

fun operationImportanceDirection :: "ImportanceDirection \<Rightarrow> RouteDirection option" where
  "operationImportanceDirection IMPORTANCE_DIRECTION_NONE = None"
| "operationImportanceDirection IMPORTANCE_DIRECTION_UNSPECIFIED = Some ROUTE_DIRECTION_UNSPECIFIED"
| "operationImportanceDirection IMPORTANCE_DIRECTION_A_TO_B = Some ROUTE_DIRECTION_FORWARD"
| "operationImportanceDirection IMPORTANCE_DIRECTION_B_TO_A = Some ROUTE_DIRECTION_BACKWARD"
| "operationImportanceDirection (ImportanceDirectionOther n) = Some ROUTE_DIRECTION_UNSPECIFIED"

fun operationProposedDirections :: "ProposedDirection \<Rightarrow> RouteDirection" where
  "operationProposedDirections PROPOSED_DIRECTION_UNSPECIFIED = ROUTE_DIRECTION_UNSPECIFIED"
| "operationProposedDirections PROPOSED_DIRECTION_A_TO_B = ROUTE_DIRECTION_FORWARD"
| "operationProposedDirections PROPOSED_DIRECTION_B_TO_A = ROUTE_DIRECTION_BACKWARD"
| "operationProposedDirections PROPOSED_DIRECTION_BIDIRECTIONAL = ROUTE_DIRECTION_BOTH_WAYS"
| "operationProposedDirections (ProposedDirectionOther n) = ROUTE_DIRECTION_UNSPECIFIED"

fun operationDirectionChanges :: "DirectionChangeType \<Rightarrow> DirectionChange" where
  "operationDirectionChanges DIRECTION_CHANGE_TYPE_UNSPECIFIED = DIRECTION_CHANGE_UNSPECIFIED"
| "operationDirectionChanges DIRECTION_CHANGE_TYPE_CONVERT_ONEWAY = DIRECTION_CHANGE_CONVERT_ONE_WAY"
| "operationDirectionChanges DIRECTION_CHANGE_TYPE_RELEASE_ONEWAY = DIRECTION_CHANGE_RELEASE_ONE_WAY"
| "operationDirectionChanges DIRECTION_CHANGE_TYPE_FLIP_ONEWAY = DIRECTION_CHANGE_FLIP_ONE_WAY"
| "operationDirectionChanges DIRECTION_CHANGE_TYPE_KEEP = DIRECTION_CHANGE_KEEP"
| "operationDirectionChanges (DirectionChangeTypeOther n) = DIRECTION_CHANGE_UNSPECIFIED"

fun operationRestrictionActions :: "RestrictionAction \<Rightarrow> OperationRestrictionAction" where
  "operationRestrictionActions RESTRICTION_ACTION_UNSPECIFIED = OPERATION_RESTRICTION_ACTION_UNSPECIFIED"
| "operationRestrictionActions RESTRICTION_ACTION_CLOSE = OPERATION_RESTRICTION_ACTION_CLOSE"
| "operationRestrictionActions RESTRICTION_ACTION_LIMIT = OPERATION_RESTRICTION_ACTION_LIMIT"
| "operationRestrictionActions RESTRICTION_ACTION_RESUME = OPERATION_RESTRICTION_ACTION_RESUME"
| "operationRestrictionActions (RestrictionActionOther n) = OPERATION_RESTRICTION_ACTION_UNSPECIFIED"

fun operationRestrictionReasons :: "RestrictionReason \<Rightarrow> OperationRestrictionReason" where
  "operationRestrictionReasons RESTRICTION_REASON_UNSPECIFIED = OPERATION_RESTRICTION_REASON_UNSPECIFIED"
| "operationRestrictionReasons RESTRICTION_REASON_UNDRAINABLE_STAGNATION = OPERATION_RESTRICTION_REASON_UNDRAINABLE_STAGNATION"
| "operationRestrictionReasons RESTRICTION_REASON_RESIDUAL_TAU = OPERATION_RESTRICTION_REASON_RESIDUAL_STAGNATION"
| "operationRestrictionReasons RESTRICTION_REASON_PUNCTURE = OPERATION_RESTRICTION_REASON_PUNCTURE"
| "operationRestrictionReasons RESTRICTION_REASON_NODE_DANGER_UPSTREAM = OPERATION_RESTRICTION_REASON_DANGER_UPSTREAM"
| "operationRestrictionReasons RESTRICTION_REASON_OVERLOAD = OPERATION_RESTRICTION_REASON_OVERLOAD"
| "operationRestrictionReasons (RestrictionReasonOther n) = OPERATION_RESTRICTION_REASON_UNSPECIFIED"

fun operationBoundaryActions :: "BoundaryAction \<Rightarrow> OperationBoundaryAction" where
  "operationBoundaryActions BOUNDARY_ACTION_UNSPECIFIED = OPERATION_BOUNDARY_ACTION_UNSPECIFIED"
| "operationBoundaryActions BOUNDARY_ACTION_PAUSE_INGRESS = OPERATION_BOUNDARY_ACTION_PAUSE_INGRESS"
| "operationBoundaryActions BOUNDARY_ACTION_PAUSE_EGRESS = OPERATION_BOUNDARY_ACTION_PAUSE_EGRESS"
| "operationBoundaryActions BOUNDARY_ACTION_RESUME = OPERATION_BOUNDARY_ACTION_RESUME"
| "operationBoundaryActions (BoundaryActionOther n) = OPERATION_BOUNDARY_ACTION_UNSPECIFIED"

subsection \<open>The messages\<close>

definition operationFlowProposals :: "OptimizationResult \<Rightarrow> FlowProposals \<times> bool" where
  "operationFlowProposals result =
     (let proposals =
        \<lparr>fp_RouteImportances = map (\<lambda>i. \<lparr>opi_RouteId = ri_EdgeId i, opi_Direction = operationImportanceDirection (ri_Direction i),
            opi_Importance = ri_Importance i\<rparr>) (or_RouteImportance result),
         fp_DirectionProposals = map (\<lambda>p. \<lparr>opd_RouteId = dp_EdgeId p,
            opd_ProposedDirection = operationProposedDirections (dp_ProposedDirection p),
            opd_Change = operationDirectionChanges (dp_ChangeType p), opd_Confidence = dp_Confidence p\<rparr>) (or_DirectionProposal result),
         fp_RestrictionProposals = map (\<lambda>p. \<lparr>opr_RouteId = rp_EdgeId p, opr_Action = operationRestrictionActions (rp_Action p),
            opr_LimitValue = rp_LimitValue p, opr_LimitRatio = rp_LimitRatio p,
            opr_Reason = operationRestrictionReasons (rp_Reason p), opr_Confidence = rp_Confidence p\<rparr>) (or_RestrictionProposal result),
         fp_DetourProposals = map (\<lambda>d. \<lparr>opt_OriginRouteId = dt_OriginEdgeId d, opt_RouteIds = dt_EdgeIds d,
            opt_Confidence = dt_Confidence d\<rparr>) (or_DetourPaths result),
         fp_BoundaryControls = map (\<lambda>c. \<lparr>opb_PointId = bc_NodeId c, opb_Action = operationBoundaryActions (bc_Action c)\<rparr>)
            (or_BoundaryControl result),
         fp_SolvedAt = or_SolvedAt result\<rparr>
      in (proposals, \<not> (fp_RouteImportances proposals = [] \<and> fp_DirectionProposals proposals = [] \<and>
            fp_RestrictionProposals proposals = [] \<and> fp_DetourProposals proposals = [] \<and> fp_BoundaryControls proposals = [])))"

definition operationFeedbackValues :: "FeedbackValues \<Rightarrow> time \<Rightarrow> OperationFeedbackValues" where
  "operationFeedbackValues values computedAt =
     (let objective = (case fv_ObjectiveValues values of
            None \<Rightarrow> []
          | Some o' \<Rightarrow> \<lparr>fn_AttributeTag = '''', fn_Kind = ''tau_star'', fn_Value = fo_TauStar o'\<rparr> #
              (case fo_Throughput o' of None \<Rightarrow> []
               | Some t \<Rightarrow> [\<lparr>fn_AttributeTag = '''', fn_Kind = ''throughput'', fn_Value = t\<rparr>]))
      in \<lparr>fx_Entries = objective @ map (\<lambda>t. \<lparr>fn_AttributeTag = ta_AttributeTag t, fn_Kind = ''eta_estimate'',
            fn_Value = ta_EtaEstimate t\<rparr>) (fv_PerTagObservations values),
          fx_ComputedAt = computedAt\<rparr>)"

subsection \<open>The calls\<close>

definition RequestProposalDelivery ::
  "'ds ProtoJson \<Rightarrow> 'x DeliveryCoordinationServiceClient \<Rightarrow> Ctx \<Rightarrow> string \<Rightarrow> string \<Rightarrow> OptimizationOutcome \<Rightarrow> ('x, unit) action" where
  "RequestProposalDelivery pj c ctx tenantPublicID eventID outcome =
     (case oo_OptimizationResult outcome of
        None \<Rightarrow> returnE ()
      | Some json \<Rightarrow>
          bindE (wrapE (Wrap ''decode optimization result'') (liftE (pj_decode_result pj json))) (\<lambda>result.
          let (proposals, ok) = operationFlowProposals result in
          if \<not> ok then returnE ()
          else wrapE (Wrap ''call RequestProposalDelivery'')
            (remote (dc_RequestProposalDelivery c (forwarded_call ctx) eventID proposals tenantPublicID))))"

definition RecordFeedbackValues ::
  "'ds ProtoJson \<Rightarrow> 'x DeliveryCoordinationServiceClient \<Rightarrow> Ctx \<Rightarrow> string \<Rightarrow> string \<Rightarrow> OptimizationOutcome \<Rightarrow> ('x, unit) action" where
  "RecordFeedbackValues pj c ctx tenantPublicID eventID outcome =
     (case oo_FeedbackValues outcome of
        None \<Rightarrow> returnE ()
      | Some json \<Rightarrow>
          bindE (wrapE (Wrap ''decode feedback values'') (liftE (pj_decode_feedback pj json))) (\<lambda>values.
          wrapE (Wrap ''call RecordFeedbackValues'')
            (remote (dc_RecordFeedbackValues c (forwarded_call ctx) eventID
              (operationFeedbackValues values (oo_ServerTime outcome)) tenantPublicID))))"

definition NewOperationClient :: "'ds ProtoJson \<Rightarrow> 'x DeliveryCoordinationServiceClient \<Rightarrow> 'x Operation" where
  "NewOperationClient pj c =
     \<lparr>on_RequestProposalDelivery = RequestProposalDelivery pj c, on_RecordFeedbackValues = RecordFeedbackValues pj c\<rparr>"

lemma reader_operation:
  "reader (on_RequestProposalDelivery (NewOperationClient pj c) ctx t e outcome)"
  "reader (on_RecordFeedbackValues (NewOperationClient pj c) ctx t e outcome)"
  by (auto simp: NewOperationClient_def RequestProposalDelivery_def RecordFeedbackValues_def split: prod.split
      intro!: relates_rules)

end
