(* ===== verification/Server.thy ===== *)
theory Server
  imports ConnectService FlowClient OperationClient
begin

section \<open>cmd/server/main.go: the service as it is wired\<close>

text \<open>
  Everything that is not under src but that the service calls is gathered in \<open>Externals\<close>: what PostgreSQL does to a time, to a
  string it sorts, to a float it buckets and to a JSON text; the remote services; \<open>protojson\<close> and \<open>proto.Marshal\<close>; the message
  publisher; and the scheduler. \<open>ServerConfig\<close> is what \<open>run\<close> reads from the environment. The use cases on top
  of them are built the way \<open>run\<close> builds them. Reading the environment is modelled for the heartbeat loss hold policy, the part that
  validates.
\<close>

record ('x, 'ds) Externals =
  xt_timestamptz :: "time \<Rightarrow> time"
  xt_ln_pow :: "f64 \<Rightarrow> err + f64"
  xt_collate :: "string \<Rightarrow> string"
  xt_jsonb_text :: "byte list \<Rightarrow> byte list option"
  xt_code_of :: "err \<Rightarrow> Code"
  xt_graph :: "'x GraphSupplyServiceClient"
  xt_protojson :: "'ds ProtoJson"
  xt_flow :: "('x, 'ds) FlowControlServiceClient"
  xt_delivery :: "'x DeliveryCoordinationServiceClient"
  xt_marshal :: "GuestStatusMessage \<Rightarrow> err + byte list"
  xt_publish :: "'x Publisher"
  xt_schedule :: "'x world \<Rightarrow> bool"

record ServerConfig =
  sf_HeartbeatTimeout :: duration
  sf_HoldPolicy :: HeartbeatLossHoldPolicy
  sf_Cycle :: ObservationCycleConfig

definition server_holds :: "('x, 'ds) Externals \<Rightarrow> ServerConfig \<Rightarrow> 'x HeartbeatLossHolds" where
  "server_holds x cfg = NewHeartbeatLossHolds (NewPostgresHeartbeatLossHoldRepository (xt_timestamptz x)) (sf_HoldPolicy cfg)"

definition server_snapshots :: "('x, 'ds) Externals \<Rightarrow> 'x SnapshotRepository" where
  "server_snapshots x =
     NewPostgresSnapshotRepository (xt_timestamptz x) (xt_ln_pow x) (xt_collate x) (xt_jsonb_text x)"

definition server_graphs :: "('x, 'ds) Externals \<Rightarrow> 'x GraphSupply" where
  "server_graphs x = NewGraphSupplyClient (xt_code_of x) (xt_graph x)"

definition server_cycle :: "('x, 'ds) Externals \<Rightarrow> ServerConfig \<Rightarrow> ('x, unit) ObservationCycle" where
  "server_cycle x cfg =
     NewObservationCycle (server_graphs x) (NewFlowControlClient (xt_protojson x) (xt_flow x))
       (NewOperationClient (xt_protojson x) (xt_delivery x)) (NewPostgresEdgeDeviceRepository (xt_timestamptz x))
       (server_holds x cfg) (NewPostgresMeasurementRepository (xt_timestamptz x)) (server_snapshots x)
       NewPostgresObservationSettingsRepository (NewPostgresGuestStatusRepository (xt_timestamptz x))
       (NewGuestStatusPublisher (xt_marshal x) (xt_publish x)) (sf_Cycle cfg) (xt_schedule x)"

definition server_measurements :: "('x, 'ds) Externals \<Rightarrow> ServerConfig \<Rightarrow> ('x, unit) MeasurementIngestService" where
  "server_measurements x cfg =
     NewMeasurementIngestService (NewPostgresEdgeDeviceRepository (xt_timestamptz x))
       (NewPostgresMeasurementRepository (xt_timestamptz x)) (server_graphs x) (Run (server_cycle x cfg))"

definition server_status :: "('x, 'ds) Externals \<Rightarrow> 'x StatusQueryService" where
  "server_status x =
     NewStatusQueryService (server_snapshots x) (NewPostgresGuestStatusRepository (xt_timestamptz x))"

definition server_edge_devices :: "('x, 'ds) Externals \<Rightarrow> ServerConfig \<Rightarrow> ('x, 'r) EdgeDeviceService" where
  "server_edge_devices x cfg =
     NewEdgeDeviceService (NewPostgresEdgeDeviceRepository (xt_timestamptz x)) (server_holds x cfg) (sf_HeartbeatTimeout cfg)"

text \<open>The services as the transport sees them.\<close>

definition edge_device_use_cases :: "('x, 'ds) Externals \<Rightarrow> ServerConfig \<Rightarrow> 'x EdgeDeviceUseCases" where
  "edge_device_use_cases x cfg =
     \<lparr>ec_RegisterEdgeDevice = RegisterEdgeDevice (server_edge_devices x cfg),
      ec_UnregisterEdgeDevice = UnregisterEdgeDevice (server_edge_devices x cfg),
      ec_ListEdgeDevices = ListEdgeDevices (server_edge_devices x cfg :: ('x, unit) EdgeDeviceService),
      ec_ListEdgeDeviceObservationPoints =
        ListEdgeDeviceObservationPoints (server_edge_devices x cfg :: ('x, unit) EdgeDeviceService),
      ec_Heartbeat = HeartbeatUseCase (server_edge_devices x cfg :: ('x, unit) EdgeDeviceService),
      ec_UpdateObservationPointConfig = UpdateObservationPointConfig (server_edge_devices x cfg)\<rparr>"

definition status_query_use_cases :: "('x, 'ds) Externals \<Rightarrow> 'x StatusQueryUseCases" where
  "status_query_use_cases x =
     \<lparr>sc_GetEventOverview = GetEventOverview (server_status x), sc_GetGuestSnapshot = GetGuestSnapshot (server_status x)\<rparr>"

definition settings_use_cases :: "'x ObservationSettingsUseCases" where
  "settings_use_cases =
     \<lparr>oc_GetObservationSettings = GetObservationSettings NewPostgresObservationSettingsRepository,
      oc_UpdateObservationSettings = UpdateObservationSettings NewPostgresObservationSettingsRepository\<rparr>"

subsection \<open>The environment\<close>

type_synonym environment = "string \<Rightarrow> string"

definition getenv :: "environment \<Rightarrow> string \<Rightarrow> string \<Rightarrow> string" where
  "getenv env key fallback = (if env key \<noteq> '''' then env key else fallback)"

text \<open>
  The parsers of the standard library are parameters here (\<open>strconv.ParseFloat\<close>, \<open>strconv.Atoi\<close>, \<open>time.ParseDuration\<close>), with the
  texts of the defaults; what the code checks of their results is not.
\<close>

record Parsers =
  ps_ParseFloat :: "string \<Rightarrow> err + f64"
  ps_Atoi :: "string \<Rightarrow> err + int"
  ps_ParseDuration :: "string \<Rightarrow> err + duration"

definition defaultHoldThreshold :: string where "defaultHoldThreshold = ''0.8''"
definition defaultHoldMinDevices :: string where "defaultHoldMinDevices = ''10''"
definition defaultHoldMaxDuration :: string where "defaultHoldMaxDuration = ''5m0s''"

definition heartbeatLossHoldPolicy :: "Parsers \<Rightarrow> environment \<Rightarrow> duration \<Rightarrow> err + HeartbeatLossHoldPolicy" where
  "heartbeatLossHoldPolicy p env heartbeatTimeout =
     (case ps_ParseFloat p (getenv env ''HEARTBEAT_LOSS_HOLD_THRESHOLD'' defaultHoldThreshold) of
        Inl err \<Rightarrow> Inl (Wrap ''read HEARTBEAT_LOSS_HOLD_THRESHOLD'' err)
      | Inr threshold \<Rightarrow>
          if fle threshold f_zero \<or> flt (f_of_int 1) threshold
          then Inl (OtherError ''HEARTBEAT_LOSS_HOLD_THRESHOLD must be in (0, 1]'')
          else
            (case ps_Atoi p (getenv env ''HEARTBEAT_LOSS_HOLD_MIN_DEVICES'' defaultHoldMinDevices) of
               Inl err \<Rightarrow> Inl (Wrap ''read HEARTBEAT_LOSS_HOLD_MIN_DEVICES'' err)
             | Inr minDevices \<Rightarrow>
                 if minDevices < 1 then Inl (OtherError ''HEARTBEAT_LOSS_HOLD_MIN_DEVICES must be positive'')
                 else
                   (case ps_ParseDuration p (getenv env ''HEARTBEAT_LOSS_HOLD_MAX_DURATION'' defaultHoldMaxDuration) of
                      Inl err \<Rightarrow> Inl (Wrap ''read HEARTBEAT_LOSS_HOLD_MAX_DURATION'' err)
                    | Inr maxDuration \<Rightarrow>
                        if maxDuration \<le> 0 then Inl (OtherError ''HEARTBEAT_LOSS_HOLD_MAX_DURATION must be positive'')
                        else Inr \<lparr>hp_HeartbeatTimeout = heartbeatTimeout, hp_Threshold = threshold,
                          hp_MinDevices = minDevices, hp_MaxDuration = maxDuration\<rparr>)))"

subsection \<open>The settings of the process\<close>

text \<open>
  What \<open>run\<close> reads before it opens anything, in the order it reads it; the first setting that is missing or that does not parse
  stops the service. \<open>newGuestStatusPublisher\<close> picks the broker.
\<close>

record JWTSettings =
  jw_JWKSURL :: string
  jw_Issuer :: string
  jw_Audience :: string

definition DefaultJWTSettings :: JWTSettings where
  "DefaultJWTSettings =
     \<lparr>jw_JWKSURL = ''http://gateway:8080/.well-known/jwks.json'', jw_Issuer = ''service-gateway'',
      jw_Audience = ''tolo-observation''\<rparr>"

definition jwt_settings :: "environment \<Rightarrow> JWTSettings" where
  "jwt_settings env =
     \<lparr>jw_JWKSURL = getenv env ''INTERNAL_JWKS_URL'' (jw_JWKSURL DefaultJWTSettings),
      jw_Issuer = getenv env ''INTERNAL_JWT_ISSUER'' (jw_Issuer DefaultJWTSettings),
      jw_Audience = getenv env ''INTERNAL_JWT_AUDIENCE'' (jw_Audience DefaultJWTSettings)\<rparr>"

record Settings =
  sv_Addr :: string
  sv_JWT :: JWTSettings
  sv_DatabaseURL :: string
  sv_GraphAuthoringURL :: string
  sv_FlowControlURL :: string
  sv_OperationURL :: string
  sv_Config :: ServerConfig

definition defaultAddr :: string where "defaultAddr = '':8080''"
definition defaultHeartbeatTimeout :: string where "defaultHeartbeatTimeout = ''30s''"
definition defaultObservationWindow :: string where "defaultObservationWindow = ''1m0s''"
definition defaultOptimizeTimeout :: string where "defaultOptimizeTimeout = ''30s''"
definition defaultOperationTimeout :: string where "defaultOperationTimeout = ''5s''"
definition defaultStreamMaxAge :: string where "defaultStreamMaxAge = ''24h0m0s''"

definition required :: "environment \<Rightarrow> string \<Rightarrow> err + string" where
  "required env key = (if env key = '''' then Inl (OtherError (key @ '' is required'')) else Inr (env key))"

definition duration_setting :: "Parsers \<Rightarrow> environment \<Rightarrow> string \<Rightarrow> string \<Rightarrow> err + duration" where
  "duration_setting p env key fallback =
     (case ps_ParseDuration p (getenv env key fallback) of
        Inl err \<Rightarrow> Inl (Wrap (''read '' @ key) err)
      | Inr d \<Rightarrow> Inr d)"

definition run_settings :: "Parsers \<Rightarrow> environment \<Rightarrow> err + Settings" where
  "run_settings p env =
     bindS (required env ''DATABASE_URL'') (\<lambda>databaseURL.
     bindS (duration_setting p env ''HEARTBEAT_TIMEOUT'' defaultHeartbeatTimeout) (\<lambda>heartbeatTimeout.
     bindS (required env ''GRAPH_AUTHORING_URL'') (\<lambda>graphAuthoringURL.
     bindS (required env ''FLOW_CONTROL_URL'') (\<lambda>flowControlURL.
     bindS (required env ''OPERATION_URL'') (\<lambda>operationURL.
     bindS (duration_setting p env ''OBSERVATION_WINDOW'' defaultObservationWindow) (\<lambda>observationWindow.
     bindS (duration_setting p env ''OPTIMIZE_TIMEOUT'' defaultOptimizeTimeout) (\<lambda>optimizeTimeout.
     bindS (duration_setting p env ''OPERATION_TIMEOUT'' defaultOperationTimeout) (\<lambda>operationTimeout.
     bindS (heartbeatLossHoldPolicy p env heartbeatTimeout) (\<lambda>holdPolicy.
     Inr \<lparr>sv_Addr = getenv env ''SERVER_ADDR'' defaultAddr, sv_JWT = jwt_settings env, sv_DatabaseURL = databaseURL,
       sv_GraphAuthoringURL = graphAuthoringURL, sv_FlowControlURL = flowControlURL, sv_OperationURL = operationURL,
       sv_Config = \<lparr>sf_HeartbeatTimeout = heartbeatTimeout, sf_HoldPolicy = holdPolicy,
         sf_Cycle = \<lparr>cc_Window = observationWindow, cc_OptimizeTimeout = optimizeTimeout,
           cc_OperationTimeout = operationTimeout\<rparr>\<rparr>\<rparr>)))))))))"

datatype Broker = NATSBroker string duration | GoogleBroker string

definition newGuestStatusPublisher :: "Parsers \<Rightarrow> environment \<Rightarrow> err + Broker" where
  "newGuestStatusPublisher p env =
     (let natsURL = env ''NATS_URL''; projectID = env ''PUBSUB_PROJECT_ID'' in
      if natsURL \<noteq> '''' \<and> projectID \<noteq> '''' then Inl (OtherError ''set only one of NATS_URL and PUBSUB_PROJECT_ID'')
      else if natsURL \<noteq> '''' then
        bindS (duration_setting p env ''NATS_STREAM_MAX_AGE'' defaultStreamMaxAge) (\<lambda>maxAge.
          if maxAge \<le> 0 then Inl (OtherError ''read NATS_STREAM_MAX_AGE: not positive'') else Inr (NATSBroker natsURL maxAge))
      else if projectID \<noteq> '''' then Inr (GoogleBroker projectID)
      else Inl (OtherError ''NATS_URL or PUBSUB_PROJECT_ID is required''))"

subsection \<open>What a service that starts was configured with\<close>

text \<open>What the parsers of the standard library return: a \<open>float64\<close> and an \<open>int64\<close> number of nanoseconds.\<close>

definition parsers_ok :: "Parsers \<Rightarrow> bool" where
  "parsers_ok p \<longleftrightarrow>
     (\<forall>text s m. ps_ParseFloat p text = Inr (Num s m) \<longrightarrow> round_mag m = m) \<and>
     (\<forall>text d. ps_ParseDuration p text = Inr d \<longrightarrow> is_int64 d)"

lemma required_iff: "required env key = Inr url \<longleftrightarrow> env key = url \<and> url \<noteq> ''''"
  by (auto simp: required_def)

lemma number_in_unit_interval:
  assumes "\<not> fle (Num s m) f_zero" and "\<not> flt (f_of_int 1) (Num s m)"
  shows "flt f_zero (Num s m) \<and> fle (Num s m) (f_of_int 1)"
  using assms by (auto simp: flt_iff f_zero_def f_of_int_exact fle.simps)

lemma heartbeatLossHoldPolicy_checked:
  assumes "heartbeatLossHoldPolicy p env t = Inr pol" and "parsers_ok p"
  shows "hp_HeartbeatTimeout pol = t \<and> (is_nan (hp_Threshold pol) \<and> 1 \<le> hp_MinDevices pol \<and> 0 < hp_MaxDuration pol \<or> policy_ok pol)"
proof -
  from assms(1) obtain threshold minDevices maxDuration where
    parsed: "ps_ParseFloat p (getenv env ''HEARTBEAT_LOSS_HOLD_THRESHOLD'' defaultHoldThreshold) = Inr threshold"
      "ps_ParseDuration p (getenv env ''HEARTBEAT_LOSS_HOLD_MAX_DURATION'' defaultHoldMaxDuration) = Inr maxDuration" and
    checked: "\<not> fle threshold f_zero" "\<not> flt (f_of_int 1) threshold" "1 \<le> minDevices" "0 < maxDuration" and
    pol: "pol = \<lparr>hp_HeartbeatTimeout = t, hp_Threshold = threshold, hp_MinDevices = minDevices, hp_MaxDuration = maxDuration\<rparr>"
    by (auto simp: heartbeatLossHoldPolicy_def split: sum.splits if_splits)
  show ?thesis
  proof (cases threshold)
    case NaN
    with checked pol show ?thesis by (simp add: is_nan_def)
  next
    case (Inf s)
    with checked show ?thesis by (cases s) (simp_all add: flt_def f_zero_def f_of_int_exact)
  next
    case (Num s m)
    with checked parsed assms(2) pol number_in_unit_interval [of s m] show ?thesis
      by (auto simp: policy_ok_def parsers_ok_def)
  qed
qed

text \<open>C35. A service that passes its own configuration checks has a database and the three addresses of the services it calls, and runs with a heartbeat loss hold policy
  that is \<open>policy_ok\<close> (a threshold in (0, 1], at least one device, a positive limit), unless the threshold it was given parses as NaN:
  NaN passes the range check of the code.\<close>

theorem run_settings_checked:
  assumes "run_settings p env = Inr s" and "parsers_ok p"
  shows "sv_DatabaseURL s = env ''DATABASE_URL'' \<and> sv_DatabaseURL s \<noteq> '''' \<and>
    '''' \<notin> {sv_GraphAuthoringURL s, sv_FlowControlURL s, sv_OperationURL s} \<and>
    hp_HeartbeatTimeout (sf_HoldPolicy (sv_Config s)) = sf_HeartbeatTimeout (sv_Config s) \<and>
    (is_nan (hp_Threshold (sf_HoldPolicy (sv_Config s))) \<or> policy_ok (sf_HoldPolicy (sv_Config s)))"
  using assms(1)
  by (auto simp: run_settings_def bindS_Inr required_iff dest: heartbeatLossHoldPolicy_checked [OF _ assms(2)])

definition sample_parsers :: Parsers where
  "sample_parsers =
     \<lparr>ps_ParseFloat = (\<lambda>text. Inr (if text = ''NaN'' then NaN else f_of_rat (1 / 2))), ps_Atoi = (\<lambda>text. Inr 10),
      ps_ParseDuration = (\<lambda>text. Inr (30 * second))\<rparr>"

definition sample_environment :: environment where
  "sample_environment key = (if key \<in> {''DATABASE_URL'', ''GRAPH_AUTHORING_URL'', ''FLOW_CONTROL_URL'', ''OPERATION_URL''} then ''u'' else '''')"

lemma f_of_rat_half: "f_of_rat (1 / 2) = Num False (1 / 2)" "round_mag (1 / 2 :: rat) = 1 / 2"
  by code_simp+

lemma sample_settings:
  "case run_settings sample_parsers sample_environment of Inl err \<Rightarrow> False
   | Inr s \<Rightarrow> hp_Threshold (sf_HoldPolicy (sv_Config s)) = Num False (1 / 2)"
  by code_simp

lemma sample_parsers_ok: "parsers_ok sample_parsers"
proof -
  have "round_mag m = m" if "f_of_rat (1 / 2) = Num s m" for s m
  proof -
    from that f_of_rat_half(1) have "m = 1 / 2" by (simp add: field_simps)
    with f_of_rat_half(2) show ?thesis by (simp only:)
  qed
  then show ?thesis
    by (auto simp: parsers_ok_def sample_parsers_def is_int64_def min_int64_def max_int64_def second_def split: if_splits
        simp del: f_of_rat_half)
qed

theorem run_settings_checked_witness:
  "\<exists>s. run_settings sample_parsers sample_environment = Inr s \<and> policy_ok (sf_HoldPolicy (sv_Config s))"
proof -
  obtain s where s: "run_settings sample_parsers sample_environment = Inr s"
    and threshold: "hp_Threshold (sf_HoldPolicy (sv_Config s)) = Num False (1 / 2)"
    using sample_settings by (auto split: sum.splits)
  from run_settings_checked [OF s sample_parsers_ok] threshold have "policy_ok (sf_HoldPolicy (sv_Config s))"
    by (simp add: is_nan_def)
  with s show ?thesis by blast
qed

text \<open>The gap the theorem leaves is real: a threshold of NaN is accepted.\<close>

lemma heartbeatLossHoldPolicy_accepts_NaN:
  "\<exists>pol. heartbeatLossHoldPolicy sample_parsers (\<lambda>key. if key = ''HEARTBEAT_LOSS_HOLD_THRESHOLD'' then ''NaN'' else '''') t = Inr pol
     \<and> hp_Threshold pol = NaN"
  by (simp add: heartbeatLossHoldPolicy_def sample_parsers_def getenv_def flt_def second_def f_of_int_exact)

end
