(* ===== verification/CycleProperties.thy ===== *)
theory CycleProperties
  imports Server
begin

section \<open>What an observation cycle does\<close>

text \<open>
  The cycle on PostgreSQL, under every script of faults and whatever the remote services answer: which rows it may write
  (\<open>cycle_frame\<close>), that an optimization outcome is only ever stored for a stored snapshot of its event, and what a query shows
  after it. The remote services are the interface \<open>cycle_services\<close>: they do not touch the database. The clients of
  \<open>infra/connect\<close> and \<open>infra/pubsub\<close> interpret it.
\<close>

subsection \<open>The rows a cycle may write\<close>

definition untouched_devices :: "database \<Rightarrow> edge_device_row list \<times> observation_point_row list \<times> camera_link_row list
    \<times> measurement_row list \<times> settings_row list" where
  "untouched_devices d =
     (db_edge_devices d, db_observation_points d, db_camera_links d, db_measurements d, db_settings d)"

text \<open>The rows of the other events, in the tables where a cycle updates rows.\<close>

definition other_events :: "string \<Rightarrow> database \<Rightarrow> sensor_set_row list \<times> guest_row list \<times> stagnation_row list \<times> flow_dwell_row list" where
  "other_events e d =
     (filter (\<lambda>r. sv_event_id r \<noteq> e) (db_sensor_sets d), filter (\<lambda>r. gu_event_id r \<noteq> e) (db_guest_statuses d),
      filter (\<lambda>r. ag_event_id r \<noteq> e) (db_stagnation d), filter (\<lambda>r. dw_event_id r \<noteq> e) (db_flow_dwell d))"

definition cycle_frame :: "string \<Rightarrow> string \<Rightarrow> database \<Rightarrow> database \<Rightarrow> bool" where
  "cycle_frame t e d d' \<longleftrightarrow>
     untouched_devices d' = untouched_devices d \<and> other_events e d' = other_events e d \<and>
     holds_evolve (db_holds d) (db_holds d') \<and>
     (\<exists>new. db_snapshots d' = db_snapshots d @ new \<and> list_all (\<lambda>r. sr_event_id r = e \<and> sr_tenant_public_id r = t) new) \<and>
     (\<exists>new. db_optimization_results d' = db_optimization_results d @ new \<and> list_all (\<lambda>r. or_event_id r = e) new)"

lemmas frame_defs = cycle_frame_def untouched_devices_def other_events_def

definition has_snapshot :: "string \<Rightarrow> string \<Rightarrow> database \<Rightarrow> bool" where
  "has_snapshot sid e d \<longleftrightarrow> list_ex (\<lambda>s. sr_snapshot_id s = sid \<and> sr_event_id s = e) (db_snapshots d)"

definition outcomes_linked :: "database \<Rightarrow> bool" where
  "outcomes_linked d \<longleftrightarrow> list_all (\<lambda>r. has_snapshot (or_snapshot_id r) (or_event_id r) d) (db_optimization_results d)"

text \<open>One step: the frame, the outcomes stay linked, and the snapshots of the set \<open>S\<close> are there.\<close>

definition cycle_step :: "string \<Rightarrow> string \<Rightarrow> string set \<Rightarrow> database \<Rightarrow> database \<Rightarrow> bool" where
  "cycle_step t e S d d' \<longleftrightarrow> cycle_frame t e d d' \<and> (outcomes_linked d \<longrightarrow> outcomes_linked d') \<and> (\<forall>sid \<in> S. has_snapshot sid e d')"

lemma cycle_frame_refl [simp]: "cycle_frame t e d d"
  by (auto simp: cycle_frame_def)

lemma list_all_chain:
  "(\<exists>new. b = a @ new \<and> list_all P new) \<Longrightarrow> (\<exists>new. c = b @ new \<and> list_all P new) \<Longrightarrow> \<exists>new. c = a @ new \<and> list_all P new"
  by fastforce

lemma cycle_frame_trans:
  assumes "cycle_frame t e d d1" and "cycle_frame t e d1 d2"
  shows "cycle_frame t e d d2"
proof -
  note a = assms(1) [unfolded cycle_frame_def] and b = assms(2) [unfolded cycle_frame_def]
  have "\<exists>new. db_snapshots d2 = db_snapshots d @ new \<and> list_all (\<lambda>r. sr_event_id r = e \<and> sr_tenant_public_id r = t) new"
    by (rule list_all_chain) (use a b in blast)+
  moreover have "\<exists>new. db_optimization_results d2 = db_optimization_results d @ new \<and> list_all (\<lambda>r. or_event_id r = e) new"
    by (rule list_all_chain) (use a b in blast)+
  moreover have "untouched_devices d2 = untouched_devices d" "other_events e d2 = other_events e d" using a b by simp_all
  moreover have "holds_evolve (db_holds d) (db_holds d2)" using a b holds_evolve_trans by blast
  ultimately show ?thesis unfolding cycle_frame_def by blast
qed

lemma has_snapshot_mono: "cycle_frame t e d d' \<Longrightarrow> has_snapshot sid e' d \<Longrightarrow> has_snapshot sid e' d'"
  by (auto simp: cycle_frame_def has_snapshot_def)

text \<open>A statement that leaves the outcomes alone is a step when it stays in the frame.\<close>

lemma step_frame:
  assumes "cycle_step t e S d0 d" and "cycle_frame t e d d'" and "db_optimization_results d' = db_optimization_results d"
  shows "cycle_step t e S d0 d'"
  using assms has_snapshot_mono [OF assms(2)] cycle_frame_trans
  unfolding cycle_step_def outcomes_linked_def list_all_iff by metis

lemma step_sql:
  assumes "\<And>d x d'. stmt d = Inr (x, d') \<Longrightarrow> cycle_frame t e d d' \<and> db_optimization_results d' = db_optimization_results d"
  shows "db_keeps (cycle_step t e S d0) (sql stmt)"
  using assms by (intro db_keeps_sql) (blast intro: step_frame)

lemma upsert_row_others:
  assumes "upsert_row same merge new rows = Inr rows'" and "\<not> P new"
    and "\<And>h. same h \<Longrightarrow> \<not> P h" and "\<And>h h'. same h \<Longrightarrow> merge h = Inr h' \<Longrightarrow> \<not> P h'"
  shows "filter P rows' = filter P rows"
  using assms(1,2)
proof (induction rows arbitrary: rows')
  case (Cons h rows)
  then show ?case using assms(3,4) by (auto simp: bindS_Inr split: if_splits)
qed auto

lemma insert_snapshot_frame:
  "insert_snapshot ts t s j d = Inr (u, d') \<Longrightarrow> cycle_frame t (sn_EventID s) d d' \<and>
     db_optimization_results d' = db_optimization_results d \<and> has_snapshot (sn_ID s) (sn_EventID s) d'"
  by (auto simp: insert_snapshot_def frame_defs has_snapshot_def split: if_splits)

lemma upsert_sensor_frame:
  assumes "upsert_sensor_set (sensor_row ts e s) d = Inr (u, d')"
  shows "cycle_frame t e d d' \<and> db_optimization_results d' = db_optimization_results d"
proof -
  from assms obtain rows where rows: "upsert_row (\<lambda>r. sensor_key r = sensor_key (sensor_row ts e s))
      (\<lambda>r. Inr (r\<lparr>sv_observation_point_ids := sv_observation_point_ids (sensor_row ts e s), sv_changed_at := sv_changed_at (sensor_row ts e s)\<rparr>))
      (sensor_row ts e s) (db_sensor_sets d) = Inr rows" and d': "d' = d\<lparr>db_sensor_sets := rows\<rparr>"
    by (auto simp: upsert_sensor_set_def bindS_Inr split: if_splits)
  have "filter (\<lambda>r. sv_event_id r \<noteq> e) rows = filter (\<lambda>r. sv_event_id r \<noteq> e) (db_sensor_sets d)"
    by (rule upsert_row_others [OF rows]) (auto simp: sensor_row_def sensor_key_def)
  then show ?thesis by (simp add: d' frame_defs)
qed

lemma upsert_stagnation_frame:
  assumes "bindS (stagnation_sample ln_pow e start r stagnation end' flow same) (\<lambda>row. upsert_stagnation row d) = Inr (u, d')"
  shows "cycle_frame t e d d' \<and> db_optimization_results d' = db_optimization_results d"
proof -
  from assms obtain new rows where new: "stagnation_sample ln_pow e start r stagnation end' flow same = Inr new"
    and rows: "upsert_row (same_stagnation_cell new) (\<lambda>h. merge_stagnation h new) new (db_stagnation d) = Inr rows"
    and d': "d' = d\<lparr>db_stagnation := rows\<rparr>" by (auto simp: upsert_stagnation_def bindS_Inr)
  have e: "ag_event_id new = e" using new by (auto simp: stagnation_sample_def bindS_Inr)
  have "filter (\<lambda>r. ag_event_id r \<noteq> e) rows = filter (\<lambda>r. ag_event_id r \<noteq> e) (db_stagnation d)"
    by (rule upsert_row_others [OF rows])
      (auto simp: e same_stagnation_cell_def merge_stagnation_def bindS_Inr split: if_splits)
  then show ?thesis by (simp add: d' frame_defs)
qed

lemma upsert_dwell_frame:
  assumes "bindS (flow_dwell_sample ln_pow e start r stagnation flow end') (\<lambda>row. upsert_flow_dwell row d) = Inr (u, d')"
  shows "cycle_frame t e d d' \<and> db_optimization_results d' = db_optimization_results d"
proof -
  from assms obtain new rows where new: "flow_dwell_sample ln_pow e start r stagnation flow end' = Inr new"
    and rows: "upsert_row (same_dwell_cell new) (\<lambda>h. merge_dwell h new) new (db_flow_dwell d) = Inr rows"
    and d': "d' = d\<lparr>db_flow_dwell := rows\<rparr>" by (auto simp: upsert_flow_dwell_def bindS_Inr)
  have e: "dw_event_id new = e" using new by (auto simp: flow_dwell_sample_def bindS_Inr)
  have "filter (\<lambda>r. dw_event_id r \<noteq> e) rows = filter (\<lambda>r. dw_event_id r \<noteq> e) (db_flow_dwell d)"
    by (rule upsert_row_others [OF rows]) (auto simp: e same_dwell_cell_def merge_dwell_def split: if_splits)
  then show ?thesis by (simp add: d' frame_defs)
qed

lemma upsert_guest_frame:
  assumes "upsert_guest ts e t' taken crowd queues d = Inr (n, d')"
  shows "cycle_frame t e d d' \<and> db_optimization_results d' = db_optimization_results d"
proof -
  have "filter (\<lambda>r. gu_event_id r \<noteq> e) (update_where (\<lambda>r. gu_event_id r = e) f rows) = filter (\<lambda>r. gu_event_id r \<noteq> e) rows"
    if "\<And>r. gu_event_id (f r) = gu_event_id r" for f and rows :: "guest_row list"
    by (induction rows) (auto simp: update_where_def that)
  with assms show ?thesis by (auto simp: upsert_guest_def frame_defs Let_def split: list.splits if_splits)
qed

lemma insert_outcome_step:
  assumes "cycle_step t e {oo_SnapshotID oc} d0 d" and "insert_outcome json_text e oc d = Inr (u, d')"
  shows "cycle_step t e {oo_SnapshotID oc} d0 d'"
proof -
  have "insert_outcome json_text e oc d = Inr ((), d')" using assms(2) by simp
  then obtain row where d': "d' = d\<lparr>db_optimization_results := db_optimization_results d @ [row]\<rparr>"
    and row: "or_event_id row = e" "or_snapshot_id row = oo_SnapshotID oc" by (rule insert_outcome_Inr)
  have "cycle_frame t e d d'" by (simp add: d' row frame_defs)
  then have "cycle_frame t e d0 d'" using assms(1) cycle_frame_trans unfolding cycle_step_def by blast
  moreover have "has_snapshot sid e' d' = has_snapshot sid e' d" for sid e' by (simp add: d' has_snapshot_def)
  ultimately show ?thesis using assms(1) row by (auto simp: cycle_step_def outcomes_linked_def d' list_all_iff)
qed

subsection \<open>The statements of a cycle are steps\<close>

lemma Evaluate_frame_pg:
  "relates same_but_holds (Evaluate (NewHeartbeatLossHolds (NewPostgresHeartbeatLossHoldRepository ts) p) ctx t)"
  unfolding Evaluate_def end_decided_def start_decided_def Let_def NewHeartbeatLossHolds_def NewPostgresHeartbeatLossHoldRepository_def
    FindOpen_def CountAcrossTenants_def
  by (auto intro!: relates_rules reader_basic [THEN reader_holds] Start_frame End_frame simp: case_prod_unfold)

lemma same_but_holds_frame:
  assumes "same_but_holds w w'"
  shows "cycle_frame t e (w_db w) (w_db w')" "db_optimization_results (w_db w') = db_optimization_results (w_db w)"
proof -
  note only = assms [unfolded same_but_holds_def]
  have "db_snapshots (w_db w') = db_snapshots (w_db w)" "untouched_devices (w_db w') = untouched_devices (w_db w)"
    "other_events e (w_db w') = other_events e (w_db w)"
    by (rule only_holds_same [OF only], simp add: untouched_devices_def other_events_def)+
  moreover show results: "db_optimization_results (w_db w') = db_optimization_results (w_db w)" by (rule only_holds_same [OF only]) simp
  ultimately show "cycle_frame t e (w_db w) (w_db w')" using only unfolding cycle_frame_def only_holds_def by simp
qed

lemma holds_step: "relates same_but_holds m \<Longrightarrow> db_keeps (cycle_step t e S d0) m"
  unfolding keeps_def relates_def by (blast intro: step_frame same_but_holds_frame)

lemma record_route_step: "db_keeps (cycle_step t (sn_EventID s) S d0) (record_route ts ln_pow s score)"
  unfolding record_route_def Let_def
  by (intro keeps_rules step_sql; (erule upsert_stagnation_frame | erule upsert_dwell_frame)?)

lemma SaveSnapshot_step: "db_keeps (cycle_step t (sn_EventID s) S d0) (SaveSnapshot ts ln_pow ctx t s)"
  unfolding SaveSnapshot_def
  by (intro keeps_rules record_route_step step_sql) (blast dest: insert_snapshot_frame)

lemma SaveSnapshot_stored: "SaveSnapshot ts ln_pow ctx t s w = (Inr u, w') \<Longrightarrow> has_snapshot (sn_ID s) (sn_EventID s) (w_db w')"
  by (drule SaveSnapshot_Inr) (auto simp: snapshot_saved_def has_snapshot_def snapshot_row_of_def)

lemma SaveSensorSets_step: "db_keeps (cycle_step t e S d0) (SaveSensorSets ts ctx e sets)"
  unfolding SaveSensorSets_def by (intro keeps_rules step_sql) (erule upsert_sensor_frame)

lemma SaveGuestStatus_step: "db_keeps (cycle_step t (gs_EventID status) S d0) (SaveGuestStatus ts ctx t' status)"
  unfolding SaveGuestStatus_def Let_def by (intro keeps_rules step_sql) (erule upsert_guest_frame)

lemma SaveOptimizationOutcome_step:
  "db_keeps (cycle_step t e {oo_SnapshotID oc} d0) (SaveOptimizationOutcome json_text ctx e oc)"
  unfolding SaveOptimizationOutcome_def by (intro keeps_rules db_keeps_sql) (blast intro: insert_outcome_step)

lemma snapshot_readers [relates_rules]:
  "reader (ListSensorSets coll ctx e)" "reader (ListSnapshotsEndingAfter ts ctx e after)" "reader (EarliestSnapshotStart ctx e)"
  "reader (LatestOptimizationOutcome ctx e)" "reader (LatestSnapshot ctx e)"
  by (auto simp: ListSensorSets_def ListSnapshotsEndingAfter_def EarliestSnapshotStart_def LatestOptimizationOutcome_def
      LatestSnapshot_def case_prod_unfold intro!: relates_rules)

subsection \<open>The cycle over its interfaces\<close>

text \<open>The clients of the remote services and the publisher: they leave the database as it is.\<close>

locale remote_services =
  fixes graphs :: "'x GraphSupply" and flow :: "'x FlowControl" and operation :: "'x Operation"
    and publisher :: "'x GuestStatusPublisher"
  assumes graph_readers: "reader (gq_CurrentGraph graphs ctx e)" "reader (gq_ObservationPointMappings graphs ctx e revision)"
      "reader (gq_QrLocations graphs ctx t e revision)"
    and flow_reader: "reader (fc_Optimize flow ctx input)"
    and operation_readers: "reader (on_RequestProposalDelivery operation ctx t e outcome)"
      "reader (on_RecordFeedbackValues operation ctx t e outcome)"
    and publisher_reader: "reader (pb_PublishGuestStatus publisher ctx status)"

interpretation clients: remote_services "NewGraphSupplyClient code_of graph" "NewFlowControlClient pj flow"
  "NewOperationClient pj delivery" "NewGuestStatusPublisher marshal publish" for code_of graph pj flow delivery marshal publish
  by unfold_locales (rule reader_graphs reader_flow reader_operation reader_publisher)+

text \<open>The cycle: its repositories read, or take steps.\<close>

locale cycle_services = remote_services "oc_graphs c" "oc_flow c" "oc_operation c" "oc_guestPublish c"
  for c :: "('x, 'r) ObservationCycle" +
  assumes store_readers: "reader (dr_ListByEvent (oc_devices c) ctx e b)" "reader (mr_ListWindowEndingSince (oc_measurements c) ctx e since)"
      "reader (or_Find (oc_settings c) ctx e)" "reader (sp_ListSensorSets (oc_snapshots c) ctx e)"
      "reader (sp_ListSnapshotsEndingAfter (oc_snapshots c) ctx e since)" "reader (sp_SummarizeArcHistory (oc_snapshots c) ctx e since)"
      "reader (sp_EarliestSnapshotStart (oc_snapshots c) ctx e)" "reader (sp_LatestOptimizationOutcome (oc_snapshots c) ctx e)"
    and holds_frame: "relates same_but_holds (Evaluate (oc_holds c) ctx since)"
    and sensor_step: "db_keeps (cycle_step t e S d0) (sp_SaveSensorSets (oc_snapshots c) ctx e sets)"
    and guest_step: "db_keeps (cycle_step t (gs_EventID status) S d0) (gr_SaveGuestStatus (oc_guests c) ctx t' status)"
    and snapshot_step: "db_keeps (cycle_step t (sn_EventID s) S d0) (sp_SaveSnapshot (oc_snapshots c) ctx t s)"
    and snapshot_stored: "sp_SaveSnapshot (oc_snapshots c) ctx t s w = (Inr u, w') \<Longrightarrow> has_snapshot (sn_ID s) (sn_EventID s) (w_db w')"
    and outcome_step: "db_keeps (cycle_step t e {oo_SnapshotID oc} d0) (sp_SaveOptimizationOutcome (oc_snapshots c) ctx e oc)"

text \<open>A program whose continuation relies on what it established.\<close>

lemma db_keeps_bind_post:
  assumes "db_keeps I m" and "\<And>w x w'. I (w_db w) \<Longrightarrow> m w = (Inr x, w') \<Longrightarrow> J x (w_db w')"
    and "\<And>x. db_keeps (J x) (f x)" and "\<And>x d. J x d \<Longrightarrow> I d"
  shows "db_keeps I (bindE m f)"
  unfolding keeps_def
proof (intro allI impI)
  fix w :: "'a world"
  assume I: "I (w_db w)"
  obtain r w1 where m: "m w = (r, w1)" by fastforce
  show "I (w_db (snd (bindE m f w)))"
  proof (cases r)
    case (Inl err)
    with m keepsD [OF assms(1) I m] show ?thesis by (simp add: bindE_def)
  next
    case (Inr x)
    with m assms(2) [OF I] have "J x (w_db w1)" by blast
    with assms(3) [of x] have "J x (w_db (snd (f x w1)))" by (simp add: keeps_def)
    with m Inr assms(4) show ?thesis by (simp add: bindE_def)
  qed
qed

lemma db_keeps_pure: "(P \<Longrightarrow> db_keeps I m) \<Longrightarrow> db_keeps (\<lambda>d. P \<and> I d) m"
  by (auto simp: keeps_def)

lemma cycle_step_drop: "cycle_step t e S d0 d \<Longrightarrow> cycle_step t e {} d0 d"
  by (simp add: cycle_step_def)

lemma relates_handle [relates_rules]:
  "transp R \<Longrightarrow> reflp R \<Longrightarrow> relates R m \<Longrightarrow> (\<And>err. relates R (h err)) \<Longrightarrow> relates R (handleE m h)"
  unfolding handleE_def by (intro relates_rules)

lemma keeps_handle [keeps_rules]:
  "keeps I m \<Longrightarrow> (\<And>err. keeps I (h err)) \<Longrightarrow> keeps I (handleE m h)"
  unfolding handleE_def by (intro keeps_rules)

lemma NewSnapshot_event:
  assumes "NewSnapshot ev ws we ms mappings states src = (Inr (sn, g, sets), src')"
  shows "sn_EventID sn = ev"
proof -
  from assms obtain sid anchors where
    "fold (place anchors) (sort (map fst anchors)) (empty_snapshot sid ev ws we, no_gaps, []) = (sn, g, sets)"
    by (auto simp: NewSnapshot_def bindE_Inr Let_def)
  from arg_cong [OF this, of "\<lambda>acc. sn_EventID (fst acc)"] show ?thesis
    unfolding fold_place_frame(4) by (simp add: empty_snapshot_def)
qed

lemma draw_Inr: "draw g w = (Inr x, w') \<longleftrightarrow> (\<exists>s. g (w_entropy w) = (Inr x, s) \<and> w' = w\<lparr>w_entropy := s\<rparr>)"
  by (auto simp: draw_def split: prod.splits)

context cycle_services
begin

lemmas keepings = graph_readers [THEN reader_keeps] store_readers [THEN reader_keeps] flow_reader [THEN reader_keeps]
  publisher_reader [THEN reader_keeps] reader_basic [THEN reader_keeps]

lemma compose_step: "db_keeps (cycle_step t e S d0) (cycle_compose c ctx t' e)"
  unfolding cycle_compose_def observationPointStates_def Let_def case_prod_unfold
  by (intro keeps_rules keepings holds_frame [THEN holds_step])

lemma compose_event:
  assumes "cycle_compose c ctx t' e w = (Inr (graph, windowEnd, snapshot, gaps, composed), w')"
  shows "sn_EventID snapshot = e"
  using assms by (auto simp: cycle_compose_def bindE_Inr Let_def draw_Inr dest: NewSnapshot_event)

lemma sensor_sets_step: "db_keeps (cycle_step t e S d0) (cycle_sensor_sets c ctx e windowEnd composed)"
  unfolding cycle_sensor_sets_def Let_def case_prod_unfold
  by (intro keeps_rules keepings sensor_step)

lemma settings_step: "db_keeps I (findObservationSettings ctx (oc_settings c) e)"
  unfolding findObservationSettings_def by (intro keeps_rules keepings)

lemma history_step: "db_keeps I (cycle_history c ctx e windowEnd settings sensorSets)"
  unfolding cycle_history_def availableHistory_def Let_def by (intro keeps_rules keepings)

lemma guest_status_step: "db_keeps (cycle_step t e S d0) (publishGuestStatus c ctx t' e taken)"
proof -
  have "db_keeps (cycle_step t e S d0) (gr_SaveGuestStatus (oc_guests c) ctx t'
      \<lparr>gs_EventID = e, gs_Sequence = 0, gs_TakenAt = taken, gs_Crowd = [], gs_Queues = []\<rparr>)"
    using guest_step [of t "\<lparr>gs_EventID = e, gs_Sequence = 0, gs_TakenAt = taken, gs_Crowd = [], gs_Queues = []\<rparr>"] by simp
  then show ?thesis
    unfolding publishGuestStatus_def
    by (intro keeps_rules keepings)
qed

lemma deliver_reader: "db_keeps I (deliverToOperation c ctx t e outcome)"
proof -
  have "reader (deliverToOperation c ctx t e outcome)"
    unfolding relates_def
  proof
    fix w
    have parts: "reader (call_operation c ctx (\<lambda>ctx'. on_RequestProposalDelivery (oc_operation c) ctx' t e outcome))"
      "reader (call_operation c ctx (\<lambda>ctx'. on_RecordFeedbackValues (oc_operation c) ctx' t e outcome))"
      unfolding call_operation_def by (intro relates_rules operation_readers same_db_rules)+
    have "reader (bindE (call_operation c ctx (\<lambda>ctx'. on_RequestProposalDelivery (oc_operation c) ctx' t e outcome))
        (\<lambda>_. call_operation c ctx (\<lambda>ctx'. on_RecordFeedbackValues (oc_operation c) ctx' t e outcome)))"
      "reader (bindE (call_operation c ctx (\<lambda>ctx'. on_RecordFeedbackValues (oc_operation c) ctx' t e outcome))
        (\<lambda>_. call_operation c ctx (\<lambda>ctx'. on_RequestProposalDelivery (oc_operation c) ctx' t e outcome)))"
      by (intro relates_bind same_db_rules parts)+
    then show "same_db w (snd (deliverToOperation c ctx t e outcome w))"
      by (simp add: deliverToOperation_def relates_def Let_def)
  qed
  then show ?thesis by (rule reader_keeps)
qed

lemma optimize_step:
  "db_keeps (cycle_step t e {sn_ID snapshot} d0) (cycle_optimize c ctx t' e settings graph windowEnd snapshot gaps sensorSets past)"
proof -
  have "db_keeps (cycle_step t e {sn_ID snapshot} d0)
      (sp_SaveOptimizationOutcome (oc_snapshots c) ctx e (outcome\<lparr>oo_SnapshotID := sn_ID snapshot\<rparr>))" for outcome
    using outcome_step [of t e "outcome\<lparr>oo_SnapshotID := sn_ID snapshot\<rparr>"] by simp
  then show ?thesis
    unfolding cycle_optimize_def cycle_previous_def Let_def case_prod_unfold
    by (intro keeps_rules keepings deliver_reader)
qed

lemma store_and_optimize_step:
  assumes "sn_EventID snapshot = e"
  shows "db_keeps (cycle_step t e {} d0) (bindE (wrapE f (sp_SaveSnapshot (oc_snapshots c) ctx t snapshot)) (\<lambda>_.
     bindE (publishGuestStatus c ctx t e windowEnd) (\<lambda>_.
     cycle_optimize c ctx t e settings graph windowEnd snapshot gaps sensorSets past)))"
proof (rule db_keeps_bind_post [where J = "\<lambda>_. cycle_step t e {sn_ID snapshot} d0"])
  show "db_keeps (cycle_step t e {} d0) (wrapE f (sp_SaveSnapshot (oc_snapshots c) ctx t snapshot))"
    using snapshot_step [of t snapshot] assms by (intro keeps_rules) simp
  show "db_keeps (cycle_step t e {sn_ID snapshot} d0) (bindE (publishGuestStatus c ctx t e windowEnd) (\<lambda>_.
     cycle_optimize c ctx t e settings graph windowEnd snapshot gaps sensorSets past))"
    by (intro keeps_rules guest_status_step optimize_step)
  fix w w' and u :: unit
  assume before: "cycle_step t e {} d0 (w_db w)" and run: "wrapE f (sp_SaveSnapshot (oc_snapshots c) ctx t snapshot) w = (Inr u, w')"
  from run have saved: "sp_SaveSnapshot (oc_snapshots c) ctx t snapshot w = (Inr u, w')" by (simp add: wrapE_Inr)
  have "cycle_step t e {} d0 (w_db w')"
    using keepsD [OF snapshot_step [of t snapshot "{}" d0 ctx] _ saved] before assms by simp
  with snapshot_stored [OF saved] assms show "cycle_step t e {sn_ID snapshot} d0 (w_db w')"
    unfolding cycle_step_def by simp
qed (rule cycle_step_drop)

lemma Run_step: "db_keeps (cycle_step t e {} d0) (Run c ctx t e)"
  unfolding Run_def
proof (rule db_keeps_bind_post [where J = "\<lambda>x d. sn_EventID (fst (snd (snd x))) = e \<and> cycle_step t e {} d0 d"])
  show "db_keeps (cycle_step t e {} d0) (cycle_compose c ctx t e)" by (rule compose_step)
next
  fix w w' and x :: "Graph \<times> time \<times> Snapshot \<times> Gaps \<times> SensorSet list"
  assume "cycle_step t e {} d0 (w_db w)" and "cycle_compose c ctx t e w = (Inr x, w')"
  then show "sn_EventID (fst (snd (snd x))) = e \<and> cycle_step t e {} d0 (w_db w')"
    using compose_event keepsD [OF compose_step] by (cases x) auto
next
  fix x :: "Graph \<times> time \<times> Snapshot \<times> Gaps \<times> SensorSet list"
  show "db_keeps (\<lambda>d. sn_EventID (fst (snd (snd x))) = e \<and> cycle_step t e {} d0 d)
     (case x of (graph, windowEnd, snapshot, gaps, composed) \<Rightarrow>
       bindE (cycle_sensor_sets c ctx e windowEnd composed) (\<lambda>sensorSets.
       bindE (findObservationSettings ctx (oc_settings c) e) (\<lambda>settings.
       bindE (cycle_history c ctx e windowEnd settings sensorSets) (\<lambda>past.
       bindE (wrapE (Wrap ''save snapshot'') (sp_SaveSnapshot (oc_snapshots c) ctx t snapshot)) (\<lambda>_.
       bindE (publishGuestStatus c ctx t e windowEnd) (\<lambda>_.
       cycle_optimize c ctx t e settings graph windowEnd snapshot gaps sensorSets past))))))"
  proof (rule db_keeps_pure)
    assume "sn_EventID (fst (snd (snd x))) = e"
    then show "db_keeps (cycle_step t e {} d0) (case x of (graph, windowEnd, snapshot, gaps, composed) \<Rightarrow>
       bindE (cycle_sensor_sets c ctx e windowEnd composed) (\<lambda>sensorSets.
       bindE (findObservationSettings ctx (oc_settings c) e) (\<lambda>settings.
       bindE (cycle_history c ctx e windowEnd settings sensorSets) (\<lambda>past.
       bindE (wrapE (Wrap ''save snapshot'') (sp_SaveSnapshot (oc_snapshots c) ctx t snapshot)) (\<lambda>_.
       bindE (publishGuestStatus c ctx t e windowEnd) (\<lambda>_.
       cycle_optimize c ctx t e settings graph windowEnd snapshot gaps sensorSets past))))))"
      by (cases x) (auto intro!: keeps_bind sensor_sets_step settings_step history_step store_and_optimize_step)
  qed
qed (simp add: cycle_step_def)

end

text \<open>The cycle of the service is one.\<close>

interpretation server: cycle_services "server_cycle x cfg" for x cfg
proof -
  note defs = server_cycle_def NewObservationCycle_def server_graphs_def server_holds_def server_snapshots_def
    NewPostgresEdgeDeviceRepository_def NewPostgresMeasurementRepository_def NewPostgresSnapshotRepository_def
    NewPostgresObservationSettingsRepository_def NewPostgresGuestStatusRepository_def
  show "cycle_services (server_cycle x cfg)"
    by unfold_locales (simp_all add: defs relates_rules reader_graphs reader_flow reader_operation reader_publisher
      Evaluate_frame_pg Settings_Find_reader SaveSensorSets_step SaveGuestStatus_step SaveSnapshot_step SaveSnapshot_stored
      SaveOptimizationOutcome_step)
qed

subsection \<open>Every cycle\<close>

text \<open>C4. Whatever the remote services answer, whatever statement fails and wherever the cycle stops: it appends snapshots of its tenant and
  event and outcomes of its event, writes cells, sensor sets and the guest status of its event only, and starts or ends heartbeat loss holds:
  a stored hold stays as it is, except that an open one may end, not before it started. Devices, observation points, links,
  measurements and settings, and what other events have, stay. No outcome is ever stored for a snapshot that is not.\<close>

theorem Run_effect:
  fixes w w' :: "'x world" and x :: "('x, 'ds) Externals"
  assumes "Run (server_cycle x cfg) ctx t e w = (r, w')"
  shows "cycle_frame t e (w_db w) (w_db w') \<and> (outcomes_linked (w_db w) \<longrightarrow> outcomes_linked (w_db w'))"
  using keepsD [OF server.Run_step [of t e "w_db w" x cfg ctx] _ assms] by (simp add: cycle_step_def)

definition sample_externals :: "(unit, unit) Externals" where
  "sample_externals =
     \<lparr>xt_timestamptz = trunc_us, xt_ln_pow = Inr, xt_collate = (\<lambda>s. s), xt_jsonb_text = Some,
      xt_code_of = (\<lambda>err. CodeInternal),
      xt_graph = \<lparr>gc_GetCurrentRevision = (\<lambda>info e x. (Inr \<lparr>cr_EventId = e, cr_RevisionId = ''rev'', cr_Points = [], cr_Routes = []\<rparr>, x)),
        gc_GetObservationPointMappings = (\<lambda>info e revision x. (Inr [], x)),
        gc_GetQrLocations = (\<lambda>info e revision t x. (Inr [], x))\<rparr>,
      xt_protojson = \<lparr>pj_new_state = (), pj_encode_state = (\<lambda>s. Inr []), pj_decode_state_stored = (\<lambda>text. Inr ()),
        pj_encode_result = (\<lambda>r. Inr []), pj_decode_result_stored = (\<lambda>text. Inl (OtherError ''proto'')),
        pj_decode_result = (\<lambda>text. Inl (OtherError ''proto'')), pj_encode_diagnostics = (\<lambda>d. Inr []),
        pj_decode_diagnostics_stored = (\<lambda>text. Inl (OtherError ''proto'')), pj_encode_feedback = (\<lambda>f. Inr []),
        pj_decode_feedback = (\<lambda>text. Inl (OtherError ''proto''))\<rparr>,
      xt_flow = (\<lambda>info req x. (Inr \<lparr>ors_Verdict = ''VERDICT'', ors_UpdatedDetectionState = Some (), ors_OptimizationResult = None,
        ors_Diagnostics = None, ors_FeedbackValues = None\<rparr>, x)),
      xt_delivery = \<lparr>dc_RequestProposalDelivery = (\<lambda>info e p t x. (Inr (), x)), dc_RecordFeedbackValues = (\<lambda>info e p t x. (Inr (), x))\<rparr>,
      xt_marshal = (\<lambda>m. Inr []), xt_publish = (\<lambda>topic m x. (Inr (), x)), xt_schedule = (\<lambda>w. True)\<rparr>"

definition sample_server_config :: ServerConfig where
  "sample_server_config = \<lparr>sf_HeartbeatTimeout = 30 * second, sf_HoldPolicy = sample_policy,
     sf_Cycle = \<lparr>cc_Window = minute, cc_OptimizeTimeout = 30 * second, cc_OperationTimeout = 5 * second\<rparr>\<rparr>"

lemma Optimize_answered:
  "Optimize pj (\<lambda>info req x. (Inr res, x)) =
     (\<lambda>ctx input. bindE (liftE (decode_previous pj (oi_Previous input))) (\<lambda>_.
        bindE (draw rand_text) (\<lambda>_. liftE (outcome_of_response pj input res))))"
  by (intro ext) (auto simp: Optimize_def newOptimizeRequest_def bindE_def wrapE_def remote_def liftE_def returnE_def Let_def
      split: prod.splits sum.splits)

text \<open>A cycle of an event without a graph, and the overview after it, both computed.\<close>

lemma sample_cycle:
  "case bindE (Run (server_cycle sample_externals sample_server_config) (sample_ctx ''t'' ''e'') ''t'' ''e'')
       (\<lambda>_. GetEventOverview (server_status sample_externals) (sample_ctx ''t'' ''e'') ''e'') (sample_world [] empty_db ()) of
     (Inl err, w) \<Rightarrow> False
   | (Inr overview, w) \<Rightarrow> (case ov_Snapshot overview of None \<Rightarrow> False | Some s \<Rightarrow> sn_EventID s = ''e'' \<and> sn_WindowEnd s = 0)"
proof -
  have flow: "xt_flow sample_externals = (\<lambda>info req x. (Inr \<lparr>ors_Verdict = ''VERDICT'', ors_UpdatedDetectionState = Some (), ors_OptimizationResult = None,
        ors_Diagnostics = None, ors_FeedbackValues = None\<rparr>, x))" by (simp add: sample_externals_def)
  show ?thesis unfolding server_cycle_def NewFlowControlClient_def flow Optimize_answered by code_simp
qed

lemma sample_cycle_steps:
  obtains w1 overview w2 where
    "Run (server_cycle sample_externals sample_server_config) (sample_ctx ''t'' ''e'') ''t'' ''e'' (sample_world [] empty_db ()) = (Inr (), w1)"
    "GetEventOverview (server_status sample_externals) (sample_ctx ''t'' ''e'') ''e'' w1 = (Inr overview, w2)"
    "ov_Snapshot overview \<noteq> None"
proof -
  obtain r w2 where run: "bindE (Run (server_cycle sample_externals sample_server_config) (sample_ctx ''t'' ''e'') ''t'' ''e'')
       (\<lambda>_. GetEventOverview (server_status sample_externals) (sample_ctx ''t'' ''e'') ''e'') (sample_world [] empty_db ()) = (r, w2)"
    by fastforce
  with sample_cycle obtain overview where "r = Inr overview" "ov_Snapshot overview \<noteq> None"
    by (auto split: sum.splits option.splits)
  with run that show thesis by (auto simp: bindE_Inr)
qed

theorem Run_effect_witness:
  "\<exists>w'. Run (server_cycle sample_externals sample_server_config) (sample_ctx ''t'' ''e'') ''t'' ''e'' (sample_world [] empty_db ()) = (Inr (), w')
     \<and> cycle_frame ''t'' ''e'' empty_db (w_db w') \<and> outcomes_linked (w_db w')"
proof -
  obtain w' where run: "Run (server_cycle sample_externals sample_server_config) (sample_ctx ''t'' ''e'') ''t'' ''e''
      (sample_world [] empty_db ()) = (Inr (), w')"
    by (rule sample_cycle_steps)
  have "outcomes_linked empty_db" by (simp add: outcomes_linked_def empty_db_def)
  with Run_effect [OF run] run show ?thesis by simp
qed

end
