(* ===== verification/StatusProperties.thy ===== *)
theory StatusProperties
  imports CycleProperties
begin

section \<open>What a query shows after a cycle\<close>

text \<open>
  A cycle that returns has stored one snapshot and the outcome flow control answered for it. The overview of the event then shows
  that snapshot and the diagnostics of that very answer, each as the database keeps it.
\<close>

subsection \<open>The stages that leave the snapshots alone\<close>

definition snapshots_kept :: "database \<Rightarrow> database \<Rightarrow> bool" where
  "snapshots_kept d0 d \<longleftrightarrow> db_snapshots d = db_snapshots d0"

lemma snapshots_kept_refl [simp]: "snapshots_kept d d"
  by (simp add: snapshots_kept_def)

lemma kept_sql:
  assumes "\<And>d u d'. stmt d = Inr (u, d') \<Longrightarrow> db_snapshots d' = db_snapshots d"
  shows "db_keeps (snapshots_kept d0) (sql stmt)"
  using assms by (intro db_keeps_sql) (auto simp: snapshots_kept_def)

lemma kept_holds:
  fixes m :: "('x, 'a) action"
  assumes frame: "relates same_but_holds m"
  shows "db_keeps (snapshots_kept d0) m"
proof -
  have "db_snapshots (w_db w') = db_snapshots (w_db w)" if "same_but_holds w w'" for w w' :: "'x world"
    by (rule only_holds_same [OF that [unfolded same_but_holds_def]]) simp
  with frame show ?thesis unfolding keeps_def relates_def snapshots_kept_def by metis
qed

lemma compose_kept: "db_keeps (snapshots_kept d0) (cycle_compose (server_cycle x cfg) ctx t e)"
  unfolding cycle_compose_def observationPointStates_def Let_def case_prod_unfold
  by (intro keeps_rules server.keepings server.holds_frame [THEN kept_holds])

lemma sensor_sets_kept: "db_keeps (snapshots_kept d0) (cycle_sensor_sets (server_cycle x cfg) ctx e windowEnd composed)"
proof -
  have "db_keeps (snapshots_kept d0) (sp_SaveSensorSets (oc_snapshots (server_cycle x cfg)) ctx e sets)" for sets
    unfolding server_cycle_def NewObservationCycle_def server_snapshots_def NewPostgresSnapshotRepository_def SaveSensorSets_def
    by (simp, intro keeps_rules kept_sql) (auto simp: upsert_sensor_set_def bindS_Inr split: if_splits)
  then show ?thesis
    unfolding cycle_sensor_sets_def Let_def case_prod_unfold by (intro keeps_rules server.keepings)
qed

lemma guest_status_kept: "db_keeps (snapshots_kept d0) (publishGuestStatus (server_cycle x cfg) ctx t e taken)"
proof -
  have "db_keeps (snapshots_kept d0) (gr_SaveGuestStatus (oc_guests (server_cycle x cfg)) ctx t status)" for status
    unfolding server_cycle_def NewObservationCycle_def NewPostgresGuestStatusRepository_def SaveGuestStatus_def Let_def
    by (simp, intro keeps_rules kept_sql) (auto simp: upsert_guest_def Let_def split: list.splits if_splits)
  then show ?thesis
    unfolding publishGuestStatus_def by (intro keeps_rules server.keepings)
qed

subsection \<open>A cycle that returns\<close>

text \<open>The last stage: flow control answered for the snapshot, and its answer is stored.\<close>

lemma optimize_Inr:
  fixes w w' :: "'x world" and x :: "('x, 'ds) Externals"
  assumes "cycle_optimize (server_cycle x cfg) ctx t e settings graph windowEnd snapshot gaps sensorSets past w = (Inr u, w')"
  obtains input outcome ctx' and wa wb :: "'x world" where
    "fc_Optimize (NewFlowControlClient (xt_protojson x) (xt_flow x)) ctx' input wa = (Inr outcome, wb)"
    "oi_Snapshot input = snapshot"
    "insert_outcome (xt_jsonb_text x) e (outcome\<lparr>oo_SnapshotID := sn_ID snapshot\<rparr>) (w_db w) = Inr ((), w_db w')"
proof -
  let ?c = "server_cycle x cfg"
  have flow: "oc_flow ?c = NewFlowControlClient (xt_protojson x) (xt_flow x)"
    by (simp add: server_cycle_def NewObservationCycle_def)
  have save: "sp_SaveOptimizationOutcome (oc_snapshots ?c) = SaveOptimizationOutcome (xt_jsonb_text x)"
    by (simp add: server_cycle_def NewObservationCycle_def server_snapshots_def NewPostgresSnapshotRepository_def)
  from assms obtain previous w1 t0 w2 input ctx' outcome w3 w4 where
    prev: "cycle_previous ?c ctx e w = (Inr previous, w1)" and clock: "now w1 = (Inr t0, w2)" and
    opt: "fc_Optimize (oc_flow ?c) ctx' input w2 = (Inr outcome, w3)" "oi_Snapshot input = snapshot" and
    stored: "SaveOptimizationOutcome (xt_jsonb_text x) ctx e (outcome\<lparr>oo_SnapshotID := sn_ID snapshot\<rparr>) w3 = (Inr (), w4)" and
    deliver: "deliverToOperation ?c ctx t e (outcome\<lparr>oo_SnapshotID := sn_ID snapshot\<rparr>) w4 = (Inr u, w')"
    unfolding cycle_optimize_def Let_def case_prod_unfold
    by (auto simp: bindE_Inr wrapE_Inr save)
  have keeps_previous: "db_keeps (\<lambda>d. d = w_db w) (cycle_previous ?c ctx e)"
    unfolding cycle_previous_def by (intro keeps_rules server.keepings)
  from keepsD [OF keeps_previous _ prev] have "w_db w1 = w_db w" by simp
  moreover have "w_db w2 = w_db w1" using readerD [OF reader_basic(3) clock] .
  moreover have "w_db w3 = w_db w2" using readerD [OF server.flow_reader opt(1)] .
  moreover have "w_db w' = w_db w4" using keepsD [OF server.deliver_reader [of "\<lambda>d. d = w_db w4"] _ deliver] by simp
  ultimately have "insert_outcome (xt_jsonb_text x) e (outcome\<lparr>oo_SnapshotID := sn_ID snapshot\<rparr>) (w_db w) = Inr ((), w_db w')"
    using stored by (auto simp: SaveOptimizationOutcome_def sql_Inr)
  with opt flow that show thesis by metis
qed

text \<open>A whole cycle: the snapshot saved, and the answer about it.\<close>

lemma Run_Inr:
  fixes w w' :: "'x world" and x :: "('x, 'ds) Externals"
  assumes "Run (server_cycle x cfg) ctx t e w = (Inr u, w')"
  obtains snapshot d0 d1 d2 input outcome ctx' and wa wb :: "'x world" where
    "sn_EventID snapshot = e" "db_snapshots d0 = db_snapshots (w_db w)"
    "snapshot_saved (xt_timestamptz x) t snapshot d0 d1" "db_snapshots d2 = db_snapshots d1"
    "fc_Optimize (NewFlowControlClient (xt_protojson x) (xt_flow x)) ctx' input wa = (Inr outcome, wb)"
    "oi_Snapshot input = snapshot"
    "insert_outcome (xt_jsonb_text x) e (outcome\<lparr>oo_SnapshotID := sn_ID snapshot\<rparr>) d2 = Inr ((), w_db w')"
proof -
  let ?c = "server_cycle x cfg"
  have save: "sp_SaveSnapshot (oc_snapshots ?c) = SaveSnapshot (xt_timestamptz x) (xt_ln_pow x)"
    by (simp add: server_cycle_def NewObservationCycle_def server_snapshots_def NewPostgresSnapshotRepository_def)
  from assms obtain graph windowEnd snapshot gaps composed w1 sensorSets w2 settings w3 past w4 w5 w6 where
    compose: "cycle_compose ?c ctx t e w = (Inr (graph, windowEnd, snapshot, gaps, composed), w1)" and
    sensors: "cycle_sensor_sets ?c ctx e windowEnd composed w1 = (Inr sensorSets, w2)" and
    settings: "findObservationSettings ctx (oc_settings ?c) e w2 = (Inr settings, w3)" and
    history: "cycle_history ?c ctx e windowEnd settings sensorSets w3 = (Inr past, w4)" and
    saved: "SaveSnapshot (xt_timestamptz x) (xt_ln_pow x) ctx t snapshot w4 = (Inr (), w5)" and
    guest: "publishGuestStatus ?c ctx t e windowEnd w5 = (Inr (), w6)" and
    optimize: "cycle_optimize ?c ctx t e settings graph windowEnd snapshot gaps sensorSets past w6 = (Inr u, w')"
    unfolding Run_def by (auto simp: bindE_Inr wrapE_Inr save)
  have "snapshots_kept (w_db w) (w_db w1)" using keepsD [OF compose_kept _ compose] by simp
  then have "snapshots_kept (w_db w) (w_db w2)" using keepsD [OF sensor_sets_kept _ sensors] by blast
  then have "snapshots_kept (w_db w) (w_db w3)" using keepsD [OF server.settings_step _ settings] by blast
  then have "snapshots_kept (w_db w) (w_db w4)" using keepsD [OF server.history_step _ history] by blast
  then have before: "db_snapshots (w_db w4) = db_snapshots (w_db w)" by (simp add: snapshots_kept_def)
  have "snapshots_kept (w_db w5) (w_db w6)" using keepsD [OF guest_status_kept _ guest] by simp
  then have after: "db_snapshots (w_db w6) = db_snapshots (w_db w5)" by (simp add: snapshots_kept_def)
  show thesis
    by (rule optimize_Inr [OF optimize], rule that [OF server.compose_event [OF compose] before SaveSnapshot_Inr [OF saved] after])
qed

subsection \<open>The overview\<close>

lemma query_one_Inl:
  "query_one q w = (Inl err, w') \<Longrightarrow> (q (w_db w) = [] \<and> err = Err SqlErrNoRows) \<or> (\<exists>de. err = driver_err de)"
  unfolding query_one_def by (drule sql_Inl) (auto split: list.splits)

lemma LatestSnapshot_not_missing:
  assumes "LatestSnapshot ctx e w = (Inl err, w')"
    and "latest_rows sr_id (filter (\<lambda>r. sr_event_id r = e) (db_snapshots (w_db w))) = row # rest" and "snapshot_of_row row = Inr s"
  shows "\<not> errors_is err ErrSnapshotNotFound"
  using assms
  by (auto simp: LatestSnapshot_def bindE_Inl catchE_Inl catchE_Inr query_one_Inr split: if_splits
      dest!: query_one_Inl driver_err_is)

lemma LatestOutcome_not_missing:
  assumes "LatestOptimizationOutcome ctx e w = (Inl err, w')" and "outcome_rows e (w_db w) = row # rest"
  shows "\<not> errors_is err ErrOptimizationOutcomeMissing"
  using assms
  by (auto simp: LatestOptimizationOutcome_def bindE_Inl catchE_Inl case_prod_unfold split: if_splits
      dest!: query_one_Inl driver_err_is)


lemma snapshot_saved_distinct:
  assumes "snapshot_saved ts t s d d1" and "distinct (map sr_snapshot_id (db_snapshots d))"
  shows "distinct (map sr_snapshot_id (db_snapshots d1))"
proof -
  from assms(1) obtain row where "db_snapshots d1 = db_snapshots d @ [row]" "sr_snapshot_id row = sn_ID s"
    by (auto simp: snapshot_saved_def snapshot_row_of_def)
  moreover have "sn_ID s \<notin> sr_snapshot_id ` set (db_snapshots d)" using assms(1) by (auto simp: snapshot_saved_def)
  ultimately show ?thesis using assms(2) by simp
qed

lemma overview_outcome_shows:
  assumes "overview_outcome (server_status x) ctx e snapshot w = (Inr overview, w')" and "outcome_rows e (w_db w) = (orow, row) # rest"
  shows "overview = \<lparr>ov_Snapshot = Some snapshot, ov_Diagnostics = or_diagnostics orow\<rparr>"
proof -
  have latest: "sp_LatestOptimizationOutcome (st_snapshots (server_status x)) = LatestOptimizationOutcome"
    by (simp add: server_status_def NewStatusQueryService_def server_snapshots_def NewPostgresSnapshotRepository_def)
  from assms(1) consider outcome w1 where "LatestOptimizationOutcome ctx e w = (Inr outcome, w1)"
      "overview = \<lparr>ov_Snapshot = Some snapshot, ov_Diagnostics = oo_Diagnostics outcome\<rparr>"
    | err w1 where "LatestOptimizationOutcome ctx e w = (Inl err, w1)" "errors_is err ErrOptimizationOutcomeMissing"
    by (auto simp: overview_outcome_def latest catchE_Inr bindE_Inr bindE_Inl split: if_splits)
  then show ?thesis
  proof cases
    case 1
    then show ?thesis using assms(2)
      by (auto simp: LatestOptimizationOutcome_def bindE_Inr catchE_Inr query_one_Inr split: if_splits)
  next
    case 2
    with LatestOutcome_not_missing [OF 2(1) assms(2)] show ?thesis by blast
  qed
qed

lemma overview_shows:
  assumes run: "GetEventOverview (server_status x) ctx e w = (Inr overview, w')"
    and latest: "latest_rows sr_id (filter (\<lambda>r. sr_event_id r = e) (db_snapshots (w_db w))) = row # rest"
    and decoded: "snapshot_of_row row = Inr s"
    and outcome: "outcome_rows e (w_db w) = (orow, row') # rest'"
  shows "overview = \<lparr>ov_Snapshot = Some s, ov_Diagnostics = or_diagnostics orow\<rparr>"
proof -
  have sp: "sp_LatestSnapshot (st_snapshots (server_status x)) = LatestSnapshot"
    by (simp add: server_status_def NewStatusQueryService_def server_snapshots_def NewPostgresSnapshotRepository_def)
  from run obtain found w1 where found: "overview_snapshot (server_status x) ctx e w = (Inr found, w1)"
    and rest: "(case found of None \<Rightarrow> returnE \<lparr>ov_Snapshot = None, ov_Diagnostics = None\<rparr>
      | Some snapshot \<Rightarrow> overview_outcome (server_status x) ctx e snapshot) w1 = (Inr overview, w')"
    by (auto simp: GetEventOverview_def bindE_Inr)
  from found consider s' where "LatestSnapshot ctx e w = (Inr s', w1)" "found = Some s'"
    | err w2 where "LatestSnapshot ctx e w = (Inl err, w2)" "errors_is err ErrSnapshotNotFound"
    by (auto simp: overview_snapshot_def sp catchE_Inr bindE_Inr bindE_Inl split: if_splits)
  then show ?thesis
  proof cases
    case 1
    then have "found = Some s" using LatestSnapshot_Inr [OF 1(1)] latest decoded by auto
    moreover have "w_db w1 = w_db w" using readerD [OF snapshot_readers(5) 1(1)] .
    ultimately show ?thesis
      using overview_outcome_shows [of x ctx e s w1 overview w' orow row' rest'] rest outcome by simp
  next
    case 2
    with LatestSnapshot_not_missing [OF 2(1) latest decoded] show ?thesis by blast
  qed
qed

text \<open>C9. After a cycle that returned, the overview of the event shows the snapshot flow control was last asked about,
  as the database keeps it, with the diagnostics of its answer to that very request, never those of an earlier one.\<close>

theorem GetEventOverview_after_cycle:
  fixes w w1 w2 w3 :: "'x world" and x :: "('x, 'ds) Externals"
  assumes "Run (server_cycle x cfg) ctx t e w = (Inr u, w1)" and "distinct (map sr_snapshot_id (db_snapshots (w_db w)))"
    and "w_db w2 = w_db w1" and "GetEventOverview (server_status x) ctx2 e w2 = (Inr overview, w3)"
  shows "\<exists>ctx' input outcome (wa :: 'x world) wb.
    fc_Optimize (NewFlowControlClient (xt_protojson x) (xt_flow x)) ctx' input wa = (Inr outcome, wb) \<and>
    sn_EventID (oi_Snapshot input) = e \<and>
    overview = \<lparr>ov_Snapshot = Some (stored_snapshot (xt_timestamptz x) (oi_Snapshot input)),
      ov_Diagnostics = Option.bind (oo_Diagnostics outcome) (xt_jsonb_text x)\<rparr>"
proof -
  obtain snapshot d0 d1 d2 input outcome ctx' and wa wb :: "'x world" where
    event: "sn_EventID snapshot = e" and old: "db_snapshots d0 = db_snapshots (w_db w)" and
    saved: "snapshot_saved (xt_timestamptz x) t snapshot d0 d1" and kept: "db_snapshots d2 = db_snapshots d1" and
    opt: "fc_Optimize (NewFlowControlClient (xt_protojson x) (xt_flow x)) ctx' input wa = (Inr outcome, wb)" and
    input: "oi_Snapshot input = snapshot" and
    ins: "insert_outcome (xt_jsonb_text x) e (outcome\<lparr>oo_SnapshotID := sn_ID snapshot\<rparr>) d2 = Inr ((), w_db w1)"
    by (rule Run_Inr [OF assms(1)])
  from saved_latest [OF saved] obtain row rest where
    latest: "latest_rows sr_id (filter (\<lambda>r. sr_event_id r = e) (db_snapshots d1)) = row # rest" and
    row: "sr_snapshot_id row = sn_ID snapshot" "row \<in> set (db_snapshots d1)" and
    decoded: "snapshot_of_row row = Inr (stored_snapshot (xt_timestamptz x) snapshot)" unfolding event by blast
  have "distinct (map sr_snapshot_id (db_snapshots d2))"
    using snapshot_saved_distinct [OF saved] assms(2) old kept by simp
  from insert_outcome_latest [OF ins this, of row] row kept obtain orow where
    outcomes: "outcome_rows e (w_db w1) = (orow, row) # outcome_rows e d2" and snapshots: "db_snapshots (w_db w1) = db_snapshots d1" and
    same: "\<lparr>oo_SnapshotID = or_snapshot_id orow, oo_ServerTime = sr_window_end row, oo_Verdict = or_verdict orow,
       oo_DetectionState = Some (or_detection_state orow), oo_OptimizationResult = or_optimization_result orow,
       oo_FeedbackValues = None, oo_Diagnostics = or_diagnostics orow\<rparr> =
      stored_outcome (xt_jsonb_text x) (sr_window_end row) (outcome\<lparr>oo_SnapshotID := sn_ID snapshot\<rparr>)"
    by auto
  have stored: "or_diagnostics orow = Option.bind (oo_Diagnostics outcome) (xt_jsonb_text x)"
    using arg_cong [OF same, of oo_Diagnostics] by (simp add: stored_outcome_def)
  have "overview = \<lparr>ov_Snapshot = Some (stored_snapshot (xt_timestamptz x) snapshot), ov_Diagnostics = or_diagnostics orow\<rparr>"
    by (rule overview_shows [OF assms(4) _ decoded]) (use latest snapshots outcomes assms(3) in simp_all)
  with opt input event stored show ?thesis by metis
qed

theorem GetEventOverview_after_cycle_witness:
  "\<exists>overview w1 w2. GetEventOverview (server_status sample_externals) (sample_ctx ''t'' ''e'') ''e'' w1 = (Inr overview, w2) \<and>
    (\<exists>s. ov_Snapshot overview = Some (stored_snapshot trunc_us s) \<and> sn_EventID s = ''e'')"
proof -
  obtain w1 overview w2 where
    run: "Run (server_cycle sample_externals sample_server_config) (sample_ctx ''t'' ''e'') ''t'' ''e'' (sample_world [] empty_db ()) = (Inr (), w1)"
    and query: "GetEventOverview (server_status sample_externals) (sample_ctx ''t'' ''e'') ''e'' w1 = (Inr overview, w2)"
    by (rule sample_cycle_steps)
  have "distinct (map sr_snapshot_id (db_snapshots (w_db (sample_world [] empty_db ()))))" by (simp add: empty_db_def)
  from GetEventOverview_after_cycle [OF run this refl query] have "\<exists>s. ov_Snapshot overview = Some (stored_snapshot trunc_us s) \<and> sn_EventID s = ''e''"
    by (auto simp: sample_externals_def)
  with query show ?thesis by blast
qed

end
