(* ===== verification/IngestProperties.thy ===== *)
theory IngestProperties
  imports StatusProperties ConnectService
begin

section \<open>What a report records\<close>

text \<open>
  A report is answered for what was recorded, not for what followed: the cycle after it may fail in every way without failing the report.
  And it records only what the reporter may report: a registered observation page its own points, a QR report the gates that graph
  authoring places in the event for that tenant.
\<close>

text \<open>The two reporters. \<open>device_reports\<close> reads the tables; \<open>gates_report\<close> what graph authoring answered.\<close>

definition device_reports :: "database \<Rightarrow> Ctx \<Rightarrow> string \<Rightarrow> string \<Rightarrow> EdgeDeviceID \<Rightarrow> ObservationPointID list \<Rightarrow> bool" where
  "device_reports d ctx e t dev points \<longleftrightarrow>
     (\<exists>r \<in> set (db_edge_devices d). er_edge_device_id r = dev \<and> er_event_id r = e \<and> er_tenant_public_id r = t \<and>
        \<not> er_unregistered r \<and> dev_Kind (stored_device d r) \<noteq> EdgeDeviceKindCamera \<and> tenant_allows ctx t \<and>
        (\<forall>q \<in> set points. \<exists>p \<in> set (db_observation_points d). op_observation_point_id p = q \<and> op_edge_device_id p = er_id r))"

definition gates_report :: "'x GraphSupply \<Rightarrow> Ctx \<Rightarrow> string \<Rightarrow> string \<Rightarrow> ObservationPointID list \<Rightarrow> bool" where
  "gates_report graphs ctx e t points \<longleftrightarrow>
     t \<noteq> '''' \<and> tenant_allows ctx t \<and>
     (\<exists>revision locations (w :: 'x world) w'. gq_QrLocations graphs ctx t e revision w = (Inr locations, w') \<and>
        set points \<subseteq> set (map mp_ObservationPointID locations))"

definition may_report ::
  "'x GraphSupply \<Rightarrow> database \<Rightarrow> Ctx \<Rightarrow> ReportMeasurementsInput \<Rightarrow> string \<Rightarrow> EdgeDeviceID \<Rightarrow> ObservationPointID list \<Rightarrow> bool" where
  "may_report graphs d ctx input t dev points \<longleftrightarrow>
     EnsureEvent ctx (rm_EventID input) = Inr () \<and>
     (if rm_Method input = MeasurementMethodQR then dev = '''' \<and> t = trim_space (rm_TenantID input) \<and>
        gates_report graphs ctx (rm_EventID input) t points
      else device_reports d ctx (rm_EventID input) t dev points)"

lemma has_stored_point:
  "HasObservationPoint (stored_device d r) q \<Longrightarrow>
     \<exists>p \<in> set (db_observation_points d). op_observation_point_id p = q \<and> op_edge_device_id p = er_id r"
  by (auto simp: HasObservationPoint_def list_ex_iff stored_device_def toDomain_def Let_def stored_points_def point_of_row_def
      points_of_devices_def case_prod_unfold)

lemma resolve_device_Inr:
  assumes "resolve_device_tenant (server_measurements x cfg) ctx input ms w = (Inr (t, dev), w')"
  shows "device_reports (w_db w) ctx (rm_EventID input) t dev (map ms_ObservationPointID ms) \<and> w_db w' = w_db w"
proof -
  have find: "dr_FindByID (mi_devices (server_measurements x cfg)) = FindByID"
    by (simp add: server_measurements_def NewMeasurementIngestService_def NewPostgresEdgeDeviceRepository_def)
  from assms obtain pid device where found: "FindByID ctx pid w = (Inr device, w')"
    and checks: "dev_EventID device = rm_EventID input" "dev_Kind device \<noteq> EdgeDeviceKindCamera" "\<not> dev_Unregistered device"
      "\<forall>m \<in> set ms. HasObservationPoint device (ms_ObservationPointID m)" "t = dev_TenantPublicID device" "dev = dev_ID device"
    by (auto simp: resolve_device_tenant_def Let_def find bindE_Inr wrapE_Inr list_ex_iff split: if_splits)
  show ?thesis
  proof (rule FindByID_Inr [OF found])
    fix r
    assume r: "r \<in> set (db_edge_devices (w_db w))" "er_edge_device_id r = pid" "device = stored_device (w_db w) r"
      "tenant_allows ctx (er_tenant_public_id r)" and db: "w_db w' = w_db w"
    have fields: "er_edge_device_id r = dev" "er_event_id r = rm_EventID input" "er_tenant_public_id r = t" "\<not> er_unregistered r"
      using checks r(3) by (simp_all add: stored_device_def toDomain_def Let_def case_prod_unfold)
    have "\<exists>p \<in> set (db_observation_points (w_db w)). op_observation_point_id p = q \<and> op_edge_device_id p = er_id r"
      if "q \<in> set (map ms_ObservationPointID ms)" for q
      using that checks(4) r(3) by (auto intro!: has_stored_point)
    with r fields checks(2) db show ?thesis unfolding device_reports_def by blast
  qed
qed

lemma resolve_qr_Inr:
  fixes w w' :: "'x world" and x :: "('x, 'ds) Externals"
  assumes "resolveQRTenant (server_measurements x cfg) ctx tenant e ms w = (Inr t, w')" and "tenant_allows ctx tenant"
  shows "t = tenant \<and> gates_report (server_graphs x) ctx e t (map ms_ObservationPointID ms) \<and> w_db w' = w_db w"
proof -
  have graphs: "mi_graphs (server_measurements x cfg) = server_graphs x"
    by (simp add: server_measurements_def NewMeasurementIngestService_def)
  from assms(1) obtain graph w1 locations where t: "t = tenant" "tenant \<noteq> ''''" and
    graph: "gq_CurrentGraph (server_graphs x) ctx e w = (Inr graph, w1)" and
    locations: "gq_QrLocations (server_graphs x) ctx tenant e (gr_RevisionID graph) w1 = (Inr locations, w')" and
    placed: "\<forall>m \<in> set ms. ms_ObservationPointID m \<in> mp_ObservationPointID ` set locations"
    by (auto simp: resolveQRTenant_def Let_def graphs bindE_Inr wrapE_Inr list_ex_iff split: if_splits)
  have "w_db w1 = w_db w" "w_db w' = w_db w1"
    using readerD [OF reader_graphs(1)] readerD [OF reader_graphs(3)] graph locations unfolding server_graphs_def by blast+
  moreover have "gates_report (server_graphs x) ctx e t (map ms_ObservationPointID ms)"
    unfolding gates_report_def
  proof (intro conjI exI)
    show "gq_QrLocations (server_graphs x) ctx t e (gr_RevisionID graph) w1 = (Inr locations, w')" using locations t by simp
    show "set (map ms_ObservationPointID ms) \<subseteq> set (map mp_ObservationPointID locations)" using placed by auto
  qed (use t assms(2) in auto)
  ultimately show ?thesis using t by simp
qed

lemma resolveTenant_Inr:
  fixes w w' :: "'x world" and x :: "('x, 'ds) Externals"
  assumes "resolveTenant (server_measurements x cfg) ctx input ms w = (Inr (t, dev), w')" and "EnsureEvent ctx (rm_EventID input) = Inr ()"
  shows "may_report (server_graphs x) (w_db w) ctx input t dev (map ms_ObservationPointID ms) \<and> w_db w' = w_db w"
proof (cases "rm_Method input = MeasurementMethodQR")
  case True
  let ?t = "trim_space (rm_TenantID input)"
  from True assms(1) have allowed: "?t \<noteq> '''' \<longrightarrow> tenant_allows ctx ?t" and dev: "dev = ''''" and
    qr: "resolveQRTenant (server_measurements x cfg) ctx ?t (rm_EventID input) ms w = (Inr t, w')"
    by (auto simp: resolveTenant_def Let_def bindE_Inr VerifyOwnership_iff split: if_splits)
  moreover have "?t \<noteq> ''''" using qr by (auto simp: resolveQRTenant_def)
  ultimately show ?thesis using resolve_qr_Inr [OF qr] True assms(2) unfolding may_report_def by auto
next
  case False
  with assms(1) have "resolve_device_tenant (server_measurements x cfg) ctx input ms w = (Inr (t, dev), w')"
    by (auto simp: resolveTenant_def Let_def bindE_Inr split: if_splits)
  from resolve_device_Inr [OF this] False assms(2) show ?thesis unfolding may_report_def by simp
qed

lemma resolveTenant_reader: "reader (resolveTenant (server_measurements x cfg) ctx input ms)"
  unfolding resolveTenant_def resolveQRTenant_def resolve_device_tenant_def Let_def server_measurements_def NewMeasurementIngestService_def
    NewPostgresEdgeDeviceRepository_def server_graphs_def
  by (auto intro!: relates_rules reader_graphs reader_finders)

subsection \<open>The outcome of a report\<close>

text \<open>
  Recorded: the rows of the report are there, entitled, and after them nothing but what a cycle of that event and tenant may write.
\<close>

definition report_recorded ::
  "('x, 'ds) Externals \<Rightarrow> Ctx \<Rightarrow> ReportMeasurementsInput \<Rightarrow> string \<Rightarrow> EdgeDeviceID \<Rightarrow> Measurement list \<Rightarrow> database \<Rightarrow> database \<Rightarrow> bool" where
  "report_recorded x ctx input t dev ms d d' \<longleftrightarrow>
     mapS measurement_of_input (rm_Measurements input) = Inr ms \<and>
     may_report (server_graphs x) d ctx input t dev (map ms_ObservationPointID ms) \<and>
     (\<exists>d1. stores (xt_timestamptz x) t (rm_EventID input) dev ms d d1 \<and> cycle_frame t (rm_EventID input) d1 d')"

lemma handle_cycle:
  assumes "handleE (Run (server_cycle x cfg) ctx t e) (\<lambda>err. slog text) w = (r, w')"
  shows "cycle_frame t e (w_db w) (w_db w') \<and> (case r of Inl err \<Rightarrow> is_panic err | Inr _ \<Rightarrow> True)"
proof -
  obtain r1 w1 where run: "Run (server_cycle x cfg) ctx t e w = (r1, w1)" by fastforce
  then have frame: "cycle_frame t e (w_db w) (w_db w1)"
    using keepsD [OF server.Run_step [of t e "w_db w" x cfg ctx] _ run] by (simp add: cycle_step_def)
  show ?thesis using assms run frame
    by (auto simp: handleE_def catchE_def slog_def throwE_def split: sum.splits if_splits)
qed

lemma ReportMeasurements_outcome:
  fixes w w' :: "'x world" and x :: "('x, 'ds) Externals"
  assumes "ReportMeasurements (server_measurements x cfg) ctx input w = (r, w')" and "\<not> ctx_tx ctx"
  obtains (refused) err where "r = Inl err" "w_db w' = w_db w"
  | (recorded) t dev ms where "report_recorded x ctx input t dev ms (w_db w) (w_db w')"
      "r = Inr (word_of_nat (length (new_rows (xt_timestamptz x) t (rm_EventID input) dev ms (db_measurements (w_db w))))) \<or>
       (\<exists>err. r = Inl err \<and> is_panic err) \<or> (\<exists>err. r = Inl (Wrap ''record measurements'' (Wrap ''commit transaction'' err)))"
proof -
  let ?s = "server_measurements x cfg" and ?e = "rm_EventID input" and ?ts = "xt_timestamptz x"
  have parts: "mi_cycle ?s = Run (server_cycle x cfg)" "mr_RecordAll (mi_measurements ?s) = RecordAll ?ts"
    by (simp_all add: server_measurements_def NewMeasurementIngestService_def NewPostgresMeasurementRepository_def)
  note run = assms(1) [unfolded ReportMeasurements_def parts]
  consider err where "EnsureEvent ctx ?e = Inl err" | err where "EnsureEvent ctx ?e = Inr ()" "mapS measurement_of_input (rm_Measurements input) = Inl err"
    | ms where "EnsureEvent ctx ?e = Inr ()" "mapS measurement_of_input (rm_Measurements input) = Inr ms"
    by (cases "EnsureEvent ctx ?e"; cases "mapS measurement_of_input (rm_Measurements input)") auto
  then show thesis
  proof cases
    case 1
    with run have "r = Inl err" "w' = w" by (auto simp: bindE_def liftE_def throwE_def returnE_def)
    then show thesis by (intro refused) simp_all
  next
    case 2
    with run have "r = Inl err" "w' = w" by (auto simp: bindE_def liftE_def throwE_def returnE_def)
    then show thesis by (intro refused) simp_all
  next
    case (3 ms)
    obtain rt w1 where resolve: "resolveTenant ?s ctx input ms w = (rt, w1)" by fastforce
    have same: "w_db w1 = w_db w" by (rule readerD [OF resolveTenant_reader resolve])
    show thesis
    proof (cases rt)
      case (Inl err)
      with run 3 resolve have "r = Inl err" "w' = w1" by (auto simp: bindE_def liftE_def throwE_def returnE_def)
      with same show thesis by (intro refused) simp_all
    next
      case (Inr td)
      obtain t dev where td: "td = (t, dev)" by fastforce
      obtain ra w2 where recording: "RecordAll ?ts ctx t ?e dev ms w1 = (ra, w2)" by fastforce
      from run 3 resolve Inr td recording have rest: "(case ra of Inl err \<Rightarrow> (Inl (Wrap ''record measurements'' err), w2)
          | Inr accepted \<Rightarrow> (if accepted = 0 then returnE 0
              else bindE (handleE (Run (server_cycle x cfg) ctx t ?e) (\<lambda>err. slog ''observation cycle failed'')) (\<lambda>_. returnE accepted)) w2) = (r, w')"
        by (auto simp: bindE_def [of "liftE _"] bindE_def [of "resolveTenant _ _ _ _"] bindE_def [of "wrapE _ _"] liftE_def wrapE_def split: sum.splits)
      from resolveTenant_Inr [OF resolve [unfolded Inr td] 3(1)]
      have may: "may_report (server_graphs x) (w_db w) ctx input t dev (map ms_ObservationPointID ms)" by simp
      show thesis
      proof (rule RecordAll_outcome [OF recording assms(2)])
        fix err assume "ra = Inl err" "w_db w2 = w_db w1"
        with rest same show thesis by (intro refused) auto
      next
        fix n
        assume stored: "stores ?ts t ?e dev ms (w_db w1) (w_db w2)"
          and n: "n = word_of_nat (length (new_rows ?ts t ?e dev ms (db_measurements (w_db w1))))"
          and res: "ra = Inr n \<or> (\<exists>err. ra = Inl (Wrap ''commit transaction'' err))"
        have after: "report_recorded x ctx input t dev ms (w_db w) (w_db w')" if "cycle_frame t ?e (w_db w2) (w_db w')"
          using that stored may 3(2) same unfolding report_recorded_def by auto
        show thesis
        proof (cases "\<exists>err. ra = Inl (Wrap ''commit transaction'' err)")
          case True
          with rest have "w' = w2" "\<exists>err. r = Inl (Wrap ''record measurements'' (Wrap ''commit transaction'' err))" by auto
          with after show thesis by (intro recorded) auto
        next
          case False
          with res rest have rest: "(if n = 0 then returnE 0
              else bindE (handleE (Run (server_cycle x cfg) ctx t ?e) (\<lambda>err. slog ''observation cycle failed'')) (\<lambda>_. returnE n)) w2 = (r, w')"
            by auto
          have "cycle_frame t ?e (w_db w2) (w_db w') \<and> (r = Inr n \<or> (\<exists>err. r = Inl err \<and> is_panic err))"
          proof (cases "n = 0")
            case True
            with rest show ?thesis by (auto simp: returnE_def)
          next
            case False
            obtain rc w3 where cycle: "handleE (Run (server_cycle x cfg) ctx t ?e) (\<lambda>err. slog ''observation cycle failed'') w2 = (rc, w3)"
              by fastforce
            from handle_cycle [OF cycle] rest False cycle show ?thesis by (auto simp: bindE_def returnE_def split: sum.splits)
          qed
          with after n same show thesis by (intro recorded) auto
        qed
      qed
    qed
  qed
qed

text \<open>C5. The answer to a report tells whether it was recorded, whatever fails: an error means that nothing changed, or it says that the answer to the
  commit was lost (the report may be sent again), or the handler panicked. A report that was recorded is answered with the number of its new
  rows even when the cycle that follows, its database or a peer fails; and beyond those rows only what a cycle writes changes.\<close>

theorem ReportMeasurements_answer:
  fixes w w' :: "'x world" and x :: "('x, 'ds) Externals"
  assumes "ReportMeasurements (server_measurements x cfg) ctx input w = (r, w')" and "\<not> ctx_tx ctx"
  shows "((\<exists>err. r = Inl err) \<and> w_db w' = w_db w) \<or>
    (\<exists>t dev ms. report_recorded x ctx input t dev ms (w_db w) (w_db w') \<and>
      (r = Inr (word_of_nat (length (new_rows (xt_timestamptz x) t (rm_EventID input) dev ms (db_measurements (w_db w))))) \<or>
       (\<exists>err. r = Inl err \<and> is_panic err) \<or> (\<exists>err. r = Inl (Wrap ''record measurements'' (Wrap ''commit transaction'' err)))))"
  using assms by (rule ReportMeasurements_outcome) blast+

lemma recorded_rows:
  assumes "report_recorded x ctx input t dev ms d d'" and "row \<in> set (db_measurements d')" and "row \<notin> set (db_measurements d)"
  shows "\<exists>m k. m \<in> set ms \<and> row = measurement_row_of (xt_timestamptz x) t (rm_EventID input) dev k m"
proof -
  have new: "\<exists>m k. m \<in> set ms \<and> row = measurement_row_of ts t e dev k m" if "row \<in> set (new_rows ts t e dev ms rows)" for ts e ms rows
    using that
  proof (induction ms arbitrary: rows)
    case (Cons a ms)
    from Cons.prems consider "row = measurement_row_of ts t e dev (next_id me_id rows) a"
      | rows' where "row \<in> set (new_rows ts t e dev ms rows')" by (auto simp: Let_def split: if_splits)
    then show ?case using Cons.IH by cases (auto, blast)
  qed simp
  from assms(1) obtain d1 where "stores (xt_timestamptz x) t (rm_EventID input) dev ms d d1"
    "db_measurements d' = db_measurements d1" by (auto simp: report_recorded_def cycle_frame_def untouched_devices_def)
  with assms(2,3) new show ?thesis by (auto simp: stores_def)
qed

lemma may_report_point:
  assumes "may_report graphs d ctx input t dev (map ms_ObservationPointID ms)" and "m \<in> set ms"
  shows "may_report graphs d ctx input t dev [ms_ObservationPointID m]"
proof (cases "rm_Method input = MeasurementMethodQR")
  case True
  with assms show ?thesis unfolding may_report_def gates_report_def by (simp add: image_subset_iff) blast
next
  case False
  with assms show ?thesis unfolding may_report_def device_reports_def by simp blast
qed

text \<open>C6. Every measurement a report adds is one its sender may report: of the event of the caller's claims, under a tenant the claims
  allow, and either of a point of the reporting device, which is registered in that event and no camera, or of a gate that
  graph authoring has placed in the event for that tenant.\<close>

theorem ReportMeasurements_authorized:
  fixes w w' :: "'x world" and x :: "('x, 'ds) Externals"
  assumes "ReportMeasurements (server_measurements x cfg) ctx input w = (r, w')" and "\<not> ctx_tx ctx"
    and "row \<in> set (db_measurements (w_db w'))" and "row \<notin> set (db_measurements (w_db w))"
  shows "me_event_id row = rm_EventID input \<and>
    (\<exists>dev. me_edge_device_id row = nullif_empty dev \<and>
       may_report (server_graphs x) (w_db w) ctx input (me_tenant_public_id row) dev [me_observation_point_id row])"
  using assms(1,2)
proof (rule ReportMeasurements_outcome)
  fix err assume "w_db w' = w_db w"
  with assms(3,4) show ?thesis by simp
next
  fix t dev ms
  assume rec: "report_recorded x ctx input t dev ms (w_db w) (w_db w')"
  from recorded_rows [OF rec assms(3,4)] obtain m k where m: "m \<in> set ms"
    and row: "row = measurement_row_of (xt_timestamptz x) t (rm_EventID input) dev k m" by blast
  from rec have may: "may_report (server_graphs x) (w_db w) ctx input t dev (map ms_ObservationPointID ms)"
    by (simp add: report_recorded_def)
  have "may_report (server_graphs x) (w_db w) ctx input t dev [ms_ObservationPointID m]"
    using may m by (rule may_report_point)
  then show ?thesis by (auto simp: row measurement_row_of_def)
qed

subsection \<open>A gate reports\<close>

definition gate_externals :: "(unit, unit) Externals" where
  "gate_externals = sample_externals\<lparr>xt_graph := (xt_graph sample_externals)\<lparr>gc_GetQrLocations :=
     (\<lambda>info e revision t x. (Inr [\<lparr>mm_Id = ''00000000000000aa'', mm_AnchorPointId = ''p'', mm_AnchorRouteId = ''''\<rparr>], x))\<rparr>\<rparr>"

definition gate_report :: ReportMeasurementsInput where
  "gate_report = \<lparr>rm_TenantID = '' t'', rm_EventID = ''e'', rm_EdgeDeviceID = '''', rm_Method = MeasurementMethodQR,
     rm_Measurements = [\<lparr>mn_ObservationPointID = ''00000000000000aa'', mn_WindowStart = 0, mn_WindowEnd = minute, mn_CountIn = 3,
       mn_CountOut = 1, mn_MeanDetectedPeople = Some (Num False 2)\<rparr>]\<rparr>"

abbreviation "gate_row \<equiv> measurement_row_of trunc_us ''t'' ''e'' '''' 1 sample_measurement"

lemma gate_measurements: "mapS measurement_of_input (rm_Measurements gate_report) = Inr [sample_measurement]"
  by code_simp

lemma gate_strings: "trim_space (rm_TenantID gate_report) = ''t''" "EnsureEvent (sample_ctx ''t'' ''e'') ''e'' = Inr ()"
  "VerifyOwnership (sample_ctx ''t'' ''e'') ''t'' = Inr ()"
  by code_simp+

lemma gate_tenant:
  "resolveTenant (server_measurements gate_externals cfg) (sample_ctx ''t'' ''e'') gate_report [sample_measurement] (sample_world [] empty_db ()) =
     (Inr (''t'', ''''), sample_world [] empty_db ())"
proof -
  have "gq_CurrentGraph (server_graphs gate_externals) ctx e w = (Inr \<lparr>gr_EventID = e, gr_RevisionID = ''rev'', gr_Points = [], gr_Routes = []\<rparr>, w)"
    "gq_QrLocations (server_graphs gate_externals) ctx t e revision w =
       (Inr [\<lparr>mp_ObservationPointID = ''00000000000000aa'', mp_Anchor = GraphAnchor ''p'' '''', mp_Method = MeasurementMethodQR\<rparr>], w)"
    for ctx t e revision and w :: "unit world"
    by (simp_all add: server_graphs_def NewGraphSupplyClient_def CurrentGraph_def QrLocations_def gate_externals_def sample_externals_def
        remote_def bindE_def wrapE_def returnE_def mapping_of_message_def)
  moreover have "mi_graphs (server_measurements gate_externals cfg) = server_graphs gate_externals"
    by (simp add: server_measurements_def NewMeasurementIngestService_def)
  moreover have "rm_Method gate_report = MeasurementMethodQR" "rm_EventID gate_report = ''e''"
    "ms_ObservationPointID sample_measurement = ''00000000000000aa''"
    by (simp_all add: gate_report_def sample_measurement_def)
  ultimately show ?thesis
    by (simp add: resolveTenant_def Let_def gate_strings resolveQRTenant_def bindE_def liftE_def wrapE_def returnE_def)
qed

lemma gate_record:
  "\<exists>w'. RecordAll trunc_us (sample_ctx ''t'' ''e'') ''t'' ''e'' '''' [sample_measurement] (sample_world [] empty_db ()) = (Inr 1, w') \<and>
     db_measurements (w_db w') = [gate_row]"
proof -
  have "\<not> window_taken [] (measurement_row_of trunc_us ''t'' ''e'' '''' k sample_measurement)" for k
    by (simp add: window_taken_def)
  then show ?thesis
    by (simp add: RecordAll_def RunInTransaction_def runInTransaction_def sample_ctx_def sample_world_def
        next_fault_def record_one_def insert_measurement_def Let_def check_window_ok sample_measurement_ok bindE_def wrapE_def
        sql_def returnE_def commit_def empty_db_def next_id_def)
qed

lemma gate_report_runs:
  obtains r w' where "ReportMeasurements (server_measurements gate_externals sample_server_config) (sample_ctx ''t'' ''e'') gate_report
      (sample_world [] empty_db ()) = (r, w')" "db_measurements (w_db w') = [gate_row]"
proof -
  let ?s = "server_measurements gate_externals sample_server_config"
  have parts: "mi_cycle ?s = Run (server_cycle gate_externals sample_server_config)" "mr_RecordAll (mi_measurements ?s) = RecordAll trunc_us"
    by (simp_all add: server_measurements_def NewMeasurementIngestService_def NewPostgresMeasurementRepository_def gate_externals_def
        sample_externals_def)
  obtain w1 where recorded: "RecordAll trunc_us (sample_ctx ''t'' ''e'') ''t'' ''e'' '''' [sample_measurement] (sample_world [] empty_db ()) = (Inr 1, w1)"
    "db_measurements (w_db w1) = [gate_row]" using gate_record by blast
  obtain rc w2 where cycle: "handleE (Run (server_cycle gate_externals sample_server_config) (sample_ctx ''t'' ''e'') ''t'' ''e'')
      (\<lambda>err. slog ''observation cycle failed'') w1 = (rc, w2)" by fastforce
  have event: "rm_EventID gate_report = ''e''" by (simp add: gate_report_def)
  have "\<exists>r. ReportMeasurements ?s (sample_ctx ''t'' ''e'') gate_report (sample_world [] empty_db ()) = (r, w2)"
    unfolding ReportMeasurements_def parts event gate_measurements
    by (cases rc) (simp_all add: bindE_def liftE_def returnE_def gate_strings gate_tenant wrapE_def recorded cycle)
  moreover have "db_measurements (w_db w2) = [gate_row]"
    using handle_cycle [OF cycle] recorded(2) by (auto simp: cycle_frame_def untouched_devices_def)
  ultimately show thesis using that by blast
qed

theorem ReportMeasurements_answer_witness:
  "\<exists>r w'. ReportMeasurements (server_measurements gate_externals sample_server_config) (sample_ctx ''t'' ''e'') gate_report
      (sample_world [] empty_db ()) = (r, w') \<and>
    (\<exists>t dev ms. report_recorded gate_externals (sample_ctx ''t'' ''e'') gate_report t dev ms empty_db (w_db w'))"
proof -
  obtain r w' where run: "ReportMeasurements (server_measurements gate_externals sample_server_config) (sample_ctx ''t'' ''e'') gate_report
      (sample_world [] empty_db ()) = (r, w')" and row: "db_measurements (w_db w') = [gate_row]" by (rule gate_report_runs)
  have "w_db w' \<noteq> empty_db" using row by (auto simp: empty_db_def)
  with ReportMeasurements_answer [OF run sample_ctx_tx] run show ?thesis by auto
qed

theorem ReportMeasurements_authorized_witness:
  "\<exists>w' :: unit world. gate_row \<in> set (db_measurements (w_db w')) \<and>
    (\<exists>dev. me_edge_device_id gate_row = nullif_empty dev \<and>
      may_report (server_graphs gate_externals) empty_db (sample_ctx ''t'' ''e'') gate_report ''t'' dev [''00000000000000aa''])"
proof -
  obtain r w' where run: "ReportMeasurements (server_measurements gate_externals sample_server_config) (sample_ctx ''t'' ''e'') gate_report
      (sample_world [] empty_db ()) = (r, w')" and row: "db_measurements (w_db w') = [gate_row]" by (rule gate_report_runs)
  have new: "gate_row \<in> set (db_measurements (w_db w'))" "gate_row \<notin> set (db_measurements (w_db (sample_world [] empty_db ())))"
    using row by (simp_all add: empty_db_def)
  from ReportMeasurements_authorized [OF run sample_ctx_tx new] new(1) show ?thesis
    by (auto simp: measurement_row_of_def sample_measurement_def)
qed

end
