(* ===== verification/FlowProperties.thy ===== *)
theory FlowProperties
  imports Server
begin

section \<open>What flow control is asked\<close>

text \<open>
  The loops of the flow client against their specification: the observations are those of the scores, held scores and invalid anchors that
  name an element of the graph, in this order, each with its confidence flag. From this the request is well formed whatever the
  cycle composed. And what flow control answered is what it is given back the next time.
\<close>

subsection \<open>The observations as lists\<close>

definition flagged_routes :: "Snapshot \<Rightarrow> Gaps \<Rightarrow> (RouteScore \<times> ConfidenceFlag) list" where
  "flagged_routes snapshot gaps =
     map (\<lambda>s. (s, CONFIDENCE_FLAG_OK)) (sn_RouteScores snapshot) @ map (\<lambda>s. (s, CONFIDENCE_FLAG_HOLD)) (ga_HeldRouteScores gaps) @
     map (\<lambda>r. (invalid_route r, CONFIDENCE_FLAG_INVALID)) (ga_InvalidRouteIDs gaps)"

definition flagged_points :: "Snapshot \<Rightarrow> Gaps \<Rightarrow> (PointScore \<times> ConfidenceFlag) list" where
  "flagged_points snapshot gaps =
     map (\<lambda>s. (s, CONFIDENCE_FLAG_OK)) (sn_PointScores snapshot) @ map (\<lambda>s. (s, CONFIDENCE_FLAG_HOLD)) (ga_HeldPointScores gaps) @
     map (\<lambda>p. (invalid_point p, CONFIDENCE_FLAG_INVALID)) (ga_InvalidPointIDs gaps)"

fun arc_flows :: "RouteScore \<times> ConfidenceFlag \<Rightarrow> ArcFlow list" where
  "arc_flows (s, flag) =
     [\<lparr>af_EdgeId = rs_RouteID s, af_Direction = FLOW_DIRECTION_A_TO_B, af_FlowRate = rs_Forward s, af_ConfidenceFlag = flag\<rparr>,
      \<lparr>af_EdgeId = rs_RouteID s, af_Direction = FLOW_DIRECTION_B_TO_A, af_FlowRate = rs_Backward s, af_ConfidenceFlag = flag\<rparr>]"

fun arc_stagnations :: "RouteScore \<times> ConfidenceFlag \<Rightarrow> ArcStagnation list" where
  "arc_stagnations (s, flag) =
     (case rs_StagnationScore s of None \<Rightarrow> []
      | Some stagnation \<Rightarrow> [\<lparr>ast_EdgeId = rs_RouteID s, ast_Stagnation = stagnation, ast_Derivation = STAGNATION_DERIVATION_BASIC,
          ast_SameSensorFlow = rs_SameSensorFlow s, ast_ConfidenceFlag = flag\<rparr>])"

fun node_occupancy :: "PointScore \<times> ConfidenceFlag \<Rightarrow> NodeOccupancy" where
  "node_occupancy (s, flag) =
     \<lparr>no_NodeId = ps_PointID s, no_Occupancy = ps_PeopleScore s,
      no_OccupancyDelta = (if flag = CONFIDENCE_FLAG_HOLD then None else ps_OccupancyDelta s),
      no_SameSensorArrival = False, no_ConfidenceFlag = flag\<rparr>"

abbreviation "sent_routes edgeIDs xs \<equiv> filter (\<lambda>(s, flag). rs_RouteID s \<in> edgeIDs \<and> rs_Exhaustive s) xs"
abbreviation "sent_points nodeIDs xs \<equiv> filter (\<lambda>(s, flag). ps_PointID s \<in> nodeIDs \<and> ps_Exhaustive s) xs"

lemma addRoute_step:
  "addRoute edgeIDs flag s obs =
     (if rs_RouteID s \<in> edgeIDs \<and> rs_Exhaustive s
      then obs\<lparr>ob_ArcFlows := ob_ArcFlows obs @ arc_flows (s, flag), ob_ArcStagnations := ob_ArcStagnations obs @ arc_stagnations (s, flag)\<rparr>
      else obs)"
  by (cases "rs_StagnationScore s") (simp_all add: addRoute_def appendArcObservations_def Let_def)

lemma fold_addRoute:
  "fold (\<lambda>(s, flag). addRoute edgeIDs flag s) xs obs =
     obs\<lparr>ob_ArcFlows := ob_ArcFlows obs @ concat (map arc_flows (sent_routes edgeIDs xs)),
       ob_ArcStagnations := ob_ArcStagnations obs @ concat (map arc_stagnations (sent_routes edgeIDs xs))\<rparr>"
proof (induction xs arbitrary: obs)
  case (Cons x xs)
  obtain s flag where x: "x = (s, flag)" by fastforce
  show ?case
    by (cases "rs_RouteID s \<in> edgeIDs"; cases "rs_Exhaustive s")
      (simp_all add: x Cons.IH addRoute_step [of edgeIDs flag s obs] del: arc_flows.simps arc_stagnations.simps)
qed simp

lemma addPoint_step:
  "addPoint nodeIDs flag s obs =
     (if ps_PointID s \<in> nodeIDs \<and> ps_Exhaustive s
      then obs\<lparr>ob_NodeOccupancies := ob_NodeOccupancies obs @ [node_occupancy (s, flag)]\<rparr> else obs)"
  by (simp add: addPoint_def)

lemma fold_addPoint:
  "fold (\<lambda>(s, flag). addPoint nodeIDs flag s) xs obs =
     obs\<lparr>ob_NodeOccupancies := ob_NodeOccupancies obs @ map node_occupancy (sent_points nodeIDs xs)\<rparr>"
proof (induction xs arbitrary: obs)
  case (Cons x xs)
  obtain s flag where x: "x = (s, flag)" by fastforce
  show ?case
    by (cases "ps_PointID s \<in> nodeIDs"; cases "ps_Exhaustive s") (simp_all add: x Cons.IH addPoint_step [of nodeIDs flag s obs] del: node_occupancy.simps)
qed simp

lemma flowObservations_fold:
  "flowObservations snapshot gaps nodeIDs edgeIDs =
     fold (\<lambda>(s, flag). addPoint nodeIDs flag s) (flagged_points snapshot gaps)
       (fold (\<lambda>(s, flag). addRoute edgeIDs flag s) (flagged_routes snapshot gaps)
         \<lparr>ob_ObservedAt = sn_WindowEnd snapshot, ob_SnapshotRef = sn_ID snapshot, ob_ArcFlows = [], ob_ArcStagnations = [],
           ob_NodeOccupancies = []\<rparr>)"
  by (simp add: flowObservations_def flagged_points_def flagged_routes_def Let_def fold_map comp_def)

lemma flowObservations_lists:
  "flowObservations snapshot gaps nodeIDs edgeIDs =
     \<lparr>ob_ObservedAt = sn_WindowEnd snapshot, ob_SnapshotRef = sn_ID snapshot,
      ob_ArcFlows = concat (map arc_flows (sent_routes edgeIDs (flagged_routes snapshot gaps))),
      ob_ArcStagnations = concat (map arc_stagnations (sent_routes edgeIDs (flagged_routes snapshot gaps))),
      ob_NodeOccupancies = map node_occupancy (sent_points nodeIDs (flagged_points snapshot gaps))\<rparr>"
  by (simp add: flowObservations_fold fold_addRoute fold_addPoint)

subsection \<open>The digest\<close>

lemma add_sample_edges:
  assumes "\<And>s. ws_EdgeId (f s) = ws_EdgeId s"
  shows "map ws_EdgeId (add_sample r f xs) = (if r \<in> ws_EdgeId ` set xs then map ws_EdgeId xs else map ws_EdgeId xs @ [r])"
  using assms by (induction r f xs rule: add_sample.induct) auto

definition series_ok :: "string set \<Rightarrow> ArcWindowSeries list \<Rightarrow> bool" where
  "series_ok edgeIDs xs \<longleftrightarrow> distinct (map ws_EdgeId xs) \<and> set (map ws_EdgeId xs) \<subseteq> edgeIDs"

lemma add_score_edges:
  "map ws_EdgeId (add_score edgeIDs t s xs) =
     (if rs_RouteID s \<in> edgeIDs \<and> rs_Exhaustive s \<and> rs_RouteID s \<notin> set (map ws_EdgeId xs)
      then map ws_EdgeId xs @ [rs_RouteID s] else map ws_EdgeId xs)"
proof -
  have "map ws_EdgeId (add_sample (rs_RouteID s) f xs) =
      (if rs_RouteID s \<in> ws_EdgeId ` set xs then map ws_EdgeId xs else map ws_EdgeId xs @ [rs_RouteID s])"
    if "\<And>a. ws_EdgeId (f a) = ws_EdgeId a" for f using that by (rule add_sample_edges)
  then show ?thesis unfolding add_score_def by (auto simp: Let_def split: option.splits)
qed

lemma add_score_ok: "series_ok edgeIDs xs \<Longrightarrow> series_ok edgeIDs (add_score edgeIDs t s xs)"
  unfolding series_ok_def add_score_edges by auto

lemma fold_keeps: "P acc \<Longrightarrow> (\<And>x acc. P acc \<Longrightarrow> P (f x acc)) \<Longrightarrow> P (fold f xs acc)"
  by (induction xs arbitrary: acc) auto

lemma window_series_ok: "series_ok edgeIDs (hd_WindowSeries (flowHistoryDigest history arcHistory edgeIDs))"
proof -
  have "series_ok edgeIDs (fold (add_score edgeIDs t) scores xs)" if "series_ok edgeIDs xs" for t scores xs
    using that by (rule fold_keeps [where P = "series_ok edgeIDs"]) (rule add_score_ok)
  note scores = this
  have "series_ok edgeIDs (fold (\<lambda>snapshot. fold (add_score edgeIDs (sn_WindowEnd snapshot)) (sn_RouteScores snapshot)) history [])"
    by (rule fold_keeps [where P = "series_ok edgeIDs"]) (simp add: series_ok_def, rule scores)
  then show ?thesis by (simp add: flowHistoryDigest_def Let_def)
qed

lemma let_keeps: "P a \<Longrightarrow> (\<And>x. P x \<Longrightarrow> Q (f x)) \<Longrightarrow> Q (Let a f)"
  by simp

lemma arc_stat_edge [simp]: "hs_EdgeId (arc_stat arc) = ah_RouteID arc"
proof -
  let ?is = "\<lambda>stat. hs_EdgeId stat = ah_RouteID arc"
  show ?thesis
    unfolding arc_stat_def
    by (rule let_keeps [where Q = ?is and P = "\<lambda>_. True"], rule TrueI, rule let_keeps [where Q = ?is and P = ?is], simp,
        rule let_keeps [where Q = ?is and P = ?is], simp split: if_split, simp add: Let_def split: if_split prod.split)
qed

text \<open>The share of the edges whose statistics are established is a share.\<close>

lemma fdiv_share:
  assumes "0 \<le> k" and "k \<le> n" and "0 < n" and "n \<le> 2 ^ 53"
  shows "nneg (fdiv (f_of_int k) (f_of_int n)) \<and> fle (fdiv (f_of_int k) (f_of_int n)) (f_of_int 1)"
proof -
  have k: "f_of_int k = Num False (of_int k)" and n: "f_of_int n = Num False (of_int n)" and one: "f_of_int 1 = Num False 1"
    using assms by (simp_all add: f_of_int_exact)
  have "(of_int k :: rat) / of_int n \<le> 1" using assms by (simp add: divide_le_eq)
  then have "fle (mk False (of_int k / of_int n)) (mk False 1)" using assms by (intro mk_mono) simp_all
  moreover have "mk False 1 = Num False 1" using mk_int [of 1] by simp
  ultimately have "fle (fdiv (f_of_int k) (f_of_int n)) (f_of_int 1)" using assms by (simp add: k n one)
  moreover have "nneg (f_of_int k)" using assms k by simp
  then have "nneg (fdiv (f_of_int k) (f_of_int n))" by (rule nneg_fdiv [OF _ n]) (use assms in simp)
  ultimately show ?thesis by blast
qed

lemma completeness_share:
  assumes "distinct (map ah_RouteID arcHistory)" and "finite edgeIDs" and "int (card edgeIDs) \<le> 2 ^ 53"
  shows "nneg (hd_Completeness (flowHistoryDigest history arcHistory edgeIDs)) \<and>
    fle (hd_Completeness (flowHistoryDigest history arcHistory edgeIDs)) (f_of_int 1)"
proof -
  let ?stats = "map arc_stat (filter (\<lambda>arc. ah_RouteID arc \<in> edgeIDs) arcHistory)"
  let ?established = "length (filter (\<lambda>stat. hs_P90Stagnation stat \<noteq> None) ?stats)"
  have "distinct (map ah_RouteID (filter (\<lambda>arc. ah_RouteID arc \<in> edgeIDs) arcHistory))"
    using assms(1) by (rule distinct_map_filter)
  then have "length ?stats = card (set (map ah_RouteID (filter (\<lambda>arc. ah_RouteID arc \<in> edgeIDs) arcHistory)))"
    by (subst distinct_card) simp_all
  also have "\<dots> \<le> card edgeIDs" using assms(2) by (intro card_mono) auto
  finally have le: "?established \<le> card edgeIDs" using length_filter_le le_trans by blast
  have c: "hd_Completeness (flowHistoryDigest history arcHistory edgeIDs) =
      (if 0 < card edgeIDs then fdiv (f_of_int (int ?established)) (f_of_int (int (card edgeIDs))) else f_zero)"
    by (simp add: flowHistoryDigest_def Let_def)
  show ?thesis
  proof (cases "0 < card edgeIDs")
    case True
    with fdiv_share [of "int ?established" "int (card edgeIDs)"] le assms(3) show ?thesis unfolding c by simp
  next
    case False
    then show ?thesis unfolding c by (simp add: f_zero_def f_of_int_exact)
  qed
qed

subsection \<open>The request\<close>

definition observation_wf :: "ConfidenceFlag \<Rightarrow> f64 option \<Rightarrow> f64 option \<Rightarrow> bool" where
  "observation_wf flag value delta \<longleftrightarrow>
     (flag = CONFIDENCE_FLAG_HOLD \<longrightarrow> delta = None) \<and> (flag = CONFIDENCE_FLAG_INVALID \<longrightarrow> value = None \<and> delta = None)"

definition request_wf :: "'ds OptimizeRequest \<Rightarrow> bool" where
  "request_wf req \<longleftrightarrow>
     (let nodes = map nd_NodeId (fg_Nodes (orq_Graph req)); edges = map eg_EdgeId (fg_Edges (orq_Graph req));
          obs = orq_Observations req; digest = orq_HistoryDigest req
      in list_all (\<lambda>f. List.member edges (af_EdgeId f) \<and> (af_ConfidenceFlag f = CONFIDENCE_FLAG_INVALID \<longrightarrow> af_FlowRate f = f_zero)) (ob_ArcFlows obs) \<and>
         list_all (\<lambda>s. List.member edges (ast_EdgeId s) \<and> ast_ConfidenceFlag s \<noteq> CONFIDENCE_FLAG_INVALID) (ob_ArcStagnations obs) \<and>
         list_all (\<lambda>n. List.member nodes (no_NodeId n) \<and> observation_wf (no_ConfidenceFlag n) (no_Occupancy n) (no_OccupancyDelta n))
           (ob_NodeOccupancies obs) \<and>
         list_all (\<lambda>e. list_ex (\<lambda>r. fe_TargetId e = ''edge:'' @ r) edges \<or> list_ex (\<lambda>p. fe_TargetId e = ''node:'' @ p) nodes) (orq_Events req) \<and>
         sorted (map fe_OccurredAt (orq_Events req)) \<and>
         list_all (\<lambda>s. List.member edges (hs_EdgeId s)) (hd_ArcStats digest) \<and>
         distinct (map ws_EdgeId (hd_WindowSeries digest)) \<and> list_all (\<lambda>s. List.member edges (ws_EdgeId s)) (hd_WindowSeries digest))"

lemma flow_graph_ids:
  assumes "flowGraph graph res = (g, nodeIDs, edgeIDs)"
  shows "set (map nd_NodeId (fg_Nodes g)) = nodeIDs" "set (map eg_EdgeId (fg_Edges g)) = edgeIDs" "finite edgeIDs"
  using assms by (auto simp: flowGraph_def flow_node_def flow_edge_def image_image)

lemma sent_route_flags:
  "(s, flag) \<in> set (flagged_routes snapshot gaps) \<Longrightarrow> flag = CONFIDENCE_FLAG_INVALID \<Longrightarrow>
     rs_Forward s = f_zero \<and> rs_Backward s = f_zero \<and> rs_StagnationScore s = None"
  by (auto simp: flagged_routes_def invalid_route_def)

lemma sent_point_flags:
  "(s, flag) \<in> set (flagged_points snapshot gaps) \<Longrightarrow> flag = CONFIDENCE_FLAG_INVALID \<Longrightarrow>
     ps_PeopleScore s = None \<and> ps_OccupancyDelta s = None"
  by (auto simp: flagged_points_def invalid_point_def)

lemma observations_wf:
  "f \<in> set (ob_ArcFlows (flowObservations snapshot gaps nodeIDs edgeIDs)) \<Longrightarrow>
     af_EdgeId f \<in> edgeIDs \<and> (af_ConfidenceFlag f = CONFIDENCE_FLAG_INVALID \<longrightarrow> af_FlowRate f = f_zero)"
  "s \<in> set (ob_ArcStagnations (flowObservations snapshot gaps nodeIDs edgeIDs)) \<Longrightarrow>
     ast_EdgeId s \<in> edgeIDs \<and> ast_ConfidenceFlag s \<noteq> CONFIDENCE_FLAG_INVALID"
  "n \<in> set (ob_NodeOccupancies (flowObservations snapshot gaps nodeIDs edgeIDs)) \<Longrightarrow>
     no_NodeId n \<in> nodeIDs \<and> observation_wf (no_ConfidenceFlag n) (no_Occupancy n) (no_OccupancyDelta n)"
  unfolding flowObservations_lists
  by (auto simp: observation_wf_def split: option.splits dest: sent_route_flags sent_point_flags)

lemma flow_event_target:
  "ev \<in> set (flow_event nodeIDs edgeIDs change) \<Longrightarrow>
     (\<exists>r \<in> edgeIDs. fe_TargetId ev = ''edge:'' @ r) \<or> (\<exists>p \<in> nodeIDs. fe_TargetId ev = ''node:'' @ p)"
  by (auto simp: flow_event_def Let_def split: if_splits)

lemma flow_event_time: "ev \<in> set (flow_event nodeIDs edgeIDs change) \<Longrightarrow> fe_OccurredAt ev = ss_ChangedAt change"
  by (auto simp: flow_event_def Let_def split: if_splits)

lemma sorted_flow_events:
  "sorted (map ss_ChangedAt changes) \<Longrightarrow> sorted (map fe_OccurredAt (concat (map (flow_event nodeIDs edgeIDs) changes)))"
proof (induction changes)
  case (Cons c cs)
  let ?first = "flow_event nodeIDs edgeIDs c" and ?rest = "concat (map (flow_event nodeIDs edgeIDs) cs)"
  have one: "sorted (map fe_OccurredAt ?first)"
    by (simp add: flow_event_def Let_def)
  have "fe_OccurredAt a \<le> fe_OccurredAt b" if a: "a \<in> set ?first" and b: "b \<in> set ?rest" for a b
  proof -
    from b obtain c' where c': "c' \<in> set cs" "b \<in> set (flow_event nodeIDs edgeIDs c')" by auto
    then have "ss_ChangedAt c \<le> ss_ChangedAt c'" using Cons.prems by simp
    with flow_event_time [OF a] flow_event_time [OF c'(2)] show ?thesis by simp
  qed
  then have "\<forall>x \<in> set (map fe_OccurredAt ?first). \<forall>y \<in> set (map fe_OccurredAt ?rest). x \<le> y"
    by (simp only: set_map ball_simps) blast
  moreover have "sorted (map fe_OccurredAt ?rest)" using Cons by simp
  ultimately have "sorted (map fe_OccurredAt ?first @ map fe_OccurredAt ?rest)"
    using one sorted_append by blast
  then show ?case by (simp only: list.map concat.simps map_append)
qed simp

lemma request_of_wf: "request_wf (request_of input state result requestID)"
proof -
  obtain g nodeIDs edgeIDs where graph: "flowGraph (oi_Graph input) (resolution (oi_Snapshot input)) = (g, nodeIDs, edgeIDs)"
    by (metis prod_cases3)
  note ids = flow_graph_ids [OF graph]
  have nodes: "List.member (map nd_NodeId (fg_Nodes g)) p \<longleftrightarrow> p \<in> nodeIDs"
    and edges: "List.member (map eg_EdgeId (fg_Edges g)) r \<longleftrightarrow> r \<in> edgeIDs" for p r
    using ids by (auto simp del: set_map)
  have ex: "list_ex P (map nd_NodeId (fg_Nodes g)) \<longleftrightarrow> (\<exists>p \<in> nodeIDs. P p)" "list_ex P (map eg_EdgeId (fg_Edges g)) \<longleftrightarrow> (\<exists>r \<in> edgeIDs. P r)" for P
    unfolding list_ex_iff ids by simp_all
  let ?series = "hd_WindowSeries (flowHistoryDigest (oi_History input) (oi_ArcHistory input) edgeIDs)"
  have series: "distinct (map ws_EdgeId ?series)" "\<forall>s \<in> set ?series. ws_EdgeId s \<in> edgeIDs"
    using window_series_ok [of edgeIDs] by (auto simp: series_ok_def)
  have stats: "\<forall>s \<in> set (hd_ArcStats (flowHistoryDigest (oi_History input) (oi_ArcHistory input) edgeIDs)). hs_EdgeId s \<in> edgeIDs"
    by (auto simp: flowHistoryDigest_def Let_def)
  have events: "\<forall>ev \<in> set (flowEvents (oi_SensorSetChanges input) nodeIDs edgeIDs).
      (\<exists>r \<in> edgeIDs. fe_TargetId ev = ''edge:'' @ r) \<or> (\<exists>p \<in> nodeIDs. fe_TargetId ev = ''node:'' @ p)"
    using flow_event_target by (fastforce simp: flowEvents_def)
  have sorted: "sorted (map fe_OccurredAt (flowEvents (oi_SensorSetChanges input) nodeIDs edgeIDs))"
    unfolding flowEvents_def by (rule sorted_flow_events) simp
  have req: "orq_Graph (request_of input state result requestID) = g"
    "orq_Observations (request_of input state result requestID) = flowObservations (oi_Snapshot input) (oi_Gaps input) nodeIDs edgeIDs"
    "orq_HistoryDigest (request_of input state result requestID) = flowHistoryDigest (oi_History input) (oi_ArcHistory input) edgeIDs"
    "orq_Events (request_of input state result requestID) = flowEvents (oi_SensorSetChanges input) nodeIDs edgeIDs"
    by (simp_all add: request_of_def Let_def graph)
  show ?thesis
    unfolding request_wf_def Let_def req list_all_iff nodes edges ex
    by (intro conjI ballI; (rule series sorted)?) (use series stats events observations_wf in blast)+
qed

lemma request_completeness:
  assumes "distinct (map ah_RouteID (oi_ArcHistory input))" and "int (length (gr_Routes (oi_Graph input))) \<le> 2 ^ 53"
  shows "nneg (hd_Completeness (orq_HistoryDigest (request_of input state result requestID))) \<and>
    fle (hd_Completeness (orq_HistoryDigest (request_of input state result requestID))) (f_of_int 1)"
proof -
  have "card (rt_ID ` set (gr_Routes (oi_Graph input))) \<le> length (gr_Routes (oi_Graph input))"
    by (metis card_length length_map set_map)
  then have "int (card (rt_ID ` set (gr_Routes (oi_Graph input)))) \<le> 2 ^ 53" using assms(2) by linarith
  then show ?thesis
    using completeness_share [OF assms(1), of "rt_ID ` set (gr_Routes (oi_Graph input))" "oi_History input"]
    by (simp add: request_of_def Let_def flowGraph_def)
qed

text \<open>When the composed snapshot and its gaps name every route and every point once, as anchors of one kind make them, no direction of an edge,
  no edge and no node is observed twice.\<close>

definition scored_once :: "OptimizeInput \<Rightarrow> bool" where
  "scored_once input \<longleftrightarrow>
     distinct (map rs_RouteID (sn_RouteScores (oi_Snapshot input)) @ map rs_RouteID (ga_HeldRouteScores (oi_Gaps input)) @
       ga_InvalidRouteIDs (oi_Gaps input)) \<and>
     distinct (map ps_PointID (sn_PointScores (oi_Snapshot input)) @ map ps_PointID (ga_HeldPointScores (oi_Gaps input)) @
       ga_InvalidPointIDs (oi_Gaps input))"

definition observed_once :: "Observations \<Rightarrow> bool" where
  "observed_once obs \<longleftrightarrow> distinct (map (\<lambda>f. (af_EdgeId f, af_Direction f)) (ob_ArcFlows obs)) \<and>
     distinct (map ast_EdgeId (ob_ArcStagnations obs)) \<and> distinct (map no_NodeId (ob_NodeOccupancies obs))"

lemma sent_flows_once:
  "distinct (map (\<lambda>x. rs_RouteID (fst x)) xs) \<Longrightarrow>
     distinct (map (\<lambda>f. (af_EdgeId f, af_Direction f)) (concat (map arc_flows xs))) \<and> distinct (map ast_EdgeId (concat (map arc_stagnations xs)))"
proof (induction xs)
  case (Cons x xs)
  obtain s flag where x: "x = (s, flag)" by fastforce
  define others where "others = (\<lambda>x. rs_RouteID (fst x)) ` set xs"
  have new: "rs_RouteID s \<notin> others" and rest: "distinct (map (\<lambda>f. (af_EdgeId f, af_Direction f)) (concat (map arc_flows xs)))"
    "distinct (map ast_EdgeId (concat (map arc_stagnations xs)))"
    using Cons x by (simp_all add: others_def)
  have flows: "(rs_RouteID s, d) \<notin> (\<lambda>f. (af_EdgeId f, af_Direction f)) ` set (concat (map arc_flows xs))" for d
  proof
    assume "(rs_RouteID s, d) \<in> (\<lambda>f. (af_EdgeId f, af_Direction f)) ` set (concat (map arc_flows xs))"
    then have "rs_RouteID s \<in> others" unfolding others_def by force
    with new show False ..
  qed
  have "ast_EdgeId ` set (concat (map arc_stagnations xs)) \<subseteq> others"
    unfolding others_def by (force split: option.splits)
  with new have stagnations: "rs_RouteID s \<notin> ast_EdgeId ` set (concat (map arc_stagnations xs))" by blast
  show ?case unfolding x list.map(2) concat.simps(2) map_append distinct_append
    using flows [of FLOW_DIRECTION_A_TO_B] flows [of FLOW_DIRECTION_B_TO_A] stagnations rest
    by (cases "rs_StagnationScore s") (simp_all del: set_concat set_map map_concat add: image_set)
qed simp

lemma flowObservations_once:
  assumes "scored_once input"
  shows "observed_once (flowObservations (oi_Snapshot input) (oi_Gaps input) nodeIDs edgeIDs)"
proof -
  let ?routes = "flagged_routes (oi_Snapshot input) (oi_Gaps input)" and ?points = "flagged_points (oi_Snapshot input) (oi_Gaps input)"
  have "distinct (map (\<lambda>x. rs_RouteID (fst x)) ?routes)" "distinct (map (\<lambda>x. ps_PointID (fst x)) ?points)"
    using assms by (simp_all add: scored_once_def flagged_routes_def flagged_points_def invalid_route_def invalid_point_def o_def)
  then have routes: "distinct (map (\<lambda>x. rs_RouteID (fst x)) (sent_routes edgeIDs ?routes))"
    and points: "distinct (map (\<lambda>x. ps_PointID (fst x)) (sent_points nodeIDs ?points))"
    by (simp_all add: distinct_map_filter)
  have "map no_NodeId (map node_occupancy xs) = map (\<lambda>x. ps_PointID (fst x)) xs" for xs by (induction xs) auto
  then show ?thesis
    using sent_flows_once [OF routes] points by (simp add: observed_once_def flowObservations_lists del: map_map map_concat)
qed

lemma arc_stats_edges: "map hs_EdgeId (map arc_stat xs) = map ah_RouteID xs"
  by (simp add: arc_stat_def Let_def o_def split: prod.split)

text \<open>C8. Whatever a cycle composed, the request to flow control is well formed: every flow, stagnation, occupancy, event and statistic names
  an element of the graph in the same request; what is held carries no change and what is invalid no value; events are in time order; and
  no edge has two window series. For an arc history of distinct routes, as the store returns it, no edge has two statistics, and the
  completeness of the history is a number between zero and one (for up to \<open>2 ^ 53\<close> routes, which a \<open>float64\<close> counts exactly). If the
  snapshot and its gaps name every route and point once, no direction of an edge and no node is observed twice.\<close>

theorem newOptimizeRequest_wf:
  assumes "newOptimizeRequest pj input w = (Inr req, w')"
  shows "request_wf req \<and>
    (distinct (map ah_RouteID (oi_ArcHistory input)) \<longrightarrow> distinct (map hs_EdgeId (hd_ArcStats (orq_HistoryDigest req))) \<and>
       (int (length (gr_Routes (oi_Graph input))) \<le> 2 ^ 53 \<longrightarrow>
          nneg (hd_Completeness (orq_HistoryDigest req)) \<and> fle (hd_Completeness (orq_HistoryDigest req)) (f_of_int 1))) \<and>
    (scored_once input \<longrightarrow> observed_once (orq_Observations req))"
proof -
  from assms obtain state result requestID where req: "req = request_of input state result requestID"
    by (auto simp: newOptimizeRequest_def bindE_Inr)
  obtain g nodeIDs edgeIDs where graph: "flowGraph (oi_Graph input) (resolution (oi_Snapshot input)) = (g, nodeIDs, edgeIDs)"
    by (metis prod_cases3)
  have "hd_ArcStats (orq_HistoryDigest req) = map arc_stat (filter (\<lambda>arc. ah_RouteID arc \<in> edgeIDs) (oi_ArcHistory input))"
    "orq_Observations req = flowObservations (oi_Snapshot input) (oi_Gaps input) nodeIDs edgeIDs"
    by (simp_all add: req request_of_def Let_def graph flowHistoryDigest_def)
  then have "distinct (map ah_RouteID (oi_ArcHistory input)) \<longrightarrow> distinct (map hs_EdgeId (hd_ArcStats (orq_HistoryDigest req)))"
    "scored_once input \<longrightarrow> observed_once (orq_Observations req)"
    using flowObservations_once [of input nodeIDs edgeIDs] by (simp_all add: arc_stats_edges distinct_map_filter del: map_map)
  then show ?thesis
    using request_of_wf [of input state result requestID] request_completeness [of input state result requestID] req by blast
qed

definition sample_graph :: Graph where
  "sample_graph = \<lparr>gr_EventID = ''e'', gr_RevisionID = ''rev'', gr_Points = [\<lparr>gp_ID = ''p'', gp_Type = PointTypeGoal, gp_Boundary = None\<rparr>],
     gr_Routes = [\<lparr>rt_ID = ''r'', rt_FromPointID = ''p'', rt_ToPointID = ''p'', rt_OneWay = False, rt_CapacityHint = None\<rparr>]\<rparr>"

definition sample_input :: OptimizeInput where
  "sample_input = \<lparr>oi_TenantPublicID = ''t'', oi_EventType = EventTypeShortTerm, oi_Graph = sample_graph,
     oi_Snapshot = \<lparr>sn_ID = ''s'', sn_EventID = ''e'', sn_WindowStart = 0, sn_WindowEnd = minute, sn_PointScores = [],
       sn_RouteScores = [\<lparr>rs_RouteID = ''r'', rs_Forward = f_zero, rs_Backward = f_zero, rs_ScalarFlow = None, rs_StagnationScore = None,
         rs_Exhaustive = True, rs_SameSensorFlow = False\<rparr>], sn_Missing = \<lparr>mi_PointIDs = [], mi_RouteIDs = []\<rparr>, sn_Resolutions = Map.empty\<rparr>,
     oi_Gaps = \<lparr>ga_HeldPointScores = [], ga_HeldRouteScores = [], ga_InvalidPointIDs = [''p''], ga_InvalidRouteIDs = []\<rparr>,
     oi_SensorSetChanges = [], oi_History = [], oi_ArcHistory = [], oi_AvailableHistory = 0, oi_Previous = None, oi_ServerTime = minute\<rparr>"

lemma sample_request:
  fixes pj :: "'ds ProtoJson"
  obtains rid w' where "newOptimizeRequest pj sample_input (sample_world [] empty_db ()) =
    (Inr (request_of sample_input (pj_new_state pj) None rid), w')"
proof -
  obtain r w1 where drawn: "draw rand_text (sample_world [] empty_db ()) = (r, w1)" by fastforce
  then obtain rid where "r = Inr rid"
    by (auto simp: draw_def rand_text_def bindE_def wrapE_def rand_read_def returnE_def sample_world_def)
  with drawn that show thesis
    by (simp add: newOptimizeRequest_def bindE_def liftE_def returnE_def decode_previous_def sample_input_def)
qed

subsection \<open>What flow control is told again\<close>

text \<open>
  What \<open>protojson\<close> and the JSONB column promise together: a message that was encoded and stored decodes to itself, also with the option to
  discard unknown fields, and an absent detection state is written as a message without fields, which decodes to a new one.
\<close>

definition stored_messages_decode :: "'ds ProtoJson \<Rightarrow> (byte list \<Rightarrow> byte list option) \<Rightarrow> bool" where
  "stored_messages_decode pj json_text \<longleftrightarrow>
     (\<forall>part json stored. pj_encode_state pj part = Inr json \<longrightarrow> json_text json = Some stored \<longrightarrow>
        pj_decode_state_stored pj stored = Inr (case part of None \<Rightarrow> pj_new_state pj | Some state \<Rightarrow> state)) \<and>
     (\<forall>result json stored. pj_encode_result pj result = Inr json \<longrightarrow> json_text json = Some stored \<longrightarrow>
        pj_decode_result_stored pj stored = Inr result)"

definition answered_state :: "'ds ProtoJson \<Rightarrow> 'ds OptimizeResponse \<Rightarrow> 'ds" where
  "answered_state pj res = (case ors_UpdatedDetectionState res of None \<Rightarrow> pj_new_state pj | Some state \<Rightarrow> state)"

lemma outcome_of_response_Inr:
  assumes "outcome_of_response pj input res = Inr oc"
  obtains json where "pj_encode_state pj (ors_UpdatedDetectionState res) = Inr json" "oo_DetectionState oc = Some json"
    "case ors_OptimizationResult res of None \<Rightarrow> oo_OptimizationResult oc = None
     | Some r \<Rightarrow> \<exists>json. pj_encode_result pj r = Inr json \<and> oo_OptimizationResult oc = Some json"
  using assms
  by (auto simp: outcome_of_response_def encode_part_def bindS_Inr split: sum.splits option.splits)

lemma remote_Inr: "remote f w = (Inr x, w') \<longleftrightarrow> (\<exists>y. f (w_ext w) = (Inr x, y) \<and> w' = w\<lparr>w_ext := y\<rparr>)"
  by (auto simp: remote_def split: prod.splits)

lemma Optimize_Inr:
  assumes "Optimize pj client ctx input w = (Inr oc, w')"
  obtains req wq res x where "newOptimizeRequest pj input w = (Inr req, wq)"
    "client \<lparr>ci_Authorization = None, ci_Deadline = ctx_deadline ctx\<rparr> req (w_ext wq) = (Inr res, x)"
    "outcome_of_response pj input res = Inr oc"
  using assms
  by (auto simp: Optimize_def bindE_Inr wrapE_Inr remote_Inr)

lemma insert_outcome_stores:
  assumes "insert_outcome json_text e oc d = Inr u"
  shows "oo_DetectionState oc = Some json \<Longrightarrow> json_text json \<noteq> None" and "oo_OptimizationResult oc = Some json \<Longrightarrow> json_text json \<noteq> None"
  using assms by (auto simp: insert_outcome_def jsonb_column_def nullableJSON_def bindS_Inr split: option.splits)

text \<open>An answer that was encoded and stored decodes to what was answered.\<close>

lemma stored_answer_decodes:
  assumes codec: "stored_messages_decode pj json_text" and answer: "outcome_of_response pj input res = Inr outcome"
    and ins: "insert_outcome json_text e (outcome\<lparr>oo_SnapshotID := sid\<rparr>) d = Inr u"
  shows "decode_previous pj (Some (stored_outcome json_text t (outcome\<lparr>oo_SnapshotID := sid\<rparr>))) =
    Inr (answered_state pj res, ors_OptimizationResult res)"
proof -
  let ?found = "stored_outcome json_text t (outcome\<lparr>oo_SnapshotID := sid\<rparr>)"
  obtain json where json: "pj_encode_state pj (ors_UpdatedDetectionState res) = Inr json" "oo_DetectionState outcome = Some json"
    and result: "case ors_OptimizationResult res of None \<Rightarrow> oo_OptimizationResult outcome = None
     | Some r \<Rightarrow> \<exists>json. pj_encode_result pj r = Inr json \<and> oo_OptimizationResult outcome = Some json"
    by (rule outcome_of_response_Inr [OF answer])
  obtain stored where "json_text json = Some stored" using insert_outcome_stores(1) [OF ins, of json] json by auto
  then have "pj_decode_state_stored pj stored = Inr (answered_state pj res)" and "oo_DetectionState ?found = Some stored"
    using codec json by (auto simp: stored_messages_decode_def stored_outcome_def answered_state_def)
  moreover have "case oo_OptimizationResult ?found of None \<Rightarrow> ors_OptimizationResult res = None
     | Some r \<Rightarrow> \<exists>m. ors_OptimizationResult res = Some m \<and> pj_decode_result_stored pj r = Inr m"
  proof (cases "ors_OptimizationResult res")
    case None
    with result show ?thesis by (simp add: stored_outcome_def)
  next
    case (Some r)
    with result obtain text' where text': "pj_encode_result pj r = Inr text'" "oo_OptimizationResult outcome = Some text'" by auto
    moreover obtain stored' where "json_text text' = Some stored'"
      using insert_outcome_stores(2) [OF ins, of text'] text' by auto
    ultimately show ?thesis using codec Some by (auto simp: stored_messages_decode_def stored_outcome_def)
  qed
  ultimately show ?thesis by (auto simp: decode_previous_def split: option.splits)
qed

lemma next_request:
  assumes "newOptimizeRequest pj input w = (Inr req, w')" and "decode_previous pj (oi_Previous input) = Inr (state, result)"
  shows "orq_DetectionState req = state \<and> orq_PreviousResult req = result"
  using assms by (auto simp: newOptimizeRequest_def bindE_Inr request_of_def Let_def case_prod_unfold)

text \<open>C7. What flow control answered is what it is asked with next. A call of \<open>Optimize\<close> asks it with the request built from its input; when
  the outcome was stored and read back, and the next request is built from an input with the outcome that was read, then the detection state
  and the previous result of that request are those of the answer (a new state where the answer had none), through two encodings and the
  database.\<close>

theorem flow_state_roundtrip:
  fixes w w1 w2 w3 w4 w5 w6 w7 :: "'x world" and pj :: "'ds ProtoJson"
  assumes "stored_messages_decode pj json_text"
    and "Optimize pj client ctx input w = (Inr outcome, w1)"
    and "SaveOptimizationOutcome json_text ctx e (outcome\<lparr>oo_SnapshotID := sid\<rparr>) w2 = (Inr u, w3)" and "w_db w4 = w_db w3"
    and "distinct (map sr_snapshot_id (db_snapshots (w_db w2)))" and "s \<in> set (db_snapshots (w_db w2))" and "sr_snapshot_id s = sid"
    and "LatestOptimizationOutcome ctx2 e w4 = (Inr found, w5)"
    and "oi_Previous input2 = Some found" and "newOptimizeRequest pj input2 w6 = (Inr req2, w7)"
  shows "\<exists>req wq res x. newOptimizeRequest pj input w = (Inr req, wq) \<and>
    client \<lparr>ci_Authorization = None, ci_Deadline = ctx_deadline ctx\<rparr> req (w_ext wq) = (Inr res, x) \<and>
    orq_DetectionState req2 = (case ors_UpdatedDetectionState res of None \<Rightarrow> pj_new_state pj | Some state \<Rightarrow> state) \<and>
    orq_PreviousResult req2 = ors_OptimizationResult res"
proof -
  let ?oc = "outcome\<lparr>oo_SnapshotID := sid\<rparr>"
  have ins: "insert_outcome json_text e ?oc (w_db w2) = Inr ((), w_db w3)"
    using assms(3) by (auto simp: SaveOptimizationOutcome_def sql_Inr)
  from insert_outcome_latest [OF ins assms(5,6)] assms(4,7,8)
  have found: "found = stored_outcome json_text (sr_window_end s) ?oc"
    by (auto simp: LatestOptimizationOutcome_def bindE_Inr catchE_Inr query_one_Inr split: if_splits)
  obtain req wq res x where call: "newOptimizeRequest pj input w = (Inr req, wq)"
    "client \<lparr>ci_Authorization = None, ci_Deadline = ctx_deadline ctx\<rparr> req (w_ext wq) = (Inr res, x)"
    and answer: "outcome_of_response pj input res = Inr outcome" by (rule Optimize_Inr [OF assms(2)])
  have "orq_DetectionState req2 = answered_state pj res \<and> orq_PreviousResult req2 = ors_OptimizationResult res"
    by (rule next_request [OF assms(10)]) (simp only: assms(9) found stored_answer_decodes [OF assms(1) answer ins])
  with call show ?thesis unfolding answered_state_def by blast
qed

text \<open>An encoding that keeps a detection state of one bit, an answer with one, and the snapshot it is about.\<close>

definition bit_json :: "bool ProtoJson" where
  "bit_json = \<lparr>pj_new_state = False, pj_encode_state = (\<lambda>s. Inr (if s = Some True then [1] else [0])),
     pj_decode_state_stored = (\<lambda>json. Inr (json = [1])), pj_encode_result = (\<lambda>r. Inl (OtherError ''proto'')),
     pj_decode_result_stored = (\<lambda>json. Inl (OtherError ''proto'')), pj_decode_result = (\<lambda>json. Inl (OtherError ''proto'')),
     pj_encode_diagnostics = (\<lambda>d. Inr []), pj_decode_diagnostics_stored = (\<lambda>json. Inl (OtherError ''proto'')),
     pj_encode_feedback = (\<lambda>f. Inr []), pj_decode_feedback = (\<lambda>json. Inl (OtherError ''proto''))\<rparr>"

definition bit_answer :: "bool OptimizeResponse" where
  "bit_answer = \<lparr>ors_Verdict = ''VERDICT'', ors_UpdatedDetectionState = Some True, ors_OptimizationResult = None,
     ors_Diagnostics = None, ors_FeedbackValues = None\<rparr>"

theorem newOptimizeRequest_wf_witness:
  "\<exists>req w'. newOptimizeRequest bit_json sample_input (sample_world [] empty_db ()) = (Inr req, w') \<and> request_wf req \<and>
    observed_once (orq_Observations req) \<and> length (ob_ArcFlows (orq_Observations req)) = 2"
proof -
  obtain rid w' where run: "newOptimizeRequest bit_json sample_input (sample_world [] empty_db ()) =
    (Inr (request_of sample_input (pj_new_state bit_json) None rid), w')" by (rule sample_request)
  have "scored_once sample_input" by (simp add: scored_once_def sample_input_def)
  then have "request_wf (request_of sample_input (pj_new_state bit_json) None rid) \<and>
      observed_once (orq_Observations (request_of sample_input (pj_new_state bit_json) None rid))"
    using newOptimizeRequest_wf [OF run] by (simp add: sample_input_def sample_graph_def)
  moreover have "length (ob_ArcFlows (orq_Observations (request_of sample_input (pj_new_state bit_json) None rid))) = 2"
    by (simp add: request_of_def Let_def flowGraph_def flowObservations_lists flagged_routes_def sample_input_def sample_graph_def)
  ultimately show ?thesis using run by blast
qed

lemma bit_stored: "stored_messages_decode bit_json Some"
  by (auto simp: stored_messages_decode_def bit_json_def split: option.splits)

definition bit_outcome :: OptimizationOutcome where
  "bit_outcome = \<lparr>oo_SnapshotID = ''s'', oo_ServerTime = minute, oo_Verdict = ''VERDICT'', oo_DetectionState = Some [1],
     oo_OptimizationResult = None, oo_FeedbackValues = None, oo_Diagnostics = None\<rparr>"

lemma bit_answered: "outcome_of_response bit_json sample_input bit_answer = Inr bit_outcome"
  by (simp add: outcome_of_response_def encode_part_def bit_answer_def bit_json_def sample_input_def bit_outcome_def)

lemma bit_Optimize:
  obtains w' where "Optimize bit_json (\<lambda>info req x. (Inr bit_answer, x)) ctx sample_input (sample_world [] empty_db ()) =
    (Inr bit_outcome, w')"
proof -
  obtain rid w1 where run: "newOptimizeRequest bit_json sample_input (sample_world [] empty_db ()) =
    (Inr (request_of sample_input (pj_new_state bit_json) None rid), w1)" by (rule sample_request)
  then show thesis
    by (intro that [of w1]) (simp add: Optimize_def bindE_def wrapE_def remote_def bit_answered liftE_def returnE_def)
qed

theorem flow_state_roundtrip_witness:
  "\<exists>w3 found w5 req2 w7. SaveOptimizationOutcome Some (sample_ctx ''t'' ''e'') ''e'' (bit_outcome\<lparr>oo_SnapshotID := ''s1''\<rparr>)
      (sample_world [] sample_snapshot_db ()) = (Inr (), w3) \<and>
    LatestOptimizationOutcome (sample_ctx ''t'' ''e'') ''e'' w3 = (Inr found, w5) \<and>
    newOptimizeRequest bit_json (sample_input\<lparr>oi_Previous := Some found\<rparr>) w5 = (Inr req2, w7) \<and>
    orq_DetectionState req2 = True \<and> orq_PreviousResult req2 = None"
proof -
  let ?save = "SaveOptimizationOutcome Some (sample_ctx ''t'' ''e'') ''e'' (bit_outcome\<lparr>oo_SnapshotID := ''s1''\<rparr>) (sample_world [] sample_snapshot_db ())"
  let ?next = "\<lambda>found. newOptimizeRequest bit_json (sample_input\<lparr>oi_Previous := Some found\<rparr>)"
  obtain w1 where run: "Optimize bit_json (\<lambda>info req x. (Inr bit_answer, x)) (sample_ctx ''t'' ''e'') sample_input (sample_world [] empty_db ()) =
    (Inr bit_outcome, w1)" by (rule bit_Optimize)
  obtain r w3 where save: "?save = (r, w3)" by fastforce
  obtain q w5 where find: "LatestOptimizationOutcome (sample_ctx ''t'' ''e'') ''e'' w3 = (q, w5)" by fastforce
  have "(case fst ?save of Inl _ \<Rightarrow> False | Inr _ \<Rightarrow> True)"
    and "(case fst (LatestOptimizationOutcome (sample_ctx ''t'' ''e'') ''e'' (snd ?save)) of Inl _ \<Rightarrow> False | Inr _ \<Rightarrow> True)"
    by code_simp+
  then obtain found where rs: "r = Inr ()" "q = Inr found" using save find by (cases r; cases q) simp_all
  have "(case fst (bindE (LatestOptimizationOutcome (sample_ctx ''t'' ''e'') ''e'')
      (\<lambda>found. bindE (draw rand_text) (\<lambda>id. returnE (oo_OptimizationResult found))) (snd ?save)) of Inr None \<Rightarrow> True | _ \<Rightarrow> False)"
    by code_simp
  then obtain rid w7 where drawn: "draw rand_text w5 = (Inr rid, w7)" and none: "oo_OptimizationResult found = None"
    using save find by (auto simp: rs bindE_def returnE_def split: prod.splits sum.splits option.splits)
  then have "\<exists>req. ?next found w5 = (Inr req, w7)"
    by (simp add: newOptimizeRequest_def bindE_def liftE_def returnE_def decode_previous_def bit_json_def)
  then obtain req2 where next': "?next found w5 = (Inr req2, w7)" by blast
  have "distinct (map sr_snapshot_id (db_snapshots (w_db (sample_world [] sample_snapshot_db ()))))"
    "sample_snapshot_row \<in> set (db_snapshots (w_db (sample_world [] sample_snapshot_db ())))" "sr_snapshot_id sample_snapshot_row = ''s1''"
    by (simp_all add: sample_snapshot_db_def sample_snapshot_row_def)
  from flow_state_roundtrip [OF bit_stored run save [unfolded rs] refl this find [unfolded rs] _ next']
  have "orq_DetectionState req2 = True \<and> orq_PreviousResult req2 = None" by (auto simp: bit_answer_def)
  with save find next' show ?thesis by (simp add: rs)
qed

end
