(* ===== verification/ConnectProperties.thy ===== *)
theory ConnectProperties
  imports ConnectService
begin

section \<open>Which reports reach the use case\<close>

text \<open>
  The handler of \<open>ReportMeasurements\<close> decides by the first measurement what kind of report it is and refuses the first measurement that does
  not fit. The specification looks at all of them at once.
\<close>

definition input_of :: "MeasurementMethod \<Rightarrow> (MeasurementMessage \<Rightarrow> string) \<Rightarrow> ReportMeasurementsRequest \<Rightarrow> ReportMeasurementsInput" where
  "input_of method source_id req =
     \<lparr>rm_TenantID = rq_TenantId req, rm_EventID = rq_EventId req, rm_EdgeDeviceID = rq_EdgeDeviceId req, rm_Method = method,
      rm_Measurements = map (\<lambda>m. \<lparr>mn_ObservationPointID = source_id m, mn_WindowStart = timestampTime (mx_WindowStart m),
        mn_WindowEnd = timestampTime (mx_WindowEnd m), mn_CountIn = mx_CountIn m, mn_CountOut = mx_CountOut m,
        mn_MeanDetectedPeople = mx_MeanDetectedPeople m\<rparr>) (rq_Measurements req)\<rparr>"

definition edge_measurement :: "MeasurementMessage \<Rightarrow> bool" where
  "edge_measurement m \<longleftrightarrow> mx_Source m = MEASUREMENT_SOURCE_EDGE \<and> mx_QrLocationId m = ''''"

definition gate_measurement :: "MeasurementMessage \<Rightarrow> bool" where
  "gate_measurement m \<longleftrightarrow> mx_Source m = MEASUREMENT_SOURCE_QR \<and> mx_ObservationPointId m = ''''"

lemma mapS_check:
  assumes "\<And>x y. f x = Inr y \<longleftrightarrow> P x \<and> y = g x"
  shows "mapS f xs = Inr ys \<longleftrightarrow> list_all P xs \<and> ys = map g xs"
  by (induction xs arbitrary: ys) (auto simp: bindS_Inr assms)

lemma edge_input:
  "measurement_input MeasurementMethodCamera m = Inr i \<longleftrightarrow> edge_measurement m \<and>
     i = \<lparr>mn_ObservationPointID = mx_ObservationPointId m, mn_WindowStart = timestampTime (mx_WindowStart m),
        mn_WindowEnd = timestampTime (mx_WindowEnd m), mn_CountIn = mx_CountIn m, mn_CountOut = mx_CountOut m,
        mn_MeanDetectedPeople = mx_MeanDetectedPeople m\<rparr>"
  by (cases "mx_Source m") (auto simp: measurement_input_def bindS_Inr edge_measurement_def)

lemma gate_input:
  "measurement_input MeasurementMethodQR m = Inr i \<longleftrightarrow> gate_measurement m \<and>
     i = \<lparr>mn_ObservationPointID = mx_QrLocationId m, mn_WindowStart = timestampTime (mx_WindowStart m),
        mn_WindowEnd = timestampTime (mx_WindowEnd m), mn_CountIn = mx_CountIn m, mn_CountOut = mx_CountOut m,
        mn_MeanDetectedPeople = mx_MeanDetectedPeople m\<rparr>"
  by (cases "mx_Source m") (auto simp: measurement_input_def bindS_Inr gate_measurement_def)

lemma request_method_QR: "request_method ms = MeasurementMethodQR \<longleftrightarrow> ms \<noteq> [] \<and> mx_Source (hd ms) = MEASUREMENT_SOURCE_QR"
  by (auto simp: request_method_def split: list.splits)

lemma request_method_cases: "request_method ms = MeasurementMethodQR \<or> request_method ms = MeasurementMethodCamera"
  by (auto simp: request_method_def split: list.splits)

text \<open>C34. A report is handed on exactly when all its measurements are of one source and carry the identifier of that source and no other: edge
  measurements, or measurements of gates without an edge device. What is handed on has the measurements in order, with the identifiers of that source.\<close>

theorem report_input_accepts:
  "report_input req = Inr input \<longleftrightarrow>
     (rq_Measurements req \<noteq> [] \<and> list_all gate_measurement (rq_Measurements req) \<and> rq_EdgeDeviceId req = '''' \<and>
        input = input_of MeasurementMethodQR mx_QrLocationId req) \<or>
     (list_all edge_measurement (rq_Measurements req) \<and> input = input_of MeasurementMethodCamera mx_ObservationPointId req)"
proof (cases "request_method (rq_Measurements req) = MeasurementMethodQR")
  case True
  then obtain m ms where ms: "rq_Measurements req = m # ms" "mx_Source m = MEASUREMENT_SOURCE_QR"
    by (cases "rq_Measurements req") (simp_all add: request_method_QR)
  then have "\<not> list_all edge_measurement (rq_Measurements req)" by (simp add: edge_measurement_def)
  moreover have "report_input req = Inr input \<longleftrightarrow> rq_EdgeDeviceId req = '''' \<and> list_all gate_measurement (rq_Measurements req) \<and>
      input = input_of MeasurementMethodQR mx_QrLocationId req"
    by (auto simp: report_input_def Let_def True bindS_Inr mapS_check [OF gate_input] input_of_def)
  ultimately show ?thesis using ms(1) by auto
next
  case False
  then have camera: "request_method (rq_Measurements req) = MeasurementMethodCamera" using request_method_cases by blast
  have "\<not> (rq_Measurements req \<noteq> [] \<and> list_all gate_measurement (rq_Measurements req))"
    using False by (cases "rq_Measurements req") (auto simp: request_method_QR gate_measurement_def)
  moreover have "report_input req = Inr input \<longleftrightarrow> list_all edge_measurement (rq_Measurements req) \<and>
      input = input_of MeasurementMethodCamera mx_ObservationPointId req"
    by (auto simp: report_input_def Let_def camera bindS_Inr mapS_check [OF edge_input] input_of_def)
  ultimately show ?thesis by auto
qed

end
