(* ===== verification/Logging.thy ===== *)
theory Logging
  imports GoErrors
begin

section \<open>internal/logging/handler.go: the log entries of the service\<close>

text \<open>
  The handler writes one JSON object per record: the record's own fields under the keys Cloud Logging reads, the trace of the
  request, and the attributes of the call sites. The object is modelled as the list of its keys and values in the order they are written;
  text encoding and writing it out are not. \<open>slog.JSONHandler\<close> of the standard library is modelled as far as the code
  uses it: groups that are opened only when something is written into them, groups without a name inlined, empty attributes dropped,
  \<open>ReplaceAttr\<close> called on every attribute that is no group, with the names of the open groups. The values of attributes are resolved
  (\<open>slog.LogValuer\<close>); how \<open>fmt\<close> prints a value that is no string is the parameter \<open>text_of\<close>.
\<close>

subsection \<open>Levels and severities\<close>

definition LevelDebug :: int where "LevelDebug = - 4"
definition LevelInfo :: int where "LevelInfo = 0"
definition LevelWarn :: int where "LevelWarn = 4"
definition LevelError :: int where "LevelError = 8"
definition LevelCritical :: int where "LevelCritical = LevelError + 4"

lemmas level_defs = LevelDebug_def LevelInfo_def LevelWarn_def LevelError_def LevelCritical_def

text \<open>
  \<open>strings.ToLower\<close> of a text that is compared with ASCII names: besides the ASCII capitals, two letters (capital I with dot, the Kelvin
  sign) have an ASCII lower case; every other one outside ASCII goes to one outside ASCII, which no name has, and is left as it is.
\<close>

fun lower_name :: "string \<Rightarrow> string" where
  "lower_name [] = []"
| "lower_name (c # s) =
     (if c = CHR 0xC4 \<and> take 1 s = [CHR 0xB0] then CHR ''i'' # lower_name (drop 1 s)
      else if c = CHR 0xE2 \<and> take 2 s = [CHR 0x84, CHR 0xAA] then CHR ''k'' # lower_name (drop 2 s)
      else lower_char c # lower_name s)"

definition ParseLevel :: "string \<Rightarrow> err + int" where
  "ParseLevel s =
     (let name = lower_name s in
      if name = ''debug'' then Inr LevelDebug
      else if name = ''info'' then Inr LevelInfo
      else if name \<in> {''warn'', ''warning''} then Inr LevelWarn
      else if name = ''error'' then Inr LevelError
      else if name = ''critical'' then Inr LevelCritical
      else Inl (OtherError ''unknown log level''))"

definition severityOf :: "int \<Rightarrow> string" where
  "severityOf level =
     (if level < LevelInfo then ''DEBUG''
      else if level < LevelWarn then ''INFO''
      else if level < LevelError then ''WARNING''
      else if level < LevelCritical then ''ERROR''
      else ''CRITICAL'')"

subsection \<open>Attributes\<close>

record SlogSource =
  so_Function :: string
  so_File :: string
  so_Line :: int

datatype 'v LogValue =
    ValueNil | ValueTime time | ValueLevel int | ValueSource SlogSource | ValueString string | ValueBool bool | ValueInt int
  | ValueAny 'v
  | ValueGroup "(string \<times> 'v LogValue) list"

type_synonym 'v Attr = "string \<times> 'v LogValue"

datatype 'v Field = Leaf "'v LogValue" | Object "(string \<times> 'v Field) list"

type_synonym 'v fields = "(string \<times> 'v Field) list"

definition cloudLoggingPrefix :: string where "cloudLoggingPrefix = ''logging.googleapis.com/''"

definition keyTime :: string where "keyTime = ''time''"
definition keySeverity :: string where "keySeverity = ''severity''"
definition keyMessage :: string where "keyMessage = ''message''"
definition keySourceLocation :: string where "keySourceLocation = cloudLoggingPrefix @ ''sourceLocation''"
definition keyTrace :: string where "keyTrace = cloudLoggingPrefix @ ''trace''"
definition keySpanID :: string where "keySpanID = cloudLoggingPrefix @ ''spanId''"
definition keyTraceSampled :: string where "keyTraceSampled = cloudLoggingPrefix @ ''trace_sampled''"

text \<open>The keys of \<open>slog\<close> itself.\<close>

definition LevelKey :: string where "LevelKey = ''level''"
definition MessageKey :: string where "MessageKey = ''msg''"
definition SourceKey :: string where "SourceKey = ''source''"

lemmas key_defs = cloudLoggingPrefix_def keyTime_def keySeverity_def keyMessage_def keySourceLocation_def keyTrace_def keySpanID_def
  keyTraceSampled_def LevelKey_def MessageKey_def SourceKey_def

definition reservedPrefix :: string where "reservedPrefix = ''attr_''"

definition reservedKeys :: "string set" where
  "reservedKeys = {keyTime, keySeverity, keyMessage, LevelKey, MessageKey, SourceKey}"

definition isReserved :: "string \<Rightarrow> bool" where
  "isReserved key \<longleftrightarrow> prefix cloudLoggingPrefix key \<or> key \<in> reservedKeys"

definition renameReserved :: "'v Attr \<Rightarrow> 'v Attr" where
  "renameReserved a = (if isReserved (fst a) then (reservedPrefix @ fst a, snd a) else a)"

definition renameReservedAttrs :: "'v Attr list \<Rightarrow> 'v Attr list" where
  "renameReservedAttrs attrs = (if list_ex (\<lambda>a. isReserved (fst a)) attrs then map renameReserved attrs else attrs)"

text \<open>A record: the call site its program counter resolves to, and the attributes of the call.\<close>

record 'v LogRecord =
  lr_Time :: time
  lr_Level :: int
  lr_Message :: string
  lr_Source :: SlogSource
  lr_Attrs :: "'v Attr list"

text \<open>\<open>Record.AddAttrs\<close> leaves empty groups out.\<close>

definition AddAttrs :: "'v LogRecord \<Rightarrow> 'v Attr list \<Rightarrow> 'v LogRecord" where
  "AddAttrs r attrs = r\<lparr>lr_Attrs := lr_Attrs r @ filter (\<lambda>a. snd a \<noteq> ValueGroup []) attrs\<rparr>"

definition renameReservedRecord :: "'v LogRecord \<Rightarrow> 'v LogRecord" where
  "renameReservedRecord r =
     (if list_ex (\<lambda>a. isReserved (fst a)) (lr_Attrs r)
      then fold (\<lambda>a renamed. AddAttrs renamed [renameReserved a]) (lr_Attrs r) (r\<lparr>lr_Attrs := []\<rparr>)
      else r)"

subsection \<open>The built-in attributes\<close>

text \<open>\<open>time.RFC3339Nano\<close> of a time in UTC: the civil date of a day counted from 1 January of year 1, and the fraction without trailing zeros.\<close>

definition pad :: "nat \<Rightarrow> string \<Rightarrow> string" where
  "pad n s = replicate (n - length s) (CHR ''0'') @ s"

definition leap_year :: "int \<Rightarrow> bool" where
  "leap_year y \<longleftrightarrow> y mod 4 = 0 \<and> (y mod 100 \<noteq> 0 \<or> y mod 400 = 0)"

definition month_lengths :: "int \<Rightarrow> int list" where
  "month_lengths y = [31, if leap_year y then 29 else 28, 31, 30, 31, 30, 31, 31, 30, 31, 30, 31]"

fun month_day :: "int list \<Rightarrow> int \<Rightarrow> int \<Rightarrow> int \<times> int" where
  "month_day [] m d = (m, d + 1)"
| "month_day (n # ns) m d = (if d < n then (m, d + 1) else month_day ns (m + 1) (d - n))"

definition civil :: "int \<Rightarrow> int \<times> int \<times> int" where
  "civil day =
     (let n400 = day div 146097; d = day mod 146097;
          n100 = min 3 (d div 36524); d = d - n100 * 36524;
          n4 = d div 1461; d = d mod 1461;
          n1 = min 3 (d div 365); d = d - n1 * 365;
          year = 400 * n400 + 100 * n100 + 4 * n4 + n1 + 1
      in (year, month_day (month_lengths year) 1 d))"

definition year_text :: "int \<Rightarrow> string" where
  "year_text y = (if y < 0 then ''-'' else '''') @ pad 4 (nat_text (nat \<bar>y\<bar>))"

definition fraction_text :: "int \<Rightarrow> string" where
  "fraction_text ns =
     (if ns = 0 then '''' else ''.'' @ rev (dropWhile (\<lambda>c. c = CHR ''0'') (rev (pad 9 (nat_text (nat ns))))))"

definition RFC3339Nano :: "time \<Rightarrow> string" where
  "RFC3339Nano t =
     (let ns = t mod second; s = t div second; (y, m, d) = civil (s div 86400); r = s mod 86400;
          two = (\<lambda>n. pad 2 (nat_text (nat n)))
      in year_text y @ ''-'' @ two m @ ''-'' @ two d @ ''T'' @ two (r div 3600) @ '':'' @ two (r mod 3600 div 60) @ '':''
           @ two (r mod 60) @ fraction_text ns @ ''Z'')"

text \<open>\<open>Value.String\<close> is the text of a string, and what \<open>fmt\<close> prints of anything else.\<close>

definition value_string :: "('v LogValue \<Rightarrow> string) \<Rightarrow> 'v LogValue \<Rightarrow> string" where
  "value_string text_of v = (case v of ValueString s \<Rightarrow> s | _ \<Rightarrow> text_of v)"

definition replaceAttr :: "('v LogValue \<Rightarrow> string) \<Rightarrow> string list \<Rightarrow> 'v Attr \<Rightarrow> 'v Attr" where
  "replaceAttr text_of groups a =
     (if groups \<noteq> [] then a
      else if fst a = keyTime then
        (case snd a of ValueTime t \<Rightarrow> (keyTime, ValueString (RFC3339Nano t)) | _ \<Rightarrow> a)
      else if fst a = LevelKey then
        (case snd a of ValueLevel level \<Rightarrow> (keySeverity, ValueString (severityOf level)) | _ \<Rightarrow> a)
      else if fst a = MessageKey then (keyMessage, ValueString (value_string text_of (snd a)))
      else if fst a = SourceKey then
        (case snd a of
           ValueSource s \<Rightarrow> (keySourceLocation, ValueGroup [(''file'', ValueString (so_File s)),
             (''line'', ValueString (int_text (so_Line s))), (''function'', ValueString (so_Function s))])
         | _ \<Rightarrow> a)
      else a)"

subsection \<open>slog.JSONHandler\<close>

text \<open>A call site that is left in place is written as the group of its parts that are set.\<close>

definition source_group :: "SlogSource \<Rightarrow> 'v Attr list" where
  "source_group s =
     (if so_Function s = '''' then [] else [(''function'', ValueString (so_Function s))]) @
     (if so_File s = '''' then [] else [(''file'', ValueString (so_File s))]) @
     (if so_Line s = 0 then [] else [(''line'', ValueInt (so_Line s))])"

definition in_group :: "string \<Rightarrow> 'v fields \<Rightarrow> 'v fields" where
  "in_group key fs = (if fs = [] then [] else if key = '''' then fs else [(key, Object fs)])"

text \<open>An attribute that is no group, after \<open>ReplaceAttr\<close>; the members of the group \<open>replaceAttr\<close> makes of a call site are no built-ins.\<close>

definition leaf_fields :: "'v Attr \<Rightarrow> 'v fields" where
  "leaf_fields a =
     (case snd a of
        ValueSource s \<Rightarrow> in_group (fst a) (map (map_prod id Leaf) (source_group s))
      | ValueGroup attrs \<Rightarrow> in_group (fst a) (map (map_prod id Leaf) attrs)
      | ValueNil \<Rightarrow> if fst a = '''' then [] else [(fst a, Leaf ValueNil)]
      | v \<Rightarrow> [(fst a, Leaf v)])"

definition sub_groups :: "string list \<Rightarrow> string \<Rightarrow> string list" where
  "sub_groups groups key = (if key = '''' then groups else groups @ [key])"

fun attr_fields :: "('v LogValue \<Rightarrow> string) \<Rightarrow> string list \<Rightarrow> string \<Rightarrow> 'v LogValue \<Rightarrow> 'v fields"
  and attrs_fields :: "('v LogValue \<Rightarrow> string) \<Rightarrow> string list \<Rightarrow> 'v Attr list \<Rightarrow> 'v fields" where
  "attr_fields text_of groups key (ValueGroup attrs) = in_group key (attrs_fields text_of (sub_groups groups key) attrs)"
| "attr_fields text_of groups key v = leaf_fields (replaceAttr text_of groups (key, v))"
| "attrs_fields text_of groups [] = []"
| "attrs_fields text_of groups ((key, v) # attrs) = attr_fields text_of groups key v @ attrs_fields text_of groups attrs"

text \<open>
  The handler keeps what it has written already (the fields at the top and those of the groups that are open, the innermost first) and the
  groups that are to be opened when something is written into them.
\<close>

record 'v JSONHandler =
  js_Level :: int
  js_AddSource :: bool
  js_top :: "'v fields"
  js_open :: "(string \<times> 'v fields) list"
  js_pending :: "string list"

definition js_groups :: "'v JSONHandler \<Rightarrow> string list" where
  "js_groups h = rev (map fst (js_open h)) @ js_pending h"

fun add_fields :: "'v fields \<Rightarrow> 'v fields \<times> (string \<times> 'v fields) list \<Rightarrow> 'v fields \<times> (string \<times> 'v fields) list" where
  "add_fields fs (out, []) = (out @ fs, [])"
| "add_fields fs (out, (g, gs) # outer) = (out, (g, gs @ fs) # outer)"

definition open_groups :: "string list \<Rightarrow> (string \<times> 'v fields) list \<Rightarrow> (string \<times> 'v fields) list" where
  "open_groups names groups = rev (map (\<lambda>g. (g, [])) names) @ groups"

fun close_groups :: "'v fields \<Rightarrow> (string \<times> 'v fields) list \<Rightarrow> 'v fields" where
  "close_groups out [] = out"
| "close_groups out [(g, fs)] = out @ [(g, Object fs)]"
| "close_groups out ((g, fs) # (g', fs') # outer) = close_groups out ((g', fs' @ [(g, Object fs)]) # outer)"

definition js_WithAttrs :: "('v LogValue \<Rightarrow> string) \<Rightarrow> 'v JSONHandler \<Rightarrow> 'v Attr list \<Rightarrow> 'v JSONHandler" where
  "js_WithAttrs text_of h attrs =
     (let fs = attrs_fields text_of (js_groups h) attrs in
      if fs = [] then h
      else let (out, groups) = add_fields fs (js_top h, open_groups (js_pending h) (js_open h))
           in h\<lparr>js_top := out, js_open := groups, js_pending := []\<rparr>)"

definition js_WithGroup :: "'v JSONHandler \<Rightarrow> string \<Rightarrow> 'v JSONHandler" where
  "js_WithGroup h name = h\<lparr>js_pending := js_pending h @ [name]\<rparr>"

definition js_Enabled :: "'v JSONHandler \<Rightarrow> int \<Rightarrow> bool" where
  "js_Enabled h level \<longleftrightarrow> js_Level h \<le> level"

definition builtin_attrs :: "bool \<Rightarrow> 'v LogRecord \<Rightarrow> 'v Attr list" where
  "builtin_attrs addSource r =
     (if lr_Time r = 0 then [] else [(keyTime, ValueTime (lr_Time r))]) @ [(LevelKey, ValueLevel (lr_Level r))] @
     (if addSource then [(SourceKey, ValueSource (lr_Source r))] else []) @ [(MessageKey, ValueString (lr_Message r))]"

definition js_Handle :: "('v LogValue \<Rightarrow> string) \<Rightarrow> 'v JSONHandler \<Rightarrow> 'v LogRecord \<Rightarrow> 'v fields" where
  "js_Handle text_of h r =
     attrs_fields text_of [] (builtin_attrs (js_AddSource h) r) @
     (let fs = attrs_fields text_of (js_groups h) (lr_Attrs r) in
      if fs = [] then close_groups (js_top h) (js_open h)
      else let (out, groups) = add_fields fs (js_top h, open_groups (js_pending h) (js_open h)) in close_groups out groups)"

subsection \<open>The handler of the service\<close>

record LogOptions =
  lo_Level :: "int option"
  lo_AddSource :: bool
  lo_ProjectID :: string

record 'v handlerOp =
  ho_attrs :: "'v Attr list"
  ho_group :: string

record 'v traceHandler =
  th_base :: "'v JSONHandler"
  th_inner :: "'v JSONHandler"
  th_ops :: "'v handlerOp list"
  th_projectID :: string
  th_grouped :: bool

record SpanContext =
  sc_TraceID :: string
  sc_SpanID :: string
  sc_IsSampled :: bool
  sc_IsValid :: bool

definition handlerOp_apply :: "('v LogValue \<Rightarrow> string) \<Rightarrow> 'v handlerOp \<Rightarrow> 'v JSONHandler \<Rightarrow> 'v JSONHandler" where
  "handlerOp_apply text_of op h =
     (if ho_group op \<noteq> '''' then js_WithGroup h (ho_group op) else js_WithAttrs text_of h (ho_attrs op))"

definition newTraceHandler :: "('v LogValue \<Rightarrow> string) \<Rightarrow> 'v JSONHandler \<Rightarrow> 'v handlerOp list \<Rightarrow> string \<Rightarrow> 'v traceHandler" where
  "newTraceHandler text_of base ops projectID =
     (let (inner, nested) =
        fold (\<lambda>op (inner, nested). (handlerOp_apply text_of op inner, nested \<or> ho_group op \<noteq> '''')) ops (base, False)
      in \<lparr>th_base = base, th_inner = inner, th_ops = ops, th_projectID = projectID, th_grouped = nested\<rparr>)"

definition NewHandler :: "('v LogValue \<Rightarrow> string) \<Rightarrow> LogOptions \<Rightarrow> 'v traceHandler" where
  "NewHandler text_of opts =
     newTraceHandler text_of
       \<lparr>js_Level = (case lo_Level opts of None \<Rightarrow> LevelInfo | Some level \<Rightarrow> level), js_AddSource = lo_AddSource opts,
        js_top = [], js_open = [], js_pending = []\<rparr> [] (lo_ProjectID opts)"

definition th_Enabled :: "'v traceHandler \<Rightarrow> int \<Rightarrow> bool" where
  "th_Enabled h level = js_Enabled (th_inner h) level"

definition traceResourceName :: "'v traceHandler \<Rightarrow> string \<Rightarrow> string" where
  "traceResourceName h traceID =
     (if th_projectID h = '''' then traceID else ''projects/'' @ th_projectID h @ ''/traces/'' @ traceID)"

definition th_Handle :: "('v LogValue \<Rightarrow> string) \<Rightarrow> 'v traceHandler \<Rightarrow> SpanContext \<Rightarrow> 'v LogRecord \<Rightarrow> 'v fields" where
  "th_Handle text_of h sc r =
     (let r = (if th_grouped h then r else renameReservedRecord r) in
      if \<not> sc_IsValid sc then js_Handle text_of (th_inner h) r
      else
        let handler = js_WithAttrs text_of (th_base h)
              [(keyTrace, ValueString (traceResourceName h (sc_TraceID sc))), (keySpanID, ValueString (sc_SpanID sc)),
               (keyTraceSampled, ValueBool (sc_IsSampled sc))]
        in js_Handle text_of (fold (handlerOp_apply text_of) (th_ops h) handler) r)"

definition appendOp :: "'v traceHandler \<Rightarrow> 'v handlerOp \<Rightarrow> 'v handlerOp list" where
  "appendOp h op = th_ops h @ [op]"

definition th_WithAttrs :: "('v LogValue \<Rightarrow> string) \<Rightarrow> 'v traceHandler \<Rightarrow> 'v Attr list \<Rightarrow> 'v traceHandler" where
  "th_WithAttrs text_of h attrs =
     (if attrs = [] then h
      else let attrs = (if th_grouped h then attrs else renameReservedAttrs attrs)
           in newTraceHandler text_of (th_base h) (appendOp h \<lparr>ho_attrs = attrs, ho_group = ''''\<rparr>) (th_projectID h))"

definition th_WithGroup :: "('v LogValue \<Rightarrow> string) \<Rightarrow> 'v traceHandler \<Rightarrow> string \<Rightarrow> 'v traceHandler" where
  "th_WithGroup text_of h name =
     (if name = '''' then h
      else newTraceHandler text_of (th_base h) (appendOp h \<lparr>ho_attrs = [], ho_group = name\<rparr>) (th_projectID h))"

section \<open>What an entry holds\<close>

text \<open>
  The specification of an entry under the calls a logger was derived with: the fields in the order of the calls, those after \<open>WithGroup\<close> inside the
  group, and the names of attributes changed where they are written at the top and reserved.
\<close>

datatype 'v log_call = With_Attrs "'v Attr list" | With_Group string

definition log_call :: "('v LogValue \<Rightarrow> string) \<Rightarrow> 'v log_call \<Rightarrow> 'v traceHandler \<Rightarrow> 'v traceHandler" where
  "log_call text_of c h = (case c of With_Attrs attrs \<Rightarrow> th_WithAttrs text_of h attrs | With_Group g \<Rightarrow> th_WithGroup text_of h g)"

definition protect :: "string list \<Rightarrow> 'v Attr list \<Rightarrow> 'v Attr list" where
  "protect groups attrs = (if groups = [] then map renameReserved attrs else attrs)"

fun entry_fields :: "('v LogValue \<Rightarrow> string) \<Rightarrow> string list \<Rightarrow> 'v log_call list \<Rightarrow> 'v Attr list \<Rightarrow> 'v fields" where
  "entry_fields text_of groups [] attrs = attrs_fields text_of groups (protect groups attrs)"
| "entry_fields text_of groups (With_Attrs xs # cs) attrs =
     attrs_fields text_of groups (protect groups xs) @ entry_fields text_of groups cs attrs"
| "entry_fields text_of groups (With_Group g # cs) attrs = in_group g (entry_fields text_of (sub_groups groups g) cs attrs)"

definition builtin_fields :: "bool \<Rightarrow> 'v LogRecord \<Rightarrow> 'v fields" where
  "builtin_fields addSource r =
     (if lr_Time r = 0 then [] else [(keyTime, Leaf (ValueString (RFC3339Nano (lr_Time r))))]) @
     [(keySeverity, Leaf (ValueString (severityOf (lr_Level r))))] @
     (if addSource then [(keySourceLocation, Object [(''file'', Leaf (ValueString (so_File (lr_Source r)))),
        (''line'', Leaf (ValueString (int_text (so_Line (lr_Source r))))),
        (''function'', Leaf (ValueString (so_Function (lr_Source r))))])] else []) @
     [(keyMessage, Leaf (ValueString (lr_Message r)))]"

definition trace_fields :: "string \<Rightarrow> SpanContext \<Rightarrow> 'v fields" where
  "trace_fields projectID sc =
     (if sc_IsValid sc
      then [(keyTrace, Leaf (ValueString ((if projectID = '''' then '''' else ''projects/'' @ projectID @ ''/traces/'') @ sc_TraceID sc))),
        (keySpanID, Leaf (ValueString (sc_SpanID sc))), (keyTraceSampled, Leaf (ValueBool (sc_IsSampled sc)))]
      else [])"

subsection \<open>The handler of the library\<close>

text \<open>What a handler writes after the built-ins, when it still gets the fields \<open>fs\<close>.\<close>

definition written :: "'v JSONHandler \<Rightarrow> 'v fields \<Rightarrow> 'v fields" where
  "written h fs =
     (if fs = [] then close_groups (js_top h) (js_open h)
      else let (out, groups) = add_fields fs (js_top h, open_groups (js_pending h) (js_open h)) in close_groups out groups)"

fun ops_fields :: "('v LogValue \<Rightarrow> string) \<Rightarrow> string list \<Rightarrow> 'v handlerOp list \<Rightarrow> 'v Attr list \<Rightarrow> 'v fields" where
  "ops_fields text_of groups [] attrs = attrs_fields text_of groups attrs"
| "ops_fields text_of groups (op # ops) attrs =
     (if ho_group op \<noteq> '''' then in_group (ho_group op) (ops_fields text_of (groups @ [ho_group op]) ops attrs)
      else attrs_fields text_of groups (ho_attrs op) @ ops_fields text_of groups ops attrs)"

lemma add_add: "add_fields b (add_fields a s) = add_fields (a @ b) s"
  by (cases "(a, s)" rule: add_fields.cases) simp_all

lemma open_snoc: "open_groups (names @ [g]) groups = (g, []) # open_groups names groups"
  by (simp add: open_groups_def)

lemma open_rev_fst: "rev (map fst (open_groups names groups)) = rev (map fst groups) @ names"
  by (simp add: open_groups_def rev_map comp_def)

lemma add_fst: "map fst (snd (add_fields fs s)) = map fst (snd s)"
  by (cases "(fs, s)" rule: add_fields.cases) simp_all

lemma close_inner:
  "close_groups out ((g, fs) # groups) = (case add_fields [(g, Object fs)] (out, groups) of (out', groups') \<Rightarrow> close_groups out' groups')"
  by (cases groups) auto

lemma written_group: "g \<noteq> '''' \<Longrightarrow> written (js_WithGroup h g) fs = written h (in_group g fs)"
  by (simp add: written_def js_WithGroup_def in_group_def open_snoc close_inner)

lemma written_attrs:
  "written (js_WithAttrs text_of h attrs) fs = written h (attrs_fields text_of (js_groups h) attrs @ fs)"
proof (cases "attrs_fields text_of (js_groups h) attrs = []")
  case False
  obtain out groups where add: "add_fields (attrs_fields text_of (js_groups h) attrs) (js_top h, open_groups (js_pending h) (js_open h)) =
    (out, groups)" by fastforce
  have "add_fields (attrs_fields text_of (js_groups h) attrs @ fs) (js_top h, open_groups (js_pending h) (js_open h)) =
    add_fields fs (out, groups)" by (simp add: add_add [symmetric] add)
  with False add show ?thesis by (auto simp: written_def js_WithAttrs_def open_groups_def)
qed (simp add: js_WithAttrs_def)

lemma js_groups_WithGroup [simp]: "js_groups (js_WithGroup h g) = js_groups h @ [g]"
  by (simp add: js_groups_def js_WithGroup_def)

lemma js_groups_WithAttrs [simp]: "js_groups (js_WithAttrs text_of h attrs) = js_groups h"
proof -
  have "rev (map fst groups) = js_groups h"
    if "add_fields fs (js_top h, open_groups (js_pending h) (js_open h)) = (out, groups)" for fs out groups
    using add_fst [of fs "(js_top h, open_groups (js_pending h) (js_open h))"] that open_rev_fst [of "js_pending h" "js_open h"]
    by (simp add: js_groups_def)
  then show ?thesis by (auto simp: js_WithAttrs_def js_groups_def Let_def split: prod.splits)
qed

lemma js_AddSource_apply [simp]: "js_AddSource (handlerOp_apply text_of op h) = js_AddSource h"
  by (auto simp: handlerOp_apply_def js_WithGroup_def js_WithAttrs_def Let_def split: prod.splits)

lemma js_Level_apply [simp]: "js_Level (handlerOp_apply text_of op h) = js_Level h"
  by (auto simp: handlerOp_apply_def js_WithGroup_def js_WithAttrs_def Let_def split: prod.splits)

lemma js_AddSource_fold [simp]: "js_AddSource (fold (handlerOp_apply text_of) ops h) = js_AddSource h"
  by (induction ops arbitrary: h) simp_all

lemma js_Level_fold [simp]: "js_Level (fold (handlerOp_apply text_of) ops h) = js_Level h"
  by (induction ops arbitrary: h) simp_all

lemma written_ops:
  "written (fold (handlerOp_apply text_of) ops h) (attrs_fields text_of (js_groups (fold (handlerOp_apply text_of) ops h)) attrs) =
   written h (ops_fields text_of (js_groups h) ops attrs)"
  by (induction ops arbitrary: h) (simp_all add: handlerOp_apply_def written_group written_attrs)

lemma builtins: "attrs_fields text_of [] (builtin_attrs addSource r) = builtin_fields addSource r"
  by (simp add: builtin_attrs_def builtin_fields_def replaceAttr_def leaf_fields_def in_group_def value_string_def key_defs)

lemma Handle_ops:
  "js_Handle text_of (fold (handlerOp_apply text_of) ops h) r =
   builtin_fields (js_AddSource h) r @ written h (ops_fields text_of (js_groups h) ops (lr_Attrs r))"
  by (simp only: written_ops [symmetric]) (simp add: js_Handle_def written_def builtins)

subsection \<open>The handler of the service\<close>

lemma newTraceHandler_fold:
  "fold (\<lambda>op (inner, nested). (handlerOp_apply text_of op inner, nested \<or> ho_group op \<noteq> '''')) ops (h, b) =
   (fold (handlerOp_apply text_of) ops h, b \<or> list_ex (\<lambda>op. ho_group op \<noteq> '''') ops)"
  by (induction ops arbitrary: h b) simp_all

lemma newTraceHandler_simps [simp]:
  "th_base (newTraceHandler text_of base ops pid) = base"
  "th_inner (newTraceHandler text_of base ops pid) = fold (handlerOp_apply text_of) ops base"
  "th_ops (newTraceHandler text_of base ops pid) = ops"
  "th_projectID (newTraceHandler text_of base ops pid) = pid"
  "th_grouped (newTraceHandler text_of base ops pid) = list_ex (\<lambda>op. ho_group op \<noteq> '''') ops"
  by (simp_all add: newTraceHandler_def newTraceHandler_fold)

text \<open>Looking for a collision first changes nothing.\<close>

lemma renameReserved_id: "\<not> isReserved (fst a) \<Longrightarrow> renameReserved a = a"
  by (simp add: renameReserved_def)

lemma renameReservedAttrs_map: "renameReservedAttrs attrs = map renameReserved attrs"
  by (auto simp: renameReservedAttrs_def list_ex_iff renameReserved_id intro!: map_idI [symmetric])

lemma attrs_fields_append: "attrs_fields text_of groups (xs @ ys) = attrs_fields text_of groups xs @ attrs_fields text_of groups ys"
  by (induction xs) auto

lemma attrs_fields_nonempty: "attrs_fields text_of groups (filter (\<lambda>a. snd a \<noteq> ValueGroup []) attrs) = attrs_fields text_of groups attrs"
  by (induction attrs) (auto simp: in_group_def)

lemma AddAttrs_fold:
  "lr_Attrs (fold (\<lambda>a renamed. AddAttrs renamed [f a]) attrs r) = lr_Attrs r @ filter (\<lambda>a. snd a \<noteq> ValueGroup []) (map f attrs)"
  by (induction attrs arbitrary: r) (simp_all add: AddAttrs_def)

lemma AddAttrs_rest:
  "builtin_fields addSource (fold (\<lambda>a renamed. AddAttrs renamed [f a]) attrs r) = builtin_fields addSource r"
  by (induction attrs arbitrary: r) (simp_all add: AddAttrs_def builtin_fields_def)

lemma renameReservedRecord_attrs:
  "attrs_fields text_of groups (lr_Attrs (renameReservedRecord r)) = attrs_fields text_of groups (map renameReserved (lr_Attrs r))"
proof (cases "list_ex (\<lambda>a. isReserved (fst a)) (lr_Attrs r)")
  case True
  then show ?thesis by (simp add: renameReservedRecord_def AddAttrs_fold attrs_fields_nonempty)
next
  case False
  then have "map renameReserved (lr_Attrs r) = lr_Attrs r" by (intro map_idI) (simp add: list_ex_iff renameReserved_id)
  with False show ?thesis by (simp add: renameReservedRecord_def)
qed

lemma renameReservedRecord_builtins [simp]: "builtin_fields addSource (renameReservedRecord r) = builtin_fields addSource r"
  by (simp add: renameReservedRecord_def AddAttrs_rest) (simp add: builtin_fields_def)

lemma ops_fields_cong:
  "(\<And>groups. attrs_fields text_of groups as = attrs_fields text_of groups bs) \<Longrightarrow>
     ops_fields text_of groups ops as = ops_fields text_of groups ops bs"
  by (induction ops arbitrary: groups) simp_all

text \<open>The calls as the handler records them.\<close>

fun call_ops :: "bool \<Rightarrow> 'v log_call list \<Rightarrow> 'v handlerOp list" where
  "call_ops nested [] = []"
| "call_ops nested (With_Attrs xs # cs) =
     (if xs = [] then [] else [\<lparr>ho_attrs = if nested then xs else renameReservedAttrs xs, ho_group = ''''\<rparr>]) @ call_ops nested cs"
| "call_ops nested (With_Group g # cs) =
     (if g = '''' then call_ops nested cs else \<lparr>ho_attrs = [], ho_group = g\<rparr> # call_ops True cs)"

lemma derive_ops:
  "fold (log_call text_of) cs (newTraceHandler text_of base ops pid) =
   newTraceHandler text_of base (ops @ call_ops (list_ex (\<lambda>op. ho_group op \<noteq> '''') ops) cs) pid"
proof (induction cs arbitrary: ops)
  case (Cons c cs)
  then show ?case
    by (cases c) (simp_all add: log_call_def th_WithAttrs_def th_WithGroup_def appendOp_def Let_def)
qed simp

lemma call_ops_fields:
  "ops_fields text_of groups (call_ops (groups \<noteq> []) cs)
     (if groups \<noteq> [] \<or> list_ex (\<lambda>op. ho_group op \<noteq> '''') (call_ops (groups \<noteq> []) cs) then attrs else map renameReserved attrs) =
   entry_fields text_of groups cs attrs"
proof (induction text_of groups cs attrs rule: entry_fields.induct)
  case (3 text_of groups g cs attrs)
  then show ?case by (cases "g = ''''") (auto simp: sub_groups_def in_group_def split: if_splits)
qed (auto simp: protect_def renameReservedAttrs_map split: if_splits)

lemma written_base: "js_open h = [] \<Longrightarrow> js_pending h = [] \<Longrightarrow> written h fs = js_top h @ fs"
  by (simp add: written_def open_groups_def)

lemma trace_attrs:
  assumes "js_top h = []" "js_open h = []" "js_pending h = []" and "sc_IsValid sc"
  shows "js_WithAttrs text_of h
     [(keyTrace, ValueString (traceResourceName th (sc_TraceID sc))), (keySpanID, ValueString (sc_SpanID sc)),
      (keyTraceSampled, ValueBool (sc_IsSampled sc))] = h\<lparr>js_top := trace_fields (th_projectID th) sc\<rparr>"
  using assms by (simp add: js_WithAttrs_def js_groups_def replaceAttr_def leaf_fields_def open_groups_def trace_fields_def
      traceResourceName_def key_defs)

lemma Handle_derived:
  assumes "js_top base = []" "js_open base = []" "js_pending base = []"
  shows "th_Handle text_of (newTraceHandler text_of base ops pid) sc r =
    builtin_fields (js_AddSource base) r @ trace_fields pid sc @
    ops_fields text_of [] ops (if list_ex (\<lambda>op. ho_group op \<noteq> '''') ops then lr_Attrs r else map renameReserved (lr_Attrs r))"
proof -
  let ?h = "newTraceHandler text_of base ops pid"
  let ?r = "if th_grouped ?h then r else renameReservedRecord r"
  have attrs: "ops_fields text_of [] ops (lr_Attrs ?r) =
    ops_fields text_of [] ops (if list_ex (\<lambda>op. ho_group op \<noteq> '''') ops then lr_Attrs r else map renameReserved (lr_Attrs r))"
    by (auto intro: ops_fields_cong simp: renameReservedRecord_attrs)
  have none: "js_groups (base\<lparr>js_top := fs\<rparr>) = []" for fs using assms by (simp add: js_groups_def)
  have base: "js_groups base = []" using none [of "js_top base"] by simp
  show ?thesis
  proof (cases "sc_IsValid sc")
    case True
    have "th_Handle text_of ?h sc r = js_Handle text_of (fold (handlerOp_apply text_of) ops (base\<lparr>js_top := trace_fields pid sc\<rparr>)) ?r"
      using True by (simp add: th_Handle_def trace_attrs [OF assms True])
    also have "\<dots> = builtin_fields (js_AddSource base) ?r @ trace_fields pid sc @ ops_fields text_of [] ops (lr_Attrs ?r)"
      using assms by (simp only: Handle_ops none) (simp add: written_base)
    finally show ?thesis by (simp only: attrs) simp
  next
    case False
    have "th_Handle text_of ?h sc r = js_Handle text_of (fold (handlerOp_apply text_of) ops base) ?r"
      using False by (simp add: th_Handle_def)
    also have "\<dots> = builtin_fields (js_AddSource base) ?r @ ops_fields text_of [] ops (lr_Attrs ?r)"
      using assms by (simp only: Handle_ops base) (simp add: written_base)
    finally show ?thesis using False by (simp only: attrs) (simp add: trace_fields_def)
  qed
qed

lemma Handle_calls:
  "th_Handle text_of (fold (log_call text_of) calls (NewHandler text_of opts)) sc r =
     builtin_fields (lo_AddSource opts) r @ trace_fields (lo_ProjectID opts) sc @ entry_fields text_of [] calls (lr_Attrs r)"
  using call_ops_fields [of text_of "[]" calls "lr_Attrs r"] by (simp add: NewHandler_def derive_ops Handle_derived)

text \<open>C37. Whatever calls a logger was derived by, what the handler writes (through the handler it keeps ready, or by replaying the calls over the trace) is
  the record's own fields, the trace fields at the top whatever group is open, and then the attributes of the calls and the record in
  their order, in their groups, under new names where they would collide.\<close>

theorem Handle_entry:
  "th_Handle text_of (fold (log_call text_of) calls (NewHandler text_of opts)) sc r =
     builtin_fields (lo_AddSource opts) r @ trace_fields (lo_ProjectID opts) sc @ entry_fields text_of [] calls (lr_Attrs r)"
  by (rule Handle_calls)

subsection \<open>Reserved keys\<close>

text \<open>What the calls write at the top: the attributes before a group is opened, and the name of the first group.\<close>

fun top_attrs :: "'v log_call list \<Rightarrow> 'v Attr list \<Rightarrow> 'v Attr list" where
  "top_attrs [] attrs = attrs"
| "top_attrs (With_Attrs xs # cs) attrs = xs @ top_attrs cs attrs"
| "top_attrs (With_Group g # cs) attrs = (if g = '''' then top_attrs cs attrs else [])"

fun top_group :: "'v log_call list \<Rightarrow> string option" where
  "top_group [] = None"
| "top_group (With_Attrs xs # cs) = top_group cs"
| "top_group (With_Group g # cs) = (if g = '''' then top_group cs else Some g)"

text \<open>A group without a name has its members written in its place.\<close>

definition inlined :: "'v Attr \<Rightarrow> bool" where
  "inlined a \<longleftrightarrow> fst a = '''' \<and> (case snd a of ValueGroup xs \<Rightarrow> True | _ \<Rightarrow> False)"

abbreviation reserved_field :: "string \<times> 'v Field \<Rightarrow> bool" where
  "reserved_field f \<equiv> isReserved (fst f)"

lemmas isReserved_defs = isReserved_def reservedKeys_def key_defs

lemma not_reserved_prefixed: "\<not> isReserved (reservedPrefix @ key)"
  by (simp add: isReserved_defs reservedPrefix_def)

lemma not_reserved_renamed: "\<not> isReserved (fst (renameReserved a))"
  by (simp add: renameReserved_def not_reserved_prefixed)

lemma not_reserved_plain: "\<not> isReserved ''''" "\<not> isReserved ''function''" "\<not> isReserved ''file''" "\<not> isReserved ''line''"
  by (simp_all add: isReserved_defs)

lemma replaceAttr_free: "\<not> isReserved key \<Longrightarrow> replaceAttr text_of groups (key, v) = (key, v)"
  by (auto simp: replaceAttr_def isReserved_def reservedKeys_def)

lemma free_leaf:
  assumes "\<not> isReserved key" and "\<And>xs. v \<noteq> ValueGroup xs"
  shows "filter reserved_field (leaf_fields (key, v)) = []"
  using assms by (cases v) (auto simp: leaf_fields_def in_group_def source_group_def not_reserved_plain)

lemma free_attr:
  assumes "\<not> isReserved key" and "\<not> inlined (key, v)"
  shows "filter reserved_field (attr_fields text_of [] key v) = []"
proof (cases v)
  case (ValueGroup xs)
  with assms show ?thesis by (auto simp: inlined_def in_group_def)
qed (use assms(1) in \<open>simp_all add: replaceAttr_free free_leaf\<close>)

lemma free_attrs:
  "list_all (\<lambda>a. \<not> inlined a) attrs \<Longrightarrow> filter reserved_field (attrs_fields text_of [] (map renameReserved attrs)) = []"
proof (induction attrs)
  case (Cons a attrs)
  obtain key v where a: "renameReserved a = (key, v)" by fastforce
  moreover have "\<not> isReserved key" using not_reserved_renamed [of a] a by simp
  moreover have "\<not> inlined (key, v)"
    using Cons.prems a by (auto simp: inlined_def renameReserved_def reservedPrefix_def split: if_splits)
  ultimately show ?case using Cons by (simp add: free_attr)
qed simp

lemma free_entry:
  "list_all (\<lambda>a. \<not> inlined a) (top_attrs cs attrs) \<Longrightarrow> (\<forall>g. top_group cs = Some g \<longrightarrow> \<not> isReserved g) \<Longrightarrow>
     filter reserved_field (entry_fields text_of [] cs attrs) = []"
proof (induction cs)
  case (Cons c cs)
  then show ?case
    by (cases c) (auto simp: free_attrs protect_def sub_groups_def in_group_def)
qed (simp add: protect_def free_attrs)

lemma own_fields: "filter reserved_field (builtin_fields addSource r @ trace_fields pid sc) = builtin_fields addSource r @ trace_fields pid sc"
  by (simp add: builtin_fields_def trace_fields_def isReserved_defs)

lemma own_fields_distinct: "distinct (map fst (builtin_fields addSource r @ trace_fields pid sc))"
  by (auto simp: builtin_fields_def trace_fields_def key_defs)

text \<open>C36. No attribute of a call site takes the place of a key Cloud Logging reads: those keys are in an entry at most once and hold
  what the handler wrote there, as long as no group is opened at the top under such a name and no group without a name is put there.\<close>

theorem Handle_reserved_once:
  assumes "list_all (\<lambda>a. \<not> inlined a) (top_attrs calls (lr_Attrs r))"
    and "\<forall>g. top_group calls = Some g \<longrightarrow> \<not> isReserved g"
  shows "let entry = th_Handle text_of (fold (log_call text_of) calls (NewHandler text_of opts)) sc r;
      reserved = filter (\<lambda>f. isReserved (fst f)) entry
    in reserved = builtin_fields (lo_AddSource opts) r @ trace_fields (lo_ProjectID opts) sc \<and> distinct (map fst reserved)"
proof -
  have "filter reserved_field (builtin_fields (lo_AddSource opts) r @ trace_fields (lo_ProjectID opts) sc @
      entry_fields text_of [] calls (lr_Attrs r)) = builtin_fields (lo_AddSource opts) r @ trace_fields (lo_ProjectID opts) sc"
    using own_fields [of "lo_AddSource opts" r "lo_ProjectID opts" sc] by (simp add: free_entry [OF assms])
  then show ?thesis
    using own_fields_distinct [of "lo_AddSource opts" r "lo_ProjectID opts" sc] by (simp only: Handle_calls Let_def)
qed

definition sample_options :: LogOptions where
  "sample_options = \<lparr>lo_Level = None, lo_AddSource = False, lo_ProjectID = ''p''\<rparr>"

definition sample_record :: "unit Attr list \<Rightarrow> unit LogRecord" where
  "sample_record attrs = \<lparr>lr_Time = 0, lr_Level = LevelError, lr_Message = ''failed'',
     lr_Source = \<lparr>so_Function = '''', so_File = '''', so_Line = 0\<rparr>, lr_Attrs = attrs\<rparr>"

definition sample_span :: SpanContext where
  "sample_span = \<lparr>sc_TraceID = ''0a'', sc_SpanID = ''0b'', sc_IsSampled = True, sc_IsValid = True\<rparr>"

theorem Handle_reserved_once_witness:
  "filter (\<lambda>f. isReserved (fst f)) (th_Handle (\<lambda>v. '''') (fold (log_call (\<lambda>v. '''')) [With_Attrs [(''time'', ValueNil)], With_Group ''g'']
     (NewHandler (\<lambda>v. '''') sample_options)) sample_span (sample_record [(''severity'', ValueString ''INFO'')])) =
   [(''severity'', Leaf (ValueString ''ERROR'')), (''message'', Leaf (ValueString ''failed'')),
    (''logging.googleapis.com/trace'', Leaf (ValueString ''projects/p/traces/0a'')),
    (''logging.googleapis.com/spanId'', Leaf (ValueString ''0b'')), (''logging.googleapis.com/trace_sampled'', Leaf (ValueBool True))]"
proof -
  have free: "list_all (\<lambda>a. \<not> inlined a) (top_attrs [With_Attrs [(''time'', ValueNil)], With_Group ''g'']
      (lr_Attrs (sample_record [(''severity'', ValueString ''INFO'')])))" by (simp add: inlined_def)
  have group: "\<forall>g. top_group [With_Attrs [(''time'', ValueNil :: unit LogValue)], With_Group ''g''] = Some g \<longrightarrow> \<not> isReserved g"
    by (simp add: isReserved_defs)
  show ?thesis
    using Handle_reserved_once [OF free group, of "\<lambda>v. ''''" sample_options sample_span]
    unfolding Let_def
    by (simp add: builtin_fields_def trace_fields_def sample_options_def sample_record_def sample_span_def severityOf_def level_defs key_defs)
qed

text \<open>The two ways around the renaming: a group may be opened under a reserved name, and the members of a group without a name are written at the top.\<close>

lemma group_name_hides_severity:
  "map fst (th_Handle (\<lambda>v. '''') (fold (log_call (\<lambda>v. '''')) [With_Group ''severity''] (NewHandler (\<lambda>v. '''') sample_options))
     (sample_span\<lparr>sc_IsValid := False\<rparr>) (sample_record [(''a'', ValueNil)])) = [''severity'', ''message'', ''severity'']"
  unfolding Handle_calls
  by (simp add: builtin_fields_def trace_fields_def sample_options_def sample_record_def sub_groups_def in_group_def
      protect_def replaceAttr_def leaf_fields_def key_defs)

lemma inlined_group_hides_severity:
  "th_Handle (\<lambda>v. '''') (NewHandler (\<lambda>v. '''') sample_options) (sample_span\<lparr>sc_IsValid := False\<rparr>)
     (sample_record [('''', ValueGroup [(''severity'', ValueString ''INFO'')])]) =
   [(''severity'', Leaf (ValueString ''ERROR'')), (''message'', Leaf (ValueString ''failed'')), (''severity'', Leaf (ValueString ''INFO''))]"
  using Handle_calls [of "\<lambda>v. ''''" "[]" sample_options "sample_span\<lparr>sc_IsValid := False\<rparr>"
      "sample_record [('''', ValueGroup [(''severity'', ValueString ''INFO'')])]"]
  by (simp add: builtin_fields_def trace_fields_def sample_options_def sample_record_def sub_groups_def in_group_def
      protect_def renameReserved_def isReserved_defs replaceAttr_def leaf_fields_def severityOf_def level_defs)

subsection \<open>Levels\<close>

lemma ParseLevel_names:
  "ParseLevel ''DEBUG'' = Inr LevelDebug" "ParseLevel ''INFO'' = Inr LevelInfo" "ParseLevel ''WARNING'' = Inr LevelWarn"
  "ParseLevel ''ERROR'' = Inr LevelError" "ParseLevel ''CRITICAL'' = Inr LevelCritical"
  by code_simp+

text \<open>A severity that was emitted can be configured, and is the severity of the level it configures.\<close>

lemma ParseLevel_severityOf: "\<exists>l. ParseLevel (severityOf level) = Inr l \<and> severityOf l = severityOf level"
  by (simp add: severityOf_def ParseLevel_names) (simp add: level_defs)

end
