(* ===== verification/HealthRoutes.thy ===== *)
theory HealthRoutes
  imports ObservationCycle
begin

section \<open>infra/httpapi: the mux and the health endpoints\<close>

text \<open>
  An HTTP handler is an action that answers with a status and a body; that writing the answer may fail is only logged. \<open>http.ServeMux\<close> is
  modelled for patterns of a method and a path without wildcards: \<open>GET\<close> also serves \<open>HEAD\<close>, another method of a known path is answered with 405 and an
  unknown path with 404. The Connect routes, which a package that is not under src mounts, are further routes.
\<close>

record HttpResponse =
  hs_Status :: nat
  hs_Body :: string

record 'x HttpRoute =
  hu_Method :: string
  hu_Path :: string
  hu_Handler :: "Ctx \<Rightarrow> ('x, HttpResponse) action"

type_synonym 'x Routes = "'x HttpRoute list"

definition NewHandler_mux :: "'x Routes list \<Rightarrow> 'x Routes" where
  "NewHandler_mux routes = concat routes"

definition route_serves :: "string \<Rightarrow> 'x HttpRoute \<Rightarrow> bool" where
  "route_serves verb u \<longleftrightarrow> hu_Method u = verb \<or> hu_Method u = ''GET'' \<and> verb = ''HEAD''"

definition ServeHTTP :: "'x Routes \<Rightarrow> Ctx \<Rightarrow> string \<Rightarrow> string \<Rightarrow> ('x, HttpResponse) action" where
  "ServeHTTP mux ctx verb path =
     (case filter (\<lambda>u. hu_Path u = path) mux of
        [] \<Rightarrow> returnE \<lparr>hs_Status = 404, hs_Body = ''404 page not found''\<rparr>
      | known \<Rightarrow>
          (case List.find (route_serves verb) known of
             None \<Rightarrow> returnE \<lparr>hs_Status = 405, hs_Body = ''Method Not Allowed''\<rparr>
           | Some u \<Rightarrow> hu_Handler u ctx))"

definition readinessTimeout :: duration where "readinessTimeout = dur_mul 5 second"

record 'x ReadinessCheck =
  rc_Name :: string
  rc_Check :: "Ctx \<Rightarrow> ('x, unit) action"

definition handleHealthz :: "Ctx \<Rightarrow> ('x, HttpResponse) action" where
  "handleHealthz ctx = returnE \<lparr>hs_Status = 200, hs_Body = ''ok''\<rparr>"

definition readiness_check :: "Ctx \<Rightarrow> 'x ReadinessCheck \<Rightarrow> HttpResponse \<Rightarrow> ('x, HttpResponse) action" where
  "readiness_check ctx check answer =
     handleE (bindE (rc_Check check ctx) (\<lambda>_. returnE answer))
       (\<lambda>err. bindE (slog ''readiness check failed'') (\<lambda>_. returnE \<lparr>hs_Status = 503, hs_Body = ''not ready''\<rparr>))"

definition handleReadyz :: "'x ReadinessCheck list \<Rightarrow> Ctx \<Rightarrow> ('x, HttpResponse) action" where
  "handleReadyz checks ctx =
     bindE now (\<lambda>t. foldE (readiness_check (WithTimeout ctx t readinessTimeout)) checks \<lparr>hs_Status = 200, hs_Body = ''ok''\<rparr>)"

definition HealthRoutes :: "'x ReadinessCheck list \<Rightarrow> 'x Routes" where
  "HealthRoutes checks =
     [\<lparr>hu_Method = ''GET'', hu_Path = ''/healthz'', hu_Handler = handleHealthz\<rparr>,
      \<lparr>hu_Method = ''GET'', hu_Path = ''/readyz'', hu_Handler = handleReadyz checks\<rparr>]"

subsection \<open>Readiness\<close>

text \<open>The checks one after the other, each in the world the one before left: what they returned, and the world after the last.\<close>

fun check_results :: "Ctx \<Rightarrow> 'x ReadinessCheck list \<Rightarrow> 'x world \<Rightarrow> (err + unit) list \<times> 'x world" where
  "check_results ctx [] w = ([], w)"
| "check_results ctx (c # cs) w =
     (let (r, w') = rc_Check c ctx w;
          w'' = (case r of Inl err \<Rightarrow> w'\<lparr>w_log := w_log w' @ [''readiness check failed'']\<rparr> | Inr u \<Rightarrow> w');
          (rs, fin) = check_results ctx cs w''
      in (r # rs, fin))"

definition failed :: "err + unit \<Rightarrow> bool" where
  "failed r \<longleftrightarrow> (case r of Inl err \<Rightarrow> True | Inr u \<Rightarrow> False)"

definition panicked :: "err + unit \<Rightarrow> bool" where
  "panicked r \<longleftrightarrow> (case r of Inl err \<Rightarrow> is_panic err | Inr u \<Rightarrow> False)"

lemma readiness_fold:
  assumes "check_results ctx cs w = (rs, w')" and "\<not> list_ex panicked rs"
  shows "foldE (readiness_check ctx) cs answer w =
    (Inr (if list_ex failed rs then \<lparr>hs_Status = 503, hs_Body = ''not ready''\<rparr> else answer), w')"
  using assms
proof (induction cs arbitrary: w rs answer)
  case (Cons c cs)
  then show ?case
    by (cases "fst (rc_Check c ctx w)")
      (auto simp: readiness_check_def handleE_def catchE_def bindE_def returnE_def throwE_def slog_def failed_def panicked_def Let_def
        split: prod.splits sum.splits if_splits)
qed (simp add: returnE_def)

text \<open>The readiness endpoint runs every check, each in the world the one before left and with a deadline five seconds from the start,
  and answers 200 when all of them succeeded and 503 as soon as one failed, whichever it was, with a body that tells no more.\<close>

theorem handleReadyz_answer:
  assumes "check_results (WithTimeout ctx (w_clock w 0) readinessTimeout) checks (snd (now w)) = (rs, w')" and "\<not> list_ex panicked rs"
  shows "handleReadyz checks ctx w =
    (Inr (if list_ex failed rs then \<lparr>hs_Status = 503, hs_Body = ''not ready''\<rparr> else \<lparr>hs_Status = 200, hs_Body = ''ok''\<rparr>), w') \<and>
    length rs = length checks"
proof -
  have len: "length rs = length cs" if "check_results c cs w1 = (rs, w2)" for c and cs :: "'a ReadinessCheck list" and w1 w2 rs
    using that by (induction cs arbitrary: w1 rs) (auto simp: Let_def split: prod.splits)
  show ?thesis using len [OF assms(1)] readiness_fold [OF assms] by (simp add: handleReadyz_def bindE_def now_def)
qed

end
