(* ===== verification/Process.thy ===== *)
theory Process
  imports Server Logging HealthRoutes
begin

section \<open>The process: cmd/server, internal/telemetry and the database pool\<close>

text \<open>
  What \<open>run\<close> does from the first setting to the end of the process: it builds the logger, reads its settings, opens tracing, the pool and the
  publisher, builds the routes and serves until the server fails or a signal arrives. What packages that are not under src answer to each of
  these steps is an argument (\<open>Platform\<close>). The state of the process is the trace of what happened so far (what was opened, served, released and
  logged, in order) and the stack of deferred calls: every step that opens something says so itself, every \<open>defer\<close> pushes its call, and
  only the return of \<open>run\<close> runs the stack. Nothing ties an opening to a release but the code.
\<close>

subsection \<open>What happens to resources\<close>

datatype resource = Signals | Tracing | Pool | NATSConnection | PublisherClient | Listener

datatype happening = Opened resource | Released resource | Served string | Logged string

text \<open>The deferred calls of \<open>run\<close>, with the values they capture.\<close>

datatype BrokerPublisher = NATSPublisher | GooglePublisher

datatype cleanup = StopSignals | ShutdownTracing "string option" | ClosePool | ClosePublisher BrokerPublisher

record RunState =
  pc_trace :: "happening list"
  pc_deferred :: "cleanup list"

type_synonym 'a step = "(RunState, err, 'a) prog"

definition happen :: "happening list \<Rightarrow> unit step" where
  "happen es = modifyE (\<lambda>s. s\<lparr>pc_trace := pc_trace s @ es\<rparr>)"

definition deferred :: "cleanup \<Rightarrow> unit step" where
  "deferred c = modifyE (\<lambda>s. s\<lparr>pc_deferred := c # pc_deferred s\<rparr>)"

text \<open>A failure that a deferred function only logs.\<close>

definition logging_failure :: "string \<Rightarrow> unit step \<Rightarrow> unit step" where
  "logging_failure msg m = catchE m (\<lambda>err. happen [Logged msg])"

subsection \<open>internal/telemetry\<close>

definition DefaultServiceName :: string where "DefaultServiceName = ''tolo-observation''"

definition ServiceName :: "environment \<Rightarrow> string" where
  "ServiceName env = (if env ''OTEL_SERVICE_NAME'' \<noteq> '''' then env ''OTEL_SERVICE_NAME'' else DefaultServiceName)"

definition endpointConfigured :: "environment \<Rightarrow> bool" where
  "endpointConfigured env \<longleftrightarrow> list_ex (\<lambda>key. env key \<noteq> '''') [''OTEL_EXPORTER_OTLP_TRACES_ENDPOINT'', ''OTEL_EXPORTER_OTLP_ENDPOINT'']"

definition telemetry_Enabled :: "environment \<Rightarrow> bool" where
  "telemetry_Enabled env = endpointConfigured env"

text \<open>\<open>Setup\<close>: the spans are exported under a name, or nowhere; \<open>resource.Merge\<close> and the exporter may fail. The shutdown function it
  returns is that of the provider, which owns the exporter, or does nothing.\<close>

definition newResource :: "(string \<Rightarrow> err + unit) \<Rightarrow> environment \<Rightarrow> err + string" where
  "newResource mergeResource env =
     (case mergeResource (ServiceName env) of
        Inl err \<Rightarrow> Inl (Wrap ''build telemetry resource'' err)
      | Inr u \<Rightarrow> Inr (ServiceName env))"

definition Setup :: "(string \<Rightarrow> err + unit) \<Rightarrow> (err + unit) \<Rightarrow> environment \<Rightarrow> string option step" where
  "Setup mergeResource newExporter env =
     (if \<not> endpointConfigured env then returnE None
      else
        bindE (liftE (newResource mergeResource env)) (\<lambda>service.
        bindE (wrapE (Wrap ''create OTLP trace exporter'') (liftE newExporter)) (\<lambda>_.
        bindE (happen [Opened Tracing]) (\<lambda>_. returnE (Some service)))))"

definition shutdown_tracing :: "(err + unit) \<Rightarrow> string option \<Rightarrow> unit step" where
  "shutdown_tracing providerShutdown exported =
     (case exported of
        None \<Rightarrow> returnE ()
      | Some service \<Rightarrow> bindE (happen [Released Tracing]) (\<lambda>_. liftE providerShutdown))"

subsection \<open>infra/db/open.go\<close>

text \<open>\<open>strings.Fields\<close>: the parts between runs of white space.\<close>

definition space_at :: "string \<Rightarrow> string option" where
  "space_at s = List.find (\<lambda>e. e \<noteq> [] \<and> prefix e s) space_encodings"

lemma space_at_shorter: "space_at s = Some e \<Longrightarrow> length s - length e < length s"
proof -
  assume "space_at s = Some e"
  then have "e \<noteq> []" and "prefix e s" by (auto simp: space_at_def find_Some_iff)
  then have "0 < length e" and "length e \<le> length s" by (auto dest: prefix_length_le)
  then show ?thesis by linarith
qed

function fields_from :: "string \<Rightarrow> string \<Rightarrow> string list" where
  "fields_from word s =
     (case space_at s of
        Some e \<Rightarrow> (if word = [] then [] else [word]) @ fields_from [] (drop (length e) s)
      | None \<Rightarrow> (case s of [] \<Rightarrow> if word = [] then [] else [word] | c # cs \<Rightarrow> fields_from (word @ [c]) cs))"
  by pat_completeness auto
termination by (relation "measure (\<lambda>(word, s). length s)") (auto dest: space_at_shorter)

declare fields_from.simps [simp del]

definition Fields :: "string \<Rightarrow> string list" where
  "Fields s = fields_from [] s"

fun join_spaces :: "string list \<Rightarrow> string" where
  "join_spaces [] = []"
| "join_spaces [w] = w"
| "join_spaces (w # ws) = w @ '' '' @ join_spaces ws"

definition normalizeQueryText :: "string \<Rightarrow> string" where
  "normalizeQueryText sql_text = join_spaces (Fields sql_text)"

definition queryTextAttributes :: "string \<Rightarrow> string list" where
  "queryTextAttributes sql_text = (let t = normalizeQueryText sql_text in if t = '''' then [] else [t])"

record PoolDriver =
  pd_Open :: "string \<Rightarrow> err + unit"
  pd_Ping :: "err + unit"
  pd_Close :: "err + unit"

text \<open>\<open>db.Close\<close> gives the pool up even when it reports an error.\<close>

definition pool_Close :: "PoolDriver \<Rightarrow> unit step" where
  "pool_Close drv = bindE (happen [Released Pool]) (\<lambda>_. liftE (pd_Close drv))"

definition Open_pool :: "PoolDriver \<Rightarrow> string \<Rightarrow> unit step" where
  "Open_pool drv databaseURL =
     bindE (wrapE (Wrap ''open database'') (liftE (pd_Open drv databaseURL))) (\<lambda>_.
     bindE (happen [Opened Pool]) (\<lambda>_.
     case pd_Ping drv of
       Inr u \<Rightarrow> returnE ()
     | Inl err \<Rightarrow>
         bindE (catchE (pool_Close drv) (\<lambda>closeErr. throwE (Wrap ''ping database, close database'' err))) (\<lambda>_.
         throwE (Wrap ''ping database'' err))))"

subsection \<open>infra/pubsub: connecting to the broker\<close>

text \<open>The publisher of either broker. The NATS connection is opened first and closed when the rest of the set-up fails; a publisher that was
  made owns it, and whether closing the publisher closes the connection it was given is the library's (\<open>pl_CloseClosesConn\<close>).\<close>

record PublisherLibrary =
  pl_Connect :: "string \<Rightarrow> err + unit"
  pl_JetStream :: "err + unit"
  pl_CreateOrUpdateStream :: "string \<Rightarrow> duration \<Rightarrow> err + unit"
  pl_NewPublisher :: "err + unit"
  pl_NewGooglePublisher :: "string \<Rightarrow> err + unit"
  pl_Close :: "err + unit"
  pl_CloseClosesConn :: bool

definition NewNATSPublisher :: "PublisherLibrary \<Rightarrow> string \<Rightarrow> duration \<Rightarrow> BrokerPublisher step" where
  "NewNATSPublisher lib url maxAge =
     bindE (wrapE (Wrap ''connect to NATS'') (liftE (pl_Connect lib url))) (\<lambda>_.
     bindE (happen [Opened NATSConnection]) (\<lambda>_.
     case bindS (pl_JetStream lib) (\<lambda>_. pl_CreateOrUpdateStream lib GuestStatusTopic maxAge) of
       Inl err \<Rightarrow> bindE (happen [Released NATSConnection]) (\<lambda>_. throwE (Wrap ''provision the guest-status stream'' err))
     | Inr u \<Rightarrow>
         (case pl_NewPublisher lib of
            Inl err \<Rightarrow> bindE (happen [Released NATSConnection]) (\<lambda>_. throwE (Wrap ''create NATS JetStream publisher'' err))
          | Inr u \<Rightarrow> bindE (happen [Opened PublisherClient]) (\<lambda>_. returnE NATSPublisher))))"

definition NewGooglePublisher :: "PublisherLibrary \<Rightarrow> string \<Rightarrow> BrokerPublisher step" where
  "NewGooglePublisher lib projectID =
     bindE (wrapE (Wrap ''create Cloud Pub/Sub publisher'') (liftE (pl_NewGooglePublisher lib projectID))) (\<lambda>_.
     bindE (happen [Opened PublisherClient]) (\<lambda>_. returnE GooglePublisher))"

definition connectBroker :: "PublisherLibrary \<Rightarrow> Broker \<Rightarrow> BrokerPublisher step" where
  "connectBroker lib broker =
     (case broker of
        NATSBroker url maxAge \<Rightarrow> NewNATSPublisher lib url maxAge
      | GoogleBroker projectID \<Rightarrow> NewGooglePublisher lib projectID)"

definition publisher_Close :: "PublisherLibrary \<Rightarrow> BrokerPublisher \<Rightarrow> unit step" where
  "publisher_Close lib publisher =
     bindE (happen (Released PublisherClient # (if publisher = NATSPublisher \<and> pl_CloseClosesConn lib then [Released NATSConnection] else [])))
       (\<lambda>_. liftE (pl_Close lib))"

subsection \<open>cmd/server: run\<close>

definition defaultLogLevel :: string where "defaultLogLevel = ''info''"

definition newLogger :: "environment \<Rightarrow> err + LogOptions" where
  "newLogger env =
     (case ParseLevel (getenv env ''LOG_LEVEL'' defaultLogLevel) of
        Inl err \<Rightarrow> Inl (Wrap ''read LOG_LEVEL'' err)
      | Inr level \<Rightarrow> Inr \<lparr>lo_Level = Some level, lo_AddSource = False, lo_ProjectID = env ''GOOGLE_CLOUD_PROJECT''\<rparr>)"

text \<open>How serving ended: \<open>ListenAndServe\<close> returned, or a signal arrived and \<open>Shutdown\<close> answered.\<close>

datatype served = ServerFailed err | ServerClosed | Signalled "err + unit"

record Platform =
  pf_mergeResource :: "string \<Rightarrow> err + unit"
  pf_newExporter :: "err + unit"
  pf_providerShutdown :: "err + unit"
  pf_driver :: PoolDriver
  pf_publishers :: PublisherLibrary
  pf_routes :: "JWTSettings \<Rightarrow> err + unit"
  pf_served :: "string \<Rightarrow> served"

text \<open>The deferred functions of \<open>run\<close>.\<close>

definition shutdownTracingWithTimeout :: "Platform \<Rightarrow> string option \<Rightarrow> unit step" where
  "shutdownTracingWithTimeout pf exported =
     logging_failure ''shutdown tracing failed'' (shutdown_tracing (pf_providerShutdown pf) exported)"

fun run_cleanup :: "Platform \<Rightarrow> cleanup \<Rightarrow> unit step" where
  "run_cleanup pf StopSignals = happen [Released Signals]"
| "run_cleanup pf (ShutdownTracing exported) = shutdownTracingWithTimeout pf exported"
| "run_cleanup pf ClosePool = logging_failure ''close database failed'' (pool_Close (pf_driver pf))"
| "run_cleanup pf (ClosePublisher publisher) =
     logging_failure ''close guest status publisher failed'' (publisher_Close (pf_publishers pf) publisher)"

text \<open>Returning runs the deferred calls, the last one first; what they answer is gone.\<close>

fun run_deferred :: "Platform \<Rightarrow> cleanup list \<Rightarrow> RunState \<Rightarrow> RunState" where
  "run_deferred pf [] s = s"
| "run_deferred pf (c # cs) s = run_deferred pf cs (snd (run_cleanup pf c s))"

definition returning :: "Platform \<Rightarrow> 'a step \<Rightarrow> (err + 'a) \<times> happening list" where
  "returning pf body =
     (let (r, s) = body \<lparr>pc_trace = [], pc_deferred = []\<rparr> in (r, pc_trace (run_deferred pf (pc_deferred s) s)))"

text \<open>\<open>ListenAndServe\<close> opens the listener and has closed it when it returns; on a signal \<open>Shutdown\<close> closes it.\<close>

definition serve :: "Platform \<Rightarrow> string \<Rightarrow> unit step" where
  "serve pf addr =
     bindE (happen [Opened Listener, Served addr]) (\<lambda>_.
     case pf_served pf addr of
       ServerFailed err \<Rightarrow> bindE (happen [Released Listener]) (\<lambda>_. throwE err)
     | ServerClosed \<Rightarrow> happen [Released Listener]
     | Signalled shutdown \<Rightarrow> bindE (happen [Logged ''server shutting down'', Released Listener]) (\<lambda>_. liftE shutdown))"

definition run_routes :: "Platform \<Rightarrow> Settings \<Rightarrow> unit step" where
  "run_routes pf s = bindE (wrapE (Wrap ''build handler'') (liftE (pf_routes pf (sv_JWT s)))) (\<lambda>_. serve pf (sv_Addr s))"

definition run_publisher :: "Parsers \<Rightarrow> Platform \<Rightarrow> environment \<Rightarrow> Settings \<Rightarrow> unit step" where
  "run_publisher p pf env s =
     bindE (bindE (liftE (newGuestStatusPublisher p env)) (connectBroker (pf_publishers pf))) (\<lambda>publisher.
     bindE (deferred (ClosePublisher publisher)) (\<lambda>_. run_routes pf s))"

definition run_pool :: "Parsers \<Rightarrow> Platform \<Rightarrow> environment \<Rightarrow> Settings \<Rightarrow> unit step" where
  "run_pool p pf env s =
     bindE (Open_pool (pf_driver pf) (sv_DatabaseURL s)) (\<lambda>_.
     bindE (deferred ClosePool) (\<lambda>_. run_publisher p pf env s))"

definition run_tracing :: "Parsers \<Rightarrow> Platform \<Rightarrow> environment \<Rightarrow> Settings \<Rightarrow> unit step" where
  "run_tracing p pf env s =
     bindE (wrapE (Wrap ''setup tracing'') (Setup (pf_mergeResource pf) (pf_newExporter pf) env)) (\<lambda>exported.
     bindE (deferred (ShutdownTracing exported)) (\<lambda>_.
     bindE (whenE (telemetry_Enabled env) (happen [Logged ''tracing enabled''])) (\<lambda>_.
     run_pool p pf env s)))"

definition run :: "Parsers \<Rightarrow> Platform \<Rightarrow> environment \<Rightarrow> (err + unit) \<times> happening list" where
  "run p pf env =
     returning pf
       (bindE (liftE (newLogger env)) (\<lambda>logger.
        bindE (happen [Opened Signals]) (\<lambda>_.
        bindE (deferred StopSignals) (\<lambda>_.
        bindE (liftE (run_settings p env)) (\<lambda>s. run_tracing p pf env s)))))"

subsection \<open>The text of a query is normal\<close>

definition clean :: "string \<Rightarrow> bool" where
  "clean w \<longleftrightarrow> (\<forall>i < length w. space_at (drop i w) = None)"

lemma space_at_None: "space_at s = None \<longleftrightarrow> (\<forall>e \<in> set space_encodings. e \<noteq> [] \<longrightarrow> \<not> prefix e s)"
  by (auto simp: space_at_def find_None_iff)

lemma space_at_append: "space_at (s @ t) = None \<Longrightarrow> space_at s = None"
  by (auto simp: space_at_None dest: prefix_prefix)

lemma encodings_space: "e \<in> set space_encodings \<Longrightarrow> CHR 0x20 \<in> set e \<Longrightarrow> e = [CHR 0x20]"
  by (auto simp: space_encodings_def)

lemma Fields_clean:
  "\<forall>i < length word. space_at (drop i word @ s) = None \<Longrightarrow> \<forall>w \<in> set (fields_from word s). w \<noteq> [] \<and> clean w"
proof (induction word s rule: fields_from.induct)
  case (1 word s)
  have word: "clean word" using 1(3) space_at_append by (auto simp: clean_def)
  show ?case
  proof (cases "space_at s")
    case (Some e)
    with 1(2) [OF Some] word show ?thesis by (subst fields_from.simps) simp
  next
    case None
    show ?thesis
    proof (cases s)
      case Nil
      with None word show ?thesis by (subst fields_from.simps) simp
    next
      case (Cons c cs)
      have "\<forall>i < length (word @ [c]). space_at (drop i (word @ [c]) @ cs) = None"
        using 1(3) None Cons by (auto simp: less_Suc_eq)
      with 1(1) [OF None Cons] None Cons show ?thesis by (subst fields_from.simps) simp
    qed
  qed
qed

lemma space_at_word:
  assumes "clean (c # w)" and "rest = [] \<or> (\<exists>t. rest = CHR 0x20 # t)"
  shows "space_at ((c # w) @ rest) = None"
  unfolding space_at_None
proof (intro ballI impI notI)
  fix e assume e: "e \<in> set space_encodings" "e \<noteq> []" "prefix e ((c # w) @ rest)"
  have "\<not> prefix e (c # w)" using assms(1) e(1,2) by (force simp: clean_def space_at_None)
  with e(3) obtain u where u: "e = (c # w) @ u" "prefix u rest" unfolding prefix_append by blast
  with \<open>\<not> prefix e (c # w)\<close> have "u \<noteq> []" by auto
  with u(2) assms(2) have "CHR 0x20 \<in> set u" by (cases u) auto
  with encodings_space [OF e(1)] u(1) have "e = [CHR 0x20]" by auto
  with u(1) \<open>u \<noteq> []\<close> show False by simp
qed

lemma clean_Cons: "clean (c # w) \<Longrightarrow> clean w"
  unfolding clean_def
proof (intro allI impI)
  fix i assume "\<forall>i < length (c # w). space_at (drop i (c # w)) = None" and "i < length w"
  then show "space_at (drop i w) = None" by (metis Suc_mono drop_Suc_Cons length_Cons)
qed

lemma fields_from_word:
  assumes "clean w" and "rest = [] \<or> (\<exists>t. rest = CHR 0x20 # t)"
  shows "fields_from word (w @ rest) = fields_from (word @ w) rest"
  using assms(1)
proof (induction w arbitrary: word)
  case (Cons c w)
  have "fields_from word ((c # w) @ rest) = fields_from (word @ [c]) (w @ rest)"
    using space_at_word [OF Cons.prems assms(2)] by (subst fields_from.simps) simp
  with Cons.IH [OF clean_Cons [OF Cons.prems], of "word @ [c]"] show ?case by simp
qed simp

lemma fields_from_space: "w \<noteq> [] \<Longrightarrow> fields_from w (CHR 0x20 # rest) = w # fields_from [] rest"
  by (subst fields_from.simps) (simp add: space_at_def space_encodings_def)

lemma fields_from_end: "w \<noteq> [] \<Longrightarrow> fields_from w [] = [w]"
  by (subst fields_from.simps) (simp add: space_at_def space_encodings_def)

lemma Fields_join: "\<forall>w \<in> set ws. w \<noteq> [] \<and> clean w \<Longrightarrow> Fields (join_spaces ws) = ws"
proof (induction ws rule: join_spaces.induct)
  case 1
  show ?case by (simp add: Fields_def) (subst fields_from.simps, simp add: space_at_def space_encodings_def)
next
  case (2 w)
  then show ?case using fields_from_word [of w "[]" "[]"] by (simp add: Fields_def fields_from_end)
next
  case (3 w v vs)
  then show ?case
    using fields_from_word [of w "CHR 0x20 # join_spaces (v # vs)" "[]"] by (simp add: Fields_def fields_from_space)
qed

text \<open>Normalizing twice is normalizing once, and its words are those of the query.\<close>

lemma normalizeQueryText_words: "Fields (normalizeQueryText s) = Fields s"
  unfolding normalizeQueryText_def by (rule Fields_join) (use Fields_clean [of "[]" s] in \<open>simp add: Fields_def\<close>)

lemma normalizeQueryText_idempotent: "normalizeQueryText (normalizeQueryText s) = normalizeQueryText s"
  using normalizeQueryText_words [of s] by (simp add: normalizeQueryText_def)

subsection \<open>Nothing stays open\<close>

text \<open>The resources that are open after a trace, the last opened first, from those open before it. It is undefined when something is opened
  twice, when something is released that is not the last one opened, or when requests are served without the resources \<open>needs\<close>.\<close>

fun open_after :: "resource set \<Rightarrow> resource list \<Rightarrow> happening list \<Rightarrow> resource list option" where
  "open_after needs opened [] = Some opened"
| "open_after needs opened (Opened x # t) = (if x \<in> set opened then None else open_after needs (x # opened) t)"
| "open_after needs opened (Released x # t) =
     (case opened of [] \<Rightarrow> None | y # rest \<Rightarrow> if y = x then open_after needs rest t else None)"
| "open_after needs opened (Served addr # t) = (if needs \<subseteq> set opened then open_after needs opened t else None)"
| "open_after needs opened (Logged msg # t) = open_after needs opened t"

definition serving_needs :: "environment \<Rightarrow> resource set" where
  "serving_needs env = {Signals, Pool, PublisherClient, Listener} \<union> (if telemetry_Enabled env then {Tracing} else {})"

lemma open_after_append:
  "open_after needs opened (t @ u) = Option.bind (open_after needs opened t) (\<lambda>opened'. open_after needs opened' u)"
  by (induction needs opened t rule: open_after.induct) (auto split: list.split)

text \<open>What the deferred calls will release, in their order.\<close>

fun owed :: "Platform \<Rightarrow> cleanup \<Rightarrow> resource list" where
  "owed pf StopSignals = [Signals]"
| "owed pf (ShutdownTracing exported) = (if exported = None then [] else [Tracing])"
| "owed pf ClosePool = [Pool]"
| "owed pf (ClosePublisher publisher) = PublisherClient # (if publisher = NATSPublisher then [NATSConnection] else [])"

lemmas step_simps = happen_def deferred_def logging_failure_def bindE_def wrapE_def catchE_def effect_simps

lemma run_cleanup_releases:
  assumes "pl_CloseClosesConn (pf_publishers pf)"
    and "open_after needs [] (pc_trace s) = Some (owed pf c @ rest)"
  shows "open_after needs [] (pc_trace (snd (run_cleanup pf c s))) = Some rest \<and> pc_deferred (snd (run_cleanup pf c s)) = pc_deferred s"
  using assms
  by (cases c)
    (auto simp: step_simps shutdownTracingWithTimeout_def shutdown_tracing_def pool_Close_def publisher_Close_def open_after_append
      split: sum.split option.split)

lemma run_cleanup_trace: "\<exists>t. pc_trace (snd (run_cleanup pf c s)) = pc_trace s @ t"
  by (cases c)
    (auto simp: step_simps shutdownTracingWithTimeout_def shutdown_tracing_def pool_Close_def publisher_Close_def
      split: sum.split option.split)

lemma run_deferred_releases:
  "pl_CloseClosesConn (pf_publishers pf) \<Longrightarrow> open_after needs [] (pc_trace s) = Some (concat (map (owed pf) cs)) \<Longrightarrow>
     open_after needs [] (pc_trace (run_deferred pf cs s)) = Some []"
proof (induction cs arbitrary: s)
  case (Cons c cs)
  from run_cleanup_releases [OF Cons.prems(1), of needs s c "concat (map (owed pf) cs)"] Cons.prems(2) Cons.IH [OF Cons.prems(1)]
  show ?case by simp
qed simp

lemma run_deferred_trace: "\<exists>t. pc_trace (run_deferred pf cs s) = pc_trace s @ t"
proof (induction cs arbitrary: s)
  case (Cons c cs)
  obtain t where "pc_trace (snd (run_cleanup pf c s)) = pc_trace s @ t" using run_cleanup_trace by blast
  with Cons [of "snd (run_cleanup pf c s)"] show ?case by auto
qed simp

text \<open>A step that is safe from a state: when it returns, exactly what the deferred calls will release is open, and it has served or failed.\<close>

definition balanced :: "Platform \<Rightarrow> resource set \<Rightarrow> RunState \<Rightarrow> bool" where
  "balanced pf needs s \<longleftrightarrow> open_after needs [] (pc_trace s) = Some (concat (map (owed pf) (pc_deferred s)))"

definition settles :: "Platform \<Rightarrow> resource set \<Rightarrow> unit step \<Rightarrow> RunState \<Rightarrow> bool" where
  "settles pf needs m s \<longleftrightarrow> balanced pf needs (snd (m s)) \<and>
     ((\<exists>err. fst (m s) = Inl err) \<or> (\<exists>addr. Served addr \<in> set (pc_trace (snd (m s)))))"

abbreviation "opened_now pf s \<equiv> concat (map (owed pf) (pc_deferred s))"

lemma settles_bind:
  assumes "\<And>err s'. m s = (Inl err, s') \<Longrightarrow> balanced pf needs s'" and "\<And>x s'. m s = (Inr x, s') \<Longrightarrow> settles pf needs (f x) s'"
  shows "settles pf needs (bindE m f) s"
proof (cases "m s")
  case (Pair r s')
  with assms show ?thesis by (cases r) (simp_all add: bindE_def settles_def)
qed

lemma settles_then [simp]:
  "settles pf needs (bindE (deferred c) f) s = settles pf needs (f ()) (s\<lparr>pc_deferred := c # pc_deferred s\<rparr>)"
  "settles pf needs (bindE (happen es) f) s = settles pf needs (f ()) (s\<lparr>pc_trace := pc_trace s @ es\<rparr>)"
  "settles pf needs (bindE (returnE x) g) s = settles pf needs (g x) s"
  by (simp_all add: settles_def deferred_def happen_def)

text \<open>What the three openers open, and that a failed one leaves nothing open.\<close>

lemma connectBroker_opens:
  assumes "open_after needs [] (pc_trace s) = Some opened" and "set opened \<inter> {PublisherClient, NATSConnection} = {}"
    and "connectBroker lib broker s = (r, s')"
  shows "pc_deferred s' = pc_deferred s \<and> open_after needs [] (pc_trace s') =
    Some (case r of Inl err \<Rightarrow> opened | Inr publisher \<Rightarrow> PublisherClient # (if publisher = NATSPublisher then [NATSConnection] else []) @ opened)"
  using assms
  by (cases broker)
    (auto simp: connectBroker_def NewNATSPublisher_def NewGooglePublisher_def step_simps open_after_append split: sum.splits)

lemma Open_pool_opens:
  assumes "open_after needs [] (pc_trace s) = Some opened" and "Pool \<notin> set opened" and "Open_pool drv url s = (r, s')"
  shows "pc_deferred s' = pc_deferred s \<and> open_after needs [] (pc_trace s') = Some (case r of Inl err \<Rightarrow> opened | Inr u \<Rightarrow> Pool # opened)"
  using assms by (auto simp: Open_pool_def pool_Close_def step_simps open_after_append split: sum.splits)

lemma Setup_opens:
  assumes "open_after needs [] (pc_trace s) = Some opened" and "Tracing \<notin> set opened" and "Setup merge exporter env s = (r, s')"
  shows "pc_deferred s' = pc_deferred s \<and> (\<forall>exported. r = Inr exported \<longrightarrow> (exported \<noteq> None \<longleftrightarrow> telemetry_Enabled env)) \<and>
    open_after needs [] (pc_trace s') = Some (case r of Inr (Some service) \<Rightarrow> Tracing # opened | _ \<Rightarrow> opened)"
  using assms by (auto simp: Setup_def newResource_def telemetry_Enabled_def step_simps open_after_append split: sum.splits if_splits)

text \<open>The stages of \<open>run\<close>, the last one first.\<close>

lemma settles_routes:
  assumes "balanced pf needs s" and "needs - {Listener} \<subseteq> set (opened_now pf s)" and "Listener \<notin> set (opened_now pf s)"
  shows "settles pf needs (run_routes pf cfg) s"
  using assms
  by (cases "pf_routes pf (sv_JWT cfg)"; cases "pf_served pf (sv_Addr cfg)")
    (auto simp: settles_def balanced_def run_routes_def serve_def step_simps open_after_append)

lemma settles_publisher:
  assumes bal: "balanced pf (serving_needs env) s" and there: "{Pool, Signals} \<subseteq> set (opened_now pf s)"
    and tracing: "telemetry_Enabled env \<longrightarrow> Tracing \<in> set (opened_now pf s)"
    and absent: "set (opened_now pf s) \<inter> {PublisherClient, NATSConnection, Listener} = {}"
  shows "settles pf (serving_needs env) (run_publisher p pf env cfg) s"
proof (cases "newGuestStatusPublisher p env")
  case (Inl err)
  with bal show ?thesis by (simp add: settles_def run_publisher_def step_simps)
next
  case (Inr broker)
  note opens = connectBroker_opens [OF bal [unfolded balanced_def], of "pf_publishers pf" broker]
  show ?thesis
    unfolding run_publisher_def Inr bindE_lift
  proof (rule settles_bind)
    fix err s' assume "connectBroker (pf_publishers pf) broker s = (Inl err, s')"
    with opens absent show "balanced pf (serving_needs env) s'" by (auto simp: balanced_def)
  next
    fix publisher s' assume "connectBroker (pf_publishers pf) broker s = (Inr publisher, s')"
    with opens absent have s': "pc_deferred s' = pc_deferred s"
      "open_after (serving_needs env) [] (pc_trace s') = Some (owed pf (ClosePublisher publisher) @ opened_now pf s)" by auto
    then have "balanced pf (serving_needs env) (s'\<lparr>pc_deferred := ClosePublisher publisher # pc_deferred s'\<rparr>)" by (simp add: balanced_def)
    then have "settles pf (serving_needs env) (run_routes pf cfg) (s'\<lparr>pc_deferred := ClosePublisher publisher # pc_deferred s'\<rparr>)"
      using there tracing absent s'(1) by (intro settles_routes) (auto simp: serving_needs_def split: if_splits)
    then show "settles pf (serving_needs env) (bindE (deferred (ClosePublisher publisher)) (\<lambda>_. run_routes pf cfg)) s'"
      by simp
  qed
qed

lemma settles_pool:
  assumes bal: "balanced pf (serving_needs env) s" and there: "Signals \<in> set (opened_now pf s)"
    and tracing: "telemetry_Enabled env \<longrightarrow> Tracing \<in> set (opened_now pf s)"
    and absent: "set (opened_now pf s) \<inter> {Pool, PublisherClient, NATSConnection, Listener} = {}"
  shows "settles pf (serving_needs env) (run_pool p pf env cfg) s"
proof -
  note opens = Open_pool_opens [OF bal [unfolded balanced_def], of "pf_driver pf" "sv_DatabaseURL cfg"]
  show ?thesis
    unfolding run_pool_def
  proof (rule settles_bind)
    fix err s' assume "Open_pool (pf_driver pf) (sv_DatabaseURL cfg) s = (Inl err, s')"
    with opens absent show "balanced pf (serving_needs env) s'" by (auto simp: balanced_def)
  next
    fix u s' assume "Open_pool (pf_driver pf) (sv_DatabaseURL cfg) s = (Inr u, s')"
    with opens absent have s': "pc_deferred s' = pc_deferred s"
      "open_after (serving_needs env) [] (pc_trace s') = Some (Pool # opened_now pf s)" by auto
    then have "settles pf (serving_needs env) (run_publisher p pf env cfg) (s'\<lparr>pc_deferred := ClosePool # pc_deferred s'\<rparr>)"
      using there tracing absent by (intro settles_publisher) (auto simp: balanced_def)
    then show "settles pf (serving_needs env) (bindE (deferred ClosePool) (\<lambda>_. run_publisher p pf env cfg)) s'"
      by simp
  qed
qed

lemma settles_tracing:
  assumes bal: "balanced pf (serving_needs env) s" and opened: "opened_now pf s = [Signals]"
  shows "settles pf (serving_needs env) (run_tracing p pf env cfg) s"
proof -
  note opens = Setup_opens [OF bal [unfolded balanced_def], of "pf_mergeResource pf" "pf_newExporter pf" env]
  show ?thesis
    unfolding run_tracing_def
  proof (rule settles_bind)
    fix err s' assume "wrapE (Wrap ''setup tracing'') (Setup (pf_mergeResource pf) (pf_newExporter pf) env) s = (Inl err, s')"
    then obtain err' where "Setup (pf_mergeResource pf) (pf_newExporter pf) env s = (Inl err', s')" by (auto simp: wrapE_Inl)
    with opens opened show "balanced pf (serving_needs env) s'" by (auto simp: balanced_def)
  next
    fix exported s' assume "wrapE (Wrap ''setup tracing'') (Setup (pf_mergeResource pf) (pf_newExporter pf) env) s = (Inr exported, s')"
    then have set_up: "Setup (pf_mergeResource pf) (pf_newExporter pf) env s = (Inr exported, s')" by (simp add: wrapE_Inr)
    define s1 where "s1 = s'\<lparr>pc_deferred := ShutdownTracing exported # pc_deferred s'\<rparr>"
    define s2 where "s2 = s1\<lparr>pc_trace := pc_trace s1 @ (if telemetry_Enabled env then [Logged ''tracing enabled''] else [])\<rparr>"
    from opens set_up opened have s': "pc_deferred s' = pc_deferred s" "exported \<noteq> None \<longleftrightarrow> telemetry_Enabled env"
      "open_after (serving_needs env) [] (pc_trace s') = Some (owed pf (ShutdownTracing exported) @ [Signals])"
      by (auto split: option.splits)
    then have "balanced pf (serving_needs env) s2" and "opened_now pf s2 = owed pf (ShutdownTracing exported) @ [Signals]"
      using opened by (auto simp: balanced_def s2_def s1_def open_after_append)
    then have "settles pf (serving_needs env) (run_pool p pf env cfg) s2"
      using s'(2) by (intro settles_pool) (auto split: if_splits)
    then show "settles pf (serving_needs env) (bindE (deferred (ShutdownTracing exported)) (\<lambda>_.
        bindE (whenE (telemetry_Enabled env) (happen [Logged ''tracing enabled''])) (\<lambda>_. run_pool p pf env cfg))) s'"
      by (simp add: whenE_def s2_def s1_def split: if_splits)
  qed
qed

text \<open>C38. Whatever fails, what the process opens it releases before it ends: every release is of what was opened last and is still open, nothing
  is opened twice, and when \<open>run\<close> has returned nothing is open, be it the signals, tracing, the pool (closed after a failed ping too), the
  NATS connection (closed when the stream or the publisher cannot be made) or the publisher. Requests are served only while all of them are
  open, and a process that never served ends with an error. The one assumption is on the broker library: closing a publisher closes the
  connection it was made with.\<close>

theorem run_orderly:
  assumes "pl_CloseClosesConn (pf_publishers pf)"
  shows "open_after (serving_needs env) [] (snd (run p pf env)) = Some [] \<and>
    ((\<exists>err. fst (run p pf env) = Inl err) \<or> (\<exists>addr. Served addr \<in> set (snd (run p pf env))))"
proof -
  let ?body = "bindE (liftE (newLogger env)) (\<lambda>logger. bindE (happen [Opened Signals]) (\<lambda>_. bindE (deferred StopSignals) (\<lambda>_.
    bindE (liftE (run_settings p env)) (\<lambda>s. run_tracing p pf env s))))"
  let ?start = "\<lparr>pc_trace = [], pc_deferred = []\<rparr>" and ?signals = "\<lparr>pc_trace = [Opened Signals], pc_deferred = [StopSignals]\<rparr>"
  have "settles pf (serving_needs env) (bindE (liftE (run_settings p env)) (\<lambda>s. run_tracing p pf env s)) ?signals"
    by (rule settles_bind) (auto simp: effect_simps balanced_def intro!: settles_tracing)
  then have "settles pf (serving_needs env) ?body ?start"
    by (intro settles_bind) (auto simp: effect_simps balanced_def happen_def deferred_def)
  moreover obtain r s where body: "?body ?start = (r, s)" by fastforce
  ultimately have s: "open_after (serving_needs env) [] (pc_trace s) = Some (opened_now pf s)"
    "(\<exists>err. r = Inl err) \<or> (\<exists>addr. Served addr \<in> set (pc_trace s))"
    by (simp_all add: settles_def balanced_def)
  have run: "run p pf env = (r, pc_trace (run_deferred pf (pc_deferred s) s))" by (simp add: run_def returning_def body)
  obtain t where "pc_trace (run_deferred pf (pc_deferred s) s) = pc_trace s @ t" using run_deferred_trace by blast
  with run_deferred_releases [OF assms s(1)] s(2) show ?thesis unfolding run by auto
qed

text \<open>A process on NATS with tracing that a signal ends, and whose pool reports an error when it is closed; and one whose stream cannot be
  provisioned.\<close>

definition sample_nats_environment :: environment where
  "sample_nats_environment key =
     (if key = ''NATS_URL'' then ''nats'' else if key = ''OTEL_EXPORTER_OTLP_ENDPOINT'' then ''otlp'' else sample_environment key)"

definition sample_platform :: "(err + unit) \<Rightarrow> Platform" where
  "sample_platform stream =
     \<lparr>pf_mergeResource = (\<lambda>name. Inr ()), pf_newExporter = Inr (), pf_providerShutdown = Inr (),
      pf_driver = \<lparr>pd_Open = (\<lambda>url. Inr ()), pd_Ping = Inr (), pd_Close = Inl (OtherError ''close'')\<rparr>,
      pf_publishers = \<lparr>pl_Connect = (\<lambda>url. Inr ()), pl_JetStream = Inr (), pl_CreateOrUpdateStream = (\<lambda>name maxAge. stream),
        pl_NewPublisher = Inr (), pl_NewGooglePublisher = (\<lambda>project. Inr ()), pl_Close = Inr (), pl_CloseClosesConn = True\<rparr>,
      pf_routes = (\<lambda>jwt. Inr ()), pf_served = (\<lambda>addr. Signalled (Inr ()))\<rparr>"

lemma sample_run:
  "run sample_parsers (sample_platform (Inr ())) sample_nats_environment =
    (Inr (), [Opened Signals, Opened Tracing, Logged ''tracing enabled'', Opened Pool, Opened NATSConnection, Opened PublisherClient,
       Opened Listener, Served '':8080'', Logged ''server shutting down'', Released Listener, Released PublisherClient,
       Released NATSConnection, Released Pool, Logged ''close database failed'', Released Tracing, Released Signals])"
  "snd (run sample_parsers (sample_platform (Inl (OtherError ''stream''))) sample_nats_environment) =
    [Opened Signals, Opened Tracing, Logged ''tracing enabled'', Opened Pool, Opened NATSConnection, Released NATSConnection,
       Released Pool, Logged ''close database failed'', Released Tracing, Released Signals]"
  by code_simp+

theorem run_orderly_witness:
  "fst (run sample_parsers (sample_platform (Inr ())) sample_nats_environment) = Inr () \<and>
   open_after (serving_needs sample_nats_environment) [] (snd (run sample_parsers (sample_platform (Inr ())) sample_nats_environment)) = Some []"
  using run_orderly [of "sample_platform (Inr ())" sample_nats_environment sample_parsers] sample_run(1)
  by (simp add: sample_platform_def)

end
