(* ===== verification/MockDeps.thy ===== *)
theory MockDeps
  imports Process
begin

section \<open>cmd/mockdeps: the stand-in for the other services\<close>

text \<open>
  The development stub answers for graph authoring, flow control and operation with fixed content. Its state is what it logs; an
  interceptor logs every call. The numbers of the enumerations of the graph schema are not under src; a client only tells one-way routes from others. \<open>jwtgen\<close>, which signs the tokens it hands out, is not under src; the decoding of a token request is, with
  \<open>encoding/json\<close> (which overwrites the fields that are present) and \<open>time.ParseDuration\<close> as arguments.
\<close>

type_synonym mock_log = "string list"

definition mock_revisionID :: string where "mock_revisionID = ''mock-revision-1''"
definition mock_qrLocationID :: string where "mock_qrLocationID = ''a1b2c3d4e5f60718''"
definition mock_routeID :: string where "mock_routeID = ''route-entrance-hall''"

definition logCalls :: "(mock_log, 'a) rpc \<Rightarrow> (mock_log, 'a) rpc" where
  "logCalls next_handler calls = next_handler (calls @ [''rpc called''])"

definition mock_GetCurrentRevision :: "CallInfo \<Rightarrow> string \<Rightarrow> (mock_log, GetCurrentRevisionResponse) rpc" where
  "mock_GetCurrentRevision info eventID calls =
     (Inr \<lparr>cr_EventId = eventID, cr_RevisionId = mock_revisionID,
        cr_Points = [\<lparr>pm_PointId = ''point-entrance'', pm_Type = 3, pm_Boundary = None\<rparr>,
          \<lparr>pm_PointId = ''point-hall'', pm_Type = 1, pm_Boundary = None\<rparr>],
        cr_Routes = [\<lparr>rm_RouteId = mock_routeID, rm_FromPointId = ''point-entrance'', rm_ToPointId = ''point-hall'',
          rm_Direction = DirectionAttributeOther 1, rm_CapacityHint = None\<rparr>]\<rparr>, calls)"

definition mock_GetObservationPointMappings :: "CallInfo \<Rightarrow> string \<Rightarrow> string \<Rightarrow> (mock_log, MappingMessage list) rpc" where
  "mock_GetObservationPointMappings info eventID revision calls = (Inr [], calls)"

definition mock_GetQrLocations :: "CallInfo \<Rightarrow> string \<Rightarrow> string \<Rightarrow> string \<Rightarrow> (mock_log, MappingMessage list) rpc" where
  "mock_GetQrLocations info eventID revision tenantID calls =
     (Inr [\<lparr>mm_Id = mock_qrLocationID, mm_AnchorPointId = '''', mm_AnchorRouteId = mock_routeID\<rparr>], calls)"

definition graphSupply :: "mock_log GraphSupplyServiceClient" where
  "graphSupply =
     \<lparr>gc_GetCurrentRevision = (\<lambda>info e. logCalls (mock_GetCurrentRevision info e)),
      gc_GetObservationPointMappings = (\<lambda>info e r. logCalls (mock_GetObservationPointMappings info e r)),
      gc_GetQrLocations = (\<lambda>info e r t. logCalls (mock_GetQrLocations info e r t))\<rparr>"

text \<open>Flow control never optimizes: it returns an empty detection state and one importance for the route.\<close>

definition mock_Optimize :: "'ds \<Rightarrow> CallInfo \<Rightarrow> 'ds OptimizeRequest \<Rightarrow> (mock_log, 'ds OptimizeResponse) rpc" where
  "mock_Optimize emptyState info req calls =
     (Inr \<lparr>ors_Verdict = ''VERDICT_SKIPPED_NO_TRIGGER'', ors_UpdatedDetectionState = Some emptyState,
        ors_OptimizationResult = Some \<lparr>or_RouteImportance = [\<lparr>ri_EdgeId = mock_routeID, ri_Direction = IMPORTANCE_DIRECTION_A_TO_B,
            ri_Importance = f_of_int 1\<rparr>],
          or_DirectionProposal = [], or_RestrictionProposal = [], or_DetourPaths = [], or_BoundaryControl = [],
          or_SolvedAt = Some (orq_ServerTime req)\<rparr>,
        ors_Diagnostics = None,
        ors_FeedbackValues = Some \<lparr>fv_ObjectiveValues = Some \<lparr>fo_TauStar = f_of_int 1, fo_Throughput = None\<rparr>,
          fv_PerTagObservations = []\<rparr>\<rparr>, calls)"

definition flowControl :: "'ds \<Rightarrow> (mock_log, 'ds) FlowControlServiceClient" where
  "flowControl emptyState = (\<lambda>info req. logCalls (mock_Optimize emptyState info req))"

definition mock_RequestProposalDelivery :: "CallInfo \<Rightarrow> string \<Rightarrow> FlowProposals \<Rightarrow> string \<Rightarrow> (mock_log, unit) rpc" where
  "mock_RequestProposalDelivery info e p t calls = (Inr (), calls @ [''proposal delivery requested''])"

definition mock_RecordFeedbackValues :: "CallInfo \<Rightarrow> string \<Rightarrow> OperationFeedbackValues \<Rightarrow> string \<Rightarrow> (mock_log, unit) rpc" where
  "mock_RecordFeedbackValues info e p t calls = (Inr (), calls @ [''feedback values recorded''])"

definition deliveryCoordination :: "mock_log DeliveryCoordinationServiceClient" where
  "deliveryCoordination =
     \<lparr>dc_RequestProposalDelivery = (\<lambda>info e p t. logCalls (mock_RequestProposalDelivery info e p t)),
      dc_RecordFeedbackValues = (\<lambda>info e p t. logCalls (mock_RecordFeedbackValues info e p t))\<rparr>"

subsection \<open>Token requests\<close>

record tokenRequest =
  tr_Audience :: string
  tr_TokenUse :: string
  tr_TenantPublicID :: string
  tr_EventPublicID :: string
  tr_Scope :: string
  tr_TTL :: string

record TokenConfig =
  tc_Issuer :: string
  tc_Audience :: string
  tc_TokenUse :: string
  tc_TenantPublicID :: string
  tc_EventPublicID :: string
  tc_Scope :: string
  tc_TTL :: duration

definition decodeTokenRequest ::
  "(byte list \<Rightarrow> tokenRequest \<Rightarrow> err + tokenRequest) \<Rightarrow> Parsers \<Rightarrow> byte list \<Rightarrow> err + TokenConfig" where
  "decodeTokenRequest decode p body =
     (case decode body \<lparr>tr_Audience = ''tolo-observation'', tr_TokenUse = ''event_access'', tr_TenantPublicID = '''',
        tr_EventPublicID = '''', tr_Scope = '''', tr_TTL = ''10m''\<rparr> of
        Inl err \<Rightarrow> Inl (Wrap ''decode token request'' err)
      | Inr req \<Rightarrow>
          (case ps_ParseDuration p (tr_TTL req) of
             Inl err \<Rightarrow> Inl (Wrap ''parse ttl'' err)
           | Inr ttl \<Rightarrow> Inr \<lparr>tc_Issuer = ''service-gateway'', tc_Audience = tr_Audience req, tc_TokenUse = tr_TokenUse req,
               tc_TenantPublicID = tr_TenantPublicID req, tc_EventPublicID = tr_EventPublicID req, tc_Scope = tr_Scope req,
               tc_TTL = ttl\<rparr>))"

subsection \<open>The service against its stand-ins\<close>

text \<open>The other externals are as they are; the remote services are the stand-ins.\<close>

definition mock_externals :: "(mock_log, 'ds) Externals \<Rightarrow> (mock_log, 'ds) Externals" where
  "mock_externals x = x\<lparr>xt_graph := graphSupply, xt_flow := flowControl (pj_new_state (xt_protojson x)), xt_delivery := deliveryCoordination\<rparr>"

definition mock_graph :: "string \<Rightarrow> Graph" where
  "mock_graph eventID =
     \<lparr>gr_EventID = eventID, gr_RevisionID = mock_revisionID,
      gr_Points = [\<lparr>gp_ID = ''point-entrance'', gp_Type = PointTypeTransitOnly, gp_Boundary = None\<rparr>,
        \<lparr>gp_ID = ''point-hall'', gp_Type = PointTypeGoal, gp_Boundary = None\<rparr>],
      gr_Routes = [\<lparr>rt_ID = mock_routeID, rt_FromPointID = ''point-entrance'', rt_ToPointID = ''point-hall'', rt_OneWay = False,
        rt_CapacityHint = None\<rparr>]\<rparr>"

lemma mock_CurrentGraph:
  "gq_CurrentGraph (server_graphs (mock_externals x)) ctx e w = (Inr (mock_graph e), w\<lparr>w_ext := w_ext w @ [''rpc called'']\<rparr>)"
  by (simp add: server_graphs_def NewGraphSupplyClient_def CurrentGraph_def mock_externals_def graphSupply_def logCalls_def
      mock_GetCurrentRevision_def remote_def bindE_def wrapE_def returnE_def mock_graph_def graph_point_def graph_route_def point_type_def)

lemma mock_QrLocations:
  "gq_QrLocations (server_graphs (mock_externals x)) ctx t e revision w =
     (Inr [\<lparr>mp_ObservationPointID = mock_qrLocationID, mp_Anchor = GraphAnchor '''' mock_routeID, mp_Method = MeasurementMethodQR\<rparr>],
      w\<lparr>w_ext := w_ext w @ [''rpc called'']\<rparr>)"
  by (simp add: server_graphs_def NewGraphSupplyClient_def QrLocations_def mock_externals_def graphSupply_def logCalls_def
      mock_GetQrLocations_def remote_def bindE_def wrapE_def returnE_def mapping_of_message_def)

text \<open>Against the stand-ins, a gate report is accepted for any tenant and event exactly when all its measurements are of the one gate there is.\<close>

lemma mock_resolveQRTenant:
  fixes x :: "(mock_log, 'ds) Externals"
  assumes "t \<noteq> ''''"
  shows "resolveQRTenant (server_measurements (mock_externals x) cfg) ctx t e ms w =
    (if \<forall>m \<in> set ms. ms_ObservationPointID m = mock_qrLocationID then Inr t else Inl (Err ErrForeignEvent),
     w\<lparr>w_ext := w_ext w @ [''rpc called'', ''rpc called'']\<rparr>)"
  using assms
  by (auto simp: resolveQRTenant_def server_measurements_def NewMeasurementIngestService_def mock_CurrentGraph mock_QrLocations
      bindE_def wrapE_def returnE_def throwE_def list_ex_iff mock_graph_def)

text \<open>What its flow control proposes is of a route of its graph, and can be delivered.\<close>

lemma mock_proposals:
  assumes "mock_Optimize s info req calls = (Inr res, calls')"
  shows "\<exists>result. ors_OptimizationResult res = Some result \<and> snd (operationFlowProposals result) \<and>
    opi_RouteId ` set (fp_RouteImportances (fst (operationFlowProposals result))) \<subseteq> rt_ID ` set (gr_Routes (mock_graph e))"
  using assms by (auto simp: mock_Optimize_def operationFlowProposals_def Let_def mock_graph_def)

end
