(* ===== verification/Transport.thy ===== *)
theory Transport
  imports Process DeviceSystem CycleProperties
begin

section \<open>infra/connect/server.go: the RPCs behind their policies\<close>

text \<open>
  One interceptor guards every RPC by the policy tables the generated code declares (observation.authz.connect.go), under the procedure names
  of observation.connect.go. The verifier, its key cache and the interceptor are packages that are not under src: they are the functions of
  \<open>TransportLibrary\<close>, and what the interceptor makes of an \<open>Authorization\<close> header is \<open>tl_authenticate\<close>, claims or a refusal. Behind it the request
  reaches the handler registered for its procedure. A request is what a procedure takes; the five procedures of manual intervention are declared and
  not implemented.
\<close>

subsection \<open>Procedures and policies\<close>

datatype ManualIntervention = OperateGate | ToggleDangerFlag | RegisterScheduleEvent | ReportCongestion | CorrectQueue

datatype RpcRequest =
    Rpc_ReportMeasurements ReportMeasurementsRequest
  | Rpc_RegisterEdgeDevice RegisterEdgeDeviceRequest
  | Rpc_UnregisterEdgeDevice string string
  | Rpc_ListEdgeDevices string bool
  | Rpc_ListEdgeDeviceObservationPoints string string
  | Rpc_Heartbeat string string "string list"
  | Rpc_UpdateObservationPointConfig string string string bool
  | Rpc_Manual ManualIntervention
  | Rpc_GetGuestSnapshot string
  | Rpc_GetEventOverview string
  | Rpc_GetObservationSettings string
  | Rpc_UpdateObservationSettings string ObservationSettingsMessage

datatype RpcResponse =
    Resp_Accepted int32
  | Resp_Registered EdgeDeviceMessage string
  | Resp_EdgeDevice EdgeDeviceMessage
  | Resp_EdgeDevices "EdgeDeviceMessage list"
  | Resp_Points "ObservationPointMessage list"
  | Resp_Empty
  | Resp_Point ObservationPointMessage
  | Resp_GuestStatus GuestStatusMessage
  | Resp_Overview EventOverviewMessage
  | Resp_Settings ObservationSettingsMessage

definition MeasurementIngestServiceName :: string where "MeasurementIngestServiceName = ''tolo.observation.v1.MeasurementIngestService''"
definition EdgeDeviceServiceName :: string where "EdgeDeviceServiceName = ''tolo.observation.v1.EdgeDeviceService''"
definition ManualInterventionServiceName :: string where "ManualInterventionServiceName = ''tolo.observation.v1.ManualInterventionService''"
definition StatusQueryServiceName :: string where "StatusQueryServiceName = ''tolo.observation.v1.StatusQueryService''"
definition ObservationSettingsServiceName :: string where "ObservationSettingsServiceName = ''tolo.observation.v1.ObservationSettingsService''"

fun manual_name :: "ManualIntervention \<Rightarrow> string" where
  "manual_name OperateGate = ''OperateGate''"
| "manual_name ToggleDangerFlag = ''ToggleDangerFlag''"
| "manual_name RegisterScheduleEvent = ''RegisterScheduleEvent''"
| "manual_name ReportCongestion = ''ReportCongestion''"
| "manual_name CorrectQueue = ''CorrectQueue''"

fun service_method :: "RpcRequest \<Rightarrow> string \<times> string" where
  "service_method (Rpc_ReportMeasurements _) = (MeasurementIngestServiceName, ''ReportMeasurements'')"
| "service_method (Rpc_RegisterEdgeDevice _) = (EdgeDeviceServiceName, ''RegisterEdgeDevice'')"
| "service_method (Rpc_UnregisterEdgeDevice _ _) = (EdgeDeviceServiceName, ''UnregisterEdgeDevice'')"
| "service_method (Rpc_ListEdgeDevices _ _) = (EdgeDeviceServiceName, ''ListEdgeDevices'')"
| "service_method (Rpc_ListEdgeDeviceObservationPoints _ _) = (EdgeDeviceServiceName, ''ListEdgeDeviceObservationPoints'')"
| "service_method (Rpc_Heartbeat _ _ _) = (EdgeDeviceServiceName, ''Heartbeat'')"
| "service_method (Rpc_UpdateObservationPointConfig _ _ _ _) = (EdgeDeviceServiceName, ''UpdateObservationPointConfig'')"
| "service_method (Rpc_Manual i) = (ManualInterventionServiceName, manual_name i)"
| "service_method (Rpc_GetGuestSnapshot _) = (StatusQueryServiceName, ''GetGuestSnapshot'')"
| "service_method (Rpc_GetEventOverview _) = (StatusQueryServiceName, ''GetEventOverview'')"
| "service_method (Rpc_GetObservationSettings _) = (ObservationSettingsServiceName, ''GetObservationSettings'')"
| "service_method (Rpc_UpdateObservationSettings _ _) = (ObservationSettingsServiceName, ''UpdateObservationSettings'')"

type_synonym procedure = "string \<times> string"

definition procedure_path :: "procedure \<Rightarrow> string" where
  "procedure_path m = ''/'' @ fst m @ ''/'' @ snd m"

datatype AuthLevel = LevelAuthenticated | LevelInternal

record Policy =
  po_Level :: AuthLevel
  po_RequiredScopes :: "string list"
  po_TokenUses :: "string list"

type_synonym policies = "(procedure \<times> Policy) list"

definition event_policy :: "string \<Rightarrow> Policy" where
  "event_policy scope = \<lparr>po_Level = LevelAuthenticated, po_RequiredScopes = [scope], po_TokenUses = [''event_access'']\<rparr>"

definition MeasurementIngestServicePolicies :: policies where
  "MeasurementIngestServicePolicies =
     [((MeasurementIngestServiceName, ''ReportMeasurements''),
       \<lparr>po_Level = LevelAuthenticated, po_RequiredScopes = [''events.report''], po_TokenUses = [''event_access'', ''service'']\<rparr>)]"

definition EdgeDeviceServicePolicies :: policies where
  "EdgeDeviceServicePolicies =
     [((EdgeDeviceServiceName, ''RegisterEdgeDevice''), event_policy ''events.manage''),
      ((EdgeDeviceServiceName, ''UnregisterEdgeDevice''), event_policy ''events.manage''),
      ((EdgeDeviceServiceName, ''ListEdgeDevices''), event_policy ''events.read''),
      ((EdgeDeviceServiceName, ''ListEdgeDeviceObservationPoints''), event_policy ''events.report''),
      ((EdgeDeviceServiceName, ''Heartbeat''), event_policy ''events.report''),
      ((EdgeDeviceServiceName, ''UpdateObservationPointConfig''), event_policy ''events.operate'')]"

definition ManualInterventionServicePolicies :: policies where
  "ManualInterventionServicePolicies =
     [((ManualInterventionServiceName, ''OperateGate''), event_policy ''events.operate''),
      ((ManualInterventionServiceName, ''ToggleDangerFlag''), event_policy ''events.operate''),
      ((ManualInterventionServiceName, ''RegisterScheduleEvent''), event_policy ''events.operate''),
      ((ManualInterventionServiceName, ''ReportCongestion''), event_policy ''events.operate''),
      ((ManualInterventionServiceName, ''CorrectQueue''), event_policy ''events.operate'')]"

definition StatusQueryServicePolicies :: policies where
  "StatusQueryServicePolicies =
     [((StatusQueryServiceName, ''GetGuestSnapshot''), \<lparr>po_Level = LevelInternal, po_RequiredScopes = [], po_TokenUses = []\<rparr>),
      ((StatusQueryServiceName, ''GetEventOverview''), event_policy ''events.read'')]"

definition ObservationSettingsServicePolicies :: policies where
  "ObservationSettingsServicePolicies =
     [((ObservationSettingsServiceName, ''GetObservationSettings''), event_policy ''events.read''),
      ((ObservationSettingsServiceName, ''UpdateObservationSettings''), event_policy ''events.manage'')]"

subsection \<open>Building the routes\<close>

record TransportLibrary =
  tl_newJWKS :: "string \<Rightarrow> err + unit"
  tl_newVerifier :: "string \<Rightarrow> string \<Rightarrow> err + unit"
  tl_newTracing :: "err + unit"
  tl_merge :: "policies list \<Rightarrow> err + policies"
  tl_newInterceptor :: "policies \<Rightarrow> string list \<Rightarrow> err + unit"
  tl_authenticate :: "policies \<Rightarrow> string list \<Rightarrow> procedure \<Rightarrow> string option \<Rightarrow> err + Claims option"

text \<open>What guards the RPCs: the merged policies and the token uses a caller may authenticate with.\<close>

record Guard =
  gd_policies :: policies
  gd_tokenUses :: "string list"

definition wrapS :: "string \<Rightarrow> err + 'a \<Rightarrow> err + 'a" where
  "wrapS text r = (case r of Inl err \<Rightarrow> Inl (Wrap text err) | Inr x \<Rightarrow> Inr x)"

definition RoutesWithVerifier :: "TransportLibrary \<Rightarrow> err + Guard" where
  "RoutesWithVerifier lib =
     bindS (wrapS ''create tracing interceptor'' (tl_newTracing lib)) (\<lambda>_.
     bindS (wrapS ''merge observation policies'' (tl_merge lib [MeasurementIngestServicePolicies, EdgeDeviceServicePolicies,
       ManualInterventionServicePolicies, StatusQueryServicePolicies, ObservationSettingsServicePolicies])) (\<lambda>policies.
     bindS (wrapS ''create observation authentication interceptor'' (tl_newInterceptor lib policies [TokenUseEventAccess])) (\<lambda>_.
     Inr \<lparr>gd_policies = policies, gd_tokenUses = [TokenUseEventAccess]\<rparr>)))"

definition RoutesWithJWTSettings :: "TransportLibrary \<Rightarrow> JWTSettings \<Rightarrow> err + Guard" where
  "RoutesWithJWTSettings lib settings =
     bindS (wrapS ''create JWKS cache'' (tl_newJWKS lib (jw_JWKSURL settings))) (\<lambda>_.
     bindS (wrapS ''create internal JWT verifier'' (tl_newVerifier lib (jw_Issuer settings) (jw_Audience settings))) (\<lambda>_.
     RoutesWithVerifier lib))"

definition reportAuthRejection :: "err \<Rightarrow> ('x, unit) action" where
  "reportAuthRejection err = slog ''internal JWT rejected''"

subsection \<open>Serving a call\<close>

record ('x, 'ds) RpcServices =
  sx_measurements :: "'x MeasurementIngestUseCases"
  sx_edgeDevices :: "'x EdgeDeviceUseCases"
  sx_statusQueries :: "'x StatusQueryUseCases"
  sx_settings :: "'x ObservationSettingsUseCases"
  sx_protojson :: "'ds ProtoJson"

definition unimplemented :: "ManualIntervention \<Rightarrow> err" where
  "unimplemented i = RpcError CodeUnimplemented (ManualInterventionServiceName @ ''.'' @ manual_name i @ '' is not implemented'') None"

fun handle_rpc :: "('x, 'ds) RpcServices \<Rightarrow> Ctx \<Rightarrow> RpcRequest \<Rightarrow> ('x, RpcResponse) action" where
  "handle_rpc s ctx (Rpc_ReportMeasurements req) =
     bindE (ReportMeasurements_rpc (sx_measurements s) ctx req) (\<lambda>n. returnE (Resp_Accepted n))"
| "handle_rpc s ctx (Rpc_RegisterEdgeDevice req) =
     bindE (RegisterEdgeDevice_rpc (sx_edgeDevices s) ctx req) (\<lambda>(device, path). returnE (Resp_Registered device path))"
| "handle_rpc s ctx (Rpc_UnregisterEdgeDevice e i) =
     bindE (UnregisterEdgeDevice_rpc (sx_edgeDevices s) ctx e i) (\<lambda>device. returnE (Resp_EdgeDevice device))"
| "handle_rpc s ctx (Rpc_ListEdgeDevices e b) =
     bindE (ListEdgeDevices_rpc (sx_edgeDevices s) ctx e b) (\<lambda>devices. returnE (Resp_EdgeDevices devices))"
| "handle_rpc s ctx (Rpc_ListEdgeDeviceObservationPoints e i) =
     bindE (ListEdgeDeviceObservationPoints_rpc (sx_edgeDevices s) ctx e i) (\<lambda>points. returnE (Resp_Points points))"
| "handle_rpc s ctx (Rpc_Heartbeat e i active) =
     bindE (Heartbeat_rpc (sx_edgeDevices s) ctx e i active) (\<lambda>_. returnE Resp_Empty)"
| "handle_rpc s ctx (Rpc_UpdateObservationPointConfig e p name enabled) =
     bindE (UpdateObservationPointConfig_rpc (sx_edgeDevices s) ctx e p name enabled) (\<lambda>q. returnE (Resp_Point q))"
| "handle_rpc s ctx (Rpc_Manual i) = throwE (unimplemented i)"
| "handle_rpc s ctx (Rpc_GetGuestSnapshot e) =
     bindE (GetGuestSnapshot_rpc (sx_statusQueries s) ctx e) (\<lambda>status. returnE (Resp_GuestStatus status))"
| "handle_rpc s ctx (Rpc_GetEventOverview e) =
     bindE (GetEventOverview_rpc (sx_protojson s) (sx_statusQueries s) ctx e) (\<lambda>overview. returnE (Resp_Overview overview))"
| "handle_rpc s ctx (Rpc_GetObservationSettings e) =
     bindE (GetObservationSettings_rpc (sx_settings s) ctx e) (\<lambda>settings. returnE (Resp_Settings settings))"
| "handle_rpc s ctx (Rpc_UpdateObservationSettings e m) =
     bindE (UpdateObservationSettings_rpc (sx_settings s) ctx e m) (\<lambda>settings. returnE (Resp_Settings settings))"

definition serve_call ::
  "TransportLibrary \<Rightarrow> Guard \<Rightarrow> ('x, 'ds) RpcServices \<Rightarrow> Ctx \<Rightarrow> RpcRequest \<Rightarrow> ('x, RpcResponse) action" where
  "serve_call lib g s ctx req =
     (case tl_authenticate lib (gd_policies g) (gd_tokenUses g) (service_method req) (ctx_authorization ctx) of
        Inl err \<Rightarrow> bindE (reportAuthRejection err) (\<lambda>_. throwE err)
      | Inr claims \<Rightarrow> handle_rpc s (ctx\<lparr>ctx_claims := claims\<rparr>) req)"

text \<open>The services of the process.\<close>

definition server_services :: "('x, 'ds) Externals \<Rightarrow> ServerConfig \<Rightarrow> ('x, 'ds) RpcServices" where
  "server_services x cfg =
     \<lparr>sx_measurements = ReportMeasurements (server_measurements x cfg), sx_edgeDevices = edge_device_use_cases x cfg,
      sx_statusQueries = status_query_use_cases x, sx_settings = settings_use_cases, sx_protojson = xt_protojson x\<rparr>"

section \<open>What the policies are worth\<close>

definition declared_policies :: policies where
  "declared_policies = concat [MeasurementIngestServicePolicies, EdgeDeviceServicePolicies, ManualInterventionServicePolicies,
     StatusQueryServicePolicies, ObservationSettingsServicePolicies]"

lemmas policy_tables = MeasurementIngestServicePolicies_def EdgeDeviceServicePolicies_def ManualInterventionServicePolicies_def
  StatusQueryServicePolicies_def ObservationSettingsServicePolicies_def

lemmas service_names = MeasurementIngestServiceName_def EdgeDeviceServiceName_def ManualInterventionServiceName_def
  StatusQueryServiceName_def ObservationSettingsServiceName_def

text \<open>No procedure has two policies, so the tables merge; and each has one.\<close>

lemma declared_distinct: "distinct (map fst declared_policies)"
  by code_simp

lemma declared: "service_method req \<in> fst ` set declared_policies"
proof (cases req)
  case (Rpc_Manual i)
  then show ?thesis by (cases i) (simp_all add: declared_policies_def policy_tables service_names)
qed (simp_all add: declared_policies_def policy_tables service_names)

lemma reader_clientError: "reader (clientError err)"
  unfolding clientError_def InternalError_def by (auto intro!: relates_rules split: option.split)

lemma frame_client_errors: "relates same_but_holds m \<Longrightarrow> relates same_but_holds (client_errors m)"
  unfolding client_errors_def by (intro relates_rules reader_clientError [THEN reader_holds])

lemma reads_devices: "relates same_but_holds (ListEdgeDevices (server_edge_devices x cfg) ctx li)"
proof -
  have eval: "relates same_but_holds (Evaluate (server_holds x cfg) ctx t)" for t
    unfolding server_holds_def by (rule Evaluate_frame_pg)
  have parts: "sv_devices (server_edge_devices x cfg) = NewPostgresEdgeDeviceRepository (xt_timestamptz x)"
    "sv_holds (server_edge_devices x cfg) = server_holds x cfg"
    by (simp_all add: server_edge_devices_def NewEdgeDeviceService_def)
  show ?thesis
    unfolding ListEdgeDevices_def parts view_def pg_repository
    by (intro relates_bind relates_wrap relates_map relates_basic same_but_holds_rules eval reader_basic [THEN reader_holds]
        reader_list [THEN reader_holds])
qed

lemma reads_settings: "reader (GetObservationSettings NewPostgresObservationSettingsRepository ctx e)"
  unfolding GetObservationSettings_def findObservationSettings_def NewPostgresObservationSettingsRepository_def
  by (auto intro!: relates_rules Settings_Find_reader)

lemma reader_LatestGuestStatus: "reader (LatestGuestStatus ctx e)"
  unfolding LatestGuestStatus_def by (auto intro!: relates_rules split: option.split sum.split prod.split)

lemma reads_status: "reader (GetEventOverview (server_status x) ctx e)" "reader (GetGuestSnapshot (server_status x) ctx e)"
  unfolding GetEventOverview_def GetGuestSnapshot_def overview_snapshot_def overview_outcome_def server_status_def NewStatusQueryService_def
    server_snapshots_def NewPostgresSnapshotRepository_def NewPostgresGuestStatusRepository_def
  by (auto intro!: relates_rules reader_LatestGuestStatus split: option.split)

lemma frame_read_calls:
  "relates same_but_holds (handle_rpc (server_services x cfg) ctx (Rpc_ListEdgeDevices e b))"
  "relates same_but_holds (handle_rpc (server_services x cfg) ctx (Rpc_GetGuestSnapshot e))"
  "relates same_but_holds (handle_rpc (server_services x cfg) ctx (Rpc_GetEventOverview e))"
  "relates same_but_holds (handle_rpc (server_services x cfg) ctx (Rpc_GetObservationSettings e))"
  by (simp_all add: server_services_def edge_device_use_cases_def status_query_use_cases_def settings_use_cases_def)
    (intro relates_bind relates_basic frame_client_errors same_but_holds_rules
      reads_devices reads_settings [THEN reader_holds] reads_status [THEN reader_holds]
     | simp add: ListEdgeDevices_rpc_def GetGuestSnapshot_rpc_def GetEventOverview_rpc_def GetObservationSettings_rpc_def case_prod_unfold)+

lemma frame_manual: "relates same_but_holds (handle_rpc s ctx (Rpc_Manual i))"
  by (simp add: relates_def throwE_def same_but_holds_def)

definition read_only :: "Policy \<Rightarrow> bool" where
  "read_only policy \<longleftrightarrow> set (po_RequiredScopes policy) \<subseteq> {''events.read''}"

lemma read_only_calls:
  assumes "map_of declared_policies (service_method req) = Some policy" and "read_only policy"
  shows "(\<exists>e b. req = Rpc_ListEdgeDevices e b) \<or> (\<exists>e. req = Rpc_GetGuestSnapshot e) \<or> (\<exists>e. req = Rpc_GetEventOverview e) \<or>
    (\<exists>e. req = Rpc_GetObservationSettings e)"
proof (cases req)
  case (Rpc_Manual i)
  with assms show ?thesis
    by (cases i) (auto simp: declared_policies_def policy_tables service_names event_policy_def read_only_def)
qed (use assms in \<open>auto simp: declared_policies_def policy_tables service_names event_policy_def read_only_def\<close>)

text \<open>C39. The scope a call needs tells what it may write: every procedure has one policy, and a call whose policy asks for no more than
  \<open>events.read\<close> (the recovery of the guest service asks for none) changes nothing in the database but the holds that judging
  connections starts or ends; a call that is refused, or not implemented, changes nothing at all.\<close>

theorem serve_call_scopes:
  fixes w w' :: "'x world" and x :: "('x, 'ds) Externals"
  assumes "serve_call lib g (server_services x cfg) ctx req w = (r, w')"
  shows "\<exists>policy. map_of declared_policies (service_method req) = Some policy \<and>
    (read_only policy \<longrightarrow> w_db w'\<lparr>db_holds := []\<rparr> = w_db w\<lparr>db_holds := []\<rparr> \<and> holds_evolve (db_holds (w_db w)) (db_holds (w_db w'))) \<and>
    ((\<exists>err. tl_authenticate lib (gd_policies g) (gd_tokenUses g) (service_method req) (ctx_authorization ctx) = Inl err) \<or>
      (\<exists>i. req = Rpc_Manual i) \<longrightarrow> w_db w' = w_db w)"
proof -
  obtain policy where policy: "map_of declared_policies (service_method req) = Some policy"
    using declared [of req] by (metis (no_types) map_of_eq_None_iff not_None_eq)
  show ?thesis
  proof (cases "tl_authenticate lib (gd_policies g) (gd_tokenUses g) (service_method req) (ctx_authorization ctx)")
    case (Inl err)
    with assms have "w_db w' = w_db w" by (auto simp: serve_call_def reportAuthRejection_def bindE_def slog_def throwE_def)
    with policy Inl show ?thesis by auto
  next
    case (Inr claims)
    with assms have run: "handle_rpc (server_services x cfg) (ctx\<lparr>ctx_claims := claims\<rparr>) req w = (r, w')"
      by (simp add: serve_call_def)
    have "same_but_holds w w'" if "read_only policy"
    proof -
      have "relates same_but_holds (handle_rpc (server_services x cfg) (ctx\<lparr>ctx_claims := claims\<rparr>) req)"
        using read_only_calls [OF policy that] frame_read_calls by metis
      with run show ?thesis by (metis relates_def snd_conv)
    qed
    moreover have "w_db w' = w_db w" if "req = Rpc_Manual i" for i using run that by (simp add: throwE_def)
    ultimately show ?thesis using policy Inr by (auto simp: same_but_holds_def only_holds_def)
  qed
qed

subsection \<open>What a caller learns\<close>

text \<open>An answer a client may see: a fixed code and message, and nothing kept back but what stays in the process.\<close>

definition client_visible :: "err \<Rightarrow> bool" where
  "client_visible err \<longleftrightarrow> (\<exists>code message cause. err = RpcError code message (Some cause) \<and> (code, message) \<in> set client_answers \<and>
     (code = CodeInternal \<longrightarrow> cause = Err ErrInternal))"

lemma client_errors_visible:
  fixes m :: "('x, 'a) action"
  assumes run: "client_errors m w = (Inl err, w')"
  shows "is_panic err \<or> client_visible err"
proof -
  from run obtain cause w1 where failed: "m w = (Inl cause, w1)"
    and rest: "(if is_panic cause then throwE cause else bindE (clientError cause) throwE) w1 = (Inl err :: err + 'a, w')"
    unfolding client_errors_def catchE_Inl by blast
  show ?thesis
  proof (cases "is_panic cause")
    case True
    with rest show ?thesis by (simp add: throwE_def)
  next
    case False
    obtain code message c w2 where answer: "clientError cause w1 = (Inr (RpcError code message (Some c)), w2)"
      "(code, message) \<in> set client_answers" "code = CodeInternal \<longrightarrow> c = Err ErrInternal"
      using clientError_answer [of cause w1] by (metis (full_types))
    with rest False show ?thesis by (auto simp: bindE_def throwE_def client_visible_def)
  qed
qed

lemma handler_visible:
  "bindE (client_errors m) (\<lambda>a. returnE (f a)) w = (Inl err, w') \<Longrightarrow> is_panic err \<or> client_visible err"
  by (auto simp: bindE_def returnE_def dest: client_errors_visible split: prod.splits sum.splits)

lemma handle_rpc_visible:
  assumes "handle_rpc s ctx req w = (Inl err, w')"
  shows "is_panic err \<or> client_visible err \<or> (\<exists>i. req = Rpc_Manual i \<and> err = unimplemented i)"
proof (cases req)
  case (Rpc_Manual i)
  with assms show ?thesis by (simp add: throwE_def)
next
  case (Rpc_RegisterEdgeDevice q)
  with assms have "bindE (client_errors (bindE (liftE (domainEdgeDeviceKind (rr_Kind q))) (\<lambda>kind.
       bindE (ec_RegisterEdgeDevice (sx_edgeDevices s) ctx
         \<lparr>rg_EventID = rr_EventId q, rg_Name = rr_Name q, rg_ObservationPointNames = rr_ObservationPointNames q,
          rg_Kind = kind, rg_LinkedObservationPointID = rr_LinkedObservationPointId q\<rparr>) (\<lambda>output.
       returnE (newProtoEdgeDevice (ro_Device output), ro_ObservationPagePath output)))))
     (\<lambda>a. returnE (case a of (device, path) \<Rightarrow> Resp_Registered device path)) w = (Inl err, w')"
    by (simp add: RegisterEdgeDevice_rpc_def case_prod_unfold)
  then show ?thesis by (blast dest: handler_visible)
qed (use assms in \<open>auto simp: ReportMeasurements_rpc_def UnregisterEdgeDevice_rpc_def ListEdgeDevices_rpc_def
    ListEdgeDeviceObservationPoints_rpc_def Heartbeat_rpc_def UpdateObservationPointConfig_rpc_def GetGuestSnapshot_rpc_def
    GetEventOverview_rpc_def GetObservationSettings_rpc_def UpdateObservationSettings_rpc_def dest: handler_visible\<close>)

text \<open>C40. Whatever call is made and whatever goes wrong behind it (the database, a peer, a bug): unless the handler panicked, the caller gets the
  refusal of the interceptor, the fixed answer of a procedure that is not implemented, or a code and a message of the table of client errors,
  and an internal error comes without its cause.\<close>

theorem serve_call_errors:
  assumes "serve_call lib g s ctx req w = (Inl err, w')" and "\<not> is_panic err"
  shows "tl_authenticate lib (gd_policies g) (gd_tokenUses g) (service_method req) (ctx_authorization ctx) = Inl err \<or>
    (\<exists>i. req = Rpc_Manual i \<and> err = unimplemented i) \<or> client_visible err"
proof (cases "tl_authenticate lib (gd_policies g) (gd_tokenUses g) (service_method req) (ctx_authorization ctx)")
  case (Inl refusal)
  with assms(1) show ?thesis by (auto simp: serve_call_def reportAuthRejection_def bindE_def slog_def throwE_def)
next
  case (Inr claims)
  with assms(1) have "handle_rpc s (ctx\<lparr>ctx_claims := claims\<rparr>) req w = (Inl err, w')" by (simp add: serve_call_def)
  from handle_rpc_visible [OF this] assms(2) show ?thesis by blast
qed

subsection \<open>Calls\<close>

definition sample_library :: TransportLibrary where
  "sample_library = \<lparr>tl_newJWKS = (\<lambda>url. Inr ()), tl_newVerifier = (\<lambda>issuer audience. Inr ()), tl_newTracing = Inr (),
     tl_merge = (\<lambda>tables. Inr (concat tables)), tl_newInterceptor = (\<lambda>policies uses. Inr ()),
     tl_authenticate = (\<lambda>policies uses m header. case map_of policies m of
        None \<Rightarrow> Inl (RpcError CodeUnauthenticated ''unauthenticated'' None)
      | Some policy \<Rightarrow> Inr (ctx_claims (sample_ctx ''t'' ''e'')))\<rparr>"

definition sample_guard :: Guard where
  "sample_guard = \<lparr>gd_policies = declared_policies, gd_tokenUses = [TokenUseEventAccess]\<rparr>"

lemma sample_guard_built: "RoutesWithJWTSettings sample_library DefaultJWTSettings = Inr sample_guard"
  by (simp add: RoutesWithJWTSettings_def RoutesWithVerifier_def sample_library_def wrapS_def sample_guard_def declared_policies_def)

abbreviation "sample_services \<equiv> server_services sample_externals sample_server_config"

theorem serve_call_scopes_witness:
  "\<exists>r w'. serve_call sample_library sample_guard sample_services (sample_ctx ''t'' ''e'') (Rpc_ListEdgeDevices ''e'' True)
      (sample_world [] empty_db ()) = (r, w') \<and> w_db w'\<lparr>db_holds := []\<rparr> = empty_db\<lparr>db_holds := []\<rparr>"
proof -
  obtain r w' where run: "serve_call sample_library sample_guard sample_services (sample_ctx ''t'' ''e'') (Rpc_ListEdgeDevices ''e'' True)
      (sample_world [] empty_db ()) = (r, w')" by fastforce
  have "map_of declared_policies (service_method (Rpc_ListEdgeDevices ''e'' True)) = Some (event_policy ''events.read'')"
    by (simp add: declared_policies_def policy_tables service_names)
  moreover have "read_only (event_policy ''events.read'')" by (simp add: read_only_def event_policy_def)
  ultimately show ?thesis using serve_call_scopes [OF run] run by auto
qed

lemma sample_refused:
  "serve_call sample_library sample_guard sample_services (sample_ctx ''t'' ''e'') (Rpc_GetObservationSettings ''f'')
      (sample_world [] empty_db ()) =
    (Inl (RpcError CodePermissionDenied ''event ID does not match the token'' (Some (Err ErrEventMismatch))), sample_world [] empty_db ())"
proof -
  have "tl_authenticate sample_library (gd_policies sample_guard) (gd_tokenUses sample_guard)
      (service_method (Rpc_GetObservationSettings ''f'')) header = Inr (ctx_claims (sample_ctx ''t'' ''e''))" for header
    by (simp add: sample_library_def sample_guard_def declared_policies_def policy_tables service_names)
  moreover have "EnsureEvent (sample_ctx ''t'' ''e'') ''f'' = Inl (Err ErrEventMismatch)" by code_simp
  moreover have "sample_ctx ''t'' ''e''\<lparr>ctx_claims := ctx_claims (sample_ctx ''t'' ''e'')\<rparr> = sample_ctx ''t'' ''e''" by simp
  moreover have "clientError (Err ErrEventMismatch) w =
    (Inr (RpcError CodePermissionDenied ''event ID does not match the token'' (Some (Err ErrEventMismatch))), w)" for w :: "unit world"
    by (simp add: clientError_def clientErrors_def returnE_def)
  ultimately show ?thesis
    by (simp add: serve_call_def server_services_def settings_use_cases_def GetObservationSettings_rpc_def GetObservationSettings_def
        client_errors_def catchE_def bindE_def liftE_def throwE_def)
qed

theorem serve_call_errors_witness:
  "\<exists>err w'. serve_call sample_library sample_guard sample_services (sample_ctx ''t'' ''e'') (Rpc_GetObservationSettings ''f'')
      (sample_world [] empty_db ()) = (Inl err, w') \<and> client_visible err"
proof -
  have "tl_authenticate sample_library (gd_policies sample_guard) (gd_tokenUses sample_guard)
      (service_method (Rpc_GetObservationSettings ''f'')) (ctx_authorization (sample_ctx ''t'' ''e'')) \<noteq> Inl err" for err
    by (simp add: sample_library_def sample_guard_def declared_policies_def policy_tables service_names)
  with serve_call_errors [OF sample_refused] sample_refused show ?thesis by auto
qed

end
