(* ===== verification/Spec2Isabelle.thy ===== *)
theory Spec2Isabelle
  imports DeviceSystem SnapshotStore IngestProperties FlowProperties ConnectProperties MockDeps Transport
begin

text \<open>
  A model of the observation service of tolo (a Go program), with the theorems that make it correct.

  The service keeps the edge devices of an event, takes the measurements they and the QR gates report, composes them
  after every report into a snapshot of crowd and flow, sends it to the flow control service for optimization, delivers what comes back to the
  operation service, publishes a status for guests, and answers queries. Its layers are \<open>internal/domain\<close> (values and rules),
  \<open>internal/application\<close> (use cases over repository interfaces), \<open>internal/infra/db\<close> (the repositories on PostgreSQL),
  \<open>internal/infra/connect\<close> (the Connect transport and the clients of other services), \<open>internal/infra/pubsub\<close>, \<open>internal/logging\<close>,
  \<open>internal/infra/httpapi\<close> and \<open>cmd\<close>.

  Common ground
    \<^item> \<open>Prelude\<close>: results and effects. A Go function that may fail and has effects is a function from the world
      to an error or a value and the new world; \<open>keeps\<close> and \<open>relates\<close> carry invariants over their composition.
    \<^item> \<open>GoTime\<close>, \<open>Float64\<close>, \<open>GoStrings\<close>, \<open>GoErrors\<close>: what the code uses of the language and its library:
      times and durations with the wrap-around of \<open>int64\<close>, IEEE binary64 with round-to-even, strings as bytes with
      the Unicode white space of \<open>strings.TrimSpace\<close>, the tree of wrapped errors with \<open>errors.Is\<close>, panics included.
    \<^item> \<open>TenantCtx\<close>: \<open>internal/tenantctx\<close>, the claims of a request and the checks against them.

  Domain (\<open>internal/domain\<close>)
    \<^item> \<open>EdgeDevice\<close> (edge\_device.go, camera links and points included), \<open>Measurement\<close>, \<open>ObservationSettings\<close>,
      \<open>EventGraph\<close> (graph.go, guest\_status.go), \<open>HeartbeatLossHold\<close>, \<open>Snapshot\<close> (snapshot.go), \<open>SensorSets\<close>,
      \<open>ArcHistories\<close>.

  Storage (\<open>internal/infra/db\<close> with the interfaces of \<open>internal/repository\<close>)
    \<^item> \<open>Database\<close>: the tables of \<open>migrations/\<close>, a script of faults for the statements sent, and
      \<open>RunInTransaction\<close> of transaction.go.
    \<^item> \<open>EdgeDeviceStore\<close>, \<open>HoldStore\<close>, \<open>MeasurementStore\<close>, \<open>SettingsStore\<close>, \<open>GuestStore\<close>, \<open>ArcStore\<close> (the hourly
      cells of snapshot.go) and \<open>SnapshotStore\<close>: one definition for each method of a repository and one for each
      SQL statement, a function on the tables. \<open>JsonCodec\<close> is the JSON they store.
    \<^item> Each repository interface is a record of functions; \<open>NewPostgres...\<close> builds it. Where use cases rely on a contract
      of it, the contract is a locale, and the PostgreSQL repository interprets it (\<open>hold_store\<close>, \<open>settings_store\<close>).

  Use cases (\<open>internal/application\<close>)
    \<^item> \<open>HoldStore\<close> (heartbeat\_loss\_hold.go), \<open>EdgeDeviceUseCases\<close> (edge\_device.go), \<open>SettingsStore\<close>
      (observation\_settings.go), \<open>ObservationCycle\<close>, \<open>MeasurementIngest\<close> and \<open>StatusQuery\<close>. The two calls to the operation service that
      a cycle makes at the same time run in an order the scheduler (\<open>xt_schedule\<close>) picks.

  Transport and other services (\<open>internal/infra/connect\<close>, \<open>internal/infra/pubsub\<close>)
    \<^item> \<open>ConnectErrors\<close> (errors.go), \<open>ConnectService\<close> (service.go), \<open>FlowDiagnostics\<close>: the eleven handlers, their messages and what a
      client learns of an error.
    \<^item> \<open>GraphClient\<close>, \<open>FlowMessages\<close> with \<open>FlowClient\<close>, \<open>OperationClient\<close>, \<open>GuestPublisher\<close>: requests built and answers read. A peer is a function on
      a state of its own; it cannot reach the database.
    \<^item> \<open>Transport\<close> (server.go and the generated procedure names and policies): the interceptor in front, dispatch behind it.

  Process
    \<^item> \<open>Server\<close>: the settings \<open>cmd/server\<close> reads and the services it wires, over one record \<open>Externals\<close> of everything that is not under src.
    \<^item> \<open>Logging\<close> (internal/logging), \<open>HealthRoutes\<close> (internal/infra/httpapi), \<open>Process\<close> (the course of \<open>run\<close>, telemetry, the pool, the
      brokers) and \<open>MockDeps\<close> (cmd/mockdeps, the stand-ins for the peers).

  What the lemmas show
    \<^item> \<open>DeviceInvariant\<close>, \<open>EdgeDeviceProperties\<close>, \<open>DeviceLifecycle\<close>, \<open>DeviceSystem\<close>: the device use cases on the PostgreSQL repository, one by one
      and as a system of interleaved requests: the device invariant, permanence of unregistration, isolation of tenants.
    \<^item> The stores: transactions are all or nothing, a report of an edge device is stored exactly once however often it is sent (a report
      of a QR gate names no device and is stored each time), hourly cells count the samples they were given and an arc history is the summary of
      exactly the cells that count, what is saved is what is read. Stored holds only ever end (\<open>holds_evolve\<close>), and nothing else a judgement of
      connections touches.
    \<^item> \<open>CycleProperties\<close>: the locale \<open>remote_services\<close> says that peers leave the database alone and is interpreted on the clients; \<open>cycle_services\<close> is what
      every service behind a cycle may do, and is interpreted on the wired services. From it follow what a cycle writes, whatever fails.
      \<open>StatusProperties\<close> and \<open>IngestProperties\<close> join the cycle with the queries and reports around it; \<open>FlowProperties\<close> is about the
      optimize request and about the answer of one call, which the next request carries back, \<open>ConnectProperties\<close> about which reports the handler passes on.
    \<^item> \<open>Transport\<close>: what a call may write by its policy, and what a caller learns of a failure. \<open>Logging\<close>: the entry a record becomes under any
      sequence of \<open>WithAttrs\<close> and \<open>WithGroup\<close>, and when attributes cannot take the place of its own keys (no group at the top without a name or under a
      reserved one). \<open>Process\<close>: every step of \<open>run\<close> records what it opens and the deferred calls what they release; whatever fails, nothing is
      left open.

  Bounds. Lists, strings and tables are unbounded; 32-bit counts are words, 64-bit durations and sums wrap around where
  Go's do; no fuel is used, every loop of the modelled code is a recursion over a list or shrinks a text.

  Not modelled. PostgreSQL is modelled by the effect of the statements sent, at the isolation of one transaction at a time; the logarithm of its
  buckets, its collation, the rounding of a \<open>timestamptz\<close> and its form of a JSON text are arguments. \<open>protojson\<close>, \<open>proto.Marshal\<close>, \<open>encoding/json\<close> of
  token requests, the number and duration parsers of the standard library, JWT verification, the interceptors, OpenTelemetry, the broker libraries
  and the HTTP server are arguments too, with what is relied on as named hypotheses. The generated messages are records of the fields the code
  reads or fills (the message \<open>References\<close> of an optimize request, sent without fields, is left out); their reflection, the generated clients and the schema plumbing are left out. How an entry of the log is encoded as text, and
  the clean-up of a path by \<open>http.ServeMux\<close>, are not modelled.
\<close>

end
